(* ===== verification/Prelude.thy ===== *)
theory Prelude
  imports Main "HOL-Library.Monad_Syntax" "HOL-Library.Signed_Division" "HOL-Library.Word"
begin

text \<open>
  The prelude of the library: what the components share.

  \<^item> The TypeScript side. An awaited call or a throwing library method has type
    \<open>'a option\<close>: \<open>None\<close> is the thrown error or the rejected promise, which no code of
    \<^verbatim>\<open>utils/\<close> catches. Its sequences are written with the \<open>do\<close> notation of
    \<open>HOL-Library.Monad_Syntax\<close>.
  \<^item> The Solidity side. A call has type \<open>revert + 'a\<close>: \<open>Inl\<close> is the revert, with the reason
    string of the \<^verbatim>\<open>require\<close> that failed, \<open>Inr\<close> the returned value. \<open>and_then\<close> runs a call
    and goes on with its value.
  \<^item> JavaScript's string order, which the relational operators use on strings and, through
    \<^verbatim>\<open>toString\<close>, on objects; the decimal and hexadecimal spelling of a number.
  \<^item> Truncated division, the rounding of both BigNumber and Solidity.
\<close>

named_theorems sol_simps \<open>unfolding a Solidity operation into its branches\<close>

subsection \<open>Solidity calls\<close>

datatype revert = Revert string | InvalidOpcode

type_synonym uint256 = "256 word"
type_synonym int256 = "256 word"
type_synonym address = "160 word"

definition and_then :: "revert + 'a \<Rightarrow> ('a \<Rightarrow> revert + 'b) \<Rightarrow> revert + 'b" where
  "and_then m f = (case m of Inl e \<Rightarrow> Inl e | Inr x \<Rightarrow> f x)"

definition require :: "bool \<Rightarrow> string \<Rightarrow> revert + unit" where
  "require b reason = (if b then Inr () else Inl (Revert reason))"

lemma and_then_simps [simp]:
  "and_then (Inl e) f = Inl e"
  "and_then (Inr x) f = f x"
  by (simp_all add: and_then_def)

lemma and_then_eq_Inr [simp]:
  "and_then m f = Inr y \<longleftrightarrow> (\<exists>x. m = Inr x \<and> f x = Inr y)"
  by (cases m) auto

text \<open>
  A call is evaluated before its continuation: the simplifier does not enter the continuation
  of a call that has not returned yet.
\<close>

lemma and_then_weak_cong [cong]: "m = m' \<Longrightarrow> and_then m f = and_then m' f"
  by simp

lemma option_bind_weak_cong [cong]: "m = m' \<Longrightarrow> Option.bind m f = Option.bind m' f"
  by simp

lemma require_eq_Inr [simp]: "require b reason = Inr u \<longleftrightarrow> b"
  by (simp add: require_def)

lemma require_True [simp]: "require True reason = Inr ()"
  by (simp add: require_def)

lemma require_False [simp]: "require False reason = Inl (Revert reason)"
  by (simp add: require_def)

lemma option_bind_Some [simp]: "Option.bind m f = Some y \<longleftrightarrow> (\<exists>x. m = Some x \<and> f x = Some y)"
  by (cases m) auto

subsection \<open>Truncated division\<close>

lemma sdiv_nonneg: "0 \<le> a \<Longrightarrow> 0 \<le> b \<Longrightarrow> a sdiv b = a div b" for a b :: int
  by (auto simp: signed_divide_int_def sgn_if)

lemma sdiv_neg_pos: "a < 0 \<Longrightarrow> 0 < b \<Longrightarrow> a sdiv b = - ((- a) div b)" for a b :: int
  by (simp add: signed_divide_int_def)

lemma sdiv_pos_neg: "0 < a \<Longrightarrow> b < 0 \<Longrightarrow> a sdiv b = - (a div (- b))" for a b :: int
  by (simp add: signed_divide_int_def)

lemma sdiv_neg_neg: "a < 0 \<Longrightarrow> b < 0 \<Longrightarrow> a sdiv b = (- a) div (- b)" for a b :: int
  by (simp add: signed_divide_int_def)

lemma abs_sdiv: "\<bar>a sdiv b\<bar> = \<bar>a\<bar> div \<bar>b\<bar>" for a b :: int
  by (cases "a = 0 \<or> b = 0")
    (auto simp: signed_divide_int_def abs_mult pos_imp_zdiv_nonneg_iff abs_sgn_eq)

lemma smod_eq_0_iff: "b \<noteq> 0 \<Longrightarrow> a smod b = 0 \<longleftrightarrow> b dvd a" for a b :: int
  by (auto simp: signed_modulo_int_def sgn_if mod_eq_0_iff_dvd)

lemma sdiv_exact_iff: "b \<noteq> 0 \<Longrightarrow> a sdiv b * b = a \<longleftrightarrow> b dvd a" for a b :: int
  using sdiv_mult_smod_eq [of a b] smod_eq_0_iff [of b a] by linarith

text \<open>The two sides of a floor.\<close>

lemma div_int_nonneg: "0 \<le> a \<Longrightarrow> 0 \<le> b \<Longrightarrow> 0 \<le> a div b" for a b :: int
  by (cases "b = 0") (simp_all add: pos_imp_zdiv_nonneg_iff)

lemma floor_bounds:
  fixes x n :: int
  assumes "0 < n"
  shows "x div n * n \<le> x" and "x < (x div n + 1) * n"
proof -
  have "x div n * n + x mod n = x" by (rule div_mult_mod_eq)
  then show "x div n * n \<le> x" "x < (x div n + 1) * n"
    using pos_mod_sign [OF assms, of x] pos_mod_bound [OF assms, of x]
    unfolding distrib_right by linarith+
qed

text \<open>Division rounded away from zero.\<close>

definition away_div :: "int \<Rightarrow> int \<Rightarrow> int" where
  "away_div a b = sgn a * sgn b * ((\<bar>a\<bar> + \<bar>b\<bar> - 1) div \<bar>b\<bar>)"

lemma div_ceil_eq: "0 < a \<Longrightarrow> 0 < b \<Longrightarrow> (a - 1) div b + 1 = (a + b - 1) div b" for a b :: int
  using div_add_self2 [of b "a - 1"] by (simp add: algebra_simps)

lemma away_div_sdiv:
  fixes a b :: int
  assumes "b \<noteq> 0"
  shows "away_div a b = (if a smod b = 0 then a sdiv b
    else if (a < 0) = (b < 0) then a sdiv b + 1 else a sdiv b - 1)"
proof -
  let ?m = "\<bar>a\<bar>" and ?d = "\<bar>b\<bar>"
  have d: "0 < ?d" using assms by simp
  have "(?m + ?d - 1) div ?d = (?m div ?d * ?d + (?m mod ?d + ?d - 1)) div ?d"
    by (simp add: algebra_simps)
  also have "\<dots> = ?m div ?d + (?m mod ?d + ?d - 1) div ?d"
    using d by (subst div_mult_self3) auto
  also have "(?m mod ?d + ?d - 1) div ?d = (if ?m mod ?d = 0 then 0 else 1)"
  proof (cases "?m mod ?d = 0")
    case False
    then have "0 < ?m mod ?d" "?m mod ?d < ?d"
      using pos_mod_bound [OF d, of ?m] pos_mod_sign [OF d, of ?m] by linarith+
    then show ?thesis
      using int_div_pos_eq [of "?m mod ?d + ?d - 1" ?d 1 "?m mod ?d - 1"] by simp
  qed (use d in \<open>simp add: div_pos_pos_trivial\<close>)
  finally have c: "(?m + ?d - 1) div ?d = ?m div ?d + (if ?m mod ?d = 0 then 0 else 1)" .
  show ?thesis
    using assms unfolding away_div_def c smod_int_alt_def signed_divide_int_def
    by (auto simp: sgn_if algebra_simps)
qed

lemma away_div_ceil: "0 \<le> a \<Longrightarrow> 0 < b \<Longrightarrow> away_div a b = (a + b - 1) div b"
  by (auto simp: away_div_def sgn_if div_pos_pos_trivial)

subsection \<open>Strings\<close>

text \<open>
  \<^verbatim>\<open>s < t\<close> on JavaScript strings: code unit by code unit, a proper prefix is smaller.
\<close>

fun js_less :: "string \<Rightarrow> string \<Rightarrow> bool" where
  "js_less s [] = False"
| "js_less [] (d # t) = True"
| "js_less (c # s) (d # t) =
     (if c = d then js_less s t else (of_char c :: nat) < of_char d)"

lemma js_less_irrefl [simp]: "\<not> js_less s s"
  by (induction s) auto

lemma js_less_append_same [simp]: "js_less (p @ s) (p @ t) \<longleftrightarrow> js_less s t"
  by (induction p) auto

lemma js_less_linear: "s = t \<or> js_less s t \<or> js_less t s"
proof (induction s t rule: js_less.induct)
  case (3 c s d t)
  then show ?case
    by (cases "c = d") (auto simp: linorder_neq_iff [symmetric] dest: injD [OF inj_of_char])
qed (auto simp: neq_Nil_conv, metis js_less.simps(2) list.exhaust)

definition to_lower :: "char \<Rightarrow> char" where
  "to_lower c = (if 65 \<le> (of_char c :: nat) \<and> (of_char c :: nat) \<le> 90
     then char_of ((of_char c :: nat) + 32) else c)"

definition toLowerCase :: "string \<Rightarrow> string" where
  "toLowerCase s = map to_lower s"

definition digit_char :: "nat \<Rightarrow> char" where
  "digit_char d = (if d < 10 then char_of (48 + d) else char_of (87 + d))"

fun dec_nat :: "nat \<Rightarrow> string" where
  "dec_nat n = (if n < 10 then [digit_char n] else dec_nat (n div 10) @ [digit_char (n mod 10)])"

declare dec_nat.simps [simp del]

definition dec :: "int \<Rightarrow> string" where
  "dec n = (if n < 0 then CHR ''-'' # dec_nat (nat (- n)) else dec_nat (nat n))"

text \<open>Fixed-width hexadecimal, and an address in lower case.\<close>

fun hex_pad :: "nat \<Rightarrow> nat \<Rightarrow> string" where
  "hex_pad 0 n = []"
| "hex_pad (Suc w) n = hex_pad w (n div 16) @ [digit_char (n mod 16)]"

definition address_lower :: "nat \<Rightarrow> string" where
  "address_lower a = ''0x'' @ hex_pad 40 a"

lemma length_hex_pad [simp]: "length (hex_pad w n) = w"
  by (induction w arbitrary: n) (simp_all del: hex_pad.simps add: hex_pad.simps)

lemma hex_pad_0: "hex_pad w 0 = replicate w (CHR ''0'')"
proof -
  have "digit_char 0 = CHR ''0''" by code_simp
  then show ?thesis by (induction w) (simp_all add: replicate_append_same)
qed

lemma hex_pad_leading: "n < 16 ^ w \<Longrightarrow> hex_pad (k + w) n = replicate k (CHR ''0'') @ hex_pad w n"
proof (induction w arbitrary: n)
  case (Suc w)
  then have "n div 16 < 16 ^ w" by (simp add: less_mult_imp_div_less mult.commute)
  from Suc.IH [OF this] show ?case by simp
qed (simp add: hex_pad_0)

text \<open>Digits are ordered as their values.\<close>

lemma digit_char_code: "d < 16 \<Longrightarrow> (of_char (digit_char d) :: nat) = (if d < 10 then 48 + d else 87 + d)"
  by (simp add: digit_char_def)

lemma digit_char_eq_iff: "d < 16 \<Longrightarrow> e < 16 \<Longrightarrow> digit_char d = digit_char e \<longleftrightarrow> d = e"
proof
  assume a: "d < 16" "e < 16" "digit_char d = digit_char e"
  then have "(if d < 10 then 48 + d else 87 + d) = (if e < 10 then 48 + e else 87 + e)"
    by (metis digit_char_code)
  then show "d = e" by (simp split: if_splits)
qed simp

lemma digit_char_less_iff:
  "d < 16 \<Longrightarrow> e < 16 \<Longrightarrow> (of_char (digit_char d) :: nat) < of_char (digit_char e) \<longleftrightarrow> d < e"
  by (auto simp: digit_char_code)

lemma js_less_snoc:
  "length p = length q \<Longrightarrow> js_less (p @ [c]) (q @ [d]) \<longleftrightarrow>
     js_less p q \<or> (p = q \<and> (of_char c :: nat) < of_char d)"
  by (induction p q rule: list_induct2) auto

lemma js_less_digit_snoc:
  assumes "length p = length q" and "d < 16" and "e < 16"
  shows "js_less (p @ [digit_char d]) (q @ [digit_char e]) \<longleftrightarrow> js_less p q \<or> (p = q \<and> d < e)"
  using assms by (simp add: js_less_snoc digit_char_less_iff)

lemma div_mod_less_iff: "m < n \<longleftrightarrow> m div b < n div b \<or> (m div b = n div b \<and> m mod b < n mod b)"
  for m n b :: nat
  by (metis div_le_mono div_mult_mod_eq le_eq_less_or_eq less_or_eq_imp_le nat_add_left_cancel_less
      not_le)

lemma hex_pad_inject: "m < 16 ^ w \<Longrightarrow> n < 16 ^ w \<Longrightarrow> hex_pad w m = hex_pad w n \<longleftrightarrow> m = n"
proof (induction w arbitrary: m n)
  case (Suc w)
  then have "hex_pad w (m div 16) = hex_pad w (n div 16) \<longleftrightarrow> m div 16 = n div 16"
    by (simp add: less_mult_imp_div_less mult.commute)
  then show ?case
    by (simp add: digit_char_eq_iff) (metis div_mult_mod_eq)
qed simp

lemma js_less_hex_pad: "m < 16 ^ w \<Longrightarrow> n < 16 ^ w \<Longrightarrow> js_less (hex_pad w m) (hex_pad w n) \<longleftrightarrow> m < n"
proof (induction w arbitrary: m n)
  case (Suc w)
  then have b: "m div 16 < 16 ^ w" "n div 16 < 16 ^ w"
    by (simp_all add: less_mult_imp_div_less mult.commute)
  with Suc.IH [OF b] show ?case
    using div_mod_less_iff [of m n 16] by (simp add: js_less_digit_snoc hex_pad_inject [OF b])
qed simp

lemma js_less_address_lower:
  "m < 2 ^ 160 \<Longrightarrow> n < 2 ^ 160 \<Longrightarrow> js_less (address_lower m) (address_lower n) \<longleftrightarrow> m < n"
  using js_less_hex_pad [of m 40 n] by (simp add: address_lower_def)

lemma address_lower_inject:
  "m < 2 ^ 160 \<Longrightarrow> n < 2 ^ 160 \<Longrightarrow> address_lower m = address_lower n \<longleftrightarrow> m = n"
  using hex_pad_inject [of m 40 n] by (simp add: address_lower_def)

text \<open>Decimal spellings of the same length are ordered as their numbers.\<close>

lemma dec_nat_not_Nil [simp]: "dec_nat n \<noteq> []"
  by (simp add: dec_nat.simps [of n])

lemma length_dec_nat_snoc: "10 \<le> n \<Longrightarrow> length (dec_nat n) = Suc (length (dec_nat (n div 10)))"
  by (simp add: dec_nat.simps [of n])

lemma length_dec_nat_1: "length (dec_nat n) = Suc 0 \<longleftrightarrow> n < 10"
  by (simp add: dec_nat.simps [of n])

lemma js_less_dec_nat:
  "length (dec_nat m) = length (dec_nat n) \<Longrightarrow>
   (dec_nat m = dec_nat n \<longleftrightarrow> m = n) \<and> (js_less (dec_nat m) (dec_nat n) \<longleftrightarrow> m < n)"
proof (induction m arbitrary: n rule: dec_nat.induct)
  case (1 m)
  show ?case
  proof (cases "m < 10")
    case True
    then have "n < 10" using "1.prems" by (simp add: length_dec_nat_1 [symmetric])
    with True show ?thesis
      using js_less_digit_snoc [of "[]" "[]" m n]
      by (simp add: dec_nat.simps [of m] dec_nat.simps [of n] digit_char_eq_iff)
  next
    case False
    then have n: "\<not> n < 10" using "1.prems" length_dec_nat_1 [of m] length_dec_nat_1 [of n] by simp
    with False "1.prems" have l: "length (dec_nat (m div 10)) = length (dec_nat (n div 10))"
      by (simp add: length_dec_nat_snoc)
    have d: "m mod 10 < 16" "n mod 10 < 16"
      using mod_less_divisor [of 10 m] mod_less_divisor [of 10 n] by linarith+
    have e: "m = n \<longleftrightarrow> m div 10 = n div 10 \<and> m mod 10 = n mod 10"
      by (metis div_mult_mod_eq)
    show ?thesis
      using 1(1) [OF False l] e div_mod_less_iff [of m n 10]
      by (simp add: dec_nat.simps [of m] dec_nat.simps [of n] False n js_less_digit_snoc [OF l d]
          digit_char_eq_iff [OF d])
  qed
qed

lemma dec_nat_head: "0 < n \<Longrightarrow> \<exists>c t. dec_nat n = c # t \<and> 48 < (of_char c :: nat)"
proof (induction n rule: dec_nat.induct)
  case (1 n)
  show ?case
  proof (cases "n < 10")
    case True
    with "1.prems" show ?thesis by (simp add: dec_nat.simps [of n] digit_char_code)
  next
    case False
    then have "0 < n div 10" by simp
    from "1.IH" [OF False this] False show ?thesis by (auto simp: dec_nat.simps [of n])
  qed
qed

lemma dec_0: "dec 0 = ''0''"
  by code_simp

lemma js_less_dec_0: "js_less (dec 0) (dec n) \<longleftrightarrow> 0 < n"
proof -
  consider "n < 0" | "n = 0" | "0 < n" by linarith
  then show ?thesis
  proof cases
    case 3
    with dec_nat_head [of "nat n"] show ?thesis by (auto simp: dec_0) (auto simp: dec_def)
  qed (auto simp: dec_0, auto simp: dec_def)
qed

lemma js_less_trans: "js_less s t \<Longrightarrow> js_less t u \<Longrightarrow> js_less s u"
proof (induction s t arbitrary: u rule: js_less.induct)
  case (2 d t)
  then show ?case by (cases u) auto
next
  case (3 c s d t)
  then show ?case by (cases u) (auto split: if_splits)
qed simp

end
