(* ===== verification/BigNum.thy ===== *)
theory BigNum
  imports Prelude
begin

text \<open>
  The BigNumber interface of the \<^verbatim>\<open>ethers\<close> package, which every computation of
  \<^verbatim>\<open>utils/\<close> is written against. The package is not part of the repository: its
  operations are the fields of a record that each model function takes as an argument, and
  what the package documents of them is the locale \<open>bignumber\<close>: an immutable integer of any
  size, \<open>div\<close> that truncates and throws on zero, \<open>mod\<close> with a non-negative result,
  \<open>toString\<close> in decimal, \<open>BigNumber.from\<close> of a JavaScript number that throws outside the
  safe integers. \<open>int_bn\<close> is a concrete provider, the integers of HOL.

  The module also holds \<^verbatim>\<open>utils/constants.ts\<close> and \<^verbatim>\<open>utils/common/unitsUtils.ts\<close>.
\<close>

subsection \<open>The interface\<close>

record 'b bn_api =
  bn_from :: "int \<Rightarrow> 'b"
  bn_from_number :: "int \<Rightarrow> 'b option"
  bn_add :: "'b \<Rightarrow> 'b \<Rightarrow> 'b"
  bn_sub :: "'b \<Rightarrow> 'b \<Rightarrow> 'b"
  bn_mul :: "'b \<Rightarrow> 'b \<Rightarrow> 'b"
  bn_div :: "'b \<Rightarrow> 'b \<Rightarrow> 'b option"
  bn_mod :: "'b \<Rightarrow> 'b \<Rightarrow> 'b option"
  bn_pow :: "'b \<Rightarrow> 'b \<Rightarrow> 'b option"
  bn_abs :: "'b \<Rightarrow> 'b"
  bn_eq :: "'b \<Rightarrow> 'b \<Rightarrow> bool"
  bn_lt :: "'b \<Rightarrow> 'b \<Rightarrow> bool"
  bn_gt :: "'b \<Rightarrow> 'b \<Rightarrow> bool"
  bn_gte :: "'b \<Rightarrow> 'b \<Rightarrow> bool"
  bn_isZero :: "'b \<Rightarrow> bool"
  bn_toString :: "'b \<Rightarrow> string"
  bn_toHexString :: "'b \<Rightarrow> string"
  bn_parseEther :: "string \<Rightarrow> 'b option"
  bn_parseUnits :: "string \<Rightarrow> int \<Rightarrow> 'b option"
  bn_from_string :: "string \<Rightarrow> 'b option"
  bn_toNumber :: "'b \<Rightarrow> int option"
  bn_Zero :: 'b
  bn_One :: 'b
  bn_Two :: 'b
  bn_WeiPerEther :: 'b
  bn_MaxUint256 :: 'b

text \<open>The hexadecimal spelling of \<open>toHexString\<close>: whole bytes, lower case, sign in front.\<close>

fun hex_nat :: "nat \<Rightarrow> string" where
  "hex_nat n = (if n < 16 then [digit_char n] else hex_nat (n div 16) @ [digit_char (n mod 16)])"

declare hex_nat.simps [simp del]

definition even_pad :: "string \<Rightarrow> string" where
  "even_pad s = (if even (length s) then s else CHR ''0'' # s)"

definition hex_bytes :: "nat \<Rightarrow> string" where
  "hex_bytes n = ''0x'' @ even_pad (hex_nat n)"

text \<open>The value of a string of decimal digits.\<close>

definition all_digits :: "string \<Rightarrow> bool" where
  "all_digits s = list_all (\<lambda>c. 48 \<le> (of_char c :: nat) \<and> (of_char c :: nat) \<le> 57) s"

definition digits_value :: "string \<Rightarrow> int" where
  "digits_value s = foldl (\<lambda>n c. 10 * n + (of_char c - 48)) 0 s"

locale bignumber =
  fixes B :: "'b bn_api"
  assumes from_inject: "bn_from B m = bn_from B n \<Longrightarrow> m = n"
    and from_number_safe: "\<bar>n\<bar> < 9007199254740991 \<Longrightarrow> bn_from_number B n = Some (bn_from B n)"
    and from_number_unsafe: "9007199254740991 \<le> \<bar>n\<bar> \<Longrightarrow> bn_from_number B n = None"
    and add_from: "bn_add B (bn_from B m) (bn_from B n) = bn_from B (m + n)"
    and sub_from: "bn_sub B (bn_from B m) (bn_from B n) = bn_from B (m - n)"
    and mul_from: "bn_mul B (bn_from B m) (bn_from B n) = bn_from B (m * n)"
    and div_from: "bn_div B (bn_from B m) (bn_from B n) =
          (if n = 0 then None else Some (bn_from B (m sdiv n)))"
    and mod_from: "0 < n \<Longrightarrow> bn_mod B (bn_from B m) (bn_from B n) = Some (bn_from B (m mod n))"
    and pow_from: "0 \<le> n \<Longrightarrow> bn_pow B (bn_from B m) (bn_from B n) = Some (bn_from B (m ^ nat n))"
    and abs_from: "bn_abs B (bn_from B m) = bn_from B \<bar>m\<bar>"
    and eq_from: "bn_eq B (bn_from B m) (bn_from B n) \<longleftrightarrow> m = n"
    and lt_from: "bn_lt B (bn_from B m) (bn_from B n) \<longleftrightarrow> m < n"
    and gt_from: "bn_gt B (bn_from B m) (bn_from B n) \<longleftrightarrow> n < m"
    and gte_from: "bn_gte B (bn_from B m) (bn_from B n) \<longleftrightarrow> n \<le> m"
    and isZero_from: "bn_isZero B (bn_from B m) \<longleftrightarrow> m = 0"
    and toString_from: "bn_toString B (bn_from B m) = dec m"
    and toHexString_from: "0 \<le> m \<Longrightarrow> bn_toHexString B (bn_from B m) = hex_bytes (nat m)"
    and parseEther_dec: "0 \<le> n \<Longrightarrow> bn_parseEther B (dec n) = Some (bn_from B (n * 10 ^ 18))"
    and parseEther_frac: "0 \<le> n \<Longrightarrow> all_digits f \<Longrightarrow> f \<noteq> [] \<Longrightarrow> length f \<le> 18 \<Longrightarrow>
          bn_parseEther B (dec n @ CHR ''.'' # f) =
            Some (bn_from B (n * 10 ^ 18 + digits_value f * 10 ^ (18 - length f)))"
    and parseUnits_dec: "0 \<le> n \<Longrightarrow> 0 \<le> d \<Longrightarrow>
          bn_parseUnits B (dec n) d = Some (bn_from B (n * 10 ^ nat d))"
    and from_string_dec: "bn_from_string B (dec n) = Some (bn_from B n)"
    and toNumber_from: "bn_toNumber B (bn_from B n) = (if \<bar>n\<bar> < 9007199254740992 then Some n else None)"
    and Zero_from: "bn_Zero B = bn_from B 0"
    and One_from: "bn_One B = bn_from B 1"
    and Two_from: "bn_Two B = bn_from B 2"
    and WeiPerEther_from: "bn_WeiPerEther B = bn_from B (10 ^ 18)"
    and MaxUint256_from: "bn_MaxUint256 B = bn_from B (2 ^ 256 - 1)"
begin

lemmas bn_simps = add_from sub_from mul_from div_from mod_from pow_from abs_from eq_from lt_from
  gt_from gte_from isZero_from toString_from toHexString_from from_string_dec toNumber_from Zero_from One_from Two_from
  WeiPerEther_from MaxUint256_from

lemma from_eq_iff: "bn_from B m = bn_from B n \<longleftrightarrow> m = n"
  using from_inject by blast

end

subsection \<open>A provider: the integers of HOL\<close>

text \<open>\<open>parseEther\<close> of a non-negative decimal with at most 18 digits after the point.\<close>

definition parse_ether :: "string \<Rightarrow> int option" where
  "parse_ether s =
     (let whole = takeWhile (\<lambda>c. c \<noteq> CHR ''.'') s; rest = dropWhile (\<lambda>c. c \<noteq> CHR ''.'') s
      in if whole = [] \<or> \<not> all_digits whole then None
      else case rest of [] \<Rightarrow> Some (digits_value whole * 10 ^ 18)
      | _ # f \<Rightarrow> if f \<noteq> [] \<and> all_digits f \<and> length f \<le> 18
          then Some (digits_value whole * 10 ^ 18 + digits_value f * 10 ^ (18 - length f)) else None)"

text \<open>Integers from their decimal spelling, and \<open>parseUnits\<close> of a whole amount.\<close>

definition parse_dec :: "string \<Rightarrow> int option" where
  "parse_dec s = (case s of [] \<Rightarrow> None
     | c # t \<Rightarrow> if c = CHR ''-'' then (if t \<noteq> [] \<and> all_digits t then Some (- digits_value t) else None)
         else if all_digits s then Some (digits_value s) else None)"

definition parse_units :: "string \<Rightarrow> int \<Rightarrow> int option" where
  "parse_units s d = (if s = [] \<or> \<not> all_digits s \<or> d < 0 then None
     else Some (digits_value s * 10 ^ nat d))"

definition int_bn :: "int bn_api" where
  "int_bn = \<lparr>bn_from = (\<lambda>n. n),
    bn_from_number = (\<lambda>n. if \<bar>n\<bar> < 9007199254740991 then Some n else None),
    bn_add = (+), bn_sub = (-), bn_mul = (*),
    bn_div = (\<lambda>m n. if n = 0 then None else Some (m sdiv n)),
    bn_mod = (\<lambda>m n. if n \<le> 0 then None else Some (m mod n)),
    bn_pow = (\<lambda>m n. if n < 0 then None else Some (m ^ nat n)),
    bn_abs = abs, bn_eq = (=), bn_lt = (<), bn_gt = (\<lambda>m n. n < m), bn_gte = (\<lambda>m n. n \<le> m),
    bn_isZero = (\<lambda>m. m = 0), bn_toString = dec,
    bn_toHexString = (\<lambda>m. if m < 0 then CHR ''-'' # hex_bytes (nat (- m)) else hex_bytes (nat m)),
    bn_parseEther = parse_ether, bn_parseUnits = parse_units, bn_from_string = parse_dec,
    bn_toNumber = (\<lambda>n. if \<bar>n\<bar> < 9007199254740992 then Some n else None),
    bn_Zero = 0, bn_One = 1, bn_Two = 2, bn_WeiPerEther = 10 ^ 18, bn_MaxUint256 = 2 ^ 256 - 1\<rparr>"

lemma digit_char_nat: "d < 10 \<Longrightarrow> (of_char (digit_char d) :: nat) = 48 + d"
  by (simp add: digit_char_def of_char_of)

lemma digit_char_int: "d < 10 \<Longrightarrow> (of_char (digit_char d) :: int) = 48 + int d"
  by (metis digit_char_nat of_nat_add of_nat_numeral of_nat_of_char)

lemma dec_nat_digits: "dec_nat n \<noteq> [] \<and> all_digits (dec_nat n) \<and> digits_value (dec_nat n) = int n"
proof (induction n rule: dec_nat.induct)
  case (1 n)
  show ?case
  proof (cases "n < 10")
    case True
    then show ?thesis
      by (simp add: dec_nat.simps [of n] all_digits_def digits_value_def digit_char_nat digit_char_int)
  next
    case False
    have "n mod 10 \<le> 9" and "10 * int (n div 10) + int (n mod 10) = int n"
      by presburger+
    with 1 [OF False] False show ?thesis
      by (simp add: dec_nat.simps [of n] all_digits_def digits_value_def digit_char_nat digit_char_int)
  qed
qed

lemma all_digits_no_point: "all_digits s \<Longrightarrow> c \<in> set s \<Longrightarrow> c \<noteq> CHR ''.''"
  by (fastforce simp: all_digits_def list_all_iff)

lemma parse_ether_dec: "0 \<le> n \<Longrightarrow> parse_ether (dec n) = Some (n * 10 ^ 18)"
  using dec_nat_digits [of "nat n"] all_digits_no_point [of "dec_nat (nat n)"]
  by (simp add: parse_ether_def dec_def takeWhile_eq_all_conv [THEN iffD2] dropWhile_eq_Nil_conv [THEN iffD2])

lemma parse_units_dec: "0 \<le> n \<Longrightarrow> 0 \<le> d \<Longrightarrow> parse_units (dec n) d = Some (n * 10 ^ nat d)"
  using dec_nat_digits [of "nat n"] by (simp add: parse_units_def dec_def)

lemma parse_dec_dec: "parse_dec (dec n) = Some n"
proof -
  obtain c t where c: "dec_nat (nat n) = c # t" using dec_nat_not_Nil by (meson list.exhaust)
  then have "c \<noteq> CHR ''-''" using dec_nat_digits [of "nat n"] by (auto simp: all_digits_def)
  with c show ?thesis
    using dec_nat_digits [of "nat n"] dec_nat_digits [of "nat (- n)"] by (simp add: parse_dec_def dec_def)
qed

lemma parse_ether_frac:
  assumes "0 \<le> n" and "all_digits f" and "f \<noteq> []" and "length f \<le> 18"
  shows "parse_ether (dec n @ CHR ''.'' # f) = Some (n * 10 ^ 18 + digits_value f * 10 ^ (18 - length f))"
  using assms dec_nat_digits [of "nat n"] all_digits_no_point [of "dec_nat (nat n)"]
  by (simp add: parse_ether_def dec_def takeWhile_append2 dropWhile_append2)

interpretation int_bn: bignumber int_bn
  by unfold_locales (simp_all add: int_bn_def parse_ether_dec parse_ether_frac parse_units_dec parse_dec_dec)

lemma int_bn_from [simp]: "bn_from int_bn n = n"
  by (simp add: int_bn_def)

lemma int_bn_map [simp]: "map (bn_from int_bn) ns = ns"
  by (induction ns) simp_all

lemma int_bn_ops:
  "bn_add int_bn m n = m + n" "bn_sub int_bn m n = m - n" "bn_mul int_bn m n = m * n"
  "bn_div int_bn m n = (if n = 0 then None else Some (m sdiv n))"
  "bn_toString int_bn m = dec m" "bn_Zero int_bn = 0" "bn_One int_bn = 1"
  by (simp_all add: int_bn_def)

subsection \<open>\<^verbatim>\<open>constants.ts\<close>\<close>

definition PRECISE_UNIT :: "'b bn_api \<Rightarrow> 'b" where
  "PRECISE_UNIT B = bn_WeiPerEther B"

definition ZERO :: "'b bn_api \<Rightarrow> 'b" where
  "ZERO B = bn_Zero B"

definition ONE :: "'b bn_api \<Rightarrow> 'b" where
  "ONE B = bn_One B"

definition TWO :: "'b bn_api \<Rightarrow> 'b" where
  "TWO B = bn_Two B"

definition MAX_UINT_256 :: "'b bn_api \<Rightarrow> 'b" where
  "MAX_UINT_256 B = bn_MaxUint256 B"

definition ONE_DAY_IN_SECONDS :: "'b bn_api \<Rightarrow> 'b" where
  "ONE_DAY_IN_SECONDS B = bn_from B (60 * 60 * 24)"

definition ONE_HOUR_IN_SECONDS :: "'b bn_api \<Rightarrow> 'b" where
  "ONE_HOUR_IN_SECONDS B = bn_from B (60 * 60)"

definition ONE_YEAR_IN_SECONDS :: "'b bn_api \<Rightarrow> 'b" where
  "ONE_YEAR_IN_SECONDS B = bn_from B 31557600"

lemmas constants_defs = PRECISE_UNIT_def ZERO_def ONE_def TWO_def MAX_UINT_256_def
  ONE_DAY_IN_SECONDS_def ONE_HOUR_IN_SECONDS_def ONE_YEAR_IN_SECONDS_def

subsection \<open>\<^verbatim>\<open>unitsUtils.ts\<close>\<close>

text \<open>\<open>ether\<close> takes the decimal spelling of its amount, the \<open>amount.toString()\<close> of the code.\<close>

definition ether :: "'b bn_api \<Rightarrow> string \<Rightarrow> 'b option" where
  "ether B amount = bn_parseEther B amount"

definition gWei :: "'b bn_api \<Rightarrow> int \<Rightarrow> 'b option" where
  "gWei B amount = do {
     a \<leftarrow> bn_from_number B amount;
     Some (bn_mul B (bn_from B 1000000000) a)
   }"

definition bitcoin :: "'b bn_api \<Rightarrow> int \<Rightarrow> 'b option" where
  "bitcoin B amount = bn_from_number B (100000000 * amount)"

definition usdc :: "'b bn_api \<Rightarrow> int \<Rightarrow> 'b option" where
  "usdc B amount = bn_from_number B (1000000 * amount)"

context bignumber
begin

lemmas num_simps = bn_simps constants_defs

lemma ether_dec: "0 \<le> n \<Longrightarrow> ether B (dec n) = Some (bn_from B (n * 10 ^ 18))"
  by (simp add: ether_def parseEther_dec)

lemma ether_1: "ether B ''1'' = Some (bn_from B (10 ^ 18))"
proof -
  have "dec 1 = ''1''" by code_simp
  then show ?thesis using ether_dec [of 1] by simp
qed

lemma ether_frac:
  "all_digits f \<Longrightarrow> f \<noteq> [] \<Longrightarrow> length f \<le> 18 \<Longrightarrow>
   ether B (''0.'' @ f) = Some (bn_from B (digits_value f * 10 ^ (18 - length f)))"
  using parseEther_frac [of 0 f] by (simp add: ether_def dec_0)

lemma gWei_safe: "\<bar>n\<bar> < 9007199254740991 \<Longrightarrow> gWei B n = Some (bn_from B (10 ^ 9 * n))"
  by (simp add: gWei_def from_number_safe mul_from)

lemma bitcoin_cases:
  "bitcoin B n = (if \<bar>100000000 * n\<bar> < 9007199254740991 then Some (bn_from B (10 ^ 8 * n)) else None)"
  by (simp add: bitcoin_def from_number_safe from_number_unsafe)

end

end
