(* ===== verification/OpenZeppelin.thy ===== *)
theory OpenZeppelin
  imports Prelude
begin

text \<open>
  The arithmetic of the \<^verbatim>\<open>@openzeppelin/contracts\<close> package that the contracts are
  written against: \<open>SafeMath\<close>, \<open>SignedSafeMath\<close> and \<open>SafeCast\<close>. The package is not part of
  the repository, so its functions are the fields of a record, an argument of every contract
  function that uses them, and its documentation is the locale \<open>openzeppelin\<close>: an operation
  returns exactly when the mathematical result exists and fits 256 bits, and then returns it.
\<close>

record oz_api =
  um_add :: "uint256 \<Rightarrow> uint256 \<Rightarrow> revert + uint256"
  um_sub :: "uint256 \<Rightarrow> uint256 \<Rightarrow> revert + uint256"
  um_mul :: "uint256 \<Rightarrow> uint256 \<Rightarrow> revert + uint256"
  um_div :: "uint256 \<Rightarrow> uint256 \<Rightarrow> revert + uint256"
  im_add :: "int256 \<Rightarrow> int256 \<Rightarrow> revert + int256"
  im_sub :: "int256 \<Rightarrow> int256 \<Rightarrow> revert + int256"
  im_mul :: "int256 \<Rightarrow> int256 \<Rightarrow> revert + int256"
  im_div :: "int256 \<Rightarrow> int256 \<Rightarrow> revert + int256"
  toUint256 :: "int256 \<Rightarrow> revert + uint256"
  toInt256 :: "uint256 \<Rightarrow> revert + int256"

locale openzeppelin =
  fixes Z :: oz_api
  assumes um_add_Inr: "um_add Z a b = Inr c \<longleftrightarrow> uint c = uint a + uint b"
    and um_sub_Inr: "um_sub Z a b = Inr c \<longleftrightarrow> uint c = uint a - uint b"
    and um_mul_Inr: "um_mul Z a b = Inr c \<longleftrightarrow> uint c = uint a * uint b"
    and um_div_Inr: "um_div Z a b = Inr c \<longleftrightarrow> b \<noteq> 0 \<and> uint c = uint a div uint b"
    and im_add_Inr: "im_add Z a b = Inr c \<longleftrightarrow> sint c = sint a + sint b"
    and im_sub_Inr: "im_sub Z a b = Inr c \<longleftrightarrow> sint c = sint a - sint b"
    and im_mul_Inr: "im_mul Z a b = Inr c \<longleftrightarrow> sint c = sint a * sint b"
    and im_div_Inr: "im_div Z a b = Inr c \<longleftrightarrow> b \<noteq> 0 \<and> sint c = sint a sdiv sint b"
    and toUint256_Inr: "toUint256 Z a = Inr c \<longleftrightarrow> uint c = sint a"
    and toInt256_Inr: "toInt256 Z a = Inr c \<longleftrightarrow> sint c = uint a"
begin

lemmas oz_Inr = um_add_Inr um_sub_Inr um_mul_Inr um_div_Inr im_add_Inr im_sub_Inr im_mul_Inr
  im_div_Inr toUint256_Inr toInt256_Inr

end

subsection \<open>Words as integers\<close>

definition fits_uint :: "int \<Rightarrow> bool" where
  "fits_uint n \<longleftrightarrow> 0 \<le> n \<and> n < 2 ^ 256"

definition fits_int :: "int \<Rightarrow> bool" where
  "fits_int n \<longleftrightarrow> - (2 ^ 255) \<le> n \<and> n < 2 ^ 255"

lemma ex_uint: "(\<exists>c :: uint256. uint c = n) \<longleftrightarrow> fits_uint n"
proof
  assume "\<exists>c :: uint256. uint c = n"
  then show "fits_uint n"
    using uint_lt2p [where 'a = 256] by (auto simp: fits_uint_def)
next
  assume "fits_uint n"
  then have "uint (word_of_int n :: uint256) = n"
    by (simp add: fits_uint_def uint_word_of_int)
  then show "\<exists>c :: uint256. uint c = n" by blast
qed

lemma uint_fits [simp]: "fits_uint (uint (c :: uint256))"
  using ex_uint by blast

lemma sint_of_int: "fits_int n \<Longrightarrow> sint (word_of_int n :: int256) = n"
  by (simp add: fits_int_def sint_sbintrunc' signed_take_bit_int_eq_self)

lemma ex_sint: "(\<exists>c :: int256. sint c = n) \<longleftrightarrow> fits_int n"
proof
  assume "\<exists>c :: int256. sint c = n"
  then show "fits_int n"
    using sint_ge [where 'a = 256] sint_lt [where 'a = 256] by (auto simp: fits_int_def)
next
  assume "fits_int n"
  then show "\<exists>c :: int256. sint c = n" using sint_of_int by blast
qed

lemma sint_fits [simp]: "fits_int (sint (c :: int256))"
  using ex_sint by blast

lemma uint_of_int: "fits_uint n \<Longrightarrow> uint (word_of_int n :: uint256) = n"
  by (simp add: fits_uint_def uint_word_of_int)

lemma sint_xor_neg: "sint (xor a b) < 0 \<longleftrightarrow> (sint a < 0) \<noteq> (sint b < 0)" for a b :: int256
  by (simp add: bit_xor_iff flip: bit_last_iff)

lemma sint_eq_0_iff [simp]: "sint (a :: int256) = 0 \<longleftrightarrow> a = 0"
  by (rule signed_eq_0_iff)

lemma uint_eq_0_iff [simp]: "uint (a :: uint256) = 0 \<longleftrightarrow> a = 0"
  by (simp add: uint_0_iff)

subsection \<open>A provider: checked operations on words\<close>

definition checked_u :: "int \<Rightarrow> string \<Rightarrow> revert + uint256" where
  "checked_u n reason = (if 0 \<le> n \<and> n < 2 ^ 256 then Inr (word_of_int n) else Inl (Revert reason))"

definition checked_i :: "int \<Rightarrow> string \<Rightarrow> revert + int256" where
  "checked_i n reason = (if - (2 ^ 255) \<le> n \<and> n < 2 ^ 255 then Inr (word_of_int n) else Inl (Revert reason))"

lemma checked_u_Inr: "checked_u n reason = Inr c \<longleftrightarrow> uint c = n"
  using uint_of_int [of n] ex_uint [of n]
  by (auto simp: checked_u_def fits_uint_def dest: unsigned_word_eqI)

lemma checked_i_Inr: "checked_i n reason = Inr c \<longleftrightarrow> sint c = n"
  using sint_of_int [of n] ex_sint [of n]
  by (auto simp: checked_i_def fits_int_def dest: signed_word_eqI)

definition checked_oz :: oz_api where
  "checked_oz = \<lparr>
    um_add = (\<lambda>a b. checked_u (uint a + uint b) ''SafeMath: addition overflow''),
    um_sub = (\<lambda>a b. checked_u (uint a - uint b) ''SafeMath: subtraction overflow''),
    um_mul = (\<lambda>a b. checked_u (uint a * uint b) ''SafeMath: multiplication overflow''),
    um_div = (\<lambda>a b. if b = 0 then Inl (Revert ''SafeMath: division by zero'')
                     else checked_u (uint a div uint b) ''''),
    im_add = (\<lambda>a b. checked_i (sint a + sint b) ''SignedSafeMath: addition overflow''),
    im_sub = (\<lambda>a b. checked_i (sint a - sint b) ''SignedSafeMath: subtraction overflow''),
    im_mul = (\<lambda>a b. checked_i (sint a * sint b) ''SignedSafeMath: multiplication overflow''),
    im_div = (\<lambda>a b. if b = 0 then Inl (Revert ''SignedSafeMath: division by zero'')
                     else checked_i (sint a sdiv sint b) ''SignedSafeMath: division overflow''),
    toUint256 = (\<lambda>a. checked_u (sint a) ''SafeCast: value must be positive''),
    toInt256 = (\<lambda>a. checked_i (uint a) ''SafeCast: value does not fit in an int256'')\<rparr>"

lemma checked_oz_ops:
  "um_add checked_oz a b = checked_u (uint a + uint b) ''SafeMath: addition overflow''"
  "um_sub checked_oz a b = checked_u (uint a - uint b) ''SafeMath: subtraction overflow''"
  "um_mul checked_oz a b = checked_u (uint a * uint b) ''SafeMath: multiplication overflow''"
  "um_div checked_oz a b = (if b = 0 then Inl (Revert ''SafeMath: division by zero'')
     else checked_u (uint a div uint b) '''')"
  "im_add checked_oz a b = checked_i (sint a + sint b) ''SignedSafeMath: addition overflow''"
  "im_sub checked_oz a b = checked_i (sint a - sint b) ''SignedSafeMath: subtraction overflow''"
  "im_mul checked_oz a b = checked_i (sint a * sint b) ''SignedSafeMath: multiplication overflow''"
  "im_div checked_oz a b = (if b = 0 then Inl (Revert ''SignedSafeMath: division by zero'')
     else checked_i (sint a sdiv sint b) ''SignedSafeMath: division overflow'')"
  "toUint256 checked_oz a = checked_u (sint a) ''SafeCast: value must be positive''"
  "toInt256 checked_oz a = checked_i (uint a) ''SafeCast: value does not fit in an int256''"
  by (simp_all add: checked_oz_def)

lemmas checked_oz_eval = checked_oz_ops checked_u_def checked_i_def

interpretation checked_oz: openzeppelin checked_oz
  by unfold_locales (auto simp: checked_oz_def checked_u_Inr checked_i_Inr)

end
