(* ===== verification/PreciseUnitMath.thy ===== *)
theory PreciseUnitMath
  imports OpenZeppelin
begin

text \<open>
  \<^verbatim>\<open>contracts/lib/PreciseUnitMath.sol\<close>: fixed-point arithmetic with 18 decimals on
  256-bit words. Solidity overloads a name on \<^verbatim>\<open>uint256\<close> and \<^verbatim>\<open>int256\<close>; here the first has the
  suffix \<open>_u\<close> and the second \<open>_i\<close>. The checked operations are those of the \<open>openzeppelin\<close>
  interface; the unchecked ones (\<^verbatim>\<open>%\<close>, \<^verbatim>\<open>^\<close>, \<^verbatim>\<open>++\<close>, \<^verbatim>\<open>-=\<close>, unary minus) are written on the words.
  Each function has a lemma that says exactly when it returns and what it returns.
\<close>

definition PRECISE_UNIT_u :: uint256 where
  "PRECISE_UNIT_u = 1000000000000000000"

definition PRECISE_UNIT_INT :: int256 where
  "PRECISE_UNIT_INT = 1000000000000000000"

definition MIN_INT_256 :: int256 where
  "MIN_INT_256 = word_of_int (- (2 ^ 255))"

definition preciseUnit :: uint256 where
  "preciseUnit = PRECISE_UNIT_u"

definition preciseMul_u :: "oz_api \<Rightarrow> uint256 \<Rightarrow> uint256 \<Rightarrow> revert + uint256" where
  "preciseMul_u Z a b = and_then (um_mul Z a b) (\<lambda>p. um_div Z p PRECISE_UNIT_u)"

definition preciseMul_i :: "oz_api \<Rightarrow> int256 \<Rightarrow> int256 \<Rightarrow> revert + int256" where
  "preciseMul_i Z a b = and_then (im_mul Z a b) (\<lambda>p. im_div Z p PRECISE_UNIT_INT)"

definition preciseMulCeil_u :: "oz_api \<Rightarrow> uint256 \<Rightarrow> uint256 \<Rightarrow> revert + uint256" where
  "preciseMulCeil_u Z a b =
     (if a = 0 \<or> b = 0 then Inr 0
      else and_then (um_mul Z a b) (\<lambda>p.
           and_then (um_sub Z p 1) (\<lambda>s.
           and_then (um_div Z s PRECISE_UNIT_u) (\<lambda>q. um_add Z q 1))))"

definition preciseDiv_u :: "oz_api \<Rightarrow> uint256 \<Rightarrow> uint256 \<Rightarrow> revert + uint256" where
  "preciseDiv_u Z a b = and_then (um_mul Z a PRECISE_UNIT_u) (\<lambda>p. um_div Z p b)"

definition preciseDiv_i :: "oz_api \<Rightarrow> int256 \<Rightarrow> int256 \<Rightarrow> revert + int256" where
  "preciseDiv_i Z a b = and_then (im_mul Z a PRECISE_UNIT_INT) (\<lambda>p. im_div Z p b)"

definition preciseDivCeil_u :: "oz_api \<Rightarrow> uint256 \<Rightarrow> uint256 \<Rightarrow> revert + uint256" where
  "preciseDivCeil_u Z a b =
     and_then (require (b \<noteq> 0) ''Cant divide by 0'') (\<lambda>_.
       if 0 < a
       then and_then (um_mul Z a PRECISE_UNIT_u) (\<lambda>p.
            and_then (um_sub Z p 1) (\<lambda>s.
            and_then (um_div Z s b) (\<lambda>q. um_add Z q 1)))
       else Inr 0)"

definition preciseDivCeil_i :: "oz_api \<Rightarrow> int256 \<Rightarrow> int256 \<Rightarrow> revert + int256" where
  "preciseDivCeil_i Z a b =
     and_then (require (b \<noteq> 0) ''Cant divide by 0'') (\<lambda>_.
     and_then (im_mul Z a PRECISE_UNIT_INT) (\<lambda>a'.
     and_then (im_div Z a' b) (\<lambda>c.
       Inr (if sint a' smod sint b \<noteq> 0
            then (if 0 < sint (xor a' b) then c + 1 else c - 1)
            else c))))"

definition divDown_i :: "oz_api \<Rightarrow> int256 \<Rightarrow> int256 \<Rightarrow> revert + int256" where
  "divDown_i Z a b =
     and_then (require (b \<noteq> 0) ''Cant divide by 0'') (\<lambda>_.
     and_then (require (a \<noteq> MIN_INT_256 \<or> b \<noteq> - 1) ''Invalid input'') (\<lambda>_.
     and_then (im_div Z a b) (\<lambda>result.
       Inr (if sint (xor a b) < 0 \<and> sint a smod sint b \<noteq> 0 then result - 1 else result))))"

definition conservativePreciseMul :: "oz_api \<Rightarrow> int256 \<Rightarrow> int256 \<Rightarrow> revert + int256" where
  "conservativePreciseMul Z a b = and_then (im_mul Z a b) (\<lambda>p. divDown_i Z p PRECISE_UNIT_INT)"

definition conservativePreciseDiv :: "oz_api \<Rightarrow> int256 \<Rightarrow> int256 \<Rightarrow> revert + int256" where
  "conservativePreciseDiv Z a b = and_then (im_mul Z a PRECISE_UNIT_INT) (\<lambda>p. divDown_i Z p b)"

text \<open>The loop of \<^verbatim>\<open>safePower\<close>: the counter runs to \<open>pow\<close>, one checked product a turn.\<close>

primrec safePower_loop :: "oz_api \<Rightarrow> uint256 \<Rightarrow> nat \<Rightarrow> uint256 \<Rightarrow> revert + uint256" where
  "safePower_loop Z a 0 result = Inr result"
| "safePower_loop Z a (Suc n) result =
     and_then (um_mul Z result a) (\<lambda>result'. safePower_loop Z a n result')"

definition safePower :: "oz_api \<Rightarrow> uint256 \<Rightarrow> uint256 \<Rightarrow> revert + uint256" where
  "safePower Z a pow =
     and_then (require (0 < a) ''Value must be positive'') (\<lambda>_. safePower_loop Z a (unat pow) 1)"

text \<open>\<^verbatim>\<open>&&\<close> does not evaluate \<^verbatim>\<open>b.sub(range)\<close> when the first comparison fails.\<close>

definition approximatelyEquals :: "oz_api \<Rightarrow> uint256 \<Rightarrow> uint256 \<Rightarrow> uint256 \<Rightarrow> revert + bool" where
  "approximatelyEquals Z a b rng =
     and_then (um_add Z b rng) (\<lambda>hi.
       if a \<le> hi then and_then (um_sub Z b rng) (\<lambda>lo. Inr (lo \<le> a)) else Inr False)"

definition abs_i :: "oz_api \<Rightarrow> int256 \<Rightarrow> revert + uint256" where
  "abs_i Z a = (if 0 \<le> sint a then toUint256 Z a
     else and_then (im_mul Z a (- 1)) (\<lambda>n. toUint256 Z n))"

definition neg_i :: "int256 \<Rightarrow> revert + int256" where
  "neg_i a = and_then (require (sint MIN_INT_256 < sint a) ''Inversion overflow'') (\<lambda>_. Inr (- a))"

lemmas [sol_simps] = preciseMul_u_def preciseMul_i_def preciseMulCeil_u_def preciseDiv_u_def
  preciseDiv_i_def preciseDivCeil_u_def preciseDivCeil_i_def divDown_i_def
  conservativePreciseMul_def conservativePreciseDiv_def

subsection \<open>The constants as integers\<close>

lemma unit_values [simp]:
  "uint PRECISE_UNIT_u = 10 ^ 18" "sint PRECISE_UNIT_INT = 10 ^ 18"
  "PRECISE_UNIT_u \<noteq> 0" "PRECISE_UNIT_INT \<noteq> 0" "sint MIN_INT_256 = - (2 ^ 255)"
  by (simp_all add: PRECISE_UNIT_u_def PRECISE_UNIT_INT_def MIN_INT_256_def sint_of_int fits_int_def)

lemma sint_minus_one [simp]: "sint (- 1 :: int256) = - 1"
  by simp

lemma sint_eq_iff: "sint a = sint b \<longleftrightarrow> a = b" for a b :: int256
  using signed_word_eqI by blast

lemma min_int_iff: "a = MIN_INT_256 \<longleftrightarrow> sint a = - (2 ^ 255)"
  by (metis signed_word_eqI unit_values(5))

text \<open>A checked intermediate value: it exists exactly when the number fits.\<close>

lemma ex_uint_eq: "(\<exists>x :: uint256. uint x = n \<and> P (uint x)) \<longleftrightarrow> fits_uint n \<and> P n"
proof -
  have "(\<exists>x :: uint256. uint x = n \<and> P (uint x)) \<longleftrightarrow> (\<exists>x :: uint256. uint x = n) \<and> P n" by auto
  then show ?thesis by (simp only: ex_uint)
qed

lemma ex_sint_eq: "(\<exists>x :: int256. sint x = n \<and> P (sint x)) \<longleftrightarrow> fits_int n \<and> P n"
proof -
  have "(\<exists>x :: int256. sint x = n \<and> P (sint x)) \<longleftrightarrow> (\<exists>x :: int256. sint x = n) \<and> P n" by auto
  then show ?thesis by (simp only: ex_sint)
qed

lemma uint_pos: "0 < uint (a :: uint256) \<longleftrightarrow> a \<noteq> 0"
  using uint_ge_0 [of a] uint_eq_0_iff [of a] by linarith

lemma fits_uint_nonneg [simp]: "0 \<le> n \<Longrightarrow> n \<le> m \<Longrightarrow> fits_uint m \<Longrightarrow> fits_uint n"
  by (simp add: fits_uint_def)

subsection \<open>When each function returns, and what\<close>

context openzeppelin
begin

lemma preciseMul_u_Inr:
  "preciseMul_u Z a b = Inr c \<longleftrightarrow>
     fits_uint (uint a * uint b) \<and> uint c = uint a * uint b div 10 ^ 18"
  by (simp add: preciseMul_u_def oz_Inr ex_uint_eq [where P = "\<lambda>n. uint c = n div 10 ^ 18", simplified])

lemma preciseMul_i_Inr:
  "preciseMul_i Z a b = Inr c \<longleftrightarrow>
     fits_int (sint a * sint b) \<and> sint c = (sint a * sint b) sdiv 10 ^ 18"
  by (simp add: preciseMul_i_def oz_Inr ex_sint_eq [where P = "\<lambda>n. sint c = n sdiv 10 ^ 18", simplified])

lemma preciseDiv_u_Inr:
  "preciseDiv_u Z a b = Inr c \<longleftrightarrow>
     fits_uint (uint a * 10 ^ 18) \<and> b \<noteq> 0 \<and> uint c = uint a * 10 ^ 18 div uint b"
  by (simp add: preciseDiv_u_def oz_Inr ex_uint_eq [where P = "\<lambda>n. b \<noteq> 0 \<and> uint c = n div uint b", simplified])

lemma preciseDiv_i_Inr:
  "preciseDiv_i Z a b = Inr c \<longleftrightarrow>
     fits_int (sint a * 10 ^ 18) \<and> b \<noteq> 0 \<and> sint c = (sint a * 10 ^ 18) sdiv sint b"
  by (simp add: preciseDiv_i_def oz_Inr ex_sint_eq [where P = "\<lambda>n. b \<noteq> 0 \<and> sint c = n sdiv sint b", simplified])

text \<open>The rounding-up tail \<^verbatim>\<open>.sub(1).div(d).add(1)\<close> of the two unsigned ceilings.\<close>

lemma ceil_tail_Inr:
  assumes "p \<noteq> 0" and "d \<noteq> 0"
  shows "and_then (um_sub Z p 1) (\<lambda>s. and_then (um_div Z s d) (\<lambda>q. um_add Z q 1)) = Inr c
    \<longleftrightarrow> uint c = (uint p + uint d - 1) div uint d" (is "?l \<longleftrightarrow> ?r")
proof -
  let ?q = "(uint p - 1) div uint d"
  have p: "0 < uint p" and d: "0 < uint d" using assms by (simp_all add: uint_pos)
  then have ceil: "?q + 1 = (uint p + uint d - 1) div uint d" by (rule div_ceil_eq)
  have q: "0 \<le> ?q" "?q \<le> uint p - 1"
    using p d zdiv_mono2 [of "uint p - 1" 1 "uint d"] by (simp_all add: pos_imp_zdiv_nonneg_iff)
  have "?l \<longleftrightarrow> (\<exists>x :: uint256. uint x = uint p - 1 \<and>
      (\<exists>z :: uint256. uint z = uint x div uint d \<and> uint c = uint z + 1))"
    using assms by (simp add: oz_Inr)
  also have "\<dots> \<longleftrightarrow> fits_uint (uint p - 1) \<and> fits_uint ?q \<and> uint c = ?q + 1"
    by (simp only: ex_uint_eq [where P = "\<lambda>n. uint c = n + 1"]
        ex_uint_eq [where P = "\<lambda>m. fits_uint (m div uint d) \<and> uint c = m div uint d + 1"])
  also have "\<dots> \<longleftrightarrow> ?r"
    using p q ceil uint_fits [of p] by (auto simp: fits_uint_def)
  finally show ?thesis .
qed

lemma preciseMulCeil_u_Inr:
  "preciseMulCeil_u Z a b = Inr c \<longleftrightarrow>
     fits_uint (uint a * uint b) \<and> uint c = (uint a * uint b + 10 ^ 18 - 1) div 10 ^ 18"
proof (cases "a = 0 \<or> b = 0")
  case True
  then show ?thesis by (auto simp: preciseMulCeil_u_def fits_uint_def)
next
  case False
  then have nz: "x \<noteq> 0" if "uint x = uint a * uint b" for x :: uint256
    using that by auto
  have "preciseMulCeil_u Z a b = Inr c \<longleftrightarrow>
      (\<exists>x :: uint256. uint x = uint a * uint b \<and> uint c = (uint x + 10 ^ 18 - 1) div 10 ^ 18)"
    using False nz ceil_tail_Inr [where d = PRECISE_UNIT_u]
    by (simp add: preciseMulCeil_u_def um_mul_Inr cong: conj_cong)
  then show ?thesis
    by (simp only: ex_uint_eq [where P = "\<lambda>n. uint c = (n + 10 ^ 18 - 1) div 10 ^ 18"])
qed

lemma preciseDivCeil_u_Inr:
  "preciseDivCeil_u Z a b = Inr c \<longleftrightarrow>
     b \<noteq> 0 \<and> fits_uint (uint a * 10 ^ 18) \<and> uint c = (uint a * 10 ^ 18 + uint b - 1) div uint b"
proof (cases "a = 0 \<or> b = 0")
  case True
  then show ?thesis
    by (auto simp: preciseDivCeil_u_def fits_uint_def uint_pos div_pos_pos_trivial)
next
  case False
  then have nz: "x \<noteq> 0" if "uint x = uint a * 10 ^ 18" for x :: uint256
    using that by auto
  have "preciseDivCeil_u Z a b = Inr c \<longleftrightarrow>
      (\<exists>x :: uint256. uint x = uint a * 10 ^ 18 \<and> uint c = (uint x + uint b - 1) div uint b)"
    using False nz ceil_tail_Inr [where d = b]
    by (simp add: preciseDivCeil_u_def um_mul_Inr word_gt_0 cong: conj_cong)
  then show ?thesis using False
    by (simp only: ex_uint_eq [where P = "\<lambda>n. uint c = (n + uint b - 1) div uint b"]) simp
qed

end

subsection \<open>Rounding of the signed divisions\<close>

lemma sint_minus_1: "fits_int (sint c - 1) \<Longrightarrow> sint (c - 1) = sint c - 1" for c :: int256
  using sint_of_int [of "sint c - 1"] by simp

lemma sint_plus_1: "fits_int (sint c + 1) \<Longrightarrow> sint (c + 1) = sint c + 1" for c :: int256
  using sint_of_int [of "sint c + 1"] by simp

lemma abs_sdiv_le:
  fixes a b :: int
  assumes "2 \<le> \<bar>b\<bar>"
  shows "2 * \<bar>a sdiv b\<bar> \<le> \<bar>a\<bar>"
proof -
  have "2 * (\<bar>a\<bar> div \<bar>b\<bar>) \<le> \<bar>b\<bar> * (\<bar>a\<bar> div \<bar>b\<bar>)"
    using assms by (intro mult_right_mono) (auto simp: pos_imp_zdiv_nonneg_iff)
  also have "\<dots> \<le> \<bar>b\<bar> * (\<bar>a\<bar> div \<bar>b\<bar>) + \<bar>a\<bar> mod \<bar>b\<bar>"
    using assms pos_mod_sign [of "\<bar>b\<bar>" "\<bar>a\<bar>"] by linarith
  also have "\<dots> = \<bar>a\<bar>" by (rule mult_div_mod_eq)
  finally show ?thesis by (simp add: abs_sdiv)
qed

lemma smod_abs_ge_2: "a smod b \<noteq> 0 \<Longrightarrow> b \<noteq> 0 \<Longrightarrow> 2 \<le> \<bar>b\<bar>" for a b :: int
proof (rule ccontr)
  assume "a smod b \<noteq> 0" "b \<noteq> 0" "\<not> 2 \<le> \<bar>b\<bar>"
  then have "\<bar>b\<bar> = 1" by linarith
  then show False using \<open>a smod b \<noteq> 0\<close> by (simp add: smod_int_alt_def)
qed

lemma fits_sdiv:
  fixes a b :: int
  assumes "fits_int a" and "b \<noteq> 0" and "\<not> (a = - (2 ^ 255) \<and> b = - 1)"
  shows "fits_int (a sdiv b)"
proof -
  consider "b = 1" | "b = - 1" | "2 \<le> \<bar>b\<bar>" using assms(2) by linarith
  then show ?thesis
    by cases (use assms abs_sdiv_le [of b a] in \<open>auto simp: fits_int_def\<close>)
qed

lemma fits_sdiv_step:
  fixes a b :: int
  assumes "fits_int a" and "b \<noteq> 0" and "a smod b \<noteq> 0"
  shows "fits_int (a sdiv b - 1)" and "fits_int (a sdiv b + 1)"
  using assms abs_sdiv_le [OF smod_abs_ge_2 [OF assms(3,2)], of a] by (auto simp: fits_int_def)

context openzeppelin
begin

lemma divDown_i_Inr:
  "divDown_i Z a b = Inr c \<longleftrightarrow>
     b \<noteq> 0 \<and> \<not> (sint a = - (2 ^ 255) \<and> sint b = - 1) \<and> sint c = sint a div sint b"
proof (cases "b \<noteq> 0 \<and> \<not> (sint a = - (2 ^ 255) \<and> sint b = - 1)")
  case False
  have "b = - 1 \<longleftrightarrow> sint b = - 1" by (metis signed_word_eqI sint_minus_one)
  with False show ?thesis by (auto simp: divDown_i_def min_int_iff)
next
  case True
  let ?q = "sint a sdiv sint b"
  let ?r = "sint (xor a b) < 0 \<and> sint a smod sint b \<noteq> 0"
  have b: "sint b \<noteq> 0" using True by simp
  have floor: "sint a div sint b = (if ?r then ?q - 1 else ?q)"
    using b by (auto simp: divide_int_eq_signed_divide_int sint_xor_neg smod_eq_0_iff sgn_if)
  have q: "fits_int ?q" using True b by (intro fits_sdiv) auto
  have q1: "?r \<Longrightarrow> fits_int (?q - 1)" using b by (auto intro: fits_sdiv_step)
  have "divDown_i Z a b = Inr c \<longleftrightarrow>
      (\<exists>x :: int256. sint x = ?q \<and> c = (if ?r then x - 1 else x))"
    using True by (auto simp: divDown_i_def im_div_Inr min_int_iff)
  also have "\<dots> \<longleftrightarrow> c = (if ?r then word_of_int ?q - 1 else word_of_int ?q)"
    using sint_of_int [OF q] by (metis signed_word_eqI)
  also have "\<dots> \<longleftrightarrow> sint c = sint a div sint b"
    using q1 sint_of_int [OF q] sint_minus_1 [of "word_of_int ?q"] unfolding floor
    by (metis signed_word_eqI)
  finally show ?thesis using True by simp
qed

lemma preciseDivCeil_i_Inr:
  "preciseDivCeil_i Z a b = Inr c \<longleftrightarrow>
     b \<noteq> 0 \<and> fits_int (sint a * 10 ^ 18) \<and> sint c = away_div (sint a * 10 ^ 18) (sint b)"
proof (cases "b \<noteq> 0 \<and> fits_int (sint a * 10 ^ 18)")
  case False
  then show ?thesis
    using ex_sint [of "sint a * 10 ^ 18"] by (auto simp: preciseDivCeil_i_def im_mul_Inr)
next
  case True
  let ?p = "sint a * 10 ^ 18"
  let ?q = "?p sdiv sint b"
  have b: "sint b \<noteq> 0" using True by simp
  obtain x :: int256 where x: "sint x = ?p" using True ex_sint by metis
  have "?p \<noteq> - (2 ^ 255)"
  proof
    assume "?p = - (2 ^ 255)"
    then have "(10 ^ 18 :: int) dvd 2 ^ 255" by (metis dvd_minus_iff dvd_triv_right)
    then show False by simp
  qed
  then have "fits_int ?q" using True b by (intro fits_sdiv) auto
  then obtain y :: int256 where y: "sint y = ?q" using ex_sint by metis
  let ?e = "if ?p smod sint b \<noteq> 0 then (if 0 < sint (xor x b) then y + 1 else y - 1) else y"
  have fits: "fits_int (?q + 1)" "fits_int (?q - 1)" if "?p smod sint b \<noteq> 0"
    using that True b fits_sdiv_step by auto
  have pos: "0 < sint (xor x b) \<longleftrightarrow> (?p < 0) = (sint b < 0)" if "?p smod sint b \<noteq> 0"
  proof -
    have "?p \<noteq> sint b" using that b smod_eq_0_iff [of "sint b" "?p"] by auto
    moreover have "x = b" if "xor x b = 0"
    proof -
      have "x = xor (xor x b) b" by (simp add: xor.assoc)
      then show ?thesis by (simp add: that)
    qed
    ultimately have "sint (xor x b) \<noteq> 0" using x by auto
    then show ?thesis using sint_xor_neg [of x b] x by linarith
  qed
  have "sint ?e = away_div ?p (sint b)"
    using b fits pos y by (simp add: away_div_sdiv sint_plus_1 sint_minus_1)
  moreover have "preciseDivCeil_i Z a b = Inr ?e"
    using True x y im_mul_Inr [of a PRECISE_UNIT_INT x] im_div_Inr [of x b y]
    by (simp add: preciseDivCeil_i_def)
  ultimately obtain e where e: "sint e = away_div ?p (sint b)" "preciseDivCeil_i Z a b = Inr e" by blast
  then show ?thesis using True sint_eq_iff [of e c] by auto
qed

lemma safePower_loop_Inr:
  assumes "a \<noteq> 0"
  shows "safePower_loop Z a n r = Inr c \<longleftrightarrow> uint c = uint r * uint a ^ n"
proof (induction n arbitrary: r)
  case 0
  then show ?case by (auto dest: unsigned_word_eqI)
next
  case (Suc n)
  have a: "1 \<le> uint a" using assms uint_pos [of a] by linarith
  then have "1 \<le> uint a ^ n" by simp
  then have "uint r * uint a * 1 \<le> uint r * uint a * uint a ^ n"
    by (intro mult_left_mono) auto
  then have fits: "fits_uint (uint r * uint a)" if "uint c = uint r * uint a * uint a ^ n"
    using that a uint_fits [of c] by (auto intro: fits_uint_nonneg)
  have "safePower_loop Z a (Suc n) r = Inr c \<longleftrightarrow>
      (\<exists>x :: uint256. uint x = uint r * uint a \<and> uint c = uint x * uint a ^ n)"
    by (simp add: um_mul_Inr Suc)
  also have "\<dots> \<longleftrightarrow> fits_uint (uint r * uint a) \<and> uint c = uint r * uint a * uint a ^ n"
    by (rule ex_uint_eq)
  finally show ?case using fits by (auto simp: algebra_simps)
qed

lemma safePower_Inr: "safePower Z a pow = Inr c \<longleftrightarrow> a \<noteq> 0 \<and> uint c = uint a ^ unat pow"
  by (cases "a = 0") (auto simp: safePower_def safePower_loop_Inr word_gt_0)

lemma approximatelyEquals_Inr:
  "approximatelyEquals Z a b rng = Inr r \<longleftrightarrow> fits_uint (uint b + uint rng) \<and>
     (if uint a \<le> uint b + uint rng then uint rng \<le> uint b \<and> r = (uint b - uint rng \<le> uint a)
      else \<not> r)"
proof -
  have sub: "fits_uint (uint b - uint rng) \<longleftrightarrow> uint rng \<le> uint b"
    using uint_fits [of b] uint_ge_0 [of rng] unfolding fits_uint_def by linarith
  have lo: "(\<exists>y :: uint256. uint y = uint b - uint rng \<and> (uint y \<le> uint a) = r) \<longleftrightarrow>
      uint rng \<le> uint b \<and> r = (uint b - uint rng \<le> uint a)"
    using sub by (subst ex_uint_eq [where P = "\<lambda>n. (n \<le> uint a) = r"]) auto
  have "approximatelyEquals Z a b rng = Inr r \<longleftrightarrow>
      (\<exists>x :: uint256. uint x = uint b + uint rng \<and> (if uint a \<le> uint x
         then \<exists>y :: uint256. uint y = uint b - uint rng \<and> (uint y \<le> uint a) = r else \<not> r))"
    by (auto simp: approximatelyEquals_def oz_Inr word_le_def)
  then show ?thesis unfolding lo
    by (simp only: ex_uint_eq [where P = "\<lambda>n. if uint a \<le> n
      then uint rng \<le> uint b \<and> r = (uint b - uint rng \<le> uint a) else \<not> r"])
qed

lemma abs_i_Inr: "abs_i Z a = Inr c \<longleftrightarrow> sint a \<noteq> - (2 ^ 255) \<and> uint c = \<bar>sint a\<bar>"
proof (cases "0 \<le> sint a")
  case True
  then show ?thesis by (simp add: abs_i_def toUint256_Inr)
next
  case False
  then have "abs_i Z a = Inr c \<longleftrightarrow> (\<exists>x :: int256. sint x = - sint a \<and> uint c = sint x)"
    by (simp add: abs_i_def oz_Inr)
  also have "\<dots> \<longleftrightarrow> fits_int (- sint a) \<and> uint c = - sint a"
    by (rule ex_sint_eq)
  finally show ?thesis using False sint_fits [of a] by (auto simp: fits_int_def)
qed

end

lemma neg_i_Inr: "neg_i a = Inr c \<longleftrightarrow> sint a \<noteq> - (2 ^ 255) \<and> sint c = - sint a"
proof (cases "sint a = - (2 ^ 255)")
  case False
  then have "fits_int (- sint a)" using sint_fits [of a] by (auto simp: fits_int_def)
  then have "sint (- a) = - sint a" using sint_of_int [of "- sint a"] by simp
  then have "- a = c \<longleftrightarrow> sint c = - sint a" by (metis signed_word_eqI)
  with False show ?thesis using sint_fits [of a] by (auto simp: neg_i_def fits_int_def require_def)
qed (simp add: neg_i_def require_def)

subsection \<open>Properties\<close>

text \<open>SafePower returns exactly when the base is positive and the power fits 256 bits, and
  then it returns the power: the checked products of the loop never stop it early and never
  let it wrap.\<close>

lemma safePower_exact:
  assumes "openzeppelin Z"
  shows "((\<exists>c. safePower Z a pow = Inr c) \<longleftrightarrow> a \<noteq> 0 \<and> uint a ^ unat pow < 2 ^ 256) \<and>
    (\<forall>c. safePower Z a pow = Inr c \<longrightarrow> uint c = uint a ^ unat pow)"
  using ex_uint [of "uint a ^ unat pow"]
  by (auto simp: openzeppelin.safePower_Inr [OF assms] fits_uint_def)

text \<open>The answer of \<open>approximatelyEquals\<close> is whether a lies within the range around b, except that it
  reverts, instead of answering, when the range exceeds b and a is not above b + range, and
  when b + range does not fit.\<close>

lemma approximatelyEquals_answer:
  assumes "openzeppelin Z"
  shows "approximatelyEquals Z a b rng = Inr r \<longleftrightarrow>
    uint b + uint rng < 2 ^ 256 \<and> (uint b + uint rng < uint a \<or> uint rng \<le> uint b) \<and>
    r = (\<bar>uint a - uint b\<bar> \<le> uint rng)"
  using uint_ge_0 [of a] uint_ge_0 [of b] uint_ge_0 [of rng]
  unfolding openzeppelin.approximatelyEquals_Inr [OF assms] fits_uint_def by (simp; linarith)

end
