(* ===== verification/MathUtils.thy ===== *)
theory MathUtils
  imports BigNum PreciseUnitMath
begin

text \<open>
  \<^verbatim>\<open>utils/common/mathUtils.ts\<close>: the fixed-point arithmetic of the TypeScript side, against the
  \<open>bignumber\<close> interface, and its relation to \<^verbatim>\<open>PreciseUnitMath.sol\<close>: where the contract returns,
  the TypeScript function returns the same number; the places where the two differ are stated
  too. Inside the locale each function is evaluated once on \<open>BigNumber.from\<close> values, which is
  what the callers' proofs use.
\<close>

definition preciseMul :: "'b bn_api \<Rightarrow> 'b \<Rightarrow> 'b \<Rightarrow> 'b option" where
  "preciseMul B a b = bn_div B (bn_mul B a b) (PRECISE_UNIT B)"

definition preciseMulCeil :: "'b bn_api \<Rightarrow> 'b \<Rightarrow> 'b \<Rightarrow> 'b option" where
  "preciseMulCeil B a b =
     (if bn_eq B a (bn_from B 0) \<or> bn_eq B b (bn_from B 0) then Some (ZERO B)
      else do {
        q \<leftarrow> bn_div B (bn_sub B (bn_mul B a b) (bn_from B 1)) (PRECISE_UNIT B);
        Some (bn_add B q (bn_from B 1))
      })"

definition preciseMulCeilInt :: "'b bn_api \<Rightarrow> 'b \<Rightarrow> 'b \<Rightarrow> 'b option" where
  "preciseMulCeilInt B a b =
     (let zero = bn_from B 0; one = bn_from B 1
      in if bn_eq B a zero \<or> bn_eq B b zero then Some (ZERO B)
      else if (bn_gt B a zero \<and> bn_gt B b zero) \<or> (bn_lt B a zero \<and> bn_lt B b zero) then do {
        q \<leftarrow> bn_div B (bn_sub B (bn_mul B a b) one) (PRECISE_UNIT B);
        Some (bn_add B q one)
      } else do {
        q \<leftarrow> bn_div B (bn_add B (bn_mul B a b) one) (PRECISE_UNIT B);
        Some (bn_sub B q one)
      })"

definition preciseDiv :: "'b bn_api \<Rightarrow> 'b \<Rightarrow> 'b \<Rightarrow> 'b option" where
  "preciseDiv B a b = bn_div B (bn_mul B a (PRECISE_UNIT B)) b"

definition preciseDivCeil :: "'b bn_api \<Rightarrow> 'b \<Rightarrow> 'b \<Rightarrow> 'b option" where
  "preciseDivCeil B a b =
     (if bn_eq B a (bn_from B 0) \<or> bn_eq B b (bn_from B 0) then Some (ZERO B)
      else do {
        q \<leftarrow> bn_div B (bn_sub B (bn_mul B a (PRECISE_UNIT B)) (bn_from B 1)) b;
        Some (bn_add B q (bn_from B 1))
      })"

definition preciseDivCeilInt :: "'b bn_api \<Rightarrow> 'b \<Rightarrow> 'b \<Rightarrow> 'b option" where
  "preciseDivCeilInt B a b = do {
     result \<leftarrow> bn_div B (bn_mul B a (PRECISE_UNIT B)) b;
     let zero = bn_from B 0;
     if bn_eq B (bn_mul B result b) (bn_mul B a (PRECISE_UNIT B)) then Some result
     else if (bn_gt B a zero \<and> bn_gt B b zero) \<or> (bn_lt B a zero \<and> bn_lt B b zero)
     then Some (bn_add B result (bn_from B 1))
     else Some (bn_sub B result (bn_from B 1))
   }"

text \<open>
  \<^verbatim>\<open>&&\<close> evaluates \<^verbatim>\<open>a.mod(...)\<close> only when the comparisons before it hold.
\<close>

definition divDown :: "'b bn_api \<Rightarrow> 'b \<Rightarrow> 'b \<Rightarrow> 'b option" where
  "divDown B a b = do {
     result \<leftarrow> bn_div B a b;
     let zero = bn_from B 0;
     first \<leftarrow> (if bn_lt B a zero \<and> bn_gt B b zero
       then do { m \<leftarrow> bn_mod B a b; Some (\<not> bn_isZero B m) } else Some False);
     if first then Some (bn_sub B result (bn_from B 1))
     else do {
       second \<leftarrow> (if bn_gt B a zero \<and> bn_lt B b zero
         then do { m \<leftarrow> bn_mod B a (bn_mul B b (bn_from B (- 1))); Some (\<not> bn_isZero B m) }
         else Some False);
       if second then Some (bn_sub B result (bn_from B 1)) else Some result
     }
   }"

definition min_bn :: "'b bn_api \<Rightarrow> 'b \<Rightarrow> 'b \<Rightarrow> 'b" where
  "min_bn B valueOne valueTwo = (if bn_lt B valueOne valueTwo then valueOne else valueTwo)"

subsection \<open>Evaluation on numbers\<close>

lemma away_step_pos: "0 < p \<Longrightarrow> 0 < d \<Longrightarrow> (p - 1) sdiv d + 1 = away_div p d" for p d :: int
  by (simp add: sdiv_nonneg away_div_ceil div_ceil_eq)

lemma away_step_neg: "p < 0 \<Longrightarrow> 0 < d \<Longrightarrow> (p + 1) sdiv d - 1 = away_div p d" for p d :: int
proof (cases "p = - 1")
  case False
  assume p: "p < 0" "0 < d"
  have "- (p + 1) div d + 1 = (- p + d - 1) div d"
    using div_ceil_eq [of "- p" d] p by simp
  with False p show ?thesis by (simp add: sdiv_neg_pos away_div_def)
qed (simp add: away_div_def)

context bignumber
begin

lemma preciseMul_from:
  "preciseMul B (bn_from B m) (bn_from B n) = Some (bn_from B (m * n sdiv 10 ^ 18))"
  by (simp add: preciseMul_def num_simps)

lemma preciseDiv_from:
  "preciseDiv B (bn_from B m) (bn_from B n) =
     (if n = 0 then None else Some (bn_from B (m * 10 ^ 18 sdiv n)))"
  by (simp add: preciseDiv_def num_simps)

lemma preciseMulCeil_from:
  "0 \<le> m \<Longrightarrow> 0 \<le> n \<Longrightarrow>
   preciseMulCeil B (bn_from B m) (bn_from B n) = Some (bn_from B ((m * n + 10 ^ 18 - 1) div 10 ^ 18))"
  by (auto simp: preciseMulCeil_def num_simps away_step_pos away_div_ceil)

lemma preciseDivCeil_from:
  "0 \<le> m \<Longrightarrow> 0 \<le> n \<Longrightarrow> preciseDivCeil B (bn_from B m) (bn_from B n) =
     Some (bn_from B (if n = 0 then 0 else (m * 10 ^ 18 + n - 1) div n))"
  by (auto simp: preciseDivCeil_def num_simps away_step_pos away_div_ceil div_pos_pos_trivial)

lemma preciseMulCeilInt_from:
  "preciseMulCeilInt B (bn_from B m) (bn_from B n) = Some (bn_from B (away_div (m * n) (10 ^ 18)))"
proof -
  consider "m = 0 \<or> n = 0" | "0 < m * n" "m \<noteq> 0" "n \<noteq> 0" | "m * n < 0" "m \<noteq> 0" "n \<noteq> 0"
    by (meson linorder_neqE_linordered_idom mult_eq_0_iff)
  then show ?thesis
  proof cases
    case 1
    then show ?thesis by (auto simp: preciseMulCeilInt_def num_simps away_div_def)
  next
    case 2
    then have "(0 < m \<and> 0 < n) \<or> (m < 0 \<and> n < 0)" by (auto simp: zero_less_mult_iff)
    with 2 show ?thesis by (simp add: preciseMulCeilInt_def num_simps away_step_pos)
  next
    case 3
    then have "\<not> ((0 < m \<and> 0 < n) \<or> (m < 0 \<and> n < 0))" by (auto simp: mult_less_0_iff)
    with 3 show ?thesis by (auto simp: preciseMulCeilInt_def num_simps away_step_neg Let_def)
  qed
qed

lemma preciseDivCeilInt_from:
  "preciseDivCeilInt B (bn_from B m) (bn_from B n) =
     (if n = 0 then None else Some (bn_from B (away_div (m * 10 ^ 18) n)))"
proof (cases "n = 0")
  case False
  then show ?thesis
    using sdiv_exact_iff [of n "m * 10 ^ 18"] smod_eq_0_iff [of n "m * 10 ^ 18"]
    by (auto simp: preciseDivCeilInt_def num_simps away_div_sdiv)
qed (simp add: preciseDivCeilInt_def num_simps)

lemma divDown_from:
  "divDown B (bn_from B m) (bn_from B n) = (if n = 0 then None else Some (bn_from B (m div n)))"
proof (cases "n = 0")
  case False
  then show ?thesis
    by (auto simp: divDown_def num_simps divide_int_eq_signed_divide_int sgn_if mod_eq_0_iff_dvd)
qed (simp add: divDown_def num_simps)

lemma min_bn_from: "min_bn B (bn_from B m) (bn_from B n) = bn_from B (min m n)"
  by (simp add: min_bn_def num_simps)

lemmas math_simps = preciseMul_from preciseDiv_from preciseMulCeil_from preciseDivCeil_from
  preciseMulCeilInt_from preciseDivCeilInt_from divDown_from min_bn_from

end

subsection \<open>Properties\<close>

text \<open>C1: wherever the unsigned functions of PreciseUnitMath.sol return, the functions of
  mathUtils.ts return the same number: preciseMul, preciseMulCeil, preciseDiv and
  preciseDivCeil on both sides, for every pair of 256-bit words.\<close>

theorem unsigned_math_matches_contract:
  assumes "bignumber B" and "openzeppelin Z"
  shows "(preciseMul_u Z a b = Inr c \<longrightarrow>
            preciseMul B (bn_from B (uint a)) (bn_from B (uint b)) = Some (bn_from B (uint c))) \<and>
         (preciseMulCeil_u Z a b = Inr c \<longrightarrow>
            preciseMulCeil B (bn_from B (uint a)) (bn_from B (uint b)) = Some (bn_from B (uint c))) \<and>
         (preciseDiv_u Z a b = Inr c \<longrightarrow>
            preciseDiv B (bn_from B (uint a)) (bn_from B (uint b)) = Some (bn_from B (uint c))) \<and>
         (preciseDivCeil_u Z a b = Inr c \<longrightarrow>
            preciseDivCeil B (bn_from B (uint a)) (bn_from B (uint b)) = Some (bn_from B (uint c)))"
  using assms
  by (simp add: bignumber.math_simps openzeppelin.preciseMul_u_Inr openzeppelin.preciseMulCeil_u_Inr
      openzeppelin.preciseDiv_u_Inr openzeppelin.preciseDivCeil_u_Inr sdiv_nonneg)

theorem unsigned_math_matches_contract_witness:
  "preciseMul_u checked_oz 7 1500000000000000000 = Inr 10 \<and>
   preciseMul int_bn 7 1500000000000000000 = Some 10 \<and>
   preciseMulCeil_u checked_oz 7 1500000000000000000 = Inr 11 \<and>
   preciseMulCeil int_bn 7 1500000000000000000 = Some 11"
proof -
  have m: "preciseMul_u checked_oz 7 1500000000000000000 = Inr 10"
    and c: "preciseMulCeil_u checked_oz 7 1500000000000000000 = Inr 11"
    by (simp_all add: sol_simps PRECISE_UNIT_u_def checked_oz_eval)
  from m c show ?thesis
    using unsigned_math_matches_contract [OF int_bn.bignumber_axioms checked_oz.openzeppelin_axioms,
        of 7 1500000000000000000 10]
      unsigned_math_matches_contract [OF int_bn.bignumber_axioms checked_oz.openzeppelin_axioms,
        of 7 1500000000000000000 11]
    by simp
qed

text \<open>C2: wherever the signed functions of PreciseUnitMath.sol return, the functions of
  mathUtils.ts return the same number: preciseMul and preciseDiv round towards zero,
  preciseDivCeil (preciseDivCeilInt in TypeScript) away from zero, divDown towards minus
  infinity, on both sides and for every sign of the operands.\<close>

theorem signed_math_matches_contract:
  assumes "bignumber B" and "openzeppelin Z"
  shows "(preciseMul_i Z a b = Inr c \<longrightarrow>
            preciseMul B (bn_from B (sint a)) (bn_from B (sint b)) = Some (bn_from B (sint c))) \<and>
         (preciseDiv_i Z a b = Inr c \<longrightarrow>
            preciseDiv B (bn_from B (sint a)) (bn_from B (sint b)) = Some (bn_from B (sint c))) \<and>
         (preciseDivCeil_i Z a b = Inr c \<longrightarrow>
            preciseDivCeilInt B (bn_from B (sint a)) (bn_from B (sint b)) = Some (bn_from B (sint c))) \<and>
         (divDown_i Z a b = Inr c \<longrightarrow>
            divDown B (bn_from B (sint a)) (bn_from B (sint b)) = Some (bn_from B (sint c)))"
  using assms
  by (simp add: bignumber.math_simps openzeppelin.preciseMul_i_Inr openzeppelin.preciseDiv_i_Inr
      openzeppelin.preciseDivCeil_i_Inr openzeppelin.divDown_i_Inr)

theorem signed_math_matches_contract_witness:
  "divDown_i checked_oz (- 7) 2 = Inr (- 4) \<and> divDown int_bn (- 7) 2 = Some (- 4) \<and>
   preciseDivCeil_i checked_oz (- 7) 3 = Inr (- 2333333333333333334) \<and>
   preciseDivCeilInt int_bn (- 7) 3 = Some (- 2333333333333333334)"
proof -
  have d: "divDown_i checked_oz (- 7) 2 = Inr (- 4)"
    by (simp add: checked_oz.divDown_i_Inr)
  have c: "preciseDivCeil_i checked_oz (- 7) 3 = Inr (- 2333333333333333334)"
    by (simp add: checked_oz.preciseDivCeil_i_Inr fits_int_def away_div_def)
  from d c show ?thesis
    using signed_math_matches_contract [OF int_bn.bignumber_axioms checked_oz.openzeppelin_axioms,
        of "- 7" 2 "- 4"]
      signed_math_matches_contract [OF int_bn.bignumber_axioms checked_oz.openzeppelin_axioms,
        of "- 7" 3 "- 2333333333333333334"]
    by simp
qed

text \<open>The rounding of the signed TypeScript functions. preciseMulCeilInt returns the number
  of least magnitude that is at least the exact product, with its sign; divDown returns the
  floor of the quotient and throws only for a zero divisor.\<close>

lemma signed_rounding:
  assumes "bignumber B"
  shows "\<exists>q. preciseMulCeilInt B (bn_from B m) (bn_from B n) = Some (bn_from B q) \<and>
      \<bar>m * n\<bar> \<le> \<bar>q\<bar> * 10 ^ 18 \<and> \<bar>q\<bar> * 10 ^ 18 < \<bar>m * n\<bar> + 10 ^ 18 \<and> sgn q = sgn (m * n)"
    (is "\<exists>q. _ = _ \<and> ?spec q")
proof -
  let ?p = "\<bar>m * n\<bar>" and ?q = "away_div (m * n) (10 ^ 18)"
  have abs: "\<bar>?q\<bar> = (?p + 10 ^ 18 - 1) div 10 ^ 18"
    by (cases "m = 0 \<or> n = 0") (auto simp: away_div_def abs_mult pos_imp_zdiv_nonneg_iff)
  have "10 ^ 18 * ((?p + 10 ^ 18 - 1) div 10 ^ 18) + (?p + 10 ^ 18 - 1) mod 10 ^ 18 = ?p + 10 ^ 18 - 1"
    by (rule mult_div_mod_eq)
  then have bounds: "?p \<le> \<bar>?q\<bar> * 10 ^ 18" "\<bar>?q\<bar> * 10 ^ 18 < ?p + 10 ^ 18"
    unfolding abs using pos_mod_bound [of "10 ^ 18" "?p + 10 ^ 18 - 1"]
      pos_mod_sign [of "10 ^ 18" "?p + 10 ^ 18 - 1"] by simp_all
  have "0 < (?p + 10 ^ 18 - 1) div 10 ^ 18" if "m * n \<noteq> 0"
  proof -
    have "1 \<le> ?p" using that by linarith
    then show ?thesis by (simp add: pos_imp_zdiv_pos_iff)
  qed
  then have "sgn ?q = sgn (m * n)"
    by (cases "m = 0 \<or> n = 0") (auto simp: away_div_def sgn_mult)
  with bounds have "?spec ?q" by blast
  then show ?thesis using assms by (auto simp: bignumber.preciseMulCeilInt_from)
qed

text \<open>A zero divisor. Where the contract's unsigned preciseDivCeil reverts with
  "Cant divide by 0", preciseDivCeil of mathUtils.ts returns zero; preciseDiv and
  preciseDivCeilInt throw.\<close>

lemma zero_divisor_diverges:
  assumes "bignumber B" and "openzeppelin Z"
  shows "preciseDivCeil_u Z a 0 = Inl (Revert ''Cant divide by 0'') \<and>
    preciseDivCeil B (bn_from B (uint a)) (bn_from B (uint (0 :: uint256))) = Some (ZERO B) \<and>
    preciseDiv B (bn_from B (uint a)) (bn_from B 0) = None \<and>
    preciseDivCeilInt B (bn_from B (uint a)) (bn_from B 0) = None"
  using assms
  by (simp add: bignumber.math_simps bignumber.Zero_from preciseDivCeil_u_def ZERO_def)

end
