(* ===== verification/FeeModuleUtils.thy ===== *)
theory FeeModuleUtils
  imports MathUtils
begin

text \<open>
  Streaming fees, on both sides: \<^verbatim>\<open>utils/common/feeModuleUtils.ts\<close> and the calculations of
  \<^verbatim>\<open>contracts/protocol/modules/v1/StreamingFeeModule.sol\<close>. The contract's view functions read
  the block time, the fee state of the SetToken and its total supply; these are arguments. The
  lemmas evaluate both sides, relate them, and state what the fee does to the holders of the
  SetToken: the recipient's share of the new supply and the collateral behind every unit.
\<close>

subsection \<open>\<^verbatim>\<open>feeModuleUtils.ts\<close>\<close>

text \<open>The answer of \<^verbatim>\<open>feeModule.feeStates(setToken)\<close>, as \<^verbatim>\<open>StreamingFeeState\<close> of \<^verbatim>\<open>types.ts\<close>.\<close>

record 'b StreamingFeeState =
  feeRecipient :: string
  streamingFeePercentage :: 'b
  maxStreamingFeePercentage :: 'b
  lastStreamingFeeTimestamp :: 'b

text \<open>
  \<open>feeStates\<close> is the contract's getter, \<open>None\<close> when the call fails. An absent \<^verbatim>\<open>streamingFee\<close> is
  \<open>None\<close>; one that is given is an object, so the truth test takes it whatever its value.
\<close>

definition getStreamingFee ::
  "'b bn_api \<Rightarrow> (string \<Rightarrow> 'b StreamingFeeState option) \<Rightarrow> string \<Rightarrow> 'b \<Rightarrow> 'b \<Rightarrow> 'b option \<Rightarrow> 'b option"
where
  "getStreamingFee B feeStates setToken previousAccrueTimestamp recentAccrueTimestamp streamingFee = do {
     feeState \<leftarrow> feeStates setToken;
     let accrualRate = (case streamingFee of Some fee \<Rightarrow> fee | None \<Rightarrow> streamingFeePercentage feeState);
     let timeElapsed = bn_sub B recentAccrueTimestamp previousAccrueTimestamp;
     bn_div B (bn_mul B timeElapsed accrualRate) (ONE_YEAR_IN_SECONDS B)
   }"

definition getStreamingFeeInflationAmount :: "'b bn_api \<Rightarrow> 'b \<Rightarrow> 'b \<Rightarrow> 'b option" where
  "getStreamingFeeInflationAmount B inflationPercent totalSupply =
     (let a = bn_mul B inflationPercent totalSupply;
          b = bn_sub B (PRECISE_UNIT B) inflationPercent
      in bn_div B a b)"

fun getPostFeePositionUnits :: "'b bn_api \<Rightarrow> 'b list \<Rightarrow> 'b \<Rightarrow> 'b list option" where
  "getPostFeePositionUnits B [] inflationPercent = Some []"
| "getPostFeePositionUnits B (u # preFeeUnits) inflationPercent = do {
     v \<leftarrow> (if bn_gte B u (bn_from B 0)
       then preciseMul B u (bn_sub B (PRECISE_UNIT B) inflationPercent)
       else preciseMulCeilInt B u (bn_sub B (PRECISE_UNIT B) inflationPercent));
     newUnits \<leftarrow> getPostFeePositionUnits B preFeeUnits inflationPercent;
     Some (v # newUnits)
   }"

subsection \<open>\<^verbatim>\<open>StreamingFeeModule.sol\<close>\<close>

record FeeState =
  fs_feeRecipient :: address
  fs_maxStreamingFeePercentage :: uint256
  fs_streamingFeePercentage :: uint256
  fs_lastStreamingFeeTimestamp :: uint256

definition ONE_YEAR_IN_SECONDS_sol :: uint256 where
  "ONE_YEAR_IN_SECONDS_sol = 31557600"

definition calculateStreamingFee_sol :: "oz_api \<Rightarrow> uint256 \<Rightarrow> FeeState \<Rightarrow> revert + uint256" where
  "calculateStreamingFee_sol Z blockTimestamp st =
     and_then (um_sub Z blockTimestamp (fs_lastStreamingFeeTimestamp st)) (\<lambda>timeSinceLastFee.
     and_then (um_mul Z timeSinceLastFee (fs_streamingFeePercentage st)) (\<lambda>p.
       um_div Z p ONE_YEAR_IN_SECONDS_sol))"

definition calculateStreamingFeeInflation_sol :: "oz_api \<Rightarrow> uint256 \<Rightarrow> uint256 \<Rightarrow> revert + uint256" where
  "calculateStreamingFeeInflation_sol Z totalSupply feePercentage =
     and_then (um_mul Z feePercentage totalSupply) (\<lambda>a.
     and_then (um_sub Z preciseUnit feePercentage) (\<lambda>b.
       um_div Z a b))"

text \<open>
  The amounts \<^verbatim>\<open>_mintManagerAndProtocolFee\<close> mints, the manager's first; the second is minted only
  when it is positive.
\<close>

definition managerAndProtocolFee_sol :: "oz_api \<Rightarrow> uint256 \<Rightarrow> uint256 \<Rightarrow> revert + (uint256 \<times> uint256)" where
  "managerAndProtocolFee_sol Z protocolFee feeQuantity =
     and_then (preciseMul_u Z feeQuantity protocolFee) (\<lambda>protocolFeeAmount.
     and_then (um_sub Z feeQuantity protocolFeeAmount) (\<lambda>managerFeeAmount.
       Inr (managerFeeAmount, protocolFeeAmount)))"

text \<open>The multiplier \<^verbatim>\<open>_editPositionMultiplier\<close> writes.\<close>

definition newPositionMultiplier_sol :: "oz_api \<Rightarrow> int256 \<Rightarrow> uint256 \<Rightarrow> revert + int256" where
  "newPositionMultiplier_sol Z currentMultiplier inflationFee =
     and_then (um_sub Z preciseUnit inflationFee) (\<lambda>d.
     and_then (toInt256 Z d) (\<lambda>d'. preciseMul_i Z currentMultiplier d'))"

subsection \<open>Evaluation\<close>

lemma year_value [simp]: "uint ONE_YEAR_IN_SECONDS_sol = 31557600" "ONE_YEAR_IN_SECONDS_sol \<noteq> 0"
  by (simp_all add: ONE_YEAR_IN_SECONDS_sol_def)

context bignumber
begin

lemma getStreamingFee_from:
  assumes "feeStates setToken = Some st"
    and "(case streamingFee of Some fee \<Rightarrow> fee | None \<Rightarrow> streamingFeePercentage st) = bn_from B rate"
  shows "getStreamingFee B feeStates setToken (bn_from B t0) (bn_from B t1) streamingFee =
    Some (bn_from B ((t1 - t0) * rate sdiv 31557600))"
  using assms by (simp add: getStreamingFee_def num_simps)

lemma getStreamingFeeInflationAmount_from:
  "getStreamingFeeInflationAmount B (bn_from B f) (bn_from B s) =
     (if f = 10 ^ 18 then None else Some (bn_from B (f * s sdiv (10 ^ 18 - f))))"
  by (simp add: getStreamingFeeInflationAmount_def num_simps)

lemma getPostFeePositionUnits_from:
  "getPostFeePositionUnits B (map (bn_from B) us) (bn_from B f) =
     Some (map (\<lambda>u. bn_from B (if 0 \<le> u then u * (10 ^ 18 - f) sdiv 10 ^ 18
                               else away_div (u * (10 ^ 18 - f)) (10 ^ 18))) us)"
  by (induction us) (simp_all add: num_simps preciseMul_from preciseMulCeilInt_from)

end

context openzeppelin
begin

lemma calculateStreamingFee_Inr:
  assumes "calculateStreamingFee_sol Z now st = Inr c"
  shows "uint c = (uint now - uint (fs_lastStreamingFeeTimestamp st)) *
      uint (fs_streamingFeePercentage st) div 31557600"
    and "uint (fs_lastStreamingFeeTimestamp st) \<le> uint now"
proof -
  obtain t p where "um_sub Z now (fs_lastStreamingFeeTimestamp st) = Inr t"
      and "um_mul Z t (fs_streamingFeePercentage st) = Inr p" "um_div Z p ONE_YEAR_IN_SECONDS_sol = Inr c"
    using assms by (auto simp: calculateStreamingFee_sol_def)
  then have t: "uint t = uint now - uint (fs_lastStreamingFeeTimestamp st)"
      and "uint p = uint t * uint (fs_streamingFeePercentage st)" "uint c = uint p div 31557600"
    by (simp_all add: oz_Inr)
  then show "uint c = (uint now - uint (fs_lastStreamingFeeTimestamp st)) *
      uint (fs_streamingFeePercentage st) div 31557600" by simp
  show "uint (fs_lastStreamingFeeTimestamp st) \<le> uint now"
    using t uint_ge_0 [of t] by linarith
qed

lemma calculateStreamingFeeInflation_Inr:
  assumes "calculateStreamingFeeInflation_sol Z s f = Inr q"
  shows "uint f < 10 ^ 18" and "uint q = uint f * uint s div (10 ^ 18 - uint f)"
proof -
  obtain a b where "um_mul Z f s = Inr a" "um_sub Z preciseUnit f = Inr b" "um_div Z a b = Inr q"
    using assms by (auto simp: calculateStreamingFeeInflation_sol_def)
  then have a: "uint a = uint f * uint s" and b: "uint b = 10 ^ 18 - uint f"
      and nz: "b \<noteq> 0" and q: "uint q = uint a div uint b"
    by (simp_all add: oz_Inr preciseUnit_def)
  have "0 < uint b" using nz by (simp add: uint_pos)
  then show "uint f < 10 ^ 18" using b by linarith
  show "uint q = uint f * uint s div (10 ^ 18 - uint f)" using q a b by simp
qed

end

text \<open>The recipient's share of the new supply is the fee, rounded down by less than one token.\<close>

lemma inflation_share:
  fixes f s :: int
  assumes "0 \<le> f" "f < 10 ^ 18" "0 \<le> s"
  defines "q \<equiv> f * s div (10 ^ 18 - f)"
  shows "q * 10 ^ 18 \<le> f * (s + q)" and "f * (s + q + 1) < (q + 1) * 10 ^ 18"
proof -
  let ?d = "10 ^ 18 - f"
  have d: "0 < ?d" using assms by simp
  have "q * ?d \<le> f * s" and "f * s < (q + 1) * ?d"
    unfolding q_def using floor_bounds [OF d] by blast+
  then show "q * 10 ^ 18 \<le> f * (s + q)" "f * (s + q + 1) < (q + 1) * 10 ^ 18"
    by (simp_all add: algebra_simps)
qed

text \<open>After the fee the units of the enlarged supply need no more of a component than before.\<close>

lemma post_fee_collateral:
  fixes f s u :: int
  assumes "0 \<le> f" "f < 10 ^ 18" "0 \<le> s" "0 \<le> u"
  shows "(u * (10 ^ 18 - f) div 10 ^ 18) * (s + f * s div (10 ^ 18 - f)) \<le> u * s"
proof -
  let ?d = "10 ^ 18 - f" and ?q = "f * s div (10 ^ 18 - f)" and ?v = "u * (10 ^ 18 - f) div 10 ^ 18"
  have d: "0 < ?d" using assms by simp
  have q: "?q * ?d \<le> f * s"
    using floor_bounds(1) [OF d] .
  have q0: "0 \<le> ?q" using d assms by (simp add: pos_imp_zdiv_nonneg_iff)
  have v: "?v * 10 ^ 18 \<le> u * ?d"
    by (rule floor_bounds) simp
  have "?v * (s + ?q) * 10 ^ 18 \<le> u * ?d * (s + ?q)"
    using mult_right_mono [OF v, of "s + ?q"] assms q0 by (simp add: algebra_simps)
  also have "\<dots> = u * (s * ?d + ?q * ?d)" by (simp add: algebra_simps)
  also have "\<dots> \<le> u * (s * ?d + f * s)" using q assms by (intro mult_left_mono) auto
  also have "\<dots> = u * s * 10 ^ 18" by (simp add: algebra_simps)
  finally show ?thesis by simp
qed

subsection \<open>Properties\<close>

text \<open>C3: the streaming fee. When the contract's _calculateStreamingFee and
  _calculateStreamingFeeInflation return, getStreamingFee with the contract's own fee state
  and getStreamingFeeInflationAmount return the same numbers.\<close>

theorem streaming_fee_matches_contract:
  assumes "bignumber B" and "openzeppelin Z"
    and "feeStates setToken = Some st"
    and "streamingFeePercentage st = bn_from B (uint (fs_streamingFeePercentage sol))"
    and "calculateStreamingFee_sol Z now sol = Inr fee"
    and "calculateStreamingFeeInflation_sol Z supply fee = Inr quantity"
  shows "getStreamingFee B feeStates setToken
      (bn_from B (uint (fs_lastStreamingFeeTimestamp sol))) (bn_from B (uint now)) None
        = Some (bn_from B (uint fee)) \<and>
    getStreamingFeeInflationAmount B (bn_from B (uint fee)) (bn_from B (uint supply))
        = Some (bn_from B (uint quantity))"
proof -
  note fee = openzeppelin.calculateStreamingFee_Inr [OF assms(2,5)]
  note q = openzeppelin.calculateStreamingFeeInflation_Inr [OF assms(2,6)]
  have "getStreamingFee B feeStates setToken
      (bn_from B (uint (fs_lastStreamingFeeTimestamp sol))) (bn_from B (uint now)) None
        = Some (bn_from B (uint fee))"
    using fee assms(1,3,4)
    by (subst bignumber.getStreamingFee_from [where rate = "uint (fs_streamingFeePercentage sol)"])
      (auto simp: sdiv_nonneg)
  with q assms(1) show ?thesis
    by (simp add: bignumber.getStreamingFeeInflationAmount_from sdiv_nonneg)
qed

definition fee_example :: FeeState where
  "fee_example = \<lparr>fs_feeRecipient = 1, fs_maxStreamingFeePercentage = 100000000000000000,
     fs_streamingFeePercentage = 20000000000000000, fs_lastStreamingFeeTimestamp = 0\<rparr>"

definition fee_example_ts :: "int StreamingFeeState" where
  "fee_example_ts = \<lparr>feeRecipient = ''0x01'', streamingFeePercentage = 20000000000000000,
     maxStreamingFeePercentage = 100000000000000000, lastStreamingFeeTimestamp = 0\<rparr>"

theorem streaming_fee_matches_contract_witness:
  "getStreamingFee int_bn (\<lambda>_. Some fee_example_ts) ''0x02'' 0 31557600 None = Some 20000000000000000 \<and>
   getStreamingFeeInflationAmount int_bn 20000000000000000 98000000000000000000 = Some 2000000000000000000"
proof -
  have c: "calculateStreamingFee_sol checked_oz 31557600 fee_example = Inr 20000000000000000"
    by (simp add: calculateStreamingFee_sol_def fee_example_def checked_oz_eval
        ONE_YEAR_IN_SECONDS_sol_def)
  have q: "calculateStreamingFeeInflation_sol checked_oz 98000000000000000000 20000000000000000
      = Inr 2000000000000000000"
    by (simp add: calculateStreamingFeeInflation_sol_def preciseUnit_def PRECISE_UNIT_u_def
        checked_oz_eval)
  show ?thesis
    using streaming_fee_matches_contract [OF int_bn.bignumber_axioms checked_oz.openzeppelin_axioms
        _ _ c q, of "\<lambda>_. Some fee_example_ts" "''0x02''" fee_example_ts]
    by (simp add: fee_example_def fee_example_ts_def)
qed

text \<open>The share of a fee. The quantity minted for a fee below 100% is the largest one whose
  share of the enlarged supply does not exceed the fee: it never gives the recipient more, and
  one token more would.\<close>

lemma inflation_share_exact:
  assumes "bignumber B" and "0 \<le> f" "f < 10 ^ 18" "0 \<le> s"
  shows "\<exists>q. getStreamingFeeInflationAmount B (bn_from B f) (bn_from B s) = Some (bn_from B q) \<and>
    q * 10 ^ 18 \<le> f * (s + q) \<and> f * (s + q + 1) < (q + 1) * 10 ^ 18"
proof -
  have "getStreamingFeeInflationAmount B (bn_from B f) (bn_from B s) =
      Some (bn_from B (f * s div (10 ^ 18 - f)))"
    using assms by (simp add: bignumber.getStreamingFeeInflationAmount_from sdiv_nonneg)
  with inflation_share [OF assms(2-4)] show ?thesis by blast
qed

text \<open>C4: the collateral of a fee. After a fee below 100% is minted and the position units are
  reduced, the enlarged supply needs no more of any component than the old supply held, and a
  debt unit is never smaller in magnitude than its exact share.\<close>

theorem post_fee_units_collateralized:
  assumes "bignumber B" and "0 \<le> f" "f < 10 ^ 18" "0 \<le> s"
  shows "\<exists>q vs. getStreamingFeeInflationAmount B (bn_from B f) (bn_from B s) = Some (bn_from B q) \<and>
    getPostFeePositionUnits B (map (bn_from B) us) (bn_from B f) = Some (map (bn_from B) vs) \<and>
    list_all2 (\<lambda>u v. if 0 \<le> u then 0 \<le> v \<and> v * (s + q) \<le> u * s
                      else v \<le> 0 \<and> \<bar>u\<bar> * (10 ^ 18 - f) \<le> \<bar>v\<bar> * 10 ^ 18) us vs"
proof -
  let ?v = "\<lambda>u. if 0 \<le> u then u * (10 ^ 18 - f) sdiv 10 ^ 18 else away_div (u * (10 ^ 18 - f)) (10 ^ 18)"
  let ?q = "f * s div (10 ^ 18 - f)"
  have "if 0 \<le> u then 0 \<le> ?v u \<and> ?v u * (s + ?q) \<le> u * s
      else ?v u \<le> 0 \<and> \<bar>u\<bar> * (10 ^ 18 - f) \<le> \<bar>?v u\<bar> * 10 ^ 18" for u
  proof (cases "0 \<le> u")
    case True
    then show ?thesis
      using post_fee_collateral [OF assms(2-4) True] assms
      by (simp add: sdiv_nonneg pos_imp_zdiv_nonneg_iff)
  next
    case False
    let ?m = "\<bar>u\<bar> * (10 ^ 18 - f)"
    have m: "\<bar>u * (10 ^ 18 - f)\<bar> = ?m" "u * (10 ^ 18 - f) < 0"
      using False assms by (simp_all add: abs_mult mult_neg_pos)
    have "10 ^ 18 * ((?m + 10 ^ 18 - 1) div 10 ^ 18) + (?m + 10 ^ 18 - 1) mod 10 ^ 18 = ?m + 10 ^ 18 - 1"
      by (rule mult_div_mod_eq)
    then have "?m \<le> (?m + 10 ^ 18 - 1) div 10 ^ 18 * 10 ^ 18" "0 \<le> (?m + 10 ^ 18 - 1) div 10 ^ 18"
      using pos_mod_bound [of "10 ^ 18" "?m + 10 ^ 18 - 1"] assms
      by (simp_all add: pos_imp_zdiv_nonneg_iff)
    moreover have "?v u = - ((?m + 10 ^ 18 - 1) div 10 ^ 18)"
      using False m by (simp add: away_div_def)
    ultimately show ?thesis using False by simp
  qed
  then have "list_all2 (\<lambda>u v. if 0 \<le> u then 0 \<le> v \<and> v * (s + ?q) \<le> u * s
      else v \<le> 0 \<and> \<bar>u\<bar> * (10 ^ 18 - f) \<le> \<bar>v\<bar> * 10 ^ 18) us (map ?v us)"
    by (simp only: list_all2_map2 list_all2_same) blast
  moreover have "getPostFeePositionUnits B (map (bn_from B) us) (bn_from B f) =
      Some (map (bn_from B) (map ?v us))"
    using bignumber.getPostFeePositionUnits_from [OF assms(1), of us f] by (simp add: comp_def)
  moreover have "getStreamingFeeInflationAmount B (bn_from B f) (bn_from B s) = Some (bn_from B ?q)"
    using assms by (simp add: bignumber.getStreamingFeeInflationAmount_from sdiv_nonneg)
  ultimately show ?thesis by blast
qed

theorem post_fee_units_collateralized_witness:
  "\<exists>q vs. getStreamingFeeInflationAmount int_bn 20000000000000000 98 = Some q \<and>
    getPostFeePositionUnits int_bn [5, - 7] 20000000000000000 = Some vs \<and>
    list_all2 (\<lambda>u v. if 0 \<le> u then 0 \<le> v \<and> v * (98 + q) \<le> u * 98
                      else v \<le> 0 \<and> \<bar>u\<bar> * (10 ^ 18 - 20000000000000000) \<le> \<bar>v\<bar> * 10 ^ 18) [5, - 7] vs"
  by (rule post_fee_units_collateralized [OF int_bn.bignumber_axioms, of 20000000000000000 98 "[5, - 7]",
      unfolded int_bn_from int_bn_map]) simp_all

end
