(* ===== verification/NavIssuanceModuleUtils.thy ===== *)
theory NavIssuanceModuleUtils
  imports MathUtils
begin

text \<open>
  Issuance at net asset value: \<^verbatim>\<open>utils/common/navIssuanceModuleUtils.ts\<close> and the calculations of
  \<^verbatim>\<open>contracts/protocol/modules/v1/CustomOracleNAVIssuanceModule.sol\<close> it predicts. What the
  contract reads from its settings, from the Controller, the SetValuer and the SetToken (fees,
  premium, valuation, decimals, supply, multiplier) are arguments of its functions. The locale
  \<open>cross_chain\<close> joins the two arithmetic interfaces and holds the step-by-step simulation: a
  checked operation of the contract that returns is the BigNumber operation on the values.
\<close>

subsection \<open>\<^verbatim>\<open>navIssuanceModuleUtils.ts\<close>\<close>

definition getExpectedIssuePositionMultiplier :: "'b bn_api \<Rightarrow> 'b \<Rightarrow> 'b \<Rightarrow> 'b \<Rightarrow> 'b option" where
  "getExpectedIssuePositionMultiplier B previousPositionMultiplier previousSupply currentSupply = do {
     inflation \<leftarrow> preciseDivCeil B (bn_sub B currentSupply previousSupply) currentSupply;
     preciseMul B previousPositionMultiplier (bn_sub B (PRECISE_UNIT B) inflation)
   }"

definition getExpectedPostFeeQuantity :: "'b bn_api \<Rightarrow> 'b \<Rightarrow> 'b \<Rightarrow> 'b \<Rightarrow> 'b option" where
  "getExpectedPostFeeQuantity B quantity managerFeePercentage protocolDirectFeePercentage = do {
     managerFees \<leftarrow> preciseMul B quantity managerFeePercentage;
     protocolDirectFees \<leftarrow> preciseMul B quantity protocolDirectFeePercentage;
     Some (bn_sub B (bn_sub B quantity managerFees) protocolDirectFees)
   }"

text \<open>\<open>calculateSetTokenValuation\<close> and \<open>totalSupply\<close> are the two contract getters that are awaited.\<close>

definition getExpectedSetTokenIssueQuantity ::
  "'b bn_api \<Rightarrow> (string \<Rightarrow> string \<Rightarrow> 'b option) \<Rightarrow> (string \<Rightarrow> 'b option) \<Rightarrow> string \<Rightarrow> string \<Rightarrow>
   'b \<Rightarrow> 'b \<Rightarrow> 'b \<Rightarrow> 'b \<Rightarrow> 'b \<Rightarrow> 'b option"
where
  "getExpectedSetTokenIssueQuantity B calculateSetTokenValuation totalSupply setToken reserveAsset
     reserveAssetBaseUnits reserveAssetQuantity managerFeePercentage protocolDirectFeePercentage
     premiumPercentage = do {
     setTokenValuation \<leftarrow> calculateSetTokenValuation setToken reserveAsset;
     setTokenSupply \<leftarrow> totalSupply setToken;
     reserveQuantitySubFees \<leftarrow> getExpectedPostFeeQuantity B reserveAssetQuantity
       managerFeePercentage protocolDirectFeePercentage;
     premium \<leftarrow> preciseMul B reserveQuantitySubFees premiumPercentage;
     let reserveQuantitySubFeesAndPremium = bn_sub B reserveQuantitySubFees premium;
     normalizedReserveQuantitySubFees \<leftarrow> preciseDiv B reserveQuantitySubFees reserveAssetBaseUnits;
     normalizedReserveQuantitySubFeesAndPremium \<leftarrow>
       preciseDiv B reserveQuantitySubFeesAndPremium reserveAssetBaseUnits;
     value \<leftarrow> preciseMul B setTokenSupply setTokenValuation;
     let denominator = bn_sub B (bn_add B value normalizedReserveQuantitySubFees)
       normalizedReserveQuantitySubFeesAndPremium;
     numerator \<leftarrow> preciseMul B normalizedReserveQuantitySubFeesAndPremium setTokenSupply;
     preciseDiv B numerator denominator
   }"

definition getExpectedIssuePositionUnit ::
  "'b bn_api \<Rightarrow> 'b \<Rightarrow> 'b \<Rightarrow> 'b \<Rightarrow> 'b \<Rightarrow> 'b \<Rightarrow> 'b \<Rightarrow> 'b \<Rightarrow> 'b option"
where
  "getExpectedIssuePositionUnit B previousUnits issueQuantity previousSupply currentSupply
     newPositionMultiplier managerFeePercentage protocolDirectFeePercentage = do {
     issueQuantitySubFees \<leftarrow> getExpectedPostFeeQuantity B issueQuantity managerFeePercentage
       protocolDirectFeePercentage;
     existing \<leftarrow> preciseMul B previousSupply previousUnits;
     let numerator = bn_add B existing issueQuantitySubFees;
     newPositionUnit \<leftarrow> preciseDiv B numerator currentSupply;
     roundDownPositionUnit \<leftarrow> preciseMul B newPositionUnit newPositionMultiplier;
     preciseDiv B roundDownPositionUnit newPositionMultiplier
   }"

definition getExpectedReserveRedeemQuantity ::
  "'b bn_api \<Rightarrow> 'b \<Rightarrow> 'b \<Rightarrow> 'b \<Rightarrow> 'b \<Rightarrow> 'b \<Rightarrow> 'b \<Rightarrow> 'b option"
where
  "getExpectedReserveRedeemQuantity B setTokenQuantityToRedeem setTokenValuation
     reserveAssetBaseUnits managerFeePercentage protocolDirectFeePercentage premiumPercentage = do {
     totalNotionalReserveQuantity \<leftarrow> preciseMul B setTokenValuation setTokenQuantityToRedeem;
     totalPremium \<leftarrow> preciseMulCeil B totalNotionalReserveQuantity premiumPercentage;
     totalNotionalReserveQuantitySubFees \<leftarrow> getExpectedPostFeeQuantity B
       (bn_sub B totalNotionalReserveQuantity totalPremium) managerFeePercentage
       protocolDirectFeePercentage;
     preciseMul B totalNotionalReserveQuantitySubFees reserveAssetBaseUnits
   }"

definition getExpectedRedeemPositionMultiplier :: "'b bn_api \<Rightarrow> 'b \<Rightarrow> 'b \<Rightarrow> 'b \<Rightarrow> 'b option" where
  "getExpectedRedeemPositionMultiplier B previousPositionMultiplier previousSupply currentSupply = do {
     deflation \<leftarrow> preciseDiv B (bn_sub B previousSupply currentSupply) currentSupply;
     preciseMul B previousPositionMultiplier (bn_add B (PRECISE_UNIT B) deflation)
   }"

text \<open>The two fee percentages are parameters of the source function that it does not read.\<close>

definition getExpectedRedeemPositionUnit ::
  "'b bn_api \<Rightarrow> 'b \<Rightarrow> 'b \<Rightarrow> 'b \<Rightarrow> 'b \<Rightarrow> 'b \<Rightarrow> 'b \<Rightarrow> 'b \<Rightarrow> 'b \<Rightarrow> 'b \<Rightarrow> 'b \<Rightarrow> 'b option"
where
  "getExpectedRedeemPositionUnit B previousUnits setTokenQuantityToRedeem setTokenValuation
     reserveAssetBaseUnits previousSupply currentSupply newPositionMultiplier managerFeePercentage
     protocolDirectFeePercentage premiumPercentage = do {
     totalNotionalReserveQuantity \<leftarrow> preciseMul B setTokenValuation setTokenQuantityToRedeem;
     totalPremium \<leftarrow> preciseMulCeil B totalNotionalReserveQuantity premiumPercentage;
     totalReserveBalance \<leftarrow> preciseMul B (bn_sub B totalNotionalReserveQuantity totalPremium)
       reserveAssetBaseUnits;
     existing \<leftarrow> preciseMul B previousSupply previousUnits;
     let numerator = bn_sub B existing totalReserveBalance;
     newPositionUnit \<leftarrow> preciseDiv B numerator currentSupply;
     roundDownPositionUnit \<leftarrow> preciseMul B newPositionUnit newPositionMultiplier;
     preciseDiv B roundDownPositionUnit newPositionMultiplier
   }"

subsection \<open>\<^verbatim>\<open>CustomOracleNAVIssuanceModule.sol\<close>\<close>

text \<open>The fee percentages of one direction (issue or redeem), as the contract reads them.\<close>

record nav_fees =
  protocolDirectFeePercent :: uint256
  protocolManagerShareFeePercent :: uint256
  managerFeePercent :: uint256

definition getProtocolAndManagerFeePercentages_sol ::
  "oz_api \<Rightarrow> nav_fees \<Rightarrow> revert + (uint256 \<times> uint256)"
where
  "getProtocolAndManagerFeePercentages_sol Z fs =
     and_then (preciseMul_u Z (protocolManagerShareFeePercent fs) (managerFeePercent fs))
       (\<lambda>protocolRevenueSharePercentage.
     and_then (um_sub Z (managerFeePercent fs) protocolRevenueSharePercentage)
       (\<lambda>managerRevenueSharePercentage.
     and_then (um_add Z protocolRevenueSharePercentage (protocolDirectFeePercent fs))
       (\<lambda>totalProtocolFeePercentage.
       Inr (totalProtocolFeePercentage, managerRevenueSharePercentage))))"

definition getFees_sol :: "oz_api \<Rightarrow> nav_fees \<Rightarrow> uint256 \<Rightarrow> revert + (uint256 \<times> uint256 \<times> uint256)" where
  "getFees_sol Z fs reserveAssetQuantity =
     and_then (getProtocolAndManagerFeePercentages_sol Z fs) (\<lambda>(protocolFeePercentage, managerFeePercentage).
     and_then (preciseMul_u Z protocolFeePercentage reserveAssetQuantity) (\<lambda>protocolFees.
     and_then (preciseMul_u Z managerFeePercentage reserveAssetQuantity) (\<lambda>managerFee.
     and_then (um_sub Z reserveAssetQuantity protocolFees) (\<lambda>r.
     and_then (um_sub Z r managerFee) (\<lambda>netReserveFlow.
       Inr (protocolFees, managerFee, netReserveFlow))))))"

text \<open>\<^verbatim>\<open>10 ** decimals\<close> is the unchecked power of the word.\<close>

definition getSetTokenMintQuantity_sol ::
  "oz_api \<Rightarrow> uint256 \<Rightarrow> uint256 \<Rightarrow> uint256 \<Rightarrow> uint256 \<Rightarrow> uint256 \<Rightarrow> revert + uint256"
where
  "getSetTokenMintQuantity_sol Z premiumPercentage setTokenValuation reserveAssetDecimals
     netReserveFlows setTotalSupply =
     and_then (preciseMul_u Z netReserveFlows premiumPercentage) (\<lambda>premiumValue.
     and_then (preciseDiv_u Z netReserveFlows (10 ^ unat reserveAssetDecimals)) (\<lambda>netFees.
     and_then (um_sub Z netReserveFlows premiumValue) (\<lambda>r.
     and_then (preciseDiv_u Z r (10 ^ unat reserveAssetDecimals)) (\<lambda>netFeesAndPremium.
     and_then (preciseMul_u Z setTotalSupply setTokenValuation) (\<lambda>v.
     and_then (um_add Z v netFees) (\<lambda>d.
     and_then (um_sub Z d netFeesAndPremium) (\<lambda>denominator.
     and_then (preciseMul_u Z netFeesAndPremium setTotalSupply) (\<lambda>n.
       preciseDiv_u Z n denominator))))))))"

definition getExpectedSetTokenIssueQuantity_sol ::
  "oz_api \<Rightarrow> nav_fees \<Rightarrow> uint256 \<Rightarrow> uint256 \<Rightarrow> uint256 \<Rightarrow> uint256 \<Rightarrow> uint256 \<Rightarrow> revert + uint256"
where
  "getExpectedSetTokenIssueQuantity_sol Z fs premiumPercentage setTokenValuation
     reserveAssetDecimals setTotalSupply reserveAssetQuantity =
     and_then (getFees_sol Z fs reserveAssetQuantity) (\<lambda>(_, _, netReserveFlow).
       getSetTokenMintQuantity_sol Z premiumPercentage setTokenValuation reserveAssetDecimals
         netReserveFlow setTotalSupply)"

definition getRedeemReserveQuantity_sol ::
  "oz_api \<Rightarrow> uint256 \<Rightarrow> uint256 \<Rightarrow> uint256 \<Rightarrow> uint256 \<Rightarrow> revert + uint256"
where
  "getRedeemReserveQuantity_sol Z premiumPercentage setTokenValuation reserveAssetDecimals
     setTokenQuantity =
     and_then (preciseMul_u Z setTokenQuantity setTokenValuation) (\<lambda>totalRedeemValueInPreciseUnits.
     and_then (preciseMul_u Z totalRedeemValueInPreciseUnits (10 ^ unat reserveAssetDecimals))
       (\<lambda>prePremiumReserveQuantity.
     and_then (preciseMulCeil_u Z prePremiumReserveQuantity premiumPercentage) (\<lambda>premiumQuantity.
       um_sub Z prePremiumReserveQuantity premiumQuantity)))"

definition getExpectedReserveRedeemQuantity_sol ::
  "oz_api \<Rightarrow> nav_fees \<Rightarrow> uint256 \<Rightarrow> uint256 \<Rightarrow> uint256 \<Rightarrow> uint256 \<Rightarrow> revert + uint256"
where
  "getExpectedReserveRedeemQuantity_sol Z fs premiumPercentage setTokenValuation
     reserveAssetDecimals setTokenQuantity =
     and_then (getRedeemReserveQuantity_sol Z premiumPercentage setTokenValuation
       reserveAssetDecimals setTokenQuantity) (\<lambda>preFeeReserveQuantity.
     and_then (getFees_sol Z fs preFeeReserveQuantity) (\<lambda>(_, _, netReserveFlows).
       Inr netReserveFlows))"

definition getIssuePositionMultiplier_sol ::
  "oz_api \<Rightarrow> int256 \<Rightarrow> uint256 \<Rightarrow> uint256 \<Rightarrow> revert + (uint256 \<times> int256)"
where
  "getIssuePositionMultiplier_sol Z positionMultiplier setTokenQuantity previousSetTokenSupply =
     and_then (um_add Z setTokenQuantity previousSetTokenSupply) (\<lambda>newTotalSupply.
     and_then (toInt256 Z previousSetTokenSupply) (\<lambda>p.
     and_then (im_mul Z positionMultiplier p) (\<lambda>m.
     and_then (toInt256 Z newTotalSupply) (\<lambda>n.
     and_then (im_div Z m n) (\<lambda>newPositionMultiplier.
       Inr (newTotalSupply, newPositionMultiplier))))))"

definition MAX_POSITION_MULTIPLIER :: int256 where
  "MAX_POSITION_MULTIPLIER = 100000000000000000000"

definition getRedeemPositionMultiplier_sol ::
  "oz_api \<Rightarrow> int256 \<Rightarrow> uint256 \<Rightarrow> uint256 \<Rightarrow> revert + (uint256 \<times> int256)"
where
  "getRedeemPositionMultiplier_sol Z positionMultiplier setTokenQuantity previousSetTokenSupply =
     and_then (um_sub Z previousSetTokenSupply setTokenQuantity) (\<lambda>newTotalSupply.
     and_then (toInt256 Z previousSetTokenSupply) (\<lambda>p.
     and_then (im_mul Z positionMultiplier p) (\<lambda>m.
     and_then (toInt256 Z newTotalSupply) (\<lambda>n.
     and_then (im_div Z m n) (\<lambda>newPositionMultiplier.
     and_then (require (sint newPositionMultiplier \<le> sint MAX_POSITION_MULTIPLIER)
         ''New position multiplier must not exceed max'') (\<lambda>_.
       Inr (newTotalSupply, newPositionMultiplier)))))))"

subsection \<open>Simulation of the contract's arithmetic by BigNumber arithmetic\<close>

locale cross_chain = bignumber B + openzeppelin Z
  for B :: "'b bn_api" and Z :: oz_api
begin

lemma sim_add: "um_add Z a b = Inr c \<Longrightarrow> bn_add B (bn_from B (uint a)) (bn_from B (uint b)) = bn_from B (uint c)"
  by (simp add: oz_Inr add_from)

lemma sim_sub: "um_sub Z a b = Inr c \<Longrightarrow> bn_sub B (bn_from B (uint a)) (bn_from B (uint b)) = bn_from B (uint c)"
  by (simp add: oz_Inr sub_from)

lemma sim_mul:
  assumes "preciseMul_u Z a b = Inr c"
  shows "preciseMul B (bn_from B (uint a)) (bn_from B (uint b)) = Some (bn_from B (uint c))"
    and "preciseMul B (bn_from B (uint b)) (bn_from B (uint a)) = Some (bn_from B (uint c))"
  using assms by (simp_all add: preciseMul_u_Inr preciseMul_from sdiv_nonneg mult.commute)

lemma sim_mulCeil:
  "preciseMulCeil_u Z a b = Inr c \<Longrightarrow>
   preciseMulCeil B (bn_from B (uint a)) (bn_from B (uint b)) = Some (bn_from B (uint c))"
  by (simp add: preciseMulCeil_u_Inr preciseMulCeil_from)

lemma sim_div:
  "preciseDiv_u Z a b = Inr c \<Longrightarrow>
   preciseDiv B (bn_from B (uint a)) (bn_from B (uint b)) = Some (bn_from B (uint c))"
  by (simp add: preciseDiv_u_Inr preciseDiv_from sdiv_nonneg)

lemmas sim = sim_add sim_sub sim_mul sim_mulCeil sim_div

text \<open>The fees: the two sides subtract them in a different order.\<close>

lemma sim_fees:
  assumes "getProtocolAndManagerFeePercentages_sol Z fs = Inr (p, m)"
    and "getFees_sol Z fs q = Inr (pf, mf, net)"
  shows "getExpectedPostFeeQuantity B (bn_from B (uint q)) (bn_from B (uint m)) (bn_from B (uint p))
    = Some (bn_from B (uint net))"
proof -
  obtain r where "preciseMul_u Z p q = Inr pf" "preciseMul_u Z m q = Inr mf"
      and "um_sub Z q pf = Inr r" "um_sub Z r mf = Inr net"
    using assms by (auto simp: getFees_sol_def)
  then show ?thesis
    by (simp add: getExpectedPostFeeQuantity_def sim_mul oz_Inr sub_from diff_right_commute)
qed

lemma sim_issue:
  assumes "getProtocolAndManagerFeePercentages_sol Z fs = Inr (p, m)"
    and "getExpectedSetTokenIssueQuantity_sol Z fs premium valuation decimals supply q = Inr c"
    and "calculateSetTokenValuation setToken reserveAsset = Some (bn_from B (uint valuation))"
    and "totalSupply setToken = Some (bn_from B (uint supply))"
  shows "getExpectedSetTokenIssueQuantity B calculateSetTokenValuation totalSupply setToken reserveAsset
      (bn_from B (uint ((10 :: uint256) ^ unat decimals))) (bn_from B (uint q))
      (bn_from B (uint m)) (bn_from B (uint p)) (bn_from B (uint premium))
    = Some (bn_from B (uint c))"
proof -
  obtain pf mf net where fees: "getFees_sol Z fs q = Inr (pf, mf, net)"
      and mint: "getSetTokenMintQuantity_sol Z premium valuation decimals net supply = Inr c"
    using assms(2) by (auto simp: getExpectedSetTokenIssueQuantity_sol_def)
  from mint obtain pv nf r nfp v d den n where
      "preciseMul_u Z net premium = Inr pv" "preciseDiv_u Z net (10 ^ unat decimals) = Inr nf"
      "um_sub Z net pv = Inr r" "preciseDiv_u Z r (10 ^ unat decimals) = Inr nfp"
      "preciseMul_u Z supply valuation = Inr v" "um_add Z v nf = Inr d" "um_sub Z d nfp = Inr den"
      "preciseMul_u Z nfp supply = Inr n" "preciseDiv_u Z n den = Inr c"
    by (auto simp: getSetTokenMintQuantity_sol_def)
  then show ?thesis
    using assms(3,4) sim_fees [OF assms(1) fees]
    by (simp add: getExpectedSetTokenIssueQuantity_def sim)
qed

lemma sim_redeem_18:
  assumes "getProtocolAndManagerFeePercentages_sol Z fs = Inr (p, m)"
    and "getExpectedReserveRedeemQuantity_sol Z fs premium valuation 18 q = Inr c"
  shows "getExpectedReserveRedeemQuantity B (bn_from B (uint q)) (bn_from B (uint valuation))
      (bn_from B (10 ^ 18)) (bn_from B (uint m)) (bn_from B (uint p)) (bn_from B (uint premium))
    = Some (bn_from B (uint c))"
proof -
  have unit: "uint ((10 :: uint256) ^ unat (18 :: uint256)) = 10 ^ 18" by simp
  obtain pre pf mf where redeem: "getRedeemReserveQuantity_sol Z premium valuation 18 q = Inr pre"
      and fees: "getFees_sol Z fs pre = Inr (pf, mf, c)"
    using assms(2) by (auto simp: getExpectedReserveRedeemQuantity_sol_def)
  from redeem obtain t v pq where t: "preciseMul_u Z q valuation = Inr t"
      and v: "preciseMul_u Z t (10 ^ unat (18 :: uint256)) = Inr v"
      and pq: "preciseMulCeil_u Z v premium = Inr pq" and pre: "um_sub Z v pq = Inr pre"
    by (auto simp: getRedeemReserveQuantity_sol_def)
  have "uint v = uint t" using v unit by (simp add: preciseMul_u_Inr)
  then have "v = t" by (rule unsigned_word_eqI)
  then show ?thesis
    using sim_mul(2) [OF t] sim_mulCeil [OF pq] sim_sub [OF pre] sim_fees [OF assms(1) fees]
    by (simp add: getExpectedReserveRedeemQuantity_def preciseMul_from sdiv_nonneg)
qed

end

interpretation int_checked: cross_chain int_bn checked_oz
  by unfold_locales

subsection \<open>The position multiplier\<close>

text \<open>
  The TypeScript side rounds twice: the ratio of the supplies to 18 decimals, then the product.
\<close>

definition twice_rounded :: "int \<Rightarrow> int \<Rightarrow> int \<Rightarrow> int" where
  "twice_rounded m s n = m * (s * 10 ^ 18 div n) div 10 ^ 18"

lemma unit_minus_ceil:
  fixes s n :: int
  assumes "0 < n"
  shows "10 ^ 18 - ((n - s) * 10 ^ 18 + n - 1) div n = s * 10 ^ 18 div n"
proof -
  have "((n - s) * 10 ^ 18 + n - 1) div n = (10 ^ 18 * n + (n - 1 - s * 10 ^ 18)) div n"
    by (simp add: algebra_simps)
  also have "\<dots> = 10 ^ 18 + (n - 1 - s * 10 ^ 18) div n"
    using assms by (subst div_mult_self3) auto
  also have "(n - 1 - s * 10 ^ 18) div n = - (s * 10 ^ 18 div n)"
  proof -
    let ?x = "s * 10 ^ 18"
    have "n * (?x div n) + ?x mod n = ?x" by (rule mult_div_mod_eq)
    then have "n - 1 - ?x = n * (- (?x div n)) + (n - 1 - ?x mod n)"
      unfolding mult_minus_right by linarith
    then show ?thesis
      using pos_mod_bound [OF assms, of ?x] pos_mod_sign [OF assms, of ?x]
      by (intro int_div_pos_eq [where r = "n - 1 - ?x mod n"]) linarith+
  qed
  finally show ?thesis by simp
qed

lemma twice_rounded_bounds:
  fixes m s n :: int
  assumes "0 \<le> m" "0 \<le> s" "0 < n"
  shows "twice_rounded m s n \<le> m * s div n"
    and "(m * s div n - twice_rounded m s n - 1) * 10 ^ 18 < m + 1"
proof -
  let ?r = "s * 10 ^ 18 div n" and ?t = "twice_rounded m s n" and ?c = "m * s div n"
  have r: "?r * n \<le> s * 10 ^ 18" "s * 10 ^ 18 < (?r + 1) * n"
    using floor_bounds [OF assms(3)] by blast+
  have t: "?t * 10 ^ 18 \<le> m * ?r" "m * ?r < (?t + 1) * 10 ^ 18"
    unfolding twice_rounded_def by (simp_all only: floor_bounds zero_less_power zero_less_numeral)
  have c: "?c * n \<le> m * s"
    using floor_bounds [OF assms(3)] by blast
  have "?t * n * 10 ^ 18 \<le> m * ?r * n"
    using mult_right_mono [OF t(1), of n] assms by (simp add: algebra_simps)
  also have "\<dots> \<le> m * (s * 10 ^ 18)"
    using mult_left_mono [OF r(1) assms(1)] by (simp add: algebra_simps)
  finally have "?t * n \<le> m * s" by simp
  then show "?t \<le> ?c" using zdiv_mono1 [of "?t * n" "m * s" n] assms by simp
  have "?c * n * 10 ^ 18 \<le> m * (s * 10 ^ 18)" using c by simp
  also have "\<dots> \<le> m * ((?r + 1) * n)" using r(2) assms by (intro mult_left_mono) auto
  also have "\<dots> = (m * ?r + m) * n" by (simp add: algebra_simps)
  finally have "?c * 10 ^ 18 * n \<le> (m * ?r + m) * n" by (simp add: algebra_simps)
  then have "?c * 10 ^ 18 \<le> m * ?r + m" using assms by simp
  with t(2) show "(?c - ?t - 1) * 10 ^ 18 < m + 1" by (simp add: algebra_simps)
qed

context bignumber
begin

lemma issue_multiplier_from:
  assumes "0 < s" "s \<le> n"
  shows "getExpectedIssuePositionMultiplier B (bn_from B m) (bn_from B s) (bn_from B n) =
    Some (bn_from B (m * (s * 10 ^ 18 div n) sdiv 10 ^ 18))"
proof -
  have "10 ^ 18 - ((n - s) * 10 ^ 18 + n - 1) div n = s * 10 ^ 18 div n"
    using assms by (intro unit_minus_ceil) auto
  then show ?thesis
    using assms by (simp add: getExpectedIssuePositionMultiplier_def num_simps math_simps)
qed

lemma redeem_multiplier_from:
  assumes "0 < n" "n \<le> s"
  shows "getExpectedRedeemPositionMultiplier B (bn_from B m) (bn_from B s) (bn_from B n) =
    Some (bn_from B (m * (s * 10 ^ 18 div n) sdiv 10 ^ 18))"
proof -
  have "10 ^ 18 + (s - n) * 10 ^ 18 div n = (10 ^ 18 * n + (s - n) * 10 ^ 18) div n"
    using assms by (subst div_mult_self3) auto
  also have "10 ^ 18 * n + (s - n) * 10 ^ 18 = s * 10 ^ 18" by (simp add: algebra_simps)
  finally show ?thesis
    using assms by (simp add: getExpectedRedeemPositionMultiplier_def num_simps math_simps sdiv_nonneg)
qed

end

context openzeppelin
begin

lemma issue_multiplier_Inr:
  assumes "getIssuePositionMultiplier_sol Z m q s = Inr (n, m')"
  shows "uint n = uint q + uint s" and "n \<noteq> 0" and "sint m' = sint m * uint s sdiv uint n"
proof -
  obtain p x y where "um_add Z q s = Inr n" "toInt256 Z s = Inr p" "im_mul Z m p = Inr x"
      "toInt256 Z n = Inr y" "im_div Z x y = Inr m'"
    using assms by (auto simp: getIssuePositionMultiplier_sol_def)
  then show "uint n = uint q + uint s" "n \<noteq> 0" "sint m' = sint m * uint s sdiv uint n"
    by (auto simp: oz_Inr)
qed

lemma redeem_multiplier_Inr:
  assumes "getRedeemPositionMultiplier_sol Z m q s = Inr (n, m')"
  shows "uint n = uint s - uint q" and "n \<noteq> 0" and "sint m' = sint m * uint s sdiv uint n"
    and "sint m' \<le> 10 ^ 20"
proof -
  obtain p x y where "um_sub Z s q = Inr n" "toInt256 Z s = Inr p" "im_mul Z m p = Inr x"
      "toInt256 Z n = Inr y" "im_div Z x y = Inr m'"
      and cap: "sint m' \<le> sint MAX_POSITION_MULTIPLIER"
    using assms by (auto simp: getRedeemPositionMultiplier_sol_def)
  then show "uint n = uint s - uint q" "n \<noteq> 0" "sint m' = sint m * uint s sdiv uint n"
    by (auto simp: oz_Inr)
  show "sint m' \<le> 10 ^ 20" using cap by (simp add: MAX_POSITION_MULTIPLIER_def)
qed

end

subsection \<open>Properties\<close>

text \<open>Net-asset-value issuance. When the contract's getExpectedSetTokenIssueQuantity returns,
  the TypeScript prediction, given the same valuation and supply, the contract's fee split and
  the reserve asset's base unit, is the same number of SetTokens.\<close>

lemma nav_issue_matches_contract:
  assumes "bignumber B" and "openzeppelin Z"
    and "getProtocolAndManagerFeePercentages_sol Z fs = Inr (p, m)"
    and "getExpectedSetTokenIssueQuantity_sol Z fs premium valuation decimals supply q = Inr c"
    and "calculateSetTokenValuation setToken reserveAsset = Some (bn_from B (uint valuation))"
    and "totalSupply setToken = Some (bn_from B (uint supply))"
  shows "getExpectedSetTokenIssueQuantity B calculateSetTokenValuation totalSupply setToken reserveAsset
      (bn_from B (uint ((10 :: uint256) ^ unat decimals))) (bn_from B (uint q))
      (bn_from B (uint m)) (bn_from B (uint p)) (bn_from B (uint premium))
    = Some (bn_from B (uint c))"
  using cross_chain.sim_issue [where calculateSetTokenValuation = calculateSetTokenValuation
      and totalSupply = totalSupply and setToken = setToken and reserveAsset = reserveAsset,
      OF cross_chain.intro [OF assms(1,2)] assms(3-6)] .

definition nav_fees_example :: nav_fees where
  "nav_fees_example = \<lparr>protocolDirectFeePercent = 1000000000000000,
     protocolManagerShareFeePercent = 100000000000000000, managerFeePercent = 2000000000000000\<rparr>"

lemma nav_fees_example_split:
  "getProtocolAndManagerFeePercentages_sol checked_oz nav_fees_example = Inr (1200000000000000, 1800000000000000)"
  by (simp add: getProtocolAndManagerFeePercentages_sol_def nav_fees_example_def preciseMul_u_def
      PRECISE_UNIT_u_def checked_oz_eval del: and_then_eq_Inr)

text \<open>C5: net-asset-value redemption with a reserve asset of 18 decimals. When the contract's
  getExpectedReserveRedeemQuantity returns, the TypeScript prediction is the same number.\<close>

theorem nav_redeem_matches_contract:
  assumes "bignumber B" and "openzeppelin Z"
    and "getProtocolAndManagerFeePercentages_sol Z fs = Inr (p, m)"
    and "getExpectedReserveRedeemQuantity_sol Z fs premium valuation 18 q = Inr c"
  shows "getExpectedReserveRedeemQuantity B (bn_from B (uint q)) (bn_from B (uint valuation))
      (bn_from B (10 ^ 18)) (bn_from B (uint m)) (bn_from B (uint p)) (bn_from B (uint premium))
    = Some (bn_from B (uint c))"
  using cross_chain.sim_redeem_18 [OF cross_chain.intro [OF assms(1,2)] assms(3,4)] .

theorem nav_redeem_matches_contract_witness:
  "getExpectedReserveRedeemQuantity int_bn 3000000000000000000 2000000000000000000 (10 ^ 18)
     1800000000000000 1200000000000000 5000000000000000 = Some 5952090000000000000"
proof -
  have redeem: "getExpectedReserveRedeemQuantity_sol checked_oz nav_fees_example 5000000000000000
      2000000000000000000 18 3000000000000000000 = Inr 5952090000000000000"
    by (simp add: getExpectedReserveRedeemQuantity_sol_def getRedeemReserveQuantity_sol_def getFees_sol_def
        nav_fees_example_split preciseMul_u_def preciseMulCeil_u_def PRECISE_UNIT_u_def
        checked_oz_eval del: and_then_eq_Inr)
  show ?thesis
    using nav_redeem_matches_contract [OF int_bn.bignumber_axioms checked_oz.openzeppelin_axioms
        nav_fees_example_split redeem] by simp
qed

text \<open>With a reserve asset of 6 decimals the two sides of a redemption round at different
  places and differ: the contract converts to the asset's base units before it takes the
  premium, the TypeScript prediction after it, so for a value just under two base units with a
  premium of half a percent the contract pays nothing and one base unit is predicted.\<close>

lemma nav_redeem_six_decimals_differ:
  "getExpectedReserveRedeemQuantity_sol checked_oz
     \<lparr>protocolDirectFeePercent = 0, protocolManagerShareFeePercent = 0, managerFeePercent = 0\<rparr>
     5000000000000000 1000000000000000000 6 1999999999999 = Inr 0 \<and>
   getExpectedReserveRedeemQuantity int_bn 1999999999999 1000000000000000000 1000000 0 0 5000000000000000
     = Some 1"
  by (simp add: getExpectedReserveRedeemQuantity_sol_def getRedeemReserveQuantity_sol_def getFees_sol_def
      getProtocolAndManagerFeePercentages_sol_def preciseMul_u_def preciseMulCeil_u_def PRECISE_UNIT_u_def
      checked_oz_eval getExpectedReserveRedeemQuantity_def getExpectedPostFeeQuantity_def
      preciseMul_def preciseMulCeil_def PRECISE_UNIT_def ZERO_def int_bn_def sdiv_nonneg
      del: and_then_eq_Inr option_bind_Some)

text \<open>C9: the position multiplier. For a non-negative multiplier, whenever the contract computes
  the multiplier of an issuance or of a redemption, the TypeScript prediction is not above it
  and falls short of it by at most the multiplier over 10^18, rounded up to the next unit; a
  redemption's multiplier never exceeds 10^20.\<close>

theorem multiplier_prediction_bounds:
  assumes "bignumber B" and "openzeppelin Z" and "0 \<le> sint m" and "0 < uint s"
  shows "(getIssuePositionMultiplier_sol Z m q s = Inr (n, m') \<longrightarrow>
      (\<exists>t. getExpectedIssuePositionMultiplier B (bn_from B (sint m)) (bn_from B (uint s)) (bn_from B (uint n))
           = Some (bn_from B t) \<and> t \<le> sint m' \<and> (sint m' - t - 1) * 10 ^ 18 < sint m + 1)) \<and>
    (getRedeemPositionMultiplier_sol Z m q s = Inr (n, m') \<longrightarrow> sint m' \<le> 10 ^ 20 \<and>
      (\<exists>t. getExpectedRedeemPositionMultiplier B (bn_from B (sint m)) (bn_from B (uint s)) (bn_from B (uint n))
           = Some (bn_from B t) \<and> t \<le> sint m' \<and> (sint m' - t - 1) * 10 ^ 18 < sint m + 1))"
proof (intro conjI impI)
  have ratio: "sint m * (uint s * 10 ^ 18 div uint k) sdiv 10 ^ 18 = twice_rounded (sint m) (uint s) (uint k)"
      "sint m * uint s sdiv uint k = sint m * uint s div uint k" for k :: uint256
    using assms(3) by (simp_all add: sdiv_nonneg twice_rounded_def div_int_nonneg)
  note bounds = twice_rounded_bounds [OF assms(3), of "uint s" "uint n"]
  { assume "getIssuePositionMultiplier_sol Z m q s = Inr (n, m')"
    note c = openzeppelin.issue_multiplier_Inr [OF assms(2) this]
    have "0 < uint n" "uint s \<le> uint n" using c(2) uint_pos [of n] uint_ge_0 [of q] unfolding c(1) by simp_all
    with c bounds assms(1,4) ratio [of n]
    show "\<exists>t. getExpectedIssuePositionMultiplier B (bn_from B (sint m)) (bn_from B (uint s)) (bn_from B (uint n))
        = Some (bn_from B t) \<and> t \<le> sint m' \<and> (sint m' - t - 1) * 10 ^ 18 < sint m + 1"
      by (intro exI [where x = "twice_rounded (sint m) (uint s) (uint n)"])
        (simp add: bignumber.issue_multiplier_from) }
  { assume "getRedeemPositionMultiplier_sol Z m q s = Inr (n, m')"
    note c = openzeppelin.redeem_multiplier_Inr [OF assms(2) this]
    show "sint m' \<le> 10 ^ 20" by (rule c(4))
    have "0 < uint n" "uint n \<le> uint s" using c(2) uint_pos [of n] uint_ge_0 [of q] unfolding c(1) by simp_all
    with c(1-3) bounds assms(1) ratio [of n]
    show "\<exists>t. getExpectedRedeemPositionMultiplier B (bn_from B (sint m)) (bn_from B (uint s)) (bn_from B (uint n))
        = Some (bn_from B t) \<and> t \<le> sint m' \<and> (sint m' - t - 1) * 10 ^ 18 < sint m + 1"
      by (intro exI [where x = "twice_rounded (sint m) (uint s) (uint n)"])
        (simp add: bignumber.redeem_multiplier_from) }
qed

theorem multiplier_prediction_bounds_witness:
  "\<exists>t. getExpectedIssuePositionMultiplier int_bn 1000000000000000000 2 3 = Some t \<and>
     t \<le> 666666666666666666 \<and> (666666666666666666 - t - 1) * 10 ^ 18 < 1000000000000000001"
proof -
  have "getIssuePositionMultiplier_sol checked_oz 1000000000000000000 1 2 = Inr (3, 666666666666666666)"
    by (simp add: getIssuePositionMultiplier_sol_def checked_oz_eval sdiv_nonneg
        del: and_then_eq_Inr)
  then show ?thesis
    using multiplier_prediction_bounds [OF int_bn.bignumber_axioms checked_oz.openzeppelin_axioms,
        of 1000000000000000000 2 1 3 666666666666666666] by simp
qed

end
