(* ===== verification/UniswapUtils.thy ===== *)
theory UniswapUtils
  imports MathUtils
begin

text \<open>
  \<^verbatim>\<open>utils/common/uniswapUtils.ts\<close>: the predictions for a Uniswap V2 pool. A contract handle is
  the record of the view functions the code calls on it, each \<open>None\<close> when the call fails.

  JavaScript's operators are written out: \<^verbatim>\<open><\<close> and \<^verbatim>\<open>>\<close> on two BigNumber objects convert both to
  a primitive, which for these objects is \<^verbatim>\<open>toString()\<close>, and compare the decimal spellings as
  strings; \<^verbatim>\<open>==\<close> on two objects is identity of references. The lemmas say where this agrees with
  the numeric order, and the properties where it does not.
\<close>

subsection \<open>JavaScript's operators on objects\<close>

definition obj_less :: "'b bn_api \<Rightarrow> 'b \<Rightarrow> 'b \<Rightarrow> bool" where
  "obj_less B a b = js_less (bn_toString B a) (bn_toString B b)"

text \<open>\<^verbatim>\<open>==\<close> between an object that a call has just created and an object that existed before.\<close>

definition fresh_eq :: "'b \<Rightarrow> 'b \<Rightarrow> bool" where
  "fresh_eq created older = False"

subsection \<open>The functions\<close>

record 'b pair_view =
  pair_getReserves :: "('b \<times> 'b) option"
  pair_totalSupply :: "'b option"

record 'b asset_view =
  asset_address :: string
  asset_balanceOf :: "string \<Rightarrow> 'b option"

definition MINIMUM_LIQUIDITY :: "'b bn_api \<Rightarrow> 'b" where
  "MINIMUM_LIQUIDITY B = bn_from B 1000"

definition min_obj :: "'b bn_api \<Rightarrow> 'b \<Rightarrow> 'b \<Rightarrow> 'b" where
  "min_obj B valueOne valueTwo = (if obj_less B valueOne valueTwo then valueOne else valueTwo)"

text \<open>\<open>None\<close> also stands for a loop that never ends.\<close>

partial_function (option) sqrt_loop :: "'b bn_api \<Rightarrow> 'b \<Rightarrow> 'b \<Rightarrow> 'b \<Rightarrow> 'b option" where
  "sqrt_loop B value x z =
     (if obj_less B x z
      then Option.bind (bn_div B value x) (\<lambda>q.
           Option.bind (bn_div B (bn_add B q x) (bn_from B 2)) (\<lambda>x'.
             sqrt_loop B value x' x))
      else Some z)"

definition sqrt_bn :: "'b bn_api \<Rightarrow> 'b \<Rightarrow> 'b option" where
  "sqrt_bn B value =
     (if obj_less B (bn_from B 3) value
      then do {
        h \<leftarrow> bn_div B value (bn_from B 2);
        sqrt_loop B value (bn_add B h (bn_from B 1)) value
      }
      else if \<not> fresh_eq value (ZERO B) then Some (bn_from B 1)
      else Some value)"

definition calculateLPTokensIssued :: "'b bn_api \<Rightarrow> 'b pair_view \<Rightarrow> 'b \<Rightarrow> 'b \<Rightarrow> 'b option" where
  "calculateLPTokensIssued B pool amountOne amountTwo = do {
     reserves \<leftarrow> pair_getReserves pool;
     totalSupply \<leftarrow> pair_totalSupply pool;
     if fresh_eq totalSupply (ZERO B)
     then do {
       root \<leftarrow> sqrt_bn B (bn_mul B amountOne amountTwo);
       Some (bn_sub B root (MINIMUM_LIQUIDITY B))
     }
     else do {
       one \<leftarrow> bn_div B (bn_mul B amountOne totalSupply) (fst reserves);
       two \<leftarrow> bn_div B (bn_mul B amountTwo totalSupply) (snd reserves);
       Some (min_obj B one two)
     }
   }"

definition getReservesSafe :: "string \<Rightarrow> string \<Rightarrow> 'b pair_view \<Rightarrow> ('b \<times> 'b) option" where
  "getReservesSafe assetOne assetTwo lpToken = do {
     let firstAsset = (if js_less assetOne assetTwo then assetOne else assetTwo);
     reserves \<leftarrow> pair_getReserves lpToken;
     Some (if assetOne = firstAsset then (fst reserves, snd reserves)
           else (snd reserves, fst reserves))
   }"

text \<open>\<^verbatim>\<open>stakingRewards.balanceOf\<close> is the argument \<open>staked\<close>; a SetToken is its address.\<close>

definition calculateTokensInReserve ::
  "'b bn_api \<Rightarrow> string \<Rightarrow> 'b asset_view \<Rightarrow> 'b asset_view \<Rightarrow> 'b pair_view \<Rightarrow> (string \<Rightarrow> 'b option) \<Rightarrow>
   ('b \<times> 'b) option"
where
  "calculateTokensInReserve B setToken assetOne assetTwo lpToken staked = do {
     (reserveOne, reserveTwo) \<leftarrow>
       getReservesSafe (asset_address assetOne) (asset_address assetTwo) lpToken;
     totalSupply \<leftarrow> pair_totalSupply lpToken;
     lpTokenBalance \<leftarrow> staked setToken;
     d1 \<leftarrow> preciseDiv B reserveOne totalSupply;
     r1 \<leftarrow> preciseMul B d1 lpTokenBalance;
     d2 \<leftarrow> preciseDiv B reserveTwo totalSupply;
     r2 \<leftarrow> preciseMul B d2 lpTokenBalance;
     Some (r1, r2)
   }"

definition calculateEngageQuantities ::
  "'b bn_api \<Rightarrow> string \<Rightarrow> 'b asset_view \<Rightarrow> 'b asset_view \<Rightarrow> 'b pair_view \<Rightarrow> (string \<Rightarrow> 'b option) \<Rightarrow>
   'b \<Rightarrow> 'b option \<Rightarrow> 'b option \<Rightarrow> ('b \<times> 'b) option"
where
  "calculateEngageQuantities B setToken assetOne assetTwo lpToken staked reservePercentage
       extraAssetOne extraAssetTwo = do {
     (reserveOne, reserveTwo) \<leftarrow>
       calculateTokensInReserve B setToken assetOne assetTwo lpToken staked;
     b1 \<leftarrow> asset_balanceOf assetOne setToken;
     let balanceOnTokenAssetOne = bn_add B b1 (case extraAssetOne of Some e \<Rightarrow> e | None \<Rightarrow> ZERO B);
     b2 \<leftarrow> asset_balanceOf assetTwo setToken;
     let balanceOnTokenAssetTwo = bn_add B b2 (case extraAssetTwo of Some e \<Rightarrow> e | None \<Rightarrow> ZERO B);
     e1 \<leftarrow> ether B ''1'';
     in1 \<leftarrow> preciseMul B reserveOne reservePercentage;
     out1 \<leftarrow> preciseMul B balanceOnTokenAssetOne (bn_sub B e1 reservePercentage);
     in2 \<leftarrow> preciseMul B reserveTwo reservePercentage;
     out2 \<leftarrow> preciseMul B balanceOnTokenAssetTwo (bn_sub B e1 reservePercentage);
     Some (bn_sub B in1 out1, bn_sub B in2 out2)
   }"

definition calculateRebalanceQuantity ::
  "'b bn_api \<Rightarrow> 'b \<Rightarrow> string \<Rightarrow> 'b asset_view \<Rightarrow> 'b asset_view \<Rightarrow> 'b \<Rightarrow> 'b option \<Rightarrow> 'b option \<Rightarrow>
   ('b \<times> string \<times> string) option"
where
  "calculateRebalanceQuantity B sellTokenQuantity setToken assetOne assetTwo assetOneToTwoPrice
       extraAssetOne extraAssetTwo = do {
     b1 \<leftarrow> asset_balanceOf assetOne setToken;
     let balanceAssetOne = bn_add B b1 (case extraAssetOne of Some e \<Rightarrow> e | None \<Rightarrow> ZERO B);
     b2 \<leftarrow> asset_balanceOf assetTwo setToken;
     let balanceAssetTwo = bn_add B b2 (case extraAssetTwo of Some e \<Rightarrow> e | None \<Rightarrow> ZERO B);
     valueAssetTwoDenomOne \<leftarrow> preciseDiv B balanceAssetTwo assetOneToTwoPrice;
     (quantityToSell, assetToSell, assetToBuy) \<leftarrow>
       (if bn_gt B balanceAssetOne valueAssetTwoDenomOne
        then do {
          q \<leftarrow> bn_div B (bn_sub B balanceAssetOne valueAssetTwoDenomOne) (bn_from B 2);
          Some (q, asset_address assetOne, asset_address assetTwo)
        }
        else do {
          h \<leftarrow> bn_div B (bn_sub B valueAssetTwoDenomOne balanceAssetOne) (bn_from B 2);
          q \<leftarrow> preciseMul B h assetOneToTwoPrice;
          Some (q, asset_address assetTwo, asset_address assetOne)
        });
     let quantityToSell =
       (if obj_less B (ZERO B) sellTokenQuantity then sellTokenQuantity else quantityToSell);
     Some (quantityToSell, assetToSell, assetToBuy)
   }"

text \<open>\<^verbatim>\<open>router.getAmountsOut\<close> is the argument \<open>getAmountsOut\<close>.\<close>

definition calculateRebalanceFlows ::
  "'b bn_api \<Rightarrow> string \<Rightarrow> ('b \<Rightarrow> string list \<Rightarrow> 'b list option) \<Rightarrow> 'b \<Rightarrow> 'b asset_view \<Rightarrow> 'b asset_view \<Rightarrow>
   'b \<Rightarrow> 'b option \<Rightarrow> 'b option \<Rightarrow> 'b list option"
where
  "calculateRebalanceFlows B setToken getAmountsOut sellTokenQuantity assetOne assetTwo
       assetOneToTwoPrice extraAssetOne extraAssetTwo = do {
     (quantityToSell, assetToSell, assetToBuy) \<leftarrow>
       calculateRebalanceQuantity B sellTokenQuantity setToken assetOne assetTwo assetOneToTwoPrice
         extraAssetOne extraAssetTwo;
     getAmountsOut quantityToSell [assetToSell, assetToBuy]
   }"

subsection \<open>The string order on numbers\<close>

lemma js_less_dec:
  "0 \<le> m \<Longrightarrow> 0 \<le> n \<Longrightarrow> length (dec m) = length (dec n) \<Longrightarrow> js_less (dec m) (dec n) \<longleftrightarrow> m < n"
  using js_less_dec_nat [of "nat m" "nat n"] by (auto simp: dec_def)

text \<open>The numbers up to \<open>v\<close> whose spelling is below that of \<open>z\<close>: what the loop of \<open>sqrt\<close> uses up.\<close>

definition spelled_below :: "int \<Rightarrow> int \<Rightarrow> int set" where
  "spelled_below v z = {y \<in> {0..v}. js_less (dec y) (dec z)}"

lemma spelled_below_decreases:
  assumes "0 \<le> x" and "x \<le> v" and "js_less (dec x) (dec z)"
  shows "card (spelled_below v x) < card (spelled_below v z)"
proof (rule psubset_card_mono)
  show "finite (spelled_below v z)"
    unfolding spelled_below_def by (rule finite_subset [of _ "{0..v}"]) auto
  show "spelled_below v x \<subset> spelled_below v z"
    using assms js_less_irrefl js_less_trans unfolding spelled_below_def by fastforce
qed

lemma newton_step_bounds:
  fixes v x :: int
  assumes "1 \<le> x" and "x \<le> v"
  shows "1 \<le> (v sdiv x + x) sdiv 2" and "(v sdiv x + x) sdiv 2 \<le> v"
proof -
  have q: "1 \<le> v div x" "v div x \<le> v"
    using assms zdiv_mono1 [of x v x] zdiv_mono2 [of v 1 x] by simp_all
  with assms show "1 \<le> (v sdiv x + x) sdiv 2" "(v sdiv x + x) sdiv 2 \<le> v"
    by (simp_all add: sdiv_nonneg)
qed

context bignumber
begin

lemma obj_less_from [simp]: "obj_less B (bn_from B m) (bn_from B n) \<longleftrightarrow> js_less (dec m) (dec n)"
  by (simp add: obj_less_def toString_from)

lemma min_obj_from:
  "min_obj B (bn_from B m) (bn_from B n) = bn_from B (if js_less (dec m) (dec n) then m else n)"
  by (simp add: min_obj_def)

lemma min_obj_same_length:
  "0 \<le> m \<Longrightarrow> 0 \<le> n \<Longrightarrow> length (dec m) = length (dec n) \<Longrightarrow>
   min_obj B (bn_from B m) (bn_from B n) = bn_from B (min m n)"
  by (simp add: min_obj_from js_less_dec min_def)

lemma sqrt_loop_from:
  "sqrt_loop B (bn_from B v) (bn_from B x) (bn_from B z) =
     (if js_less (dec x) (dec z)
      then if x = 0 then None
           else sqrt_loop B (bn_from B v) (bn_from B ((v sdiv x + x) sdiv 2)) (bn_from B x)
      else Some (bn_from B z))"
  by (subst sqrt_loop.simps) (simp add: num_simps)

lemma sqrt_loop_returns:
  assumes "1 \<le> x" and "x \<le> v" and "1 \<le> z" and "z \<le> v"
  shows "\<exists>r. sqrt_loop B (bn_from B v) (bn_from B x) (bn_from B z) = Some (bn_from B r) \<and> 1 \<le> r \<and> r \<le> v"
  using assms
proof (induction "card (spelled_below v z)" arbitrary: x z rule: less_induct)
  case less
  show ?case
  proof (cases "js_less (dec x) (dec z)")
    case True
    have "card (spelled_below v x) < card (spelled_below v z)"
      using less.prems True by (intro spelled_below_decreases) simp_all
    from less.hyps [OF this newton_step_bounds [OF less.prems(1,2)] less.prems(1,2)] True less.prems(1)
    show ?thesis by (subst sqrt_loop_from) simp
  next
    case False
    with less.prems show ?thesis by (subst sqrt_loop_from) auto
  qed
qed

lemma rebalance_from:
  assumes "asset_balanceOf one setToken = Some (bn_from B b1)" and "asset_balanceOf two setToken = Some (bn_from B b2)"
    and "0 \<le> b1" and "0 \<le> b2" and "0 < price"
  shows "calculateRebalanceQuantity B (bn_from B sell) setToken one two (bn_from B price) None None =
    (let v2 = b2 * 10 ^ 18 div price;
         (q, s, b) = (if v2 < b1 then ((b1 - v2) div 2, asset_address one, asset_address two)
            else ((v2 - b1) div 2 * price div 10 ^ 18, asset_address two, asset_address one))
     in Some (bn_from B (if 0 < sell then sell else q), s, b))"
  using assms by (simp add: calculateRebalanceQuantity_def preciseDiv_from preciseMul_from num_simps
      sdiv_nonneg div_int_nonneg js_less_dec_0 Let_def)

lemma sqrt_bn_returns:
  assumes "0 \<le> v"
  shows "\<exists>r. sqrt_bn B (bn_from B v) = Some (bn_from B r) \<and> 1 \<le> r \<and> r \<le> max 1 v"
proof (cases "js_less (dec 3) (dec v)")
  case True
  have "3 < v"
  proof (rule ccontr)
    assume "\<not> 3 < v"
    with assms have "length (dec 3) = length (dec v)" by (simp add: dec_def dec_nat.simps)
    with js_less_dec [of 3 v] assms True \<open>\<not> 3 < v\<close> show False by simp
  qed
  then have "1 \<le> v sdiv 2 + 1" "v sdiv 2 + 1 \<le> v" by (simp_all add: sdiv_nonneg)
  with \<open>3 < v\<close> True sqrt_loop_returns [of "v sdiv 2 + 1" v v] show ?thesis
    by (auto simp: sqrt_bn_def num_simps)
qed (simp add: sqrt_bn_def fresh_eq_def from_eq_iff max_def)

end

subsection \<open>Properties\<close>

text \<open>C33: \<open>sqrt\<close> returns. Although its loop compares spellings, each round goes down in the
  string order within the numbers up to the value, so it ends without a division by zero and
  with a positive number that is at most the value.\<close>

theorem sqrt_returns:
  assumes "bignumber B" and "0 \<le> v"
  shows "\<exists>r. sqrt_bn B (bn_from B v) = Some (bn_from B r) \<and> 1 \<le> r \<and> r \<le> max 1 v"
  by (rule bignumber.sqrt_bn_returns [OF assms])

theorem sqrt_returns_witness: "\<exists>r. sqrt_bn int_bn 400 = Some r \<and> 1 \<le> r \<and> r \<le> 400"
  using sqrt_returns [OF int_bn.bignumber_axioms, of 400] by simp

text \<open>The string comparisons make \<open>sqrt\<close> and \<open>min\<close> wrong: the smaller of 9 and 10 comes out
  as 10, the root of 16 as 1 because \<open>"16" > "3"\<close> is false, the root of 0 as 1 because the test
  against \<open>ZERO\<close> compares references, and the root of 400 as 101 because the loop stops at
  \<open>"52" < "101"\<close>.\<close>

lemma sqrt_min_string_order:
  "min_obj int_bn 9 10 = 10 \<and> sqrt_bn int_bn 16 = Some 1 \<and> sqrt_bn int_bn 0 = Some 1 \<and>
   sqrt_bn int_bn 400 = Some 101"
proof -
  have spelled: "js_less (dec 9) (dec 10) = False" "js_less (dec 3) (dec 16) = False"
    "js_less (dec 3) (dec 0) = False" "js_less (dec 3) (dec 400) = True"
    "js_less (dec 201) (dec 400) = True" "js_less (dec 101) (dec 201) = True"
    "js_less (dec 52) (dec 101) = False"
    by code_simp+
  have loop: "sqrt_loop int_bn v x z =
     (if js_less (dec x) (dec z)
      then if x = 0 then None else sqrt_loop int_bn v ((v sdiv x + x) sdiv 2) x else Some z)" for v x z
    using int_bn.sqrt_loop_from [of v x z] by simp
  show ?thesis
    by (simp add: min_obj_def sqrt_bn_def obj_less_def int_bn_ops spelled loop fresh_eq_def sdiv_nonneg)
qed

text \<open>\<open>calculateLPTokensIssued\<close> on a pool with positive reserves: it returns one of the two
  quotients \<open>amount * totalSupply / reserve\<close>, and the smaller one, which is what the pair mints,
  whenever the two have as many decimal digits; on an empty pool it throws, because the branch
  for the first deposit is never taken and the quotients divide by zero.\<close>

lemma lp_tokens_issued:
  assumes "bignumber B" and "0 \<le> a1" and "0 \<le> a2" and "0 \<le> s"
  shows "(let pool = \<lparr>pair_getReserves = Some (bn_from B r0, bn_from B r1),
                      pair_totalSupply = Some (bn_from B s)\<rparr>;
              q0 = a1 * s div r0; q1 = a2 * s div r1
          in (0 < r0 \<and> 0 < r1 \<longrightarrow>
               (\<exists>q \<in> {q0, q1}. calculateLPTokensIssued B pool (bn_from B a1) (bn_from B a2) = Some (bn_from B q)) \<and>
               (length (dec q0) = length (dec q1) \<longrightarrow>
                  calculateLPTokensIssued B pool (bn_from B a1) (bn_from B a2) = Some (bn_from B (min q0 q1)))) \<and>
             (r0 = 0 \<longrightarrow> calculateLPTokensIssued B pool (bn_from B a1) (bn_from B a2) = None))"
proof -
  have q: "0 < r \<Longrightarrow> 0 \<le> a \<Longrightarrow> a * s sdiv r = a * s div r \<and> 0 \<le> a * s div r" for a r :: int
    using assms(4) by (simp add: sdiv_nonneg div_int_nonneg)
  show ?thesis
    using assms(2,3) q [of r0 a1] q [of r1 a2] bignumber.min_obj_same_length [OF assms(1), of "a1 * s div r0" "a2 * s div r1"]
    by (simp add: calculateLPTokensIssued_def fresh_eq_def bignumber.bn_simps [OF assms(1)]
        bignumber.min_obj_from [OF assms(1)] Let_def)
qed

text \<open>\<open>getReservesSafe\<close> compares the two addresses as strings. On lower-case addresses that is
  the order in which the pair keeps its tokens, so each asset gets its own reserve, whichever
  comes first; on addresses in mixed case, as contracts report theirs, the reserves of two assets
  can come out exchanged.\<close>

lemma reserves_safe:
  assumes "m < 2 ^ 160" and "n < 2 ^ 160" and "m \<noteq> n"
    and "pair_getReserves pool = Some (if m < n then (rm, rn) else (rn, rm))"
  shows "getReservesSafe (address_lower m) (address_lower n) pool = Some (rm, rn)"
  using assms
  by (auto simp: getReservesSafe_def js_less_address_lower address_lower_inject)

definition swapped_pair :: "int pair_view" where
  "swapped_pair = \<lparr>pair_getReserves = Some (1, 2), pair_totalSupply = Some 1\<rparr>"

text \<open>\<open>calculateRebalanceQuantity\<close>. Without a quantity given by the caller it sells from the
  asset worth more, never more than the balance held of it: when asset one is, the values of the
  two sides after the sale differ by at most one unit; when asset two is, at most half of the excess is
  sold, converted at the price and rounded down. A positive quantity from the caller replaces the amount and
  nothing else: for this test the string comparison gives the same answer as the numeric one.\<close>

lemma rebalance_quantity:
  assumes "bignumber B" and "asset_balanceOf one setToken = Some (bn_from B b1)"
    and "asset_balanceOf two setToken = Some (bn_from B b2)" and "0 \<le> b1" and "0 \<le> b2" and "0 < price"
  shows "\<exists>q. 0 \<le> q \<and> q \<le> (if b2 * 10 ^ 18 div price < b1 then b1 else b2) \<and>
    (b2 * 10 ^ 18 div price < b1 \<longrightarrow> b1 - q - (b2 * 10 ^ 18 div price + q) \<in> {0, 1}) \<and>
    (\<not> b2 * 10 ^ 18 div price < b1 \<longrightarrow> 2 * q * 10 ^ 18 \<le> (b2 * 10 ^ 18 div price - b1) * price) \<and>
    (\<forall>sell. calculateRebalanceQuantity B (bn_from B sell) setToken one two (bn_from B price) None None =
      Some (bn_from B (if 0 < sell then sell else q),
        if b2 * 10 ^ 18 div price < b1 then (asset_address one, asset_address two)
        else (asset_address two, asset_address one)))"
proof (cases "b2 * 10 ^ 18 div price < b1")
  case True
  have "0 \<le> b2 * 10 ^ 18 div price" using assms by (simp add: div_int_nonneg)
  moreover have "b1 - (b1 - v) div 2 - (v + (b1 - v) div 2) \<in> {0, 1}" for v by simp presburger
  ultimately show ?thesis
    using True assms by (intro exI [of _ "(b1 - b2 * 10 ^ 18 div price) div 2"])
      (simp add: bignumber.rebalance_from [OF assms])
next
  case False
  define v where "v = b2 * 10 ^ 18 div price"
  define q where "q = (v - b1) div 2 * price div 10 ^ 18"
  have v: "b1 \<le> v" using False by (simp add: v_def)
  have "v * price \<le> b2 * 10 ^ 18" unfolding v_def by (rule floor_bounds(1) [OF assms(6)])
  have "q * 10 ^ 18 \<le> (v - b1) div 2 * price" unfolding q_def by (rule floor_bounds(1)) simp
  moreover have "(v - b1) div 2 * 2 * price \<le> (v - b1) * price"
    using assms(6) by (intro mult_right_mono) auto
  moreover have "(v - b1) * price \<le> v * price" using assms by (intro mult_right_mono) auto
  ultimately have sold: "2 * q * 10 ^ 18 \<le> (v - b1) * price" "2 * q * 10 ^ 18 \<le> b2 * 10 ^ 18"
    using \<open>v * price \<le> b2 * 10 ^ 18\<close> by linarith+
  have "0 \<le> q" using v assms(6) unfolding q_def by (simp add: div_int_nonneg)
  moreover have "\<forall>sell. calculateRebalanceQuantity B (bn_from B sell) setToken one two (bn_from B price) None None =
      Some (bn_from B (if 0 < sell then sell else q), asset_address two, asset_address one)"
    using False by (simp add: bignumber.rebalance_from [OF assms] q_def v_def)
  moreover have "2 * q * 10 ^ 18 \<le> (b2 * 10 ^ 18 div price - b1) * price" "q \<le> b2"
    using sold \<open>0 \<le> q\<close> unfolding v_def by simp_all
  ultimately show ?thesis
    using False by (intro exI [of _ q]) simp
qed

end
