(* ===== verification/PerpV2Utils.thy ===== *)
theory PerpV2Utils
  imports MathUtils
begin

text \<open>
  \<^verbatim>\<open>utils/common/perpV2Utils.ts\<close>: what an issuance, a redemption or a levered trade of a
  Perpetual Protocol SetToken moves. The contracts and the fixture are the records of the view
  functions the code reads (\<open>None\<close> when the call fails); the one transaction, the trade of
  \<open>leverUp\<close>, is sent through an argument that takes the chain from a state to the next.
  A JavaScript \<^verbatim>\<open>number\<close> (\<open>leverageRatio\<close>) is an integer; \<^verbatim>\<open>BigNumber.mul\<close> converts it first.
\<close>

subsection \<open>What is read\<close>

record 'b AccountInfo =
  collateralBalance :: 'b
  owedRealizedPnl :: 'b
  pendingFundingPayments :: 'b
  netQuoteBalance :: 'b

record 'b PositionUnitInfo =
  pu_baseToken :: string
  pu_baseUnit :: 'b

record 'b PositionNotionalInfo =
  pn_baseToken :: string
  pn_baseBalance :: 'b
  pn_quoteBalance :: 'b

record 'b perp_module =
  getAccountInfo :: "string \<Rightarrow> 'b AccountInfo option"
  getPositionUnitInfo :: "string \<Rightarrow> 'b PositionUnitInfo list option"
  getPositionNotionalInfo :: "string \<Rightarrow> 'b PositionNotionalInfo list option"
  module_address :: string

record 'b set_view =
  set_address :: string
  set_totalSupply :: "'b option"

record 'b perp_fixture =
  px_getSpotPrice :: "string \<Rightarrow> 'b option"
  px_getSwapQuote :: "string \<Rightarrow> 'b \<Rightarrow> bool \<Rightarrow> ('b \<times> 'b) option"
  px_fundingGrowthAndTwaps :: "string \<Rightarrow> ('b \<times> 'b \<times> 'b) option"
  px_getIndexPrice :: "string \<Rightarrow> 'b \<Rightarrow> 'b option"
  px_getImRatio :: "'b option"
  px_getPnlAndPendingFee :: "string \<Rightarrow> ('b \<times> 'b \<times> 'b) option"
  px_getTotalDebtValue :: "string \<Rightarrow> 'b option"
  px_getTotalAbsPositionValue :: "string \<Rightarrow> 'b option"

subsection \<open>The functions\<close>

definition toUSDCDecimals :: "'b bn_api \<Rightarrow> 'b \<Rightarrow> 'b option" where
  "toUSDCDecimals B quantity = do {
     scale \<leftarrow> bn_pow B (bn_from B 10) (bn_from B 12);
     bn_div B quantity scale
   }"

text \<open>The two transactions of \<open>leverUp\<close>: who signs, the module, the SetToken, the base token, the
  base units and the limit on the quote units.\<close>

datatype 'b perp_trade =
    trade string string string string 'b 'b
  | tradeAndTrackFunding string string string string 'b 'b

definition leverUp ::
  "'b bn_api \<Rightarrow> ('b perp_trade \<Rightarrow> 'c \<Rightarrow> 'c option) \<Rightarrow> 'b set_view \<Rightarrow> 'b perp_module \<Rightarrow> 'b perp_fixture \<Rightarrow>
   string \<Rightarrow> string \<Rightarrow> int \<Rightarrow> 'b \<Rightarrow> bool \<Rightarrow> bool option \<Rightarrow> 'c \<Rightarrow> ('b \<times> 'c) option"
where
  "leverUp B send setToken module fixture owner baseToken leverageRatio slippagePercentage isLong
       trackFunding chain = do {
     spotPrice \<leftarrow> px_getSpotPrice fixture baseToken;
     totalSupply \<leftarrow> set_totalSupply setToken;
     info \<leftarrow> getAccountInfo module (set_address setToken);
     ratio \<leftarrow> bn_from_number B leverageRatio;
     baseTradeQuantityNotional \<leftarrow> preciseDiv B (bn_mul B (collateralBalance info) ratio) spotPrice;
     unit \<leftarrow> preciseDiv B baseTradeQuantityNotional totalSupply;
     let baseTradeQuantityUnit = (if isLong then unit else bn_mul B unit (bn_from B (- 1)));
     quote \<leftarrow> preciseMul B baseTradeQuantityNotional spotPrice;
     let estimatedQuoteQuantityNotional = bn_abs B quote;
     twoPercent \<leftarrow> ether B ''0.02'';
     allowedSlippage \<leftarrow> preciseMul B estimatedQuoteQuantityNotional twoPercent;
     let slippageAdjustedQuoteQuantityNotional =
       (if isLong then bn_add B estimatedQuoteQuantityNotional allowedSlippage
        else bn_sub B estimatedQuoteQuantityNotional allowedSlippage);
     receiveQuoteQuantityUnit \<leftarrow> preciseDiv B slippageAdjustedQuoteQuantityNotional totalSupply;
     chain' \<leftarrow> send
       ((if trackFunding = Some True then tradeAndTrackFunding else trade)
          owner (module_address module) (set_address setToken) baseToken
          baseTradeQuantityUnit receiveQuoteQuantityUnit) chain;
     Some (baseTradeQuantityUnit, chain')
   }"

text \<open>The loop over the positions of an issuance; the last argument is \<open>usdcAmountIn\<close>.\<close>

fun transferIn_loop ::
  "'b bn_api \<Rightarrow> 'b perp_fixture \<Rightarrow> 'b \<Rightarrow> 'b PositionUnitInfo list \<Rightarrow> 'b \<Rightarrow> 'b option"
where
  "transferIn_loop B fixture setQuantity [] usdcAmountIn = Some usdcAmountIn"
| "transferIn_loop B fixture setQuantity (positionInfo # rest) usdcAmountIn = do {
     baseTradeQuantityNotional \<leftarrow> preciseMul B (pu_baseUnit positionInfo) setQuantity;
     let isLong = bn_gte B baseTradeQuantityNotional (ZERO B);
     swap \<leftarrow> px_getSwapQuote fixture (pu_baseToken positionInfo) (bn_abs B baseTradeQuantityNotional) isLong;
     let deltaQuote = snd swap;
     price \<leftarrow> px_getSpotPrice fixture (pu_baseToken positionInfo);
     idealQuote \<leftarrow> preciseMul B baseTradeQuantityNotional price;
     let expectedSlippage = (if isLong then bn_sub B deltaQuote idealQuote
       else bn_sub B (bn_abs B idealQuote) deltaQuote);
     transferIn_loop B fixture setQuantity rest (bn_add B (bn_add B usdcAmountIn idealQuote) expectedSlippage)
   }"

definition calculateUSDCTransferInPreciseUnits ::
  "'b bn_api \<Rightarrow> 'b set_view \<Rightarrow> 'b \<Rightarrow> 'b perp_module \<Rightarrow> 'b perp_fixture \<Rightarrow> bool \<Rightarrow> 'b option"
where
  "calculateUSDCTransferInPreciseUnits B setToken setQuantity module fixture includeFunding = do {
     accountInfo \<leftarrow> getAccountInfo module (set_address setToken);
     let totalCollateralValue = bn_add B
       (bn_add B (collateralBalance accountInfo) (owedRealizedPnl accountInfo)) (netQuoteBalance accountInfo);
     let totalCollateralValue = (if includeFunding
       then bn_add B totalCollateralValue (pendingFundingPayments accountInfo) else totalCollateralValue);
     totalSupply \<leftarrow> set_totalSupply setToken;
     unit \<leftarrow> preciseDiv B totalCollateralValue totalSupply;
     usdcAmountIn \<leftarrow> preciseMul B unit setQuantity;
     allPositionInfo \<leftarrow> getPositionUnitInfo module (set_address setToken);
     transferIn_loop B fixture setQuantity allPositionInfo usdcAmountIn
   }"

definition calculateUSDCTransferIn ::
  "'b bn_api \<Rightarrow> 'b set_view \<Rightarrow> 'b \<Rightarrow> 'b perp_module \<Rightarrow> 'b perp_fixture \<Rightarrow> 'b option"
where
  "calculateUSDCTransferIn B setToken setQuantity module fixture = do {
     units \<leftarrow> calculateUSDCTransferInPreciseUnits B setToken setQuantity module fixture True;
     toUSDCDecimals B units
   }"

text \<open>The loop over the positions of a redemption; the last argument is \<open>totalRealizedPnl\<close>.\<close>

fun transferOut_loop ::
  "'b bn_api \<Rightarrow> 'b set_view \<Rightarrow> 'b perp_fixture \<Rightarrow> 'b \<Rightarrow> 'b PositionNotionalInfo list \<Rightarrow> 'b \<Rightarrow> 'b option"
where
  "transferOut_loop B setToken fixture setQuantity [] totalRealizedPnl = Some totalRealizedPnl"
| "transferOut_loop B setToken fixture setQuantity (positionInfo # rest) totalRealizedPnl = do {
     totalSupply \<leftarrow> set_totalSupply setToken;
     basePositionUnit \<leftarrow> preciseDiv B (pn_baseBalance positionInfo) totalSupply;
     baseTradeQuantityNotional \<leftarrow> preciseMul B basePositionUnit setQuantity;
     let isLong = bn_gte B basePositionUnit (ZERO B);
     closeRatio \<leftarrow> preciseDiv B (bn_abs B baseTradeQuantityNotional) (bn_abs B (pn_baseBalance positionInfo));
     reducedOpenNotional \<leftarrow> preciseMul B (pn_quoteBalance positionInfo) closeRatio;
     swap \<leftarrow> px_getSwapQuote fixture (pn_baseToken positionInfo) (bn_abs B baseTradeQuantityNotional) (\<not> isLong);
     let deltaQuote = snd swap;
     let realizedPnl = (if isLong then bn_add B reducedOpenNotional deltaQuote
       else bn_sub B reducedOpenNotional deltaQuote);
     transferOut_loop B setToken fixture setQuantity rest (bn_add B totalRealizedPnl realizedPnl)
   }"

definition calculateUSDCTransferOutPreciseUnits ::
  "'b bn_api \<Rightarrow> 'b set_view \<Rightarrow> 'b \<Rightarrow> 'b perp_module \<Rightarrow> 'b perp_fixture \<Rightarrow> bool \<Rightarrow> 'b option"
where
  "calculateUSDCTransferOutPreciseUnits B setToken setQuantity module fixture includeFunding = do {
     let totalRealizedPnl = bn_from B 0;
     allPositionInfo \<leftarrow> getPositionNotionalInfo module (set_address setToken);
     accountInfo \<leftarrow> getAccountInfo module (set_address setToken);
     let totalCollateralBalance = bn_add B (collateralBalance accountInfo) (owedRealizedPnl accountInfo);
     let totalCollateralBalance = (if includeFunding
       then bn_add B totalCollateralBalance (pendingFundingPayments accountInfo) else totalCollateralBalance);
     totalSupply \<leftarrow> set_totalSupply setToken;
     collateralPositionUnit \<leftarrow> preciseDiv B totalCollateralBalance totalSupply;
     collateralQuantityNotional \<leftarrow> preciseMul B collateralPositionUnit setQuantity;
     totalRealizedPnl \<leftarrow> transferOut_loop B setToken fixture setQuantity allPositionInfo totalRealizedPnl;
     Some (bn_abs B (bn_add B collateralQuantityNotional totalRealizedPnl))
   }"

definition calculateUSDCTransferOut ::
  "'b bn_api \<Rightarrow> 'b set_view \<Rightarrow> 'b \<Rightarrow> 'b perp_module \<Rightarrow> 'b perp_fixture \<Rightarrow> 'b option"
where
  "calculateUSDCTransferOut B setToken setQuantity module fixture = do {
     units \<leftarrow> calculateUSDCTransferOutPreciseUnits B setToken setQuantity module fixture True;
     toUSDCDecimals B units
   }"

definition calculateExternalPositionUnit ::
  "'b bn_api \<Rightarrow> 'b set_view \<Rightarrow> 'b perp_fixture \<Rightarrow> 'b perp_module \<Rightarrow> 'b option"
where
  "calculateExternalPositionUnit B setToken fixture module = do {
     accountInfo \<leftarrow> getAccountInfo module (set_address setToken);
     totalSupply \<leftarrow> set_totalSupply setToken;
     unit \<leftarrow> preciseDiv B (collateralBalance accountInfo) totalSupply;
     toUSDCDecimals B unit
   }"

definition getNetFundingGrowth ::
  "'b bn_api \<Rightarrow> string \<Rightarrow> 'b \<Rightarrow> 'b perp_fixture \<Rightarrow> 'b option"
where
  "getNetFundingGrowth B baseToken baseBalance fixture = do {
     (twPremiumX96, markTwap, indexTwap) \<leftarrow> px_fundingGrowthAndTwaps fixture baseToken;
     e1 \<leftarrow> ether B ''1'';
     q96 \<leftarrow> bn_pow B (TWO B) (bn_from B 96);
     twPremium \<leftarrow> bn_div B (bn_mul B twPremiumX96 e1) q96;
     daily \<leftarrow> bn_div B twPremium (ONE_DAY_IN_SECONDS B);
     growth \<leftarrow> preciseMul B baseBalance daily;
     let fundingGrowth = bn_abs B growth;
     let isLong = bn_gt B baseBalance (ZERO B);
     Some (if bn_lt B markTwap indexTwap
       then (if isLong then fundingGrowth else bn_mul B fundingGrowth (bn_from B (- 1)))
       else (if isLong then bn_mul B fundingGrowth (bn_from B (- 1)) else fundingGrowth))
   }"

definition getUSDCDeltaDueToFundingGrowth ::
  "'b bn_api \<Rightarrow> 'b set_view \<Rightarrow> 'b \<Rightarrow> string \<Rightarrow> 'b \<Rightarrow> 'b perp_fixture \<Rightarrow> 'b option"
where
  "getUSDCDeltaDueToFundingGrowth B setToken setQuantity baseToken baseBalance fixture = do {
     netFundingGrowth \<leftarrow> getNetFundingGrowth B baseToken baseBalance fixture;
     totalSupply \<leftarrow> set_totalSupply setToken;
     unit \<leftarrow> preciseDiv B netFundingGrowth totalSupply;
     preciseMul B unit setQuantity
   }"

text \<open>\<^verbatim>\<open>getVTokenInstance\<close> attaches to the address it is given, so \<^verbatim>\<open>vTokenInstance.address\<close> is
  the position's base token.\<close>

fun leverageRatios_loop ::
  "'b bn_api \<Rightarrow> 'b perp_fixture \<Rightarrow> 'b \<Rightarrow> 'b PositionNotionalInfo list \<Rightarrow> (string list \<times> 'b list) option"
where
  "leverageRatios_loop B fixture totalCollateralValue [] = Some ([], [])"
| "leverageRatios_loop B fixture totalCollateralValue (positionInfo # rest) = do {
     tokenPrice \<leftarrow> px_getIndexPrice fixture (pn_baseToken positionInfo) (ZERO B);
     positionValue \<leftarrow> preciseMul B tokenPrice (pn_baseBalance positionInfo);
     let accountValue = bn_add B (bn_add B positionValue totalCollateralValue) (pn_quoteBalance positionInfo);
     ratio \<leftarrow> preciseDiv B positionValue accountValue;
     (vTokens, leverageRatios) \<leftarrow> leverageRatios_loop B fixture totalCollateralValue rest;
     Some (pn_baseToken positionInfo # vTokens, ratio # leverageRatios)
   }"

definition calculateLeverageRatios ::
  "'b bn_api \<Rightarrow> string \<Rightarrow> 'b perp_module \<Rightarrow> 'b perp_fixture \<Rightarrow> (string list \<times> 'b list) option"
where
  "calculateLeverageRatios B setToken perpModule fixture = do {
     accountInfo \<leftarrow> getAccountInfo perpModule setToken;
     notionalPositionInfo \<leftarrow> getPositionNotionalInfo perpModule setToken;
     let totalCollateralValue = bn_add B
       (bn_add B (collateralBalance accountInfo) (owedRealizedPnl accountInfo)) (pendingFundingPayments accountInfo);
     leverageRatios_loop B fixture totalCollateralValue notionalPositionInfo
   }"

definition calculateMaxIssueQuantity ::
  "'b bn_api \<Rightarrow> 'b set_view \<Rightarrow> 'b \<Rightarrow> 'b perp_module \<Rightarrow> 'b perp_fixture \<Rightarrow> 'b option"
where
  "calculateMaxIssueQuantity B setToken slippage perpModule fixture = do {
     totalSupply \<leftarrow> set_totalSupply setToken;
     imRatio \<leftarrow> px_getImRatio fixture;
     accountInfo \<leftarrow> getAccountInfo perpModule (set_address setToken);
     (_, unrealizedPnl, _) \<leftarrow> px_getPnlAndPendingFee fixture (set_address setToken);
     totalDebtValue \<leftarrow> px_getTotalDebtValue fixture (set_address setToken);
     let totalCollateralValue = bn_add B
       (bn_add B (collateralBalance accountInfo) (owedRealizedPnl accountInfo)) (pendingFundingPayments accountInfo);
     let million = bn_from B (10 ^ 6);
     debt \<leftarrow> (if bn_gte B unrealizedPnl (ZERO B)
       then bn_div B (bn_mul B totalCollateralValue million) imRatio
       else bn_div B (bn_mul B (bn_add B totalCollateralValue unrealizedPnl) million) imRatio);
     let availableDebt = bn_sub B debt totalDebtValue;
     slipped \<leftarrow> preciseMul B availableDebt slippage;
     lost \<leftarrow> bn_div B (bn_mul B slipped million) imRatio;
     let availableDebtWithSlippage = bn_sub B availableDebt lost;
     totalAbsPositionValue \<leftarrow> px_getTotalAbsPositionValue fixture (set_address setToken);
     q \<leftarrow> preciseDiv B availableDebtWithSlippage totalAbsPositionValue;
     preciseMul B q totalSupply
   }"

subsection \<open>Evaluation\<close>

text \<open>The views of a fixture whose answers are given as numbers: prices, quote amounts of a swap.\<close>

definition quotes :: "'b bn_api \<Rightarrow> 'b perp_fixture \<Rightarrow> (string \<Rightarrow> int) \<Rightarrow> (string \<Rightarrow> int \<Rightarrow> bool \<Rightarrow> int) \<Rightarrow> bool" where
  "quotes B fixture price dq \<longleftrightarrow>
     (\<forall>tok. px_getSpotPrice fixture tok = Some (bn_from B (price tok)) \<and> 0 \<le> price tok) \<and>
     (\<forall>tok n b. \<exists>base. px_getSwapQuote fixture tok (bn_from B n) b = Some (base, bn_from B (dq tok n b)))"

lemma quotes_swap:
  "quotes B fixture price dq \<Longrightarrow>
   \<exists>base. px_getSwapQuote fixture tok (bn_from B n) b = Some (base, bn_from B (dq tok n b))"
  by (simp add: quotes_def)

definition account_of :: "'b bn_api \<Rightarrow> int \<Rightarrow> int \<Rightarrow> int \<Rightarrow> int \<Rightarrow> 'b AccountInfo" where
  "account_of B c owed funding net = \<lparr>collateralBalance = bn_from B c, owedRealizedPnl = bn_from B owed,
     pendingFundingPayments = bn_from B funding, netQuoteBalance = bn_from B net\<rparr>"

text \<open>A position of \<open>units\<close> per SetToken, and the quote its trade pays (long) or receives (short)
  when \<open>qty\<close> SetTokens are issued.\<close>

definition unit_position :: "'b bn_api \<Rightarrow> string \<times> int \<Rightarrow> 'b PositionUnitInfo" where
  "unit_position B p = \<lparr>pu_baseToken = fst p, pu_baseUnit = bn_from B (snd p)\<rparr>"

definition issue_quote :: "(string \<Rightarrow> int \<Rightarrow> bool \<Rightarrow> int) \<Rightarrow> int \<Rightarrow> string \<times> int \<Rightarrow> int" where
  "issue_quote dq qty p = (let n = snd p * qty sdiv 10 ^ 18
     in if 0 \<le> n then dq (fst p) \<bar>n\<bar> True else - dq (fst p) \<bar>n\<bar> False)"

text \<open>A position of base and quote balances, and the profit of closing the share of it that
  \<open>qty\<close> of \<open>supply\<close> SetTokens stand for.\<close>

definition notional_position :: "'b bn_api \<Rightarrow> string \<times> int \<times> int \<Rightarrow> 'b PositionNotionalInfo" where
  "notional_position B p = \<lparr>pn_baseToken = fst p, pn_baseBalance = bn_from B (fst (snd p)),
     pn_quoteBalance = bn_from B (snd (snd p))\<rparr>"

definition redeem_pnl :: "(string \<Rightarrow> int \<Rightarrow> bool \<Rightarrow> int) \<Rightarrow> int \<Rightarrow> int \<Rightarrow> string \<times> int \<times> int \<Rightarrow> int" where
  "redeem_pnl dq supply qty p =
     (let (tok, base, quote) = p;
          unit = base * 10 ^ 18 sdiv supply;
          n = unit * qty sdiv 10 ^ 18;
          reduced = quote * (\<bar>n\<bar> * 10 ^ 18 sdiv \<bar>base\<bar>) sdiv 10 ^ 18
      in if 0 \<le> unit then reduced + dq tok \<bar>n\<bar> False else reduced - dq tok \<bar>n\<bar> True)"

lemma sdiv_nonpos: "a \<le> 0 \<Longrightarrow> 0 < b \<Longrightarrow> a sdiv b \<le> 0" for a b :: int
  by (cases "a = 0") (simp_all add: sdiv_neg_pos div_int_nonneg)

context bignumber
begin

lemmas math_from = preciseMul_from preciseDiv_from num_simps

lemma transferIn_loop_from:
  assumes "quotes B fixture price dq"
  shows "transferIn_loop B fixture (bn_from B qty) (map (unit_position B) ps) (bn_from B acc) =
    Some (bn_from B (acc + (\<Sum>p\<leftarrow>ps. issue_quote dq qty p)))"
proof (induction ps arbitrary: acc)
  case (Cons p ps)
  let ?n = "snd p * qty sdiv 10 ^ 18"
  obtain base where swap: "px_getSwapQuote fixture (fst p) (bn_from B \<bar>?n\<bar>) (0 \<le> ?n) =
      Some (base, bn_from B (dq (fst p) \<bar>?n\<bar> (0 \<le> ?n)))"
    using quotes_swap [OF assms] by blast
  have price: "px_getSpotPrice fixture (fst p) = Some (bn_from B (price (fst p)))" "0 \<le> price (fst p)"
    using assms by (simp_all add: quotes_def)
  have short: "?n < 0 \<Longrightarrow> ?n * price (fst p) sdiv 10 ^ 18 \<le> 0"
    using price(2) by (intro sdiv_nonpos) (simp_all add: mult_nonpos_nonneg)
  show ?case
    using swap price short Cons
    by (simp add: unit_position_def math_from Let_def issue_quote_def from_eq_iff)
qed simp

lemma transferOut_loop_from:
  assumes "quotes B fixture price dq" and "set_totalSupply setToken = Some (bn_from B supply)"
    and "supply \<noteq> 0" and "\<forall>p \<in> set ps. fst (snd p) \<noteq> 0"
  shows "transferOut_loop B setToken fixture (bn_from B qty) (map (notional_position B) ps) (bn_from B acc) =
    Some (bn_from B (acc + (\<Sum>p\<leftarrow>ps. redeem_pnl dq supply qty p)))"
  using assms(4)
proof (induction ps arbitrary: acc)
  case (Cons p ps)
  obtain tok base quote where p: "p = (tok, base, quote)" by (cases p)
  let ?unit = "base * 10 ^ 18 sdiv supply"
  let ?n = "?unit * qty sdiv 10 ^ 18"
  obtain b where swap: "px_getSwapQuote fixture tok (bn_from B \<bar>?n\<bar>) (\<not> 0 \<le> ?unit) =
      Some (b, bn_from B (dq tok \<bar>?n\<bar> (\<not> 0 \<le> ?unit)))"
    using quotes_swap [OF assms(1)] by blast
  show ?case
    using swap assms(2,3) Cons
    by (simp add: p notional_position_def math_from Let_def redeem_pnl_def from_eq_iff)
qed simp

lemma transferIn_from:
  assumes "quotes B fixture price dq" and "set_totalSupply setToken = Some (bn_from B supply)" and "supply \<noteq> 0"
    and "getAccountInfo module (set_address setToken) = Some (account_of B c owed funding net)"
    and "getPositionUnitInfo module (set_address setToken) = Some (map (unit_position B) ps)"
  shows "calculateUSDCTransferInPreciseUnits B setToken (bn_from B qty) module fixture includeFunding =
    Some (bn_from B ((c + owed + net + (if includeFunding then funding else 0)) * 10 ^ 18 sdiv supply
      * qty sdiv 10 ^ 18 + (\<Sum>p\<leftarrow>ps. issue_quote dq qty p)))"
  using assms(2-) transferIn_loop_from [OF assms(1)]
  by (simp add: calculateUSDCTransferInPreciseUnits_def account_of_def math_from Let_def)

lemma transferOut_from:
  assumes "quotes B fixture price dq" and "set_totalSupply setToken = Some (bn_from B supply)" and "supply \<noteq> 0"
    and "getAccountInfo module (set_address setToken) = Some (account_of B c owed funding net)"
    and "getPositionNotionalInfo module (set_address setToken) = Some (map (notional_position B) ps)"
    and "\<forall>p \<in> set ps. fst (snd p) \<noteq> 0"
  shows "calculateUSDCTransferOutPreciseUnits B setToken (bn_from B qty) module fixture includeFunding =
    Some (bn_from B \<bar>(c + owed + (if includeFunding then funding else 0)) * 10 ^ 18 sdiv supply
      * qty sdiv 10 ^ 18 + (\<Sum>p\<leftarrow>ps. redeem_pnl dq supply qty p)\<bar>)"
  using assms(2-5) transferOut_loop_from [OF assms(1-3,6)]
  by (simp add: calculateUSDCTransferOutPreciseUnits_def account_of_def math_from Let_def)

lemma net_funding_from:
  assumes "px_fundingGrowthAndTwaps fixture tok = Some (bn_from B g, bn_from B mark, bn_from B index)"
  shows "getNetFundingGrowth B tok (bn_from B b) fixture = Some (bn_from B
    ((if (mark < index) = (0 < b) then 1 else - 1) * \<bar>b * (g * 10 ^ 18 sdiv 2 ^ 96 sdiv 86400) sdiv 10 ^ 18\<bar>))"
  using assms ether_1 by (auto simp: getNetFundingGrowth_def math_from Let_def)

lemma leverUp_from:
  assumes "px_getSpotPrice fixture tok = Some (bn_from B p)" and "set_totalSupply setToken = Some (bn_from B s)"
    and "getAccountInfo module (set_address setToken) = Some (account_of B c owed funding net)"
    and "0 < p" and "0 < s" and "\<bar>ratio\<bar> < 9007199254740991"
  shows "leverUp B send setToken module fixture owner tok ratio slippage isLong track chain =
    (let base = c * ratio * 10 ^ 18 sdiv p; unit = base * 10 ^ 18 sdiv s;
         quote = \<bar>base * p sdiv 10 ^ 18\<bar>; allowed = quote * 20000000000000000 sdiv 10 ^ 18;
         limit = (if isLong then quote + allowed else quote - allowed) * 10 ^ 18 sdiv s;
         baseUnit = bn_from B (if isLong then unit else - unit)
     in Option.bind (send ((if track = Some True then tradeAndTrackFunding else trade)
          owner (module_address module) (set_address setToken) tok baseUnit (bn_from B limit)) chain)
        (\<lambda>chain'. Some (baseUnit, chain')))"
proof -
  have "ether B ''0.02'' = Some (bn_from B 20000000000000000)"
    using ether_frac [of "''02''"] by (simp add: all_digits_def digits_value_def)
  with assms show ?thesis
    by (simp add: leverUp_def account_of_def from_number_safe math_from Let_def
        cong del: option_bind_weak_cong)
qed

end

subsection \<open>Properties\<close>

text \<open>C32: what an issuance transfers in. The spot price, added as the ideal quote and taken out
  again with the expected slippage, cancels: the prediction is the issued share of the account's
  collateral value plus the quote that each long position pays and minus the quote that each
  short position receives, at the swap quoter's answers.\<close>

theorem usdc_transfer_in:
  assumes "bignumber B" and "quotes B fixture price dq"
    and "set_totalSupply setToken = Some (bn_from B supply)" and "supply \<noteq> 0"
    and "getAccountInfo module (set_address setToken) = Some (account_of B c owed funding net)"
    and "getPositionUnitInfo module (set_address setToken) = Some (map (unit_position B) ps)"
  shows "calculateUSDCTransferInPreciseUnits B setToken (bn_from B qty) module fixture includeFunding =
      Some (bn_from B ((c + owed + net + (if includeFunding then funding else 0)) * 10 ^ 18 sdiv supply
        * qty sdiv 10 ^ 18 + (\<Sum>p\<leftarrow>ps. issue_quote dq qty p))) \<and>
    calculateUSDCTransferIn B setToken (bn_from B qty) module fixture =
      Some (bn_from B (((c + owed + net + funding) * 10 ^ 18 sdiv supply
        * qty sdiv 10 ^ 18 + (\<Sum>p\<leftarrow>ps. issue_quote dq qty p)) sdiv 10 ^ 12))"
  using bignumber.transferIn_from [OF assms]
  by (simp add: calculateUSDCTransferIn_def toUSDCDecimals_def bignumber.bn_simps [OF assms(1)])

definition perp_set_example :: "int set_view" where
  "perp_set_example = \<lparr>set_address = ''set'', set_totalSupply = Some 2000000000000000000\<rparr>"

definition perp_module_example :: "int perp_module" where
  "perp_module_example = \<lparr>
     getAccountInfo = (\<lambda>a. Some (account_of int_bn 10000000000000000000 0 0 0)),
     getPositionUnitInfo = (\<lambda>a. Some (map (unit_position int_bn)
       [(''eth'', 1000000000000000000), (''btc'', - 1000000000000000000)])),
     getPositionNotionalInfo = (\<lambda>a. Some (map (notional_position int_bn)
       [(''eth'', 2000000000000000000, - 4000000000000000000)])),
     module_address = ''module''\<rparr>"

definition perp_fixture_example :: "int perp_fixture" where
  "perp_fixture_example = \<lparr>px_getSpotPrice = (\<lambda>t. Some 2000000000000000000),
     px_getSwapQuote = (\<lambda>t n b. Some (n, if b then 3 * n else n)),
     px_fundingGrowthAndTwaps = (\<lambda>t. Some (86400 * 2 ^ 96, 10, 20)),
     px_getIndexPrice = (\<lambda>t i. Some 2000000000000000000), px_getImRatio = Some 100000,
     px_getPnlAndPendingFee = (\<lambda>a. Some (0, 0, 0)), px_getTotalDebtValue = (\<lambda>a. Some 0),
     px_getTotalAbsPositionValue = (\<lambda>a. Some 1000000000000000000)\<rparr>"

lemma perp_fixture_quotes:
  "quotes int_bn perp_fixture_example (\<lambda>t. 2000000000000000000) (\<lambda>t n b. if b then 3 * n else n)"
  by (simp add: quotes_def perp_fixture_example_def)

theorem usdc_transfer_in_witness:
  "calculateUSDCTransferInPreciseUnits int_bn perp_set_example 1000000000000000000 perp_module_example
     perp_fixture_example True = Some 7000000000000000000"
  using usdc_transfer_in [OF int_bn.bignumber_axioms perp_fixture_quotes, of perp_set_example
      2000000000000000000 perp_module_example 10000000000000000000 0 0 0
      "[(''eth'', 1000000000000000000), (''btc'', - 1000000000000000000)]" 1000000000000000000 True]
  by (simp add: perp_set_example_def perp_module_example_def issue_quote_def sdiv_nonneg sdiv_neg_pos)

text \<open>What a redemption transfers out: the absolute value of the redeemed share of the
  collateral plus the profit of closing that share of every position, a long one by selling and
  a short one by buying; a position with no base balance makes the prediction throw.\<close>

lemma usdc_transfer_out:
  assumes "bignumber B" and "quotes B fixture price dq"
    and "set_totalSupply setToken = Some (bn_from B supply)" and "supply \<noteq> 0"
    and "getAccountInfo module (set_address setToken) = Some (account_of B c owed funding net)"
    and "getPositionNotionalInfo module (set_address setToken) = Some (map (notional_position B) ps)"
    and "\<forall>p \<in> set ps. fst (snd p) \<noteq> 0"
  shows "calculateUSDCTransferOutPreciseUnits B setToken (bn_from B qty) module fixture includeFunding =
      Some (bn_from B \<bar>(c + owed + (if includeFunding then funding else 0)) * 10 ^ 18 sdiv supply
        * qty sdiv 10 ^ 18 + (\<Sum>p\<leftarrow>ps. redeem_pnl dq supply qty p)\<bar>)"
  by (rule bignumber.transferOut_from [OF assms])

text \<open>Funding is a transfer between the two sides of the market: a long and a short position
  of the same size have opposite net funding growths, and the long one gains exactly when the
  mark price is below the index price.\<close>

lemma funding_is_zero_sum:
  assumes "bignumber B" and "0 < b"
    and "px_fundingGrowthAndTwaps fixture tok = Some (bn_from B g, bn_from B mark, bn_from B index)"
  shows "\<exists>f. getNetFundingGrowth B tok (bn_from B b) fixture = Some (bn_from B f) \<and>
    getNetFundingGrowth B tok (bn_from B (- b)) fixture = Some (bn_from B (- f)) \<and>
    (mark < index \<longrightarrow> 0 \<le> f) \<and> (index \<le> mark \<longrightarrow> f \<le> 0)"
  using assms(2) bignumber.net_funding_from [OF assms(1,3), of b] bignumber.net_funding_from [OF assms(1,3), of "- b"]
  by (intro exI [of _ "(if mark < index then 1 else - 1) * \<bar>b * (g * 10 ^ 18 sdiv 2 ^ 96 sdiv 86400) sdiv 10 ^ 18\<bar>"])
    (simp add: abs_sdiv abs_mult div_int_nonneg)

lemma floor_percent: "x \<le> l * d \<Longrightarrow> 0 \<le> d \<Longrightarrow> l * 100 \<le> k \<Longrightarrow> x * 100 \<le> k * d" for x l d k :: int
  using mult_right_mono [of "l * 100" k d] by linarith

text \<open>\<open>leverUp\<close> trades the collateral times the leverage ratio, as a positive base quantity for
  a long and a negative one for a short position, and limits the quote to 2 percent above or
  below the spot value, whatever slippage it is given: that argument is not used.\<close>

lemma lever_up_trade:
  assumes "bignumber B" and "px_getSpotPrice fixture tok = Some (bn_from B p)"
    and "set_totalSupply setToken = Some (bn_from B s)"
    and "getAccountInfo module (set_address setToken) = Some (account_of B c owed funding net)"
    and "0 < p" and "0 < s" and "0 \<le> c" and "0 < ratio" and "ratio < 9007199254740991"
  shows "\<exists>unit limit. 0 \<le> unit \<and> 0 \<le> limit \<and> unit = c * ratio * 10 ^ 18 div p * 10 ^ 18 div s \<and>
    (isLong \<longrightarrow> limit * s * 100 \<le> c * ratio * 102 * 10 ^ 18) \<and>
    (\<not> isLong \<longrightarrow> limit * s * 100 \<le> (c * ratio * 98 + 99) * 10 ^ 18) \<and>
    (\<forall>slippage. leverUp B send setToken module fixture owner tok ratio slippage isLong None chain =
      Option.bind (send (trade owner (module_address module) (set_address setToken) tok
          (bn_from B (if isLong then unit else - unit)) (bn_from B limit)) chain)
        (\<lambda>chain'. Some (bn_from B (if isLong then unit else - unit), chain')))"
proof -
  define base where "base = c * ratio * 10 ^ 18 div p"
  define quote where "quote = base * p div 10 ^ 18"
  define allowed where "allowed = quote * 20000000000000000 div 10 ^ 18"
  define lim where "lim = (if isLong then quote + allowed else quote - allowed)"
  have pos: "0 \<le> base" "0 \<le> quote" "0 \<le> allowed" "0 \<le> c * ratio * 10 ^ 18"
    using assms(5-8) by (simp_all add: base_def quote_def allowed_def div_int_nonneg)
  have "base * p \<le> c * ratio * 10 ^ 18" unfolding base_def by (rule floor_bounds(1) [OF assms(5)])
  moreover have "quote * 10 ^ 18 \<le> base * p" unfolding quote_def by (rule floor_bounds(1)) simp
  ultimately have q: "quote \<le> c * ratio" by simp
  have a: "allowed * 50 \<le> quote" "quote \<le> allowed * 50 + 49"
    unfolding allowed_def by (simp; presburger)+
  have lim: "0 \<le> lim" "isLong \<Longrightarrow> lim * 100 \<le> c * ratio * 102" "\<not> isLong \<Longrightarrow> lim * 100 \<le> c * ratio * 98 + 99"
    using a q pos unfolding lim_def by (cases isLong; simp; linarith)+
  have bounds: "isLong \<longrightarrow> lim * 10 ^ 18 div s * s * 100 \<le> c * ratio * 102 * 10 ^ 18"
      "\<not> isLong \<longrightarrow> lim * 10 ^ 18 div s * s * 100 \<le> (c * ratio * 98 + 99) * 10 ^ 18"
    by (intro impI floor_percent [OF floor_bounds(1) [OF assms(6)]] lim; simp)+
  have eq: "leverUp B send setToken module fixture owner tok ratio slippage isLong None chain =
      Option.bind (send (trade owner (module_address module) (set_address setToken) tok
          (bn_from B (if isLong then base * 10 ^ 18 div s else - (base * 10 ^ 18 div s)))
          (bn_from B (lim * 10 ^ 18 div s))) chain)
        (\<lambda>chain'. Some (bn_from B (if isLong then base * 10 ^ 18 div s else - (base * 10 ^ 18 div s)), chain'))"
    for slippage
  proof -
    have evals: "c * ratio * 10 ^ 18 sdiv p = base" "base * p sdiv 10 ^ 18 = quote" "\<bar>quote\<bar> = quote"
      "quote * 20000000000000000 sdiv 10 ^ 18 = allowed" "base * 10 ^ 18 sdiv s = base * 10 ^ 18 div s"
      "lim * 10 ^ 18 sdiv s = lim * 10 ^ 18 div s"
      using pos lim(1) assms(5,6) by (simp_all add: sdiv_nonneg base_def quote_def allowed_def)
    have "\<bar>ratio\<bar> < 9007199254740991" using assms(8,9) by simp
    from bignumber.leverUp_from [OF assms(1-6) this, of send owner slippage isLong None chain]
    show ?thesis
      by (simp only: Let_def evals lim_def [symmetric] option.distinct if_False)
  qed
  show ?thesis
    using pos lim(1) bounds eq assms(6)
    by (intro exI [of _ "base * 10 ^ 18 div s"] exI [of _ "lim * 10 ^ 18 div s"])
      (simp add: div_int_nonneg base_def)
qed

end
