(* ===== verification/Chain.thy ===== *)
theory Chain
  imports BigNum "HOL-Library.AList"
begin

text \<open>
  What the deployment scripts see of the chain. A script deploys contracts, sends transactions
  and reads views through \<^verbatim>\<open>ethers\<close> and the generated contract factories; none of these is in the
  repository, and neither are the EVM and the nodes behind it. They are the record \<open>world\<close>: which address a
  deployment gets (\<open>None\<close>: it reverts), which transactions are accepted, what the views answer, all
  as functions of the history so far. The state a script threads through is that history, the
  deployments and transactions it has made, the newest first.

  An address is a word on the chain and a string in JavaScript: \<^verbatim>\<open>contract.address\<close> is the
  checksummed spelling (\<open>checksum\<close>), in mixed case. The locale \<open>chain\<close> states what is documented
  of all this: a spelling is the hexadecimal number up to the case of its letters, a new contract
  gets an address that no earlier one has, and not the zero address.
\<close>

subsection \<open>Values, contracts, history\<close>

datatype 'b arg =
    AStr string
  | ABig 'b
  | ANum int
  | ABool bool
  | AList "'b arg list"
  | AObj "(string \<times> 'b arg) list"

text \<open>A contract handle: its address, the name of its factory, the account that signs for it.\<close>

record contract =
  addr :: string
  kind :: string
  signer :: string

type_synonym links = "(string \<times> string) list"

datatype 'b event =
    Deployed string string links "'b arg list" address
  | Sent string string string "'b arg list" "'b option"
  | Rpc string "'b arg list"

type_synonym 'b history = "'b event list"

record 'b world =
  new_address :: "'b history \<Rightarrow> string \<Rightarrow> string \<Rightarrow> links \<Rightarrow> 'b arg list \<Rightarrow> address option"
  accepts :: "'b history \<Rightarrow> string \<Rightarrow> string \<Rightarrow> string \<Rightarrow> 'b arg list \<Rightarrow> 'b option \<Rightarrow> bool"
  answer :: "'b history \<Rightarrow> string \<Rightarrow> string \<Rightarrow> string \<Rightarrow> 'b arg list \<Rightarrow> 'b arg option"
  rpc_ok :: "'b history \<Rightarrow> string \<Rightarrow> 'b arg list \<Rightarrow> bool"
  accounts :: "string list"
  checksum :: "address \<Rightarrow> string"

fun deployed_address :: "'b event \<Rightarrow> address list" where
  "deployed_address (Deployed s n l xs a) = [a]"
| "deployed_address e = []"

definition addresses :: "'b history \<Rightarrow> address list" where
  "addresses h = concat (map deployed_address h)"

lemma addresses_simps [simp]:
  "addresses [] = []"
  "addresses (Deployed s n l xs a # h) = a # addresses h"
  "addresses (Sent s c m xs v # h) = addresses h"
  "addresses (Rpc m xs # h) = addresses h"
  by (simp_all add: addresses_def)

subsection \<open>What a script does\<close>

text \<open>A JavaScript object literal: a later entry with the same key replaces the value of the first.\<close>

definition js_object :: "(string \<times> 'a) list \<Rightarrow> (string \<times> 'a) list" where
  "js_object kvs = foldl (\<lambda>o' (k, v). AList.update k v o') [] kvs"

definition deploy ::
  "'b world \<Rightarrow> string \<Rightarrow> string \<Rightarrow> links \<Rightarrow> 'b arg list \<Rightarrow> 'b history \<Rightarrow> (contract \<times> 'b history) option"
where
  "deploy W s name l xs h = (case new_address W h s name l xs of
     None \<Rightarrow> None
   | Some a \<Rightarrow> Some (\<lparr>addr = checksum W a, kind = name, signer = s\<rparr>, Deployed s name l xs a # h))"

type_synonym 'b deployment = "'b history \<Rightarrow> (contract \<times> 'b history) option"

definition attach :: "string \<Rightarrow> string \<Rightarrow> string \<Rightarrow> contract" where
  "attach s name a = \<lparr>addr = a, kind = name, signer = s\<rparr>"

definition connect :: "contract \<Rightarrow> string \<Rightarrow> contract" where
  "connect c s = c\<lparr>signer := s\<rparr>"

definition send_value ::
  "'b world \<Rightarrow> contract \<Rightarrow> string \<Rightarrow> 'b arg list \<Rightarrow> 'b option \<Rightarrow> 'b history \<Rightarrow> 'b history option"
where
  "send_value W c method xs v h =
     (if accepts W h (signer c) (addr c) method xs v
      then Some (Sent (signer c) (addr c) method xs v # h) else None)"

definition send :: "'b world \<Rightarrow> contract \<Rightarrow> string \<Rightarrow> 'b arg list \<Rightarrow> 'b history \<Rightarrow> 'b history option" where
  "send W c method xs h = send_value W c method xs None h"

text \<open>A transaction that is sent without \<^verbatim>\<open>await\<close>: when it is rejected the script goes on. The model
  puts it where the code makes the call.\<close>

definition launch :: "'b world \<Rightarrow> contract \<Rightarrow> string \<Rightarrow> 'b arg list \<Rightarrow> 'b history \<Rightarrow> 'b history" where
  "launch W c method xs h = (case send W c method xs h of Some h' \<Rightarrow> h' | None \<Rightarrow> h)"

definition view :: "'b world \<Rightarrow> contract \<Rightarrow> string \<Rightarrow> 'b arg list \<Rightarrow> 'b history \<Rightarrow> 'b arg option" where
  "view W c method xs h = answer W h (signer c) (addr c) method xs"

definition rpc :: "'b world \<Rightarrow> string \<Rightarrow> 'b arg list \<Rightarrow> 'b history \<Rightarrow> 'b history option" where
  "rpc W method xs h = (if rpc_ok W h method xs then Some (Rpc method xs # h) else None)"

text \<open>An optional argument with its default, which is computed only when the argument is absent.\<close>

definition or_else :: "'a option \<Rightarrow> 'a option \<Rightarrow> 'a option" where
  "or_else x d = (case x of Some v \<Rightarrow> Some v | None \<Rightarrow> d)"

definition or_default :: "'a option \<Rightarrow> 'a \<Rightarrow> 'a" where
  "or_default x d = (case x of Some v \<Rightarrow> v | None \<Rightarrow> d)"

lemma or_simps [simp]:
  "or_else None d = d" "or_else (Some v) d = Some v"
  "or_default None e = e" "or_default (Some w) e = w"
  by (simp_all add: or_else_def or_default_def)

text \<open>The view answers of the types the scripts expect.\<close>

fun as_big :: "'b arg \<Rightarrow> 'b option" where
  "as_big (ABig b) = Some b"
| "as_big _ = None"

fun as_num :: "'b arg \<Rightarrow> int option" where
  "as_num (ANum n) = Some n"
| "as_num _ = None"

fun as_str :: "'b arg \<Rightarrow> string option" where
  "as_str (AStr s) = Some s"
| "as_str _ = None"

fun as_list :: "'b arg \<Rightarrow> 'b arg list option" where
  "as_list (AList xs) = Some xs"
| "as_list _ = None"

fun field :: "string \<Rightarrow> 'b arg \<Rightarrow> 'b arg option" where
  "field k (AObj kvs) = map_of kvs k"
| "field k _ = None"

definition ADDRESS_ZERO :: string where
  "ADDRESS_ZERO = address_lower 0"

definition ZERO_BYTES :: string where
  "ZERO_BYTES = ''0x'' @ replicate 64 (CHR ''0'')"

subsection \<open>Reading a spelling back\<close>

definition hex_digit :: "char \<Rightarrow> nat" where
  "hex_digit c = (let n = of_char c in if n \<le> 57 then n - 48 else n - 87)"

definition hex_value :: "string \<Rightarrow> nat" where
  "hex_value s = foldl (\<lambda>n c. 16 * n + hex_digit c) 0 s"

definition parse_address :: "string \<Rightarrow> address" where
  "parse_address s = of_nat (hex_value (drop 2 (toLowerCase s)))"

lemma hex_digit_digit_char: "d < 16 \<Longrightarrow> hex_digit (digit_char d) = d"
  by (simp add: hex_digit_def digit_char_code)

lemma hex_value_hex_pad: "n < 16 ^ w \<Longrightarrow> hex_value (hex_pad w n) = n"
proof (induction w arbitrary: n)
  case (Suc w)
  then have "hex_value (hex_pad w (n div 16)) = n div 16"
    by (simp add: less_mult_imp_div_less mult.commute)
  then show ?case by (simp add: hex_value_def hex_digit_digit_char)
qed (simp add: hex_value_def)

subsection \<open>The documented behaviour\<close>

locale chain =
  fixes W :: "'b world"
  assumes checksum_lower: "toLowerCase (checksum W a) = address_lower (unat a)"
    and new_address_fresh: "new_address W h s name l xs = Some a \<Longrightarrow> a \<notin> set (addresses h)"
    and new_address_nonzero: "new_address W h s name l xs = Some a \<Longrightarrow> a \<noteq> 0"
begin

lemma parse_checksum [simp]: "parse_address (checksum W a) = a"
proof -
  have "unat a < 16 ^ 40" using unsigned_less [of a, where 'a = nat] by simp
  then show ?thesis
    by (simp add: parse_address_def checksum_lower address_lower_def hex_value_hex_pad)
qed

lemma checksum_eq_iff [simp]: "checksum W a = checksum W b \<longleftrightarrow> a = b"
  by (metis parse_checksum)

lemma checksum_order:
  "js_less (toLowerCase (checksum W a)) (toLowerCase (checksum W b)) \<longleftrightarrow> a < b"
  using unsigned_less [of a, where 'a = nat] unsigned_less [of b, where 'a = nat]
  by (simp add: checksum_lower js_less_address_lower word_less_nat_alt)

lemma deploy_cases:
  assumes "deploy W s name l xs h = Some (c, h')"
  obtains a where "new_address W h s name l xs = Some a" and "a \<notin> set (addresses h)" and "a \<noteq> 0"
    and "c = \<lparr>addr = checksum W a, kind = name, signer = s\<rparr>" and "h' = Deployed s name l xs a # h"
  using assms new_address_fresh [of h s name l xs] new_address_nonzero [of h s name l xs]
  by (auto simp: deploy_def split: option.splits)

lemma deploy_distinct:
  "deploy W s name l xs h = Some (c, h') \<Longrightarrow> distinct (addresses h) \<Longrightarrow> distinct (addresses h')"
  by (erule deploy_cases) simp

end

lemma send_Some: "send W c m xs h = Some h' \<longleftrightarrow>
    accepts W h (signer c) (addr c) m xs None \<and> h' = Sent (signer c) (addr c) m xs None # h"
  by (auto simp: send_def send_value_def)

lemma send_value_Some: "send_value W c m xs v h = Some h' \<longleftrightarrow>
    accepts W h (signer c) (addr c) m xs v \<and> h' = Sent (signer c) (addr c) m xs v # h"
  by (auto simp: send_value_def)

lemma rpc_Some: "rpc W m xs h = Some h' \<longleftrightarrow> rpc_ok W h m xs \<and> h' = Rpc m xs # h"
  by (auto simp: rpc_def)

lemmas script_simps = send_Some send_value_Some rpc_Some

subsection \<open>Scripts that keep to their own contracts\<close>

text \<open>Which contract an event is about, and the histories that extend another one by events about
  contracts that it does not have.\<close>

fun event_address :: "'b event \<Rightarrow> address set" where
  "event_address (Deployed s n l xs a) = {a}"
| "event_address (Sent s c m xs v) = {parse_address c}"
| "event_address (Rpc m xs) = {}"

definition confined :: "'b history \<Rightarrow> 'b history \<Rightarrow> bool" where
  "confined h h' \<longleftrightarrow> (\<exists>es. h' = es @ h \<and> (\<forall>e \<in> set es. event_address e \<inter> set (addresses h) = {}))"

lemma addresses_append [simp]: "addresses (es @ h) = addresses es @ addresses h"
  by (simp add: addresses_def)

lemma confined_refl [simp]: "confined h h"
  by (simp add: confined_def)

lemma confined_subset: "confined h h' \<Longrightarrow> set (addresses h) \<subseteq> set (addresses h')"
  by (auto simp: confined_def)

lemma confined_trans:
  assumes "confined h h'" and "confined h' h''"
  shows "confined h h''"
proof -
  from assms obtain es es' where "h' = es @ h" "h'' = es' @ es @ h"
    "\<forall>e \<in> set es. event_address e \<inter> set (addresses h) = {}"
    "\<forall>e \<in> set es'. event_address e \<inter> set (addresses (es @ h)) = {}" by (auto simp: confined_def)
  then show ?thesis unfolding confined_def by (intro exI [of _ "es' @ es"]) auto
qed

lemma confined_Cons: "event_address e \<inter> set (addresses h) = {} \<Longrightarrow> confined h h' \<Longrightarrow> confined h (e # h')"
  unfolding confined_def by (auto intro: exI [of _ "e # _"])

lemma confined_send_value:
  "confined h0 h \<Longrightarrow> send_value W c m xs v h = Some h' \<Longrightarrow> parse_address (addr c) \<notin> set (addresses h0) \<Longrightarrow>
   confined h0 h'"
  by (auto simp: send_value_Some intro!: confined_Cons)

lemma confined_send:
  "confined h0 h \<Longrightarrow> send W c m xs h = Some h' \<Longrightarrow> parse_address (addr c) \<notin> set (addresses h0) \<Longrightarrow>
   confined h0 h'"
  by (auto simp: send_Some intro!: confined_Cons)

lemma confined_rpc: "confined h0 h \<Longrightarrow> rpc W m xs h = Some h' \<Longrightarrow> confined h0 h'"
  by (auto simp: rpc_Some intro!: confined_Cons)

context chain
begin

lemma deploy_step:
  assumes "deploy W s name l xs h = Some (c, h')"
  shows "\<exists>a. addr c = checksum W a \<and> signer c = s \<and> a \<noteq> 0 \<and> a \<notin> set (addresses h) \<and>
    addresses h' = a # addresses h \<and> h' = Deployed s name l xs a # h \<and> confined h h'"
  using assms by (elim deploy_cases) (auto intro!: confined_Cons)

lemma confined_deploy:
  assumes "confined h0 h" and "deploy W s name l xs h = Some (c, h')"
  shows "confined h0 h'" and "parse_address (addr c) \<notin> set (addresses h0)"
  using assms confined_subset [OF assms(1)] deploy_step [OF assms(2)] confined_trans [OF assms(1), of h']
  by auto

end

text \<open>The transactions of a history in the order they were made: contract, method, arguments.\<close>

fun event_call :: "'b event \<Rightarrow> (string \<times> string \<times> 'b arg list) list" where
  "event_call (Sent s c m xs v) = [(c, m, xs)]"
| "event_call e = []"

definition calls :: "'b history \<Rightarrow> (string \<times> string \<times> 'b arg list) list" where
  "calls h = concat (map event_call (rev h))"

lemma calls_simps [simp]:
  "calls [] = []"
  "calls (Deployed s n l xs a # h) = calls h"
  "calls (Sent s c m xs v # h) = calls h @ [(c, m, xs)]"
  "calls (Rpc m xs # h) = calls h"
  by (simp_all add: calls_def)

lemma calls_deploy: "deploy W s name l xs h = Some (c, h') \<Longrightarrow> calls h' = calls h"
  by (auto simp: deploy_def split: option.splits)

subsection \<open>A provider: a chain that numbers its contracts\<close>

definition answering :: "('b history \<Rightarrow> string \<Rightarrow> string \<Rightarrow> string \<Rightarrow> 'b arg list \<Rightarrow> 'b arg option) \<Rightarrow> 'b world" where
  "answering views = \<lparr>
     new_address = (\<lambda>h s name l xs. let n = foldl max 0 (addresses h)
       in if n = - 1 then None else Some (n + 1)),
     accepts = (\<lambda>h s c m xs v. True),
     answer = views,
     rpc_ok = (\<lambda>h m xs. True),
     accounts = map address_lower [1, 2, 3, 4],
     checksum = (\<lambda>a. address_lower (unat a))\<rparr>"

text \<open>The one that answers no view.\<close>

abbreviation counting_world :: "'b world" where
  "counting_world \<equiv> answering (\<lambda>h s c m xs. None)"

lemma answer_answering [simp]: "answer (answering views) = views"
  by (simp add: answering_def)

lemma view_answering [simp]: "view (answering views) c m xs h = views h (signer c) (addr c) m xs"
  by (simp add: view_def)

lemma foldl_max_ge: "n \<le> foldl max n xs \<and> (x \<in> set xs \<longrightarrow> x \<le> foldl max n xs)" for x :: "'a::linorder"
proof (induction xs arbitrary: n)
  case (Cons y ys)
  from Cons [of "max n y"] show ?case by auto
qed simp

lemma to_lower_digit: "d < 16 \<Longrightarrow> to_lower (digit_char d) = digit_char d"
  by (simp add: to_lower_def digit_char_code)

lemma toLowerCase_hex_pad: "toLowerCase (hex_pad w n) = hex_pad w n"
  by (induction w arbitrary: n) (simp_all add: toLowerCase_def to_lower_digit)

lemma toLowerCase_address_lower: "toLowerCase (address_lower n) = address_lower n"
  using toLowerCase_hex_pad [of 40 n] by (simp add: address_lower_def toLowerCase_def to_lower_def)

interpretation answering: chain "answering views" for views
proof unfold_locales
  fix h :: "'b history" and views s name l xs a
  assume "new_address (answering views) h s name l xs = Some a"
  then have n: "foldl max 0 (addresses h) \<noteq> - 1" "a = foldl max 0 (addresses h) + 1"
    by (auto simp: answering_def Let_def split: if_splits)
  then have "1 + foldl max 0 (addresses h) \<noteq> 0"
    using max_word_wrap [of "foldl max 0 (addresses h)"] by (auto simp: add.commute)
  with n have "foldl max 0 (addresses h) < a"
    by (simp add: word_less_nat_alt unatSuc add.commute)
  then show "a \<notin> set (addresses h)" "a \<noteq> 0"
    using foldl_max_ge [of 0 "addresses h" a] by auto
qed (simp add: answering_def toLowerCase_address_lower)

text \<open>Running a script there: a history has room for \<open>k\<close> more deployments. A deployment uses one,
  transactions and requests none, so a script runs to its end.\<close>

definition room :: "nat \<Rightarrow> 'b history \<Rightarrow> bool" where
  "room k h \<longleftrightarrow> unat (foldl max 0 (addresses h)) + k < 2 ^ 160"

lemma room_Nil: "k < 2 ^ 160 \<Longrightarrow> room k []"
  by (simp add: room_def)

lemma foldl_max_Cons: "foldl max n (x # xs) = max x (foldl max n xs)" for x :: "'a::linorder"
proof (induction xs arbitrary: n)
  case (Cons y ys)
  from Cons [of "max n y"] show ?case by (simp add: ac_simps)
qed (simp add: max.commute)

definition runs :: "nat \<Rightarrow> ('x \<times> 'b history) option \<Rightarrow> bool" where
  "runs k m \<longleftrightarrow> (\<exists>x h. m = Some (x, h) \<and> room k h)"

lemma runs_not_None: "runs k m \<Longrightarrow> \<exists>x h. m = Some (x, h)"
  by (auto simp: runs_def)

lemma runs_Some: "room k h \<Longrightarrow> runs k (Some (x, h))"
  by (simp add: runs_def)

lemma runs_bind:
  "runs j m \<Longrightarrow> (\<And>x h. room j h \<Longrightarrow> runs k (g x h)) \<Longrightarrow> runs k (Option.bind m (case_prod g))"
  by (auto simp: runs_def)

lemma runs_bind_pair:
  "runs j m \<Longrightarrow> (\<And>x y h. room j h \<Longrightarrow> runs k (g x y h)) \<Longrightarrow>
   runs k (Option.bind m (\<lambda>((x, y), h). g x y h))"
  by (auto simp: runs_def)

lemma runs_deploy:
  assumes "room (Suc k) h" and "\<And>c h'. room k h' \<Longrightarrow> runs j (g c h')"
  shows "runs j (Option.bind (deploy (answering views) s n l xs h) (case_prod g))"
proof -
  let ?m = "foldl max 0 (addresses h)"
  have "unat ?m + 1 < 2 ^ 160" using assms(1) by (simp add: room_def)
  then have m: "?m \<noteq> - 1" "unat (?m + 1) = unat ?m + 1"
    by (auto simp: unsigned_minus_1_eq_mask mask_eq_exp_minus_1 unat_word_ariths)
  then have "max (?m + 1) ?m = ?m + 1" by (simp add: max_def word_le_nat_alt)
  with m assms(1) have "room k (Deployed s n l xs (?m + 1) # h)"
    by (simp add: room_def foldl_max_Cons del: foldl_Cons)
  with m(1) show ?thesis
    using assms(2) by (simp add: deploy_def answering_def Let_def)
qed

lemma runs_send:
  assumes "room k h" and "\<And>h'. room k h' \<Longrightarrow> runs j (g h')"
  shows "runs j (Option.bind (send (answering views) c m xs h) g)"
    and "runs j (Option.bind (send_value (answering views) c m xs v h) g)"
    and "runs j (Option.bind (rpc (answering views) m xs h) g)"
  using assms by (simp_all add: send_def send_value_def rpc_def answering_def room_def)

lemma room_launch: "room k h \<Longrightarrow> room k (launch (answering views) c m xs h)"
  by (simp add: launch_def send_def send_value_def answering_def room_def)

end
