(* ===== verification/DeployCore.thy ===== *)
theory DeployCore
  imports Chain
begin

text \<open>
  The deployment helpers of \<^verbatim>\<open>utils/deploys\<close> for the system itself: \<^verbatim>\<open>deployCoreContracts.ts\<close>,
  \<^verbatim>\<open>deployLibraries.ts\<close>, \<^verbatim>\<open>deployOracles.ts\<close>, \<^verbatim>\<open>deployProduct.ts\<close> and \<^verbatim>\<open>deployViewers.ts\<close>. A method of
  a helper class is a function of the class's \<^verbatim>\<open>_deployerSigner\<close>, here \<open>s\<close>; a \<^verbatim>\<open>deploy\<close> method
  deploys through the contract's factory, a \<^verbatim>\<open>get\<close> method attaches to an address.
\<close>

subsection \<open>\<^verbatim>\<open>deployCoreContracts.ts\<close>\<close>

definition deployController ::
  "'b world \<Rightarrow> string \<Rightarrow> string \<Rightarrow> 'b deployment"
where
  "deployController W s feeRecipient =
     deploy W s ''Controller'' [] [AStr feeRecipient]"

definition getController :: "string \<Rightarrow> string \<Rightarrow> contract" where
  "getController s controllerAddress =
     attach s ''Controller'' controllerAddress"

definition deploySetTokenCreator ::
  "'b world \<Rightarrow> string \<Rightarrow> string \<Rightarrow> 'b deployment"
where
  "deploySetTokenCreator W s controller =
     deploy W s ''SetTokenCreator'' [] [AStr controller]"

definition getSetTokenCreator :: "string \<Rightarrow> string \<Rightarrow> contract" where
  "getSetTokenCreator s setTokenCreatorAddress =
     attach s ''SetTokenCreator'' setTokenCreatorAddress"

definition deploySetToken ::
  "'b world \<Rightarrow> string \<Rightarrow> string list \<Rightarrow> 'b arg list \<Rightarrow> string list \<Rightarrow> string \<Rightarrow> string \<Rightarrow> string \<Rightarrow>
   string \<Rightarrow> 'b deployment"
where
  "deploySetToken W s components units modules controller manager name symbol =
     deploy W s ''SetToken'' [] [AList (map AStr components), AList units,
       AList (map AStr modules), AStr controller, AStr manager, AStr name,
       AStr symbol]"

definition getSetToken :: "string \<Rightarrow> string \<Rightarrow> contract" where
  "getSetToken s setTokenAddress =
     attach s ''SetToken'' setTokenAddress"

definition deployPriceOracle ::
  "'b world \<Rightarrow> string \<Rightarrow> string \<Rightarrow> string \<Rightarrow> string list \<Rightarrow> string list \<Rightarrow> string list \<Rightarrow>
   string list \<Rightarrow> 'b deployment"
where
  "deployPriceOracle W s controller masterQuoteAsset adapters assetOnes assetTwos oracles =
     deploy W s ''PriceOracle'' [] [AStr controller, AStr masterQuoteAsset,
       AList (map AStr adapters), AList (map AStr assetOnes),
       AList (map AStr assetTwos), AList (map AStr oracles)]"

definition getPriceOracle :: "string \<Rightarrow> string \<Rightarrow> contract" where
  "getPriceOracle s priceOracleAddress =
     attach s ''PriceOracle'' priceOracleAddress"

definition deployIntegrationRegistry ::
  "'b world \<Rightarrow> string \<Rightarrow> string \<Rightarrow> 'b deployment"
where
  "deployIntegrationRegistry W s controller =
     deploy W s ''IntegrationRegistry'' [] [AStr controller]"

definition getIntegrationRegistry :: "string \<Rightarrow> string \<Rightarrow> contract" where
  "getIntegrationRegistry s integrationRegistryAddress =
     attach s ''IntegrationRegistry'' integrationRegistryAddress"

definition deploySetValuer ::
  "'b world \<Rightarrow> string \<Rightarrow> string \<Rightarrow> 'b deployment"
where
  "deploySetValuer W s controller =
     deploy W s ''SetValuer'' [] [AStr controller]"

subsection \<open>\<^verbatim>\<open>deployLibraries.ts\<close>\<close>

definition deployCompound :: "'b world \<Rightarrow> string \<Rightarrow> 'b deployment" where
  "deployCompound W s =
     deploy W s ''Compound'' [] []"

definition deployAaveV2 :: "'b world \<Rightarrow> string \<Rightarrow> 'b deployment" where
  "deployAaveV2 W s =
     deploy W s ''AaveV2'' [] []"

definition deployAaveV3 :: "'b world \<Rightarrow> string \<Rightarrow> 'b deployment" where
  "deployAaveV3 W s =
     deploy W s ''AaveV3'' [] []"

definition deployMorpho :: "'b world \<Rightarrow> string \<Rightarrow> 'b deployment" where
  "deployMorpho W s =
     deploy W s ''Morpho'' [] []"

definition deployPerpV2 :: "'b world \<Rightarrow> string \<Rightarrow> 'b deployment" where
  "deployPerpV2 W s =
     deploy W s ''PerpV2'' [] []"

definition deployPositionV2 :: "'b world \<Rightarrow> string \<Rightarrow> 'b deployment" where
  "deployPositionV2 W s =
     deploy W s ''PositionV2'' [] []"

definition deployPerpV2LibraryV2 :: "'b world \<Rightarrow> string \<Rightarrow> 'b deployment" where
  "deployPerpV2LibraryV2 W s =
     deploy W s ''PerpV2LibraryV2'' [] []"

definition deployPerpV2Positions :: "'b world \<Rightarrow> string \<Rightarrow> 'b deployment" where
  "deployPerpV2Positions W s =
     deploy W s ''PerpV2Positions'' [] []"

subsection \<open>\<^verbatim>\<open>deployOracles.ts\<close>\<close>

definition deployCTokenOracle ::
  "'b world \<Rightarrow> string \<Rightarrow> string \<Rightarrow> string \<Rightarrow> 'b \<Rightarrow> 'b \<Rightarrow> string \<Rightarrow> 'b deployment"
where
  "deployCTokenOracle W s cToken underlyingOracle cTokenFullUnit underlyingFullUnit
       dataDescription =
     deploy W s ''CTokenOracle'' [] [AStr cToken, AStr underlyingOracle,
       ABig cTokenFullUnit, ABig underlyingFullUnit, AStr dataDescription]"

definition deployYearnVaultOracle ::
  "'b world \<Rightarrow> string \<Rightarrow> string \<Rightarrow> string \<Rightarrow> 'b \<Rightarrow> string \<Rightarrow> 'b deployment"
where
  "deployYearnVaultOracle W s vault underlyingOracle underlyingFullUnit dataDescription =
     deploy W s ''YearnVaultOracle'' [] [AStr vault, AStr underlyingOracle,
       ABig underlyingFullUnit, AStr dataDescription]"

definition deployERC4626Oracle ::
  "'b world \<Rightarrow> string \<Rightarrow> string \<Rightarrow> string \<Rightarrow> 'b deployment"
where
  "deployERC4626Oracle W s vault dataDescription =
     deploy W s ''ERC4626Oracle'' [] [AStr vault, AStr dataDescription]"

definition deployPreciseUnitOracle ::
  "'b world \<Rightarrow> string \<Rightarrow> string \<Rightarrow> 'b deployment"
where
  "deployPreciseUnitOracle W s dataDescription =
     deploy W s ''PreciseUnitOracle'' [] [AStr dataDescription]"

subsection \<open>\<^verbatim>\<open>deployProduct.ts\<close>\<close>

definition deployAssetLimitHook ::
  "'b world \<Rightarrow> string \<Rightarrow> string list \<Rightarrow> 'b list \<Rightarrow> 'b deployment"
where
  "deployAssetLimitHook W s assets limits =
     deploy W s ''AssetLimitHook'' [] [AList (map AStr assets), AList (map ABig limits)]"

definition getAssetLimitHook :: "string \<Rightarrow> string \<Rightarrow> contract" where
  "getAssetLimitHook s assetLimitHookAddress =
     attach s ''AssetLimitHook'' assetLimitHookAddress"

definition deployAMMSplitter ::
  "'b world \<Rightarrow> string \<Rightarrow> string \<Rightarrow> string \<Rightarrow> string \<Rightarrow> string \<Rightarrow> 'b deployment"
where
  "deployAMMSplitter W s uniRouter sushiRouter uniFactory sushiFactory =
     deploy W s ''AMMSplitter'' [] [AStr uniRouter, AStr sushiRouter, AStr uniFactory,
       AStr sushiFactory]"

definition deployBridgedSetToken ::
  "'b world \<Rightarrow> string \<Rightarrow> string \<Rightarrow> string \<Rightarrow> 'b deployment"
where
  "deployBridgedSetToken W s name symbol =
     deploy W s ''BridgedSetToken'' [] [AStr name, AStr symbol]"

definition deployCachedSetValuer ::
  "'b world \<Rightarrow> string \<Rightarrow> string \<Rightarrow> string \<Rightarrow> string \<Rightarrow> 'b \<Rightarrow> 'b deployment"
where
  "deployCachedSetValuer W s controller setValuer rebasingModule maxStaleness =
     deploy W s ''CachedSetValuer'' [] [AStr controller, AStr setValuer,
       AStr rebasingModule, ABig maxStaleness]"

subsection \<open>\<^verbatim>\<open>deployViewers.ts\<close>\<close>

definition deployProtocolViewer :: "'b world \<Rightarrow> string \<Rightarrow> 'b deployment" where
  "deployProtocolViewer W s =
     deploy W s ''ProtocolViewer'' [] []"

definition deployPerpV2LeverageModuleViewer ::
  "'b world \<Rightarrow> string \<Rightarrow> string \<Rightarrow> string \<Rightarrow> string \<Rightarrow> string \<Rightarrow> 'b deployment"
where
  "deployPerpV2LeverageModuleViewer W s perpModule perpAccountBalance
       perpClearingHouseConfig vQuoteToken =
     deploy W s ''PerpV2LeverageModuleViewer'' [] [AStr perpModule,
       AStr perpAccountBalance, AStr perpClearingHouseConfig, AStr vQuoteToken]"

subsection \<open>What a helper does\<close>

lemmas core_defs = deployController_def deploySetTokenCreator_def deploySetToken_def
  deployPriceOracle_def deployIntegrationRegistry_def deploySetValuer_def getController_def
  getSetTokenCreator_def getSetToken_def getPriceOracle_def getIntegrationRegistry_def

lemmas libraries_defs = deployCompound_def deployAaveV2_def deployAaveV3_def
  deployMorpho_def deployPerpV2_def deployPositionV2_def deployPerpV2LibraryV2_def
  deployPerpV2Positions_def

lemmas oracles_defs = deployCTokenOracle_def deployYearnVaultOracle_def
  deployERC4626Oracle_def deployPreciseUnitOracle_def

lemmas product_defs = deployAssetLimitHook_def deployAMMSplitter_def
  deployBridgedSetToken_def deployCachedSetValuer_def getAssetLimitHook_def

lemmas viewers_defs = deployProtocolViewer_def deployPerpV2LeverageModuleViewer_def

end
