(* ===== verification/DeployModules.thy ===== *)
theory DeployModules
  imports Chain
begin

text \<open>
  \<^verbatim>\<open>utils/deploys/deployModules.ts\<close> and \<^verbatim>\<open>utils/deploys/deployAdapters.ts\<close>: the modules of the
  protocol and the adapters to other protocols. A module that links libraries passes the object
  of the link ids and the library addresses to the factory.
\<close>

subsection \<open>\<^verbatim>\<open>deployModules.ts\<close>\<close>

definition deployBasicIssuanceModule ::
  "'b world \<Rightarrow> string \<Rightarrow> string \<Rightarrow> 'b deployment"
where
  "deployBasicIssuanceModule W s controller =
     deploy W s ''BasicIssuanceModule'' [] [AStr controller]"

definition deployIssuanceModule ::
  "'b world \<Rightarrow> string \<Rightarrow> string \<Rightarrow> 'b deployment"
where
  "deployIssuanceModule W s controller =
     deploy W s ''IssuanceModule'' [] [AStr controller]"

definition deployDebtIssuanceModule ::
  "'b world \<Rightarrow> string \<Rightarrow> string \<Rightarrow> 'b deployment"
where
  "deployDebtIssuanceModule W s controller =
     deploy W s ''DebtIssuanceModule'' [] [AStr controller]"

definition deployDebtIssuanceModuleV2 ::
  "'b world \<Rightarrow> string \<Rightarrow> string \<Rightarrow> 'b deployment"
where
  "deployDebtIssuanceModuleV2 W s controller =
     deploy W s ''DebtIssuanceModuleV2'' [] [AStr controller]"

definition deployDebtIssuanceModuleV3 ::
  "'b world \<Rightarrow> string \<Rightarrow> string \<Rightarrow> 'b arg \<Rightarrow> 'b deployment"
where
  "deployDebtIssuanceModuleV3 W s controller tokenTransferBuffer =
     deploy W s ''DebtIssuanceModuleV3'' [] [AStr controller, tokenTransferBuffer]"

definition deploySlippageIssuanceModule ::
  "'b world \<Rightarrow> string \<Rightarrow> string \<Rightarrow> 'b deployment"
where
  "deploySlippageIssuanceModule W s controller =
     deploy W s ''SlippageIssuanceModule'' [] [AStr controller]"

definition deployAmmModule ::
  "'b world \<Rightarrow> string \<Rightarrow> string \<Rightarrow> 'b deployment"
where
  "deployAmmModule W s controller =
     deploy W s ''AmmModule'' [] [AStr controller]"

definition getBasicIssuanceModule :: "string \<Rightarrow> string \<Rightarrow> contract" where
  "getBasicIssuanceModule s basicIssuanceModule =
     attach s ''BasicIssuanceModule'' basicIssuanceModule"

definition deployStreamingFeeModule ::
  "'b world \<Rightarrow> string \<Rightarrow> string \<Rightarrow> 'b deployment"
where
  "deployStreamingFeeModule W s controller =
     deploy W s ''StreamingFeeModule'' [] [AStr controller]"

definition getStreamingFeeModule :: "string \<Rightarrow> string \<Rightarrow> contract" where
  "getStreamingFeeModule s streamingFeeModule =
     attach s ''StreamingFeeModule'' streamingFeeModule"

definition deployAirdropModule ::
  "'b world \<Rightarrow> string \<Rightarrow> string \<Rightarrow> 'b deployment"
where
  "deployAirdropModule W s controller =
     deploy W s ''AirdropModule'' [] [AStr controller]"

definition deployTradeModule ::
  "'b world \<Rightarrow> string \<Rightarrow> string \<Rightarrow> 'b deployment"
where
  "deployTradeModule W s controller =
     deploy W s ''TradeModule'' [] [AStr controller]"

definition deployWrapModule ::
  "'b world \<Rightarrow> string \<Rightarrow> string \<Rightarrow> string \<Rightarrow> 'b deployment"
where
  "deployWrapModule W s controller weth =
     deploy W s ''WrapModule'' [] [AStr controller, AStr weth]"

definition deployClaimModule ::
  "'b world \<Rightarrow> string \<Rightarrow> string \<Rightarrow> 'b deployment"
where
  "deployClaimModule W s controller =
     deploy W s ''ClaimModule'' [] [AStr controller]"

definition deployStakingModule ::
  "'b world \<Rightarrow> string \<Rightarrow> string \<Rightarrow> 'b deployment"
where
  "deployStakingModule W s controller =
     deploy W s ''StakingModule'' [] [AStr controller]"

definition deployRebasingComponentModule ::
  "'b world \<Rightarrow> string \<Rightarrow> string \<Rightarrow> 'b deployment"
where
  "deployRebasingComponentModule W s controller =
     deploy W s ''RebasingComponentModule'' [] [AStr controller]"

definition deployCustomOracleNavIssuanceModule ::
  "'b world \<Rightarrow> string \<Rightarrow> string \<Rightarrow> string \<Rightarrow> 'b deployment"
where
  "deployCustomOracleNavIssuanceModule W s controller weth =
     deploy W s ''CustomOracleNavIssuanceModule'' [] [AStr controller, AStr weth]"

definition deploySingleIndexModule ::
  "'b world \<Rightarrow> string \<Rightarrow> string \<Rightarrow> string \<Rightarrow> string \<Rightarrow> string \<Rightarrow> string \<Rightarrow> 'b deployment"
where
  "deploySingleIndexModule W s controller weth uniswapRouter sushiswapRouter balancerProxy =
     deploy W s ''SingleIndexModule'' [] [AStr controller, AStr weth,
       AStr uniswapRouter, AStr sushiswapRouter, AStr balancerProxy]"

definition deployGeneralIndexModule ::
  "'b world \<Rightarrow> string \<Rightarrow> string \<Rightarrow> string \<Rightarrow> 'b deployment"
where
  "deployGeneralIndexModule W s controller weth =
     deploy W s ''GeneralIndexModule'' [] [AStr controller, AStr weth]"

definition deployGovernanceModule ::
  "'b world \<Rightarrow> string \<Rightarrow> string \<Rightarrow> 'b deployment"
where
  "deployGovernanceModule W s controller =
     deploy W s ''GovernanceModule'' [] [AStr controller]"

definition deployCompoundLeverageModule ::
  "'b world \<Rightarrow> string \<Rightarrow> string \<Rightarrow> string \<Rightarrow> string \<Rightarrow> string \<Rightarrow> string \<Rightarrow> string \<Rightarrow> string \<Rightarrow>
   'b deployment"
where
  "deployCompoundLeverageModule W s controller compToken comptroller cEth weth libraryName
       libraryAddress =
     deploy W s ''CompoundLeverageModule'' (js_object [(libraryName,
       libraryAddress)]) [AStr controller, AStr compToken, AStr comptroller,
       AStr cEth, AStr weth]"

definition deployAaveLeverageModule ::
  "'b world \<Rightarrow> string \<Rightarrow> string \<Rightarrow> string \<Rightarrow> string \<Rightarrow> string \<Rightarrow> 'b deployment"
where
  "deployAaveLeverageModule W s controller lendingPoolAddressesProvider libraryName
       libraryAddress =
     deploy W s ''AaveLeverageModule'' (js_object [(libraryName,
       libraryAddress)]) [AStr controller, AStr lendingPoolAddressesProvider]"

definition deployAaveV3LeverageModule ::
  "'b world \<Rightarrow> string \<Rightarrow> string \<Rightarrow> string \<Rightarrow> string \<Rightarrow> string \<Rightarrow> 'b deployment"
where
  "deployAaveV3LeverageModule W s controller lendingPoolAddressesProvider libraryName
       libraryAddress =
     deploy W s ''AaveV3LeverageModule'' (js_object [(libraryName,
       libraryAddress)]) [AStr controller, AStr lendingPoolAddressesProvider]"

definition deployMorphoLeverageModule ::
  "'b world \<Rightarrow> string \<Rightarrow> string \<Rightarrow> string \<Rightarrow> string \<Rightarrow> string \<Rightarrow> 'b deployment"
where
  "deployMorphoLeverageModule W s controller morphoAddress libraryName libraryAddress =
     deploy W s ''MorphoLeverageModule'' (js_object [(libraryName,
       libraryAddress)]) [AStr controller, AStr morphoAddress]"

definition deployNotionalTradeModule ::
  "'b world \<Rightarrow> string \<Rightarrow> string \<Rightarrow> string \<Rightarrow> string \<Rightarrow> string \<Rightarrow> 'b arg \<Rightarrow> 'b deployment"
where
  "deployNotionalTradeModule W s controller wrappedfCashFactory weth notionalV2
       decodedIdGasLimit =
     deploy W s ''NotionalTradeModule'' [] [AStr controller, AStr wrappedfCashFactory,
       AStr weth, AStr notionalV2, decodedIdGasLimit]"

definition deployWrapModuleV2 ::
  "'b world \<Rightarrow> string \<Rightarrow> string \<Rightarrow> string \<Rightarrow> 'b deployment"
where
  "deployWrapModuleV2 W s controller weth =
     deploy W s ''WrapModuleV2'' [] [AStr controller, AStr weth]"

definition deployPerpV2LeverageModuleV2 ::
  "'b world \<Rightarrow> string \<Rightarrow> string \<Rightarrow> string \<Rightarrow> string \<Rightarrow> string \<Rightarrow> 'b \<Rightarrow> string \<Rightarrow> string \<Rightarrow> string \<Rightarrow>
   string \<Rightarrow> string \<Rightarrow> string \<Rightarrow> 'b deployment"
where
  "deployPerpV2LeverageModuleV2 W s controller perpVault perpQuoter perpMarketRegistry
       maxPerpPositionsPerSet positionV2LibraryName positionV2LibraryAddress
       perpV2LibraryName perpV2LibraryAddress perpV2PositionsLibraryName
       perpV2PositionsLibraryAddress =
     deploy W s ''PerpV2LeverageModuleV2'' (js_object [(positionV2LibraryName,
       positionV2LibraryAddress), (perpV2LibraryName, perpV2LibraryAddress),
       (perpV2PositionsLibraryName,
       perpV2PositionsLibraryAddress)]) [AStr controller, AStr perpVault,
       AStr perpQuoter, AStr perpMarketRegistry, ABig maxPerpPositionsPerSet]"

definition deployPerpV2BasisTradingModule ::
  "'b world \<Rightarrow> string \<Rightarrow> string \<Rightarrow> string \<Rightarrow> string \<Rightarrow> string \<Rightarrow> 'b \<Rightarrow> string \<Rightarrow> string \<Rightarrow> string \<Rightarrow>
   string \<Rightarrow> string \<Rightarrow> string \<Rightarrow> 'b deployment"
where
  "deployPerpV2BasisTradingModule W s controller perpVault perpQuoter perpMarketRegistry
       maxPerpPositionsPerSet positionV2LibraryName positionV2LibraryAddress
       perpV2LibraryName perpV2LibraryAddress perpV2PositionsLibraryName
       perpV2PositionsLibraryAddress =
     deploy W s ''PerpV2BasisTradingModule'' (js_object [(positionV2LibraryName,
       positionV2LibraryAddress), (perpV2LibraryName, perpV2LibraryAddress),
       (perpV2PositionsLibraryName,
       perpV2PositionsLibraryAddress)]) [AStr controller, AStr perpVault,
       AStr perpQuoter, AStr perpMarketRegistry, ABig maxPerpPositionsPerSet]"

definition deployAuctionRebalanceModuleV1 ::
  "'b world \<Rightarrow> string \<Rightarrow> string \<Rightarrow> 'b deployment"
where
  "deployAuctionRebalanceModuleV1 W s controller =
     deploy W s ''AuctionRebalanceModuleV1'' [] [AStr controller]"

subsection \<open>\<^verbatim>\<open>deployAdapters.ts\<close>\<close>

definition deployKyberExchangeAdapter ::
  "'b world \<Rightarrow> string \<Rightarrow> string \<Rightarrow> 'b deployment"
where
  "deployKyberExchangeAdapter W s kyberNetworkProxy =
     deploy W s ''KyberExchangeAdapter'' [] [AStr kyberNetworkProxy]"

definition deployOneInchExchangeAdapter ::
  "'b world \<Rightarrow> string \<Rightarrow> string \<Rightarrow> string \<Rightarrow> string \<Rightarrow> 'b deployment"
where
  "deployOneInchExchangeAdapter W s approveAddress exchangeAddress swapFunctionSignature =
     deploy W s ''OneInchExchangeAdapter'' [] [AStr approveAddress,
       AStr exchangeAddress, AStr swapFunctionSignature]"

definition deployUniswapV2AmmAdapter ::
  "'b world \<Rightarrow> string \<Rightarrow> string \<Rightarrow> 'b deployment"
where
  "deployUniswapV2AmmAdapter W s uniswapV2Router =
     deploy W s ''UniswapV2AmmAdapter'' [] [AStr uniswapV2Router]"

definition deployUniswapV2ExchangeAdapter ::
  "'b world \<Rightarrow> string \<Rightarrow> string \<Rightarrow> 'b deployment"
where
  "deployUniswapV2ExchangeAdapter W s uniswapV2Router =
     deploy W s ''UniswapV2ExchangeAdapter'' [] [AStr uniswapV2Router]"

definition deployUniswapV2TransferFeeExchangeAdapter ::
  "'b world \<Rightarrow> string \<Rightarrow> string \<Rightarrow> 'b deployment"
where
  "deployUniswapV2TransferFeeExchangeAdapter W s uniswapV2Router =
     deploy W s ''UniswapV2TransferFeeExchangeAdapter'' [] [AStr uniswapV2Router]"

definition deployUniswapV2ExchangeAdapterV2 ::
  "'b world \<Rightarrow> string \<Rightarrow> string \<Rightarrow> 'b deployment"
where
  "deployUniswapV2ExchangeAdapterV2 W s uniswapV2Router =
     deploy W s ''UniswapV2ExchangeAdapterV2'' [] [AStr uniswapV2Router]"

definition deployUniswapV2IndexExchangeAdapter ::
  "'b world \<Rightarrow> string \<Rightarrow> string \<Rightarrow> 'b deployment"
where
  "deployUniswapV2IndexExchangeAdapter W s uniswapV2Router =
     deploy W s ''UniswapV2IndexExchangeAdapter'' [] [AStr uniswapV2Router]"

definition deployAaveGovernanceV2Adapter ::
  "'b world \<Rightarrow> string \<Rightarrow> string \<Rightarrow> string \<Rightarrow> 'b deployment"
where
  "deployAaveGovernanceV2Adapter W s aaveGovernanceV2 aaveToken =
     deploy W s ''AaveGovernanceV2Adapter'' [] [AStr aaveGovernanceV2, AStr aaveToken]"

definition deployCompClaimAdapter ::
  "'b world \<Rightarrow> string \<Rightarrow> string \<Rightarrow> 'b deployment"
where
  "deployCompClaimAdapter W s comptrollerAddress =
     deploy W s ''CompClaimAdapter'' [] [AStr comptrollerAddress]"

definition deployBalancerV1IndexExchangeAdapter ::
  "'b world \<Rightarrow> string \<Rightarrow> string \<Rightarrow> 'b deployment"
where
  "deployBalancerV1IndexExchangeAdapter W s balancerProxy =
     deploy W s ''BalancerV1IndexExchangeAdapter'' [] [AStr balancerProxy]"

definition deployBalancerV2ExchangeAdapter ::
  "'b world \<Rightarrow> string \<Rightarrow> string \<Rightarrow> 'b deployment"
where
  "deployBalancerV2ExchangeAdapter W s vault =
     deploy W s ''BalancerV2ExchangeAdapter'' [] [AStr vault]"

definition deployCompoundLikeGovernanceAdapter ::
  "'b world \<Rightarrow> string \<Rightarrow> string \<Rightarrow> string \<Rightarrow> 'b deployment"
where
  "deployCompoundLikeGovernanceAdapter W s governanceAlpha governanceToken =
     deploy W s ''CompoundLikeGovernanceAdapter'' [] [AStr governanceAlpha,
       AStr governanceToken]"

definition deployCompoundBravoGovernanceAdapter ::
  "'b world \<Rightarrow> string \<Rightarrow> string \<Rightarrow> string \<Rightarrow> 'b deployment"
where
  "deployCompoundBravoGovernanceAdapter W s governorBravo governanceToken =
     deploy W s ''CompoundBravoGovernanceAdapter'' [] [AStr governorBravo,
       AStr governanceToken]"

definition deployCurveStakingAdapter ::
  "'b world \<Rightarrow> string \<Rightarrow> string \<Rightarrow> 'b deployment"
where
  "deployCurveStakingAdapter W s gaugeController =
     deploy W s ''CurveStakingAdapter'' [] [AStr gaugeController]"

definition deployRgtMigrationWrapAdapter ::
  "'b world \<Rightarrow> string \<Rightarrow> string \<Rightarrow> 'b deployment"
where
  "deployRgtMigrationWrapAdapter W s pegExchanger =
     deploy W s ''RgtMigrationWrapAdapter'' [] [AStr pegExchanger]"

definition deployUniswapPairPriceAdapter ::
  "'b world \<Rightarrow> string \<Rightarrow> string \<Rightarrow> string \<Rightarrow> string list \<Rightarrow> 'b deployment"
where
  "deployUniswapPairPriceAdapter W s controller uniswapFactory uniswapPools =
     deploy W s ''UniswapPairPriceAdapter'' [] [AStr controller, AStr uniswapFactory,
       AList (map AStr uniswapPools)]"

definition getUniswapPairPriceAdapter :: "string \<Rightarrow> string \<Rightarrow> contract" where
  "getUniswapPairPriceAdapter s uniswapAdapterAddress =
     attach s ''UniswapPairPriceAdapter'' uniswapAdapterAddress"

definition deployUniswapV3IndexExchangeAdapter ::
  "'b world \<Rightarrow> string \<Rightarrow> string \<Rightarrow> 'b deployment"
where
  "deployUniswapV3IndexExchangeAdapter W s router =
     deploy W s ''UniswapV3IndexExchangeAdapter'' [] [AStr router]"

definition deployZeroExApiAdapter ::
  "'b world \<Rightarrow> string \<Rightarrow> string \<Rightarrow> string \<Rightarrow> 'b deployment"
where
  "deployZeroExApiAdapter W s zeroExAddress wethAddress =
     deploy W s ''ZeroExApiAdapter'' [] [AStr zeroExAddress, AStr wethAddress]"

definition deploySnapshotGovernanceAdapter ::
  "'b world \<Rightarrow> string \<Rightarrow> string \<Rightarrow> 'b deployment"
where
  "deploySnapshotGovernanceAdapter W s delegateRegistry =
     deploy W s ''SnapshotGovernanceAdapter'' [] [AStr delegateRegistry]"

definition deploySynthetixExchangeAdapter ::
  "'b world \<Rightarrow> string \<Rightarrow> string \<Rightarrow> 'b deployment"
where
  "deploySynthetixExchangeAdapter W s synthetixExchangerAddress =
     deploy W s ''SynthetixExchangeAdapter'' [] [AStr synthetixExchangerAddress]"

definition deployUniswapV3ExchangeAdapter ::
  "'b world \<Rightarrow> string \<Rightarrow> string \<Rightarrow> 'b deployment"
where
  "deployUniswapV3ExchangeAdapter W s swapRouter =
     deploy W s ''UniswapV3ExchangeAdapter'' [] [AStr swapRouter]"

definition deployUniswapV3ExchangeAdapterV2 ::
  "'b world \<Rightarrow> string \<Rightarrow> string \<Rightarrow> 'b deployment"
where
  "deployUniswapV3ExchangeAdapterV2 W s swapRouter =
     deploy W s ''UniswapV3ExchangeAdapterV2'' [] [AStr swapRouter]"

definition deployUniswapV3ExchangeAdapterV3 ::
  "'b world \<Rightarrow> string \<Rightarrow> string \<Rightarrow> 'b deployment"
where
  "deployUniswapV3ExchangeAdapterV3 W s swapRouter =
     deploy W s ''UniswapV3ExchangeAdapterV3'' [] [AStr swapRouter]"

definition deployKyberV3IndexExchangeAdapter ::
  "'b world \<Rightarrow> string \<Rightarrow> string \<Rightarrow> string \<Rightarrow> 'b deployment"
where
  "deployKyberV3IndexExchangeAdapter W s dmmRouter dmmFactory =
     deploy W s ''KyberV3IndexExchangeAdapter'' [] [AStr dmmRouter, AStr dmmFactory]"

definition deployCompoundWrapV2Adapter ::
  "'b world \<Rightarrow> string \<Rightarrow> string \<Rightarrow> string \<Rightarrow> 'b deployment"
where
  "deployCompoundWrapV2Adapter W s libraryName libraryAddress =
     deploy W s ''CompoundWrapV2Adapter'' (js_object [(libraryName, libraryAddress)]) []"

definition deployCompoundV3WrapV2Adapter ::
  "'b world \<Rightarrow> string \<Rightarrow> string \<Rightarrow> 'b deployment"
where
  "deployCompoundV3WrapV2Adapter W s comet =
     deploy W s ''CompoundV3WrapV2Adapter'' [] [AStr comet]"

definition deployYearnWrapV2Adapter :: "'b world \<Rightarrow> string \<Rightarrow> 'b deployment" where
  "deployYearnWrapV2Adapter W s =
     deploy W s ''YearnWrapV2Adapter'' [] []"

definition deployAaveV2WrapV2Adapter ::
  "'b world \<Rightarrow> string \<Rightarrow> string \<Rightarrow> 'b deployment"
where
  "deployAaveV2WrapV2Adapter W s lendingPool =
     deploy W s ''AaveV2WrapV2Adapter'' [] [AStr lendingPool]"

definition deployAaveV3WrapV2Adapter ::
  "'b world \<Rightarrow> string \<Rightarrow> string \<Rightarrow> 'b deployment"
where
  "deployAaveV3WrapV2Adapter W s pool =
     deploy W s ''AaveV3WrapV2Adapter'' [] [AStr pool]"

definition deployERC4626WrapV2Adapter :: "'b world \<Rightarrow> string \<Rightarrow> 'b deployment" where
  "deployERC4626WrapV2Adapter W s =
     deploy W s ''ERC4626WrapV2Adapter'' [] []"

definition deployERC4626ExchangeAdapter ::
  "'b world \<Rightarrow> string \<Rightarrow> string \<Rightarrow> 'b deployment"
where
  "deployERC4626ExchangeAdapter W s vault =
     deploy W s ''ERC4626ExchangeAdapter'' [] [AStr vault]"

definition deployCurveExchangeAdapter ::
  "'b world \<Rightarrow> string \<Rightarrow> string \<Rightarrow> string \<Rightarrow> 'b \<Rightarrow> 'b \<Rightarrow> string \<Rightarrow> 'b deployment"
where
  "deployCurveExchangeAdapter W s tokenA tokenB tokenAIndex tokenbBIndex exchange =
     deploy W s ''CurveExchangeAdapter'' [] [AStr tokenA, AStr tokenB, ABig tokenAIndex,
       ABig tokenbBIndex, AStr exchange]"

definition deployCurveStEthExchangeAdapter ::
  "'b world \<Rightarrow> string \<Rightarrow> string \<Rightarrow> string \<Rightarrow> string \<Rightarrow> 'b deployment"
where
  "deployCurveStEthExchangeAdapter W s weth steth exchange =
     deploy W s ''CurveStEthExchangeAdapter'' [] [AStr weth, AStr steth, AStr exchange]"

definition deployConstantPriceAdapter :: "'b world \<Rightarrow> string \<Rightarrow> 'b deployment" where
  "deployConstantPriceAdapter W s =
     deploy W s ''ConstantPriceAdapter'' [] []"

definition deployBoundedStepwiseLinearPriceAdapter ::
  "'b world \<Rightarrow> string \<Rightarrow> 'b deployment"
where
  "deployBoundedStepwiseLinearPriceAdapter W s =
     deploy W s ''BoundedStepwiseLinearPriceAdapter'' [] []"

definition deployBoundedStepwiseLogarithmicPriceAdapter ::
  "'b world \<Rightarrow> string \<Rightarrow> 'b deployment"
where
  "deployBoundedStepwiseLogarithmicPriceAdapter W s =
     deploy W s ''BoundedStepwiseLogarithmicPriceAdapter'' [] []"

definition deployBoundedStepwiseExponentialPriceAdapter ::
  "'b world \<Rightarrow> string \<Rightarrow> 'b deployment"
where
  "deployBoundedStepwiseExponentialPriceAdapter W s =
     deploy W s ''BoundedStepwiseExponentialPriceAdapter'' [] []"

subsection \<open>What a helper does\<close>

lemmas modules_defs = deployBasicIssuanceModule_def deployIssuanceModule_def
  deployDebtIssuanceModule_def deployDebtIssuanceModuleV2_def
  deployDebtIssuanceModuleV3_def deploySlippageIssuanceModule_def deployAmmModule_def
  deployStreamingFeeModule_def deployAirdropModule_def deployTradeModule_def
  deployWrapModule_def deployClaimModule_def deployStakingModule_def
  deployRebasingComponentModule_def deployCustomOracleNavIssuanceModule_def
  deploySingleIndexModule_def deployGeneralIndexModule_def deployGovernanceModule_def
  deployCompoundLeverageModule_def deployAaveLeverageModule_def
  deployAaveV3LeverageModule_def deployMorphoLeverageModule_def
  deployNotionalTradeModule_def deployWrapModuleV2_def deployPerpV2LeverageModuleV2_def
  deployPerpV2BasisTradingModule_def deployAuctionRebalanceModuleV1_def
  getBasicIssuanceModule_def getStreamingFeeModule_def

lemmas adapters_defs = deployKyberExchangeAdapter_def deployOneInchExchangeAdapter_def
  deployUniswapV2AmmAdapter_def deployUniswapV2ExchangeAdapter_def
  deployUniswapV2TransferFeeExchangeAdapter_def deployUniswapV2ExchangeAdapterV2_def
  deployUniswapV2IndexExchangeAdapter_def deployAaveGovernanceV2Adapter_def
  deployCompClaimAdapter_def deployBalancerV1IndexExchangeAdapter_def
  deployBalancerV2ExchangeAdapter_def deployCompoundLikeGovernanceAdapter_def
  deployCompoundBravoGovernanceAdapter_def deployCurveStakingAdapter_def
  deployRgtMigrationWrapAdapter_def deployUniswapPairPriceAdapter_def
  deployUniswapV3IndexExchangeAdapter_def deployZeroExApiAdapter_def
  deploySnapshotGovernanceAdapter_def deploySynthetixExchangeAdapter_def
  deployUniswapV3ExchangeAdapter_def deployUniswapV3ExchangeAdapterV2_def
  deployUniswapV3ExchangeAdapterV3_def deployKyberV3IndexExchangeAdapter_def
  deployCompoundWrapV2Adapter_def deployCompoundV3WrapV2Adapter_def
  deployYearnWrapV2Adapter_def deployAaveV2WrapV2Adapter_def deployAaveV3WrapV2Adapter_def
  deployERC4626WrapV2Adapter_def deployERC4626ExchangeAdapter_def
  deployCurveExchangeAdapter_def deployCurveStEthExchangeAdapter_def
  deployConstantPriceAdapter_def deployBoundedStepwiseLinearPriceAdapter_def
  deployBoundedStepwiseLogarithmicPriceAdapter_def
  deployBoundedStepwiseExponentialPriceAdapter_def getUniswapPairPriceAdapter_def

end
