(* ===== verification/DeployMocks.thy ===== *)
theory DeployMocks
  imports Dependencies
begin

text \<open>
  \<^verbatim>\<open>utils/deploys/deployMocks.ts\<close>: tokens, oracles and protocols that stand in for real ones in
  the tests. Arguments with defaults are options.
\<close>

subsection \<open>\<^verbatim>\<open>deployMocks.ts\<close>\<close>

definition deployExplicitErc20Mock :: "'b world \<Rightarrow> string \<Rightarrow> 'b deployment" where
  "deployExplicitErc20Mock W s =
     deploy W s ''ExplicitERC20Mock'' [] []"

definition deployInvokeMock :: "'b world \<Rightarrow> string \<Rightarrow> 'b deployment" where
  "deployInvokeMock W s =
     deploy W s ''InvokeMock'' [] []"

definition deployManagerIssuanceHookMock ::
  "'b world \<Rightarrow> string \<Rightarrow> 'b deployment"
where
  "deployManagerIssuanceHookMock W s =
     deploy W s ''ManagerIssuanceHookMock'' [] []"

definition deployModuleIssuanceHookMock ::
  "'b world \<Rightarrow> string \<Rightarrow> 'b deployment"
where
  "deployModuleIssuanceHookMock W s =
     deploy W s ''ModuleIssuanceHookMock'' [] []"

definition deployNavIssuanceHookMock :: "'b world \<Rightarrow> string \<Rightarrow> 'b deployment" where
  "deployNavIssuanceHookMock W s =
     deploy W s ''NAVIssuanceHookMock'' [] []"

definition deployNAVIssuanceCaller ::
  "'b world \<Rightarrow> string \<Rightarrow> string \<Rightarrow> 'b deployment"
where
  "deployNAVIssuanceCaller W s navIssuanceModule =
     deploy W s ''NAVIssuanceCaller'' [] [AStr navIssuanceModule]"

definition deployAddressArrayUtilsMock ::
  "'b world \<Rightarrow> string \<Rightarrow> 'b deployment"
where
  "deployAddressArrayUtilsMock W s =
     deploy W s ''AddressArrayUtilsMock'' [] []"

definition deployUint256ArrayUtilsMock ::
  "'b world \<Rightarrow> string \<Rightarrow> 'b deployment"
where
  "deployUint256ArrayUtilsMock W s =
     deploy W s ''Uint256ArrayUtilsMock'' [] []"

definition deployKyberNetworkProxyMock ::
  "'b world \<Rightarrow> string \<Rightarrow> string \<Rightarrow> 'b deployment"
where
  "deployKyberNetworkProxyMock W s mockWethAddress =
     deploy W s ''KyberNetworkProxyMock'' [] [AStr mockWethAddress]"

definition deployModuleBaseMock ::
  "'b world \<Rightarrow> string \<Rightarrow> string \<Rightarrow> 'b deployment"
where
  "deployModuleBaseMock W s controllerAddress =
     deploy W s ''ModuleBaseMock'' [] [AStr controllerAddress]"

definition deployModuleBaseV2Mock ::
  "'b world \<Rightarrow> string \<Rightarrow> string \<Rightarrow> 'b deployment"
where
  "deployModuleBaseV2Mock W s controllerAddress =
     deploy W s ''ModuleBaseV2Mock'' [] [AStr controllerAddress]"

definition deployGodModeMock ::
  "'b world \<Rightarrow> string \<Rightarrow> string \<Rightarrow> 'b deployment"
where
  "deployGodModeMock W s controllerAddress =
     deploy W s ''GodModeMock'' [] [AStr controllerAddress]"

definition deployDebtModuleMock ::
  "'b world \<Rightarrow> string \<Rightarrow> string \<Rightarrow> 'b deployment"
where
  "deployDebtModuleMock W s controllerAddress =
     deploy W s ''DebtModuleMock'' [] [AStr controllerAddress]"

definition deployGovernanceAdapterMock ::
  "'b world \<Rightarrow> string \<Rightarrow> 'b arg \<Rightarrow> 'b deployment"
where
  "deployGovernanceAdapterMock W s initialProposalId =
     deploy W s ''GovernanceAdapterMock'' [] [initialProposalId]"

definition deployCurveStableswapMock ::
  "'b world \<Rightarrow> string \<Rightarrow> string list \<Rightarrow> 'b deployment"
where
  "deployCurveStableswapMock W s coins =
     deploy W s ''CurveStableswapMock'' [] [AList (map AStr coins)]"

definition deployOneInchExchangeMock ::
  "'b world \<Rightarrow> string \<Rightarrow> string \<Rightarrow> string \<Rightarrow> 'b \<Rightarrow> 'b \<Rightarrow> 'b deployment"
where
  "deployOneInchExchangeMock W s sendToken receiveToken sendQuantity receiveQuantity =
     deploy W s ''OneInchExchangeMock'' [] [AStr sendToken, AStr receiveToken,
       ABig sendQuantity, ABig receiveQuantity]"

definition deployZeroExMock ::
  "'b world \<Rightarrow> string \<Rightarrow> string \<Rightarrow> string \<Rightarrow> 'b \<Rightarrow> 'b \<Rightarrow> 'b deployment"
where
  "deployZeroExMock W s sendToken receiveToken sendQuantity receiveQuantity =
     deploy W s ''ZeroExMock'' [] [AStr sendToken, AStr receiveToken, ABig sendQuantity,
       ABig receiveQuantity]"

definition deployOracleMock ::
  "'b world \<Rightarrow> string \<Rightarrow> 'b arg \<Rightarrow> 'b deployment"
where
  "deployOracleMock W s initialValue =
     deploy W s ''OracleMock'' [] [initialValue]"

definition deployYearnVaultMock ::
  "'b world \<Rightarrow> string \<Rightarrow> 'b arg \<Rightarrow> 'b deployment"
where
  "deployYearnVaultMock W s pricePerShare =
     deploy W s ''YearnVaultMock'' [] [pricePerShare]"

definition deployOracleAdapterMock ::
  "'b world \<Rightarrow> string \<Rightarrow> string \<Rightarrow> 'b \<Rightarrow> 'b deployment"
where
  "deployOracleAdapterMock W s asset dummyPrice =
     deploy W s ''OracleAdapterMock'' [] [AStr asset, ABig dummyPrice]"

definition deployPositionMock :: "'b world \<Rightarrow> string \<Rightarrow> 'b deployment" where
  "deployPositionMock W s =
     deploy W s ''PositionMock'' [] []"

definition deployPositionV2Mock ::
  "'b world \<Rightarrow> string \<Rightarrow> string \<Rightarrow> string \<Rightarrow> 'b deployment"
where
  "deployPositionV2Mock W s libraryName libraryAddress =
     deploy W s ''PositionV2Mock'' (js_object [(libraryName, libraryAddress)]) []"

definition deployPreciseUnitMathMock :: "'b world \<Rightarrow> string \<Rightarrow> 'b deployment" where
  "deployPreciseUnitMathMock W s =
     deploy W s ''PreciseUnitMathMock'' [] []"

definition deployResourceIdentifierMock ::
  "'b world \<Rightarrow> string \<Rightarrow> 'b deployment"
where
  "deployResourceIdentifierMock W s =
     deploy W s ''ResourceIdentifierMock'' [] []"

definition deployStakingAdapterMock ::
  "'b world \<Rightarrow> string \<Rightarrow> string \<Rightarrow> 'b deployment"
where
  "deployStakingAdapterMock W s stakingAsset =
     deploy W s ''StakingAdapterMock'' [] [AStr stakingAsset]"

definition deployTokenMock ::
  "'b world \<Rightarrow> 'b bn_api \<Rightarrow> string \<Rightarrow> string \<Rightarrow> 'b arg option \<Rightarrow> 'b arg option \<Rightarrow> string option \<Rightarrow>
   string option \<Rightarrow> 'b deployment"
where
  "deployTokenMock W B s initialAccount initialBalance decimals name symbol h = do {
     initialBalance \<leftarrow> or_else initialBalance (map_option ABig (ether B ''1000000000''));
     let decimals = or_default decimals (ANum 18);
     let name = or_default name ''Token'';
     let symbol = or_default symbol ''Symbol'';
     deploy W s ''StandardTokenMock'' [] [AStr initialAccount, initialBalance, AStr name,
         AStr symbol, decimals] h
   }"

definition deployERC20NoReturnMock ::
  "'b world \<Rightarrow> 'b bn_api \<Rightarrow> string \<Rightarrow> string \<Rightarrow> 'b arg option \<Rightarrow> 'b arg option \<Rightarrow> string option \<Rightarrow>
   string option \<Rightarrow> 'b deployment"
where
  "deployERC20NoReturnMock W B s initialAccount initialBalance decimals name symbol h = do {
     initialBalance \<leftarrow> or_else initialBalance (map_option ABig (ether B ''1000000000''));
     let decimals = or_default decimals (ANum 18);
     let name = or_default name ''Token'';
     let symbol = or_default symbol ''Symbol'';
     deploy W s ''ERC20NoReturnMock'' [] [AStr initialAccount, initialBalance, AStr name,
         AStr symbol, decimals] h
   }"

definition deployERC20ReturnFalseMock ::
  "'b world \<Rightarrow> 'b bn_api \<Rightarrow> string \<Rightarrow> string option \<Rightarrow> string option \<Rightarrow> 'b arg option \<Rightarrow>
   'b deployment"
where
  "deployERC20ReturnFalseMock W B s name symbol decimals h = do {
     let name = or_default name ''Token'';
     let symbol = or_default symbol ''Symbol'';
     let decimals = or_default decimals (ABig (bn_from B 18));
     deploy W s ''ERC20ReturnFalseMock'' [] [AStr name, AStr symbol, decimals] h
   }"

definition deployTokenWithFeeMock ::
  "'b world \<Rightarrow> 'b bn_api \<Rightarrow> string \<Rightarrow> string \<Rightarrow> 'b arg option \<Rightarrow> 'b arg option \<Rightarrow> string option \<Rightarrow>
   string option \<Rightarrow> 'b deployment"
where
  "deployTokenWithFeeMock W B s initialAccount initialBalance fee name symbol h = do {
     initialBalance \<leftarrow> or_else initialBalance (map_option ABig (ether B ''1000000000''));
     fee \<leftarrow> or_else fee (map_option ABig (ether B ''0.1''));
     let name = or_default name ''Token'';
     let symbol = or_default symbol ''Symbol'';
     deploy W s ''StandardTokenWithFeeMock'' [] [AStr initialAccount, initialBalance,
         AStr name, AStr symbol, fee] h
   }"

definition deployTokenWithErrorMock ::
  "'b world \<Rightarrow> 'b bn_api \<Rightarrow> string \<Rightarrow> string \<Rightarrow> 'b arg \<Rightarrow> 'b arg \<Rightarrow> string option \<Rightarrow>
   string option \<Rightarrow> 'b arg option \<Rightarrow> 'b deployment"
where
  "deployTokenWithErrorMock W B s initialAccount initialBalance error name symbol decimals
       h = do {
     let name = or_default name ''Token'';
     let symbol = or_default symbol ''Symbol'';
     let decimals = or_default decimals (ABig (bn_from B 18));
     deploy W s ''StandardTokenWithRoundingErrorMock'' [] [AStr initialAccount,
         initialBalance, error, AStr name, AStr symbol, decimals] h
   }"

definition deployTradeAdapterMock :: "'b world \<Rightarrow> string \<Rightarrow> 'b deployment" where
  "deployTradeAdapterMock W s =
     deploy W s ''TradeAdapterMock'' [] []"

definition deployAmmAdapterMock ::
  "'b world \<Rightarrow> string \<Rightarrow> string list \<Rightarrow> 'b deployment"
where
  "deployAmmAdapterMock W s underlyingTokens =
     deploy W s ''AmmAdapterMock'' [] [AList (map AStr underlyingTokens)]"

definition deployWrapAdapterMock :: "'b world \<Rightarrow> string \<Rightarrow> 'b deployment" where
  "deployWrapAdapterMock W s =
     deploy W s ''WrapAdapterMock'' [] []"

definition deployAaveLendingPoolCoreMock ::
  "'b world \<Rightarrow> string \<Rightarrow> 'b deployment"
where
  "deployAaveLendingPoolCoreMock W s =
     deploy W s ''AaveLendingPoolCoreMock'' [] []"

definition deployAaveLendingPoolMock ::
  "'b world \<Rightarrow> string \<Rightarrow> string \<Rightarrow> 'b deployment"
where
  "deployAaveLendingPoolMock W s aaveLendingPoolCore =
     deploy W s ''AaveLendingPoolMock'' [] [AStr aaveLendingPoolCore]"

definition deployAaveV2Mock ::
  "'b world \<Rightarrow> string \<Rightarrow> string \<Rightarrow> string \<Rightarrow> 'b deployment"
where
  "deployAaveV2Mock W s libraryName libraryAddress =
     deploy W s ''AaveV2Mock'' (js_object [(libraryName, libraryAddress)]) []"

definition deployPerpV2Mock ::
  "'b world \<Rightarrow> string \<Rightarrow> string \<Rightarrow> string \<Rightarrow> 'b deployment"
where
  "deployPerpV2Mock W s libraryName libraryAddress =
     deploy W s ''PerpV2Mock'' (js_object [(libraryName, libraryAddress)]) []"

definition deployPerpV2LibraryV2Mock ::
  "'b world \<Rightarrow> string \<Rightarrow> string \<Rightarrow> string \<Rightarrow> 'b deployment"
where
  "deployPerpV2LibraryV2Mock W s libraryName libraryAddress =
     deploy W s ''PerpV2LibraryV2Mock'' (js_object [(libraryName, libraryAddress)]) []"

definition deployPerpV2PositionsMock ::
  "'b world \<Rightarrow> string \<Rightarrow> string \<Rightarrow> string \<Rightarrow> 'b deployment"
where
  "deployPerpV2PositionsMock W s libraryName libraryAddress =
     deploy W s ''PerpV2PositionsMock'' (js_object [(libraryName, libraryAddress)]) []"

definition deployUniswapV3MathMock :: "'b world \<Rightarrow> string \<Rightarrow> 'b deployment" where
  "deployUniswapV3MathMock W s =
     deploy W s ''UniswapV3MathMock'' [] []"

definition deployUnitConversionUtilsMock ::
  "'b world \<Rightarrow> string \<Rightarrow> 'b deployment"
where
  "deployUnitConversionUtilsMock W s =
     deploy W s ''UnitConversionUtilsMock'' [] []"

definition deploySetTokenAccessibleMock ::
  "'b world \<Rightarrow> string \<Rightarrow> string \<Rightarrow> 'b deployment"
where
  "deploySetTokenAccessibleMock W s controller =
     deploy W s ''SetTokenAccessibleMock'' [] [AStr controller]"

definition deployClaimAdapterMock :: "'b world \<Rightarrow> string \<Rightarrow> 'b deployment" where
  "deployClaimAdapterMock W s =
     deploy W s ''ClaimAdapterMock'' [] []"

definition deployGaugeControllerMock :: "'b world \<Rightarrow> string \<Rightarrow> 'b deployment" where
  "deployGaugeControllerMock W s =
     deploy W s ''GaugeControllerMock'' [] []"

definition deployContractCallerMock :: "'b world \<Rightarrow> string \<Rightarrow> 'b deployment" where
  "deployContractCallerMock W s =
     deploy W s ''ContractCallerMock'' [] []"

definition deployDebtIssuanceMock :: "'b world \<Rightarrow> string \<Rightarrow> 'b deployment" where
  "deployDebtIssuanceMock W s =
     deploy W s ''DebtIssuanceMock'' [] []"

definition deployComptrollerMock ::
  "'b world \<Rightarrow> string \<Rightarrow> string \<Rightarrow> 'b \<Rightarrow> string \<Rightarrow> 'b deployment"
where
  "deployComptrollerMock W s comp' compAmount cToken =
     deploy W s ''ComptrollerMock'' [] [AStr comp', ABig compAmount, AStr cToken]"

definition deployCompoundMock ::
  "'b world \<Rightarrow> string \<Rightarrow> string \<Rightarrow> string \<Rightarrow> 'b deployment"
where
  "deployCompoundMock W s libraryName libraryAddress =
     deploy W s ''CompoundMock'' (js_object [(libraryName, libraryAddress)]) []"

definition deploySynthMock ::
  "'b world \<Rightarrow> 'b bn_api \<Rightarrow> string \<Rightarrow> string \<Rightarrow> string \<Rightarrow> 'b arg option \<Rightarrow> string option \<Rightarrow>
   string option \<Rightarrow> 'b deployment"
where
  "deploySynthMock W B s initialAccount currencyKey initialBalance name symbol h = do {
     initialBalance \<leftarrow> or_else initialBalance (map_option ABig (ether B ''1000000000''));
     let name = or_default name ''Token'';
     let symbol = or_default symbol ''Symbol'';
     deploy W s ''SynthMock'' [] [AStr initialAccount, initialBalance, AStr name,
         AStr symbol, ANum 18, AStr currencyKey] h
   }"

definition deploySynthetixExchangerMock ::
  "'b world \<Rightarrow> string \<Rightarrow> string \<Rightarrow> string \<Rightarrow> string \<Rightarrow> (string \<Rightarrow> 'b arg) \<Rightarrow> (string \<Rightarrow> string \<Rightarrow>
   'b arg) \<Rightarrow> 'b deployment"
where
  "deploySynthetixExchangerMock W s sUsd sEth sBtc currencyKeys rates =
     deploy W s ''SynthetixExchangerMock'' [] [AStr sUsd, AStr sEth, AStr sBtc,
       currencyKeys ''sUsd'', currencyKeys ''sEth'', currencyKeys ''sBtc'',
       rates ''usd'' ''eth'', rates ''eth'' ''usd'', rates ''usd'' ''btc'',
       rates ''btc'' ''usd'']"

definition deployERC4626ConverterMock ::
  "'b world \<Rightarrow> string \<Rightarrow> string \<Rightarrow> 'b arg \<Rightarrow> 'b arg \<Rightarrow> 'b deployment"
where
  "deployERC4626ConverterMock W s asset decimals pricePerShare =
     deploy W s ''ERC4626ConverterMock'' [] [AStr asset, decimals, pricePerShare]"

definition deployERC4626Mock ::
  "'b world \<Rightarrow> string \<Rightarrow> string \<Rightarrow> string \<Rightarrow> string \<Rightarrow> 'b deployment"
where
  "deployERC4626Mock W s name symbol asset =
     deploy W s ''ERC4626Mock'' [] [AStr name, AStr symbol, AStr asset]"

definition deployCustomSetValuerMock :: "'b world \<Rightarrow> string \<Rightarrow> 'b deployment" where
  "deployCustomSetValuerMock W s =
     deploy W s ''CustomSetValuerMock'' [] []"

definition deployYearnStrategyMock ::
  "'b world \<Rightarrow> string \<Rightarrow> string \<Rightarrow> 'b deployment"
where
  "deployYearnStrategyMock W s vault =
     deploy W s ''YearnStrategyMock'' [] [AStr vault]"

definition deployForceFunderMock :: "'b world \<Rightarrow> string \<Rightarrow> 'b deployment" where
  "deployForceFunderMock W s =
     deploy W s ''ForceFunderMock'' [] []"

definition deployWrapV2AdapterMock :: "'b world \<Rightarrow> string \<Rightarrow> 'b deployment" where
  "deployWrapV2AdapterMock W s =
     deploy W s ''WrapV2AdapterMock'' [] []"

definition deployChainlinkAggregatorMock ::
  "'b world \<Rightarrow> string \<Rightarrow> int \<Rightarrow> 'b deployment"
where
  "deployChainlinkAggregatorMock W s decimals =
     deploy W s ''ChainlinkAggregatorMock'' [] [ANum decimals]"

definition deployTribePegExchangerMock ::
  "'b world \<Rightarrow> string \<Rightarrow> string \<Rightarrow> string \<Rightarrow> 'b deployment"
where
  "deployTribePegExchangerMock W s rgt tribe =
     deploy W s ''TribePegExchangerMock'' [] [AStr rgt, AStr tribe]"

definition deployStringArrayUtilsMock :: "'b world \<Rightarrow> string \<Rightarrow> 'b deployment" where
  "deployStringArrayUtilsMock W s =
     deploy W s ''StringArrayUtilsMock'' [] []"

definition deployBytesArrayUtilsMock :: "'b world \<Rightarrow> string \<Rightarrow> 'b deployment" where
  "deployBytesArrayUtilsMock W s =
     deploy W s ''BytesArrayUtilsMock'' [] []"

definition deployWrappedfCashMock ::
  "'b world \<Rightarrow> string \<Rightarrow> string \<Rightarrow> string \<Rightarrow> string \<Rightarrow> bool \<Rightarrow> 'b deployment"
where
  "deployWrappedfCashMock W s assetToken underlyingToken weth isEth =
     deploy W s ''WrappedfCashMock'' [] [AStr assetToken, AStr underlyingToken,
       AStr weth, ABool isEth]"

definition deployWrappedfCashFactoryMock ::
  "'b world \<Rightarrow> string \<Rightarrow> 'b deployment"
where
  "deployWrappedfCashFactoryMock W s =
     deploy W s ''WrappedfCashFactoryMock'' [] []"

definition deployNotionalV2Mock :: "'b world \<Rightarrow> string \<Rightarrow> 'b deployment" where
  "deployNotionalV2Mock W s =
     deploy W s ''NotionalV2Mock'' [] []"

definition getTokenMock :: "string \<Rightarrow> string \<Rightarrow> contract" where
  "getTokenMock s token =
     attach s ''StandardTokenMock'' token"

definition getForkedZeroExExchange :: "string \<Rightarrow> contract option" where
  "getForkedZeroExExchange s =
     map_option (attach s ''ZeroExMock'') (dependency ''ZERO_EX_EXCHANGE'' 1)"

subsection \<open>What a helper does\<close>

lemmas mocks_defs = deployExplicitErc20Mock_def deployInvokeMock_def
  deployManagerIssuanceHookMock_def deployModuleIssuanceHookMock_def
  deployNavIssuanceHookMock_def deployNAVIssuanceCaller_def deployAddressArrayUtilsMock_def
  deployUint256ArrayUtilsMock_def deployKyberNetworkProxyMock_def deployModuleBaseMock_def
  deployModuleBaseV2Mock_def deployGodModeMock_def deployDebtModuleMock_def
  deployGovernanceAdapterMock_def deployCurveStableswapMock_def
  deployOneInchExchangeMock_def deployZeroExMock_def deployOracleMock_def
  deployYearnVaultMock_def deployOracleAdapterMock_def deployPositionMock_def
  deployPositionV2Mock_def deployPreciseUnitMathMock_def deployResourceIdentifierMock_def
  deployStakingAdapterMock_def deployTokenMock_def deployERC20NoReturnMock_def
  deployERC20ReturnFalseMock_def deployTokenWithFeeMock_def deployTokenWithErrorMock_def
  deployTradeAdapterMock_def deployAmmAdapterMock_def deployWrapAdapterMock_def
  deployAaveLendingPoolCoreMock_def deployAaveLendingPoolMock_def deployAaveV2Mock_def
  deployPerpV2Mock_def deployPerpV2LibraryV2Mock_def deployPerpV2PositionsMock_def
  deployUniswapV3MathMock_def deployUnitConversionUtilsMock_def
  deploySetTokenAccessibleMock_def deployClaimAdapterMock_def deployGaugeControllerMock_def
  deployContractCallerMock_def deployDebtIssuanceMock_def deployComptrollerMock_def
  deployCompoundMock_def deploySynthMock_def deploySynthetixExchangerMock_def
  deployERC4626ConverterMock_def deployERC4626Mock_def deployCustomSetValuerMock_def
  deployYearnStrategyMock_def deployForceFunderMock_def deployWrapV2AdapterMock_def
  deployChainlinkAggregatorMock_def deployTribePegExchangerMock_def
  deployStringArrayUtilsMock_def deployBytesArrayUtilsMock_def deployWrappedfCashMock_def
  deployWrappedfCashFactoryMock_def deployNotionalV2Mock_def getTokenMock_def
  getForkedZeroExExchange_def

lemma deployTokenMock_deploy:
  "deployTokenMock W B s account balance decimals name symbol h = Some (c, h') \<Longrightarrow>
   \<exists>xs. deploy W s ''StandardTokenMock'' [] xs h = Some (c, h')"
  by (auto simp: deployTokenMock_def Let_def)

lemma deployTokenMock_given:
  "deployTokenMock W B s account (Some balance) (Some decimals) None None h =
     deploy W s ''StandardTokenMock'' [] [AStr account, balance, AStr ''Token'', AStr ''Symbol'', decimals] h"
  by (simp add: deployTokenMock_def)

end
