(* ===== verification/DeployExternal.thy ===== *)
theory DeployExternal
  imports Dependencies
begin

text \<open>
  \<^verbatim>\<open>utils/deploys/deployExternal.ts\<close>: the contracts of the protocols the system integrates with.
\<close>

subsection \<open>\<^verbatim>\<open>deployExternal.ts\<close>\<close>

definition deployComp ::
  "'b world \<Rightarrow> string \<Rightarrow> string \<Rightarrow> 'b deployment"
where
  "deployComp W s account =
     deploy W s ''Comp'' [] [AStr account]"

definition deployCompoundTimelock ::
  "'b world \<Rightarrow> string \<Rightarrow> string \<Rightarrow> 'b \<Rightarrow> 'b deployment"
where
  "deployCompoundTimelock W s admin delay =
     deploy W s ''CompoundTimelock'' [] [AStr admin, ABig delay]"

definition deployCompoundGovernorAlpha ::
  "'b world \<Rightarrow> string \<Rightarrow> string \<Rightarrow> string \<Rightarrow> string \<Rightarrow> 'b deployment"
where
  "deployCompoundGovernorAlpha W s timelock comp' guardian =
     deploy W s ''CompoundGovernorAlpha'' [] [AStr timelock, AStr comp', AStr guardian]"

definition deployCompoundGovernorBravoDelegate ::
  "'b world \<Rightarrow> string \<Rightarrow> 'b deployment"
where
  "deployCompoundGovernorBravoDelegate W s =
     deploy W s ''CompoundGovernorBravoDelegate'' [] []"

definition deployCompoundGovernorBravoDelegator ::
  "'b world \<Rightarrow> string \<Rightarrow> string \<Rightarrow> string \<Rightarrow> string \<Rightarrow> string \<Rightarrow> 'b arg \<Rightarrow> 'b arg \<Rightarrow> 'b arg \<Rightarrow>
   'b deployment"
where
  "deployCompoundGovernorBravoDelegator W s timelock comp' admin implementation
       votingPeriod votingDelay proposalThreshold =
     deploy W s ''CompoundGovernorBravoDelegator'' [] [AStr timelock, AStr comp',
       AStr admin, AStr implementation, votingPeriod, votingDelay,
       proposalThreshold]"

definition deployCeRc20 ::
  "'b world \<Rightarrow> string \<Rightarrow> string \<Rightarrow> string \<Rightarrow> string \<Rightarrow> 'b arg \<Rightarrow> string \<Rightarrow> string \<Rightarrow> 'b arg \<Rightarrow>
   'b deployment"
where
  "deployCeRc20 W s underlying comptroller interestRateModel initialExchangeRateMantissa
       name symbol decimals =
     deploy W s ''CERc20'' [] [AStr underlying, AStr comptroller,
       AStr interestRateModel, initialExchangeRateMantissa, AStr name, AStr symbol,
       decimals]"

definition deployCEther ::
  "'b world \<Rightarrow> string \<Rightarrow> string \<Rightarrow> string \<Rightarrow> 'b arg \<Rightarrow> string \<Rightarrow> string \<Rightarrow> 'b arg \<Rightarrow> 'b deployment"
where
  "deployCEther W s comptroller interestRateModel initialExchangeRateMantissa name symbol
       decimals =
     deploy W s ''CEther'' [] [AStr comptroller, AStr interestRateModel,
       initialExchangeRateMantissa, AStr name, AStr symbol, decimals]"

definition deployCompoundPriceOracleMock ::
  "'b world \<Rightarrow> string \<Rightarrow> 'b deployment"
where
  "deployCompoundPriceOracleMock W s =
     deploy W s ''CompoundPriceOracleMock'' [] []"

definition deployPriceOracleProxy ::
  "'b world \<Rightarrow> string \<Rightarrow> string \<Rightarrow> string \<Rightarrow> string \<Rightarrow> string \<Rightarrow> string \<Rightarrow> string \<Rightarrow> string \<Rightarrow>
   'b deployment"
where
  "deployPriceOracleProxy W s guardian v1PriceOracle cEthAddress cUsdcAddress cSaiAddress
       cDaiAddress cUsdtAddress =
     deploy W s ''PriceOracleProxy'' [] [AStr guardian, AStr v1PriceOracle,
       AStr cEthAddress, AStr cUsdcAddress, AStr cSaiAddress, AStr cDaiAddress,
       AStr cUsdtAddress]"

definition deployComptroller :: "'b world \<Rightarrow> string \<Rightarrow> 'b deployment" where
  "deployComptroller W s =
     deploy W s ''Comptroller'' [] []"

definition deployUnitroller :: "'b world \<Rightarrow> string \<Rightarrow> 'b deployment" where
  "deployUnitroller W s =
     deploy W s ''Unitroller'' [] []"

definition deployWhitePaperInterestRateModel ::
  "'b world \<Rightarrow> string \<Rightarrow> 'b arg \<Rightarrow> 'b arg \<Rightarrow> 'b deployment"
where
  "deployWhitePaperInterestRateModel W s baseRate multiplier =
     deploy W s ''WhitePaperInterestRateModel'' [] [baseRate, multiplier]"

definition deployWETH :: "'b world \<Rightarrow> string \<Rightarrow> 'b deployment" where
  "deployWETH W s =
     deploy W s ''WETH9'' [] []"

definition deployAaveV2LendingPoolAddressesProvider ::
  "'b world \<Rightarrow> string \<Rightarrow> string \<Rightarrow> 'b deployment"
where
  "deployAaveV2LendingPoolAddressesProvider W s marketId =
     deploy W s ''AaveV2LendingPoolAddressesProvider'' [] [AStr marketId]"

definition deployAaveV2LendingPool ::
  "'b world \<Rightarrow> string \<Rightarrow> string \<Rightarrow> string \<Rightarrow> 'b deployment"
where
  "deployAaveV2LendingPool W s validationLogicAddress reserveLogicAddress =
     deploy W s ''AaveV2LendingPool'' (js_object [(''__$de8c0cf1a7d7c36c802af9a64fb9d86036$__'',
       validationLogicAddress), (''__$22cd43a9dda9ce44e9b92ba393b88fb9ac$__'',
       reserveLogicAddress)]) []"

definition deployAaveV2LendingPoolConfigurator ::
  "'b world \<Rightarrow> string \<Rightarrow> 'b deployment"
where
  "deployAaveV2LendingPoolConfigurator W s =
     deploy W s ''AaveV2LendingPoolConfigurator'' [] []"

definition deployAaveV2LendingPoolCollateralManager ::
  "'b world \<Rightarrow> string \<Rightarrow> 'b deployment"
where
  "deployAaveV2LendingPoolCollateralManager W s =
     deploy W s ''AaveV2LendingPoolCollateralManager'' [] []"

definition deployAaveV2LendingRateOracle ::
  "'b world \<Rightarrow> string \<Rightarrow> 'b deployment"
where
  "deployAaveV2LendingRateOracle W s =
     deploy W s ''AaveV2LendingRateOracle'' [] []"

definition deployAaveV2Oracle ::
  "'b world \<Rightarrow> string \<Rightarrow> string list \<Rightarrow> 'b arg list \<Rightarrow> string \<Rightarrow> string \<Rightarrow> 'b deployment"
where
  "deployAaveV2Oracle W s assets sources fallBackOracle weth =
     deploy W s ''AaveV2Oracle'' [] [AList (map AStr assets), AList sources,
       AStr fallBackOracle, AStr weth]"

definition deployAaveV2PriceOracle :: "'b world \<Rightarrow> string \<Rightarrow> 'b deployment" where
  "deployAaveV2PriceOracle W s =
     deploy W s ''AaveV2PriceOracle'' [] []"

definition deployAaveV2DefaultReserveInterestRateStrategy ::
  "'b world \<Rightarrow> 'b bn_api \<Rightarrow> string \<Rightarrow> string \<Rightarrow> 'b arg option \<Rightarrow> 'b arg option \<Rightarrow> 'b arg option \<Rightarrow>
   'b arg option \<Rightarrow> 'b arg option \<Rightarrow> 'b arg option \<Rightarrow> 'b deployment"
where
  "deployAaveV2DefaultReserveInterestRateStrategy W B s AddressesProvider
       optimalUtilizationRate baseVariableBorrowRate variableRateSlope1 variableRateSlope2
       stableRateSlope1 stableRateSlope2 h = do {
     optimalUtilizationRate \<leftarrow> or_else optimalUtilizationRate (map_option ABig (ether B ''1''));
     baseVariableBorrowRate \<leftarrow> or_else baseVariableBorrowRate (map_option ABig (ether B ''1''));
     variableRateSlope1 \<leftarrow> or_else variableRateSlope1 (map_option ABig (ether B ''1''));
     variableRateSlope2 \<leftarrow> or_else variableRateSlope2 (map_option ABig (ether B ''1''));
     stableRateSlope1 \<leftarrow> or_else stableRateSlope1 (map_option ABig (ether B ''1''));
     stableRateSlope2 \<leftarrow> or_else stableRateSlope2 (map_option ABig (ether B ''1''));
     deploy W s ''AaveV2DefaultReserveInterestRateStrategy'' [] [AStr AddressesProvider,
         optimalUtilizationRate, baseVariableBorrowRate, variableRateSlope1,
         variableRateSlope2, stableRateSlope1, stableRateSlope2] h
   }"

definition deployAaveV2ProtocolDataProvider ::
  "'b world \<Rightarrow> string \<Rightarrow> string \<Rightarrow> 'b deployment"
where
  "deployAaveV2ProtocolDataProvider W s addressProvider =
     deploy W s ''AaveV2ProtocolDataProvider'' [] [AStr addressProvider]"

definition deployAaveV2AToken :: "'b world \<Rightarrow> string \<Rightarrow> 'b deployment" where
  "deployAaveV2AToken W s =
     deploy W s ''AaveV2AToken'' [] []"

definition deployAaveV2StableDebtToken ::
  "'b world \<Rightarrow> string \<Rightarrow> 'b deployment"
where
  "deployAaveV2StableDebtToken W s =
     deploy W s ''AaveV2StableDebtToken'' [] []"

definition deployAaveV2VariableDebtToken ::
  "'b world \<Rightarrow> string \<Rightarrow> 'b deployment"
where
  "deployAaveV2VariableDebtToken W s =
     deploy W s ''AaveV2VariableDebtToken'' [] []"

definition deployAaveV2StakedTokenIncentivesController ::
  "'b world \<Rightarrow> string \<Rightarrow> string \<Rightarrow> string \<Rightarrow> 'b deployment"
where
  "deployAaveV2StakedTokenIncentivesController W s stakeToken emissionManager =
     deploy W s ''AaveV2StakedTokenIncentivesController'' [] [AStr stakeToken,
       AStr emissionManager]"

definition getForkedAaveLendingPoolAddressesProvider ::
  "string \<Rightarrow> string \<Rightarrow> contract"
where
  "getForkedAaveLendingPoolAddressesProvider s mainnetAddressesProvider =
     attach s ''AaveV2LendingPoolAddressesProvider'' mainnetAddressesProvider"

definition getForkedAaveV2ProtocolDataProvider :: "string \<Rightarrow> string \<Rightarrow> contract" where
  "getForkedAaveV2ProtocolDataProvider s mainnetAddressesProvider =
     attach s ''AaveV2ProtocolDataProvider'' mainnetAddressesProvider"

definition deployGeneralLogic :: "'b world \<Rightarrow> string \<Rightarrow> 'b deployment" where
  "deployGeneralLogic W s =
     deploy W s ''GenericLogic'' [] []"

definition deployValidationLogic ::
  "'b world \<Rightarrow> string \<Rightarrow> string \<Rightarrow> 'b deployment"
where
  "deployValidationLogic W s genericLogicLibraryAddress =
     deploy W s ''ValidationLogic'' (js_object [(''__$52a8a86ab43135662ff256bbc95497e8e3$__'',
       genericLogicLibraryAddress)]) []"

definition deployReserveLogic :: "'b world \<Rightarrow> string \<Rightarrow> 'b deployment" where
  "deployReserveLogic W s =
     deploy W s ''ReserveLogic'' [] []"

definition deployAaveGovernanceV2 ::
  "'b world \<Rightarrow> string \<Rightarrow> string \<Rightarrow> 'b \<Rightarrow> string \<Rightarrow> string list \<Rightarrow> 'b deployment"
where
  "deployAaveGovernanceV2 W s governanceStrategy votingDelay guardian executors =
     deploy W s ''AaveGovernanceV2'' [] [AStr governanceStrategy, ABig votingDelay,
       AStr guardian, AList (map AStr executors)]"

definition deployExecutor ::
  "'b world \<Rightarrow> string \<Rightarrow> string \<Rightarrow> 'b \<Rightarrow> 'b \<Rightarrow> 'b \<Rightarrow> 'b \<Rightarrow> 'b \<Rightarrow> 'b \<Rightarrow> 'b \<Rightarrow> 'b \<Rightarrow> 'b deployment"
where
  "deployExecutor W s admin delay gracePeriod minimumDelay maximumDelay
       propositionThreshold voteDuration voteDifferential minmumQuorum =
     deploy W s ''Executor'' [] [AStr admin, ABig delay, ABig gracePeriod,
       ABig minimumDelay, ABig maximumDelay, ABig propositionThreshold,
       ABig voteDuration, ABig voteDifferential, ABig minmumQuorum]"

definition deployGovernanceStrategy ::
  "'b world \<Rightarrow> string \<Rightarrow> string \<Rightarrow> string \<Rightarrow> 'b deployment"
where
  "deployGovernanceStrategy W s aave stkaave =
     deploy W s ''GovernanceStrategy'' [] [AStr aave, AStr stkaave]"

definition deployAaveTokenV2Mintable :: "'b world \<Rightarrow> string \<Rightarrow> 'b deployment" where
  "deployAaveTokenV2Mintable W s =
     deploy W s ''AaveTokenV2Mintable'' [] []"

definition deployCurveDeposit ::
  "'b world \<Rightarrow> string \<Rightarrow> string list \<Rightarrow> string list \<Rightarrow> string \<Rightarrow> string \<Rightarrow> 'b deployment"
where
  "deployCurveDeposit W s coins underlying_coins curve token =
     deploy W s ''CurveDeposit'' [] [AList (map AStr coins),
       AList (map AStr underlying_coins), AStr curve, AStr token]"

definition deployCurvePoolERC20 ::
  "'b world \<Rightarrow> string \<Rightarrow> string \<Rightarrow> string \<Rightarrow> 'b arg option \<Rightarrow> 'b arg \<Rightarrow> 'b deployment"
where
  "deployCurvePoolERC20 W s name symbol decimals supply h = do {
     let decimals = or_default decimals (ANum 18);
     deploy W s ''CurvePoolERC20'' [] [AStr name, AStr symbol, decimals, supply] h
   }"

definition getCurveStEthStableswapMock :: "string \<Rightarrow> contract option" where
  "getCurveStEthStableswapMock s =
     map_option (attach s ''CurveStableswapMock'') (dependency ''CURVE_ETH_STETH_EXCHANGE'' 1)"

definition getCurveWethStethStableswapMock :: "string \<Rightarrow> contract option" where
  "getCurveWethStethStableswapMock s =
     map_option (attach s ''CurveStableswapMock'') (dependency ''CURVE_WETH_STETH_EXCHANGE'' 1)"

definition deployStableswap ::
  "'b world \<Rightarrow> string \<Rightarrow> string list \<Rightarrow> string list \<Rightarrow> string \<Rightarrow> 'b arg option \<Rightarrow> 'b arg option \<Rightarrow>
   'b deployment"
where
  "deployStableswap W s coins underlying_coins pool_token aCoefficient fee h = do {
     let aCoefficient = or_default aCoefficient (ANum 1);
     let fee = or_default fee (ANum 0);
     deploy W s ''Stableswap'' [] [AList (map AStr coins),
         AList (map AStr underlying_coins), AStr pool_token, aCoefficient, fee] h
   }"

definition deployCrvToken ::
  "'b world \<Rightarrow> string \<Rightarrow> string \<Rightarrow> string \<Rightarrow> 'b arg option \<Rightarrow> 'b deployment"
where
  "deployCrvToken W s name symbol decimals h = do {
     let decimals = or_default decimals (ANum 18);
     deploy W s ''CRVToken'' [] [AStr name, AStr symbol, decimals] h
   }"

definition deployGaugeController ::
  "'b world \<Rightarrow> string \<Rightarrow> string \<Rightarrow> string \<Rightarrow> 'b deployment"
where
  "deployGaugeController W s token voting_escrow =
     deploy W s ''GaugeController'' [] [AStr token, AStr voting_escrow]"

definition deployLiquidityGaugeReward ::
  "'b world \<Rightarrow> string \<Rightarrow> string \<Rightarrow> string \<Rightarrow> string \<Rightarrow> string \<Rightarrow> 'b deployment"
where
  "deployLiquidityGaugeReward W s lpAddr minter reward_contract rewarded_token =
     deploy W s ''LiquidityGaugeReward'' [] [AStr lpAddr, AStr minter,
       AStr reward_contract, AStr rewarded_token]"

definition deployLiquidityGauge ::
  "'b world \<Rightarrow> string \<Rightarrow> string \<Rightarrow> string \<Rightarrow> 'b deployment"
where
  "deployLiquidityGauge W s lpAddr minter =
     deploy W s ''LiquidityGauge'' [] [AStr lpAddr, AStr minter]"

definition deployMinter ::
  "'b world \<Rightarrow> string \<Rightarrow> string \<Rightarrow> string \<Rightarrow> 'b deployment"
where
  "deployMinter W s token controller =
     deploy W s ''Minter'' [] [AStr token, AStr controller]"

definition deployUni ::
  "'b world \<Rightarrow> string \<Rightarrow> string \<Rightarrow> string \<Rightarrow> 'b \<Rightarrow> 'b deployment"
where
  "deployUni W s account minter mintingAllowedAfter =
     deploy W s ''Uni'' [] [AStr account, AStr minter, ABig mintingAllowedAfter]"

definition deployUniswapTimelock ::
  "'b world \<Rightarrow> string \<Rightarrow> string \<Rightarrow> 'b \<Rightarrow> 'b deployment"
where
  "deployUniswapTimelock W s admin delay =
     deploy W s ''UniswapTimelock'' [] [AStr admin, ABig delay]"

definition deployUniswapGovernorAlpha ::
  "'b world \<Rightarrow> string \<Rightarrow> string \<Rightarrow> string \<Rightarrow> 'b deployment"
where
  "deployUniswapGovernorAlpha W s timelock uni =
     deploy W s ''UniswapGovernorAlpha'' [] [AStr timelock, AStr uni]"

definition deployUniswapV2Factory ::
  "'b world \<Rightarrow> string \<Rightarrow> string \<Rightarrow> 'b deployment"
where
  "deployUniswapV2Factory W s feeToSetter =
     deploy W s ''UniswapV2Factory'' [] [AStr feeToSetter]"

definition deployUniswapV2Router02 ::
  "'b world \<Rightarrow> string \<Rightarrow> string \<Rightarrow> string \<Rightarrow> 'b deployment"
where
  "deployUniswapV2Router02 W s factory weth =
     deploy W s ''UniswapV2Router02'' [] [AStr factory, AStr weth]"

definition getForkedUniswapV2Router02 :: "string \<Rightarrow> string \<Rightarrow> contract" where
  "getForkedUniswapV2Router02 s mainnetRouter =
     attach s ''UniswapV2Router02'' mainnetRouter"

definition deployUniswapV2Pair :: "'b world \<Rightarrow> string \<Rightarrow> 'b deployment" where
  "deployUniswapV2Pair W s =
     deploy W s ''UniswapV2Pair'' [] []"

definition deployStakingRewards ::
  "'b world \<Rightarrow> string \<Rightarrow> string \<Rightarrow> string \<Rightarrow> string \<Rightarrow> 'b deployment"
where
  "deployStakingRewards W s rewardsDistribution rewardsToken stakingToken =
     deploy W s ''StakingRewards'' [] [AStr rewardsDistribution, AStr rewardsToken,
       AStr stakingToken]"

definition deployB__factory :: "'b world \<Rightarrow> string \<Rightarrow> 'b deployment" where
  "deployB__factory W s =
     deploy W s ''BFactory'' [] []"

definition deployExchangeProxy ::
  "'b world \<Rightarrow> string \<Rightarrow> string \<Rightarrow> 'b deployment"
where
  "deployExchangeProxy W s weth =
     deploy W s ''ExchangeProxy'' [] [AStr weth]"

definition deployBRegistry ::
  "'b world \<Rightarrow> string \<Rightarrow> string \<Rightarrow> 'b deployment"
where
  "deployBRegistry W s factory =
     deploy W s ''BRegistry'' [] [AStr factory]"

definition deployDelegateRegistry :: "'b world \<Rightarrow> string \<Rightarrow> 'b deployment" where
  "deployDelegateRegistry W s =
     deploy W s ''DelegateRegistry'' [] []"

definition deployVault :: "'b world \<Rightarrow> string \<Rightarrow> 'b deployment" where
  "deployVault W s =
     deploy W s ''Vault'' [] []"

definition getVault :: "string \<Rightarrow> string \<Rightarrow> contract" where
  "getVault s vaultAddress =
     attach s ''Vault'' vaultAddress"

definition deployRegistry :: "'b world \<Rightarrow> string \<Rightarrow> 'b deployment" where
  "deployRegistry W s =
     deploy W s ''Registry'' [] []"

definition deployKyberNetworkTokenV2 :: "'b world \<Rightarrow> string \<Rightarrow> 'b deployment" where
  "deployKyberNetworkTokenV2 W s =
     deploy W s ''KyberNetworkTokenV2'' [] []"

definition deployDMMFactory ::
  "'b world \<Rightarrow> string \<Rightarrow> string \<Rightarrow> 'b deployment"
where
  "deployDMMFactory W s feeToSetter =
     deploy W s ''DMMFactory'' [] [AStr feeToSetter]"

definition deployDMMRouter02 ::
  "'b world \<Rightarrow> string \<Rightarrow> string \<Rightarrow> string \<Rightarrow> 'b deployment"
where
  "deployDMMRouter02 W s factory weth =
     deploy W s ''DMMRouter02'' [] [AStr factory, AStr weth]"

definition deployDMMPool :: "'b world \<Rightarrow> string \<Rightarrow> 'b deployment" where
  "deployDMMPool W s =
     deploy W s ''DMMPool'' [] []"

definition deployUniswapV3Factory :: "'b world \<Rightarrow> string \<Rightarrow> 'b deployment" where
  "deployUniswapV3Factory W s =
     deploy W s ''UniswapV3Factory'' [] []"

definition deploySwapRouter ::
  "'b world \<Rightarrow> string \<Rightarrow> string \<Rightarrow> string \<Rightarrow> 'b deployment"
where
  "deploySwapRouter W s factory weth =
     deploy W s ''SwapRouter'' [] [AStr factory, AStr weth]"

definition deployNftPositionManager ::
  "'b world \<Rightarrow> string \<Rightarrow> string \<Rightarrow> string \<Rightarrow> string \<Rightarrow> 'b deployment"
where
  "deployNftPositionManager W s factory weth nftDesc =
     deploy W s ''NonfungiblePositionManager'' [] [AStr factory, AStr weth, AStr nftDesc]"

definition deployQuoter ::
  "'b world \<Rightarrow> string \<Rightarrow> string \<Rightarrow> string \<Rightarrow> 'b deployment"
where
  "deployQuoter W s factory weth =
     deploy W s ''Quoter'' [] [AStr factory, AStr weth]"

definition deployNFTDescriptor :: "'b world \<Rightarrow> string \<Rightarrow> 'b deployment" where
  "deployNFTDescriptor W s =
     deploy W s ''NFTDescriptor'' [] []"

definition getUniswapV3PoolInstance :: "string \<Rightarrow> string \<Rightarrow> contract" where
  "getUniswapV3PoolInstance s pool =
     attach s ''UniswapV3Pool'' pool"

definition deployPerpV2OrderBook :: "'b world \<Rightarrow> string \<Rightarrow> 'b deployment" where
  "deployPerpV2OrderBook W s =
     deploy W s ''PerpV2OrderBook'' [] []"

definition deployPerpV2MarketRegistry :: "'b world \<Rightarrow> string \<Rightarrow> 'b deployment" where
  "deployPerpV2MarketRegistry W s =
     deploy W s ''PerpV2MarketRegistry'' [] []"

definition deployPerpV2Quoter ::
  "'b world \<Rightarrow> string \<Rightarrow> string \<Rightarrow> 'b deployment"
where
  "deployPerpV2Quoter W s marketRegistry =
     deploy W s ''PerpV2Quoter'' [] [AStr marketRegistry]"

definition deployPerpV2QuoteToken :: "'b world \<Rightarrow> string \<Rightarrow> 'b deployment" where
  "deployPerpV2QuoteToken W s =
     deploy W s ''PerpV2QuoteToken'' [] []"

definition deployPerpV2Vault :: "'b world \<Rightarrow> string \<Rightarrow> 'b deployment" where
  "deployPerpV2Vault W s =
     deploy W s ''PerpV2Vault'' [] []"

definition deployPerpV2TestAggregatorV3 ::
  "'b world \<Rightarrow> string \<Rightarrow> 'b deployment"
where
  "deployPerpV2TestAggregatorV3 W s =
     deploy W s ''PerpV2TestAggregatorV3'' [] []"

definition deployPerpV2ChainlinkPriceFeed ::
  "'b world \<Rightarrow> string \<Rightarrow> 'b deployment"
where
  "deployPerpV2ChainlinkPriceFeed W s =
     deploy W s ''PerpV2ChainlinkPriceFeed'' [] []"

definition deployPerpV2BaseToken :: "'b world \<Rightarrow> string \<Rightarrow> 'b deployment" where
  "deployPerpV2BaseToken W s =
     deploy W s ''PerpV2BaseToken'' [] []"

definition deployPerpV2ClearingHouseConfig ::
  "'b world \<Rightarrow> string \<Rightarrow> 'b deployment"
where
  "deployPerpV2ClearingHouseConfig W s =
     deploy W s ''PerpV2ClearingHouseConfig'' [] []"

definition deployPerpV2InsuranceFund :: "'b world \<Rightarrow> string \<Rightarrow> 'b deployment" where
  "deployPerpV2InsuranceFund W s =
     deploy W s ''PerpV2InsuranceFund'' [] []"

definition deployPerpV2AccountBalance :: "'b world \<Rightarrow> string \<Rightarrow> 'b deployment" where
  "deployPerpV2AccountBalance W s =
     deploy W s ''PerpV2AccountBalance'' [] []"

definition deployPerpV2Exchange :: "'b world \<Rightarrow> string \<Rightarrow> 'b deployment" where
  "deployPerpV2Exchange W s =
     deploy W s ''PerpV2Exchange'' [] []"

definition deployPerpV2ClearingHouse :: "'b world \<Rightarrow> string \<Rightarrow> 'b deployment" where
  "deployPerpV2ClearingHouse W s =
     deploy W s ''PerpV2ClearingHouse'' [] []"

definition getVToken :: "string \<Rightarrow> string \<Rightarrow> contract" where
  "getVToken s token =
     attach s ''PerpV2BaseToken'' token"

subsection \<open>What a helper does\<close>

lemmas external_defs = deployComp_def deployCompoundTimelock_def
  deployCompoundGovernorAlpha_def deployCompoundGovernorBravoDelegate_def
  deployCompoundGovernorBravoDelegator_def deployCeRc20_def deployCEther_def
  deployCompoundPriceOracleMock_def deployPriceOracleProxy_def deployComptroller_def
  deployUnitroller_def deployWhitePaperInterestRateModel_def deployWETH_def
  deployAaveV2LendingPoolAddressesProvider_def deployAaveV2LendingPool_def
  deployAaveV2LendingPoolConfigurator_def deployAaveV2LendingPoolCollateralManager_def
  deployAaveV2LendingRateOracle_def deployAaveV2Oracle_def deployAaveV2PriceOracle_def
  deployAaveV2DefaultReserveInterestRateStrategy_def deployAaveV2ProtocolDataProvider_def
  deployAaveV2AToken_def deployAaveV2StableDebtToken_def deployAaveV2VariableDebtToken_def
  deployAaveV2StakedTokenIncentivesController_def deployGeneralLogic_def
  deployValidationLogic_def deployReserveLogic_def deployAaveGovernanceV2_def
  deployExecutor_def deployGovernanceStrategy_def deployAaveTokenV2Mintable_def
  deployCurveDeposit_def deployCurvePoolERC20_def deployStableswap_def deployCrvToken_def
  deployGaugeController_def deployLiquidityGaugeReward_def deployLiquidityGauge_def
  deployMinter_def deployUni_def deployUniswapTimelock_def deployUniswapGovernorAlpha_def
  deployUniswapV2Factory_def deployUniswapV2Router02_def deployUniswapV2Pair_def
  deployStakingRewards_def deployB__factory_def deployExchangeProxy_def deployBRegistry_def
  deployDelegateRegistry_def deployVault_def deployRegistry_def
  deployKyberNetworkTokenV2_def deployDMMFactory_def deployDMMRouter02_def
  deployDMMPool_def deployUniswapV3Factory_def deploySwapRouter_def
  deployNftPositionManager_def deployQuoter_def deployNFTDescriptor_def
  deployPerpV2OrderBook_def deployPerpV2MarketRegistry_def deployPerpV2Quoter_def
  deployPerpV2QuoteToken_def deployPerpV2Vault_def deployPerpV2TestAggregatorV3_def
  deployPerpV2ChainlinkPriceFeed_def deployPerpV2BaseToken_def
  deployPerpV2ClearingHouseConfig_def deployPerpV2InsuranceFund_def
  deployPerpV2AccountBalance_def deployPerpV2Exchange_def deployPerpV2ClearingHouse_def
  getForkedAaveLendingPoolAddressesProvider_def getForkedAaveV2ProtocolDataProvider_def
  getCurveStEthStableswapMock_def getCurveWethStethStableswapMock_def
  getForkedUniswapV2Router02_def getVault_def getUniswapV3PoolInstance_def getVToken_def

end
