(* ===== verification/AddressArrayUtils.thy ===== *)
theory AddressArrayUtils
  imports Prelude "HOL-Library.Multiset"
begin

text \<open>
  \<^verbatim>\<open>contracts/lib/AddressArrayUtils.sol\<close>: the array functions the contracts keep their lists with.
  A memory array is a list; a \<^verbatim>\<open>for\<close> loop over indices is \<open>for_range\<close>, which folds its body over
  the indices in order. The lemmas give each function by the list operation it computes, and
  the locale \<open>removal\<close> is the contract that callers of \<open>remove\<close> rely on.
\<close>

definition for_range :: "nat \<Rightarrow> nat \<Rightarrow> (nat \<Rightarrow> 's \<Rightarrow> 's) \<Rightarrow> 's \<Rightarrow> 's" where
  "for_range first bound body st = foldl (\<lambda>st i. body i st) st [first..<bound]"

subsection \<open>The functions\<close>

fun indexOf_loop :: "address list \<Rightarrow> address \<Rightarrow> nat \<Rightarrow> uint256 \<times> bool" where
  "indexOf_loop [] a i = (- 1, False)"
| "indexOf_loop (x # xs) a i = (if x = a then (of_nat i, True) else indexOf_loop xs a (i + 1))"

definition indexOf :: "address list \<Rightarrow> address \<Rightarrow> uint256 \<times> bool" where
  "indexOf A a = indexOf_loop A a 0"

definition contains :: "address list \<Rightarrow> address \<Rightarrow> bool" where
  "contains A a = (let (_, isIn) = indexOf A a in isIn)"

fun hasDuplicate_loop :: "address list \<Rightarrow> bool" where
  "hasDuplicate_loop (current # rest) = (list_ex (\<lambda>x. current = x) rest \<or> hasDuplicate_loop rest)"
| "hasDuplicate_loop [] = False"

definition hasDuplicate :: "address list \<Rightarrow> revert + bool" where
  "hasDuplicate A = and_then (require (0 < length A) ''A is empty'') (\<lambda>_. Inr (hasDuplicate_loop A))"

definition pop :: "address list \<Rightarrow> uint256 \<Rightarrow> revert + (address list \<times> address)" where
  "pop A index =
     (let len = length A; ix = unat index in
      and_then (require (ix < len) ''Index must be < A length'') (\<lambda>_.
        let newAddresses = replicate (len - 1) 0;
            newAddresses = for_range 0 ix (\<lambda>i xs. xs[i := A ! i]) newAddresses;
            newAddresses = for_range (ix + 1) len (\<lambda>j xs. xs[j - 1 := A ! j]) newAddresses
        in Inr (newAddresses, A ! ix)))"

definition remove :: "address list \<Rightarrow> address \<Rightarrow> revert + address list" where
  "remove A a =
     (let (index, isIn) = indexOf A a
      in if \<not> isIn then Inl (Revert ''Address not in array.'')
      else and_then (pop A index) (\<lambda>(newA, _). Inr newA))"

text \<open>The storage array after the call; \<open>A.pop()\<close> drops the last element.\<close>

definition removeStorage :: "address list \<Rightarrow> address \<Rightarrow> revert + address list" where
  "removeStorage A a =
     (let (index, isIn) = indexOf A a
      in if \<not> isIn then Inl (Revert ''Address not in array.'')
      else let lastIndex = length A - 1;
               A' = (if unat index \<noteq> lastIndex then A[unat index := A ! lastIndex] else A)
           in Inr (butlast A'))"

definition extend :: "address list \<Rightarrow> address list \<Rightarrow> address list" where
  "extend A B =
     (let aLength = length A; bLength = length B;
          newAddresses = replicate (aLength + bLength) 0;
          newAddresses = for_range 0 aLength (\<lambda>i xs. xs[i := A ! i]) newAddresses;
          newAddresses = for_range 0 bLength (\<lambda>j xs. xs[aLength + j := B ! j]) newAddresses
      in newAddresses)"

definition validateLengthAndUniqueness :: "address list \<Rightarrow> revert + unit" where
  "validateLengthAndUniqueness A =
     and_then (require (0 < length A) ''Array length must be > 0'') (\<lambda>_.
     and_then (hasDuplicate A) (\<lambda>dup. require (\<not> dup) ''Cannot duplicate addresses''))"

text \<open>The overloads differ only in the element type of the second array.\<close>

definition validatePairsWithArray :: "address list \<Rightarrow> 'e list \<Rightarrow> revert + unit" where
  "validatePairsWithArray A B =
     and_then (require (length A = length B) ''Array length mismatch'') (\<lambda>_.
       validateLengthAndUniqueness A)"

subsection \<open>The list operations they compute\<close>

lemma length_for_range_update [simp]:
  "length (for_range a b (\<lambda>i xs. xs[p i := g i]) xs) = length xs"
proof -
  have "length (foldl (\<lambda>xs i. xs[p i := g i]) xs is) = length xs" for "is"
    by (induction "is" arbitrary: xs) simp_all
  then show ?thesis by (simp add: for_range_def)
qed

lemma for_range_Suc: "a \<le> b \<Longrightarrow> for_range a (Suc b) body st = body b (for_range a b body st)"
  by (simp add: for_range_def)

lemma for_range_same [simp]: "for_range a a body st = st"
  by (simp add: for_range_def)

text \<open>Copying to higher and to lower indices.\<close>

lemma nth_copy_up:
  "a \<le> b \<Longrightarrow> k < length xs \<Longrightarrow> for_range a b (\<lambda>i xs. xs[c + i := g i]) xs ! k =
     (if c + a \<le> k \<and> k < c + b then g (k - c) else xs ! k)"
proof (induction b rule: dec_induct)
  case (step b)
  then show ?case by (cases "c + b = k") (auto simp: for_range_Suc less_Suc_eq)
qed auto

lemma nth_copy_down:
  "a \<le> b \<Longrightarrow> 1 \<le> a \<Longrightarrow> k < length xs \<Longrightarrow> for_range a b (\<lambda>j xs. xs[j - 1 := g j]) xs ! k =
     (if a - 1 \<le> k \<and> k < b - 1 then g (k + 1) else xs ! k)"
proof (induction b rule: dec_induct)
  case (step b)
  then have "1 \<le> b" by simp
  with step show ?case by (cases "b - 1 = k") (auto simp: for_range_Suc less_Suc_eq)
qed auto

lemma extend_eq [simp]: "extend A B = A @ B"
  using nth_copy_up [where c = 0, of 0 "length A" _ _ "\<lambda>i. A ! i"]
  by (intro nth_equalityI) (auto simp: extend_def Let_def nth_copy_up nth_append)

lemma indexOf_loop_in:
  "a \<in> set A \<Longrightarrow> \<exists>i < length A. indexOf_loop A a n = (of_nat (n + i), True) \<and> A ! i = a \<and> a \<notin> set (take i A)"
proof (induction A arbitrary: n)
  case (Cons x A)
  show ?case
  proof (cases "x = a")
    case True
    then show ?thesis by (intro exI [of _ 0]) simp
  next
    case False
    with Cons obtain i where "i < length A" "indexOf_loop A a (n + 1) = (of_nat (n + 1 + i), True)"
        "A ! i = a" "a \<notin> set (take i A)" by fastforce
    with False show ?thesis by (intro exI [of _ "Suc i"]) simp
  qed
qed simp

lemma indexOf_loop_notin: "a \<notin> set A \<Longrightarrow> indexOf_loop A a n = (- 1, False)"
  by (induction A arbitrary: n) auto

lemma contains_iff [simp]: "contains A a \<longleftrightarrow> a \<in> set A"
  using indexOf_loop_in [of a A 0] indexOf_loop_notin [of a A 0]
  by (cases "a \<in> set A") (auto simp: contains_def indexOf_def)

lemma hasDuplicate_loop_iff [simp]: "hasDuplicate_loop A \<longleftrightarrow> \<not> distinct A"
  by (induction A) (auto simp: list_ex_iff)

lemma hasDuplicate_eq: "hasDuplicate A = (if A = [] then Inl (Revert ''A is empty'') else Inr (\<not> distinct A))"
  by (simp add: hasDuplicate_def)

lemma pop_eq:
  assumes "i < length A" and "length A < 2 ^ 256"
  shows "pop A (of_nat i) = Inr (take i A @ drop (i + 1) A, A ! i)"
proof -
  have u: "unat (of_nat i :: uint256) = i"
    using assms by (simp add: unat_of_nat take_bit_nat_eq_self)
  have "for_range (i + 1) (length A) (\<lambda>j xs. xs[j - 1 := A ! j])
      (for_range 0 i (\<lambda>i xs. xs[i := A ! i]) (replicate (length A - 1) 0)) = take i A @ drop (i + 1) A"
    (is "?new = _")
  proof (rule nth_equalityI)
    have l1: "length (for_range 0 i (\<lambda>i xs. xs[i := A ! i]) (replicate (length A - 1) 0)) = length A - 1"
      using length_for_range_update [where p = "\<lambda>i. i" and g = "\<lambda>i. A ! i"] by simp
    then show l: "length ?new = length (take i A @ drop (i + 1) A)"
      using assms by simp
    fix k assume "k < length ?new"
    then have k: "k < length A - 1" using l1 by simp
    then show "?new ! k = (take i A @ drop (i + 1) A) ! k"
      using nth_copy_up [where c = 0, of 0 i k "replicate (length A - 1) 0" "\<lambda>i. A ! i"]
        nth_copy_down [of "i + 1" "length A" k "for_range 0 i (\<lambda>i xs. xs[i := A ! i]) (replicate (length A - 1) 0)" "\<lambda>i. A ! i"]
        assms(1) l1 by (auto simp: nth_append min_def)
  qed
  with assms show ?thesis by (simp add: pop_def u Let_def)
qed

lemma remove1_first: "A ! i = a \<Longrightarrow> i < length A \<Longrightarrow> a \<notin> set (take i A) \<Longrightarrow> remove1 a A = take i A @ drop (i + 1) A"
  by (induction A arbitrary: i) (auto simp: nth_Cons' split: if_splits simp: take_Cons' )

text \<open>An array has fewer than \<open>2 ^ 256\<close> elements.\<close>

lemma remove_eq:
  assumes "length A < 2 ^ 256"
  shows "remove A a = (if a \<in> set A then Inr (remove1 a A) else Inl (Revert ''Address not in array.''))"
proof (cases "a \<in> set A")
  case True
  from indexOf_loop_in [OF this, of 0] obtain i where i: "i < length A"
      "indexOf A a = (of_nat i, True)" "A ! i = a" "a \<notin> set (take i A)" by (auto simp: indexOf_def)
  with pop_eq [OF i(1) assms] remove1_first [of A i a] True show ?thesis by (simp add: remove_def)
next
  case False
  with indexOf_loop_notin [OF False, of 0] show ?thesis by (simp add: remove_def indexOf_def)
qed

lemma mset_butlast: "A \<noteq> [] \<Longrightarrow> mset (butlast A) = mset A - {#last A#}"
  by (metis add_diff_cancel_right' append_butlast_last_id mset.simps mset_append)

lemma butlast_swap:
  assumes "i < length A"
  shows "mset (butlast (if i \<noteq> length A - 1 then A[i := A ! (length A - 1)] else A)) = mset A - {#A ! i#}"
proof -
  have l: "A \<noteq> []" using assms by auto
  then have last: "A ! (length A - 1) = last A" by (simp add: last_conv_nth)
  have "last (A[i := last A]) = last A"
    using l assms by (auto simp: last_conv_nth nth_list_update)
  with last show ?thesis
    using assms l by (simp add: mset_butlast mset_update)
qed

lemma removeStorage_eq:
  assumes "length A < 2 ^ 256" and "a \<in> set A"
  shows "\<exists>A'. removeStorage A a = Inr A' \<and> mset A' = mset A - {#a#}"
proof -
  from indexOf_loop_in [OF assms(2), of 0] obtain i where i: "i < length A"
      "indexOf A a = (of_nat i, True)" "A ! i = a" by (auto simp: indexOf_def)
  then have u: "unat (of_nat i :: uint256) = i"
    using assms(1) by (simp add: unat_of_nat take_bit_nat_eq_self)
  show ?thesis
    using butlast_swap [OF i(1)] i by (auto simp: removeStorage_def u Let_def split: if_splits)
qed

lemma removeStorage_absent: "a \<notin> set A \<Longrightarrow> removeStorage A a = Inl (Revert ''Address not in array.'')"
  using indexOf_loop_notin [of a A 0] by (simp add: removeStorage_def indexOf_def)

subsection \<open>The contract of a removal\<close>

text \<open>Removing one entry of an array: it reverts on an address that is not there, and otherwise
  takes out one occurrence and keeps the rest.\<close>

locale removal =
  fixes rem :: "address list \<Rightarrow> address \<Rightarrow> revert + address list"
  assumes rem_present: "length A < 2 ^ 256 \<Longrightarrow> a \<in> set A \<Longrightarrow> \<exists>A'. rem A a = Inr A' \<and> mset A' = mset A - {#a#}"
    and rem_absent: "length A < 2 ^ 256 \<Longrightarrow> a \<notin> set A \<Longrightarrow> rem A a = Inl (Revert ''Address not in array.'')"
begin

lemma rem_Inr:
  assumes "length A < 2 ^ 256" and "rem A a = Inr A'"
  shows "a \<in> set A" and "mset A' = mset A - {#a#}"
  using assms rem_present [of A a] rem_absent [of A a] by (cases "a \<in> set A"; auto)+

text \<open>On a list without duplicates a removal takes the address out of the set.\<close>

lemma rem_distinct:
  assumes "length A < 2 ^ 256" and "rem A a = Inr A'" and "distinct A"
  shows "distinct A'" and "set A' = set A - {a}" and "length A' < 2 ^ 256"
proof -
  note m = rem_Inr [OF assms(1,2)]
  then have "mset A' = mset (remove1 a A)" by simp
  then show "distinct A'" "set A' = set A - {a}"
    using assms(3) mset_eq_imp_distinct_iff [of A' "remove1 a A"] mset_eq_setD [of A' "remove1 a A"] by auto
  show "length A' < 2 ^ 256"
    using mset_eq_length [OF \<open>mset A' = mset (remove1 a A)\<close>] assms(1) by (simp add: length_remove1 split: if_splits)
qed

end

interpretation remove: removal remove
  by unfold_locales (simp_all add: remove_eq)

interpretation removeStorage: removal removeStorage
  by unfold_locales (simp_all add: removeStorage_eq removeStorage_absent)

subsection \<open>Properties\<close>

text \<open>Both removals of the library, the one that copies a memory array and the one that
  swaps the last element into the hole of a storage array, take out one occurrence of the
  address, or revert when there is none; the copying one keeps the order of the rest.\<close>

lemma removals_agree:
  assumes "length A < 2 ^ 256"
  shows "if a \<in> set A
    then remove A a = Inr (remove1 a A) \<and>
      (\<exists>A'. removeStorage A a = Inr A' \<and> mset A' = mset (remove1 a A) \<and> length A' = length A - 1)
    else remove A a = Inl (Revert ''Address not in array.'') \<and>
      removeStorage A a = Inl (Revert ''Address not in array.'')"
proof (cases "a \<in> set A")
  case True
  from removeStorage_eq [OF assms True] obtain A' where A': "removeStorage A a = Inr A'"
    "mset A' = mset (remove1 a A)" by auto
  from mset_eq_length [OF A'(2)] A' True assms show ?thesis by (simp add: remove_eq length_remove1)
qed (use assms in \<open>simp add: remove_eq removeStorage_absent\<close>)

end
