(* ===== verification/Controller.thy ===== *)
theory Controller
  imports AddressArrayUtils
begin

text \<open>
  \<^verbatim>\<open>contracts/protocol/Controller.sol\<close>: the registry of SetTokens, factories, modules and
  resources. The storage is the record \<open>controller\<close>; each external function is an operation of
  the sender that reverts or returns the new storage. \<open>owner\<close> and \<open>onlyOwner\<close> come from
  OpenZeppelin's \<^verbatim>\<open>Ownable\<close>, which is not in the repository: the owner is a field, and who
  holds it may change between calls. The removal of an address from a list is
  an argument of the operations' lemmas through the locale \<open>removal\<close>; the code uses
  \<^verbatim>\<open>AddressArrayUtils.remove\<close>.
\<close>

subsection \<open>State\<close>

datatype controller_log =
    FactoryAdded address
  | FactoryRemoved address
  | FeeEdited address uint256 uint256
  | FeeRecipientChanged address
  | ModuleAdded address
  | ModuleRemoved address
  | ResourceAdded address uint256
  | ResourceRemoved address uint256
  | SetAdded address address
  | SetRemoved address

record controller =
  owner :: address
  sets :: "address list"
  factories :: "address list"
  modules :: "address list"
  resources :: "address list"
  isSet :: "address \<Rightarrow> bool"
  isFactory :: "address \<Rightarrow> bool"
  isModule :: "address \<Rightarrow> bool"
  isResource :: "address \<Rightarrow> bool"
  fees :: "address \<Rightarrow> uint256 \<Rightarrow> uint256"
  resourceId :: "uint256 \<Rightarrow> address"
  feeRecipient :: address
  isInitialized :: bool
  logs :: "controller_log list"

definition emit :: "controller_log \<Rightarrow> controller \<Rightarrow> controller" where
  "emit e c = c\<lparr>logs := logs c @ [e]\<rparr>"

text \<open>The deployer becomes the owner.\<close>

definition construct_controller :: "address \<Rightarrow> address \<Rightarrow> controller" where
  "construct_controller sender recipient = \<lparr>owner = sender, sets = [], factories = [], modules = [],
     resources = [], isSet = (\<lambda>_. False), isFactory = (\<lambda>_. False), isModule = (\<lambda>_. False),
     isResource = (\<lambda>_. False), fees = (\<lambda>_ _. 0), resourceId = (\<lambda>_. 0), feeRecipient = recipient,
     isInitialized = False, logs = []\<rparr>"

subsection \<open>Modifiers\<close>

definition onlyOwner :: "address \<Rightarrow> controller \<Rightarrow> revert + unit" where
  "onlyOwner sender c = require (sender = owner c) ''Ownable: caller is not the owner''"

definition onlyFactory :: "address \<Rightarrow> controller \<Rightarrow> revert + unit" where
  "onlyFactory sender c = require (isFactory c sender) ''Only valid factories can call''"

definition onlyInitialized :: "controller \<Rightarrow> revert + unit" where
  "onlyInitialized c = require (isInitialized c) ''Contract must be initialized.''"

subsection \<open>Operations\<close>

text \<open>The loops of \<open>initialize\<close>.\<close>

fun initialize_factories :: "address list \<Rightarrow> controller \<Rightarrow> revert + controller" where
  "initialize_factories [] c = Inr c"
| "initialize_factories (f # fs) c =
     and_then (require (f \<noteq> 0) ''Zero address submitted.'') (\<lambda>_.
       initialize_factories fs (c\<lparr>isFactory := (isFactory c)(f := True)\<rparr>))"

fun initialize_modules :: "address list \<Rightarrow> controller \<Rightarrow> revert + controller" where
  "initialize_modules [] c = Inr c"
| "initialize_modules (m # ms) c =
     and_then (require (m \<noteq> 0) ''Zero address submitted.'') (\<lambda>_.
       initialize_modules ms (c\<lparr>isModule := (isModule c)(m := True)\<rparr>))"

text \<open>The resources with their ids, of which there are as many.\<close>

fun initialize_resources :: "(address \<times> uint256) list \<Rightarrow> controller \<Rightarrow> revert + controller" where
  "initialize_resources [] c = Inr c"
| "initialize_resources ((r, i) # rs) c =
     and_then (require (r \<noteq> 0) ''Zero address submitted.'') (\<lambda>_.
     and_then (require (resourceId c i = 0) ''Resource ID already exists'') (\<lambda>_.
       initialize_resources rs
         (c\<lparr>isResource := (isResource c)(r := True), resourceId := (resourceId c)(i := r)\<rparr>)))"

definition initialize ::
  "address \<Rightarrow> address list \<Rightarrow> address list \<Rightarrow> address list \<Rightarrow> uint256 list \<Rightarrow> controller \<Rightarrow>
   revert + controller"
where
  "initialize sender fs ms rs ids c =
     and_then (onlyOwner sender c) (\<lambda>_.
     and_then (require (\<not> isInitialized c) ''Controller is already initialized'') (\<lambda>_.
     and_then (require (length rs = length ids) ''Array lengths do not match.'') (\<lambda>_.
     and_then (initialize_factories fs (c\<lparr>factories := fs, modules := ms, resources := rs\<rparr>)) (\<lambda>c.
     and_then (initialize_modules ms c) (\<lambda>c.
     and_then (initialize_resources (zip rs ids) c) (\<lambda>c.
       Inr (c\<lparr>isInitialized := True\<rparr>)))))))"

definition addSet :: "address \<Rightarrow> address \<Rightarrow> controller \<Rightarrow> revert + controller" where
  "addSet sender setToken c =
     and_then (onlyInitialized c) (\<lambda>_. and_then (onlyFactory sender c) (\<lambda>_.
     and_then (require (\<not> isSet c setToken) ''Set already exists'') (\<lambda>_.
       Inr (emit (SetAdded setToken sender)
         (c\<lparr>isSet := (isSet c)(setToken := True), sets := sets c @ [setToken]\<rparr>)))))"

definition removeSet :: "address \<Rightarrow> address \<Rightarrow> controller \<Rightarrow> revert + controller" where
  "removeSet sender setToken c =
     and_then (onlyInitialized c) (\<lambda>_. and_then (onlyOwner sender c) (\<lambda>_.
     and_then (require (isSet c setToken) ''Set does not exist'') (\<lambda>_.
     and_then (remove (sets c) setToken) (\<lambda>rest.
       Inr (emit (SetRemoved setToken)
         (c\<lparr>sets := rest, isSet := (isSet c)(setToken := False)\<rparr>))))))"

definition addFactory :: "address \<Rightarrow> address \<Rightarrow> controller \<Rightarrow> revert + controller" where
  "addFactory sender f c =
     and_then (onlyInitialized c) (\<lambda>_. and_then (onlyOwner sender c) (\<lambda>_.
     and_then (require (\<not> isFactory c f) ''Factory already exists'') (\<lambda>_.
       Inr (emit (FactoryAdded f)
         (c\<lparr>isFactory := (isFactory c)(f := True), factories := factories c @ [f]\<rparr>)))))"

definition removeFactory :: "address \<Rightarrow> address \<Rightarrow> controller \<Rightarrow> revert + controller" where
  "removeFactory sender f c =
     and_then (onlyInitialized c) (\<lambda>_. and_then (onlyOwner sender c) (\<lambda>_.
     and_then (require (isFactory c f) ''Factory does not exist'') (\<lambda>_.
     and_then (remove (factories c) f) (\<lambda>rest.
       Inr (emit (FactoryRemoved f)
         (c\<lparr>factories := rest, isFactory := (isFactory c)(f := False)\<rparr>))))))"

definition addModule :: "address \<Rightarrow> address \<Rightarrow> controller \<Rightarrow> revert + controller" where
  "addModule sender m c =
     and_then (onlyInitialized c) (\<lambda>_. and_then (onlyOwner sender c) (\<lambda>_.
     and_then (require (\<not> isModule c m) ''Module already exists'') (\<lambda>_.
       Inr (emit (ModuleAdded m)
         (c\<lparr>isModule := (isModule c)(m := True), modules := modules c @ [m]\<rparr>)))))"

definition removeModule :: "address \<Rightarrow> address \<Rightarrow> controller \<Rightarrow> revert + controller" where
  "removeModule sender m c =
     and_then (onlyInitialized c) (\<lambda>_. and_then (onlyOwner sender c) (\<lambda>_.
     and_then (require (isModule c m) ''Module does not exist'') (\<lambda>_.
     and_then (remove (modules c) m) (\<lambda>rest.
       Inr (emit (ModuleRemoved m)
         (c\<lparr>modules := rest, isModule := (isModule c)(m := False)\<rparr>))))))"

definition addResource :: "address \<Rightarrow> address \<Rightarrow> uint256 \<Rightarrow> controller \<Rightarrow> revert + controller" where
  "addResource sender r i c =
     and_then (onlyInitialized c) (\<lambda>_. and_then (onlyOwner sender c) (\<lambda>_.
     and_then (require (\<not> isResource c r) ''Resource already exists'') (\<lambda>_.
     and_then (require (resourceId c i = 0) ''Resource ID already exists'') (\<lambda>_.
       Inr (emit (ResourceAdded r i)
         (c\<lparr>isResource := (isResource c)(r := True), resourceId := (resourceId c)(i := r),
            resources := resources c @ [r]\<rparr>))))))"

definition removeResource :: "address \<Rightarrow> uint256 \<Rightarrow> controller \<Rightarrow> revert + controller" where
  "removeResource sender i c =
     and_then (onlyInitialized c) (\<lambda>_. and_then (onlyOwner sender c) (\<lambda>_.
     let resourceToRemove = resourceId c i in
     and_then (require (resourceToRemove \<noteq> 0) ''Resource does not exist'') (\<lambda>_.
     and_then (remove (resources c) resourceToRemove) (\<lambda>rest.
       Inr (emit (ResourceRemoved resourceToRemove i)
         (c\<lparr>resources := rest, resourceId := (resourceId c)(i := 0),
            isResource := (isResource c)(resourceToRemove := False)\<rparr>))))))"

definition addFee :: "address \<Rightarrow> address \<Rightarrow> uint256 \<Rightarrow> uint256 \<Rightarrow> controller \<Rightarrow> revert + controller" where
  "addFee sender m feeType newFeePercentage c =
     and_then (onlyInitialized c) (\<lambda>_. and_then (onlyOwner sender c) (\<lambda>_.
     and_then (require (isModule c m) ''Module does not exist'') (\<lambda>_.
     and_then (require (fees c m feeType = 0) ''Fee type already exists on module'') (\<lambda>_.
       Inr (emit (FeeEdited m feeType newFeePercentage)
         (c\<lparr>fees := (fees c)(m := (fees c m)(feeType := newFeePercentage))\<rparr>))))))"

definition editFee :: "address \<Rightarrow> address \<Rightarrow> uint256 \<Rightarrow> uint256 \<Rightarrow> controller \<Rightarrow> revert + controller" where
  "editFee sender m feeType newFeePercentage c =
     and_then (onlyInitialized c) (\<lambda>_. and_then (onlyOwner sender c) (\<lambda>_.
     and_then (require (isModule c m) ''Module does not exist'') (\<lambda>_.
     and_then (require (fees c m feeType \<noteq> 0) ''Fee type does not exist on module'') (\<lambda>_.
       Inr (emit (FeeEdited m feeType newFeePercentage)
         (c\<lparr>fees := (fees c)(m := (fees c m)(feeType := newFeePercentage))\<rparr>))))))"

definition editFeeRecipient :: "address \<Rightarrow> address \<Rightarrow> controller \<Rightarrow> revert + controller" where
  "editFeeRecipient sender newFeeRecipient c =
     and_then (onlyInitialized c) (\<lambda>_. and_then (onlyOwner sender c) (\<lambda>_.
     and_then (require (newFeeRecipient \<noteq> 0) ''Address must not be 0'') (\<lambda>_.
       Inr (emit (FeeRecipientChanged newFeeRecipient) (c\<lparr>feeRecipient := newFeeRecipient\<rparr>)))))"

definition getModuleFee :: "address \<Rightarrow> uint256 \<Rightarrow> controller \<Rightarrow> uint256" where
  "getModuleFee moduleAddress feeType c = fees c moduleAddress feeType"

definition isSystemContract :: "address \<Rightarrow> address \<Rightarrow> controller \<Rightarrow> bool" where
  "isSystemContract this a c \<longleftrightarrow>
     isSet c a \<or> isModule c a \<or> isResource c a \<or> isFactory c a \<or> a = this"

subsection \<open>Calls\<close>

datatype controller_call =
    Initialize "address list" "address list" "address list" "uint256 list"
  | AddSet address
  | RemoveSet address
  | AddFactory address
  | RemoveFactory address
  | AddModule address
  | RemoveModule address
  | AddResource address uint256
  | RemoveResource uint256
  | AddFee address uint256 uint256
  | EditFee address uint256 uint256
  | EditFeeRecipient address

fun call_controller :: "address \<Rightarrow> controller_call \<Rightarrow> controller \<Rightarrow> revert + controller" where
  "call_controller s (Initialize fs ms rs ids) c = initialize s fs ms rs ids c"
| "call_controller s (AddSet a) c = addSet s a c"
| "call_controller s (RemoveSet a) c = removeSet s a c"
| "call_controller s (AddFactory a) c = addFactory s a c"
| "call_controller s (RemoveFactory a) c = removeFactory s a c"
| "call_controller s (AddModule a) c = addModule s a c"
| "call_controller s (RemoveModule a) c = removeModule s a c"
| "call_controller s (AddResource a i) c = addResource s a i c"
| "call_controller s (RemoveResource i) c = removeResource s i c"
| "call_controller s (AddFee m t p) c = addFee s m t p c"
| "call_controller s (EditFee m t p) c = editFee s m t p c"
| "call_controller s (EditFeeRecipient a) c = editFeeRecipient s a c"

lemmas controller_ops = initialize_def addSet_def removeSet_def addFactory_def removeFactory_def
  addModule_def removeModule_def addResource_def removeResource_def addFee_def editFee_def
  editFeeRecipient_def onlyOwner_def onlyFactory_def onlyInitialized_def emit_def Let_def

subsection \<open>The invariant\<close>

text \<open>A list and the mapping that goes with it.\<close>

definition registered :: "address list \<Rightarrow> (address \<Rightarrow> bool) \<Rightarrow> bool" where
  "registered xs p \<longleftrightarrow> distinct xs \<and> (\<forall>a. p a \<longleftrightarrow> a \<in> set xs)"

text \<open>Ids and resources: no resource has two ids, and the resources are those with an id.\<close>

definition identified :: "(uint256 \<Rightarrow> address) \<Rightarrow> (address \<Rightarrow> bool) \<Rightarrow> bool" where
  "identified ids p \<longleftrightarrow> (\<forall>i j. ids i = ids j \<and> ids i \<noteq> 0 \<longrightarrow> i = j) \<and>
     (\<forall>r. r \<noteq> 0 \<longrightarrow> (p r \<longleftrightarrow> (\<exists>i. ids i = r)))"

definition controller_wf :: "controller \<Rightarrow> bool" where
  "controller_wf c \<longleftrightarrow> registered (sets c) (isSet c) \<and> registered (factories c) (isFactory c) \<and>
     registered (modules c) (isModule c) \<and> registered (resources c) (isResource c) \<and>
     identified (resourceId c) (isResource c) \<and>
     (\<not> isInitialized c \<longrightarrow> sets c = [] \<and> factories c = [] \<and> modules c = [] \<and> resources c = [])"

lemma registered_length: "registered xs p \<Longrightarrow> length xs < 2 ^ 256"
proof -
  assume "registered xs p"
  then have "length xs = card (set xs)" by (simp add: registered_def distinct_card)
  also have "\<dots> \<le> card (UNIV :: address set)" by (rule card_mono) simp_all
  finally show ?thesis by (simp add: card_word)
qed

lemma registered_add: "registered xs p \<Longrightarrow> \<not> p a \<Longrightarrow> registered (xs @ [a]) (p(a := True))"
  by (auto simp: registered_def)

lemma registered_remove:
  assumes "registered xs p" and "remove xs a = Inr ys"
  shows "registered ys (p(a := False))"
  using assms remove.rem_distinct [OF registered_length [OF assms(1)] assms(2)]
  by (auto simp: registered_def)

lemma registered_removable:
  "registered xs p \<Longrightarrow> p a \<Longrightarrow> \<exists>ys. remove xs a = Inr ys"
  using remove.rem_present [OF registered_length [of xs p], of a] by (auto simp: registered_def)

lemma identified_add:
  assumes "identified ids p" and "\<not> p r" and "ids i = 0"
  shows "identified (ids(i := r)) (p(r := True))"
  using assms unfolding identified_def by (auto split: if_splits)

lemma identified_remove:
  assumes "identified ids p" and "ids i \<noteq> 0"
  shows "identified (ids(i := 0)) (p(ids i := False))"
  using assms unfolding identified_def by (auto split: if_splits)

lemma initialize_factories_Inr:
  "initialize_factories fs c = Inr c' \<longleftrightarrow>
     0 \<notin> set fs \<and> c' = c\<lparr>isFactory := \<lambda>a. isFactory c a \<or> a \<in> set fs\<rparr>"
proof (induction fs arbitrary: c)
  case (Cons f fs)
  show ?case by (auto simp: Cons fun_upd_def intro: arg_cong [where f = "\<lambda>p. isFactory_update p c"])
qed auto

lemma initialize_modules_Inr:
  "initialize_modules ms c = Inr c' \<longleftrightarrow>
     0 \<notin> set ms \<and> c' = c\<lparr>isModule := \<lambda>a. isModule c a \<or> a \<in> set ms\<rparr>"
proof (induction ms arbitrary: c)
  case (Cons m ms)
  show ?case by (auto simp: Cons fun_upd_def intro: arg_cong [where f = "\<lambda>p. isModule_update p c"])
qed auto

lemma initialize_resources_frame:
  "initialize_resources rs c = Inr c' \<Longrightarrow> owner c' = owner c \<and> sets c' = sets c \<and>
     factories c' = factories c \<and> modules c' = modules c \<and> resources c' = resources c \<and>
     isSet c' = isSet c \<and> isFactory c' = isFactory c \<and> isModule c' = isModule c \<and> fees c' = fees c \<and>
     feeRecipient c' = feeRecipient c \<and> isInitialized c' = isInitialized c \<and> logs c' = logs c"
  by (induction rs c rule: initialize_resources.induct) auto

text \<open>What the loop over the resources does: every resource is one, every id has its resource.\<close>

lemma initialize_resources_Inr:
  assumes "initialize_resources rs c = Inr c'" and "identified (resourceId c) (isResource c)"
    and "distinct (map fst rs)" and "\<forall>r \<in> fst ` set rs. \<not> isResource c r"
  shows "identified (resourceId c') (isResource c') \<and>
    (\<forall>a. isResource c' a \<longleftrightarrow> isResource c a \<or> a \<in> fst ` set rs) \<and>
    (\<forall>(r, i) \<in> set rs. resourceId c' i = r) \<and>
    (\<forall>i. resourceId c i \<noteq> 0 \<longrightarrow> resourceId c' i = resourceId c i)"
  using assms
proof (induction rs arbitrary: c)
  case (Cons ri rs)
  obtain r i where ri: "ri = (r, i)" by (cases ri)
  let ?c = "c\<lparr>isResource := (isResource c)(r := True), resourceId := (resourceId c)(i := r)\<rparr>"
  have r: "r \<noteq> 0" "resourceId c i = 0" and run: "initialize_resources rs ?c = Inr c'"
    using Cons.prems(1) by (simp_all add: ri)
  have "identified (resourceId ?c) (isResource ?c)"
    using Cons.prems(2,4) r identified_add [of "resourceId c" "isResource c" r i] by (simp add: ri)
  moreover have "distinct (map fst rs)" "\<forall>q \<in> fst ` set rs. \<not> isResource ?c q"
    using Cons.prems(3,4) by (auto simp: ri)
  ultimately have IH: "identified (resourceId c') (isResource c')"
    "\<forall>a. isResource c' a \<longleftrightarrow> isResource ?c a \<or> a \<in> fst ` set rs"
    "\<forall>(r, i) \<in> set rs. resourceId c' i = r"
    "\<forall>i. resourceId ?c i \<noteq> 0 \<longrightarrow> resourceId c' i = resourceId ?c i"
    using Cons.IH [OF run] by blast+
  have "resourceId c' i = r" using IH(4) r by simp
  moreover have "\<forall>j. resourceId c j \<noteq> 0 \<longrightarrow> resourceId c' j = resourceId c j"
    using IH(4) r by (auto simp: fun_upd_def split: if_splits)
  moreover have "\<forall>a. isResource c' a \<longleftrightarrow> isResource c a \<or> a \<in> fst ` set (ri # rs)"
    using IH(2) by (auto simp: ri split: if_splits)
  ultimately show ?case using IH(1,3) by - (intro conjI; (assumption | auto simp: ri))
qed auto

text \<open>A successful \<open>initialize\<close> with lists that have no duplicates.\<close>

lemma initialize_Inr:
  assumes "initialize s fs ms rs ids c = Inr c'" and "controller_wf c"
    and "distinct fs" and "distinct ms" and "distinct rs"
  shows "controller_wf c' \<and> isInitialized c' \<and> \<not> isInitialized c \<and> s = owner c \<and> owner c' = owner c \<and>
    sets c' = [] \<and> factories c' = fs \<and> modules c' = ms \<and> resources c' = rs \<and>
    (\<forall>k < length rs. resourceId c' (ids ! k) = rs ! k) \<and> length rs = length ids"
proof -
  from assms(1) obtain c2 where i: "s = owner c" "\<not> isInitialized c" "length rs = length ids"
    and c2: "initialize_resources (zip rs ids)
        (c\<lparr>factories := fs, modules := ms, resources := rs, isFactory := \<lambda>a. isFactory c a \<or> a \<in> set fs,
           isModule := \<lambda>a. isModule c a \<or> a \<in> set ms\<rparr>) = Inr c2"
    and c': "c' = c2\<lparr>isInitialized := True\<rparr>"
    by (auto simp: controller_ops initialize_factories_Inr initialize_modules_Inr)
  have e: "sets c = []" "\<And>a. \<not> isSet c a" "\<And>a. \<not> isFactory c a" "\<And>a. \<not> isModule c a" "\<And>a. \<not> isResource c a"
    using assms(2) i(2) by (auto simp: controller_wf_def registered_def)
  have id0: "identified (resourceId c) (isResource c)" using assms(2) by (simp add: controller_wf_def)
  note fr = initialize_resources_frame [OF c2]
  have R: "identified (resourceId c2) (isResource c2)" "\<forall>a. isResource c2 a \<longleftrightarrow> a \<in> set rs"
      "\<forall>(r, j) \<in> set (zip rs ids). resourceId c2 j = r"
    using initialize_resources_Inr [OF c2] id0 assms(5) i(3) e(5)
    by (simp_all add: map_fst_zip image_set [symmetric] del: set_map flip: set_map)
  have "\<forall>k < length rs. resourceId c2 (ids ! k) = rs ! k"
    using R(3) i(3) by (auto simp: set_zip)
  with fr R(1,2) e i assms(3-5) show ?thesis
    by (simp add: c' controller_wf_def registered_def)
qed

lemma call_owner: "call_controller s call c = Inr c' \<Longrightarrow> owner c' = owner c"
  by (cases call) (auto simp: controller_ops initialize_factories_Inr initialize_modules_Inr
    dest!: initialize_resources_frame)

text \<open>\<open>initialize\<close> does not look for duplicates in its lists; whether they have any is up to the deployer.\<close>

definition distinct_arguments :: "controller_call \<Rightarrow> bool" where
  "distinct_arguments call = (case call of
     Initialize fs ms rs ids \<Rightarrow> distinct fs \<and> distinct ms \<and> distinct rs | _ \<Rightarrow> True)"

text \<open>Every operation keeps the invariant.\<close>

lemma call_controller_wf:
  assumes "call_controller s call c = Inr c'" and "controller_wf c" and "distinct_arguments call"
  shows "controller_wf c'"
proof (cases call)
  case (Initialize fs ms rs ids)
  with assms initialize_Inr show ?thesis by (simp add: distinct_arguments_def)
qed (use assms in \<open>auto simp: controller_ops controller_wf_def
      intro: registered_add registered_remove identified_add identified_remove\<close>)

text \<open>What a Controller can become: deployed by anyone, called by anyone with any arguments, handed to a new owner. The calls
  that were accepted are kept, the latest first.\<close>

inductive controller_history :: "controller_call list \<Rightarrow> controller \<Rightarrow> bool" where
  deployed: "controller_history [] (construct_controller s r)"
| called: "controller_history calls c \<Longrightarrow> call_controller s call c = Inr c' \<Longrightarrow> controller_history (call # calls) c'"
| owned: "controller_history calls c \<Longrightarrow> controller_history calls (c\<lparr>owner := new\<rparr>)"

lemma history_wf: "controller_history calls c \<Longrightarrow> list_all distinct_arguments calls \<Longrightarrow> controller_wf c"
proof (induction rule: controller_history.induct)
  case (deployed s r)
  show ?case by (simp add: construct_controller_def controller_wf_def registered_def identified_def)
next
  case (called calls c s call c')
  then show ?case using call_controller_wf by simp
next
  case (owned calls c new)
  then show ?case by (simp add: controller_wf_def)
qed

text \<open>One call initializes, at most once in a history.\<close>

lemma call_initializes:
  assumes "call_controller s call c = Inr c'"
  shows "isInitialized c'" and "isInitialized c \<longleftrightarrow> (\<nexists>fs ms rs ids. call = Initialize fs ms rs ids)"
  using assms by (cases call; auto simp: controller_ops)+

lemma history_initialized: "controller_history calls c \<Longrightarrow> isInitialized c \<longleftrightarrow> calls \<noteq> []"
  by (induction rule: controller_history.induct) (simp_all add: construct_controller_def call_initializes)

lemma history_initialize_first:
  assumes "controller_history calls c" and "calls = later @ Initialize fs ms rs ids # before"
  shows "before = [] \<and> (\<forall>call \<in> set later. distinct_arguments call)"
  using assms
proof (induction arbitrary: later rule: controller_history.induct)
  case (called calls c s call c')
  note flag = call_initializes [OF called.hyps(2)] history_initialized [OF called.hyps(1)]
  show ?case
  proof (cases later)
    case Nil
    then show ?thesis using called.prems flag by auto
  next
    case (Cons x xs)
    then have "calls = xs @ Initialize fs ms rs ids # before" "x = call" using called.prems by simp_all
    then show ?thesis using called.IH [of xs] flag Cons by (cases call) (auto simp: distinct_arguments_def)
  qed
qed auto

subsection \<open>Properties\<close>

text \<open>C11: however a Controller came to its state, by any accepted calls of anyone, as long as \<open>initialize\<close> was not given a
  list with duplicates (which it does not check; \<open>initialize_accepts_duplicates\<close> below is what happens otherwise), each list
  has no duplicates and holds exactly the addresses its mapping marks, resources are exactly what the ids refer to and no
  resource has two ids, nothing is registered before the initialization, and \<open>isSystemContract\<close> is membership in one of the
  lists or being the Controller.\<close>

theorem controller_invariant:
  assumes "controller_history calls c"
    and "\<forall>fs ms rs ids. Initialize fs ms rs ids \<in> set calls \<longrightarrow> distinct fs \<and> distinct ms \<and> distinct rs"
  shows "distinct (sets c) \<and> distinct (factories c) \<and> distinct (modules c) \<and> distinct (resources c) \<and>
    (\<forall>a. (isSet c a \<longleftrightarrow> a \<in> set (sets c)) \<and> (isFactory c a \<longleftrightarrow> a \<in> set (factories c)) \<and>
       (isModule c a \<longleftrightarrow> a \<in> set (modules c)) \<and> (isResource c a \<longleftrightarrow> a \<in> set (resources c))) \<and>
    (\<forall>r. r \<noteq> 0 \<longrightarrow> (isResource c r \<longleftrightarrow> (\<exists>!i. resourceId c i = r))) \<and>
    (\<not> isInitialized c \<longrightarrow> sets c = [] \<and> factories c = [] \<and> modules c = [] \<and> resources c = []) \<and>
    (\<forall>this a. isSystemContract this a c \<longleftrightarrow>
       a \<in> {this} \<union> set (sets c) \<union> set (factories c) \<union> set (modules c) \<union> set (resources c))"
proof -
  have "list_all distinct_arguments calls"
    using assms(2) by (fastforce simp: list_all_iff distinct_arguments_def split: controller_call.split)
  from history_wf [OF assms(1) this] show ?thesis
    by (auto simp: controller_wf_def registered_def identified_def isSystemContract_def)
qed

definition controller_example :: controller where
  "controller_example = construct_controller 9 8"

lemma controller_example_history:
  "initialize 9 [1] [2, 3] [4, 5] [0, 1] controller_example = Inr c \<Longrightarrow>
    controller_history [Initialize [1] [2, 3] [4, 5] [0, 1]] c"
  using controller_history.called [of "[]" controller_example 9 "Initialize [1] [2, 3] [4, 5] [0, 1]" c]
  by (simp add: controller_example_def controller_history.deployed)

theorem controller_invariant_witness:
  "\<exists>c. initialize 9 [1] [2, 3] [4, 5] [0, 1] controller_example = Inr c \<and>
     isModule c 3 \<and> 3 \<in> set (modules c) \<and> \<not> isModule c 4"
proof -
  obtain c where c: "initialize 9 [1] [2, 3] [4, 5] [0, 1] controller_example = Inr c" "modules c = [2, 3]"
    by (simp add: controller_ops controller_example_def construct_controller_def del: and_then_eq_Inr)
  show ?thesis
    using controller_invariant [OF controller_example_history [OF c(1)]] c by auto
qed

text \<open>C12: only the owner changes the Controller, except that a registered factory adds SetTokens:
  any other call reverts. Before the initialization only \<open>initialize\<close> is possible, after it
  everything else is.\<close>

theorem controller_calls_authorized:
  assumes "call_controller s call c = Inr c'"
  shows "(s = owner c \<or> (\<exists>a. call = AddSet a \<and> isFactory c s)) \<and>
    (isInitialized c \<longleftrightarrow> (\<nexists>fs ms rs ids. call = Initialize fs ms rs ids)) \<and> isInitialized c' \<and>
    owner c' = owner c"
  using assms call_owner [OF assms]
  by (cases call) (auto simp: controller_ops)

theorem controller_calls_authorized_witness:
  "\<exists>c'. call_controller 9 (Initialize [1] [2, 3] [4, 5] [0, 1]) controller_example = Inr c' \<and>
     isInitialized c' \<and> owner c' = 9"
proof -
  obtain c where "call_controller 9 (Initialize [1] [2, 3] [4, 5] [0, 1]) controller_example = Inr c"
    by (simp add: controller_ops controller_example_def construct_controller_def del: and_then_eq_Inr)
  with controller_calls_authorized [OF this] show ?thesis
    by (simp add: controller_example_def construct_controller_def)
qed

text \<open>In an initialized state that came about in this way the owner's removals and additions never fail inside
  the list code: what is registered can be removed, what is not can be added, and a removal
  undoes an addition up to the log.\<close>

lemma controller_add_remove:
  assumes "controller_history calls c" and "list_all distinct_arguments calls" and "isInitialized c"
  shows "(isModule c m \<longrightarrow> (\<exists>c'. removeModule (owner c) m c = Inr c' \<and> \<not> isModule c' m \<and>
        modules c' = remove1 m (modules c))) \<and>
    (\<not> isModule c m \<longrightarrow> (\<exists>c' c''. addModule (owner c) m c = Inr c' \<and> removeModule (owner c) m c' = Inr c'' \<and>
        c'' = c\<lparr>logs := logs c @ [ModuleAdded m, ModuleRemoved m]\<rparr>)) \<and>
    (isSet c t \<longrightarrow> (\<exists>c'. removeSet (owner c) t c = Inr c' \<and> \<not> isSet c' t)) \<and>
    (isFactory c f \<longrightarrow> (\<exists>c'. removeFactory (owner c) f c = Inr c' \<and> \<not> isFactory c' f)) \<and>
    (resourceId c i \<noteq> 0 \<longrightarrow> (\<exists>c'. removeResource (owner c) i c = Inr c' \<and>
        \<not> isResource c' (resourceId c i) \<and> resourceId c' i = 0))"
proof -
  note wf = history_wf [OF assms(1,2), unfolded controller_wf_def]
  have len: "length (modules c) < 2 ^ 256" "length (modules c @ [m]) < 2 ^ 256 \<or> isModule c m"
    using registered_length [of "modules c" "isModule c"] wf
      registered_length [OF registered_add [of "modules c" "isModule c" m]] by auto
  have res: "isResource c (resourceId c i)" if "resourceId c i \<noteq> 0"
    using wf that by (auto simp: identified_def)
  have undo: "(isModule c)(m := True, m := False) = isModule c" if "\<not> isModule c m"
    using that by (auto simp: fun_eq_iff)
  show ?thesis
    using registered_removable [of "sets c" "isSet c" t] registered_removable [of "factories c" "isFactory c" f]
      registered_removable [of "resources c" "isResource c" "resourceId c i"] res wf len assms(3) undo
    by (auto simp: controller_ops remove_eq registered_def remove1_append)
qed

text \<open>\<open>initialize\<close> does not check its lists for duplicates. After it has registered a factory
  twice, removing that factory leaves it in the list although its mapping is cleared, and it
  cannot be removed again.\<close>

lemma initialize_accepts_duplicates:
  "\<exists>c c'. initialize 9 [1, 1] [] [] [] controller_example = Inr c \<and> removeFactory 9 1 c = Inr c' \<and>
     \<not> isFactory c' 1 \<and> factories c' = [1] \<and>
     removeFactory 9 1 c' = Inl (Revert ''Factory does not exist'')"
  by (simp add: controller_ops controller_example_def construct_controller_def remove_eq
      del: and_then_eq_Inr)

text \<open>Unlike \<open>initialize\<close>, \<open>addResource\<close> accepts the zero address. It becomes a registered
  resource that no \<open>removeResource\<close> can remove under that id, and its id still counts as free.\<close>

lemma zero_resource_is_stuck:
  assumes "addResource s 0 i c = Inr c'"
  shows "isResource c' 0 \<and> 0 \<in> set (resources c') \<and> resourceId c' i = 0 \<and>
    (\<forall>s'. \<exists>e. removeResource s' i c' = Inl e) \<and>
    (\<forall>r. r \<noteq> 0 \<and> \<not> isResource c r \<longrightarrow> (\<exists>c''. addResource s r i c' = Inr c''))"
proof -
  have c': "isInitialized c" "s = owner c"
      "c' = c\<lparr>isResource := (isResource c)(0 := True), resourceId := (resourceId c)(i := 0),
         resources := resources c @ [0], logs := logs c @ [ResourceAdded 0 i]\<rparr>"
    using assms by (auto simp: controller_ops)
  then show ?thesis by (auto simp: controller_ops require_def)
qed

end
