(* ===== verification/ProtocolUtils.thy ===== *)
theory ProtocolUtils
  imports Chain
begin

text \<open>
  \<^verbatim>\<open>utils/common/protocolUtils.ts\<close>, \<^verbatim>\<open>utils/common/adapterUtils.ts\<close> and
  \<^verbatim>\<open>utils/common/libraryUtils.ts\<close>: finding a created SetToken in the logs, the positions of a
  SetToken, the spellings of addresses and numbers as ABI words, and the placeholder that a
  library has in unlinked bytecode. The provider's log query, the decoding of a log and the hash
  function are arguments.
\<close>

subsection \<open>\<^verbatim>\<open>protocolUtils.ts\<close>\<close>

record 'b Position =
  pos_component :: string
  pos_module :: string
  pos_unit :: 'b
  pos_positionState :: int
  pos_data :: string

definition EMPTY_BYTES :: string where
  "EMPTY_BYTES = ''0x''"

text \<open>The logs asked for are those of the latest block with the topic of the event; \<open>parseLog\<close>
  gives the indexed SetToken of a log. An undefined or empty hash is refused, and
  \<^verbatim>\<open>logs[logs.length - 1]\<close> of no logs is undefined, which \<open>parseLog\<close> throws on.\<close>

definition getCreatedSetTokenAddress ::
  "(string \<Rightarrow> 'l list option) \<Rightarrow> ('l \<Rightarrow> string option) \<Rightarrow> string option \<Rightarrow> string option"
where
  "getCreatedSetTokenAddress latestLogs parseLog txnHash = do {
     _ \<leftarrow> (if txnHash = None \<or> txnHash = Some '''' then None else Some ());
     logs \<leftarrow> latestLogs ''SetTokenCreated(address,address,string,string)'';
     if logs = [] then None else parseLog (logs ! (length logs - 1))
   }"

definition getDefaultPosition :: "string \<Rightarrow> 'b \<Rightarrow> 'b Position" where
  "getDefaultPosition component unit = \<lparr>pos_component = component, pos_module = ADDRESS_ZERO,
     pos_unit = unit, pos_positionState = 0, pos_data = EMPTY_BYTES\<rparr>"

definition getExternalPosition :: "string \<Rightarrow> string \<Rightarrow> 'b \<Rightarrow> string \<Rightarrow> 'b Position" where
  "getExternalPosition component module unit data = \<lparr>pos_component = component, pos_module = module,
     pos_unit = unit, pos_positionState = 1, pos_data = data\<rparr>"

subsection \<open>\<^verbatim>\<open>adapterUtils.ts\<close>\<close>

text \<open>\<^verbatim>\<open>s.replace(pattern, replacement)\<close> with a string pattern: the first occurrence.\<close>

fun js_replace :: "string \<Rightarrow> string \<Rightarrow> string \<Rightarrow> string" where
  "js_replace pat rep [] = (if pat = [] then rep else [])"
| "js_replace pat rep (c # s) =
     (if take (length pat) (c # s) = pat then rep @ drop (length pat) (c # s)
      else c # js_replace pat rep s)"

definition padStart :: "nat \<Rightarrow> char \<Rightarrow> string \<Rightarrow> string" where
  "padStart n c s = replicate (n - length s) c @ s"

definition addressToData :: "string \<Rightarrow> string" where
  "addressToData a = js_replace ''0x'' ''000000000000000000000000'' a"

definition bigNumberToData :: "'b bn_api \<Rightarrow> 'b \<Rightarrow> string" where
  "bigNumberToData B number = padStart 64 (CHR ''0'') (js_replace ''0x'' '''' (bn_toHexString B number))"

definition hashAdapterName :: "(string \<Rightarrow> string) \<Rightarrow> string \<Rightarrow> string" where
  "hashAdapterName keccak256 name = keccak256 name"

subsection \<open>\<^verbatim>\<open>libraryUtils.ts\<close>\<close>

text \<open>\<^verbatim>\<open>path.sep\<close> is the argument \<open>sep\<close>; \<^verbatim>\<open>slice(2).slice(0, 34)\<close> takes 34 digits of the hash.\<close>

definition convertLibraryNameToLinkId :: "(string \<Rightarrow> string) \<Rightarrow> char \<Rightarrow> string \<Rightarrow> string option" where
  "convertLibraryNameToLinkId keccak256 sep libraryName =
     (if \<not> (sep \<in> set libraryName \<and> CHR '':'' \<in> set libraryName) then None
      else let hashedName = keccak256 libraryName
           in Some (''__$'' @ take 34 (drop 2 hashedName) @ ''$__''))"

subsection \<open>Evaluation\<close>

lemma js_replace_prefix: "js_replace (c # p) rep ((c # p) @ s) = rep @ s"
  by simp

lemma hex_nat_not_Nil: "hex_nat n \<noteq> []"
  by (simp add: hex_nat.simps [of n])

text \<open>A number spelled with as many digits as it needs, padded with zeros.\<close>

lemma pad_hex_nat:
  "n < 16 ^ w \<Longrightarrow> 0 < w \<Longrightarrow>
   length (hex_nat n) \<le> w \<and> replicate (w - length (hex_nat n)) (CHR ''0'') @ hex_nat n = hex_pad w n"
proof (induction n arbitrary: w rule: hex_nat.induct)
  case (1 n)
  then obtain v where w: "w = Suc v" by (cases w) auto
  show ?case
  proof (cases "n < 16")
    case True
    then show ?thesis using hex_pad_0 [of v] by (simp add: w hex_nat.simps [of n])
  next
    case False
    then have "n div 16 < 16 ^ v" "0 < v"
      using "1.prems"(1) by (auto simp: w less_mult_imp_div_less mult.commute intro!: gr0I)
    from "1.IH" [OF False this] False show ?thesis by (simp add: w hex_nat.simps [of n])
  qed
qed

lemma pad_hex_bytes: "n < 16 ^ 64 \<Longrightarrow> padStart 64 (CHR ''0'') (even_pad (hex_nat n)) = hex_pad 64 n"
proof -
  assume "n < 16 ^ 64"
  then have p: "length (hex_nat n) \<le> 64" "replicate (64 - length (hex_nat n)) (CHR ''0'') @ hex_nat n = hex_pad 64 n"
    using pad_hex_nat [of n 64] by simp_all
  show ?thesis
  proof (cases "even (length (hex_nat n))")
    case False
    then have "64 - length (hex_nat n) = Suc (63 - length (hex_nat n))"
      using p(1) by (cases "length (hex_nat n) = 64") auto
    with False p(2) show ?thesis
      by (simp add: padStart_def even_pad_def replicate_app_Cons_same)
  qed (use p(2) in \<open>simp add: padStart_def even_pad_def\<close>)
qed

subsection \<open>Properties\<close>

text \<open>The data strings are ABI words: an unsigned 256-bit number becomes its 64 hexadecimal digits, an
  address in lower case the 64 digits of its number, so distinct numbers and addresses have
  distinct data.\<close>

lemma data_is_abi_word:
  assumes "bignumber B" and "m < 2 ^ 256" and "a < 2 ^ 160"
  shows "bigNumberToData B (bn_from B (int m)) = hex_pad 64 m \<and>
    addressToData (address_lower a) = hex_pad 64 a \<and> hex_value (hex_pad 64 m) = m \<and>
    length (hex_pad 64 m) = 64"
proof -
  have m: "m < 16 ^ 64" using assms(2) by simp
  have "''000000000000000000000000'' = replicate 24 (CHR ''0'')" by code_simp
  then have "addressToData (address_lower a) = replicate 24 (CHR ''0'') @ hex_pad 40 a"
    by (simp only: addressToData_def address_lower_def js_replace_prefix)
  also have "\<dots> = hex_pad 64 a"
    using hex_pad_leading [of a 40 24] assms(3) by simp
  finally have "addressToData (address_lower a) = hex_pad 64 a" .
  with m show ?thesis
    using pad_hex_bytes [OF m] hex_value_hex_pad [OF m]
      js_replace_prefix [of "CHR ''0''" "''x''" "[]" "even_pad (hex_nat m)"]
    by (simp add: bigNumberToData_def bignumber.toHexString_from [OF assms(1)] hex_bytes_def)
qed

text \<open>The link id. It exists exactly for names with a separator and a colon, and with a hash
  of 32 bytes it is 40 characters long, the length of the address that replaces it.\<close>

lemma link_id_length:
  assumes "\<And>s. length (keccak256 s) = 66"
  shows "((\<exists>linkId. convertLibraryNameToLinkId keccak256 sep libraryName = Some linkId) \<longleftrightarrow>
      sep \<in> set libraryName \<and> CHR '':'' \<in> set libraryName) \<and>
    (\<forall>linkId. convertLibraryNameToLinkId keccak256 sep libraryName = Some linkId \<longrightarrow> length linkId = 40)"
  using assms by (auto simp: convertLibraryNameToLinkId_def Let_def)

end
