(* ===== verification/SystemFixture.thy ===== *)
theory SystemFixture
  imports DeployCore DeployModules DeployMocks DeployExternal Controller ProtocolUtils
begin

text \<open>
  \<^verbatim>\<open>utils/fixtures/systemFixture.ts\<close>: the deployment of the protocol. The fields of the class are
  the record \<open>system_fixture\<close>; its methods are functions of the owner, who signs for everything,
  and of the history, and return what they set.

  The theory connects the deployment with the contract it initializes: \<open>controller_at\<close> replays a
  history on the model of \<^verbatim>\<open>Controller.sol\<close>, and the properties say what state \<open>initialize\<close>
  leaves the Controller in.
\<close>

subsection \<open>The fixture\<close>

record 'b standard_components =
  weth :: contract
  usdc :: contract
  wbtc :: contract
  dai :: contract
  component1Price :: 'b
  component2Price :: 'b
  component3Price :: 'b
  component4Price :: 'b
  ETH_USD_Oracle :: contract
  USD_USD_Oracle :: contract
  BTC_USD_Oracle :: contract
  DAI_USD_Oracle :: contract

record 'b system_fixture =
  sf_feeRecipient :: string
  sf_controller :: contract
  sf_factory :: contract
  sf_priceOracle :: contract
  sf_integrationRegistry :: contract
  sf_setValuer :: contract
  sf_issuanceModule :: contract
  sf_streamingFeeModule :: contract
  sf_navIssuanceModule :: contract
  sf_components :: "'b standard_components"

text \<open>\<open>issuanceModule\<close> is the field that \<open>initialize\<close> has set before.\<close>

definition initializeStandardComponents ::
  "'b world \<Rightarrow> 'b bn_api \<Rightarrow> string \<Rightarrow> contract \<Rightarrow> 'b history \<Rightarrow>
   ('b standard_components \<times> 'b history) option"
where
  "initializeStandardComponents W B ownerAddress issuanceModule h = do {
     (weth, h) \<leftarrow> deployWETH W ownerAddress h;
     tenThousand \<leftarrow> ether B ''10000'';
     (usdc, h) \<leftarrow> deployTokenMock W B ownerAddress ownerAddress (Some (ABig tenThousand)) (Some (ANum 6)) None None h;
     (wbtc, h) \<leftarrow> deployTokenMock W B ownerAddress ownerAddress (Some (ABig tenThousand)) (Some (ANum 8)) None None h;
     million \<leftarrow> ether B ''1000000'';
     (dai, h) \<leftarrow> deployTokenMock W B ownerAddress ownerAddress (Some (ABig million)) (Some (ANum 18)) None None h;
     price1 \<leftarrow> ether B ''230'';
     price2 \<leftarrow> ether B ''1'';
     price3 \<leftarrow> ether B ''9000'';
     price4 \<leftarrow> ether B ''1'';
     (oracle1, h) \<leftarrow> deployOracleMock W ownerAddress (ABig price1) h;
     (oracle2, h) \<leftarrow> deployOracleMock W ownerAddress (ABig price2) h;
     (oracle3, h) \<leftarrow> deployOracleMock W ownerAddress (ABig price3) h;
     (oracle4, h) \<leftarrow> deployOracleMock W ownerAddress (ABig price4) h;
     fiveThousand \<leftarrow> ether B ''5000'';
     h \<leftarrow> send_value W weth ''deposit'' [] (Some fiveThousand) h;
     h \<leftarrow> send W weth ''approve'' [AStr (addr issuanceModule), ABig tenThousand] h;
     h \<leftarrow> send W usdc ''approve'' [AStr (addr issuanceModule), ABig tenThousand] h;
     h \<leftarrow> send W wbtc ''approve'' [AStr (addr issuanceModule), ABig tenThousand] h;
     h \<leftarrow> send W dai ''approve'' [AStr (addr issuanceModule), ABig tenThousand] h;
     Some (\<lparr>weth = weth, usdc = usdc, wbtc = wbtc, dai = dai,
        component1Price = price1, component2Price = price2,
        component3Price = price3, component4Price = price4,
        ETH_USD_Oracle = oracle1, USD_USD_Oracle = oracle2,
        BTC_USD_Oracle = oracle3, DAI_USD_Oracle = oracle4\<rparr>, h)
   }"

text \<open>\<^verbatim>\<open>[, , , this.feeRecipient] = await this._provider.listAccounts()\<close>; a deployment with an
  undefined address throws.\<close>

definition fourth_account :: "'b world \<Rightarrow> string option" where
  "fourth_account W = (case accounts W of _ # _ # _ # recipient # _ \<Rightarrow> Some recipient | _ \<Rightarrow> None)"

definition initialize_system ::
  "'b world \<Rightarrow> 'b bn_api \<Rightarrow> string \<Rightarrow> 'b history \<Rightarrow> ('b system_fixture \<times> 'b history) option"
where
  "initialize_system W B ownerAddress h = do {
     recipient \<leftarrow> fourth_account W;
     (controller, h) \<leftarrow> deployController W ownerAddress recipient h;
     (issuanceModule, h) \<leftarrow> deployBasicIssuanceModule W ownerAddress (addr controller) h;
     (sc, h) \<leftarrow> initializeStandardComponents W B ownerAddress issuanceModule h;
     (_, h) \<leftarrow> deployIntegrationRegistry W ownerAddress (addr controller) h;
     (factory, h) \<leftarrow> deploySetTokenCreator W ownerAddress (addr controller) h;
     (priceOracle, h) \<leftarrow> deployPriceOracle W ownerAddress (addr controller) (addr (usdc sc)) []
        [addr (weth sc), addr (usdc sc), addr (wbtc sc), addr (dai sc)]
        [addr (usdc sc), addr (usdc sc), addr (usdc sc), addr (usdc sc)]
        [addr (ETH_USD_Oracle sc), addr (USD_USD_Oracle sc), addr (BTC_USD_Oracle sc),
         addr (DAI_USD_Oracle sc)] h;
     (integrationRegistry, h) \<leftarrow> deployIntegrationRegistry W ownerAddress (addr controller) h;
     (setValuer, h) \<leftarrow> deploySetValuer W ownerAddress (addr controller) h;
     (streamingFeeModule, h) \<leftarrow> deployStreamingFeeModule W ownerAddress (addr controller) h;
     (navIssuanceModule, h) \<leftarrow>
        deployCustomOracleNavIssuanceModule W ownerAddress (addr controller) (addr (weth sc)) h;
     h \<leftarrow> send W controller ''initialize''
        [AList [AStr (addr factory)],
         AList [AStr (addr issuanceModule), AStr (addr streamingFeeModule), AStr (addr navIssuanceModule)],
         AList [AStr (addr integrationRegistry), AStr (addr priceOracle), AStr (addr setValuer)],
         AList [ANum 0, ANum 1, ANum 2]] h;
     Some (\<lparr>sf_feeRecipient = recipient, sf_controller = controller, sf_factory = factory,
        sf_priceOracle = priceOracle, sf_integrationRegistry = integrationRegistry,
        sf_setValuer = setValuer, sf_issuanceModule = issuanceModule,
        sf_streamingFeeModule = streamingFeeModule, sf_navIssuanceModule = navIssuanceModule,
        sf_components = sc\<rparr>, h)
   }"

text \<open>The transaction's hash, the provider's logs and their decoding are arguments.\<close>

definition createSetToken ::
  "'b world \<Rightarrow> ('b history \<Rightarrow> string) \<Rightarrow> ('b history \<Rightarrow> string \<Rightarrow> 'l list option) \<Rightarrow> ('l \<Rightarrow> string option) \<Rightarrow>
   'b system_fixture \<Rightarrow> string \<Rightarrow> string list \<Rightarrow> 'b list \<Rightarrow> string list \<Rightarrow> string option \<Rightarrow> string option \<Rightarrow>
   string option \<Rightarrow> 'b deployment"
where
  "createSetToken W txnHash getLogs parseLog fx ownerAddress components units moduleAddresses manager
       name symbol h = do {
     let manager = or_default manager ownerAddress;
     let name = or_default name ''SetToken'';
     let symbol = or_default symbol ''SET'';
     h \<leftarrow> send W (sf_factory fx) ''create''
        [AList (map AStr components), AList (map ABig units), AList (map AStr moduleAddresses),
         AStr manager, AStr name, AStr symbol] h;
     retrieved \<leftarrow> getCreatedSetTokenAddress (getLogs h) parseLog (Some (txnHash h));
     Some (attach ownerAddress ''SetToken'' retrieved, h)
   }"

definition createNonControllerEnabledSetToken ::
  "'b world \<Rightarrow> 'b system_fixture \<Rightarrow> string \<Rightarrow> string list \<Rightarrow> 'b list \<Rightarrow> string list \<Rightarrow> string option \<Rightarrow>
   string option \<Rightarrow> string option \<Rightarrow> 'b deployment"
where
  "createNonControllerEnabledSetToken W fx ownerAddress components units moduleAddresses manager
       name symbol h = do {
     let manager = or_default manager ownerAddress;
     let name = or_default name ''SetToken'';
     let symbol = or_default symbol ''SET'';
     deploySetToken W ownerAddress components (map ABig units) moduleAddresses
       (addr (sf_controller fx)) manager name symbol h
   }"

text \<open>\<open>getPositions\<close> answers with the positions as objects; the loop approves each component.\<close>

fun approve_components ::
  "'b world \<Rightarrow> 'b bn_api \<Rightarrow> string \<Rightarrow> string \<Rightarrow> 'b arg list \<Rightarrow> 'b history \<Rightarrow> 'b history option"
where
  "approve_components W B ownerAddress spender [] h = Some h"
| "approve_components W B ownerAddress spender (position # positions) h = do {
     component \<leftarrow> Option.bind (field ''component'' position) as_str;
     h \<leftarrow> send W (getTokenMock ownerAddress component) ''approve'' [AStr spender, ABig (MAX_UINT_256 B)] h;
     approve_components W B ownerAddress spender positions h
   }"

definition approveAndIssueSetToken ::
  "'b world \<Rightarrow> 'b bn_api \<Rightarrow> 'b system_fixture \<Rightarrow> string \<Rightarrow> contract \<Rightarrow> 'b \<Rightarrow> string option \<Rightarrow>
   'b history \<Rightarrow> 'b history option"
where
  "approveAndIssueSetToken W B fx ownerAddress setToken issueQuantity recipient h = do {
     let recipient = or_default recipient ownerAddress;
     positions \<leftarrow> Option.bind (view W setToken ''getPositions'' [] h) as_list;
     h \<leftarrow> approve_components W B ownerAddress (addr (sf_issuanceModule fx)) positions h;
     send W (sf_issuanceModule fx) ''issue'' [AStr (addr setToken), ABig issueQuantity, AStr recipient] h
   }"

subsection \<open>Replaying a history on the Controller\<close>

text \<open>The calls a history makes to a Controller, decoded as the ABI does: an address from its
  spelling, an id from a JavaScript number.\<close>

fun decode_address :: "'b arg \<Rightarrow> address option" where
  "decode_address (AStr s) = Some (parse_address s)"
| "decode_address _ = None"

fun decode_id :: "'b arg \<Rightarrow> uint256 option" where
  "decode_id (ANum n) = (if 0 \<le> n then Some (word_of_int n) else None)"
| "decode_id _ = None"

definition decode_list :: "('b arg \<Rightarrow> 'c option) \<Rightarrow> 'b arg \<Rightarrow> 'c list option" where
  "decode_list d x = Option.bind (as_list x) (\<lambda>xs. those (map d xs))"

definition decode_controller_call :: "string \<Rightarrow> 'b arg list \<Rightarrow> controller_call option" where
  "decode_controller_call method xs =
     (if method = ''initialize'' then (case xs of
        [fs, ms, rs, ids] \<Rightarrow> do {
          fs \<leftarrow> decode_list decode_address fs;
          ms \<leftarrow> decode_list decode_address ms;
          rs \<leftarrow> decode_list decode_address rs;
          ids \<leftarrow> decode_list decode_id ids;
          Some (Initialize fs ms rs ids)
        } | _ \<Rightarrow> None)
      else if method = ''addModule'' then (case xs of
        [m] \<Rightarrow> map_option AddModule (decode_address m) | _ \<Rightarrow> None)
      else None)"

text \<open>The Controller at an address after a history: \<open>None\<close> when the history has not deployed one
  there or calls it with something else than the two functions above, a revert when a call reverts.\<close>

fun controller_at :: "address \<Rightarrow> 'b history \<Rightarrow> (revert + controller) option" where
  "controller_at a [] = None"
| "controller_at a (Deployed s n l xs a' # h) =
     (if a' = a then (case xs of
        [AStr r] \<Rightarrow> if n = ''Controller''
          then Some (Inr (construct_controller (parse_address s) (parse_address r))) else None
      | _ \<Rightarrow> None)
      else controller_at a h)"
| "controller_at a (Sent s c m xs v # h) =
     (if parse_address c = a then do {
        st \<leftarrow> controller_at a h;
        call \<leftarrow> decode_controller_call m xs;
        Some (and_then st (call_controller (parse_address s) call))
      } else controller_at a h)"
| "controller_at a (Rpc m xs # h) = controller_at a h"

lemma controller_at_skip: "event_address e \<inter> {a} = {} \<Longrightarrow> controller_at a (e # h) = controller_at a h"
  by (cases e) auto

text \<open>Events about other contracts do not change it.\<close>

lemma controller_at_confined:
  assumes "confined h h'" and "a \<in> set (addresses h)"
  shows "controller_at a h' = controller_at a h"
proof -
  have "controller_at a (es @ h) = controller_at a h" if "\<forall>e \<in> set es. event_address e \<inter> set (addresses h) = {}" for es
    using that
  proof (induction es)
    case (Cons e es)
    then have "event_address e \<inter> {a} = {}" using assms(2) by auto
    with Cons show ?case by (simp add: controller_at_skip)
  qed simp
  then show ?thesis using assms(1) by (auto simp: confined_def)
qed

subsection \<open>The parts of the deployment\<close>

text \<open>What \<open>initialize\<close> passes to the Controller.\<close>

definition controller_arguments :: "'b system_fixture \<Rightarrow> 'b arg list" where
  "controller_arguments fx =
     [AList [AStr (addr (sf_factory fx))],
      AList [AStr (addr (sf_issuanceModule fx)), AStr (addr (sf_streamingFeeModule fx)),
        AStr (addr (sf_navIssuanceModule fx))],
      AList [AStr (addr (sf_integrationRegistry fx)), AStr (addr (sf_priceOracle fx)),
        AStr (addr (sf_setValuer fx))],
      AList [ANum 0, ANum 1, ANum 2]]"

context chain
begin

text \<open>The standard components leave earlier contracts alone.\<close>

lemma standard_components_confined:
  assumes "initializeStandardComponents W B ownerAddress issuanceModule h = Some (sc, h')"
  shows "confined h h'"
proof -
  from assms obtain wethC h1 usdcC h2 wbtcC h3 daiC h4 o1 h5 o2 h6 o3 h7 o4 h8 h9 h10 h11 h12
      x1 x2 x3 x4 x5 x6 x7 b1 b2 b3 v xs where
    d: "deploy W ownerAddress ''WETH9'' [] [] h = Some (wethC, h1)"
      "deploy W ownerAddress ''StandardTokenMock'' [] x1 h1 = Some (usdcC, h2)"
      "deploy W ownerAddress ''StandardTokenMock'' [] x2 h2 = Some (wbtcC, h3)"
      "deploy W ownerAddress ''StandardTokenMock'' [] x3 h3 = Some (daiC, h4)"
      "deploy W ownerAddress ''OracleMock'' [] x4 h4 = Some (o1, h5)"
      "deploy W ownerAddress ''OracleMock'' [] x5 h5 = Some (o2, h6)"
      "deploy W ownerAddress ''OracleMock'' [] x6 h6 = Some (o3, h7)"
      "deploy W ownerAddress ''OracleMock'' [] x7 h7 = Some (o4, h8)"
    and s: "send_value W wethC ''deposit'' [] v h8 = Some h9" "send W wethC ''approve'' xs h9 = Some h10"
      "send W usdcC ''approve'' xs h10 = Some h11" "send W wbtcC ''approve'' xs h11 = Some h12"
      "send W daiC ''approve'' xs h12 = Some h'"
    unfolding initializeStandardComponents_def deployWETH_def deployOracleMock_def
    by (fastforce dest!: deployTokenMock_deploy)
  note c1 = confined_deploy [OF confined_refl d(1)]
  note c2 = confined_deploy [OF c1(1) d(2)]
  note c3 = confined_deploy [OF c2(1) d(3)]
  note c4 = confined_deploy [OF c3(1) d(4)]
  note c5 = confined_deploy(1) [OF confined_deploy(1) [OF confined_deploy(1) [OF confined_deploy(1) [OF c4(1) d(5)] d(6)] d(7)] d(8)]
  show ?thesis
    by (rule confined_send [OF confined_send [OF confined_send [OF confined_send
          [OF confined_send_value [OF c5 s(1) c1(2)] s(2) c1(2)] s(3) c2(2)] s(4) c3(2)] s(5) c4(2)])
qed

text \<open>The deployments and the one transaction of \<open>initialize\<close> itself.\<close>

lemma initialize_system_steps:
  assumes "initialize_system W B ownerAddress h = Some (fx, h')"
  obtains h1 h2 h3 h4 h5 h6 h7 h8 h9 h10 reg0 xs ys where
    "deploy W ownerAddress ''Controller'' [] [AStr (sf_feeRecipient fx)] h = Some (sf_controller fx, h1)"
    "deploy W ownerAddress ''BasicIssuanceModule'' [] [AStr (addr (sf_controller fx))] h1 = Some (sf_issuanceModule fx, h2)"
    "initializeStandardComponents W B ownerAddress (sf_issuanceModule fx) h2 = Some (sf_components fx, h3)"
    "deploy W ownerAddress ''IntegrationRegistry'' [] [AStr (addr (sf_controller fx))] h3 = Some (reg0, h4)"
    "deploy W ownerAddress ''SetTokenCreator'' [] [AStr (addr (sf_controller fx))] h4 = Some (sf_factory fx, h5)"
    "deploy W ownerAddress ''PriceOracle'' [] xs h5 = Some (sf_priceOracle fx, h6)"
    "deploy W ownerAddress ''IntegrationRegistry'' [] [AStr (addr (sf_controller fx))] h6 = Some (sf_integrationRegistry fx, h7)"
    "deploy W ownerAddress ''SetValuer'' [] [AStr (addr (sf_controller fx))] h7 = Some (sf_setValuer fx, h8)"
    "deploy W ownerAddress ''StreamingFeeModule'' [] [AStr (addr (sf_controller fx))] h8 = Some (sf_streamingFeeModule fx, h9)"
    "deploy W ownerAddress ''CustomOracleNavIssuanceModule'' [] ys h9 = Some (sf_navIssuanceModule fx, h10)"
    "send W (sf_controller fx) ''initialize'' (controller_arguments fx) h10 = Some h'"
  using assms unfolding initialize_system_def core_defs modules_defs
  by (auto simp: controller_arguments_def intro: that)

text \<open>The addresses of the system contracts: new, pairwise distinct and not zero.\<close>

lemma initialize_system_addresses:
  assumes "initialize_system W B ownerAddress h = Some (fx, h')"
  shows "(let ad = (\<lambda>c. parse_address (addr c));
       cs = map ad [sf_controller fx, sf_issuanceModule fx, sf_factory fx, sf_priceOracle fx,
              sf_integrationRegistry fx, sf_setValuer fx, sf_streamingFeeModule fx, sf_navIssuanceModule fx]
     in distinct cs \<and> 0 \<notin> set cs \<and> set cs \<inter> set (addresses h) = {})"
  and "\<exists>h1 h10. controller_at (parse_address (addr (sf_controller fx))) h1 =
      Some (Inr (construct_controller (parse_address ownerAddress) (parse_address (sf_feeRecipient fx)))) \<and>
    confined h1 h10 \<and> parse_address (addr (sf_controller fx)) \<in> set (addresses h1) \<and>
    signer (sf_controller fx) = ownerAddress \<and>
    send W (sf_controller fx) ''initialize'' (controller_arguments fx) h10 = Some h'"
proof -
  from assms obtain h1 h2 h3 h4 h5 h6 h7 h8 h9 h10 reg0 xs ys where d:
    "deploy W ownerAddress ''Controller'' [] [AStr (sf_feeRecipient fx)] h = Some (sf_controller fx, h1)"
    "deploy W ownerAddress ''BasicIssuanceModule'' [] [AStr (addr (sf_controller fx))] h1 = Some (sf_issuanceModule fx, h2)"
    "initializeStandardComponents W B ownerAddress (sf_issuanceModule fx) h2 = Some (sf_components fx, h3)"
    "deploy W ownerAddress ''IntegrationRegistry'' [] [AStr (addr (sf_controller fx))] h3 = Some (reg0, h4)"
    "deploy W ownerAddress ''SetTokenCreator'' [] [AStr (addr (sf_controller fx))] h4 = Some (sf_factory fx, h5)"
    "deploy W ownerAddress ''PriceOracle'' [] xs h5 = Some (sf_priceOracle fx, h6)"
    "deploy W ownerAddress ''IntegrationRegistry'' [] [AStr (addr (sf_controller fx))] h6 = Some (sf_integrationRegistry fx, h7)"
    "deploy W ownerAddress ''SetValuer'' [] [AStr (addr (sf_controller fx))] h7 = Some (sf_setValuer fx, h8)"
    "deploy W ownerAddress ''StreamingFeeModule'' [] [AStr (addr (sf_controller fx))] h8 = Some (sf_streamingFeeModule fx, h9)"
    "deploy W ownerAddress ''CustomOracleNavIssuanceModule'' [] ys h9 = Some (sf_navIssuanceModule fx, h10)"
    "send W (sf_controller fx) ''initialize'' (controller_arguments fx) h10 = Some h'"
    by (rule initialize_system_steps)
  note steps = d(1,2,4-10) [THEN deploy_step]
  note sc = standard_components_confined [OF d(3)]
  have sub: "set (addresses h2) \<subseteq> set (addresses h3)" by (rule confined_subset [OF sc])
  show "(let ad = (\<lambda>c. parse_address (addr c));
       cs = map ad [sf_controller fx, sf_issuanceModule fx, sf_factory fx, sf_priceOracle fx,
              sf_integrationRegistry fx, sf_setValuer fx, sf_streamingFeeModule fx, sf_navIssuanceModule fx]
     in distinct cs \<and> 0 \<notin> set cs \<and> set cs \<inter> set (addresses h) = {})"
    using steps sub by (elim exE) (simp add: Let_def, blast)
  have "confined h1 h10"
    by (rule confined_deploy(1) [OF confined_deploy(1) [OF confined_deploy(1) [OF confined_deploy(1)
        [OF confined_deploy(1) [OF confined_deploy(1) [OF confined_deploy(1)
        [OF confined_trans [OF confined_deploy(1) [OF confined_refl d(2)] sc] d(4)] d(5)] d(6)] d(7)] d(8)] d(9)] d(10)])
  with d(11) show "\<exists>h1 h10. controller_at (parse_address (addr (sf_controller fx))) h1 =
      Some (Inr (construct_controller (parse_address ownerAddress) (parse_address (sf_feeRecipient fx)))) \<and>
    confined h1 h10 \<and> parse_address (addr (sf_controller fx)) \<in> set (addresses h1) \<and>
    signer (sf_controller fx) = ownerAddress \<and>
    send W (sf_controller fx) ''initialize'' (controller_arguments fx) h10 = Some h'"
    using steps(1) by (intro exI [of _ h1] exI [of _ h10]) auto
qed

end

lemma controller_initialize_system:
  assumes "distinct [m1, m2, m3]" and "distinct [r0, r1, r2]" and "0 \<notin> {f, m1, m2, m3, r0, r1, r2}"
  shows "\<exists>c. call_controller s (Initialize [f] [m1, m2, m3] [r0, r1, r2] [0, 1, 2]) (construct_controller s r) = Inr c \<and>
    isInitialized c \<and> owner c = s \<and> feeRecipient c = r \<and> sets c = [] \<and> factories c = [f] \<and>
    modules c = [m1, m2, m3] \<and> resources c = [r0, r1, r2] \<and>
    resourceId c 0 = r0 \<and> resourceId c 1 = r1 \<and> resourceId c 2 = r2 \<and>
    controller_history [Initialize [f] [m1, m2, m3] [r0, r1, r2] [0, 1, 2]] c"
proof -
  obtain c where c: "call_controller s (Initialize [f] [m1, m2, m3] [r0, r1, r2] [0, 1, 2]) (construct_controller s r) = Inr c"
      "isInitialized c" "owner c = s" "feeRecipient c = r" "sets c = []" "factories c = [f]"
      "modules c = [m1, m2, m3]" "resources c = [r0, r1, r2]"
      "resourceId c 0 = r0" "resourceId c 1 = r1" "resourceId c 2 = r2"
    using assms by (simp add: controller_ops construct_controller_def del: and_then_eq_Inr)
  moreover have "controller_history [Initialize [f] [m1, m2, m3] [r0, r1, r2] [0, 1, 2]] c"
    by (rule controller_history.called [OF controller_history.deployed c(1)])
  ultimately show ?thesis by blast
qed

text \<open>How the Controller decodes them.\<close>

lemma decode_controller_arguments:
  "decode_controller_call ''initialize'' (controller_arguments fx) =
    (let ad = (\<lambda>c. parse_address (addr c)) in
     Some (Initialize [ad (sf_factory fx)]
       [ad (sf_issuanceModule fx), ad (sf_streamingFeeModule fx), ad (sf_navIssuanceModule fx)]
       [ad (sf_integrationRegistry fx), ad (sf_priceOracle fx), ad (sf_setValuer fx)] [0, 1, 2]))"
  by (simp add: decode_controller_call_def controller_arguments_def decode_list_def)

subsection \<open>Properties\<close>

text \<open>C10: what \<open>SystemFixture.initialize\<close> deploys, if no call of it fails. Replayed on the model of
  \<^verbatim>\<open>Controller.sol\<close>, the Controller has accepted one call, \<open>initialize\<close> with the fixture's addresses, is owned by the fixture's
  owner, with exactly the fixture's factory, its three modules in order and the registry, the
  price oracle and the valuer under the ids 0, 1 and 2; no SetToken is registered; and the eight
  contracts have different addresses that no earlier contract has.\<close>

theorem system_fixture_controller:
  assumes "chain W" and "initialize_system W B ownerAddress h = Some (fx, h')"
  shows "(let ad = (\<lambda>c. parse_address (addr c)) in
    \<exists>c. controller_at (ad (sf_controller fx)) h' = Some (Inr c) \<and>
      controller_history [Initialize [ad (sf_factory fx)]
        [ad (sf_issuanceModule fx), ad (sf_streamingFeeModule fx), ad (sf_navIssuanceModule fx)]
        [ad (sf_integrationRegistry fx), ad (sf_priceOracle fx), ad (sf_setValuer fx)] [0, 1, 2]] c \<and>
      isInitialized c \<and> owner c = parse_address ownerAddress \<and>
      feeRecipient c = parse_address (sf_feeRecipient fx) \<and> sets c = [] \<and>
      factories c = [ad (sf_factory fx)] \<and>
      modules c = [ad (sf_issuanceModule fx), ad (sf_streamingFeeModule fx), ad (sf_navIssuanceModule fx)] \<and>
      resources c = [ad (sf_integrationRegistry fx), ad (sf_priceOracle fx), ad (sf_setValuer fx)] \<and>
      resourceId c 0 = ad (sf_integrationRegistry fx) \<and> resourceId c 1 = ad (sf_priceOracle fx) \<and>
      resourceId c 2 = ad (sf_setValuer fx) \<and>
      distinct (map ad [sf_controller fx, sf_issuanceModule fx, sf_factory fx, sf_priceOracle fx,
        sf_integrationRegistry fx, sf_setValuer fx, sf_streamingFeeModule fx, sf_navIssuanceModule fx]))"
proof -
  define ad where "ad c = parse_address (addr c)" for c :: contract
  note fresh = chain.initialize_system_addresses(1) [OF assms, unfolded Let_def]
  obtain h1 h10 where h: "controller_at (ad (sf_controller fx)) h1 =
      Some (Inr (construct_controller (parse_address ownerAddress) (parse_address (sf_feeRecipient fx))))"
    "confined h1 h10" "ad (sf_controller fx) \<in> set (addresses h1)" "signer (sf_controller fx) = ownerAddress"
    "h' = Sent ownerAddress (addr (sf_controller fx)) ''initialize'' (controller_arguments fx) None # h10"
    using chain.initialize_system_addresses(2) [OF assms] unfolding ad_def send_Some by metis
  have at: "controller_at (ad (sf_controller fx)) h' =
      Some (call_controller (parse_address ownerAddress) (Initialize [ad (sf_factory fx)]
       [ad (sf_issuanceModule fx), ad (sf_streamingFeeModule fx), ad (sf_navIssuanceModule fx)]
       [ad (sf_integrationRegistry fx), ad (sf_priceOracle fx), ad (sf_setValuer fx)] [0, 1, 2])
      (construct_controller (parse_address ownerAddress) (parse_address (sf_feeRecipient fx))))"
    unfolding h(5) using controller_at_confined [OF h(2,3)] h(1)
    by (simp add: decode_controller_arguments ad_def)
  have "distinct [ad (sf_issuanceModule fx), ad (sf_streamingFeeModule fx), ad (sf_navIssuanceModule fx)]"
    "distinct [ad (sf_integrationRegistry fx), ad (sf_priceOracle fx), ad (sf_setValuer fx)]"
    "0 \<notin> {ad (sf_factory fx), ad (sf_issuanceModule fx), ad (sf_streamingFeeModule fx), ad (sf_navIssuanceModule fx),
       ad (sf_integrationRegistry fx), ad (sf_priceOracle fx), ad (sf_setValuer fx)}"
    using fresh unfolding ad_def by auto
  from controller_initialize_system [OF this] at fresh show ?thesis
    unfolding Let_def ad_def by auto
qed

text \<open>On the counting chain the deployment runs to its end.\<close>

lemma ether_literals:
  "ether int_bn ''10000'' = Some 10000000000000000000000"
  "ether int_bn ''1000000'' = Some 1000000000000000000000000"
  "ether int_bn ''230'' = Some 230000000000000000000"
  "ether int_bn ''1'' = Some 1000000000000000000"
  "ether int_bn ''9000'' = Some 9000000000000000000000"
  "ether int_bn ''5000'' = Some 5000000000000000000000"
  by code_simp+

lemma fourth_account_counting: "fourth_account counting_world = Some (address_lower 4)"
  by (simp add: fourth_account_def answering_def)

lemma standard_runs:
  assumes "room (Suc (Suc (Suc (Suc (Suc (Suc (Suc (Suc k)))))))) h"
  shows "runs k (initializeStandardComponents counting_world int_bn s im h)"
  unfolding initializeStandardComponents_def ether_literals deployWETH_def deployOracleMock_def
    deployTokenMock_given Option.bind.simps
  by (rule runs_deploy [OF assms])
    ((rule runs_deploy, assumption) | (rule runs_send, assumption) | (rule runs_Some, assumption))+

lemma system_runs: "runs 0 (initialize_system counting_world int_bn s [])"
proof -
  have r: "room (Suc (Suc (Suc (Suc (Suc (Suc (Suc (Suc (Suc (Suc (Suc (Suc (Suc (Suc (Suc (Suc (Suc 0)))))))))))))))))
      ([] :: int history)" by (rule room_Nil) simp
  show ?thesis
    unfolding initialize_system_def fourth_account_counting core_defs modules_defs Option.bind.simps
    by (rule runs_deploy [OF r])
      ((rule runs_deploy, assumption) | (rule runs_bind, rule standard_runs, assumption) |
       (rule runs_send, assumption) | (rule runs_Some, assumption))+
qed

theorem system_fixture_controller_witness:
  "\<exists>fx h' c. initialize_system counting_world int_bn (address_lower 5) [] = Some (fx, h') \<and>
     controller_at (parse_address (addr (sf_controller fx))) h' = Some (Inr c) \<and> isInitialized c \<and>
     resourceId c 0 = parse_address (addr (sf_integrationRegistry fx))"
proof -
  from runs_not_None [OF system_runs] obtain fx h' where
    "initialize_system counting_world int_bn (address_lower 5) [] = Some (fx, h')" by blast
  with system_fixture_controller [OF answering.chain_axioms this] show ?thesis
    unfolding Let_def by blast
qed

text \<open>\<open>approveAndIssueSetToken\<close> approves the issuance module for every component of the
  SetToken, for the maximal amount, in the order of the positions, and then issues to the
  recipient, by default the owner; nothing else is sent.\<close>

lemma approve_and_issue:
  assumes "answer W h (signer setToken) (addr setToken) ''getPositions'' [] =
      Some (AList (map (\<lambda>comp. AObj [(''component'', AStr comp)]) components))"
    and "approveAndIssueSetToken W B fx ownerAddress setToken qty recipient h = Some h'"
  shows "h' = Sent (signer (sf_issuanceModule fx)) (addr (sf_issuanceModule fx)) ''issue''
      [AStr (addr setToken), ABig qty, AStr (case recipient of Some r \<Rightarrow> r | None \<Rightarrow> ownerAddress)] None #
    rev (map (\<lambda>comp. Sent ownerAddress comp ''approve''
      [AStr (addr (sf_issuanceModule fx)), ABig (MAX_UINT_256 B)] None) components) @ h"
proof -
  have approve: "h2 = rev (map (\<lambda>comp. Sent ownerAddress comp ''approve''
        [AStr spender, ABig (MAX_UINT_256 B)] None) cs) @ h1"
    if "approve_components W B ownerAddress spender (map (\<lambda>comp. AObj [(''component'', AStr comp)]) cs) h1
        = Some h2" for cs spender h1 h2
    using that
  proof (induction cs arbitrary: h1)
    case (Cons a cs)
    then show ?case by (auto simp: send_Some getTokenMock_def attach_def)
  qed simp
  from assms show ?thesis
    by (auto simp: approveAndIssueSetToken_def view_def send_Some or_default_def dest!: approve)
qed

end
