(* ===== verification/Sandbox.thy ===== *)
theory Sandbox
  imports Chain
begin

text \<open>
  The sandbox of the test suites: the class \<^verbatim>\<open>Blockchain\<close> of \<^verbatim>\<open>utils/common/blockchainUtils.ts\<close>
  and the hooks and helpers of \<^verbatim>\<open>utils/test/testingUtils.ts\<close>.

  Everything here goes through \<^verbatim>\<open>provider.send(method, params)\<close>. The node behind it is not in the
  repository: it is the argument \<open>N\<close>, a function from a method, its parameters and the node's state to a
  response and the next state (\<open>None\<close>: the request is rejected). The locale \<open>evm_node\<close> states what the
  development nodes document of \<^verbatim>\<open>evm_snapshot\<close> and \<^verbatim>\<open>evm_revert\<close>: a snapshot saves the chain under a new
  id, larger than those still saved; reverting to an id restores the chain and deletes that snapshot
  and all taken after it. \<open>content\<close> is the chain as the tests see it, \<open>transact\<close> any sequence of
  transactions, which changes the chain and not the snapshots.

  Mocha runs the hooks: \<open>run_suite\<close> is its documented order (the \<^verbatim>\<open>beforeEach\<close> hooks of the
  enclosing suites, outermost first, before every test; the tests of a suite before its child
  suites; the \<^verbatim>\<open>after\<close> hooks at the end of the suite).
\<close>

subsection \<open>\<^verbatim>\<open>Blockchain\<close>\<close>

datatype 'i rpc_arg = RId 'i | RNum int | ROk

type_synonym ('s, 'i) node = "string \<Rightarrow> 'i rpc_arg list \<Rightarrow> 's \<Rightarrow> ('i rpc_arg \<times> 's) option"

text \<open>The field \<^verbatim>\<open>_snapshotId\<close>: the number 0 first, then the last response of the node.\<close>

record 'i blockchain =
  snapshotId :: "'i rpc_arg"

definition new_Blockchain :: "'i blockchain" where
  "new_Blockchain = \<lparr>snapshotId = RNum 0\<rparr>"

definition sendJSONRpcRequestAsync :: "('s, 'i) node \<Rightarrow> string \<Rightarrow> 'i rpc_arg list \<Rightarrow> 's \<Rightarrow> ('i rpc_arg \<times> 's) option" where
  "sendJSONRpcRequestAsync N method params s = N method params s"

definition saveSnapshotAsync :: "('s, 'i) node \<Rightarrow> 'i blockchain \<Rightarrow> 's \<Rightarrow> ('i rpc_arg \<times> 'i blockchain \<times> 's) option" where
  "saveSnapshotAsync N bc s = do {
     (response, s) \<leftarrow> sendJSONRpcRequestAsync N ''evm_snapshot'' [] s;
     Some (response, bc\<lparr>snapshotId := response\<rparr>, s)
   }"

definition revertAsync :: "('s, 'i) node \<Rightarrow> 'i blockchain \<Rightarrow> 's \<Rightarrow> 's option" where
  "revertAsync N bc s = map_option snd (sendJSONRpcRequestAsync N ''evm_revert'' [snapshotId bc] s)"

definition revertByIdAsync :: "('s, 'i) node \<Rightarrow> 'i rpc_arg \<Rightarrow> 's \<Rightarrow> 's option" where
  "revertByIdAsync N i s = map_option snd (sendJSONRpcRequestAsync N ''evm_revert'' [i] s)"

text \<open>\<open>first\<close> is the id \<^verbatim>\<open>"0x1"\<close>.\<close>

definition resetAsync :: "('s, 'i) node \<Rightarrow> 'i \<Rightarrow> 's \<Rightarrow> 's option" where
  "resetAsync N first s = map_option snd (sendJSONRpcRequestAsync N ''evm_revert'' [RId first] s)"

definition increaseTimeAsync_blockchain :: "('s, 'i) node \<Rightarrow> int \<Rightarrow> 's \<Rightarrow> 's option" where
  "increaseTimeAsync_blockchain N duration s =
     map_option snd (sendJSONRpcRequestAsync N ''evm_increaseTime'' [RNum duration] s)"

definition setNextBlockTimestamp :: "('s, 'i) node \<Rightarrow> int \<Rightarrow> 's \<Rightarrow> 's option" where
  "setNextBlockTimestamp N timestamp s =
     map_option snd (sendJSONRpcRequestAsync N ''evm_setNextBlockTimestamp'' [RNum timestamp] s)"

text \<open>The loop \<^verbatim>\<open>for (let i = 0; i < count; i++)\<close>.\<close>

function waitBlocks_loop :: "('s, 'i) node \<Rightarrow> int \<Rightarrow> int \<Rightarrow> 's \<Rightarrow> 's option" where
  "waitBlocks_loop N count i s =
     (if i < count
      then Option.bind (sendJSONRpcRequestAsync N ''evm_mine'' [] s) (\<lambda>(r, s). waitBlocks_loop N count (i + 1) s)
      else Some s)"
  by auto

termination
  by (relation "measure (\<lambda>(N, count, i, s). nat (count - i))") auto

declare waitBlocks_loop.simps [simp del]

definition waitBlocksAsync :: "('s, 'i) node \<Rightarrow> int \<Rightarrow> 's \<Rightarrow> 's option" where
  "waitBlocksAsync N count s = waitBlocks_loop N count 0 s"

subsection \<open>The helpers of \<^verbatim>\<open>testingUtils.ts\<close>\<close>

definition mineBlockAsync :: "('s, 'i) node \<Rightarrow> 's \<Rightarrow> 's option" where
  "mineBlockAsync N s = map_option snd (N ''evm_mine'' [] s)"

definition increaseTimeAsync_node :: "('s, 'i) node \<Rightarrow> 'b bn_api \<Rightarrow> 'b \<Rightarrow> 's \<Rightarrow> 's option" where
  "increaseTimeAsync_node N B duration s = do {
     d \<leftarrow> bn_toNumber B duration;
     (r, s) \<leftarrow> N ''evm_increaseTime'' [RNum d] s;
     mineBlockAsync N s
   }"

text \<open>The same two requests in a script's history, and the timestamp of its last block.\<close>

definition increaseTimeAsync :: "'b world \<Rightarrow> 'b bn_api \<Rightarrow> 'b \<Rightarrow> 'b history \<Rightarrow> 'b history option" where
  "increaseTimeAsync W B duration h = do {
     d \<leftarrow> bn_toNumber B duration;
     h \<leftarrow> rpc W ''evm_increaseTime'' [ANum d] h;
     rpc W ''evm_mine'' [] h
   }"

definition latest_timestamp :: "'b world \<Rightarrow> 'b history \<Rightarrow> int option" where
  "latest_timestamp W h = do {
     block \<leftarrow> answer W h '''' ''provider'' ''getBlock'' [AStr ''latest''];
     t \<leftarrow> field ''timestamp'' block;
     as_num t
   }"

definition getLastBlockTimestamp :: "'b world \<Rightarrow> 'b bn_api \<Rightarrow> 'b history \<Rightarrow> 'b option" where
  "getLastBlockTimestamp W B h = Option.bind (latest_timestamp W h) (bn_from_number B)"

text \<open>\<open>totalSupply\<close> is the answer of \<^verbatim>\<open>setToken.totalSupply()\<close>.\<close>

definition convertNotionalToPosition :: "'b bn_api \<Rightarrow> 'b \<Rightarrow> 'b \<Rightarrow> 'b option" where
  "convertNotionalToPosition B notionalAmount totalSupply = do {
     e \<leftarrow> bn_pow B (bn_from B 10) (bn_from B 18);
     bn_div B (bn_mul B notionalAmount e) totalSupply
   }"

definition convertPositionToNotional :: "'b bn_api \<Rightarrow> 'b \<Rightarrow> 'b \<Rightarrow> 'b option" where
  "convertPositionToNotional B positionAmount totalSupply = do {
     e \<leftarrow> bn_pow B (bn_from B 10) (bn_from B 18);
     bn_div B (bn_mul B positionAmount totalSupply) e
   }"

subsection \<open>The hooks\<close>

text \<open>\<^verbatim>\<open>addSnapshotBeforeRestoreAfterEach\<close>: what runs around each test of its suite.\<close>

definition snapshot_around ::
  "('s, 'i) node \<Rightarrow> ('s \<Rightarrow> 's) \<Rightarrow> 'i blockchain \<times> 's \<Rightarrow> ('i blockchain \<times> 's) option"
where
  "snapshot_around N test = (\<lambda>(bc, s). do {
     (r, bc, s) \<leftarrow> saveSnapshotAsync N bc s;
     s \<leftarrow> revertAsync N bc (test s);
     Some (bc, s)
   })"

text \<open>\<^verbatim>\<open>cacheBeforeEach(initializer)\<close>: its state is the variable \<open>initialized\<close> and, shared by all of them,
  the stack \<^verbatim>\<open>SNAPSHOTS\<close> with the last pushed id first. The pop of an empty stack is \<^verbatim>\<open>undefined\<close>, which
  the node rejects.\<close>

definition cacheBeforeEach ::
  "('s, 'i) node \<Rightarrow> ('s \<Rightarrow> 's option) \<Rightarrow> bool \<Rightarrow> 'i rpc_arg list \<times> 's \<Rightarrow> (bool \<times> 'i rpc_arg list \<times> 's) option"
where
  "cacheBeforeEach N initializer initialized = (\<lambda>(SNAPSHOTS, s).
     if \<not> initialized then do {
       s \<leftarrow> initializer s;
       (i, bc, s) \<leftarrow> saveSnapshotAsync N new_Blockchain s;
       Some (True, i # SNAPSHOTS, s)
     } else (case SNAPSHOTS of [] \<Rightarrow> None | i # SNAPSHOTS \<Rightarrow> do {
       s \<leftarrow> revertByIdAsync N i s;
       (i, bc, s) \<leftarrow> saveSnapshotAsync N new_Blockchain s;
       Some (True, i # SNAPSHOTS, s)
     }))"

definition cache_after :: "bool \<Rightarrow> 'i rpc_arg list \<Rightarrow> 'i rpc_arg list" where
  "cache_after initialized SNAPSHOTS = (if initialized then tl SNAPSHOTS else SNAPSHOTS)"

text \<open>The hooks of a path, outermost first.\<close>

fun run_hooks ::
  "('s, 'i) node \<Rightarrow> (('s \<Rightarrow> 's option) \<times> bool) list \<Rightarrow> 'i rpc_arg list \<times> 's \<Rightarrow>
   ((('s \<Rightarrow> 's option) \<times> bool) list \<times> 'i rpc_arg list \<times> 's) option"
where
  "run_hooks N [] st = Some ([], st)"
| "run_hooks N ((f, b) # hooks) st = do {
     (b, st) \<leftarrow> cacheBeforeEach N f b st;
     (hooks, st) \<leftarrow> run_hooks N hooks st;
     Some ((f, b) # hooks, st)
   }"

text \<open>A suite: the initializers it registers, its tests, its child suites. A test is what it does to the
  node, passed or failed. \<open>see\<close> is what a test observes at its start; the result has the
  observations in order.\<close>

datatype 's suite = Suite "('s \<Rightarrow> 's option) list" "('s \<Rightarrow> 's) list" "'s suite list"

fun run_tests ::
  "('s, 'i) node \<Rightarrow> ('s \<Rightarrow> 'c) \<Rightarrow> ('s \<Rightarrow> 's) list \<Rightarrow>
   (('s \<Rightarrow> 's option) \<times> bool) list \<times> 'i rpc_arg list \<times> 's \<Rightarrow>
   ('c list \<times> (('s \<Rightarrow> 's option) \<times> bool) list \<times> 'i rpc_arg list \<times> 's) option"
where
  "run_tests N see [] st = Some ([], st)"
| "run_tests N see (test # tests) (hooks, st) = do {
     (hooks, SNAPSHOTS, s) \<leftarrow> run_hooks N hooks st;
     (os, st) \<leftarrow> run_tests N see tests (hooks, SNAPSHOTS, test s);
     Some (see s # os, st)
   }"

fun run_suite ::
  "('s, 'i) node \<Rightarrow> ('s \<Rightarrow> 'c) \<Rightarrow> 's suite \<Rightarrow>
   (('s \<Rightarrow> 's option) \<times> bool) list \<times> 'i rpc_arg list \<times> 's \<Rightarrow>
   ('c list \<times> (('s \<Rightarrow> 's option) \<times> bool) list \<times> 'i rpc_arg list \<times> 's) option"
and run_suites ::
  "('s, 'i) node \<Rightarrow> ('s \<Rightarrow> 'c) \<Rightarrow> 's suite list \<Rightarrow>
   (('s \<Rightarrow> 's option) \<times> bool) list \<times> 'i rpc_arg list \<times> 's \<Rightarrow>
   ('c list \<times> (('s \<Rightarrow> 's option) \<times> bool) list \<times> 'i rpc_arg list \<times> 's) option"
where
  "run_suite N see (Suite inits tests children) (hooks, st) = do {
     (os, st) \<leftarrow> run_tests N see tests (hooks @ map (\<lambda>f. (f, False)) inits, st);
     (os', hooks', SNAPSHOTS, s) \<leftarrow> run_suites N see children st;
     let SNAPSHOTS = foldl (\<lambda>S (f, b). cache_after b S) SNAPSHOTS (drop (length hooks) hooks');
     Some (os @ os', take (length hooks) hooks', SNAPSHOTS, s)
   }"
| "run_suites N see [] st = Some ([], st)"
| "run_suites N see (suite # suites) st = do {
     (os, st) \<leftarrow> run_suite N see suite st;
     (os', st) \<leftarrow> run_suites N see suites st;
     Some (os @ os', st)
   }"

subsection \<open>The node\<close>

locale evm_node =
  fixes N :: "('s, 'i) node"
    and content :: "'s \<Rightarrow> 'c"
    and saved :: "'s \<Rightarrow> 'i \<rightharpoonup> 'c"
    and age :: "'i \<Rightarrow> nat"
    and transact :: "('c \<Rightarrow> 'c) \<Rightarrow> 's \<Rightarrow> 's"
  assumes snapshot: "\<exists>i s'. N ''evm_snapshot'' [] s = Some (RId i, s') \<and> content s' = content s \<and>
        saved s' = (saved s)(i \<mapsto> content s) \<and> (\<forall>j \<in> dom (saved s). age j < age i)"
    and revert: "saved s i = Some c \<Longrightarrow> \<exists>r s'. N ''evm_revert'' [RId i] s = Some (r, s') \<and> content s' = c \<and>
        saved s' = saved s |` {j. age j < age i}"
    and transact_content: "content (transact g s) = g (content s)"
    and transact_saved: "saved (transact g s) = saved s"

text \<open>What a test suite does to the chain: its initializers, its tests, its children. \<open>suite_of\<close> is the suite
  with these effects, \<open>expected\<close> what its tests should observe: the initializers of the enclosing
  suites, each once, on the chain the suite began with, and nothing any other test did.\<close>

datatype 'c plan = Plan "('c \<Rightarrow> 'c) list" "('c \<Rightarrow> 'c) list" "'c plan list"

fun suite_of :: "(('c \<Rightarrow> 'c) \<Rightarrow> 's \<Rightarrow> 's) \<Rightarrow> 'c plan \<Rightarrow> 's suite" where
  "suite_of transact (Plan gs ts ps) =
     Suite (map (\<lambda>g s. Some (transact g s)) gs) (map transact ts) (map (suite_of transact) ps)"

fun expected :: "'c plan \<Rightarrow> 'c \<Rightarrow> 'c list" where
  "expected (Plan gs ts ps) c =
     (let c' = fold (\<lambda>g c. g c) gs c in map (\<lambda>t. c') ts @ concat (map (\<lambda>p. expected p c') ps))"

context evm_node
begin

text \<open>The stack, innermost initializer first: each id is saved, with the chain after its initializer and
  those below it, and newer than the ids below it.\<close>

fun stack_ok :: "'s \<Rightarrow> 'c \<Rightarrow> ('c \<Rightarrow> 'c) list \<Rightarrow> 'i list \<Rightarrow> bool" where
  "stack_ok s c [] [] = True"
| "stack_ok s c (g # gs) (i # ids) =
     (saved s i = Some (foldr (\<lambda>g c. g c) (g # gs) c) \<and> (\<forall>j \<in> set ids. age j < age i) \<and> stack_ok s c gs ids)"
| "stack_ok s c gs ids = False"

lemma stack_ok_saved: "stack_ok s c gs ids \<Longrightarrow> set ids \<subseteq> dom (saved s)"
  by (induction s c gs ids rule: stack_ok.induct) auto

lemma stack_ok_cong:
  "stack_ok s c gs ids \<Longrightarrow> \<forall>j \<in> set ids. saved s' j = saved s j \<Longrightarrow> stack_ok s' c gs ids"
  by (induction s c gs ids rule: stack_ok.induct) auto

lemma stack_ok_length: "stack_ok s c gs ids \<Longrightarrow> length gs = length ids"
  by (induction s c gs ids rule: stack_ok.induct) auto

lemma stack_ok_drop: "stack_ok s c gs ids \<Longrightarrow> stack_ok s c (drop n gs) (drop n ids)"
  by (induction s c gs ids arbitrary: n rule: stack_ok.induct) (auto simp: drop_Cons split: nat.splits)

text \<open>A snapshot of the chain after the initializers extends the stack.\<close>

lemma push:
  assumes "stack_ok s c gs ids" and "content s = g (foldr (\<lambda>g c. g c) gs c)"
  shows "\<exists>i s'. saveSnapshotAsync N bc s = Some (RId i, bc\<lparr>snapshotId := RId i\<rparr>, s') \<and>
    stack_ok s' c (g # gs) (i # ids) \<and> content s' = content s"
proof -
  obtain i s' where i: "N ''evm_snapshot'' [] s = Some (RId i, s')" "content s' = content s"
    "saved s' = (saved s)(i \<mapsto> content s)" "\<forall>j \<in> dom (saved s). age j < age i" using snapshot by blast
  have "\<forall>j \<in> set ids. age j < age i" using i(4) stack_ok_saved [OF assms(1)] by auto
  moreover then have "stack_ok s' c gs ids"
    using i(3) by (intro stack_ok_cong [OF assms(1)]) auto
  ultimately show ?thesis
    using i assms(2)
    by (intro exI [of _ i] exI [of _ s']) (simp add: saveSnapshotAsync_def sendJSONRpcRequestAsync_def)
qed

lemma first_hook:
  assumes "stack_ok s c gs ids" and "content s = foldr (\<lambda>g c. g c) gs c"
  shows "\<exists>i s'. cacheBeforeEach N (\<lambda>s. Some (transact g s)) False (map RId ids, s) =
      Some (True, map RId (i # ids), s') \<and> stack_ok s' c (g # gs) (i # ids) \<and>
      content s' = foldr (\<lambda>g c. g c) (g # gs) c"
proof -
  have "stack_ok (transact g s) c gs ids"
    by (rule stack_ok_cong [OF assms(1)]) (simp add: transact_saved)
  from push [OF this, of g new_Blockchain] assms(2) obtain i s' where
    "saveSnapshotAsync N new_Blockchain (transact g s) = Some (RId i, new_Blockchain\<lparr>snapshotId := RId i\<rparr>, s')"
    "stack_ok s' c (g # gs) (i # ids)" "content s' = foldr (\<lambda>g c. g c) (g # gs) c"
    by (auto simp: transact_content)
  then show ?thesis
    by (intro exI [of _ i] exI [of _ s']) (simp add: cacheBeforeEach_def)
qed

lemma later_hook:
  assumes "stack_ok s c (g # gs) (i # ids)"
  shows "\<exists>i' s'. cacheBeforeEach N f True (map RId (i # ids), s) = Some (True, map RId (i' # ids), s') \<and>
      stack_ok s' c (g # gs) (i' # ids) \<and> content s' = foldr (\<lambda>g c. g c) (g # gs) c"
proof -
  obtain r s1 where r: "N ''evm_revert'' [RId i] s = Some (r, s1)"
      "content s1 = foldr (\<lambda>g c. g c) (g # gs) c" "saved s1 = saved s |` {j. age j < age i}"
    using revert [of s i] assms by auto
  have "stack_ok s1 c gs ids"
    using assms r(3) by (auto intro: stack_ok_cong [of s c gs ids])
  from push [OF this, of g new_Blockchain] r(2) obtain i' s' where
    "saveSnapshotAsync N new_Blockchain s1 = Some (RId i', new_Blockchain\<lparr>snapshotId := RId i'\<rparr>, s')"
    "stack_ok s' c (g # gs) (i' # ids)" "content s' = foldr (\<lambda>g c. g c) (g # gs) c"
    by auto
  then show ?thesis
    by (intro exI [of _ i'] exI [of _ s'])
      (simp add: cacheBeforeEach_def revertByIdAsync_def sendJSONRpcRequestAsync_def r(1))
qed

text \<open>The hooks of a path: the first \<open>k\<close> initializers have run and are on the stack.\<close>

definition hooks_of :: "nat \<Rightarrow> ('c \<Rightarrow> 'c) list \<Rightarrow> (('s \<Rightarrow> 's option) \<times> bool) list" where
  "hooks_of k gs = map (\<lambda>(j, g). (\<lambda>s. Some (transact g s), j < k)) (enumerate 0 gs)"

lemma hooks_of_simps:
  "length (hooks_of k gs) = length gs"
  "hooks_of 0 gs = map (\<lambda>g. (\<lambda>s. Some (transact g s), False)) gs"
  "k \<le> length gs \<Longrightarrow> hooks_of k (gs @ gs') = hooks_of k gs @ hooks_of 0 gs'"
  "length gs \<le> k \<Longrightarrow> hooks_of k gs = map (\<lambda>g. (\<lambda>s. Some (transact g s), True)) gs"
  by (auto simp: hooks_of_def enumerate_eq_zip intro!: nth_equalityI)
    (auto simp: nth_append)

lemma run_later:
  assumes "stack_ok s c (g # gs) (i # ids)"
  shows "\<exists>i' s'. run_hooks N (map (\<lambda>g. (\<lambda>s. Some (transact g s), True)) ps) (map RId (i # ids), s) =
      Some (map (\<lambda>g. (\<lambda>s. Some (transact g s), True)) ps, map RId (i' # ids), s') \<and>
    stack_ok s' c (g # gs) (i' # ids) \<and> (ps \<noteq> [] \<longrightarrow> content s' = foldr (\<lambda>g c. g c) (g # gs) c) \<and>
    (ps = [] \<longrightarrow> s' = s)"
  using assms
proof (induction ps arbitrary: s i)
  case (Cons p ps)
  obtain i1 s1 where 1: "cacheBeforeEach N (\<lambda>s. Some (transact p s)) True (map RId (i # ids), s) =
      Some (True, map RId (i1 # ids), s1)" "stack_ok s1 c (g # gs) (i1 # ids)"
      "content s1 = foldr (\<lambda>g c. g c) (g # gs) c"
    using later_hook [OF Cons.prems] by blast
  from Cons.IH [OF 1(2)] 1(3) obtain i2 s2 where
    "run_hooks N (map (\<lambda>g. (\<lambda>s. Some (transact g s), True)) ps) (map RId (i1 # ids), s1) =
      Some (map (\<lambda>g. (\<lambda>s. Some (transact g s), True)) ps, map RId (i2 # ids), s2)"
    "stack_ok s2 c (g # gs) (i2 # ids)" "content s2 = foldr (\<lambda>g c. g c) (g # gs) c" by blast
  with 1(1) show ?case by (intro exI [of _ i2] exI [of _ s2]) simp
qed auto

lemma run_first:
  assumes "stack_ok s c gs ids" and "ps \<noteq> [] \<Longrightarrow> content s = foldr (\<lambda>g c. g c) gs c"
  shows "\<exists>ids' s'. run_hooks N (map (\<lambda>g. (\<lambda>s. Some (transact g s), False)) ps) (map RId ids, s) =
      Some (map (\<lambda>g. (\<lambda>s. Some (transact g s), True)) ps, map RId ids', s') \<and>
    stack_ok s' c (rev ps @ gs) ids' \<and> (ps \<noteq> [] \<longrightarrow> content s' = foldr (\<lambda>g c. g c) (rev ps @ gs) c) \<and>
    (ps = [] \<longrightarrow> s' = s)"
  using assms
proof (induction ps arbitrary: s gs ids)
  case (Cons p ps)
  obtain i s1 where 1: "cacheBeforeEach N (\<lambda>s. Some (transact p s)) False (map RId ids, s) =
      Some (True, map RId (i # ids), s1)" "stack_ok s1 c (p # gs) (i # ids)"
      "content s1 = foldr (\<lambda>g c. g c) (p # gs) c"
    using first_hook [OF Cons.prems(1), of p] Cons.prems(2) by auto
  from Cons.IH [OF 1(2)] 1(3) obtain ids2 s2 where
    "run_hooks N (map (\<lambda>g. (\<lambda>s. Some (transact g s), False)) ps) (map RId (i # ids), s1) =
      Some (map (\<lambda>g. (\<lambda>s. Some (transact g s), True)) ps, map RId ids2, s2)"
    "stack_ok s2 c (rev ps @ p # gs) ids2" "content s2 = foldr (\<lambda>g c. g c) (rev ps @ p # gs) c" by fastforce
  with 1(1) show ?case by (intro exI [of _ ids2] exI [of _ s2]) simp
qed auto

lemma run_hooks_append:
  "run_hooks N (hs @ hs') st = do {
     (hs, st) \<leftarrow> run_hooks N hs st; (hs', st) \<leftarrow> run_hooks N hs' st; Some (hs @ hs', st) }"
proof (induction hs arbitrary: st)
  case Nil
  then show ?case by (cases "run_hooks N hs' st") auto
next
  case (Cons h hs)
  then show ?case by (cases h) (auto split: Option.bind_splits)
qed

text \<open>The state of the sandbox between tests, for the initializers \<open>gs\<close> of a path.\<close>

definition sandboxed :: "'c \<Rightarrow> ('c \<Rightarrow> 'c) list \<Rightarrow>
    (('s \<Rightarrow> 's option) \<times> bool) list \<times> 'i rpc_arg list \<times> 's \<Rightarrow> bool" where
  "sandboxed c gs = (\<lambda>(hooks, SNAPSHOTS, s). \<exists>k ids. k \<le> length gs \<and> hooks = hooks_of k gs \<and>
     SNAPSHOTS = map RId ids \<and> stack_ok s c (rev (take k gs)) ids \<and> (k = 0 \<longrightarrow> gs = [] \<or> content s = c))"

lemma run_hooks_sandboxed:
  assumes "sandboxed c gs (hooks, SNAPSHOTS, s)" and "gs \<noteq> []"
  shows "\<exists>ids s'. run_hooks N hooks (SNAPSHOTS, s) = Some (hooks_of (length gs) gs, map RId ids, s') \<and>
    stack_ok s' c (rev gs) ids \<and> content s' = fold (\<lambda>g c. g c) gs c"
proof -
  from assms obtain k ids where k: "k \<le> length gs" "hooks = hooks_of k gs" "SNAPSHOTS = map RId ids"
    "stack_ok s c (rev (take k gs)) ids" "k = 0 \<longrightarrow> content s = c" by (auto simp: sandboxed_def)
  let ?h = "\<lambda>b. map (\<lambda>g. (\<lambda>s. Some (transact g s), b))"
  have hooks: "hooks = ?h True (take k gs) @ ?h False (drop k gs)"
    using hooks_of_simps(2,4) hooks_of_simps(3) [of k "take k gs" "drop k gs"] k(1,2) by simp
  obtain ids1 s1 where 1: "run_hooks N (?h True (take k gs)) (SNAPSHOTS, s) = Some (?h True (take k gs), map RId ids1, s1)"
    "stack_ok s1 c (rev (take k gs)) ids1" "content s1 = foldr (\<lambda>g c. g c) (rev (take k gs)) c"
  proof (cases "k = 0")
    case False
    then obtain g gs' where g: "rev (take k gs) = g # gs'" using assms(2) by (cases "rev (take k gs)") auto
    with k(4) obtain i ids' where i: "ids = i # ids'" by (cases ids) auto
    from run_later [of s c g gs' i ids' "take k gs"] k(4) g i False assms(2) k(3) that show ?thesis by fastforce
  qed (use k in \<open>auto intro: that\<close>)
  from run_first [OF 1(2), of "drop k gs"] 1(3) obtain ids2 s2 where 2:
    "run_hooks N (?h False (drop k gs)) (map RId ids1, s1) = Some (?h True (drop k gs), map RId ids2, s2)"
    "stack_ok s2 c (rev (drop k gs) @ rev (take k gs)) ids2"
    "content s2 = foldr (\<lambda>g c. g c) (rev (drop k gs) @ rev (take k gs)) c"
    by (cases "drop k gs = []") auto
  have r: "rev (drop k gs) @ rev (take k gs) = rev gs" by (metis append_take_drop_id rev_append)
  have "?h True (take k gs) @ ?h True (drop k gs) = hooks_of (length gs) gs"
    by (simp add: hooks_of_simps flip: map_append)
  with 1(1) 2 show ?thesis
    unfolding hooks run_hooks_append r
    by (intro exI [of _ ids2] exI [of _ s2]) (simp add: foldr_conv_fold)
qed

lemma sandboxed_intro:
  "stack_ok s c (rev gs) ids \<Longrightarrow> gs \<noteq> [] \<Longrightarrow> sandboxed c gs (hooks_of (length gs) gs, map RId ids, s)"
  unfolding sandboxed_def prod.case by (intro exI [of _ "length gs"] exI [of _ ids]) simp

lemma run_tests_sandboxed:
  assumes "sandboxed c gs st" and "gs \<noteq> []"
  shows "\<exists>st'. run_tests N content (map transact ts) st = Some (map (\<lambda>t. fold (\<lambda>g c. g c) gs c) ts, st') \<and>
    sandboxed c gs st'"
  using assms(1)
proof (induction ts arbitrary: st)
  case (Cons t ts)
  obtain hooks S s where st: "st = (hooks, S, s)" by (cases st) auto
  obtain ids s1 where 1: "run_hooks N hooks (S, s) = Some (hooks_of (length gs) gs, map RId ids, s1)"
    "stack_ok s1 c (rev gs) ids" "content s1 = fold (\<lambda>g c. g c) gs c"
    using run_hooks_sandboxed [OF Cons.prems [unfolded st] assms(2)] by blast
  have "stack_ok (transact t s1) c (rev gs) ids"
    by (rule stack_ok_cong [OF 1(2)]) (simp add: transact_saved)
  from Cons.IH [OF sandboxed_intro [OF this assms(2)]] obtain st' where
    "run_tests N content (map transact ts) (hooks_of (length gs) gs, map RId ids, transact t s1) =
       Some (map (\<lambda>t. fold (\<lambda>g c. g c) gs c) ts, st')" "sandboxed c gs st'" by blast
  with 1 show ?case by (intro exI [of _ st']) (simp add: st)
qed auto

text \<open>Entering a suite adds hooks that have not run; leaving it takes its snapshots off the stack.\<close>

lemma sandboxed_enter:
  assumes "sandboxed c gs (hooks, S, s)" and "gs = [] \<Longrightarrow> content s = c"
  shows "sandboxed c (gs @ gs') (hooks @ map (\<lambda>g. (\<lambda>s. Some (transact g s), False)) gs', S, s)"
proof -
  from assms obtain k ids where "k \<le> length gs" "hooks = hooks_of k gs" "S = map RId ids"
    "stack_ok s c (rev (take k gs)) ids" "k = 0 \<longrightarrow> content s = c" by (auto simp: sandboxed_def)
  then show ?thesis unfolding sandboxed_def
    by (auto simp: hooks_of_simps intro!: exI [of _ k])
qed

lemma pops: "foldl (\<lambda>S (f, b). cache_after b S) S hs = drop (length (filter snd hs)) S"
  by (induction hs arbitrary: S) (auto simp: cache_after_def drop_Suc)

lemma count_true:
  "length (filter snd (drop n (map (\<lambda>g. (f g, True)) xs @ map (\<lambda>g. (f g, False)) ys))) = length xs - n"
  by (simp add: drop_map filter_map o_def)

lemma count_hooks_of:
  "k \<le> length (gs @ gs') \<Longrightarrow> length (filter snd (drop (length gs) (hooks_of k (gs @ gs')))) = k - length gs"
proof -
  assume k: "k \<le> length (gs @ gs')"
  have "hooks_of k (gs @ gs') = hooks_of k (take k (gs @ gs') @ drop k (gs @ gs'))"
    unfolding append_take_drop_id ..
  also have "\<dots> = map (\<lambda>g. (\<lambda>s. Some (transact g s), True)) (take k (gs @ gs')) @
      map (\<lambda>g. (\<lambda>s. Some (transact g s), False)) (drop k (gs @ gs'))"
    using k by (subst hooks_of_simps(3)) (simp_all add: hooks_of_simps del: take_append drop_append)
  finally show ?thesis using k by (simp only: count_true) simp
qed

lemma take_hooks_of: "take (length gs) (hooks_of k (gs @ gs')) = hooks_of (min k (length gs)) gs"
  by (rule nth_equalityI) (auto simp: hooks_of_def enumerate_eq_zip nth_append)

lemma sandboxed_leave:
  assumes "sandboxed c (gs @ gs') (hooks, S, s)"
  shows "sandboxed c gs (take (length gs) hooks, foldl (\<lambda>S (f, b). cache_after b S) S (drop (length gs) hooks), s)"
proof -
  from assms obtain k ids where k: "k \<le> length (gs @ gs')" "hooks = hooks_of k (gs @ gs')" "S = map RId ids"
    "stack_ok s c (rev (take k (gs @ gs'))) ids" "k = 0 \<longrightarrow> gs @ gs' = [] \<or> content s = c"
    by (auto simp: sandboxed_def)
  have d: "drop (k - length gs) (rev (take k (gs @ gs'))) = rev (take (min k (length gs)) gs)"
    using k(1) by (simp add: drop_rev min_def)
  from stack_ok_drop [OF k(4), of "k - length gs"]
  have "stack_ok s c (rev (take (min k (length gs)) gs)) (drop (k - length gs) ids)" unfolding d .
  moreover have "min k (length gs) = 0 \<longrightarrow> gs = [] \<or> content s = c"
    using k(5) by (auto simp: min_def split: if_splits)
  ultimately show ?thesis using k(1-3) unfolding sandboxed_def pops prod.case
    by (intro exI [of _ "min k (length gs)"] exI [of _ "drop (k - length gs) ids"])
      (simp add: count_hooks_of take_hooks_of drop_map)
qed

lemma run_suite_sandboxed:
  assumes "sandboxed c gs st" and "gs = [] \<Longrightarrow> content (snd (snd st)) = c"
    and "gs = [] \<Longrightarrow> (case p of Plan gs' ts ps \<Rightarrow> gs' \<noteq> [])"
  shows "\<exists>st'. run_suite N content (suite_of transact p) st = Some (expected p (fold (\<lambda>g c. g c) gs c), st') \<and>
    sandboxed c gs st'"
  using assms
proof (induction p arbitrary: gs st)
  case (Plan gs' ts ps)
  obtain hooks S s where st: "st = (hooks, S, s)" by (cases st) auto
  have l: "length hooks = length gs"
    using Plan.prems(1) by (auto simp: st sandboxed_def hooks_of_simps)
  have ne: "gs @ gs' \<noteq> []" using Plan.prems(3) by auto
  let ?c = "fold (\<lambda>g c. g c) (gs @ gs') c"
  obtain st1 where 1: "run_tests N content (map transact ts)
      (hooks @ map (\<lambda>g. (\<lambda>s. Some (transact g s), False)) gs', S, s) = Some (map (\<lambda>t. ?c) ts, st1)"
    "sandboxed c (gs @ gs') st1"
    using run_tests_sandboxed [OF sandboxed_enter [OF Plan.prems(1) [unfolded st]] ne] Plan.prems(2) st by fastforce
  have "\<exists>st2. run_suites N content (map (suite_of transact) qs) st1 =
      Some (concat (map (\<lambda>q. expected q ?c) qs), st2) \<and> sandboxed c (gs @ gs') st2"
    if "set qs \<subseteq> set ps" "sandboxed c (gs @ gs') st1" for qs st1
    using that
  proof (induction qs arbitrary: st1)
    case (Cons q qs)
    have "q \<in> set ps" using Cons.prems(1) by simp
    from Plan.IH [OF this Cons.prems(2)] ne obtain st2 where
      2: "run_suite N content (suite_of transact q) st1 = Some (expected q ?c, st2)" "sandboxed c (gs @ gs') st2"
      by blast
    with Cons.IH [of st2] Cons.prems(1) obtain st3 where
      "run_suites N content (map (suite_of transact) qs) st2 = Some (concat (map (\<lambda>q. expected q ?c) qs), st3)"
      "sandboxed c (gs @ gs') st3" by auto
    with 2 show ?case by (intro exI [of _ st3]) (simp del: fold_append)
  qed auto
  from this [OF subset_refl 1(2)] obtain hooks' S' s' where
    2: "run_suites N content (map (suite_of transact) ps) st1 =
      Some (concat (map (\<lambda>q. expected q ?c) ps), hooks', S', s')" "sandboxed c (gs @ gs') (hooks', S', s')" by auto
  from 1 2 sandboxed_leave [OF 2(2)] show ?case
    by (simp add: st l Let_def o_def)
qed

text \<open>From an empty stack: every test sees what it should, and the stack is empty again.\<close>

lemma run_root_suite:
  assumes "gs \<noteq> []"
  shows "\<exists>s'. run_suite N content (suite_of transact (Plan gs ts ps)) ([], [], s) =
    Some (expected (Plan gs ts ps) (content s), [], [], s')"
proof -
  have "sandboxed (content s) [] ([], [], s)" by (simp add: sandboxed_def hooks_of_def)
  from run_suite_sandboxed [OF this, of "Plan gs ts ps"] assms obtain st' where
    "run_suite N content (suite_of transact (Plan gs ts ps)) ([], [], s) =
      Some (expected (Plan gs ts ps) (content s), st')" "sandboxed (content s) [] st'" by auto
  moreover from this(2) have "st' = ([], [], snd (snd st'))"
    by (cases st') (auto simp: sandboxed_def hooks_of_def dest!: stack_ok_length)
  ultimately show ?thesis by metis
qed

lemma snapshot_around_restores:
  "\<exists>bc' s'. snapshot_around N (transact g) (bc, s) = Some (bc', s') \<and> content s' = content s \<and>
     saved s' = saved s"
proof -
  obtain i s1 where 1: "N ''evm_snapshot'' [] s = Some (RId i, s1)" "content s1 = content s"
    "saved s1 = (saved s)(i \<mapsto> content s)" "\<forall>j \<in> dom (saved s). age j < age i" using snapshot by blast
  obtain r s2 where 2: "N ''evm_revert'' [RId i] (transact g s1) = Some (r, s2)" "content s2 = content s"
    "saved s2 = saved (transact g s1) |` {j. age j < age i}"
    using revert [of "transact g s1" i "content s"] 1(3) by (auto simp: transact_saved)
  have "saved s x = None" if "\<not> age x < age i" for x using 1(4) that by (metis domIff)
  then have "saved s2 = saved s"
    using 1(3,4) 2(3) by (auto simp: transact_saved restrict_map_def fun_eq_iff)
  with 1(1) 2(1,2) show ?thesis
    by (intro exI [of _ "bc\<lparr>snapshotId := RId i\<rparr>"] exI [of _ s2])
      (simp add: snapshot_around_def saveSnapshotAsync_def revertAsync_def sendJSONRpcRequestAsync_def)
qed

end

subsection \<open>A provider: a node that keeps its snapshots in a list\<close>

text \<open>The chain, the snapshots with their numbers, the last number given out; numbers are not used
  again. \<open>mine\<close>, \<open>warp\<close> and \<open>next_time\<close> are what the other requests do to the chain. Reverting to a snapshot
  that is gone answers false and does nothing.\<close>

definition list_node ::
  "('c \<Rightarrow> 'c) \<Rightarrow> (int \<Rightarrow> 'c \<Rightarrow> 'c) \<Rightarrow> (int \<Rightarrow> 'c \<Rightarrow> 'c) \<Rightarrow> ('c \<times> (nat \<times> 'c) list \<times> nat, nat) node"
where
  "list_node mine warp next_time method params = (\<lambda>(c, xs, n).
     if method = ''evm_snapshot'' then (let i = foldl max n (map fst xs) + 1 in Some (RId i, c, (i, c) # xs, i))
     else if method = ''evm_mine'' then Some (ROk, mine c, xs, n)
     else (case params of
       [RId i] \<Rightarrow> if method = ''evm_revert'' then (case map_of xs i of
           None \<Rightarrow> Some (RNum 0, c, xs, n)
         | Some c' \<Rightarrow> Some (RNum 1, c', filter (\<lambda>x. fst x < i) xs, max n i)) else None
     | [RNum k] \<Rightarrow> if method = ''evm_increaseTime'' then Some (RNum k, warp k c, xs, n)
         else if method = ''evm_setNextBlockTimestamp'' then Some (RNum k, next_time k c, xs, n) else None
     | _ \<Rightarrow> None))"

definition node_content :: "'c \<times> (nat \<times> 'c) list \<times> nat \<Rightarrow> 'c" where
  "node_content = fst"

definition node_saved :: "'c \<times> (nat \<times> 'c) list \<times> nat \<Rightarrow> nat \<rightharpoonup> 'c" where
  "node_saved s = map_of (fst (snd s))"

definition node_age :: "nat \<Rightarrow> nat" where
  "node_age i = i"

definition node_transact :: "('c \<Rightarrow> 'c) \<Rightarrow> 'c \<times> (nat \<times> 'c) list \<times> nat \<Rightarrow> 'c \<times> (nat \<times> 'c) list \<times> nat" where
  "node_transact g s = (g (fst s), snd s)"

lemma map_of_filter_less: "map_of (filter (\<lambda>x. fst x < i) xs) = map_of xs |` {j. j < i}" for i :: nat
  by (induction xs) (auto simp: fun_eq_iff restrict_map_def)

interpretation list_node: evm_node "list_node mine warp next_time" node_content node_saved node_age node_transact
  for mine warp next_time
proof unfold_locales
  fix s :: "'a \<times> (nat \<times> 'a) list \<times> nat"
  obtain c xs n where s: "s = (c, xs, n)" by (cases s) auto
  have "j < foldl max n (map fst xs) + 1" if "j \<in> dom (map_of xs)" for j
    using that foldl_max_ge [of n "map fst xs" j] by (auto simp: dom_map_of_conv_image_fst)
  then show "\<exists>i s'. list_node mine warp next_time ''evm_snapshot'' [] s = Some (RId i, s') \<and>
      node_content s' = node_content s \<and> node_saved s' = (node_saved s)(i \<mapsto> node_content s) \<and>
      (\<forall>j \<in> dom (node_saved s). node_age j < node_age i)"
    by (simp add: s list_node_def Let_def node_content_def node_saved_def node_age_def)
next
  fix s :: "'a \<times> (nat \<times> 'a) list \<times> nat" and i c
  assume "node_saved s i = Some c"
  then show "\<exists>r s'. list_node mine warp next_time ''evm_revert'' [RId i] s = Some (r, s') \<and> node_content s' = c \<and>
      node_saved s' = node_saved s |` {j. node_age j < node_age i}"
    by (cases s) (simp add: list_node_def node_content_def node_saved_def node_age_def map_of_filter_less)
qed (simp_all add: node_transact_def node_content_def node_saved_def)

subsection \<open>Properties\<close>

text \<open>C34: the tests of a suite that registers at least one \<^verbatim>\<open>cacheBeforeEach\<close> are isolated, whatever
  suites are nested in it and wherever they register theirs: every hook succeeds, each test begins on
  the chain that the initializers of its enclosing suites, each run once, make of the chain the suite
  began with, untouched by the other tests and suites; and the stack of snapshots is left empty.\<close>

theorem cached_suites_isolate_tests:
  assumes "evm_node N content saved age transact" and "gs \<noteq> []"
  shows "\<exists>s'. run_suite N content (suite_of transact (Plan gs ts ps)) ([], [], s) =
    Some (expected (Plan gs ts ps) (content s), [], [], s')"
  by (rule evm_node.run_root_suite [OF assms])

theorem cached_suites_isolate_tests_witness:
  "\<exists>s'. run_suite (list_node id (\<lambda>_. id) (\<lambda>_. id)) node_content
     (suite_of node_transact (Plan [\<lambda>c. c + 1] [\<lambda>c. c * 7] [Plan [\<lambda>c. c + 10] [\<lambda>c. 0, \<lambda>c. 5] [],
        Plan [] [\<lambda>c. 3] [Plan [\<lambda>c. c * 2] [\<lambda>c. 9] []]]))
     ([], [], (100 :: int, [], 0)) = Some ([101, 111, 111, 101, 202], [], [], s')"
  using cached_suites_isolate_tests [OF list_node.evm_node_axioms, of "[\<lambda>c. c + 1]" id "\<lambda>_. id" "\<lambda>_. id"
      "[\<lambda>c. c * 7]" "[Plan [\<lambda>c. c + 10] [\<lambda>c. 0, \<lambda>c. 5] [], Plan [] [\<lambda>c. 3] [Plan [\<lambda>c. c * 2] [\<lambda>c. 9] []]]"
      "(100 :: int, [], 0)"]
  by (simp add: node_content_def Let_def)

text \<open>\<^verbatim>\<open>addSnapshotBeforeRestoreAfterEach\<close> around any test gives the chain back as it was, and leaves no
  snapshot of its own behind.\<close>

lemma snapshot_hooks_restore:
  assumes "evm_node N content saved age transact"
  shows "\<exists>bc' s'. snapshot_around N (transact test) (bc, s) = Some (bc', s') \<and> content s' = content s \<and>
    saved s' = saved s"
  by (rule evm_node.snapshot_around_restores [OF assms])

lemma waitBlocks_loop_mines:
  "waitBlocks_loop N count i s =
     (if i < count then Option.bind (mineBlockAsync N s) (waitBlocks_loop N count (i + 1)) else Some s)"
  by (subst waitBlocks_loop.simps)
    (auto simp: mineBlockAsync_def sendJSONRpcRequestAsync_def map_option_case split: option.splits)

text \<open>\<^verbatim>\<open>waitBlocksAsync(count)\<close> returns after exactly \<^verbatim>\<open>count\<close> requests to mine, none for a count
  that is not positive.\<close>

lemma waitBlocks_mines_count:
  "waitBlocksAsync N count s = ((\<lambda>m. Option.bind m (mineBlockAsync N)) ^^ nat count) (Some s)"
proof -
  have "waitBlocks_loop N count i s = ((\<lambda>m. Option.bind m (mineBlockAsync N)) ^^ n) (Some s)"
    if "n = nat (count - i)" for n i
    using that
  proof (induction n arbitrary: i s)
    case 0
    then show ?case by (simp add: waitBlocks_loop_mines [of N count i])
  next
    case (Suc n)
    have none: "((\<lambda>m. Option.bind m (mineBlockAsync N)) ^^ n) None = None" by (induction n) auto
    from Suc.prems have "i < count" "n = nat (count - (i + 1))" by auto
    with Suc.IH [of "i + 1"] none show ?case
      by (cases "mineBlockAsync N s") (auto simp: waitBlocks_loop_mines [of N count i] funpow_Suc_right simp del: funpow.simps)
  qed
  then show ?thesis by (simp add: waitBlocksAsync_def)
qed

text \<open>A notional amount converted to a position unit and back never gains, and loses at most the
  share of one unit, \<open>totalSupply / 10^18\<close>, and the rounding of one more division.\<close>

lemma notional_position_round_trip:
  assumes "bignumber B" and "0 \<le> n" and "0 < supply"
  shows "\<exists>p n'. convertNotionalToPosition B (bn_from B n) (bn_from B supply) = Some (bn_from B p) \<and>
    convertPositionToNotional B (bn_from B p) (bn_from B supply) = Some (bn_from B n') \<and>
    n' \<le> n \<and> n * 10 ^ 18 < (n' + 1) * 10 ^ 18 + supply"
proof -
  define p n' where "p = n * 10 ^ 18 div supply" and "n' = p * supply div 10 ^ 18"
  have nonneg: "0 \<le> p" using assms by (simp add: p_def div_int_nonneg)
  have p: "p * supply \<le> n * 10 ^ 18" "n * 10 ^ 18 < (p + 1) * supply"
    using floor_bounds [OF assms(3), of "n * 10 ^ 18"] unfolding p_def by auto
  have b: "n' * 10 ^ 18 \<le> p * supply" "p * supply < (n' + 1) * 10 ^ 18"
    using floor_bounds [of "10 ^ 18" "p * supply"] unfolding n'_def by auto
  have "n' * 10 ^ 18 \<le> n * 10 ^ 18" using p(1) b(1) by linarith
  then have "n' \<le> n" by simp
  moreover have "n * 10 ^ 18 < (n' + 1) * 10 ^ 18 + supply" using p(2) b(2) by (simp add: distrib_right)
  moreover have "convertNotionalToPosition B (bn_from B n) (bn_from B supply) = Some (bn_from B p)"
    "convertPositionToNotional B (bn_from B p) (bn_from B supply) = Some (bn_from B n')"
    using assms(2,3) nonneg
    by (simp_all add: convertNotionalToPosition_def convertPositionToNotional_def bignumber.bn_simps [OF assms(1)]
        sdiv_nonneg p_def n'_def)
  ultimately show ?thesis by blast
qed

end
