(* ===== verification/SwapFixtures.thy ===== *)
theory SwapFixtures
  imports DeployMocks DeployExternal Sandbox
begin

text \<open>
  The fixtures of the exchanges: \<^verbatim>\<open>uniswapFixture.ts\<close>, \<^verbatim>\<open>kyberV3DMMFixture.ts\<close>,
  \<^verbatim>\<open>balancerFixture.ts\<close>, \<^verbatim>\<open>curveFixture.ts\<close> and \<^verbatim>\<open>yearnFixture.ts\<close> of \<^verbatim>\<open>utils/fixtures\<close>. Each class
  is a record of its public fields; a method takes the fields it reads and returns those it
  sets. An \<^verbatim>\<open>Account\<close> is its address, which is also the signer of its wallet.
\<close>

text \<open>The order Uniswap wants: \<^verbatim>\<open>_tokenOne.toLowerCase() < _tokenTwo.toLowerCase()\<close>.\<close>

definition address_below :: "string \<Rightarrow> string \<Rightarrow> bool" where
  "address_below a b = js_less (toLowerCase a) (toLowerCase b)"

definition getTokenOrder :: "string \<Rightarrow> string \<Rightarrow> string \<times> string" where
  "getTokenOrder tokenOne tokenTwo =
     (if address_below tokenOne tokenTwo then (tokenOne, tokenTwo) else (tokenTwo, tokenOne))"

subsection \<open>\<^verbatim>\<open>uniswapFixture.ts\<close>\<close>

record uniswap_fixture =
  uf_owner :: string
  uf_uni :: contract
  uf_uniswapGovernorAlpha :: contract
  uf_uniswapTimelock :: contract
  uf_factory :: contract
  uf_router :: contract
  uf_wethDaiPool :: contract
  uf_wethDaiStakingRewards :: contract
  uf_wethWbtcPool :: contract
  uf_wethWbtcStakingRewards :: contract
  uf_uniWethPool :: contract

definition createNewPair :: "'b world \<Rightarrow> 'b bn_api \<Rightarrow> string \<Rightarrow> contract \<Rightarrow> string \<Rightarrow> string \<Rightarrow> 'b deployment" where
  "createNewPair W B ownerAddress factory tokenOne tokenTwo h = do {
     h \<leftarrow> send W factory ''createPair'' [AStr tokenOne, AStr tokenTwo] h;
     n \<leftarrow> Option.bind (view W factory ''allPairsLength'' [] h) as_big;
     poolAddress \<leftarrow> Option.bind (view W factory ''allPairs'' [ABig (bn_sub B n (bn_from B 1))] h) as_str;
     Some (attach ownerAddress ''UniswapV2Pair'' poolAddress, h)
   }"

definition createNewStakingPair ::
  "'b world \<Rightarrow> 'b bn_api \<Rightarrow> string \<Rightarrow> string \<Rightarrow> contract \<Rightarrow> contract \<Rightarrow> string \<Rightarrow> string \<Rightarrow> 'b history \<Rightarrow>
   ((contract \<times> contract) \<times> 'b history) option"
where
  "createNewStakingPair W B ownerAddress account factory uni tokenOne tokenTwo h = do {
     (pool, h) \<leftarrow> createNewPair W B ownerAddress factory tokenOne tokenTwo h;
     (staking, h) \<leftarrow> deployStakingRewards W ownerAddress account (addr uni) (addr pool) h;
     fiveMillion \<leftarrow> ether B ''5000000'';
     h \<leftarrow> send W (connect uni account) ''transfer'' [AStr (addr staking), ABig fiveMillion] h;
     h \<leftarrow> send W (connect staking account) ''notifyRewardAmount'' [ABig fiveMillion] h;
     Some ((pool, staking), h)
   }"

definition initialize_uniswap ::
  "'b world \<Rightarrow> 'b bn_api \<Rightarrow> string \<Rightarrow> string \<Rightarrow> string \<Rightarrow> string \<Rightarrow> string \<Rightarrow> 'b history \<Rightarrow>
   (uniswap_fixture \<times> 'b history) option"
where
  "initialize_uniswap W B ownerAddress account weth wbtc dai h = do {
     (factory, h) \<leftarrow> deployUniswapV2Factory W ownerAddress account h;
     (router, h) \<leftarrow> deployUniswapV2Router02 W ownerAddress (addr factory) weth h;
     timestamp \<leftarrow> latest_timestamp W h;
     t \<leftarrow> bn_from_number B timestamp;
     (uni, h) \<leftarrow> deployUni W ownerAddress account account (bn_add B t (bn_from B 2)) h;
     (timelock, h) \<leftarrow> deployUniswapTimelock W ownerAddress account
        (bn_mul B (ONE_DAY_IN_SECONDS B) (bn_from B 2)) h;
     (governor, h) \<leftarrow> deployUniswapGovernorAlpha W ownerAddress (addr timelock) (addr uni) h;
     ((wethDaiPool, wethDaiStaking), h) \<leftarrow>
        createNewStakingPair W B ownerAddress account factory uni weth dai h;
     ((wethWbtcPool, wethWbtcStaking), h) \<leftarrow>
        createNewStakingPair W B ownerAddress account factory uni weth wbtc h;
     (uniWethPool, h) \<leftarrow> createNewPair W B ownerAddress factory weth (addr uni) h;
     Some (\<lparr>uf_owner = account, uf_uni = uni, uf_uniswapGovernorAlpha = governor,
        uf_uniswapTimelock = timelock, uf_factory = factory, uf_router = router,
        uf_wethDaiPool = wethDaiPool, uf_wethDaiStakingRewards = wethDaiStaking,
        uf_wethWbtcPool = wethWbtcPool, uf_wethWbtcStakingRewards = wethWbtcStaking,
        uf_uniWethPool = uniWethPool\<rparr>, h)
   }"

definition getForkedUniswapRouter :: "string \<Rightarrow> contract option" where
  "getForkedUniswapRouter s = map_option (getForkedUniswapV2Router02 s) (dependency ''UNISWAP_ROUTER'' 1)"

definition getForkedSushiswapRouter :: "string \<Rightarrow> contract option" where
  "getForkedSushiswapRouter s = map_option (getForkedUniswapV2Router02 s) (dependency ''SUSHISWAP_ROUTER'' 1)"

subsection \<open>\<^verbatim>\<open>kyberV3DMMFixture.ts\<close>\<close>

record kyber_fixture =
  kf_owner :: string
  kf_knc :: contract
  kf_dmmFactory :: contract
  kf_dmmRouter :: contract
  kf_kncWethPool :: contract
  kf_wethDaiPool :: contract
  kf_wethWbtcPool :: contract

definition createNewDMMPool ::
  "'b world \<Rightarrow> 'b bn_api \<Rightarrow> string \<Rightarrow> contract \<Rightarrow> string \<Rightarrow> string \<Rightarrow> 'b \<Rightarrow> 'b deployment"
where
  "createNewDMMPool W B ownerAddress dmmFactory tokenA tokenB ampBps h = do {
     h \<leftarrow> send W dmmFactory ''createPool'' [AStr tokenA, AStr tokenB, ABig ampBps] h;
     n \<leftarrow> Option.bind (view W dmmFactory ''allPoolsLength'' [] h) as_big;
     poolAddress \<leftarrow> Option.bind (view W dmmFactory ''allPools'' [ABig (bn_sub B n (bn_from B 1))] h) as_str;
     Some (attach ownerAddress ''DMMPool'' poolAddress, h)
   }"

definition initialize_kyber ::
  "'b world \<Rightarrow> 'b bn_api \<Rightarrow> string \<Rightarrow> string \<Rightarrow> string \<Rightarrow> string \<Rightarrow> string \<Rightarrow> 'b history \<Rightarrow>
   (kyber_fixture \<times> 'b history) option"
where
  "initialize_kyber W B ownerAddress account weth wbtc dai h = do {
     (dmmFactory, h) \<leftarrow> deployDMMFactory W ownerAddress account h;
     (dmmRouter, h) \<leftarrow> deployDMMRouter02 W ownerAddress (addr dmmFactory) weth h;
     supply \<leftarrow> ether B ''100000'';
     (knc, h) \<leftarrow> deployTokenMock W B ownerAddress account (Some (ABig supply)) (Some (ANum 18)) None None h;
     (kncWethPool, h) \<leftarrow> createNewDMMPool W B ownerAddress dmmFactory weth (addr knc) (bn_from B 19000) h;
     (wethDaiPool, h) \<leftarrow> createNewDMMPool W B ownerAddress dmmFactory weth dai (bn_from B 10000) h;
     (wethWbtcPool, h) \<leftarrow> createNewDMMPool W B ownerAddress dmmFactory weth wbtc (bn_from B 15000) h;
     Some (\<lparr>kf_owner = account, kf_knc = knc, kf_dmmFactory = dmmFactory, kf_dmmRouter = dmmRouter,
        kf_kncWethPool = kncWethPool, kf_wethDaiPool = wethDaiPool, kf_wethWbtcPool = wethWbtcPool\<rparr>, h)
   }"

subsection \<open>\<^verbatim>\<open>balancerFixture.ts\<close>\<close>

record balancer_fixture =
  bf_owner :: string
  bf_factory :: contract
  bf_exchange :: contract
  bf_registry :: contract
  bf_wethDaiPool :: contract
  bf_wethWbtcPool :: contract
  bf_wbtcDaiPool :: contract

text \<open>The receipt of a transaction has logs, each with its topics; the pool's address is the last
  40 digits of the third topic of the first log with the topic of \<^verbatim>\<open>LOG_NEW_POOL\<close>. The receipt is
  an argument, \<open>None\<close> when it has no logs field; a log or a topic that is not there throws.\<close>

definition NEW_POOL_TOPIC :: string where
  "NEW_POOL_TOPIC = ''0x8ccec77b0cb63ac2cafd0f5de8cdfadab91ce656d262240ba8a6343bccc5f945''"

definition getPoolAddressFromTransaction :: "string list list option \<Rightarrow> string option" where
  "getPoolAddressFromTransaction receipt = do {
     receiptLogs \<leftarrow> receipt;
     let poolLogs = filter (\<lambda>topics. NEW_POOL_TOPIC \<in> set topics) receiptLogs;
     case poolLogs of [] \<Rightarrow> None
     | topics # _ \<Rightarrow> if length topics \<le> 2 then None else Some (''0x'' @ drop 26 (topics ! 2))
   }"

definition createNewPool ::
  "'b world \<Rightarrow> 'b bn_api \<Rightarrow> ('b history \<Rightarrow> string list list option) \<Rightarrow> string \<Rightarrow> contract \<Rightarrow> contract \<Rightarrow>
   contract \<Rightarrow> 'b \<Rightarrow> 'b \<Rightarrow> 'b deployment"
where
  "createNewPool W B receipt ownerAddress factory tokenOne tokenTwo tokenOneBalance tokenTwoBalance h = do {
     h \<leftarrow> send W factory ''newBPool'' [] h;
     poolAddress \<leftarrow> getPoolAddressFromTransaction (receipt h);
     let pool = attach ownerAddress ''BPool'' poolAddress;
     h \<leftarrow> send W (connect tokenOne ownerAddress) ''approve'' [AStr poolAddress, ABig tokenOneBalance] h;
     five \<leftarrow> ether B ''5'';
     h \<leftarrow> send W (connect pool ownerAddress) ''bind'' [AStr (addr tokenOne), ABig tokenOneBalance, ABig five] h;
     h \<leftarrow> send W (connect tokenTwo ownerAddress) ''approve'' [AStr poolAddress, ABig tokenTwoBalance] h;
     h \<leftarrow> send W pool ''bind'' [AStr (addr tokenTwo), ABig tokenTwoBalance, ABig five] h;
     h \<leftarrow> send W pool ''setPublicSwap'' [ABool True] h;
     Some (pool, h)
   }"

definition initialize_balancer ::
  "'b world \<Rightarrow> 'b bn_api \<Rightarrow> ('b history \<Rightarrow> string list list option) \<Rightarrow> string \<Rightarrow> string \<Rightarrow> contract \<Rightarrow>
   contract \<Rightarrow> contract \<Rightarrow> 'b history \<Rightarrow> (balancer_fixture \<times> 'b history) option"
where
  "initialize_balancer W B receipt ownerAddress account weth wbtc dai h = do {
     (factory, h) \<leftarrow> deployB__factory W ownerAddress h;
     e1 \<leftarrow> ether B ''400'';
     e2 \<leftarrow> ether B ''92000'';
     (wethDaiPool, h) \<leftarrow> createNewPool W B receipt ownerAddress factory weth dai e1 e2 h;
     e3 \<leftarrow> ether B ''391.3043'';
     b10 \<leftarrow> bitcoin B 10;
     (wethWbtcPool, h) \<leftarrow> createNewPool W B receipt ownerAddress factory wbtc weth e3 b10 h;
     e4 \<leftarrow> ether B ''90000'';
     (wbtcDaiPool, h) \<leftarrow> createNewPool W B receipt ownerAddress factory wbtc dai b10 e4 h;
     (registry, h) \<leftarrow> deployBRegistry W ownerAddress (addr factory) h;
     (exchange, h) \<leftarrow> deployExchangeProxy W ownerAddress (addr weth) h;
     h \<leftarrow> send W registry ''addPoolPair'' [AStr (addr wethDaiPool), AStr (addr weth), AStr (addr dai)] h;
     h \<leftarrow> send W registry ''addPoolPair'' [AStr (addr wethWbtcPool), AStr (addr weth), AStr (addr wbtc)] h;
     h \<leftarrow> send W registry ''addPoolPair'' [AStr (addr wbtcDaiPool), AStr (addr wbtc), AStr (addr dai)] h;
     h \<leftarrow> send W registry ''sortPools'' [AList [AStr (addr weth), AStr (addr dai)], ABig (ONE B)] h;
     h \<leftarrow> send W registry ''sortPools'' [AList [AStr (addr wbtc), AStr (addr dai)], ABig (ONE B)] h;
     h \<leftarrow> send W registry ''sortPools'' [AList [AStr (addr weth), AStr (addr wbtc)], ABig (ONE B)] h;
     h \<leftarrow> send W exchange ''setRegistry'' [AStr (addr registry)] h;
     Some (\<lparr>bf_owner = account, bf_factory = factory, bf_exchange = exchange, bf_registry = registry,
        bf_wethDaiPool = wethDaiPool, bf_wethWbtcPool = wethWbtcPool, bf_wbtcDaiPool = wbtcDaiPool\<rparr>, h)
   }"

subsection \<open>\<^verbatim>\<open>curveFixture.ts\<close>\<close>

record curve_pool =
  cp_poolToken :: contract
  cp_stableSwap :: contract
  cp_deposit :: contract

record curve_dao =
  cd_crvToken :: contract
  cd_gaugeController :: contract
  cd_minter :: contract

definition initializePool_curve ::
  "'b world \<Rightarrow> string \<Rightarrow> string list \<Rightarrow> 'b history \<Rightarrow> (curve_pool \<times> 'b history) option"
where
  "initializePool_curve W ownerAddress tokens h = do {
     (poolToken, h) \<leftarrow> deployCurvePoolERC20 W ownerAddress ''Curve.fi DAI/USDC/USDT/sUSD'' ''crvUSD''
        (Some (ANum 18)) (ANum 0) h;
     (stableSwap, h) \<leftarrow> deployStableswap W ownerAddress tokens tokens (addr poolToken) None None h;
     (deposit, h) \<leftarrow> deployCurveDeposit W ownerAddress tokens tokens (addr stableSwap) (addr poolToken) h;
     h \<leftarrow> send W poolToken ''set_minter'' [AStr (addr stableSwap)] h;
     Some (\<lparr>cp_poolToken = poolToken, cp_stableSwap = stableSwap, cp_deposit = deposit\<rparr>, h)
   }"

definition initializeDAO ::
  "'b world \<Rightarrow> 'b bn_api \<Rightarrow> string \<Rightarrow> 'b history \<Rightarrow> (curve_dao \<times> 'b history) option"
where
  "initializeDAO W B ownerAddress h = do {
     (crvToken, h) \<leftarrow> deployCrvToken W ownerAddress ''Curve DAO Token'' ''CRV'' None h;
     (gaugeController, h) \<leftarrow> deployGaugeController W ownerAddress (addr crvToken) (addr crvToken) h;
     half \<leftarrow> ether B ''0.5'';
     h \<leftarrow> send W gaugeController ''add_type(string,uint256)'' [AStr ''Liquidity'', ABig half] h;
     (minter, h) \<leftarrow> deployMinter W ownerAddress (addr crvToken) (addr gaugeController) h;
     h \<leftarrow> send W crvToken ''set_minter'' [AStr (addr minter)] h;
     Some (\<lparr>cd_crvToken = crvToken, cd_gaugeController = gaugeController, cd_minter = minter\<rparr>, h)
   }"

definition initializeGauge ::
  "'b world \<Rightarrow> 'b bn_api \<Rightarrow> string \<Rightarrow> curve_dao \<Rightarrow> string \<Rightarrow> 'b deployment"
where
  "initializeGauge W B ownerAddress fx lpToken h = do {
     (gauge, h) \<leftarrow> deployLiquidityGauge W ownerAddress lpToken (addr (cd_minter fx)) h;
     one \<leftarrow> ether B ''1'';
     h \<leftarrow> send W (cd_gaugeController fx) ''add_gauge(address,int128,uint256)''
        [AStr (addr gauge), ANum 0, ABig one] h;
     Some (gauge, h)
   }"

definition initializeGaugeRewards ::
  "'b world \<Rightarrow> 'b bn_api \<Rightarrow> string \<Rightarrow> curve_dao \<Rightarrow> string \<Rightarrow> string \<Rightarrow> string \<Rightarrow> 'b deployment"
where
  "initializeGaugeRewards W B ownerAddress fx lpToken rewardContract rewardedToken h = do {
     (gauge, h) \<leftarrow> deployLiquidityGaugeReward W ownerAddress lpToken (addr (cd_minter fx)) rewardContract rewardedToken h;
     one \<leftarrow> ether B ''1'';
     h \<leftarrow> send W (cd_gaugeController fx) ''add_gauge(address,int128,uint256)''
        [AStr (addr gauge), ANum 0, ABig one] h;
     Some (gauge, h)
   }"

definition getForkedCurveStEthStableswapPool :: "string \<Rightarrow> contract option" where
  "getForkedCurveStEthStableswapPool s = getCurveStEthStableswapMock s"

definition getForkedWethStethCurveStableswapPool :: "string \<Rightarrow> contract option" where
  "getForkedWethStethCurveStableswapPool s = getCurveWethStethStableswapMock s"

subsection \<open>\<^verbatim>\<open>yearnFixture.ts\<close>\<close>

definition initialize_yearn :: "'b world \<Rightarrow> string \<Rightarrow> 'b deployment" where
  "initialize_yearn W ownerAddress = deployRegistry W ownerAddress"

definition createAndEnableVaultWithStrategyMock ::
  "'b world \<Rightarrow> string \<Rightarrow> contract \<Rightarrow> string \<Rightarrow> string \<Rightarrow> string \<Rightarrow> string \<Rightarrow> string \<Rightarrow> string \<Rightarrow> 'b \<Rightarrow>
   'b deployment"
where
  "createAndEnableVaultWithStrategyMock W ownerAddress registry underlying governance guardian rewards
     name symbol depositLimit h = do {
     (emptyVault, h) \<leftarrow> deployVault W ownerAddress h;
     h \<leftarrow> send W emptyVault ''initialize(address,address,address,string,string,address)''
        [AStr underlying, AStr governance, AStr rewards, AStr name, AStr symbol, AStr guardian] h;
     h \<leftarrow> send W emptyVault ''setGovernance'' [AStr ownerAddress] h;
     h \<leftarrow> send W emptyVault ''acceptGovernance'' [] h;
     h \<leftarrow> send W registry ''newRelease'' [AStr (addr emptyVault)] h;
     h \<leftarrow> send W registry ''newVault(address,address,address,string,string)''
        [AStr underlying, AStr guardian, AStr rewards, AStr name, AStr symbol] h;
     vaultAddress \<leftarrow> Option.bind (view W registry ''latestVault'' [AStr underlying] h) as_str;
     let vault = getVault ownerAddress vaultAddress;
     h \<leftarrow> send W vault ''setDepositLimit'' [ABig depositLimit] h;
     h \<leftarrow> send W vault ''setManagementFee'' [ANum 0] h;
     (strategy, h) \<leftarrow> deployYearnStrategyMock W ownerAddress (addr vault) h;
     h \<leftarrow> send W vault ''addStrategy'' [AStr (addr strategy), ANum 9800, ANum 0, ANum 1000, ANum 0] h;
     h \<leftarrow> send W strategy ''setKeeper'' [AStr ownerAddress] h;
     h \<leftarrow> send W strategy ''setRewards'' [AStr rewards] h;
     Some (vault, h)
   }"

subsection \<open>Properties\<close>

context chain
begin

lemma address_below_checksum: "address_below (checksum W a) (checksum W b) \<longleftrightarrow> a < b"
  by (simp add: address_below_def checksum_order)

text \<open>The contracts of the Uniswap fixture and the transactions it makes.\<close>

lemma createNewPair_steps:
  assumes "createNewPair W B s factory t1 t2 h = Some (pool, h')"
  shows "calls h' = calls h @ [(addr factory, ''createPair'', [AStr t1, AStr t2])] \<and> addresses h' = addresses h \<and>
    (confined h0 h \<and> parse_address (addr factory) \<notin> set (addresses h0) \<longrightarrow> confined h0 h')"
  using assms by (auto simp: createNewPair_def send_Some intro: confined_Cons)

lemma createNewStakingPair_steps:
  assumes "createNewStakingPair W B s account factory uni t1 t2 h = Some ((pool, staking), h')"
  shows "\<exists>e. ether B ''5000000'' = Some e \<and> calls h' = calls h @
      [(addr factory, ''createPair'', [AStr t1, AStr t2]),
       (addr uni, ''transfer'', [AStr (addr staking), ABig e]),
       (addr staking, ''notifyRewardAmount'', [ABig e])] \<and>
    (confined h0 h \<and> parse_address (addr factory) \<notin> set (addresses h0) \<and> parse_address (addr uni) \<notin> set (addresses h0)
      \<longrightarrow> confined h0 h')"
proof -
  from assms obtain h1 h2 e where 1: "createNewPair W B s factory t1 t2 h = Some (pool, h1)"
    "deploy W s ''StakingRewards'' [] [AStr account, AStr (addr uni), AStr (addr pool)] h1 = Some (staking, h2)"
    "ether B ''5000000'' = Some e"
    "h' = Sent account (addr staking) ''notifyRewardAmount'' [ABig e] None #
      Sent account (addr uni) ''transfer'' [AStr (addr staking), ABig e] None # h2"
    by (auto simp: createNewStakingPair_def deployStakingRewards_def send_Some connect_def)
  have "confined h0 h'" if c: "confined h0 h" and f: "parse_address (addr factory) \<notin> set (addresses h0)"
    and u: "parse_address (addr uni) \<notin> set (addresses h0)"
  proof -
    have "confined h0 h1" using createNewPair_steps [OF 1(1), of h0] c f by simp
    from confined_deploy [OF this 1(2)] show ?thesis
      unfolding 1(4) using u by (intro confined_Cons) auto
  qed
  then show ?thesis
    using createNewPair_steps [OF 1(1)] calls_deploy [OF 1(2)] 1(3,4) by auto
qed

end

text \<open>\<^verbatim>\<open>getTokenOrder\<close> compares the spellings of two addresses, and so orders them as the chain does:
  on checksummed addresses, whose letters are in mixed case, it gives the numerically smaller one first,
  whichever way the two are passed.\<close>

lemma token_order_numeric:
  assumes "chain W"
  shows "getTokenOrder (checksum W a) (checksum W b) = (checksum W (min a b), checksum W (max a b))"
  using chain.address_below_checksum [OF assms, of a b] by (auto simp: getTokenOrder_def min_def max_def)

text \<open>The address that \<^verbatim>\<open>getPoolAddressFromTransaction\<close> reads is the one the factory logged: of the first
  \<^verbatim>\<open>LOG_NEW_POOL\<close> event, whatever other events surround it, the third topic as an address.\<close>

lemma pool_address_round_trip:
  assumes "\<forall>topics \<in> set before. NEW_POOL_TOPIC \<notin> set topics"
  shows "getPoolAddressFromTransaction
      (Some (before @ [NEW_POOL_TOPIC, caller, ''0x'' @ hex_pad 64 (unat (a :: address))] # others)) =
    Some (address_lower (unat a))"
proof -
  have "unat a < 16 ^ 40" using unsigned_less [of a, where 'a = nat] by simp
  from hex_pad_leading [OF this, of 24] have "hex_pad 64 (unat a) = replicate 24 (CHR ''0'') @ hex_pad 40 (unat a)"
    by simp
  moreover have "filter (\<lambda>topics. NEW_POOL_TOPIC \<in> set topics) before = []"
    using assms by (simp add: filter_empty_conv)
  ultimately show ?thesis
    by (simp add: getPoolAddressFromTransaction_def address_lower_def)
qed

text \<open>\<^verbatim>\<open>UniswapFixture.initialize\<close> makes seven transactions and no other: the three pairs, and for each of
  the first two a deposit of five million UNI in its staking contract before the contract is told of
  it. It sends nothing to a contract that was there before it.\<close>

lemma uniswap_fixture_transactions:
  assumes "chain W" and "initialize_uniswap W B ownerAddress account weth wbtc dai h = Some (fx, h')"
  shows "\<exists>fiveMillion. ether B ''5000000'' = Some fiveMillion \<and> confined h h' \<and>
    calls h' = calls h @ [
      (addr (uf_factory fx), ''createPair'', [AStr weth, AStr dai]),
      (addr (uf_uni fx), ''transfer'', [AStr (addr (uf_wethDaiStakingRewards fx)), ABig fiveMillion]),
      (addr (uf_wethDaiStakingRewards fx), ''notifyRewardAmount'', [ABig fiveMillion]),
      (addr (uf_factory fx), ''createPair'', [AStr weth, AStr wbtc]),
      (addr (uf_uni fx), ''transfer'', [AStr (addr (uf_wethWbtcStakingRewards fx)), ABig fiveMillion]),
      (addr (uf_wethWbtcStakingRewards fx), ''notifyRewardAmount'', [ABig fiveMillion]),
      (addr (uf_factory fx), ''createPair'', [AStr weth, AStr (addr (uf_uni fx))])]"
proof -
  from assms(2) obtain h1 h2 h3 h4 h5 h6 h7 xs ys zs where
    d: "deploy W ownerAddress ''UniswapV2Factory'' [] [AStr account] h = Some (uf_factory fx, h1)"
      "deploy W ownerAddress ''UniswapV2Router02'' [] xs h1 = Some (uf_router fx, h2)"
      "deploy W ownerAddress ''Uni'' [] ys h2 = Some (uf_uni fx, h3)"
      "deploy W ownerAddress ''UniswapTimelock'' [] zs h3 = Some (uf_uniswapTimelock fx, h4)"
      "deploy W ownerAddress ''UniswapGovernorAlpha'' [] [AStr (addr (uf_uniswapTimelock fx)), AStr (addr (uf_uni fx))] h4 =
        Some (uf_uniswapGovernorAlpha fx, h5)"
    and p: "createNewStakingPair W B ownerAddress account (uf_factory fx) (uf_uni fx) weth dai h5 =
        Some ((uf_wethDaiPool fx, uf_wethDaiStakingRewards fx), h6)"
      "createNewStakingPair W B ownerAddress account (uf_factory fx) (uf_uni fx) weth wbtc h6 =
        Some ((uf_wethWbtcPool fx, uf_wethWbtcStakingRewards fx), h7)"
      "createNewPair W B ownerAddress (uf_factory fx) weth (addr (uf_uni fx)) h7 = Some (uf_uniWethPool fx, h')"
    by (auto simp: initialize_uniswap_def deployUniswapV2Factory_def deployUniswapV2Router02_def deployUni_def
        deployUniswapTimelock_def deployUniswapGovernorAlpha_def)
  note c1 = chain.confined_deploy [OF assms(1) confined_refl d(1)]
  note c3 = chain.confined_deploy [OF assms(1) chain.confined_deploy(1) [OF assms(1) c1(1) d(2)] d(3)]
  note c5 = chain.confined_deploy(1) [OF assms(1) chain.confined_deploy(1) [OF assms(1) c3(1) d(4)] d(5)]
  note s = chain.createNewStakingPair_steps [OF assms(1) p(1), of h] chain.createNewStakingPair_steps [OF assms(1) p(2), of h]
    chain.createNewPair_steps [OF assms(1) p(3), of h]
  from s c1(2) c3(2) c5 d [THEN calls_deploy] show ?thesis by auto
qed

text \<open>A chain whose views answer with a block, a length and a pool, on which the fixture runs to its end.\<close>

definition pool_views :: "int history \<Rightarrow> string \<Rightarrow> string \<Rightarrow> string \<Rightarrow> int arg list \<Rightarrow> int arg option" where
  "pool_views h s c m xs = Some (if m = ''getBlock'' then AObj [(''timestamp'', ANum 1600000000)]
     else if m = ''allPairsLength'' then ABig 1 else AStr ''pool'')"

lemma createNewPair_runs:
  assumes "room k h" and "\<And>c h'. room k h' \<Longrightarrow> runs j (g c h')"
  shows "runs j (Option.bind (createNewPair (answering pool_views) int_bn s factory t1 t2 h) (case_prod g))"
  using assms by (simp add: createNewPair_def pool_views_def send_def send_value_def answering_def view_def room_def
      del: option_bind_Some)

lemma five_million: "ether int_bn ''5000000'' = Some 5000000000000000000000000"
  by code_simp

lemma createNewStakingPair_runs:
  assumes "room (Suc k) h"
  shows "runs k (createNewStakingPair (answering pool_views) int_bn s account factory uni t1 t2 h)"
  unfolding createNewStakingPair_def five_million deployStakingRewards_def Option.bind.simps
  by (rule createNewPair_runs [OF assms])
    ((rule runs_deploy, assumption) | (rule runs_send, assumption) | (rule runs_Some, assumption))+

lemma uniswap_runs: "runs 0 (initialize_uniswap (answering pool_views) int_bn s account weth wbtc dai [])"
proof -
  have r: "room (Suc (Suc (Suc (Suc (Suc (Suc (Suc 0))))))) ([] :: int history)" by (rule room_Nil) simp
  have t: "latest_timestamp (answering pool_views) h = Some 1600000000" for h
    by (simp add: latest_timestamp_def pool_views_def del: option_bind_Some)
  have n: "bn_from_number int_bn 1600000000 = Some 1600000000" by (simp add: int_bn_def)
  show ?thesis
    unfolding initialize_uniswap_def t n deployUniswapV2Factory_def deployUniswapV2Router02_def deployUni_def
      deployUniswapTimelock_def deployUniswapGovernorAlpha_def Option.bind.simps
    by (rule runs_deploy [OF r])
      ((rule runs_deploy, assumption) | (rule createNewPair_runs, assumption) |
       (rule runs_bind_pair, rule createNewStakingPair_runs, assumption) | (rule runs_Some, assumption))+
qed

end
