(* ===== verification/Timelock.thy ===== *)
theory Timelock
  imports OpenZeppelin
begin

text \<open>
  \<^verbatim>\<open>external/contracts/compound/CompoundTimelock.sol\<close>: the contract that the Compound fixture hands
  to a new governor. A queued transaction can be executed from its \<open>eta\<close> on, for two weeks, and the
  contract changes its own delay and admin only through itself.

  The contract hashes a transaction with \<^verbatim>\<open>keccak256(abi.encode(...))\<close> and packs a signature in
  front of its data: \<open>hash\<close> and \<open>pack\<close> are arguments, functions of the EVM. \<open>decode\<close> says which function
  of the contract some call data selects. The target of an execution runs arbitrary code, which
  may call back: the step relation \<open>performs\<close> runs whatever list of calls it makes, each by a sender
  other than the contract itself.

  The state carries the events with the timestamps of their blocks.
\<close>

record 'd transaction =
  tx_target :: address
  tx_value :: uint256
  tx_signature :: string
  tx_data :: 'd
  tx_eta :: uint256

datatype 'd timelock_event =
    NewAdmin address
  | NewPendingAdmin address
  | NewDelay uint256
  | CancelTransaction "'d transaction"
  | ExecuteTransaction "'d transaction"
  | QueueTransaction "'d transaction"

record ('d, 'h) timelock =
  tl_admin :: address
  tl_pendingAdmin :: address
  tl_delay :: uint256
  tl_queuedTransactions :: "'h \<Rightarrow> bool"
  tl_events :: "(uint256 \<times> 'd timelock_event) list"

definition GRACE_PERIOD :: uint256 where
  "GRACE_PERIOD = 14 * 24 * 60 * 60"

definition MINIMUM_DELAY :: uint256 where
  "MINIMUM_DELAY = 2 * 24 * 60 * 60"

definition MAXIMUM_DELAY :: uint256 where
  "MAXIMUM_DELAY = 30 * 24 * 60 * 60"

text \<open>The \<^verbatim>\<open>SafeMath.add\<close> of the same file.\<close>

definition safe_add :: "uint256 \<Rightarrow> uint256 \<Rightarrow> revert + uint256" where
  "safe_add a b = (let c = a + b in
     and_then (require (a \<le> c) ''SafeMath: addition overflow'') (\<lambda>_. Inr c))"

definition emit :: "uint256 \<Rightarrow> 'd timelock_event \<Rightarrow> ('d, 'h) timelock \<Rightarrow> ('d, 'h) timelock" where
  "emit now e s = s\<lparr>tl_events := (now, e) # tl_events s\<rparr>"

subsection \<open>The functions\<close>

definition construct_timelock :: "address \<Rightarrow> uint256 \<Rightarrow> revert + ('d, 'h) timelock" where
  "construct_timelock new_admin new_delay =
     and_then (require (MINIMUM_DELAY \<le> new_delay) ''Timelock::constructor: Delay must exceed minimum delay.'') (\<lambda>_.
     and_then (require (new_delay \<le> MAXIMUM_DELAY) ''Timelock::setDelay: Delay must not exceed maximum delay.'') (\<lambda>_.
     Inr \<lparr>tl_admin = new_admin, tl_pendingAdmin = 0, tl_delay = new_delay, tl_queuedTransactions = (\<lambda>h. False),
       tl_events = []\<rparr>))"

definition setDelay :: "address \<Rightarrow> uint256 \<Rightarrow> address \<Rightarrow> uint256 \<Rightarrow> ('d, 'h) timelock \<Rightarrow> revert + ('d, 'h) timelock" where
  "setDelay this now sender new_delay s =
     and_then (require (sender = this) ''Timelock::setDelay: Call must come from Timelock.'') (\<lambda>_.
     and_then (require (MINIMUM_DELAY \<le> new_delay) ''Timelock::setDelay: Delay must exceed minimum delay.'') (\<lambda>_.
     and_then (require (new_delay \<le> MAXIMUM_DELAY) ''Timelock::setDelay: Delay must not exceed maximum delay.'') (\<lambda>_.
     Inr (emit now (NewDelay new_delay) (s\<lparr>tl_delay := new_delay\<rparr>)))))"

definition acceptAdmin :: "uint256 \<Rightarrow> address \<Rightarrow> ('d, 'h) timelock \<Rightarrow> revert + ('d, 'h) timelock" where
  "acceptAdmin now sender s =
     and_then (require (sender = tl_pendingAdmin s) ''Timelock::acceptAdmin: Call must come from pendingAdmin.'') (\<lambda>_.
     Inr (emit now (NewAdmin sender) (s\<lparr>tl_admin := sender, tl_pendingAdmin := 0\<rparr>)))"

definition setPendingAdmin :: "address \<Rightarrow> uint256 \<Rightarrow> address \<Rightarrow> address \<Rightarrow> ('d, 'h) timelock \<Rightarrow> revert + ('d, 'h) timelock" where
  "setPendingAdmin this now sender new_admin s =
     and_then (require (sender = this) ''Timelock::setPendingAdmin: Call must come from Timelock.'') (\<lambda>_.
     Inr (emit now (NewPendingAdmin new_admin) (s\<lparr>tl_pendingAdmin := new_admin\<rparr>)))"

definition queueTransaction ::
  "('d transaction \<Rightarrow> 'h) \<Rightarrow> uint256 \<Rightarrow> address \<Rightarrow> 'd transaction \<Rightarrow> ('d, 'h) timelock \<Rightarrow> revert + ('d, 'h) timelock"
where
  "queueTransaction hash now sender tx s =
     and_then (require (sender = tl_admin s) ''Timelock::queueTransaction: Call must come from admin.'') (\<lambda>_.
     and_then (safe_add now (tl_delay s)) (\<lambda>earliest.
     and_then (require (earliest \<le> tx_eta tx)
       ''Timelock::queueTransaction: Estimated execution block must satisfy delay.'') (\<lambda>_.
     Inr (emit now (QueueTransaction tx)
       (s\<lparr>tl_queuedTransactions := (tl_queuedTransactions s)(hash tx := True)\<rparr>)))))"

definition cancelTransaction ::
  "('d transaction \<Rightarrow> 'h) \<Rightarrow> uint256 \<Rightarrow> address \<Rightarrow> 'd transaction \<Rightarrow> ('d, 'h) timelock \<Rightarrow> revert + ('d, 'h) timelock"
where
  "cancelTransaction hash now sender tx s =
     and_then (require (sender = tl_admin s) ''Timelock::cancelTransaction: Call must come from admin.'') (\<lambda>_.
     Inr (emit now (CancelTransaction tx)
       (s\<lparr>tl_queuedTransactions := (tl_queuedTransactions s)(hash tx := False)\<rparr>)))"

text \<open>\<^verbatim>\<open>executeTransaction\<close> up to the call of the target: the guards and the reset of the queue. After the
  call it emits its event.\<close>

definition executeTransaction_guards ::
  "('d transaction \<Rightarrow> 'h) \<Rightarrow> uint256 \<Rightarrow> address \<Rightarrow> 'd transaction \<Rightarrow> ('d, 'h) timelock \<Rightarrow> revert + ('d, 'h) timelock"
where
  "executeTransaction_guards hash now sender tx s =
     and_then (require (sender = tl_admin s) ''Timelock::executeTransaction: Call must come from admin.'') (\<lambda>_.
     and_then (require (tl_queuedTransactions s (hash tx))
       ''Timelock::executeTransaction: Transaction hasn't been queued.'') (\<lambda>_.
     and_then (require (tx_eta tx \<le> now)
       ''Timelock::executeTransaction: Transaction hasn't surpassed time lock.'') (\<lambda>_.
     and_then (safe_add (tx_eta tx) GRACE_PERIOD) (\<lambda>latest.
     and_then (require (now \<le> latest) ''Timelock::executeTransaction: Transaction is stale.'') (\<lambda>_.
     Inr (s\<lparr>tl_queuedTransactions := (tl_queuedTransactions s)(hash tx := False)\<rparr>))))))"

definition call_data :: "(string \<Rightarrow> 'd \<Rightarrow> 'd) \<Rightarrow> 'd transaction \<Rightarrow> 'd" where
  "call_data pack tx = (if tx_signature tx = [] then tx_data tx else pack (tx_signature tx) (tx_data tx))"

datatype 'd timelock_call =
    SetDelay uint256
  | AcceptAdmin
  | SetPendingAdmin address
  | Queue "'d transaction"
  | Cancel "'d transaction"
  | Execute "'d transaction"
  | Fallback

text \<open>The calls that run no other contract; the fallback accepts anything.\<close>

fun simple_call ::
  "('d transaction \<Rightarrow> 'h) \<Rightarrow> address \<Rightarrow> uint256 \<Rightarrow> address \<Rightarrow> 'd timelock_call \<Rightarrow> ('d, 'h) timelock \<Rightarrow>
   revert + ('d, 'h) timelock"
where
  "simple_call hash this now sender (SetDelay d) s = setDelay this now sender d s"
| "simple_call hash this now sender AcceptAdmin s = acceptAdmin now sender s"
| "simple_call hash this now sender (SetPendingAdmin a) s = setPendingAdmin this now sender a s"
| "simple_call hash this now sender (Queue tx) s = queueTransaction hash now sender tx s"
| "simple_call hash this now sender (Cancel tx) s = cancelTransaction hash now sender tx s"
| "simple_call hash this now sender (Execute tx) s = Inl InvalidOpcode"
| "simple_call hash this now sender Fallback s = Inr s"

text \<open>Calls that return, within one block. An execution whose target is the contract itself calls the
  function its data selects, as the contract; any other target makes some calls and returns.\<close>

inductive
  performs :: "('d transaction \<Rightarrow> 'h) \<Rightarrow> (string \<Rightarrow> 'd \<Rightarrow> 'd) \<Rightarrow> ('d \<Rightarrow> 'd timelock_call) \<Rightarrow> address \<Rightarrow> uint256 \<Rightarrow>
    address \<Rightarrow> 'd timelock_call \<Rightarrow> ('d, 'h) timelock \<Rightarrow> ('d, 'h) timelock \<Rightarrow> bool"
  and calls_back :: "('d transaction \<Rightarrow> 'h) \<Rightarrow> (string \<Rightarrow> 'd \<Rightarrow> 'd) \<Rightarrow> ('d \<Rightarrow> 'd timelock_call) \<Rightarrow> address \<Rightarrow> uint256 \<Rightarrow>
    ('d, 'h) timelock \<Rightarrow> ('d, 'h) timelock \<Rightarrow> bool"
  for hash :: "'d transaction \<Rightarrow> 'h" and pack :: "string \<Rightarrow> 'd \<Rightarrow> 'd" and decode :: "'d \<Rightarrow> 'd timelock_call"
    and this :: address and now :: uint256
where
  simple: "simple_call hash this now sender call s = Inr s' \<Longrightarrow> performs hash pack decode this now sender call s s'"
| execute_self: "executeTransaction_guards hash now sender tx s = Inr s1 \<Longrightarrow> tx_target tx = this \<Longrightarrow>
    performs hash pack decode this now this (decode (call_data pack tx)) s1 s2 \<Longrightarrow>
    performs hash pack decode this now sender (Execute tx) s (emit now (ExecuteTransaction tx) s2)"
| execute_other: "executeTransaction_guards hash now sender tx s = Inr s1 \<Longrightarrow> tx_target tx \<noteq> this \<Longrightarrow>
    calls_back hash pack decode this now s1 s2 \<Longrightarrow>
    performs hash pack decode this now sender (Execute tx) s (emit now (ExecuteTransaction tx) s2)"
| no_calls: "calls_back hash pack decode this now s s"
| one_call: "sender \<noteq> this \<Longrightarrow> performs hash pack decode this now sender call s s1 \<Longrightarrow>
    calls_back hash pack decode this now s1 s2 \<Longrightarrow> calls_back hash pack decode this now s s2"

text \<open>What a timelock can become: constructed, then called by others.\<close>

inductive timelock_reachable ::
  "('d transaction \<Rightarrow> 'h) \<Rightarrow> (string \<Rightarrow> 'd \<Rightarrow> 'd) \<Rightarrow> ('d \<Rightarrow> 'd timelock_call) \<Rightarrow> address \<Rightarrow> ('d, 'h) timelock \<Rightarrow> bool"
  for hash pack decode this
where
  constructed: "construct_timelock a d = Inr s \<Longrightarrow> timelock_reachable hash pack decode this s"
| called: "timelock_reachable hash pack decode this s \<Longrightarrow> sender \<noteq> this \<Longrightarrow>
    performs hash pack decode this now sender call s s' \<Longrightarrow> timelock_reachable hash pack decode this s'"

subsection \<open>Invariants\<close>

lemmas timelock_ops = setDelay_def acceptAdmin_def setPendingAdmin_def queueTransaction_def cancelTransaction_def
  executeTransaction_guards_def emit_def

lemma safe_add_Inr: "safe_add a b = Inr c \<longleftrightarrow> uint c = uint a + uint b"
proof -
  have "a \<le> a + b \<longleftrightarrow> uint (a + b) = uint a + uint b" by (rule uint_plus_simple_iff)
  moreover have "c = a + b" if "uint c = uint a + uint b"
    using that uint_fits [of c] by (metis fits_uint_def word_of_int_uint wi_hom_add)
  ultimately show ?thesis by (auto simp: safe_add_def Let_def)
qed

text \<open>A transaction was queued in time: by a call whose block is at least the minimal delay before its
  eta.\<close>

definition queued_in_time :: "('d, 'h) timelock \<Rightarrow> 'd transaction \<Rightarrow> bool" where
  "queued_in_time s tx \<longleftrightarrow> (\<exists>q. (q, QueueTransaction tx) \<in> set (tl_events s) \<and>
     uint q + uint MINIMUM_DELAY \<le> uint (tx_eta tx))"

lemma queued_in_time_mono:
  "queued_in_time s tx \<Longrightarrow> set (tl_events s) \<subseteq> set (tl_events s') \<Longrightarrow> queued_in_time s' tx"
  by (auto simp: queued_in_time_def)

text \<open>The invariant: the delay is within its bounds, and what is queued was queued in time. An execution in
  the log was in its window, and queued in time.\<close>

definition timelock_inv :: "('d transaction \<Rightarrow> 'h) \<Rightarrow> ('d, 'h) timelock \<Rightarrow> bool" where
  "timelock_inv hash s \<longleftrightarrow> MINIMUM_DELAY \<le> tl_delay s \<and> tl_delay s \<le> MAXIMUM_DELAY \<and>
     (\<forall>h. tl_queuedTransactions s h \<longrightarrow> (\<exists>tx. hash tx = h \<and> queued_in_time s tx))"

definition log_ok :: "('d, 'h) timelock \<Rightarrow> bool" where
  "log_ok s \<longleftrightarrow> (\<forall>e tx. (e, ExecuteTransaction tx) \<in> set (tl_events s) \<longrightarrow>
     uint (tx_eta tx) \<le> uint e \<and> uint e \<le> uint (tx_eta tx) + uint GRACE_PERIOD \<and> queued_in_time s tx)"

text \<open>A step that adds no execution to the log and queues nothing late keeps both.\<close>

lemma inv_step:
  assumes "timelock_inv hash s" and "log_ok s" and "set (tl_events s) \<subseteq> set (tl_events s')"
    and "MINIMUM_DELAY \<le> tl_delay s' \<and> tl_delay s' \<le> MAXIMUM_DELAY"
    and "\<And>h. tl_queuedTransactions s' h \<Longrightarrow> tl_queuedTransactions s h \<or> (\<exists>tx. hash tx = h \<and> queued_in_time s' tx)"
    and "\<And>e tx. (e, ExecuteTransaction tx) \<in> set (tl_events s') \<Longrightarrow> (e, ExecuteTransaction tx) \<in> set (tl_events s) \<or>
      uint (tx_eta tx) \<le> uint e \<and> uint e \<le> uint (tx_eta tx) + uint GRACE_PERIOD \<and> queued_in_time s tx"
  shows "timelock_inv hash s' \<and> log_ok s'"
proof -
  note m = queued_in_time_mono [OF _ assms(3)]
  have "timelock_inv hash s'" using assms(1,4,5) m unfolding timelock_inv_def by blast
  moreover have "log_ok s'" using assms(2,6) m unfolding log_ok_def by blast
  ultimately show ?thesis ..
qed

lemma simple_call_inv:
  assumes "simple_call hash this now sender call s = Inr s'" and "timelock_inv hash s" and "log_ok s"
  shows "timelock_inv hash s' \<and> log_ok s' \<and> set (tl_events s) \<subseteq> set (tl_events s')"
proof (cases call)
  case (Queue tx)
  with assms(1) obtain earliest where e: "uint earliest = uint now + uint (tl_delay s)" "earliest \<le> tx_eta tx"
    and s': "s' = emit now (QueueTransaction tx) (s\<lparr>tl_queuedTransactions := (tl_queuedTransactions s)(hash tx := True)\<rparr>)"
    by (auto simp: queueTransaction_def safe_add_Inr)
  have "uint now + uint MINIMUM_DELAY \<le> uint (tx_eta tx)"
    using e assms(2) by (simp add: timelock_inv_def word_le_def)
  then have q: "queued_in_time s' tx" by (auto simp: s' queued_in_time_def emit_def)
  have "timelock_inv hash s' \<and> log_ok s'"
    by (rule inv_step [OF assms(2,3)])
      (use assms(2) q in \<open>auto simp: s' emit_def timelock_inv_def split: if_splits\<close>)
  then show ?thesis by (auto simp: s' emit_def)
next
  case (Cancel tx)
  with assms(1) have s': "s' = emit now (CancelTransaction tx)
      (s\<lparr>tl_queuedTransactions := (tl_queuedTransactions s)(hash tx := False)\<rparr>)"
    by (simp add: cancelTransaction_def)
  have "timelock_inv hash s' \<and> log_ok s'"
    by (rule inv_step [OF assms(2,3)]) (use assms(2) in \<open>auto simp: s' emit_def timelock_inv_def split: if_splits\<close>)
  then show ?thesis by (auto simp: s' emit_def)
next
  case (SetDelay d)
  with assms(1) have s': "s' = emit now (NewDelay d) (s\<lparr>tl_delay := d\<rparr>)" "MINIMUM_DELAY \<le> d" "d \<le> MAXIMUM_DELAY"
    by (simp_all add: setDelay_def)
  have "timelock_inv hash s' \<and> log_ok s'"
    by (rule inv_step [OF assms(2,3)]) (use s' in \<open>auto simp: emit_def\<close>)
  then show ?thesis by (auto simp: s' emit_def)
next
  case AcceptAdmin
  with assms(1) have s': "s' = emit now (NewAdmin sender) (s\<lparr>tl_admin := sender, tl_pendingAdmin := 0\<rparr>)"
    by (auto simp: acceptAdmin_def)
  have "timelock_inv hash s' \<and> log_ok s'"
    by (rule inv_step [OF assms(2,3)]) (use assms(2) in \<open>auto simp: s' emit_def timelock_inv_def\<close>)
  then show ?thesis by (auto simp: s' emit_def)
next
  case (SetPendingAdmin a)
  with assms(1) have s': "s' = emit now (NewPendingAdmin a) (s\<lparr>tl_pendingAdmin := a\<rparr>)"
    by (simp add: setPendingAdmin_def)
  have "timelock_inv hash s' \<and> log_ok s'"
    by (rule inv_step [OF assms(2,3)]) (use assms(2) in \<open>auto simp: s' emit_def timelock_inv_def\<close>)
  then show ?thesis by (auto simp: s' emit_def)
qed (use assms in auto)

lemma guards_Inr:
  "executeTransaction_guards hash now sender tx s = Inr s' \<longleftrightarrow> sender = tl_admin s \<and> tl_queuedTransactions s (hash tx) \<and>
     uint (tx_eta tx) \<le> uint now \<and> uint now \<le> uint (tx_eta tx) + uint GRACE_PERIOD \<and>
     uint (tx_eta tx) + uint GRACE_PERIOD < 2 ^ 256 \<and>
     s' = s\<lparr>tl_queuedTransactions := (tl_queuedTransactions s)(hash tx := False)\<rparr>"
proof -
  have "(\<exists>latest. safe_add (tx_eta tx) GRACE_PERIOD = Inr latest \<and> now \<le> latest) \<longleftrightarrow>
      uint (tx_eta tx) + uint GRACE_PERIOD < 2 ^ 256 \<and> uint now \<le> uint (tx_eta tx) + uint GRACE_PERIOD"
    using ex_uint [of "uint (tx_eta tx) + uint GRACE_PERIOD"]
    by (auto simp: safe_add_Inr word_le_def fits_uint_def)
  then show ?thesis by (auto simp: executeTransaction_guards_def word_le_def)
qed

lemma execute_inv:
  assumes "executeTransaction_guards hash now sender tx s = Inr s1" and "inj hash"
    and "timelock_inv hash s" and "log_ok s"
    and "timelock_inv hash s1 \<Longrightarrow> log_ok s1 \<Longrightarrow>
      timelock_inv hash s2 \<and> log_ok s2 \<and> set (tl_events s1) \<subseteq> set (tl_events s2)"
  shows "timelock_inv hash (emit now (ExecuteTransaction tx) s2) \<and> log_ok (emit now (ExecuteTransaction tx) s2) \<and>
    set (tl_events s) \<subseteq> set (tl_events (emit now (ExecuteTransaction tx) s2))"
proof -
  note g = assms(1) [unfolded guards_Inr]
  have s1: "timelock_inv hash s1 \<and> log_ok s1"
    by (rule inv_step [OF assms(3,4)]) (use g assms(3) in \<open>auto simp: timelock_inv_def split: if_splits\<close>)
  have ev: "tl_events s1 = tl_events s" using g by simp
  have q: "queued_in_time s tx"
    using g assms(3) injD [OF assms(2)] unfolding timelock_inv_def by blast
  from s1 assms(5) ev have s2: "timelock_inv hash s2" "log_ok s2" "set (tl_events s) \<subseteq> set (tl_events s2)" by auto
  have "timelock_inv hash (emit now (ExecuteTransaction tx) s2) \<and> log_ok (emit now (ExecuteTransaction tx) s2)"
    by (rule inv_step [OF s2(1,2)])
      (use s2 g queued_in_time_mono [OF q s2(3)] in \<open>auto simp: emit_def timelock_inv_def\<close>)
  then show ?thesis using s2(3) by (auto simp: emit_def)
qed

lemma performs_inv:
  "performs hash pack decode this now sender call s s' \<Longrightarrow> inj hash \<Longrightarrow> timelock_inv hash s \<Longrightarrow> log_ok s \<Longrightarrow>
     timelock_inv hash s' \<and> log_ok s' \<and> set (tl_events s) \<subseteq> set (tl_events s')"
  "calls_back hash pack decode this now s s' \<Longrightarrow> inj hash \<Longrightarrow> timelock_inv hash s \<Longrightarrow> log_ok s \<Longrightarrow>
     timelock_inv hash s' \<and> log_ok s' \<and> set (tl_events s) \<subseteq> set (tl_events s')"
proof (induction rule: performs_calls_back.inducts)
  case (simple sender call s s')
  then show ?case using simple_call_inv by blast
next
  case (execute_self sender tx s s1 s2)
  then show ?case by (intro execute_inv) auto
next
  case (execute_other sender tx s s1 s2)
  then show ?case by (intro execute_inv) auto
qed auto

lemma reachable_inv:
  "timelock_reachable hash pack decode this s \<Longrightarrow> inj hash \<Longrightarrow> timelock_inv hash s \<and> log_ok s"
proof (induction rule: timelock_reachable.induct)
  case (constructed a d s)
  then show ?case by (auto simp: construct_timelock_def timelock_inv_def log_ok_def)
next
  case (called s sender now call s')
  then show ?case using performs_inv(1) by blast
qed

lemma queue_accepted_iff:
  "sender = tl_admin s \<Longrightarrow> (\<exists>s'. queueTransaction hash now sender tx s = Inr s') \<longleftrightarrow>
     uint now + uint (tl_delay s) \<le> uint (tx_eta tx)"
proof -
  assume a: "sender = tl_admin s"
  have "(\<exists>c. safe_add now (tl_delay s) = Inr c \<and> c \<le> tx_eta tx) \<longleftrightarrow> uint now + uint (tl_delay s) \<le> uint (tx_eta tx)"
  proof
    assume le: "uint now + uint (tl_delay s) \<le> uint (tx_eta tx)"
    have "fits_uint (uint now + uint (tl_delay s))"
      using le uint_fits [of "tx_eta tx"] by (simp add: fits_uint_def)
    with le show "\<exists>c. safe_add now (tl_delay s) = Inr c \<and> c \<le> tx_eta tx"
      using ex_uint [of "uint now + uint (tl_delay s)"] by (auto simp: safe_add_Inr word_le_def)
  qed (auto simp: safe_add_Inr word_le_def)
  then show ?thesis using a by (auto simp: queueTransaction_def)
qed

lemma handover_path:
  assumes "tx_target tx = this" and "tx_signature tx = []" and "decode (tx_data tx) = SetPendingAdmin successor"
    and "tl_admin s = a" and "uint (tx_eta tx) + 14 * 24 * 60 * 60 < 2 ^ 256"
    and "uint (tx_eta tx) \<le> uint e" and "uint e \<le> uint (tx_eta tx) + 14 * 24 * 60 * 60"
  shows "((\<exists>s1. performs hash pack decode this q a (Queue tx) s s1) \<longleftrightarrow> uint q + uint (tl_delay s) \<le> uint (tx_eta tx)) \<and>
    (uint q + uint (tl_delay s) \<le> uint (tx_eta tx) \<longrightarrow>
      (\<exists>s1 s2 s3. performs hash pack decode this q a (Queue tx) s s1 \<and> performs hash pack decode this e a (Execute tx) s1 s2 \<and>
        performs hash pack decode this f successor AcceptAdmin s2 s3 \<and> tl_admin s3 = successor \<and>
        \<not> tl_queuedTransactions s3 (hash tx) \<and> (\<forall>b. b \<noteq> successor \<longrightarrow> acceptAdmin f b s2 =
          Inl (Revert ''Timelock::acceptAdmin: Call must come from pendingAdmin.''))))"
proof -
  have queue: "performs hash pack decode this q a (Queue tx) s s1 \<longleftrightarrow> queueTransaction hash q a tx s = Inr s1" for s1
    by (auto elim: performs.cases intro: performs_calls_back.simple)
  have iff: "(\<exists>s1. performs hash pack decode this q a (Queue tx) s s1) \<longleftrightarrow> uint q + uint (tl_delay s) \<le> uint (tx_eta tx)"
    unfolding queue using queue_accepted_iff assms(4) by blast
  moreover have "\<exists>s1 s2 s3. performs hash pack decode this q a (Queue tx) s s1 \<and> performs hash pack decode this e a (Execute tx) s1 s2 \<and>
        performs hash pack decode this f successor AcceptAdmin s2 s3 \<and> tl_admin s3 = successor \<and>
        \<not> tl_queuedTransactions s3 (hash tx) \<and> (\<forall>b. b \<noteq> successor \<longrightarrow> acceptAdmin f b s2 =
          Inl (Revert ''Timelock::acceptAdmin: Call must come from pendingAdmin.''))"
    if in_time: "uint q + uint (tl_delay s) \<le> uint (tx_eta tx)"
  proof -
    obtain s1 where s1: "performs hash pack decode this q a (Queue tx) s s1" using iff in_time by blast
    then have f: "tl_admin s1 = a" "tl_queuedTransactions s1 (hash tx)"
      using assms(4) by (auto simp: queue queueTransaction_def emit_def)
    let ?s1 = "s1\<lparr>tl_queuedTransactions := (tl_queuedTransactions s1)(hash tx := False)\<rparr>"
    let ?s2 = "emit e (ExecuteTransaction tx) (emit e (NewPendingAdmin successor) (?s1\<lparr>tl_pendingAdmin := successor\<rparr>))"
    have "executeTransaction_guards hash e a tx s1 = Inr ?s1"
      using f assms(5-7) by (simp add: guards_Inr GRACE_PERIOD_def)
    then have s2: "performs hash pack decode this e a (Execute tx) s1 ?s2"
      by (rule execute_self) (simp_all add: assms(1-3) call_data_def simple setPendingAdmin_def)
    let ?s3 = "emit f (NewAdmin successor) (?s2\<lparr>tl_admin := successor, tl_pendingAdmin := 0\<rparr>)"
    have "performs hash pack decode this f successor AcceptAdmin ?s2 ?s3"
      by (rule simple) (simp add: acceptAdmin_def emit_def)
    with s1 s2 show ?thesis
      by (intro exI [of _ s1] exI [of _ ?s2] exI [of _ ?s3]) (simp add: emit_def acceptAdmin_def)
  qed
  ultimately show ?thesis by blast
qed

subsection \<open>Properties\<close>

text \<open>C38: whatever calls a timelock has seen, those that its targets make while they run included, every
  transaction it has executed had been queued, in a block at least two days earlier, and was executed
  between its eta and two weeks after it; and the delay has stayed between two and thirty days. \<open>hash\<close> stands for keccak256 of
  the encoded transaction, which is taken to have no collisions.\<close>

theorem timelock_delay_respected:
  assumes "timelock_reachable hash pack decode this s" and "inj hash"
    and "(e, ExecuteTransaction tx) \<in> set (tl_events s)"
  shows "(\<exists>q. (q, QueueTransaction tx) \<in> set (tl_events s) \<and> uint q + 2 * 24 * 60 * 60 \<le> uint e) \<and>
    uint (tx_eta tx) \<le> uint e \<and> uint e \<le> uint (tx_eta tx) + 14 * 24 * 60 * 60 \<and>
    2 * 24 * 60 * 60 \<le> uint (tl_delay s) \<and> uint (tl_delay s) \<le> 30 * 24 * 60 * 60"
proof -
  have c: "uint MINIMUM_DELAY = 172800" "uint MAXIMUM_DELAY = 2592000" "uint GRACE_PERIOD = 1209600"
    by (simp_all add: MINIMUM_DELAY_def MAXIMUM_DELAY_def GRACE_PERIOD_def)
  have inv: "timelock_inv hash s" "log_ok s" using reachable_inv [OF assms(1,2)] by auto
  then have w: "uint (tx_eta tx) \<le> uint e" "uint e \<le> uint (tx_eta tx) + 1209600" "queued_in_time s tx"
    using assms(3) unfolding log_ok_def c by blast+
  then obtain q where "(q, QueueTransaction tx) \<in> set (tl_events s)" "uint q + 172800 \<le> uint (tx_eta tx)"
    unfolding queued_in_time_def c by blast
  with w inv(1) show ?thesis unfolding timelock_inv_def word_le_def c by auto
qed

theorem timelock_delay_respected_witness:
  "\<exists>s :: (bool, bool transaction) timelock. timelock_reachable id (\<lambda>sig d. d) (\<lambda>d. SetPendingAdmin 9) 1 s \<and>
     (\<exists>q tx. (q, QueueTransaction tx) \<in> set (tl_events s) \<and> uint q + 172800 \<le> 172850)"
proof -
  let ?decode = "\<lambda>d :: bool. SetPendingAdmin 9 :: bool timelock_call"
  let ?tx = "\<lparr>tx_target = 1, tx_value = 0, tx_signature = [], tx_data = True, tx_eta = 172810\<rparr> :: bool transaction"
  let ?s = "\<lparr>tl_admin = 5, tl_pendingAdmin = 0, tl_delay = 172800, tl_queuedTransactions = (\<lambda>h. False), tl_events = []\<rparr>
    :: (bool, bool transaction) timelock"
  have r: "timelock_reachable id (\<lambda>sig d. d) ?decode 1 ?s"
    by (rule constructed [of 5 172800]) (simp add: construct_timelock_def MINIMUM_DELAY_def MAXIMUM_DELAY_def)
  obtain s1 s2 s3 where s: "performs id (\<lambda>sig d. d) ?decode 1 10 5 (Queue ?tx) ?s s1"
      "performs id (\<lambda>sig d. d) ?decode 1 172850 5 (Execute ?tx) s1 s2"
    using handover_path [of ?tx 1 ?decode 9 ?s 5 172850 id "\<lambda>sig d. d" 10 0] by auto
  have r2: "timelock_reachable id (\<lambda>sig d. d) ?decode 1 s2"
    by (rule called [OF called [OF r _ s(1)] _ s(2)]) simp_all
  have "(172850, ExecuteTransaction ?tx) \<in> set (tl_events s2)"
    using s(2) by (auto elim: performs.cases simp: emit_def)
  from timelock_delay_respected [OF r2 _ this] r2 show ?thesis by (intro exI [of _ s2]) auto
qed

text \<open>C39: an admin can hand the timelock over: a transaction that names a new admin is accepted when it is queued
  at least the delay before its eta, and only then; in the two weeks from its eta it can be executed;
  and then the named admin, and no one else, can accept and is the admin.\<close>

theorem timelock_handover:
  assumes "tx_target tx = this" and "tx_signature tx = []" and "decode (tx_data tx) = SetPendingAdmin successor"
    and "tl_admin s = a" and "uint (tx_eta tx) + 14 * 24 * 60 * 60 < 2 ^ 256"
    and "uint (tx_eta tx) \<le> uint e" and "uint e \<le> uint (tx_eta tx) + 14 * 24 * 60 * 60"
  shows "((\<exists>s1. performs hash pack decode this q a (Queue tx) s s1) \<longleftrightarrow> uint q + uint (tl_delay s) \<le> uint (tx_eta tx)) \<and>
    (uint q + uint (tl_delay s) \<le> uint (tx_eta tx) \<longrightarrow>
      (\<exists>s1 s2 s3. performs hash pack decode this q a (Queue tx) s s1 \<and> performs hash pack decode this e a (Execute tx) s1 s2 \<and>
        performs hash pack decode this f successor AcceptAdmin s2 s3 \<and> tl_admin s3 = successor \<and>
        \<not> tl_queuedTransactions s3 (hash tx) \<and> (\<forall>b. b \<noteq> successor \<longrightarrow> acceptAdmin f b s2 =
          Inl (Revert ''Timelock::acceptAdmin: Call must come from pendingAdmin.''))))"
  using assms by (rule handover_path)

theorem timelock_handover_witness:
  "\<exists>s1 s2 s3. performs id (\<lambda>sig d. d) (\<lambda>d. SetPendingAdmin 9) 1 10 5
      (Queue \<lparr>tx_target = 1, tx_value = 0, tx_signature = [], tx_data = True, tx_eta = 172810\<rparr>)
      \<lparr>tl_admin = 5, tl_pendingAdmin = 0, tl_delay = 172800, tl_queuedTransactions = (\<lambda>h. False), tl_events = []\<rparr> s1 \<and>
    performs id (\<lambda>sig d. d) (\<lambda>d. SetPendingAdmin 9) 1 172850 5
      (Execute \<lparr>tx_target = 1, tx_value = 0, tx_signature = [], tx_data = True, tx_eta = 172810\<rparr>) s1 s2 \<and>
    performs id (\<lambda>sig d. d) (\<lambda>d. SetPendingAdmin 9) 1 172860 9 AcceptAdmin s2 s3 \<and> tl_admin s3 = 9"
  using timelock_handover [of "\<lparr>tx_target = 1, tx_value = 0, tx_signature = [], tx_data = True, tx_eta = 172810\<rparr>" 1
      "\<lambda>d. SetPendingAdmin 9" 9
      "\<lparr>tl_admin = 5, tl_pendingAdmin = 0, tl_delay = 172800, tl_queuedTransactions = (\<lambda>h. False), tl_events = []\<rparr>"
      5 172850 id "\<lambda>sig d. d" 10 172860]
  by auto

end
