(* ===== verification/LendingFixtures.thy ===== *)
theory LendingFixtures
  imports DeployExternal Sandbox Timelock
begin

text \<open>
  The fixtures of the lending markets: \<^verbatim>\<open>compoundFixture.ts\<close> and \<^verbatim>\<open>aaveV2Fixture.ts\<close>. What a method
  sets of the class is the record it returns, what it reads is an argument.

  Two things come from outside the repository and are arguments: \<open>encode\<close>, the ABI encoding of a call
  by the contract's interface, and \<open>randomAddress\<close>, the wallet that \<^verbatim>\<open>getRandomAddress\<close> of
  \<^verbatim>\<open>addressUtils.ts\<close> creates. The script does not wait for every transaction (\<open>launch\<close>).
\<close>

text \<open>\<^verbatim>\<open>contract.attach(address)\<close>: the same interface and signer at another address.\<close>

definition attach_to :: "contract \<Rightarrow> string \<Rightarrow> contract" where
  "attach_to c a = c\<lparr>addr := a\<rparr>"

definition getRandomAddress :: "('b history \<Rightarrow> string) \<Rightarrow> 'b history \<Rightarrow> string" where
  "getRandomAddress randomAddress h = randomAddress h"

subsection \<open>\<^verbatim>\<open>compoundFixture.ts\<close>\<close>

record compound_fixture =
  cf_priceOracle :: contract
  cf_priceOracleProxy :: contract
  cf_unitroller :: contract
  cf_comptroller :: contract
  cf_interestRateModel :: contract
  cf_comp :: contract
  cf_compoundTimelock :: contract
  cf_compoundGovernorAlpha :: contract

definition initialize_compound ::
  "'b world \<Rightarrow> 'b bn_api \<Rightarrow> string \<Rightarrow> 'b history \<Rightarrow> (compound_fixture \<times> 'b history) option"
where
  "initialize_compound W B ownerAddress h = do {
     (priceOracle, h) \<leftarrow> deployCompoundPriceOracleMock W ownerAddress h;
     (priceOracleProxy, h) \<leftarrow> deployPriceOracleProxy W ownerAddress ADDRESS_ZERO (addr priceOracle)
        ADDRESS_ZERO ADDRESS_ZERO ADDRESS_ZERO ADDRESS_ZERO ADDRESS_ZERO h;
     (unitroller, h) \<leftarrow> deployUnitroller W ownerAddress h;
     (comptroller, h) \<leftarrow> deployComptroller W ownerAddress h;
     h \<leftarrow> send W unitroller ''_setPendingImplementation'' [AStr (addr comptroller)] h;
     h \<leftarrow> send W comptroller ''_become'' [AStr (addr unitroller), ABig (ZERO B), AList [], AList []] h;
     h \<leftarrow> send W comptroller ''_setPriceOracle'' [AStr (addr priceOracle)] h;
     h \<leftarrow> send W comptroller ''_setMaxAssets'' [ANum 10] h;
     closeFactor \<leftarrow> ether B ''0.5'';
     h \<leftarrow> send W comptroller ''_setCloseFactor'' [ABig closeFactor] h;
     incentive \<leftarrow> ether B ''1.08'';
     h \<leftarrow> send W comptroller ''_setLiquidationIncentive'' [ABig incentive] h;
     one \<leftarrow> ether B ''1'';
     (interestRateModel, h) \<leftarrow> deployWhitePaperInterestRateModel W ownerAddress (ABig one) (ABig one) h;
     (comp_token, h) \<leftarrow> deployComp W ownerAddress ownerAddress h;
     amount \<leftarrow> ether B ''400000'';
     h \<leftarrow> send W comp_token ''transfer'' [AStr (addr comptroller), ABig amount] h;
     (timelock, h) \<leftarrow> deployCompoundTimelock W ownerAddress ownerAddress
        (bn_mul B (ONE_DAY_IN_SECONDS B) (bn_from B 2)) h;
     (governor, h) \<leftarrow> deployCompoundGovernorAlpha W ownerAddress (addr timelock) (addr comp_token) ownerAddress h;
     Some (\<lparr>cf_priceOracle = priceOracle, cf_priceOracleProxy = priceOracleProxy,
        cf_unitroller = unitroller, cf_comptroller = comptroller,
        cf_interestRateModel = interestRateModel, cf_comp = comp_token,
        cf_compoundTimelock = timelock, cf_compoundGovernorAlpha = governor\<rparr>, h)
   }"

definition initializeGovernorBravo ::
  "'b world \<Rightarrow> 'b bn_api \<Rightarrow> (string \<Rightarrow> string \<Rightarrow> 'b arg list \<Rightarrow> string) \<Rightarrow> string \<Rightarrow> compound_fixture \<Rightarrow> 'b history \<Rightarrow>
   ((contract \<times> contract) \<times> 'b history) option"
where
  "initializeGovernorBravo W B encode ownerAddress fx h = do {
     (delegate, h) \<leftarrow> deployCompoundGovernorBravoDelegate W ownerAddress h;
     threshold \<leftarrow> ether B ''100000'';
     (delegator, h) \<leftarrow> deployCompoundGovernorBravoDelegator W ownerAddress (addr (cf_compoundTimelock fx))
        (addr (cf_comp fx)) ownerAddress (addr delegate) (ANum 10000) (ANum 1) (ABig threshold) h;
     let setAdminData = encode (kind (cf_compoundTimelock fx)) ''setPendingAdmin'' [AStr (addr delegator)];
     t \<leftarrow> getLastBlockTimestamp W B h;
     let eta = bn_add B (bn_add B t (bn_mul B (ONE_DAY_IN_SECONDS B) (bn_from B 2))) (bn_from B 1);
     let arguments = [AStr (addr (cf_compoundTimelock fx)), ANum 0, AStr '''', AStr setAdminData, ABig eta];
     h \<leftarrow> send W (cf_compoundTimelock fx) ''queueTransaction'' arguments h;
     h \<leftarrow> increaseTimeAsync W B (bn_add B (bn_mul B (ONE_DAY_IN_SECONDS B) (bn_from B 2)) (bn_from B 2)) h;
     h \<leftarrow> send W (cf_compoundTimelock fx) ''executeTransaction'' arguments h;
     h \<leftarrow> send W (cf_comp fx) ''delegate'' [AStr ownerAddress] h;
     h \<leftarrow> send W (connect (cf_compoundGovernorAlpha fx) ownerAddress) ''propose''
        [AList [AStr ADDRESS_ZERO], AList [ANum 0], AList [AStr ''''], AList [AStr ZERO_BYTES], AStr ''dummy prop''] h;
     let initiateCallData = encode (kind delegate) ''_initiate'' [AStr (addr (cf_compoundGovernorAlpha fx))];
     h \<leftarrow> send W delegator ''fallback'' [AObj [(''data'', AStr initiateCallData)]] h;
     Some ((delegate, delegator), h)
   }"

text \<open>The steps that enable a new market, shared by the two kinds of tokens.\<close>

definition enable_market ::
  "'b world \<Rightarrow> compound_fixture \<Rightarrow> contract \<Rightarrow> 'b \<Rightarrow> 'b \<Rightarrow> 'b history \<Rightarrow> 'b history option"
where
  "enable_market W fx newCToken collateralFactor currentPrice h = do {
     h \<leftarrow> send W (cf_comptroller fx) ''_supportMarket'' [AStr (addr newCToken)] h;
     h \<leftarrow> send W (cf_priceOracle fx) ''setUnderlyingPrice'' [AStr (addr newCToken), ABig currentPrice] h;
     send W (cf_comptroller fx) ''_setCollateralFactor'' [AStr (addr newCToken), ABig collateralFactor] h
   }"

definition createAndEnableCToken ::
  "'b world \<Rightarrow> string \<Rightarrow> compound_fixture \<Rightarrow> string \<Rightarrow> 'b arg \<Rightarrow> string option \<Rightarrow> string option \<Rightarrow>
   string option \<Rightarrow> string option \<Rightarrow> 'b arg option \<Rightarrow> 'b \<Rightarrow> 'b \<Rightarrow> 'b deployment"
where
  "createAndEnableCToken W ownerAddress fx underlying initialExchangeRateMantissa comptroller interestRateModel
     name symbol decimals collateralFactor currentPrice h = do {
     let comptroller = or_default comptroller (addr (cf_unitroller fx));
     let interestRateModel = or_default interestRateModel (addr (cf_interestRateModel fx));
     let name = or_default name ''CToken'';
     let symbol = or_default symbol ''CT'';
     let decimals = or_default decimals (ANum 8);
     (newCToken, h) \<leftarrow> deployCeRc20 W ownerAddress underlying comptroller interestRateModel
        initialExchangeRateMantissa name symbol decimals h;
     h \<leftarrow> enable_market W fx newCToken collateralFactor currentPrice h;
     Some (newCToken, h)
   }"

definition createAndEnableCEther ::
  "'b world \<Rightarrow> string \<Rightarrow> compound_fixture \<Rightarrow> 'b arg \<Rightarrow> string option \<Rightarrow> string option \<Rightarrow>
   string option \<Rightarrow> string option \<Rightarrow> 'b arg option \<Rightarrow> 'b \<Rightarrow> 'b \<Rightarrow> 'b deployment"
where
  "createAndEnableCEther W ownerAddress fx initialExchangeRateMantissa comptroller interestRateModel
     name symbol decimals collateralFactor currentPrice h = do {
     let comptroller = or_default comptroller (addr (cf_unitroller fx));
     let interestRateModel = or_default interestRateModel (addr (cf_interestRateModel fx));
     let name = or_default name ''CEther'';
     let symbol = or_default symbol ''CETH'';
     let decimals = or_default decimals (ANum 8);
     (newCToken, h) \<leftarrow> deployCEther W ownerAddress comptroller interestRateModel
        initialExchangeRateMantissa name symbol decimals h;
     h \<leftarrow> enable_market W fx newCToken collateralFactor currentPrice h;
     Some (newCToken, h)
   }"

subsection \<open>\<^verbatim>\<open>aaveV2Fixture.ts\<close>\<close>

record ReserveTokens =
  rt_aToken :: contract
  rt_stableDebtToken :: contract
  rt_variableDebtToken :: contract

text \<open>The fields that \<open>initialize\<close> sets before it creates the reserves, and those of the governance.\<close>

record aave_core =
  av_marketId :: string
  av_genericLogicLibraryAddress :: string
  av_reserveLogicAddress :: string
  av_validationLogicAddress :: string
  av_lendingPool :: contract
  av_protocolDataProvider :: contract
  av_lendingPoolConfigurator :: contract
  av_lendingPoolCollateralManager :: contract
  av_lendingPoolAddressesProvider :: contract
  av_reserveInterestRateStrategy :: contract
  av_priceOracle :: contract
  av_fallbackOracle :: contract
  av_lendingRateOracle :: contract
  av_treasuryAddress :: string
  av_incentivesControllerAddress :: string

record aave_governance =
  ag_executor :: contract
  ag_aaveToken :: contract
  ag_stkAaveToken :: contract
  ag_governanceStrategy :: contract
  ag_aaveGovernanceV2 :: contract

record aave_fixture =
  af_core :: aave_core
  af_wethReserveTokens :: ReserveTokens
  af_daiReserveTokens :: ReserveTokens
  af_governance :: aave_governance

definition setAssetPriceInOracle :: "'b world \<Rightarrow> contract \<Rightarrow> string \<Rightarrow> 'b arg \<Rightarrow> 'b history \<Rightarrow> 'b history option" where
  "setAssetPriceInOracle W fallbackOracle asset priceInEth h =
     send W fallbackOracle ''setAssetPrice'' [AStr asset, priceInEth] h"

definition setMarketBorrowRate :: "'b world \<Rightarrow> contract \<Rightarrow> string \<Rightarrow> 'b arg \<Rightarrow> 'b history \<Rightarrow> 'b history option" where
  "setMarketBorrowRate W lendingRateOracle asset rate h =
     send W lendingRateOracle ''setMarketBorrowRate'' [AStr asset, rate] h"

text \<open>The argument of \<^verbatim>\<open>batchInitReserve\<close>.\<close>

definition reserve_input ::
  "contract \<Rightarrow> contract \<Rightarrow> contract \<Rightarrow> string \<Rightarrow> string \<Rightarrow> 'b arg \<Rightarrow> string \<Rightarrow> string \<Rightarrow> string \<Rightarrow> 'b arg"
where
  "reserve_input aToken stableDebtToken variableDebtToken underlyingAsset underlyingAssetSymbol
     underlyingAssetDecimals treasuryAddress incentivesControllerAddress interestRateStrategyAddress = AObj [
     (''aTokenImpl'', AStr (addr aToken)),
     (''stableDebtTokenImpl'', AStr (addr stableDebtToken)),
     (''variableDebtTokenImpl'', AStr (addr variableDebtToken)),
     (''underlyingAssetDecimals'', underlyingAssetDecimals),
     (''interestRateStrategyAddress'', AStr interestRateStrategyAddress),
     (''underlyingAsset'', AStr underlyingAsset),
     (''treasury'', AStr treasuryAddress),
     (''incentivesController'', AStr incentivesControllerAddress),
     (''underlyingAssetName'', AStr underlyingAssetSymbol),
     (''aTokenName'', AStr (''Aave interest bearing '' @ underlyingAssetSymbol)),
     (''aTokenSymbol'', AStr (''a'' @ underlyingAssetSymbol)),
     (''variableDebtTokenName'', AStr (''Aave variable debt bearing '' @ underlyingAssetSymbol)),
     (''variableDebtTokenSymbol'', AStr (''variableDebt'' @ underlyingAssetSymbol)),
     (''stableDebtTokenName'', AStr (''Aave stable debt bearing '' @ underlyingAssetSymbol)),
     (''stableDebtTokenSymbol'', AStr (''stableDebt'' @ underlyingAssetSymbol)),
     (''params'', AStr ''0x'')]"

text \<open>The three addresses that the data provider answers with.\<close>

definition three_addresses :: "'b arg \<Rightarrow> (string \<times> string \<times> string) option" where
  "three_addresses x = (case x of
     AList (AStr a # AStr b # AStr c # _) \<Rightarrow> Some (a, b, c)
   | _ \<Rightarrow> None)"

definition createAndEnableReserve ::
  "'b world \<Rightarrow> string \<Rightarrow> aave_core \<Rightarrow> string \<Rightarrow> string \<Rightarrow> 'b arg \<Rightarrow> 'b arg \<Rightarrow> 'b arg \<Rightarrow> 'b arg \<Rightarrow> 'b arg \<Rightarrow>
   bool \<Rightarrow> bool \<Rightarrow> string option \<Rightarrow> string option \<Rightarrow> string option \<Rightarrow> 'b history \<Rightarrow>
   (ReserveTokens \<times> 'b history) option"
where
  "createAndEnableReserve W ownerAddress fx underlyingAsset underlyingAssetSymbol underlyingAssetDecimals
     baseLTV liquidationThreshold liquidationBonus reserveFactor borrowingEnabled stableBorrowingEnabled
     treasuryAddress incentivesControllerAddress interestRateStrategyAddress h = do {
     let treasuryAddress = or_default treasuryAddress (av_treasuryAddress fx);
     let incentivesControllerAddress = or_default incentivesControllerAddress (av_incentivesControllerAddress fx);
     let interestRateStrategyAddress =
       or_default interestRateStrategyAddress (addr (av_reserveInterestRateStrategy fx));
     (aToken, h) \<leftarrow> deployAaveV2AToken W ownerAddress h;
     (stableDebtToken, h) \<leftarrow> deployAaveV2StableDebtToken W ownerAddress h;
     (variableDebtToken, h) \<leftarrow> deployAaveV2VariableDebtToken W ownerAddress h;
     h \<leftarrow> send W (av_lendingPoolConfigurator fx) ''batchInitReserve''
        [AList [reserve_input aToken stableDebtToken variableDebtToken underlyingAsset underlyingAssetSymbol
           underlyingAssetDecimals treasuryAddress incentivesControllerAddress interestRateStrategyAddress]] h;
     h \<leftarrow> send W (av_lendingPoolConfigurator fx) ''configureReserveAsCollateral''
        [AStr underlyingAsset, baseLTV, liquidationThreshold, liquidationBonus] h;
     h \<leftarrow> (if borrowingEnabled
        then send W (av_lendingPoolConfigurator fx) ''enableBorrowingOnReserve''
          [AStr underlyingAsset, ABool stableBorrowingEnabled] h
        else Some h);
     h \<leftarrow> send W (av_lendingPoolConfigurator fx) ''setReserveFactor'' [AStr underlyingAsset, reserveFactor] h;
     (aTokenProxy, stableDebtTokenProxy, variableDebtTokenProxy) \<leftarrow>
        Option.bind (view W (av_protocolDataProvider fx) ''getReserveTokensAddresses'' [AStr underlyingAsset] h)
          three_addresses;
     Some (\<lparr>rt_aToken = attach_to aToken aTokenProxy,
        rt_stableDebtToken = attach_to stableDebtToken stableDebtTokenProxy,
        rt_variableDebtToken = attach_to variableDebtToken variableDebtTokenProxy\<rparr>, h)
   }"

text \<open>The governance; the second result is the new \<^verbatim>\<open>incentivesControllerAddress\<close>.\<close>

definition initializeGovernance ::
  "'b world \<Rightarrow> 'b bn_api \<Rightarrow> ('b history \<Rightarrow> string) \<Rightarrow> string \<Rightarrow> 'b history \<Rightarrow>
   ((aave_governance \<times> string) \<times> 'b history) option"
where
  "initializeGovernance W B randomAddress ownerAddress h = do {
     quorum \<leftarrow> ether B ''100'';
     (executor, h) \<leftarrow> deployExecutor W ownerAddress ownerAddress (bn_from B 0) (bn_from B 0) (bn_from B 0)
        (MAX_UINT_256 B) (bn_from B 50) (bn_from B 100) (bn_from B 50) quorum h;
     amount \<leftarrow> ether B ''100000'';
     (aaveToken, h) \<leftarrow> deployAaveTokenV2Mintable W ownerAddress h;
     h \<leftarrow> send W aaveToken ''mint'' [AStr ownerAddress, ABig amount] h;
     (stkAaveToken, h) \<leftarrow> deployAaveTokenV2Mintable W ownerAddress h;
     h \<leftarrow> send W stkAaveToken ''mint'' [AStr ownerAddress, ABig amount] h;
     (strategy, h) \<leftarrow> deployGovernanceStrategy W ownerAddress (addr aaveToken) (addr stkAaveToken) h;
     (governance, h) \<leftarrow> deployAaveGovernanceV2 W ownerAddress (addr strategy) (bn_from B 0) ownerAddress
        [addr executor] h;
     let h = launch W (connect aaveToken ownerAddress) ''transfer''
        [AStr (getRandomAddress randomAddress h), ANum 100] h;
     let h = launch W (connect stkAaveToken ownerAddress) ''transfer''
        [AStr (getRandomAddress randomAddress h), ANum 100] h;
     (_, h) \<leftarrow> deployAaveV2StakedTokenIncentivesController W ownerAddress (addr stkAaveToken) (addr executor) h;
     (incentivesController, h) \<leftarrow>
        deployAaveV2StakedTokenIncentivesController W ownerAddress (addr stkAaveToken) (addr executor) h;
     Some ((\<lparr>ag_executor = executor, ag_aaveToken = aaveToken, ag_stkAaveToken = stkAaveToken,
        ag_governanceStrategy = strategy, ag_aaveGovernanceV2 = governance\<rparr>, addr incentivesController), h)
   }"

text \<open>\<open>initialize\<close> up to the reserves.\<close>

definition initialize_aave_core ::
  "'b world \<Rightarrow> 'b bn_api \<Rightarrow> ('b history \<Rightarrow> string) \<Rightarrow> string \<Rightarrow> string \<Rightarrow> string \<Rightarrow> string option \<Rightarrow> 'b option \<Rightarrow>
   'b history \<Rightarrow> (aave_core \<times> 'b history) option"
where
  "initialize_aave_core W B randomAddress ownerAddress weth dai marketId daiPriceInEth h = do {
     let marketId = or_default marketId ''Commons'';
     daiPriceInEth \<leftarrow> or_else daiPriceInEth (ether B ''0.001'');
     (genericLogic, h) \<leftarrow> deployGeneralLogic W ownerAddress h;
     (reserveLogic, h) \<leftarrow> deployReserveLogic W ownerAddress h;
     (validationLogic, h) \<leftarrow> deployValidationLogic W ownerAddress (addr genericLogic) h;
     (configurator, h) \<leftarrow> deployAaveV2LendingPoolConfigurator W ownerAddress h;
     (collateralManager, h) \<leftarrow> deployAaveV2LendingPoolCollateralManager W ownerAddress h;
     (lendingPool, h) \<leftarrow> deployAaveV2LendingPool W ownerAddress (addr validationLogic) (addr reserveLogic) h;
     (provider, h) \<leftarrow> deployAaveV2LendingPoolAddressesProvider W ownerAddress marketId h;
     (dataProvider, h) \<leftarrow> deployAaveV2ProtocolDataProvider W ownerAddress (addr provider) h;
     (strategy, h) \<leftarrow> deployAaveV2DefaultReserveInterestRateStrategy W B ownerAddress (addr provider)
        None None None None None None h;
     (rateOracle, h) \<leftarrow> deployAaveV2LendingRateOracle W ownerAddress h;
     (fallbackOracle, h) \<leftarrow> deployAaveV2PriceOracle W ownerAddress h;
     (priceOracle, h) \<leftarrow> deployAaveV2Oracle W ownerAddress [] [] (addr fallbackOracle) weth h;
     h \<leftarrow> send W provider ''setPriceOracle'' [AStr (addr priceOracle)] h;
     h \<leftarrow> send W provider ''setLendingRateOracle'' [AStr (addr rateOracle)] h;
     h \<leftarrow> send W provider ''setPoolAdmin'' [AStr ownerAddress] h;
     h \<leftarrow> send W provider ''setLendingPoolCollateralManager'' [AStr (addr collateralManager)] h;
     h \<leftarrow> send W provider ''setAddress''
        [AStr (''0x01'' @ replicate 62 (CHR ''0'')), AStr (addr dataProvider)] h;
     h \<leftarrow> send W provider ''setLendingPoolImpl'' [AStr (addr lendingPool)] h;
     proxyPool \<leftarrow> Option.bind (view W provider ''getLendingPool'' [] h) as_str;
     let lendingPool = attach_to lendingPool proxyPool;
     h \<leftarrow> send W provider ''setLendingPoolConfiguratorImpl'' [AStr (addr configurator)] h;
     proxyConfigurator \<leftarrow> Option.bind (view W provider ''getLendingPoolConfigurator'' [] h) as_str;
     let configurator = attach_to configurator proxyConfigurator;
     let treasury = getRandomAddress randomAddress h;
     h \<leftarrow> setAssetPriceInOracle W fallbackOracle dai (ABig daiPriceInEth) h;
     oneRay \<leftarrow> bn_pow B (bn_from B 10) (bn_from B 27);
     wethRate \<leftarrow> bn_div B (bn_mul B oneRay (bn_from B 3)) (bn_from B 100);
     h \<leftarrow> setMarketBorrowRate W rateOracle weth (ABig wethRate) h;
     daiRate \<leftarrow> bn_div B (bn_mul B oneRay (bn_from B 39)) (bn_from B 1000);
     h \<leftarrow> setMarketBorrowRate W rateOracle dai (ABig daiRate) h;
     Some (\<lparr>av_marketId = marketId, av_genericLogicLibraryAddress = addr genericLogic,
        av_reserveLogicAddress = addr reserveLogic, av_validationLogicAddress = addr validationLogic,
        av_lendingPool = lendingPool, av_protocolDataProvider = dataProvider,
        av_lendingPoolConfigurator = configurator, av_lendingPoolCollateralManager = collateralManager,
        av_lendingPoolAddressesProvider = provider, av_reserveInterestRateStrategy = strategy,
        av_priceOracle = priceOracle, av_fallbackOracle = fallbackOracle, av_lendingRateOracle = rateOracle,
        av_treasuryAddress = treasury, av_incentivesControllerAddress = ADDRESS_ZERO\<rparr>, h)
   }"

definition initialize_aave ::
  "'b world \<Rightarrow> 'b bn_api \<Rightarrow> ('b history \<Rightarrow> string) \<Rightarrow> string \<Rightarrow> string \<Rightarrow> string \<Rightarrow> string option \<Rightarrow> 'b option \<Rightarrow>
   'b history \<Rightarrow> (aave_fixture \<times> 'b history) option"
where
  "initialize_aave W B randomAddress ownerAddress weth dai marketId daiPriceInEth h = do {
     (fx, h) \<leftarrow> initialize_aave_core W B randomAddress ownerAddress weth dai marketId daiPriceInEth h;
     (wethReserve, h) \<leftarrow> createAndEnableReserve W ownerAddress fx weth ''WETH'' (ABig (bn_from B 18))
        (ABig (bn_from B 8000)) (ABig (bn_from B 8250)) (ABig (bn_from B 10500)) (ABig (bn_from B 1000))
        True True None None None h;
     (daiReserve, h) \<leftarrow> createAndEnableReserve W ownerAddress fx dai ''DAI'' (ABig (bn_from B 18))
        (ABig (bn_from B 7500)) (ABig (bn_from B 8000)) (ABig (bn_from B 10500)) (ABig (bn_from B 1000))
        True True None None None h;
     ((governance, incentivesController), h) \<leftarrow> initializeGovernance W B randomAddress ownerAddress h;
     Some (\<lparr>af_core = fx\<lparr>av_incentivesControllerAddress := incentivesController\<rparr>,
        af_wethReserveTokens = wethReserve, af_daiReserveTokens = daiReserve, af_governance = governance\<rparr>, h)
   }"

definition getForkedAaveLendingPoolAddressesProvider_fixture :: "string \<Rightarrow> contract option" where
  "getForkedAaveLendingPoolAddressesProvider_fixture s =
     map_option (getForkedAaveLendingPoolAddressesProvider s) (dependency ''AAVE_LENDING_POOL_ADDRESSES_PROVIDER'' 1)"

definition getForkedAaveV2ProtocolDataProvider_fixture :: "string \<Rightarrow> contract option" where
  "getForkedAaveV2ProtocolDataProvider_fixture s =
     map_option (getForkedAaveV2ProtocolDataProvider s) (dependency ''AAVE_PROTOCOL_DATA_PROVIDER'' 1)"

subsection \<open>Compound: the new governor\<close>

text \<open>What the script sends to hand the timelock to the delegator, at the time \<open>t\<close> of the last block.\<close>

definition bravo_arguments :: "'b bn_api \<Rightarrow> (string \<Rightarrow> string \<Rightarrow> 'b arg list \<Rightarrow> string) \<Rightarrow> contract \<Rightarrow> contract \<Rightarrow> int \<Rightarrow> 'b arg list" where
  "bravo_arguments B encode timelock delegator t =
     [AStr (addr timelock), ANum 0, AStr '''', AStr (encode (kind timelock) ''setPendingAdmin'' [AStr (addr delegator)]),
      ABig (bn_from B (t + 172801))]"

text \<open>The transaction the timelock decodes from them.\<close>

definition bravo_transaction :: "(string \<Rightarrow> string \<Rightarrow> 'b arg list \<Rightarrow> string) \<Rightarrow> contract \<Rightarrow> contract \<Rightarrow> int \<Rightarrow> string transaction" where
  "bravo_transaction encode timelock delegator t =
     \<lparr>tx_target = parse_address (addr timelock), tx_value = 0, tx_signature = [],
      tx_data = encode (kind timelock) ''setPendingAdmin'' [AStr (addr delegator)], tx_eta = word_of_int (t + 172801)\<rparr>"

lemma bravo_trace:
  assumes "bignumber B" and "initializeGovernorBravo W B encode ownerAddress fx h = Some ((delegate, delegator), h')"
  shows "\<exists>t es later. latest_timestamp W (es @ h) = Some t \<and> calls es = [] \<and> h' = later @ es @ h \<and>
    \<bar>t\<bar> < 9007199254740991 \<and> Rpc ''evm_increaseTime'' [ANum 172802] \<in> set later \<and>
    calls h' = calls h @ [
      (addr (cf_compoundTimelock fx), ''queueTransaction'', bravo_arguments B encode (cf_compoundTimelock fx) delegator t),
      (addr (cf_compoundTimelock fx), ''executeTransaction'', bravo_arguments B encode (cf_compoundTimelock fx) delegator t),
      (addr (cf_comp fx), ''delegate'', [AStr ownerAddress]),
      (addr (cf_compoundGovernorAlpha fx), ''propose'', [AList [AStr ADDRESS_ZERO], AList [ANum 0], AList [AStr ''''],
         AList [AStr ZERO_BYTES], AStr ''dummy prop'']),
      (addr delegator, ''fallback'', [AObj [(''data'', AStr (encode (kind delegate) ''_initiate''
         [AStr (addr (cf_compoundGovernorAlpha fx))]))]])]"
proof -
  have seconds: "bn_add B (bn_mul B (ONE_DAY_IN_SECONDS B) (bn_from B 2)) (bn_from B 2) = bn_from B 172802"
    by (simp add: bignumber.num_simps [OF assms(1)])
  have eta: "bn_add B (bn_add B (bn_from B t) (bn_mul B (ONE_DAY_IN_SECONDS B) (bn_from B 2))) (bn_from B 1) =
      bn_from B (t + 172801)" for t
    by (simp add: bignumber.num_simps [OF assms(1)] add.commute)
  from assms(2) obtain h1 h2 xs b where
    d: "deploy W ownerAddress ''CompoundGovernorBravoDelegate'' [] [] h = Some (delegate, h1)"
      "deploy W ownerAddress ''CompoundGovernorBravoDelegator'' [] xs h1 = Some (delegator, h2)"
    and b: "getLastBlockTimestamp W B h2 = Some b"
    and h': "(let arguments = [AStr (addr (cf_compoundTimelock fx)), ANum 0, AStr '''',
        AStr (encode (kind (cf_compoundTimelock fx)) ''setPendingAdmin'' [AStr (addr delegator)]),
        ABig (bn_add B (bn_add B b (bn_mul B (ONE_DAY_IN_SECONDS B) (bn_from B 2))) (bn_from B 1))]
      in \<exists>d. bn_toNumber B (bn_add B (bn_mul B (ONE_DAY_IN_SECONDS B) (bn_from B 2)) (bn_from B 2)) = Some d \<and>
      h' = Sent (signer delegator) (addr delegator) ''fallback'' [AObj [(''data'', AStr (encode (kind delegate) ''_initiate''
         [AStr (addr (cf_compoundGovernorAlpha fx))]))]] None #
       Sent ownerAddress (addr (cf_compoundGovernorAlpha fx)) ''propose'' [AList [AStr ADDRESS_ZERO], AList [ANum 0],
         AList [AStr ''''], AList [AStr ZERO_BYTES], AStr ''dummy prop''] None #
       Sent (signer (cf_comp fx)) (addr (cf_comp fx)) ''delegate'' [AStr ownerAddress] None #
       Sent (signer (cf_compoundTimelock fx)) (addr (cf_compoundTimelock fx)) ''executeTransaction'' arguments None #
       Rpc ''evm_mine'' [] # Rpc ''evm_increaseTime'' [ANum d] #
       Sent (signer (cf_compoundTimelock fx)) (addr (cf_compoundTimelock fx)) ''queueTransaction'' arguments None # h2)"
    unfolding initializeGovernorBravo_def deployCompoundGovernorBravoDelegate_def
      deployCompoundGovernorBravoDelegator_def increaseTimeAsync_def Let_def
    by (auto simp: script_simps connect_def)
  from b obtain t where t: "latest_timestamp W h2 = Some t" "bn_from_number B t = Some b"
    by (auto simp: getLastBlockTimestamp_def)
  have safe: "\<bar>t\<bar> < 9007199254740991"
    using t(2) bignumber.from_number_unsafe [OF assms(1), of t] by (cases "9007199254740991 \<le> \<bar>t\<bar>") auto
  then have "b = bn_from B t" using t(2) bignumber.from_number_safe [OF assms(1)] by simp
  note h'' = h' [unfolded Let_def seconds this eta bignumber.toNumber_from [OF assms(1)]]
  obtain e1 e2 where "h2 = e2 # e1 # h" "calls [e2, e1] = []"
    using d by (auto simp: deploy_def split: option.splits)
  moreover have "h' = take 7 h' @ h2" "Rpc ''evm_increaseTime'' [ANum 172802] \<in> set (take 7 h')"
    using h'' by auto
  moreover have "calls h2 = calls h" using d calls_deploy by metis
  ultimately show ?thesis
    using t(1) safe h''
    by (intro exI [of _ t] exI [of _ "[e2, e1]"] exI [of _ "take 7 h'"]) (simp add: bravo_arguments_def)
qed

subsection \<open>Properties\<close>

text \<open>\<^verbatim>\<open>initializeGovernorBravo\<close> queues and executes one and the same transaction, whose eta it computes
  from the last block, and moves the clock forward in between. For a timelock of the owner with the
  fixture's delay of two days: the transaction is accepted exactly when its block comes at most one
  second after that last block; and if it is, then executing it in any block of the next two weeks
  whose time is at least the advanced one lets the delegator become the admin.\<close>

lemma bravo_handover_timing:
  assumes "bignumber B" and "initializeGovernorBravo W B encode ownerAddress fx h = Some ((delegate, delegator), h')"
    and "tl_admin s = parse_address ownerAddress" and "tl_delay s = 172800"
    and "decode (encode (kind (cf_compoundTimelock fx)) ''setPendingAdmin'' [AStr (addr delegator)]) =
      SetPendingAdmin (parse_address (addr delegator))"
  shows "\<exists>t es later. latest_timestamp W (es @ h) = Some t \<and> calls es = [] \<and> h' = later @ es @ h \<and>
    Rpc ''evm_increaseTime'' [ANum 172802] \<in> set later \<and>
    map fst (drop (length (calls h)) (calls h')) = [addr (cf_compoundTimelock fx), addr (cf_compoundTimelock fx),
      addr (cf_comp fx), addr (cf_compoundGovernorAlpha fx), addr delegator] \<and>
    calls h' ! length (calls h) = (addr (cf_compoundTimelock fx), ''queueTransaction'',
      bravo_arguments B encode (cf_compoundTimelock fx) delegator t) \<and>
    calls h' ! Suc (length (calls h)) = (addr (cf_compoundTimelock fx), ''executeTransaction'',
      bravo_arguments B encode (cf_compoundTimelock fx) delegator t) \<and>
    (let this = parse_address (addr (cf_compoundTimelock fx)); a = parse_address ownerAddress;
         tx = bravo_transaction encode (cf_compoundTimelock fx) delegator t
     in \<forall>q e f. 0 \<le> t \<longrightarrow> ((\<exists>s1. performs hash pack decode this q a (Queue tx) s s1) \<longleftrightarrow> uint q \<le> t + 1) \<and>
       (uint q \<le> t + 1 \<and> t + 172802 \<le> uint e \<and> uint e \<le> t + 172802 + 1209599 \<longrightarrow>
         (\<exists>s1 s2 s3. performs hash pack decode this q a (Queue tx) s s1 \<and> performs hash pack decode this e a (Execute tx) s1 s2 \<and>
           performs hash pack decode this f (parse_address (addr delegator)) AcceptAdmin s2 s3 \<and>
           tl_admin s3 = parse_address (addr delegator))))"
proof -
  from bravo_trace [OF assms(1,2)] obtain t es later where t: "latest_timestamp W (es @ h) = Some t" "calls es = []"
    "h' = later @ es @ h" "\<bar>t\<bar> < 9007199254740991" "Rpc ''evm_increaseTime'' [ANum 172802] \<in> set later"
    and c: "calls h' = calls h @ [
      (addr (cf_compoundTimelock fx), ''queueTransaction'', bravo_arguments B encode (cf_compoundTimelock fx) delegator t),
      (addr (cf_compoundTimelock fx), ''executeTransaction'', bravo_arguments B encode (cf_compoundTimelock fx) delegator t),
      (addr (cf_comp fx), ''delegate'', [AStr ownerAddress]),
      (addr (cf_compoundGovernorAlpha fx), ''propose'', [AList [AStr ADDRESS_ZERO], AList [ANum 0], AList [AStr ''''],
         AList [AStr ZERO_BYTES], AStr ''dummy prop'']),
      (addr delegator, ''fallback'', [AObj [(''data'', AStr (encode (kind delegate) ''_initiate''
         [AStr (addr (cf_compoundGovernorAlpha fx))]))]])]" by blast
  let ?tl = "parse_address (addr (cf_compoundTimelock fx))" and ?a = "parse_address ownerAddress"
  let ?tx = "bravo_transaction encode (cf_compoundTimelock fx) delegator t"
  have w: "\<forall>q e f. 0 \<le> t \<longrightarrow> ((\<exists>s1. performs hash pack decode ?tl q ?a (Queue ?tx) s s1) \<longleftrightarrow> uint q \<le> t + 1) \<and>
       (uint q \<le> t + 1 \<and> t + 172802 \<le> uint e \<and> uint e \<le> t + 172802 + 1209599 \<longrightarrow>
         (\<exists>s1 s2 s3. performs hash pack decode ?tl q ?a (Queue ?tx) s s1 \<and> performs hash pack decode ?tl e ?a (Execute ?tx) s1 s2 \<and>
           performs hash pack decode ?tl f (parse_address (addr delegator)) AcceptAdmin s2 s3 \<and>
           tl_admin s3 = parse_address (addr delegator)))"
  proof (intro allI impI conjI)
    fix q e f :: uint256
    assume "0 \<le> t"
    then have eta: "uint (tx_eta ?tx) = t + 172801"
      using t(4) uint_of_int [of "t + 172801"] by (simp add: bravo_transaction_def fits_uint_def del: of_int_add)
    note path = handover_path [of ?tx ?tl decode "parse_address (addr delegator)" s ?a _ hash pack q f]
    have fields: "tx_target ?tx = ?tl" "tx_signature ?tx = []" "decode (tx_data ?tx) = SetPendingAdmin (parse_address (addr delegator))"
      using assms(5) by (simp_all add: bravo_transaction_def)
    have c: "uint q + uint (tl_delay s) \<le> uint (tx_eta ?tx) \<longleftrightarrow> uint q \<le> t + 1"
      unfolding eta assms(4) by auto
    show "(\<exists>s1. performs hash pack decode ?tl q ?a (Queue ?tx) s s1) \<longleftrightarrow> uint q \<le> t + 1"
      using path [OF fields assms(3), of "tx_eta ?tx", unfolded c] t(4) by (simp add: eta)
    assume w: "uint q \<le> t + 1 \<and> t + 172802 \<le> uint e \<and> uint e \<le> t + 172802 + 1209599"
    have "uint (tx_eta ?tx) + 14 * 24 * 60 * 60 < 2 ^ 256" "uint (tx_eta ?tx) \<le> uint e"
      "uint e \<le> uint (tx_eta ?tx) + 14 * 24 * 60 * 60" using w t(4) unfolding eta by simp_all
    from path [OF fields assms(3) this, unfolded c] w
    show "\<exists>s1 s2 s3. performs hash pack decode ?tl q ?a (Queue ?tx) s s1 \<and> performs hash pack decode ?tl e ?a (Execute ?tx) s1 s2 \<and>
           performs hash pack decode ?tl f (parse_address (addr delegator)) AcceptAdmin s2 s3 \<and>
           tl_admin s3 = parse_address (addr delegator)" by blast
  qed
  show ?thesis
    using t(1,2,3,5) w unfolding Let_def c
    by - (rule exI [of _ t], rule exI [of _ es], rule exI [of _ later], simp add: nth_append)
qed

text \<open>The markets that a history initializes: asset, treasury, incentives controller, rate strategy.\<close>

definition market_of :: "'b arg list \<Rightarrow> 'b arg option list" where
  "market_of xs = (case xs of
     [AList [input]] \<Rightarrow> map (\<lambda>k. field k input)
       [''underlyingAsset'', ''treasury'', ''incentivesController'', ''interestRateStrategyAddress'']
   | _ \<Rightarrow> [])"

definition markets :: "'b history \<Rightarrow> 'b arg option list list" where
  "markets h = map (\<lambda>(c, m, xs). market_of xs) (filter (\<lambda>(c, m, xs). m = ''batchInitReserve'') (calls h))"

lemma markets_simps [simp]:
  "markets (Sent s c m xs v # h) = markets h @ (if m = ''batchInitReserve'' then [market_of xs] else [])"
  "markets (Deployed s n l xs a # h) = markets h"
  by (simp_all add: markets_def)

lemma markets_deploy: "deploy W s n l xs h = Some (c, h') \<Longrightarrow> markets h' = markets h"
  by (simp add: markets_def calls_deploy)

lemma markets_launch: "m \<noteq> ''batchInitReserve'' \<Longrightarrow> markets (launch W c m xs h) = markets h"
  by (simp add: launch_def send_def send_value_def)

lemma core_markets:
  "initialize_aave_core W B rnd s weth dai market price h = Some (fx, h') \<Longrightarrow>
     markets h' = markets h \<and> av_incentivesControllerAddress fx = ADDRESS_ZERO"
  unfolding initialize_aave_core_def external_defs setAssetPriceInOracle_def setMarketBorrowRate_def Let_def
  by (clarsimp simp: send_Some dest!: markets_deploy)

lemma reserve_markets:
  "createAndEnableReserve W s fx asset nm decimals ltv threshold bonus factor b sb None None None h = Some (r, h') \<Longrightarrow>
     markets h' = markets h @ [[Some (AStr asset), Some (AStr (av_treasuryAddress fx)),
       Some (AStr (av_incentivesControllerAddress fx)), Some (AStr (addr (av_reserveInterestRateStrategy fx)))]]"
  unfolding createAndEnableReserve_def external_defs Let_def or_simps
  by (cases b) (clarsimp simp: send_Some market_of_def reserve_input_def dest!: markets_deploy)+

lemma governance_markets:
  assumes "initializeGovernance W B rnd s h = Some ((g, incentives), h')"
  shows "markets h' = markets h"
    and "\<exists>xs h1 c. deploy W s ''AaveV2StakedTokenIncentivesController'' [] xs h1 = Some (c, h') \<and> incentives = addr c"
  using assms unfolding initializeGovernance_def external_defs Let_def
  by (clarsimp simp: send_Some markets_launch dest!: markets_deploy, auto)

text \<open>\<^verbatim>\<open>AaveV2Fixture.initialize\<close> creates exactly two markets, WETH and then DAI, with the same treasury and
  rate strategy. Both are created without rewards: their incentives controller is the zero address,
  because the controller is deployed only afterwards, with the governance; the field
  \<^verbatim>\<open>incentivesControllerAddress\<close> ends up with the address of a contract that no market knows.\<close>

lemma aave_markets_without_rewards:
  assumes "chain W" and "initialize_aave W B randomAddress ownerAddress weth dai marketId price h = Some (fx, h')"
  shows "markets h' = markets h @ map (\<lambda>asset. [Some (AStr asset), Some (AStr (av_treasuryAddress (af_core fx))),
      Some (AStr ADDRESS_ZERO), Some (AStr (addr (av_reserveInterestRateStrategy (af_core fx))))]) [weth, dai] \<and>
    av_incentivesControllerAddress (af_core fx) \<noteq> ADDRESS_ZERO \<and>
    parse_address (av_incentivesControllerAddress (af_core fx)) \<in> set (addresses h')"
proof -
  from assms(2) obtain core h1 r1 h2 r2 h3 g incentives where
    core: "initialize_aave_core W B randomAddress ownerAddress weth dai marketId price h = Some (core, h1)"
    and r: "createAndEnableReserve W ownerAddress core weth ''WETH'' (ABig (bn_from B 18))
        (ABig (bn_from B 8000)) (ABig (bn_from B 8250)) (ABig (bn_from B 10500)) (ABig (bn_from B 1000))
        True True None None None h1 = Some (r1, h2)"
      "createAndEnableReserve W ownerAddress core dai ''DAI'' (ABig (bn_from B 18))
        (ABig (bn_from B 7500)) (ABig (bn_from B 8000)) (ABig (bn_from B 10500)) (ABig (bn_from B 1000))
        True True None None None h2 = Some (r2, h3)"
    and g: "initializeGovernance W B randomAddress ownerAddress h3 = Some ((g, incentives), h')"
    and fx: "af_core fx = core\<lparr>av_incentivesControllerAddress := incentives\<rparr>"
    unfolding initialize_aave_def by auto
  obtain xs h4 c where "deploy W ownerAddress ''AaveV2StakedTokenIncentivesController'' [] xs h4 = Some (c, h')"
    "incentives = addr c" using governance_markets(2) [OF g] by blast
  with chain.deploy_step [OF assms(1)] obtain a where a: "incentives = checksum W a" "a \<noteq> 0" "a \<in> set (addresses h')"
    by fastforce
  have "parse_address ADDRESS_ZERO = 0" by code_simp
  with a have "incentives \<noteq> ADDRESS_ZERO" using chain.parse_checksum [OF assms(1), of a] by metis
  then show ?thesis
    using core_markets [OF core] reserve_markets [OF r(1)] reserve_markets [OF r(2)] governance_markets(1) [OF g] a
    by (simp add: fx chain.parse_checksum [OF assms(1)])
qed

text \<open>A chain on which both fixtures run to their end: it answers with a block, a proxy, three tokens.\<close>

definition lending_views :: "int history \<Rightarrow> string \<Rightarrow> string \<Rightarrow> string \<Rightarrow> int arg list \<Rightarrow> int arg option" where
  "lending_views h s c m xs = Some (if m = ''getBlock'' then AObj [(''timestamp'', ANum 1000)]
     else if m = ''getReserveTokensAddresses'' then AList [AStr ''a'', AStr ''s'', AStr ''v''] else AStr ''proxy'')"

lemma lending_ether:
  "ether int_bn ''100'' = Some 100000000000000000000"
  "ether int_bn ''100000'' = Some 100000000000000000000000"
  "ether int_bn ''0.001'' = Some 1000000000000000"
  "ether int_bn ''1'' = Some 1000000000000000000"
  by code_simp+

lemma int_bn_rays:
  "bn_pow int_bn 10 27 = Some (10 ^ 27)" "bn_div int_bn m 100 = Some (m sdiv 100)"
  "bn_div int_bn m 1000 = Some (m sdiv 1000)" "bn_toNumber int_bn 172802 = Some 172802"
  "bn_from_number int_bn 1000 = Some 1000"
  by (simp_all add: int_bn_def)

lemma governance_runs:
  assumes "room (Suc (Suc (Suc (Suc (Suc (Suc (Suc k))))))) h"
  shows "runs k (initializeGovernance (answering lending_views) int_bn rnd s h)"
  unfolding initializeGovernance_def external_defs lending_ether Let_def Option.bind.simps
  by (rule runs_deploy [OF assms])
    ((rule runs_deploy, (rule room_launch)+, assumption) | (rule runs_deploy, assumption) |
     (rule runs_send, assumption) | (rule runs_Some, assumption))+

lemma reserve_views:
  "Option.bind (view (answering lending_views) c ''getReserveTokensAddresses'' xs h) three_addresses = Some (''a'', ''s'', ''v'')"
  "Option.bind (view (answering lending_views) c ''getLendingPool'' xs h) as_str = Some ''proxy''"
  "Option.bind (view (answering lending_views) c ''getLendingPoolConfigurator'' xs h) as_str = Some ''proxy''"
  by (simp_all add: lending_views_def three_addresses_def del: option_bind_Some)

lemma reserve_runs:
  assumes "room (Suc (Suc (Suc k))) h"
  shows "runs k (createAndEnableReserve (answering lending_views) s fx asset nm decimals ltv threshold bonus factor
    True sb None None None h)"
  unfolding createAndEnableReserve_def external_defs Let_def reserve_views if_True Option.bind.simps prod.case
  by (rule runs_deploy [OF assms])
    ((rule runs_deploy, assumption) | (rule runs_send, assumption) | (rule runs_Some, assumption))+

lemma core_runs:
  assumes "room (Suc (Suc (Suc (Suc (Suc (Suc (Suc (Suc (Suc (Suc (Suc (Suc k)))))))))))) h"
  shows "runs k (initialize_aave_core (answering lending_views) int_bn rnd s weth dai None None h)"
  unfolding initialize_aave_core_def external_defs Let_def reserve_views or_simps lending_ether int_bn_from int_bn_rays
    setAssetPriceInOracle_def setMarketBorrowRate_def option.map Option.bind.simps
  by (rule runs_deploy [OF assms])
    ((rule runs_deploy, assumption) | (rule runs_send, assumption) | (rule runs_Some, assumption))+

lemma aave_runs: "runs 0 (initialize_aave (answering lending_views) int_bn rnd s weth dai None None [])"
proof -
  have r: "room (Suc (Suc (Suc (Suc (Suc (Suc (Suc (Suc (Suc (Suc (Suc (Suc (Suc (Suc (Suc (Suc (Suc (Suc (Suc (Suc (Suc (Suc
      (Suc (Suc (Suc 0))))))))))))))))))))))))) ([] :: int history)" by (rule room_Nil) simp
  show ?thesis unfolding initialize_aave_def
    by (rule runs_bind [OF core_runs [OF r]])
      ((rule runs_bind, rule reserve_runs, assumption) | (rule runs_bind_pair, rule governance_runs, assumption) |
       (rule runs_Some, assumption))+
qed

definition bravo_fixture :: compound_fixture where
  "bravo_fixture = (let c = \<lambda>a. attach ''owner'' [] a in \<lparr>cf_priceOracle = c ''1'', cf_priceOracleProxy = c ''2'',
     cf_unitroller = c ''3'', cf_comptroller = c ''4'', cf_interestRateModel = c ''5'', cf_comp = c ''6'',
     cf_compoundTimelock = c ''7'', cf_compoundGovernorAlpha = c ''8''\<rparr>)"

lemma bravo_runs:
  "runs 0 (initializeGovernorBravo (answering lending_views) int_bn (\<lambda>k m xs. m) ''owner'' bravo_fixture [])"
proof -
  have r: "room (Suc (Suc 0)) ([] :: int history)" by (rule room_Nil) simp
  have t: "getLastBlockTimestamp (answering lending_views) int_bn h = Some 1000" for h
    by (simp add: getLastBlockTimestamp_def latest_timestamp_def lending_views_def int_bn_rays del: option_bind_Some)
  have d: "bn_add int_bn (bn_mul int_bn (ONE_DAY_IN_SECONDS int_bn) 2) 2 = 172802"
    by (simp add: int_bn_ops ONE_DAY_IN_SECONDS_def)
  show ?thesis
    unfolding initializeGovernorBravo_def external_defs Let_def t lending_ether increaseTimeAsync_def int_bn_from d int_bn_rays
      Option.bind.simps bind_assoc
    by (rule runs_deploy [OF r])
      ((rule runs_deploy, assumption) | (rule runs_send, assumption) | (rule runs_Some, assumption))+
qed

end
