(* ===== verification/UniswapV3Fixture.thy ===== *)
theory UniswapV3Fixture
  imports SwapFixtures
begin

text \<open>
  \<^verbatim>\<open>utils/fixtures/uniswapV3Fixture.ts\<close>: the contracts of Uniswap V3, pools at an initial price,
  liquidity over the whole range of ticks. A token is its contract handle.

  The initial price goes through JavaScript's floating-point numbers and \<^verbatim>\<open>toFixed(18)\<close>: their operations are the
  record \<open>float_api\<close>, an argument. The ticks are integers: for a fee that is a multiple of 50, as
  all fee tiers are, \<^verbatim>\<open>_fee / 50\<close> is an integer, and \<^verbatim>\<open>Math.floor(maxTick / tickSpacing)\<close> of integers
  this small is the integer quotient.
\<close>

record 'f float_api =
  fl_mul :: "'f \<Rightarrow> 'f \<Rightarrow> 'f"
  fl_div :: "'f \<Rightarrow> 'f \<Rightarrow> 'f"
  fl_pow10 :: "int \<Rightarrow> 'f"
  fl_one :: 'f
  fl_sqrt_fixed18 :: "'f \<Rightarrow> string"

text \<open>The first token has the smaller address.\<close>

definition getTokenOrder_V3 :: "contract \<Rightarrow> contract \<Rightarrow> contract \<times> contract" where
  "getTokenOrder_V3 token0 token1 =
     (if address_below (addr token0) (addr token1) then (token0, token1) else (token1, token0))"

definition getSqrtPriceX96 :: "'b bn_api \<Rightarrow> 'f float_api \<Rightarrow> 'f \<Rightarrow> 'b option" where
  "getSqrtPriceX96 B F ratio = do {
     root \<leftarrow> bn_parseEther B (fl_sqrt_fixed18 F ratio);
     q96 \<leftarrow> bn_pow B (bn_from B 2) (bn_from B 96);
     one \<leftarrow> ether B ''1'';
     bn_div B (bn_mul B root q96) one
   }"

definition getPool ::
  "'b world \<Rightarrow> string \<Rightarrow> contract \<Rightarrow> contract \<Rightarrow> contract \<Rightarrow> 'b arg \<Rightarrow> 'b history \<Rightarrow> contract option"
where
  "getPool W ownerAddress factory token0 token1 fee h = (case getTokenOrder_V3 token0 token1 of
     (token0Ordered, token1Ordered) \<Rightarrow> do {
       poolAddress \<leftarrow> Option.bind (view W factory ''getPool''
          [AStr (addr token0Ordered), AStr (addr token1Ordered), fee] h) as_str;
       Some (attach ownerAddress ''UniswapV3Pool'' poolAddress)
     })"

definition createNewPair_V3 ::
  "'b world \<Rightarrow> 'b bn_api \<Rightarrow> 'f float_api \<Rightarrow> string \<Rightarrow> contract \<Rightarrow> contract \<Rightarrow> contract \<Rightarrow> contract \<Rightarrow> 'b arg \<Rightarrow> 'f \<Rightarrow>
   'b deployment"
where
  "createNewPair_V3 W B F ownerAddress factory nftPositionManager token0 token1 fee ratio h = do {
     d1 \<leftarrow> Option.bind (view W token1 ''decimals'' [] h) as_num;
     d0 \<leftarrow> Option.bind (view W token0 ''decimals'' [] h) as_num;
     let ratio = fl_mul F ratio (fl_pow10 F (d1 - d0));
     let ratio = (if address_below (addr token1) (addr token0) then fl_div F (fl_one F) ratio else ratio);
     let (token0Ordered, token1Ordered) = getTokenOrder_V3 token0 token1;
     sqrtPrice \<leftarrow> getSqrtPriceX96 B F ratio;
     h \<leftarrow> send W nftPositionManager ''createAndInitializePoolIfNecessary''
        [AStr (addr token0Ordered), AStr (addr token1Ordered), fee, ABig sqrtPrice] h;
     pool \<leftarrow> getPool W ownerAddress factory token0 token1 fee h;
     Some (pool, h)
   }"

definition MAX_TICK :: int where
  "MAX_TICK = 887272"

definition maxValidTick :: "int \<Rightarrow> int" where
  "maxValidTick tickSpacing = MAX_TICK div tickSpacing * tickSpacing"

definition minValidTick :: "int \<Rightarrow> int" where
  "minValidTick tickSpacing = - (MAX_TICK div tickSpacing) * tickSpacing"

definition addLiquidityWide ::
  "'b world \<Rightarrow> 'b bn_api \<Rightarrow> string \<Rightarrow> contract \<Rightarrow> contract \<Rightarrow> contract \<Rightarrow> int \<Rightarrow> 'b \<Rightarrow> 'b \<Rightarrow> string \<Rightarrow>
   'b history \<Rightarrow> 'b history option"
where
  "addLiquidityWide W B ownerAddress nftPositionManager token0 token1 fee amount0 amount1 recipient h = do {
     let swapped = address_below (addr token1) (addr token0);
     let (amount0Ordered, amount1Ordered) = (if swapped then (amount1, amount0) else (amount0, amount1));
     let (token0Ordered, token1Ordered) = (if swapped then (token1, token0) else (token0, token1));
     let tickSpacing = fee div 50;
     send W (connect nftPositionManager ownerAddress) ''mint'' [AObj [
       (''fee'', ANum fee),
       (''token0'', AStr (addr token0Ordered)),
       (''token1'', AStr (addr token1Ordered)),
       (''tickLower'', ANum (minValidTick tickSpacing)),
       (''tickUpper'', ANum (maxValidTick tickSpacing)),
       (''amount0Desired'', ABig amount0Ordered),
       (''amount1Desired'', ABig amount1Ordered),
       (''amount0Min'', ANum 0),
       (''amount1Min'', ANum 0),
       (''deadline'', ABig (MAX_UINT_256 B)),
       (''recipient'', AStr recipient)]] h
   }"

record uniswapV3_fixture =
  u3_factory :: contract
  u3_swapRouter :: contract
  u3_nftPositionManager :: contract
  u3_nftDescriptor :: contract
  u3_quoter :: contract
  u3_wethDaiPool :: contract
  u3_wethWbtcPool :: contract

definition initialize_uniswapV3 ::
  "'b world \<Rightarrow> 'b bn_api \<Rightarrow> 'f float_api \<Rightarrow> string \<Rightarrow> contract \<Rightarrow> 'f \<Rightarrow> contract \<Rightarrow> 'f \<Rightarrow> contract \<Rightarrow>
   'b history \<Rightarrow> (uniswapV3_fixture \<times> 'b history) option"
where
  "initialize_uniswapV3 W B F ownerAddress weth wethPrice wbtc wbtcPrice dai h = do {
     (factory, h) \<leftarrow> deployUniswapV3Factory W ownerAddress h;
     (swapRouter, h) \<leftarrow> deploySwapRouter W ownerAddress (addr factory) (addr weth) h;
     (descriptor, h) \<leftarrow> deployNFTDescriptor W ownerAddress h;
     (manager, h) \<leftarrow> deployNftPositionManager W ownerAddress (addr factory) (addr weth) (addr descriptor) h;
     (quoter, h) \<leftarrow> deployQuoter W ownerAddress (addr factory) (addr weth) h;
     (wethDaiPool, h) \<leftarrow> createNewPair_V3 W B F ownerAddress factory manager weth dai (ANum 3000) wethPrice h;
     (wethWbtcPool, h) \<leftarrow> createNewPair_V3 W B F ownerAddress factory manager weth wbtc (ANum 3000)
        (fl_div F wethPrice wbtcPrice) h;
     Some (\<lparr>u3_factory = factory, u3_swapRouter = swapRouter, u3_nftPositionManager = manager,
        u3_nftDescriptor = descriptor, u3_quoter = quoter, u3_wethDaiPool = wethDaiPool,
        u3_wethWbtcPool = wethWbtcPool\<rparr>, h)
   }"

subsection \<open>Ticks\<close>

lemma valid_ticks:
  assumes "0 < spacing" and "spacing \<le> MAX_TICK"
  shows "spacing dvd maxValidTick spacing \<and> spacing dvd minValidTick spacing \<and>
    minValidTick spacing = - maxValidTick spacing \<and> 0 < maxValidTick spacing \<and>
    maxValidTick spacing \<le> MAX_TICK \<and> MAX_TICK < maxValidTick spacing + spacing"
  using floor_bounds [OF assms(1), of MAX_TICK] assms
  by (auto simp: maxValidTick_def minValidTick_def distrib_right zdiv_mono2 pos_imp_zdiv_pos_iff intro!: mult_pos_pos)

subsection \<open>Properties\<close>

text \<open>\<^verbatim>\<open>addLiquidityWide\<close> does not depend on the order of its two tokens: with two different addresses it
  makes one \<^verbatim>\<open>mint\<close> transaction, in which the numerically smaller address comes first and each amount
  stays with its token; and for a fee tier the ticks are opposite multiples of the tier's spacing,
  inside the range of Uniswap and less than one spacing away from its ends.\<close>

lemma liquidity_wide_canonical:
  assumes "chain W" and "addr token0 = checksum W a" and "addr token1 = checksum W b" and "a < b"
    and "0 < fee" and "50 dvd fee" and "fee \<le> 50 * MAX_TICK"
  shows "addLiquidityWide W B ownerAddress manager token0 token1 fee x y recipient h =
      addLiquidityWide W B ownerAddress manager token1 token0 fee y x recipient h \<and>
    addLiquidityWide W B ownerAddress manager token0 token1 fee x y recipient h =
      send W (connect manager ownerAddress) ''mint'' [AObj [(''fee'', ANum fee),
        (''token0'', AStr (checksum W a)), (''token1'', AStr (checksum W b)),
        (''tickLower'', ANum (- maxValidTick (fee div 50))), (''tickUpper'', ANum (maxValidTick (fee div 50))),
        (''amount0Desired'', ABig x), (''amount1Desired'', ABig y), (''amount0Min'', ANum 0), (''amount1Min'', ANum 0),
        (''deadline'', ABig (MAX_UINT_256 B)), (''recipient'', AStr recipient)]] h \<and>
    fee dvd 50 * maxValidTick (fee div 50) \<and> 0 < maxValidTick (fee div 50) \<and>
    maxValidTick (fee div 50) \<le> 887272 \<and> 50 * 887272 < 50 * maxValidTick (fee div 50) + fee"
proof -
  obtain t where t: "fee = 50 * t" using assms(6) by blast
  then have "0 < t" "t \<le> MAX_TICK" "fee div 50 = t" using assms(5,7) by auto
  with valid_ticks [of t] chain.address_below_checksum [OF assms(1), of a b]
    chain.address_below_checksum [OF assms(1), of b a] assms(2-4) show ?thesis
    by (simp add: addLiquidityWide_def t MAX_TICK_def Let_def less_not_sym [OF assms(4)])
qed

end
