(* ===== verification/PerpV2Fixture.thy ===== *)
theory PerpV2Fixture
  imports UniswapV3Fixture PerpV2Utils
begin

text \<open>
  \<^verbatim>\<open>utils/fixtures/perpV2Fixture.ts\<close>: a Perpetual Protocol deployment with two markets. The maps
  \<^verbatim>\<open>_priceFeeds\<close> and \<^verbatim>\<open>_pools\<close> are maps from the spelling of a base token's address; reading a
  key that is not there gives \<^verbatim>\<open>undefined\<close>, on which the next call throws.

  Two packages are arguments: \<open>jsbi\<close> (integers of any size), with its documentation as the locale
  \<open>jsbi\<close>, and \<open>encodeSqrtRatioX96\<close> of the Uniswap SDK, whose documented result, the square root of the
  quotient scaled by \<open>2 ^ 192\<close>, is the locale \<open>v3_sdk\<close>.
\<close>

subsection \<open>The packages\<close>

record 'j jsbi_api =
  js_BigInt :: "string \<Rightarrow> 'j option"
  js_BigInt_number :: "int \<Rightarrow> 'j"
  js_multiply :: "'j \<Rightarrow> 'j \<Rightarrow> 'j"
  js_exponentiate :: "'j \<Rightarrow> 'j \<Rightarrow> 'j option"
  js_divide :: "'j \<Rightarrow> 'j \<Rightarrow> 'j option"
  js_toString :: "'j \<Rightarrow> string"

locale jsbi =
  fixes J :: "'j jsbi_api"
  assumes BigInt_dec: "js_BigInt J (dec n) = Some (js_BigInt_number J n)"
    and multiply_number: "js_multiply J (js_BigInt_number J m) (js_BigInt_number J n) = js_BigInt_number J (m * n)"
    and exponentiate_number: "0 \<le> n \<Longrightarrow>
      js_exponentiate J (js_BigInt_number J m) (js_BigInt_number J n) = Some (js_BigInt_number J (m ^ nat n))"
    and divide_number: "n \<noteq> 0 \<Longrightarrow>
      js_divide J (js_BigInt_number J m) (js_BigInt_number J n) = Some (js_BigInt_number J (m sdiv n))"
    and toString_number: "js_toString J (js_BigInt_number J n) = dec n"
begin

lemmas jsbi_simps = BigInt_dec multiply_number exponentiate_number divide_number toString_number

end

locale v3_sdk = jsbi J for J :: "'j jsbi_api" +
  fixes encodeSqrtRatioX96 :: "string \<Rightarrow> string \<Rightarrow> 'j option"
  assumes encode_root: "0 \<le> n \<Longrightarrow> 0 < m \<Longrightarrow>
    \<exists>r. encodeSqrtRatioX96 (dec n) (dec m) = Some (js_BigInt_number J r) \<and> 0 \<le> r \<and>
      r * r \<le> n * 2 ^ 192 div m \<and> n * 2 ^ 192 div m < (r + 1) * (r + 1)"

subsection \<open>Prices and ticks\<close>

definition getPriceFromSqrtPriceX96 :: "'b bn_api \<Rightarrow> 'j jsbi_api \<Rightarrow> 'b \<Rightarrow> 'b option" where
  "getPriceFromSqrtPriceX96 B J sqrtPriceX96 = do {
     priceX86 \<leftarrow> js_BigInt J (bn_toString B sqrtPriceX96);
     let squaredPrice = js_multiply J priceX86 priceX86;
     let decimalsRatio = 1000000000000000000;
     denominator \<leftarrow> js_exponentiate J (js_BigInt_number J 2) (js_BigInt_number J 192);
     let scaledPrice = js_multiply J squaredPrice (js_BigInt_number J decimalsRatio);
     q \<leftarrow> js_divide J scaledPrice denominator;
     bn_from_string B (js_toString J q)
   }"

definition encodePriceSqrt ::
  "'b bn_api \<Rightarrow> 'j jsbi_api \<Rightarrow> (string \<Rightarrow> string \<Rightarrow> 'j option) \<Rightarrow> 'b \<Rightarrow> 'b \<Rightarrow> 'b option"
where
  "encodePriceSqrt B J encodeSqrtRatioX96 token1Amount token0Amount = do {
     root \<leftarrow> encodeSqrtRatioX96 (bn_toString B token1Amount) (bn_toString B token0Amount);
     bn_from_string B (js_toString J root)
   }"

definition getMinTick :: "int \<Rightarrow> int" where
  "getMinTick tickSpacing = - (887272 div tickSpacing) * tickSpacing"

definition getMaxTick :: "int \<Rightarrow> int" where
  "getMaxTick tickSpacing = 887272 div tickSpacing * tickSpacing"

definition isAscendingTokenOrder :: "string \<Rightarrow> string \<Rightarrow> bool" where
  "isAscendingTokenOrder addr0 addr1 = address_below addr0 addr1"

subsection \<open>Tokens\<close>

record BaseTokenFixture =
  bt_baseToken :: contract
  bt_mockAggregator :: contract

definition createQuoteTokenFixture :: "'b world \<Rightarrow> string \<Rightarrow> string \<Rightarrow> string \<Rightarrow> 'b deployment" where
  "createQuoteTokenFixture W ownerAddress name symbol h = do {
     (quoteToken, h) \<leftarrow> deployPerpV2QuoteToken W ownerAddress h;
     h \<leftarrow> send W quoteToken ''initialize'' [AStr name, AStr symbol] h;
     Some (quoteToken, h)
   }"

definition createBaseTokenFixture ::
  "'b world \<Rightarrow> string \<Rightarrow> string \<Rightarrow> string \<Rightarrow> 'b history \<Rightarrow> (BaseTokenFixture \<times> 'b history) option"
where
  "createBaseTokenFixture W ownerAddress name symbol h = do {
     (mockAggregator, h) \<leftarrow> deployChainlinkAggregatorMock W ownerAddress 6 h;
     (priceFeed, h) \<leftarrow> deployPerpV2ChainlinkPriceFeed W ownerAddress h;
     h \<leftarrow> send W priceFeed ''initialize'' [AStr (addr mockAggregator)] h;
     (baseToken, h) \<leftarrow> deployPerpV2BaseToken W ownerAddress h;
     h \<leftarrow> send W baseToken ''initialize'' [AStr name, AStr symbol, AStr (addr priceFeed)] h;
     Some (\<lparr>bt_baseToken = baseToken, bt_mockAggregator = mockAggregator\<rparr>, h)
   }"

record TokensFixture =
  tf_token0 :: contract
  tf_token1 :: contract
  tf_mockAggregator0 :: contract
  tf_mockAggregator1 :: contract

definition tokensFixture ::
  "'b world \<Rightarrow> string \<Rightarrow> 'b history \<Rightarrow> (TokensFixture \<times> 'b history) option"
where
  "tokensFixture W ownerAddress h = do {
     (f0, h) \<leftarrow> createBaseTokenFixture W ownerAddress ''RandomTestToken0'' ''randomToken0'' h;
     (f1, h) \<leftarrow> createBaseTokenFixture W ownerAddress ''RandomTestToken1'' ''randomToken1'' h;
     Some (if isAscendingTokenOrder (addr (bt_baseToken f0)) (addr (bt_baseToken f1))
       then \<lparr>tf_token0 = bt_baseToken f0, tf_token1 = bt_baseToken f1,
         tf_mockAggregator0 = bt_mockAggregator f0, tf_mockAggregator1 = bt_mockAggregator f1\<rparr>
       else \<lparr>tf_token0 = bt_baseToken f1, tf_token1 = bt_baseToken f0,
         tf_mockAggregator0 = bt_mockAggregator f1, tf_mockAggregator1 = bt_mockAggregator f0\<rparr>, h)
   }"

text \<open>The loop that deploys base tokens until one has a smaller address than the other token. It need
  not end: not returning is \<open>None\<close>.\<close>

partial_function (option) token0_loop ::
  "'b world \<Rightarrow> string \<Rightarrow> string \<Rightarrow> BaseTokenFixture option \<Rightarrow> 'b history \<Rightarrow> (BaseTokenFixture \<times> 'b history) option"
where
  "token0_loop W ownerAddress token1Addr token0 h = (case token0 of
     Some f \<Rightarrow> if isAscendingTokenOrder (addr (bt_baseToken f)) token1Addr then Some (f, h)
       else Option.bind (createBaseTokenFixture W ownerAddress ''RandomTestToken0'' ''randomToken0'' h)
         (\<lambda>(f, h). token0_loop W ownerAddress token1Addr (Some f) h)
   | None \<Rightarrow> Option.bind (createBaseTokenFixture W ownerAddress ''RandomTestToken0'' ''randomToken0'' h)
         (\<lambda>(f, h). token0_loop W ownerAddress token1Addr (Some f) h))"

definition token0Fixture ::
  "'b world \<Rightarrow> string \<Rightarrow> string \<Rightarrow> 'b history \<Rightarrow> (BaseTokenFixture \<times> 'b history) option"
where
  "token0Fixture W ownerAddress token1Addr h = token0_loop W ownerAddress token1Addr None h"

subsection \<open>The deployment\<close>

text \<open>The fields of the class, in the three groups in which \<open>initialize\<close> sets them. An \<^verbatim>\<open>Account\<close> is
  its address, which is also the signer of its wallet.\<close>

record perp_tokens =
  pt_usdc :: contract
  pt_vETH :: contract
  pt_vBTC :: contract
  pt_vQuote :: contract
  pt_ethPriceFeed :: contract
  pt_btcPriceFeed :: contract
  pt_priceFeeds :: "string \<rightharpoonup> contract"

record perp_core = perp_tokens +
  pc_uniV3Factory :: contract
  pc_clearingHouseConfig :: contract
  pc_marketRegistry :: contract
  pc_orderBook :: contract
  pc_insuranceFund :: contract
  pc_accountBalance :: contract
  pc_exchange :: contract
  pc_vault :: contract
  pc_vETHPool :: contract
  pc_vBTCPool :: contract
  pc_pools :: "string \<rightharpoonup> contract"

record perpV2_fixture = perp_core +
  pv_maker :: string
  pv_otherTrader :: string
  pv_clearingHouse :: contract
  pv_quoter :: contract

definition feeTier :: int where
  "feeTier = 10000"

definition usdcDecimals :: int where
  "usdcDecimals = 6"

definition ONE_MILLION :: string where
  "ONE_MILLION = ''1000000''"

definition initialize_perp_tokens ::
  "'b world \<Rightarrow> 'b bn_api \<Rightarrow> string \<Rightarrow> 'b history \<Rightarrow> (perp_tokens \<times> 'b history) option"
where
  "initialize_perp_tokens W B ownerAddress h = do {
     supply \<leftarrow> ether B ''100000000000000'';
     (usdc, h) \<leftarrow> deployTokenMock W B ownerAddress ownerAddress (Some (ABig supply)) (Some (ANum 6)) None None h;
     (tokens, h) \<leftarrow> tokensFixture W ownerAddress h;
     let vETH = tf_token0 tokens;
     let vQuote = tf_token1 tokens;
     let ethPriceFeed = tf_mockAggregator0 tokens;
     (btc, h) \<leftarrow> token0Fixture W ownerAddress (addr vQuote) h;
     let vBTC = bt_baseToken btc;
     let btcPriceFeed = bt_mockAggregator btc;
     Some (\<lparr>pt_usdc = usdc, pt_vETH = vETH, pt_vBTC = vBTC, pt_vQuote = vQuote,
        pt_ethPriceFeed = ethPriceFeed, pt_btcPriceFeed = btcPriceFeed,
        pt_priceFeeds = [addr vETH \<mapsto> ethPriceFeed, addr vBTC \<mapsto> btcPriceFeed]\<rparr>, h)
   }"

definition initialize_perp_core ::
  "'b world \<Rightarrow> string \<Rightarrow> perp_tokens \<Rightarrow> 'b history \<Rightarrow> (perp_core \<times> 'b history) option"
where
  "initialize_perp_core W ownerAddress tk h = do {
     (uniV3Factory, h) \<leftarrow> deployUniswapV3Factory W ownerAddress h;
     (config, h) \<leftarrow> deployPerpV2ClearingHouseConfig W ownerAddress h;
     h \<leftarrow> send W config ''initialize'' [] h;
     h \<leftarrow> send W uniV3Factory ''createPool'' [AStr (addr (pt_vETH tk)), AStr (addr (pt_vQuote tk)), ANum feeTier] h;
     h \<leftarrow> send W uniV3Factory ''createPool'' [AStr (addr (pt_vBTC tk)), AStr (addr (pt_vQuote tk)), ANum feeTier] h;
     (marketRegistry, h) \<leftarrow> deployPerpV2MarketRegistry W ownerAddress h;
     h \<leftarrow> send W marketRegistry ''initialize'' [AStr (addr uniV3Factory), AStr (addr (pt_vQuote tk))] h;
     (orderBook, h) \<leftarrow> deployPerpV2OrderBook W ownerAddress h;
     h \<leftarrow> send W orderBook ''initialize'' [AStr (addr marketRegistry)] h;
     (insuranceFund, h) \<leftarrow> deployPerpV2InsuranceFund W ownerAddress h;
     h \<leftarrow> send W insuranceFund ''initialize'' [AStr (addr (pt_usdc tk))] h;
     (accountBalance, h) \<leftarrow> deployPerpV2AccountBalance W ownerAddress h;
     (exchange, h) \<leftarrow> deployPerpV2Exchange W ownerAddress h;
     h \<leftarrow> send W exchange ''initialize'' [AStr (addr marketRegistry), AStr (addr orderBook), AStr (addr config)] h;
     let h = launch W exchange ''setAccountBalance'' [AStr (addr accountBalance)] h;
     h \<leftarrow> send W orderBook ''setExchange'' [AStr (addr exchange)] h;
     h \<leftarrow> send W accountBalance ''initialize'' [AStr (addr config), AStr (addr orderBook)] h;
     (vault, h) \<leftarrow> deployPerpV2Vault W ownerAddress h;
     h \<leftarrow> send W vault ''initialize'' [AStr (addr insuranceFund), AStr (addr config), AStr (addr accountBalance),
        AStr (addr exchange)] h;
     h \<leftarrow> send W insuranceFund ''setBorrower'' [AStr (addr vault)] h;
     h \<leftarrow> send W accountBalance ''setVault'' [AStr (addr vault)] h;
     poolAddrA \<leftarrow> Option.bind (view W uniV3Factory ''getPool''
        [AStr (addr (pt_vETH tk)), AStr (addr (pt_vQuote tk)), ANum feeTier] h) as_str;
     poolAddrB \<leftarrow> Option.bind (view W uniV3Factory ''getPool''
        [AStr (addr (pt_vBTC tk)), AStr (addr (pt_vQuote tk)), ANum feeTier] h) as_str;
     let vETHPool = getUniswapV3PoolInstance ownerAddress poolAddrA;
     let vBTCPool = getUniswapV3PoolInstance ownerAddress poolAddrB;
     h \<leftarrow> send W (pt_vETH tk) ''addWhitelist'' [AStr poolAddrA] h;
     h \<leftarrow> send W (pt_vBTC tk) ''addWhitelist'' [AStr poolAddrB] h;
     h \<leftarrow> send W (pt_vQuote tk) ''addWhitelist'' [AStr poolAddrA] h;
     h \<leftarrow> send W (pt_vQuote tk) ''addWhitelist'' [AStr poolAddrB] h;
     Some (perp_tokens.extend tk (perp_core.fields uniV3Factory config marketRegistry orderBook insuranceFund
        accountBalance exchange vault vETHPool vBTCPool [addr (pt_vETH tk) \<mapsto> vETHPool, addr (pt_vBTC tk) \<mapsto> vBTCPool]), h)
   }"

definition deposit_perp ::
  "'b world \<Rightarrow> 'b bn_api \<Rightarrow> contract \<Rightarrow> string \<Rightarrow> 'b \<Rightarrow> contract \<Rightarrow> 'b history \<Rightarrow> 'b history option"
where
  "deposit_perp W B vault sender amount token h = do {
     decimals \<leftarrow> Option.bind (view W token ''decimals'' [] h) as_num;
     parsedAmount \<leftarrow> bn_parseUnits B (bn_toString B amount) decimals;
     h \<leftarrow> send W (connect token sender) ''approve'' [AStr (addr vault), ABig parsedAmount] h;
     send W (connect vault sender) ''deposit'' [AStr (addr token), ABig parsedAmount] h
   }"

definition initialize_perp_markets ::
  "'b world \<Rightarrow> 'b bn_api \<Rightarrow> string \<Rightarrow> string \<Rightarrow> string \<Rightarrow> perp_core \<Rightarrow> 'b history \<Rightarrow> (perpV2_fixture \<times> 'b history) option"
where
  "initialize_perp_markets W B ownerAddress maker otherTrader fx h = do {
     (clearingHouse, h) \<leftarrow> deployPerpV2ClearingHouse W ownerAddress h;
     h \<leftarrow> send W clearingHouse ''initialize'' [AStr (addr (pc_clearingHouseConfig fx)), AStr (addr (pc_vault fx)),
        AStr (addr (pt_vQuote fx)), AStr (addr (pc_uniV3Factory fx)), AStr (addr (pc_exchange fx)),
        AStr (addr (pc_accountBalance fx)), AStr (addr (pc_insuranceFund fx))] h;
     h \<leftarrow> send W (pc_clearingHouseConfig fx) ''setSettlementTokenBalanceCap'' [ABig (MAX_UINT_256 B)] h;
     (quoter, h) \<leftarrow> deployPerpV2Quoter W ownerAddress (addr (pc_marketRegistry fx)) h;
     h \<leftarrow> send W (pt_vQuote fx) ''mintMaximumTo'' [AStr (addr clearingHouse)] h;
     h \<leftarrow> send W (pt_vETH fx) ''mintMaximumTo'' [AStr (addr clearingHouse)] h;
     h \<leftarrow> send W (pt_vBTC fx) ''mintMaximumTo'' [AStr (addr clearingHouse)] h;
     h \<leftarrow> send W (pt_vQuote fx) ''addWhitelist'' [AStr (addr clearingHouse)] h;
     h \<leftarrow> send W (pt_vETH fx) ''addWhitelist'' [AStr (addr clearingHouse)] h;
     h \<leftarrow> send W (pt_vBTC fx) ''addWhitelist'' [AStr (addr clearingHouse)] h;
     h \<leftarrow> send W (pc_marketRegistry fx) ''setClearingHouse'' [AStr (addr clearingHouse)] h;
     h \<leftarrow> send W (pc_orderBook fx) ''setClearingHouse'' [AStr (addr clearingHouse)] h;
     h \<leftarrow> send W (pc_exchange fx) ''setClearingHouse'' [AStr (addr clearingHouse)] h;
     h \<leftarrow> send W (pc_accountBalance fx) ''setClearingHouse'' [AStr (addr clearingHouse)] h;
     h \<leftarrow> send W (pc_vault fx) ''setClearingHouse'' [AStr (addr clearingHouse)] h;
     million \<leftarrow> bn_from_string B ONE_MILLION;
     makerCollateralAmount \<leftarrow> bn_parseUnits B ONE_MILLION usdcDecimals;
     h \<leftarrow> send W (pt_usdc fx) ''mint'' [AStr maker, ABig makerCollateralAmount] h;
     h \<leftarrow> deposit_perp W B (pc_vault fx) maker million (pt_usdc fx) h;
     otherCollateralAmount \<leftarrow> bn_parseUnits B ONE_MILLION usdcDecimals;
     h \<leftarrow> send W (pt_usdc fx) ''mint'' [AStr otherTrader, ABig otherCollateralAmount] h;
     h \<leftarrow> deposit_perp W B (pc_vault fx) otherTrader million (pt_usdc fx) h;
     Some (perp_core.extend fx (perpV2_fixture.fields maker otherTrader clearingHouse quoter), h)
   }"

definition initialize_perp ::
  "'b world \<Rightarrow> 'b bn_api \<Rightarrow> string \<Rightarrow> string \<Rightarrow> string \<Rightarrow> 'b history \<Rightarrow> (perpV2_fixture \<times> 'b history) option"
where
  "initialize_perp W B ownerAddress maker otherTrader h = do {
     (tk, h) \<leftarrow> initialize_perp_tokens W B ownerAddress h;
     (core, h) \<leftarrow> initialize_perp_core W ownerAddress tk h;
     initialize_perp_markets W B ownerAddress maker otherTrader core h
   }"

subsection \<open>Pools\<close>

text \<open>\<^verbatim>\<open>(2 ^ 16) - 1\<close>: in JavaScript \<^verbatim>\<open>^\<close> is the exclusive or.\<close>

definition observation_cardinality :: int where
  "observation_cardinality = xor 2 16 - 1"

definition initializePoolWithLiquidityWithinTicks ::
  "'b world \<Rightarrow> 'b bn_api \<Rightarrow> 'j jsbi_api \<Rightarrow> (string \<Rightarrow> string \<Rightarrow> 'j option) \<Rightarrow> perpV2_fixture \<Rightarrow> contract \<Rightarrow> 'b \<Rightarrow> 'b \<Rightarrow>
   int \<Rightarrow> int \<Rightarrow> 'b history \<Rightarrow> 'b history option"
where
  "initializePoolWithLiquidityWithinTicks W B J encodeSqrtRatioX96 fx baseToken baseTokenAmount quoteTokenAmount
     lowerTick upperTick h = do {
     pool \<leftarrow> pc_pools fx (addr baseToken);
     sqrtPrice \<leftarrow> encodePriceSqrt B J encodeSqrtRatioX96 quoteTokenAmount baseTokenAmount;
     h \<leftarrow> send W pool ''initialize'' [ABig sqrtPrice] h;
     h \<leftarrow> send W pool ''increaseObservationCardinalityNext'' [ANum observation_cardinality] h;
     h \<leftarrow> send W (pc_marketRegistry fx) ''addPool'' [AStr (addr baseToken), ANum feeTier] h;
     h \<leftarrow> send W (pc_marketRegistry fx) ''setFeeRatio'' [AStr (addr baseToken), ANum feeTier] h;
     send W (connect (pv_clearingHouse fx) (pv_maker fx)) ''addLiquidity'' [AObj [
       (''baseToken'', AStr (addr baseToken)),
       (''base'', ABig baseTokenAmount),
       (''quote'', ABig quoteTokenAmount),
       (''lowerTick'', ANum lowerTick),
       (''upperTick'', ANum upperTick),
       (''minBase'', ANum 0),
       (''minQuote'', ANum 0),
       (''useTakerBalance'', ABool False),
       (''deadline'', ABig (MAX_UINT_256 B))]] h
   }"

definition initializePoolWithLiquidityWide ::
  "'b world \<Rightarrow> 'b bn_api \<Rightarrow> 'j jsbi_api \<Rightarrow> (string \<Rightarrow> string \<Rightarrow> 'j option) \<Rightarrow> perpV2_fixture \<Rightarrow> contract \<Rightarrow> 'b \<Rightarrow> 'b \<Rightarrow>
   'b history \<Rightarrow> 'b history option"
where
  "initializePoolWithLiquidityWide W B J encodeSqrtRatioX96 fx baseToken baseTokenAmount quoteTokenAmount h = do {
     pool \<leftarrow> pc_pools fx (addr baseToken);
     sqrtPrice \<leftarrow> encodePriceSqrt B J encodeSqrtRatioX96 quoteTokenAmount baseTokenAmount;
     h \<leftarrow> send W pool ''initialize'' [ABig sqrtPrice] h;
     h \<leftarrow> send W pool ''increaseObservationCardinalityNext'' [ANum observation_cardinality] h;
     tickSpacing \<leftarrow> Option.bind (view W pool ''tickSpacing'' [] h) as_num;
     let lowerTick = getMinTick tickSpacing;
     let upperTick = getMaxTick tickSpacing;
     h \<leftarrow> send W (pc_marketRegistry fx) ''addPool'' [AStr (addr baseToken), ANum feeTier] h;
     h \<leftarrow> send W (pc_marketRegistry fx) ''setFeeRatio'' [AStr (addr baseToken), ANum feeTier] h;
     send W (connect (pv_clearingHouse fx) (pv_maker fx)) ''addLiquidity'' [AObj [
       (''baseToken'', AStr (addr baseToken)),
       (''base'', ABig baseTokenAmount),
       (''quote'', ABig quoteTokenAmount),
       (''lowerTick'', ANum lowerTick),
       (''upperTick'', ANum upperTick),
       (''minBase'', ANum 0),
       (''minQuote'', ANum 0),
       (''useTakerBalance'', ABool False),
       (''deadline'', ABig (MAX_UINT_256 B))]] h
   }"

definition setBaseTokenOraclePrice ::
  "'b world \<Rightarrow> perpV2_fixture \<Rightarrow> contract \<Rightarrow> 'b \<Rightarrow> 'b history \<Rightarrow> 'b history option"
where
  "setBaseTokenOraclePrice W fx baseToken price h = do {
     feed \<leftarrow> pt_priceFeeds fx (addr baseToken);
     send W feed ''setRoundData'' [ANum 0, ABig price, ANum 0, ANum 0, ANum 0] h
   }"

subsection \<open>Readings\<close>

definition getSpotPrice :: "'b world \<Rightarrow> 'b bn_api \<Rightarrow> 'j jsbi_api \<Rightarrow> perpV2_fixture \<Rightarrow> string \<Rightarrow> 'b history \<Rightarrow> 'b option" where
  "getSpotPrice W B J fx baseToken h = do {
     pool \<leftarrow> pc_pools fx baseToken;
     slot0 \<leftarrow> view W pool ''slot0'' [] h;
     sqrtPriceX96 \<leftarrow> Option.bind (field ''sqrtPriceX96'' slot0) as_big;
     getPriceFromSqrtPriceX96 B J sqrtPriceX96
   }"

text \<open>The static call does not change the chain; it answers with the two amounts of the trade.\<close>

definition getSwapQuote ::
  "'b world \<Rightarrow> 'b bn_api \<Rightarrow> perpV2_fixture \<Rightarrow> string \<Rightarrow> 'b \<Rightarrow> bool \<Rightarrow> 'b history \<Rightarrow> ('b \<times> 'b) option"
where
  "getSwapQuote W B fx baseToken baseQuantity isBuy h = do {
     quote \<leftarrow> view W (connect (pv_clearingHouse fx) (pv_otherTrader fx)) ''openPosition'' [AObj [
       (''baseToken'', AStr baseToken),
       (''isBaseToQuote'', ABool (\<not> isBuy)),
       (''isExactInput'', ABool (\<not> isBuy)),
       (''amount'', ABig baseQuantity),
       (''oppositeAmountBound'', ABig (ZERO B)),
       (''deadline'', ABig (MAX_UINT_256 B)),
       (''sqrtPriceLimitX96'', ABig (ZERO B)),
       (''referralCode'', AStr ZERO_BYTES)]] h;
     deltaBase \<leftarrow> Option.bind (field ''base'' quote) as_big;
     deltaQuote \<leftarrow> Option.bind (field ''quote'' quote) as_big;
     Some (deltaBase, deltaQuote)
   }"

definition getCurrentLeverage ::
  "'b world \<Rightarrow> 'b bn_api \<Rightarrow> 'j jsbi_api \<Rightarrow> perpV2_fixture \<Rightarrow> 'b PositionNotionalInfo \<Rightarrow> 'b \<Rightarrow> 'b history \<Rightarrow> 'b option"
where
  "getCurrentLeverage W B J fx positionInfo collateral h = do {
     price \<leftarrow> getSpotPrice W B J fx (pn_baseToken positionInfo) h;
     value \<leftarrow> preciseMul B (pn_baseBalance positionInfo) price;
     let basePositionAbsoluteValue = bn_abs B value;
     basePositionNetValue \<leftarrow> preciseMul B (pn_baseBalance positionInfo) price;
     preciseDiv B basePositionAbsoluteValue
       (bn_add B (bn_add B basePositionNetValue (pn_quoteBalance positionInfo)) collateral)
   }"

definition getVTokenInstance :: "string \<Rightarrow> string \<Rightarrow> contract" where
  "getVTokenInstance ownerAddress token = getVToken ownerAddress token"

subsection \<open>The search for a base token\<close>

text \<open>\<open>n\<close> base tokens, one after the other.\<close>

fun base_tokens :: "'b world \<Rightarrow> string \<Rightarrow> nat \<Rightarrow> 'b history \<Rightarrow> (BaseTokenFixture list \<times> 'b history) option" where
  "base_tokens W s 0 h = Some ([], h)"
| "base_tokens W s (Suc n) h = do {
     (f, h) \<leftarrow> createBaseTokenFixture W s ''RandomTestToken0'' ''randomToken0'' h;
     (fs, h) \<leftarrow> base_tokens W s n h;
     Some (f # fs, h)
   }"

definition below :: "string \<Rightarrow> BaseTokenFixture \<Rightarrow> bool" where
  "below token1Addr f = isAscendingTokenOrder (addr (bt_baseToken f)) token1Addr"

lemma token0_loop_Some:
  "token0_loop W s t (Some f) h = (if below t f then Some (f, h) else token0_loop W s t None h)"
  by (subst (1 2) token0_loop.simps) (simp add: below_def)

lemma token0_loop_None:
  "token0_loop W s t None h = Option.bind (createBaseTokenFixture W s ''RandomTestToken0'' ''randomToken0'' h)
     (\<lambda>(f, h). if below t f then Some (f, h) else token0_loop W s t None h)"
proof -
  have "(\<lambda>(f, h). token0_loop W s t (Some f) h) = (\<lambda>(f, h). if below t f then Some (f, h) else token0_loop W s t None h)"
    by (auto simp: fun_eq_iff token0_loop_Some)
  then show ?thesis by (subst token0_loop.simps) (simp only: option.case)
qed

lemma token0_loop_finds:
  assumes "base_tokens W s n h = Some (fs @ [f], h')" and "below t f" and "filter (below t) fs = []"
  shows "token0_loop W s t None h = Some (f, h')"
  using assms
proof (induction n arbitrary: fs h)
  case (Suc n)
  then obtain g h1 gs where g: "createBaseTokenFixture W s ''RandomTestToken0'' ''randomToken0'' h = Some (g, h1)"
    "base_tokens W s n h1 = Some (gs, h')" "fs @ [f] = g # gs" by auto
  show ?case
  proof (cases fs)
    case Nil
    with g have "n = 0" by (cases n) auto
    with g Nil Suc.prems(2) show ?thesis by (simp add: token0_loop_None del: option_bind_Some)
  next
    case (Cons a as)
    with g Suc.prems have "token0_loop W s t None h1 = Some (f, h')" "\<not> below t g"
      by (auto intro!: Suc.IH split: if_splits)
    with g show ?thesis by (simp add: token0_loop_None [of W s t h] del: option_bind_Some)
  qed
qed simp

definition search_result ::
  "'b world \<Rightarrow> string \<Rightarrow> string \<Rightarrow> BaseTokenFixture option \<Rightarrow> 'b history \<Rightarrow> BaseTokenFixture \<times> 'b history \<Rightarrow> bool"
where
  "search_result W s t x h r \<longleftrightarrow> (case x of Some g \<Rightarrow> below t g | None \<Rightarrow> False) \<and> x = Some (fst r) \<and> snd r = h \<or>
    (case x of Some g \<Rightarrow> \<not> below t g | None \<Rightarrow> True) \<and>
    (\<exists>n fs. base_tokens W s n h = Some (fs @ [fst r], snd r) \<and> below t (fst r) \<and> filter (below t) fs = [])"

lemma search_result_step:
  assumes "createBaseTokenFixture W s ''RandomTestToken0'' ''randomToken0'' h = Some (g, h1)"
    and "search_result W s t (Some g) h1 r"
  shows "\<exists>n fs. base_tokens W s n h = Some (fs @ [fst r], snd r) \<and> below t (fst r) \<and> filter (below t) fs = []"
proof (cases "below t g")
  case True
  with assms show ?thesis
    by (intro exI [of _ 1] exI [of _ "[]"]) (simp add: search_result_def)
next
  case False
  with assms(2) obtain n fs where "base_tokens W s n h1 = Some (fs @ [fst r], snd r)" "below t (fst r)" "filter (below t) fs = []"
    by (auto simp: search_result_def)
  with assms(1) False show ?thesis by (intro exI [of _ "Suc n"] exI [of _ "g # fs"]) simp
qed

lemma token0_loop_found:
  assumes "token0_loop W s t x h = Some r"
  shows "search_result W s t x h r"
proof (rule token0_loop.raw_induct [of search_result, OF _ assms])
  fix loop :: "'b world \<Rightarrow> string \<Rightarrow> string \<Rightarrow> BaseTokenFixture option \<Rightarrow> 'b history \<Rightarrow> (BaseTokenFixture \<times> 'b history) option"
    and W s t x h r
  assume IH: "\<And>W s t x h r. loop W s t x h = Some r \<Longrightarrow> search_result W s t x h r"
    and run: "(case x of
       Some f \<Rightarrow> if isAscendingTokenOrder (addr (bt_baseToken f)) t then Some (f, h)
         else Option.bind (createBaseTokenFixture W s ''RandomTestToken0'' ''randomToken0'' h) (\<lambda>(f, h). loop W s t (Some f) h)
     | None \<Rightarrow> Option.bind (createBaseTokenFixture W s ''RandomTestToken0'' ''randomToken0'' h)
         (\<lambda>(f, h). loop W s t (Some f) h)) = Some r"
  show "search_result W s t x h r"
  proof (cases "\<exists>g. x = Some g \<and> below t g")
    case True
    with run show ?thesis by (auto simp: search_result_def below_def)
  next
    case False
    with run obtain g h1 where g: "createBaseTokenFixture W s ''RandomTestToken0'' ''randomToken0'' h = Some (g, h1)"
      "loop W s t (Some g) h1 = Some r" by (auto simp: below_def split: option.splits)
    from search_result_step [OF g(1) IH [OF g(2)]] False show ?thesis
      by (auto simp: search_result_def split: option.splits)
  qed
qed

text \<open>C36: the search \<^verbatim>\<open>_token0Fixture\<close> returns exactly when one of the base tokens it can deploy, one after
  the other, has a smaller address than the quote token, and then it returns the first that has.\<close>

theorem token0_search_finds_first:
  "token0Fixture W ownerAddress token1Addr h = Some (f, h') \<longleftrightarrow>
     (\<exists>n fs. base_tokens W ownerAddress n h = Some (fs @ [f], h') \<and> filter (below token1Addr) (fs @ [f]) = [f])"
proof
  assume "token0Fixture W ownerAddress token1Addr h = Some (f, h')"
  from token0_loop_found [OF this [unfolded token0Fixture_def]]
  show "\<exists>n fs. base_tokens W ownerAddress n h = Some (fs @ [f], h') \<and> filter (below token1Addr) (fs @ [f]) = [f]"
    by (fastforce simp: search_result_def)
next
  assume "\<exists>n fs. base_tokens W ownerAddress n h = Some (fs @ [f], h') \<and> filter (below token1Addr) (fs @ [f]) = [f]"
  then obtain n fs where n: "base_tokens W ownerAddress n h = Some (fs @ [f], h')"
    "filter (below token1Addr) (fs @ [f]) = [f]" by blast
  have "f \<in> set (filter (below token1Addr) (fs @ [f]))" unfolding n(2) by simp
  then have "below token1Addr f" unfolding set_filter by blast
  with n show "token0Fixture W ownerAddress token1Addr h = Some (f, h')"
    unfolding token0Fixture_def by (intro token0_loop_finds) auto
qed

subsection \<open>The order of the tokens\<close>

context chain
begin

lemma createBaseTokenFixture_step:
  assumes "createBaseTokenFixture W s name symbol h = Some (f, h')"
  shows "\<exists>a. addr (bt_baseToken f) = checksum W a \<and> a \<notin> set (addresses h) \<and> a \<in> set (addresses h') \<and>
    set (addresses h) \<subseteq> set (addresses h')"
proof -
  from assms obtain c h1 d h2 h3 h4 xs where
    "deploy W s ''ChainlinkAggregatorMock'' [] [ANum 6] h = Some (c, h1)"
    "deploy W s ''PerpV2ChainlinkPriceFeed'' [] [] h1 = Some (d, h2)"
    "send W d ''initialize'' xs h2 = Some h3"
    "deploy W s ''PerpV2BaseToken'' [] [] h3 = Some (bt_baseToken f, h4)"
    "addresses h' = addresses h4"
    unfolding createBaseTokenFixture_def external_defs deployChainlinkAggregatorMock_def
    by (auto simp: send_Some)
  then show ?thesis by (auto dest!: deploy_step simp: send_Some)
qed

lemma base_tokens_step:
  "base_tokens W s n h = Some (fs, h') \<Longrightarrow> f \<in> set fs \<Longrightarrow>
     (\<exists>a. addr (bt_baseToken f) = checksum W a \<and> a \<notin> set (addresses h))"
proof (induction n arbitrary: fs h)
  case (Suc n)
  then obtain g h1 gs where g: "createBaseTokenFixture W s ''RandomTestToken0'' ''randomToken0'' h = Some (g, h1)"
    "base_tokens W s n h1 = Some (gs, h')" "fs = g # gs" by auto
  from createBaseTokenFixture_step [OF g(1)] Suc.IH [OF g(2)] Suc.prems(2) g(3) show ?case by auto
qed simp

lemma token0Fixture_step:
  assumes "token0Fixture W s t h = Some (f, h')"
  shows "isAscendingTokenOrder (addr (bt_baseToken f)) t \<and>
    (\<exists>a. addr (bt_baseToken f) = checksum W a \<and> a \<notin> set (addresses h))"
  using token0_loop_found [OF assms [unfolded token0Fixture_def]] base_tokens_step [of s _ h "_ @ [f]" h' f]
  by (auto simp: search_result_def below_def)

lemma tokensFixture_step:
  assumes "tokensFixture W s h = Some (f, h')"
  shows "\<exists>a b. addr (tf_token0 f) = checksum W a \<and> addr (tf_token1 f) = checksum W b \<and> a < b \<and>
    {a, b} \<subseteq> set (addresses h')"
proof -
  from assms obtain f0 h1 f1 where
    f: "createBaseTokenFixture W s ''RandomTestToken0'' ''randomToken0'' h = Some (f0, h1)"
      "createBaseTokenFixture W s ''RandomTestToken1'' ''randomToken1'' h1 = Some (f1, h')"
    and r: "f = (if isAscendingTokenOrder (addr (bt_baseToken f0)) (addr (bt_baseToken f1))
       then \<lparr>tf_token0 = bt_baseToken f0, tf_token1 = bt_baseToken f1,
         tf_mockAggregator0 = bt_mockAggregator f0, tf_mockAggregator1 = bt_mockAggregator f1\<rparr>
       else \<lparr>tf_token0 = bt_baseToken f1, tf_token1 = bt_baseToken f0,
         tf_mockAggregator0 = bt_mockAggregator f1, tf_mockAggregator1 = bt_mockAggregator f0\<rparr>)"
    by (auto simp: tokensFixture_def)
  obtain a b where a: "addr (bt_baseToken f0) = checksum W a" "a \<in> set (addresses h1)"
    and b: "addr (bt_baseToken f1) = checksum W b" "b \<notin> set (addresses h1)" "b \<in> set (addresses h')"
      "set (addresses h1) \<subseteq> set (addresses h')"
    using createBaseTokenFixture_step [OF f(1)] createBaseTokenFixture_step [OF f(2)] by blast
  have "isAscendingTokenOrder (addr (bt_baseToken f0)) (addr (bt_baseToken f1)) \<longleftrightarrow> a < b"
    unfolding a b isAscendingTokenOrder_def by (rule address_below_checksum)
  moreover have "a \<noteq> b" using a b by auto
  ultimately show ?thesis using a b r by (cases "a < b") (auto simp: linorder_neq_iff)
qed

lemma perp_tokens_order:
  assumes "initialize_perp_tokens W B s h = Some (tk, h')"
  shows "\<exists>a b c. addr (pt_vETH tk) = checksum W a \<and> addr (pt_vBTC tk) = checksum W b \<and> addr (pt_vQuote tk) = checksum W c \<and>
    a < c \<and> b < c \<and> a \<noteq> b \<and>
    pt_priceFeeds tk = [addr (pt_vETH tk) \<mapsto> pt_ethPriceFeed tk, addr (pt_vBTC tk) \<mapsto> pt_btcPriceFeed tk]"
proof -
  from assms obtain h1 tokens h2 btc where
    t: "tokensFixture W s h1 = Some (tokens, h2)" "token0Fixture W s (addr (tf_token1 tokens)) h2 = Some (btc, h')"
    and tk: "pt_vETH tk = tf_token0 tokens" "pt_vQuote tk = tf_token1 tokens" "pt_vBTC tk = bt_baseToken btc"
      "pt_priceFeeds tk = [addr (pt_vETH tk) \<mapsto> pt_ethPriceFeed tk, addr (pt_vBTC tk) \<mapsto> pt_btcPriceFeed tk]"
    by (auto simp: initialize_perp_tokens_def Let_def)
  from tokensFixture_step [OF t(1)] obtain a c where a: "addr (tf_token0 tokens) = checksum W a"
    "addr (tf_token1 tokens) = checksum W c" "a < c" "a \<in> set (addresses h2)" by auto
  from token0Fixture_step [OF t(2)] a(2) obtain b where b: "addr (bt_baseToken btc) = checksum W b"
    "b \<notin> set (addresses h2)" "b < c"
    by (auto simp: isAscendingTokenOrder_def address_below_checksum)
  from a b tk show ?thesis by auto
qed

end

text \<open>The later parts keep the tokens.\<close>

lemma perp_core_tokens:
  "initialize_perp_core W s tk h = Some (core, h') \<Longrightarrow> perp_tokens.truncate core = tk \<and>
     pc_pools core = [addr (pt_vETH tk) \<mapsto> pc_vETHPool core, addr (pt_vBTC tk) \<mapsto> pc_vBTCPool core]"
  unfolding initialize_perp_core_def external_defs Let_def
  by (auto simp: perp_tokens.defs perp_core.defs)

lemma perp_markets_core:
  "initialize_perp_markets W B s maker other core h = Some (fx, h') \<Longrightarrow> perp_core.truncate fx = core"
  unfolding initialize_perp_markets_def external_defs Let_def
  by (auto simp: perp_core.defs perpV2_fixture.defs)

subsection \<open>The price of a new pool\<close>

lemma root_price_bounds:
  fixes n m r :: int
  assumes "0 \<le> n" and "0 < m" and "n \<le> 2 ^ 64 * m"
    and "0 \<le> r" and "r * r \<le> n * 2 ^ 192 div m" and "n * 2 ^ 192 div m < (r + 1) * (r + 1)"
  shows "r * r * 10 ^ 18 div 2 ^ 192 \<le> n * 10 ^ 18 div m \<and> n * 10 ^ 18 div m \<le> r * r * 10 ^ 18 div 2 ^ 192 + 1"
proof -
  define p where "p = r * r * 10 ^ 18 div 2 ^ 192"
  define q where "q = n * 2 ^ 192 div m"
  have p: "p * 2 ^ 192 \<le> r * r * 10 ^ 18" "r * r * 10 ^ 18 < (p + 1) * 2 ^ 192"
    using floor_bounds [of "2 ^ 192" "r * r * 10 ^ 18"] unfolding p_def by auto
  have q: "q * m \<le> n * 2 ^ 192" "n * 2 ^ 192 < (q + 1) * m"
    using floor_bounds [OF assms(2), of "n * 2 ^ 192"] unfolding q_def by auto
  have r: "r * r \<le> q" "q + 1 \<le> (r + 1) * (r + 1)" using assms(5,6) unfolding q_def by auto
  have up: "p * m \<le> n * 10 ^ 18"
  proof -
    have "p * 2 ^ 192 * m \<le> r * r * 10 ^ 18 * m" using p(1) assms(2) by (simp add: mult_right_mono)
    also have "\<dots> \<le> q * m * 10 ^ 18" using r(1) assms(2) by (simp add: mult_right_mono)
    also have "\<dots> \<le> n * 2 ^ 192 * 10 ^ 18" using q(1) by (rule mult_right_mono) simp
    finally have "2 ^ 192 * (p * m) \<le> 2 ^ 192 * (n * 10 ^ 18)" by (simp add: ac_simps)
    then show ?thesis by (rule mult_left_le_imp_le) simp
  qed
  have "r * r \<le> 2 ^ 128 * 2 ^ 128"
  proof -
    have "q * m \<le> 2 ^ 256 * m" using q(1) assms(3) by simp
    then have "q \<le> 2 ^ 256" using assms(2) by simp
    then show ?thesis using r(1) by simp
  qed
  then have "r \<le> 2 ^ 128" using abs_le_square_iff [of r "2 ^ 128"] assms(4) by (simp add: power2_eq_square)
  then have gap: "(r + 1) * (r + 1) * 10 ^ 18 < (p + 2) * 2 ^ 192" using p(2) by (simp add: algebra_simps)
  have "n * 10 ^ 18 < (p + 2) * m"
  proof -
    have "n * 2 ^ 192 * 10 ^ 18 < (q + 1) * m * 10 ^ 18" using q(2) by (rule mult_strict_right_mono) simp
    also have "\<dots> \<le> (r + 1) * (r + 1) * 10 ^ 18 * m"
      using mult_right_mono [OF r(2), of "m * 10 ^ 18"] assms(2) by (simp only: ac_simps) simp
    also have "\<dots> < (p + 2) * 2 ^ 192 * m" using gap assms(2) by (rule mult_strict_right_mono)
    finally have "2 ^ 192 * (n * 10 ^ 18) < 2 ^ 192 * ((p + 2) * m)" by (simp add: ac_simps)
    then show ?thesis by (rule mult_left_less_imp_less) simp
  qed
  with floor_bounds(1) [OF assms(2), of "n * 10 ^ 18"] have "n * 10 ^ 18 div m * m < (p + 2) * m" by linarith
  then have "n * 10 ^ 18 div m < p + 2" using assms(2) by (simp add: mult_less_cancel_right)
  moreover have "p * m < (n * 10 ^ 18 div m + 1) * m"
    using up floor_bounds(2) [OF assms(2), of "n * 10 ^ 18"] by linarith
  then have "p \<le> n * 10 ^ 18 div m" using assms(2) by (simp add: mult_less_cancel_right)
  ultimately show ?thesis unfolding p_def by auto
qed

subsection \<open>Providers\<close>

text \<open>The square root, bit by bit, rounded down.\<close>

fun isqrt :: "nat \<Rightarrow> nat" where
  "isqrt n = (if n = 0 then 0 else let r = 2 * isqrt (n div 4) in if (r + 1) * (r + 1) \<le> n then r + 1 else r)"

declare isqrt.simps [simp del]

lemma isqrt_bounds: "isqrt n * isqrt n \<le> n \<and> n < (isqrt n + 1) * (isqrt n + 1)"
proof (induction n rule: isqrt.induct)
  case (1 n)
  show ?case
  proof (cases "n = 0")
    case False
    let ?s = "isqrt (n div 4)"
    have IH: "?s * ?s \<le> n div 4" "n div 4 < (?s + 1) * (?s + 1)" using 1 [OF False] by auto
    have "4 * (n div 4) \<le> n" "n < 4 * (n div 4) + 4" by presburger+
    moreover have "2 * ?s * (2 * ?s) = 4 * (?s * ?s)" "(2 * ?s + 2) * (2 * ?s + 2) = 4 * ((?s + 1) * (?s + 1))"
      by (simp_all add: algebra_simps)
    ultimately have "2 * ?s * (2 * ?s) \<le> n" "n < (2 * ?s + 2) * (2 * ?s + 2)" using IH by linarith+
    with False show ?thesis by (simp add: isqrt.simps [of n] Let_def)
  qed (simp add: isqrt.simps)
qed

definition int_jsbi :: "int jsbi_api" where
  "int_jsbi = \<lparr>js_BigInt = parse_dec, js_BigInt_number = (\<lambda>n. n), js_multiply = (*),
     js_exponentiate = (\<lambda>m n. if n < 0 then None else Some (m ^ nat n)),
     js_divide = (\<lambda>m n. if n = 0 then None else Some (m sdiv n)), js_toString = dec\<rparr>"

definition int_encode :: "string \<Rightarrow> string \<Rightarrow> int option" where
  "int_encode s t = do {
     n \<leftarrow> parse_dec s;
     m \<leftarrow> parse_dec t;
     if n < 0 \<or> m \<le> 0 then None else Some (int (isqrt (nat (n * 2 ^ 192 div m))))
   }"

interpretation int_v3: v3_sdk int_jsbi int_encode
proof unfold_locales
  fix n m :: int
  assume nm: "0 \<le> n" "0 < m"
  define q where "q = nat (n * 2 ^ 192 div m)"
  have q: "int q = n * 2 ^ 192 div m" using nm by (simp add: q_def div_int_nonneg)
  have "int (isqrt q) * int (isqrt q) \<le> int q \<and> int q < (int (isqrt q) + 1) * (int (isqrt q) + 1)"
    using isqrt_bounds [of q] unfolding of_nat_mult [symmetric] of_nat_1 [symmetric, where 'a = int]
      of_nat_add [symmetric] of_nat_le_iff of_nat_less_iff .
  then show "\<exists>r. int_encode (dec n) (dec m) = Some (js_BigInt_number int_jsbi r) \<and> 0 \<le> r \<and>
      r * r \<le> n * 2 ^ 192 div m \<and> n * 2 ^ 192 div m < (r + 1) * (r + 1)"
    using nm unfolding q by (intro exI [of _ "int (isqrt q)"])
      (simp add: int_encode_def parse_dec_dec int_jsbi_def q_def del: option_bind_Some)
qed (simp_all add: int_jsbi_def parse_dec_dec)

subsection \<open>Properties\<close>

text \<open>C35: the pools of both markets have the base token as \<^verbatim>\<open>token0\<close>, which the comment in the code assumes:
  if no call of \<^verbatim>\<open>initialize\<close> fails and the search for the second base token returns, both base
  tokens are different contracts with numerically smaller addresses than the quote token; and each has
  its own price feed and pool in the maps.\<close>

theorem perp_base_tokens_first:
  assumes "chain W" and "initialize_perp W B ownerAddress maker otherTrader h = Some (fx, h')"
  shows "parse_address (addr (pt_vETH fx)) < parse_address (addr (pt_vQuote fx)) \<and>
    parse_address (addr (pt_vBTC fx)) < parse_address (addr (pt_vQuote fx)) \<and>
    addr (pt_vETH fx) \<noteq> addr (pt_vBTC fx) \<and>
    pt_priceFeeds fx (addr (pt_vETH fx)) = Some (pt_ethPriceFeed fx) \<and>
    pt_priceFeeds fx (addr (pt_vBTC fx)) = Some (pt_btcPriceFeed fx) \<and>
    pc_pools fx (addr (pt_vETH fx)) = Some (pc_vETHPool fx) \<and>
    pc_pools fx (addr (pt_vBTC fx)) = Some (pc_vBTCPool fx)"
proof -
  from assms(2) obtain tk h1 core h2 where i:
    "initialize_perp_tokens W B ownerAddress h = Some (tk, h1)"
    "initialize_perp_core W ownerAddress tk h1 = Some (core, h2)"
    "initialize_perp_markets W B ownerAddress maker otherTrader core h2 = Some (fx, h')"
    by (auto simp: initialize_perp_def)
  obtain a b c where o: "addr (pt_vETH tk) = checksum W a" "addr (pt_vBTC tk) = checksum W b"
    "addr (pt_vQuote tk) = checksum W c" "a < c" "b < c" "a \<noteq> b"
    "pt_priceFeeds tk = [addr (pt_vETH tk) \<mapsto> pt_ethPriceFeed tk, addr (pt_vBTC tk) \<mapsto> pt_btcPriceFeed tk]"
    using chain.perp_tokens_order [OF assms(1) i(1)] by blast
  have ne: "checksum W a \<noteq> checksum W b" using o(6) chain.checksum_eq_iff [OF assms(1)] by simp
  have core: "perp_tokens.truncate core = tk" "perp_core.truncate fx = core"
    "pc_pools core = [addr (pt_vETH tk) \<mapsto> pc_vETHPool core, addr (pt_vBTC tk) \<mapsto> pc_vBTCPool core]"
    using perp_core_tokens [OF i(2)] perp_markets_core [OF i(3)] by auto
  then have tk: "tk = perp_tokens.truncate (perp_core.truncate fx)" by simp
  show ?thesis
    using o ne core(3) unfolding core(2) [symmetric] tk
    by (simp add: perp_tokens.defs perp_core.defs chain.parse_checksum [OF assms(1)])
qed

text \<open>C37: the spot price of a pool that was initialized for some quote amount per base amount, and has not
  traded, is the quotient of the amounts with 18 decimals, rounded down, or at most one unit less
  (for quotients up to \<open>2 ^ 64\<close>).\<close>

theorem spot_price_of_new_pool:
  assumes "bignumber B" and "v3_sdk J encodeSqrtRatioX96" and "0 \<le> n" and "0 < m" and "n \<le> 2 ^ 64 * m"
    and "encodePriceSqrt B J encodeSqrtRatioX96 (bn_from B n) (bn_from B m) = Some root"
    and "pc_pools fx baseToken = Some pool"
    and "view W pool ''slot0'' [] h = Some (AObj [(''sqrtPriceX96'', ABig root)])"
  shows "\<exists>p. getSpotPrice W B J fx baseToken h = Some (bn_from B p) \<and>
    p \<le> n * 10 ^ 18 div m \<and> n * 10 ^ 18 div m \<le> p + 1"
proof -
  note j = jsbi.jsbi_simps [OF v3_sdk.axioms(1) [OF assms(2)]]
  obtain r where r: "encodeSqrtRatioX96 (dec n) (dec m) = Some (js_BigInt_number J r)" "0 \<le> r"
    "r * r \<le> n * 2 ^ 192 div m" "n * 2 ^ 192 div m < (r + 1) * (r + 1)"
    using v3_sdk.encode_root [OF assms(2-4)] by blast
  have root: "root = bn_from B r"
    using assms(6) r(1) by (simp add: encodePriceSqrt_def bignumber.bn_simps [OF assms(1)] j)
  have "getSpotPrice W B J fx baseToken h = Some (bn_from B (r * r * 10 ^ 18 div 2 ^ 192))"
    using r(2) by (simp add: getSpotPrice_def assms(7,8) root getPriceFromSqrtPriceX96_def
        bignumber.bn_simps [OF assms(1)] j sdiv_nonneg)
  with root_price_bounds [OF assms(3-5) r(2-4)] show ?thesis by blast
qed

theorem spot_price_of_new_pool_witness:
  "\<exists>root p. encodePriceSqrt int_bn int_jsbi int_encode 7 2 = Some root \<and>
    getSpotPrice (answering (\<lambda>h s c m xs. Some (AObj [(''sqrtPriceX96'', ABig root)]))) int_bn int_jsbi
      \<lparr>pt_usdc = attach [] [] [], pt_vETH = attach [] [] [], pt_vBTC = attach [] [] [], pt_vQuote = attach [] [] [],
       pt_ethPriceFeed = attach [] [] [], pt_btcPriceFeed = attach [] [] [], pt_priceFeeds = Map.empty,
       pc_uniV3Factory = attach [] [] [], pc_clearingHouseConfig = attach [] [] [],
       pc_marketRegistry = attach [] [] [], pc_orderBook = attach [] [] [], pc_insuranceFund = attach [] [] [],
       pc_accountBalance = attach [] [] [], pc_exchange = attach [] [] [], pc_vault = attach [] [] [],
       pc_vETHPool = attach [] [] [], pc_vBTCPool = attach [] [] [], pc_pools = [''t'' \<mapsto> attach [] [] ''p''],
       pv_maker = [], pv_otherTrader = [], pv_clearingHouse = attach [] [] [], pv_quoter = attach [] [] []\<rparr>
      ''t'' [] = Some p \<and> p \<le> 3500000000000000000 \<and> 3499999999999999999 \<le> p"
  (is "\<exists>root p. _ \<and> getSpotPrice (?W root) int_bn int_jsbi ?fx ''t'' [] = Some p \<and> _")
proof -
  obtain root where root: "encodePriceSqrt int_bn int_jsbi int_encode 7 2 = Some root"
  proof -
    obtain r where "int_encode (dec 7) (dec 2) = Some r"
      using int_v3.encode_root [of 7 2] by (auto simp: int_jsbi_def)
    then have "encodePriceSqrt int_bn int_jsbi int_encode 7 2 = Some r"
      by (simp add: encodePriceSqrt_def int_bn_ops int_jsbi_def) (simp add: int_bn_def parse_dec_dec)
    then show thesis by (rule that)
  qed
  from spot_price_of_new_pool [OF int_bn.bignumber_axioms int_v3.v3_sdk_axioms, of 7 2 root ?fx "''t''" "attach [] [] ''p''" "?W root" "[]"]
  obtain p where "getSpotPrice (?W root) int_bn int_jsbi ?fx ''t'' [] = Some p" "p \<le> 7 * 10 ^ 18 div 2" "7 * 10 ^ 18 div 2 \<le> p + 1"
    using root by auto
  with root show ?thesis by (intro exI [of _ root] exI [of _ p]) simp
qed

subsection \<open>A run of the fixture\<close>

text \<open>On a chain that numbers its contracts upwards the search never returns. This one numbers them
  downwards; \<open>numbered k h\<close> says that the history has made \<open>k\<close> of them.\<close>

definition number :: "nat \<Rightarrow> address" where
  "number k = word_of_int (1000 - int k)"

lemma uint_number: "k < 1000 \<Longrightarrow> uint (number k) = 1000 - int k"
  unfolding number_def uint_word_of_int by (rule mod_pos_pos_trivial) simp_all

lemma number_less: "j < 1000 \<Longrightarrow> k < 1000 \<Longrightarrow> number j < number k \<longleftrightarrow> k < j"
  by (simp add: word_less_def uint_number)

lemma number_nonzero: "k < 1000 \<Longrightarrow> number k \<noteq> 0"
  using uint_number [of k] by auto

definition descending :: "('b history \<Rightarrow> string \<Rightarrow> string \<Rightarrow> string \<Rightarrow> 'b arg list \<Rightarrow> 'b arg option) \<Rightarrow> 'b world" where
  "descending views = (answering views)\<lparr>new_address := (\<lambda>h s name l xs.
     let k = length (addresses h) in if k < 1000 \<and> number k \<notin> set (addresses h) then Some (number k) else None)\<rparr>"

interpretation descending: chain "descending views" for views
proof unfold_locales
  fix a
  show "toLowerCase (checksum (descending views) a) = address_lower (unat a)"
    by (simp add: descending_def answering_def toLowerCase_address_lower)
next
  fix views h s name l xs a
  assume "new_address (descending views) h s name l xs = Some a"
  then show "a \<notin> set (addresses h)" "a \<noteq> 0"
    by (auto simp: descending_def Let_def number_nonzero split: if_splits)
qed

definition numbered :: "nat \<Rightarrow> 'b history \<Rightarrow> bool" where
  "numbered k h \<longleftrightarrow> addresses h = map number (rev [0..<k])"

lemma numbered_deploy:
  assumes "numbered k h" and "k < 1000"
  shows "\<exists>h'. deploy (descending views) s n l xs h = Some (\<lparr>addr = checksum (descending views) (number k), kind = n, signer = s\<rparr>, h') \<and>
    numbered (Suc k) h'"
proof -
  have "\<forall>j\<in>{0..<k}. number k \<noteq> number j"
  proof
    fix j assume "j \<in> {0..<k}"
    then show "number k \<noteq> number j" using number_less [of k j] assms(2) by auto
  qed
  then have "number k \<notin> number ` {0..<k}" by (simp add: image_iff)
  then show ?thesis using assms
    by (simp add: deploy_def descending_def Let_def numbered_def)
qed

definition ends :: "nat \<Rightarrow> ('x \<times> 'b history) option \<Rightarrow> bool" where
  "ends k m \<longleftrightarrow> (\<exists>x h. m = Some (x, h) \<and> numbered k h)"

lemma ends_Some: "numbered k h \<Longrightarrow> ends k (Some (x, h))"
  by (simp add: ends_def)

lemma ends_deploy:
  assumes "numbered j h" and "j < 1000"
    and "\<And>h'. numbered (Suc j) h' \<Longrightarrow> ends k (g \<lparr>addr = checksum (descending views) (number j), kind = n, signer = s\<rparr> h')"
  shows "ends k (Option.bind (deploy (descending views) s n l xs h) (case_prod g))"
  using numbered_deploy [OF assms(1,2), of views s n l xs] assms(3) by auto

lemma ends_send:
  assumes "numbered j h" and "\<And>h'. numbered j h' \<Longrightarrow> ends k (g h')"
  shows "ends k (Option.bind (send (descending views) c m xs h) g)"
  using assms by (simp add: send_def send_value_def descending_def answering_def numbered_def)

lemma numbered_launch: "numbered j h \<Longrightarrow> numbered j (launch (descending views) c m xs h)"
  by (simp add: launch_def send_def send_value_def descending_def answering_def numbered_def)

lemma base_token_run:
  assumes "numbered j h" and "j + 2 < 1000"
  shows "\<exists>f h'. createBaseTokenFixture (descending views) s name symbol h = Some (f, h') \<and>
    addr (bt_baseToken f) = checksum (descending views) (number (j + 2)) \<and> numbered (j + 3) h'"
proof -
  let ?at = "\<lambda>n k. \<lparr>addr = checksum (descending views) (number k), kind = n, signer = s\<rparr>"
  obtain h1 where 1: "deploy (descending views) s ''ChainlinkAggregatorMock'' [] [ANum 6] h =
      Some (?at ''ChainlinkAggregatorMock'' j, h1)" "numbered (Suc j) h1"
    using numbered_deploy [OF assms(1)] assms(2) by fastforce
  obtain h2 where 2: "deploy (descending views) s ''PerpV2ChainlinkPriceFeed'' [] [] h1 =
      Some (?at ''PerpV2ChainlinkPriceFeed'' (Suc j), h2)" "numbered (Suc (Suc j)) h2"
    using numbered_deploy [OF 1(2)] assms(2) by fastforce
  have sent: "\<exists>h'. send (descending views) c m xs h = Some h' \<and> numbered k h'" if "numbered k h" for c m xs k h
    using that by (simp add: send_def send_value_def descending_def answering_def numbered_def)
  from sent [OF 2(2)] obtain h3 where 3: "send (descending views) (?at ''PerpV2ChainlinkPriceFeed'' (Suc j))
      ''initialize'' [AStr (checksum (descending views) (number j))] h2 = Some h3" "numbered (Suc (Suc j)) h3" by blast
  obtain h4 where 4: "deploy (descending views) s ''PerpV2BaseToken'' [] [] h3 =
      Some (?at ''PerpV2BaseToken'' (Suc (Suc j)), h4)" "numbered (Suc (Suc (Suc j))) h4"
    using numbered_deploy [OF 3(2)] assms(2) by fastforce
  from sent [OF 4(2)] obtain h5 where 5: "send (descending views) (?at ''PerpV2BaseToken'' (Suc (Suc j)))
      ''initialize'' [AStr name, AStr symbol, AStr (checksum (descending views) (number (Suc j)))] h4 = Some h5"
    "numbered (Suc (Suc (Suc j))) h5" by blast
  show ?thesis
    using 5(2) unfolding createBaseTokenFixture_def external_defs deployChainlinkAggregatorMock_def
    by (simp add: 1(1) 2(1) 3(1) 4(1) 5(1) numeral_3_eq_3 del: option_bind_Some)
qed

lemma tokens_run:
  assumes "numbered j h" and "j + 5 < 1000"
  shows "\<exists>f h'. tokensFixture (descending views) s h = Some (f, h') \<and>
    addr (tf_token1 f) = checksum (descending views) (number (j + 2)) \<and> numbered (j + 6) h'"
proof -
  obtain f0 h1 where 0: "createBaseTokenFixture (descending views) s ''RandomTestToken0'' ''randomToken0'' h = Some (f0, h1)"
    "addr (bt_baseToken f0) = checksum (descending views) (number (j + 2))" "numbered (j + 3) h1"
    using base_token_run [OF assms(1)] assms(2) by fastforce
  obtain f1 h2 where 1: "createBaseTokenFixture (descending views) s ''RandomTestToken1'' ''randomToken1'' h1 = Some (f1, h2)"
    "addr (bt_baseToken f1) = checksum (descending views) (number (j + 3 + 2))" "numbered (j + 3 + 3) h2"
    using base_token_run [OF 0(3)] assms(2) by fastforce
  have "\<not> isAscendingTokenOrder (addr (bt_baseToken f0)) (addr (bt_baseToken f1))"
    using assms(2) number_less [of "j + 2" "j + 3 + 2"]
    unfolding isAscendingTokenOrder_def 0(2) 1(2) descending.address_below_checksum by linarith
  with 0 1 show ?thesis by (simp add: tokensFixture_def add.commute del: option_bind_Some)
qed

lemma token0_run:
  assumes "numbered j h" and "i < j + 2" and "j + 2 < 1000"
  shows "\<exists>f h'. token0Fixture (descending views) s (checksum (descending views) (number i)) h = Some (f, h') \<and>
    numbered (j + 3) h'"
proof -
  obtain f h1 where 0: "createBaseTokenFixture (descending views) s ''RandomTestToken0'' ''randomToken0'' h = Some (f, h1)"
    "addr (bt_baseToken f) = checksum (descending views) (number (j + 2))" "numbered (j + 3) h1"
    using base_token_run [OF assms(1,3)] by fastforce
  have "below (checksum (descending views) (number i)) f"
    using assms(2,3) number_less [of "j + 2" i]
    by (simp add: below_def isAscendingTokenOrder_def 0(2) descending.address_below_checksum)
  with 0 show ?thesis by (simp add: token0Fixture_def token0_loop_None del: option_bind_Some)
qed

definition perp_views :: "int history \<Rightarrow> string \<Rightarrow> string \<Rightarrow> string \<Rightarrow> int arg list \<Rightarrow> int arg option" where
  "perp_views h s c m xs = (if m = ''decimals'' then Some (ANum 6) else Some (AStr ''0x01''))"

lemma descending_view: "view (descending views) c m xs h = views h (signer c) (addr c) m xs"
  by (simp add: view_def descending_def)

lemma ether_supply: "ether int_bn ''100000000000000'' = Some 100000000000000000000000000000000"
  by code_simp

lemma million_literals:
  "bn_from_string int_bn ONE_MILLION = Some 1000000"
  "bn_parseUnits int_bn ONE_MILLION usdcDecimals = Some 1000000000000"
  by (simp_all add: int_bn_def parse_dec_def parse_units_def ONE_MILLION_def usdcDecimals_def all_digits_def digits_value_def)

lemmas perp_literals = ether_supply million_literals

lemma perp_deposit_literal: "bn_parseUnits int_bn (bn_toString int_bn 1000000) 6 = Some 1000000000000"
  using int_bn.parseUnits_dec [of 1000000 6] by (simp add: int_bn_ops)

lemma perp_tokens_run: "ends 10 (initialize_perp_tokens (descending views) int_bn s [])"
proof -
  obtain usdc h0 where 0: "deployTokenMock (descending views) int_bn s s
      (Some (ABig 100000000000000000000000000000000)) (Some (ANum 6)) None None [] = Some (usdc, h0)" "numbered 1 h0"
    using numbered_deploy [of 0 "[]"] unfolding deployTokenMock_given by (fastforce simp: numbered_def)
  obtain tf h1 where 1: "tokensFixture (descending views) s h0 = Some (tf, h1)"
    "addr (tf_token1 tf) = checksum (descending views) (number (1 + 2))" "numbered (1 + 6) h1"
    using tokens_run [OF 0(2)] by fastforce
  obtain btc h2 where 2: "token0Fixture (descending views) s (addr (tf_token1 tf)) h1 = Some (btc, h2)"
    "numbered (1 + 6 + 3) h2"
    using token0_run [OF 1(3), of "1 + 2"] unfolding 1(2) by fastforce
  show ?thesis
    using 0(1) 1(1) 2 by (simp add: initialize_perp_tokens_def perp_literals ends_def Let_def del: option_bind_Some)
qed

lemma ends_bind: "ends j m \<Longrightarrow> (\<And>x h. numbered j h \<Longrightarrow> ends k (g x h)) \<Longrightarrow> ends k (Option.bind m (case_prod g))"
  by (auto simp: ends_def)

lemma getPool_answer: "Option.bind (perp_views h s c ''getPool'' xs) as_str = Some ''0x01''"
  "Option.bind (perp_views h s c ''decimals'' xs) as_num = Some 6"
  by (simp_all add: perp_views_def)

lemma perp_core_run:
  assumes "numbered 10 h"
  shows "ends 18 (initialize_perp_core (descending perp_views) s tk h)"
  unfolding initialize_perp_core_def external_defs Let_def descending_view getPool_answer Option.bind.simps
  by (rule ends_deploy [OF assms], simp)
    ((rule ends_deploy, assumption, simp) | (rule ends_send, assumption) |
     (rule ends_send, rule numbered_launch, assumption) |
     (rule ends_Some, simp))+

lemma perp_markets_run:
  assumes "numbered 18 h"
  shows "ends 20 (initialize_perp_markets (descending perp_views) int_bn s maker other core h)"
  unfolding initialize_perp_markets_def deposit_perp_def external_defs Let_def descending_view getPool_answer
    Option.bind.simps perp_literals perp_deposit_literal Option.bind_assoc
  by (rule ends_deploy [OF assms], simp)
    ((rule ends_deploy, assumption, simp) | (rule ends_send, assumption) | (rule ends_Some, simp))+

lemma perp_run: "ends 20 (initialize_perp (descending perp_views) int_bn s maker other [])"
  unfolding initialize_perp_def
  by (rule ends_bind, rule perp_tokens_run, rule ends_bind, rule perp_core_run, assumption,
      rule perp_markets_run, assumption)

theorem perp_base_tokens_first_witness:
  "\<exists>fx h'. initialize_perp (descending perp_views) int_bn ''owner'' ''maker'' ''other'' [] = Some (fx, h') \<and>
     parse_address (addr (pt_vETH fx)) < parse_address (addr (pt_vQuote fx)) \<and>
     parse_address (addr (pt_vBTC fx)) < parse_address (addr (pt_vQuote fx)) \<and>
     addr (pt_vETH fx) \<noteq> addr (pt_vBTC fx)"
proof -
  obtain fx h' where run: "initialize_perp (descending perp_views) int_bn ''owner'' ''maker'' ''other'' [] = Some (fx, h')"
    using perp_run [of "''owner''" "''maker''" "''other''"] by (auto simp: ends_def)
  from perp_base_tokens_first [OF descending.chain_axioms this] run show ?thesis by blast
qed

end
