(* ===== verification/HardhatTasks.thy ===== *)
theory HardhatTasks
  imports BigNum "HOL-Library.AList" "HOL-Library.Sublist"
begin

text \<open>
  The build of the repository: \<^verbatim>\<open>utils/tasks/artifactUtils.ts\<close> and \<^verbatim>\<open>utils/tasks/setupNativeSolc.ts\<close>, the two
  subtasks of \<^verbatim>\<open>tasks/subtasks.ts\<close> that write a gas limit into every function of an ABI, and the
  compilation tasks of \<^verbatim>\<open>hardhat.config.ts\<close>.

  Artifacts are JSON values, objects with their keys in order. A module that \<^verbatim>\<open>require\<close> has loaded is one
  object that later calls get again, so the objects are a store under the paths of their files, next to
  the files. Hardhat, typechain, the compilers and the text of JSON are arguments.
\<close>

subsection \<open>JSON values and the environment\<close>

datatype json =
    JNull
  | JBool bool
  | JNum int
  | JStr string
  | JArr "json list"
  | JObj "(string \<times> json) list"

type_synonym env = "string \<rightharpoonup> string"

text \<open>A variable that is not set, or empty, counts as false.\<close>

definition truthy :: "string option \<Rightarrow> bool" where
  "truthy v \<longleftrightarrow> v \<noteq> None \<and> v \<noteq> Some []"

text \<open>Reading a property: on \<^verbatim>\<open>null\<close> it throws, the inner \<open>None\<close> is \<^verbatim>\<open>undefined\<close>.\<close>

fun property :: "string \<Rightarrow> json \<Rightarrow> json option option" where
  "property k JNull = None"
| "property k (JObj kvs) = Some (map_of kvs k)"
| "property k j = Some None"

text \<open>What a \<^verbatim>\<open>for ... of\<close> loop runs over: the elements of an array, the characters of a string.\<close>

fun iterate :: "json option \<Rightarrow> json list option" where
  "iterate (Some (JArr xs)) = Some xs"
| "iterate (Some (JStr s)) = Some (map (\<lambda>c. JStr [c]) s)"
| "iterate j = None"

fun set_property :: "string \<Rightarrow> json \<Rightarrow> json \<Rightarrow> json option" where
  "set_property k v (JObj kvs) = Some (JObj (AList.update k v kvs))"
| "set_property k v j = None"

subsection \<open>\<^verbatim>\<open>artifactUtils.ts\<close>\<close>

text \<open>The spread of an element with its \<^verbatim>\<open>gas\<close>, and \<^verbatim>\<open>delete abiElement.gas\<close>.\<close>

fun with_gas :: "string \<Rightarrow> json \<Rightarrow> json" where
  "with_gas g (JObj kvs) = JObj (AList.update ''gas'' (JStr g) kvs)"
| "with_gas g j = j"

fun without_gas :: "json \<Rightarrow> json" where
  "without_gas (JObj kvs) = JObj (AList.delete ''gas'' kvs)"
| "without_gas j = j"

definition is_function :: "json \<Rightarrow> bool option" where
  "is_function abiElement = map_option (\<lambda>t. t = Some (JStr ''function'')) (property ''type'' abiElement)"

text \<open>The loop over an ABI that changes its functions by \<open>f\<close> and keeps the other elements.\<close>

fun map_functions :: "(json \<Rightarrow> json) \<Rightarrow> json list \<Rightarrow> json list option" where
  "map_functions f [] = Some []"
| "map_functions f (abiElement # abi) = do {
     b \<leftarrow> is_function abiElement;
     modifiedAbi \<leftarrow> map_functions f abi;
     Some ((if b then f abiElement else abiElement) # modifiedAbi)
   }"

text \<open>\<^verbatim>\<open>BigNumber.from\<close> of a value of the configuration, which may be \<^verbatim>\<open>undefined\<close>.\<close>

fun BigNumber_from :: "'b bn_api \<Rightarrow> json option \<Rightarrow> 'b option" where
  "BigNumber_from B (Some (JNum n)) = bn_from_number B n"
| "BigNumber_from B (Some (JStr s)) = bn_from_string B s"
| "BigNumber_from B x = None"

definition gas_limit :: "'b bn_api \<Rightarrow> env \<Rightarrow> json option \<Rightarrow> json option \<Rightarrow> string option" where
  "gas_limit B env coverageGas networkGas = do {
     gas \<leftarrow> BigNumber_from B (if env ''COVERAGE'' = Some ''true'' then coverageGas else networkGas);
     Some (bn_toHexString B (bn_sub B gas (bn_from B 1000000)))
   }"

definition addGasToAbiMethods ::
  "'b bn_api \<Rightarrow> env \<Rightarrow> json option \<Rightarrow> json option \<Rightarrow> json option \<Rightarrow> json list option"
where
  "addGasToAbiMethods B env coverageGas networkGas abi = do {
     gasLimit \<leftarrow> gas_limit B env coverageGas networkGas;
     elements \<leftarrow> iterate abi;
     map_functions (with_gas gasLimit) elements
   }"

text \<open>The elements of the result are the objects of the argument, changed in place.\<close>

definition removeGasFromAbiMethods :: "json option \<Rightarrow> json list option" where
  "removeGasFromAbiMethods abi = do {
     elements \<leftarrow> iterate abi;
     map_functions without_gas elements
   }"

subsection \<open>\<^verbatim>\<open>subtasks.ts\<close>\<close>

definition get_artifact ::
  "'b bn_api \<Rightarrow> env \<Rightarrow> json option \<Rightarrow> json option \<Rightarrow> json option \<Rightarrow> json option"
where
  "get_artifact B env coverageGas networkGas runSuper = do {
     artifact \<leftarrow> runSuper;
     if truthy (env ''SKIP_ABI_GAS_MODS'') then Some artifact
     else do {
       abi \<leftarrow> property ''abi'' artifact;
       abi \<leftarrow> addGasToAbiMethods B env coverageGas networkGas abi;
       set_property ''abi'' (JArr abi) artifact
     }
   }"

text \<open>The files, and the objects of the modules that have been loaded. A task that throws leaves the state
  it has reached; the second component tells whether it has returned.\<close>

record task_state =
  ts_files :: "string \<rightharpoonup> string"
  ts_loaded :: "string \<rightharpoonup> json"

definition require_json :: "(string \<Rightarrow> json option) \<Rightarrow> string \<Rightarrow> task_state \<Rightarrow> (json \<times> task_state) option" where
  "require_json parse path st = (case ts_loaded st path of
     Some j \<Rightarrow> Some (j, st)
   | None \<Rightarrow> do {
       content \<leftarrow> ts_files st path;
       j \<leftarrow> parse content;
       Some (j, st\<lparr>ts_loaded := (ts_loaded st)(path \<mapsto> j)\<rparr>)
     })"

text \<open>\<^verbatim>\<open>artifact.abi = f(artifact.abi)\<close> on the object of a path, which is then written to its file.\<close>

definition rewrite_artifact ::
  "(json \<Rightarrow> string) \<Rightarrow> (json option \<Rightarrow> json list option) \<Rightarrow> string \<Rightarrow> json \<Rightarrow> task_state \<Rightarrow> task_state option"
where
  "rewrite_artifact stringify f path artifact st = do {
     abi \<leftarrow> property ''abi'' artifact;
     abi \<leftarrow> f abi;
     artifact \<leftarrow> set_property ''abi'' (JArr abi) artifact;
     Some (st\<lparr>ts_loaded := (ts_loaded st)(path \<mapsto> artifact), ts_files := (ts_files st)(path \<mapsto> stringify artifact)\<rparr>)
   }"

fun inject_files ::
  "(string \<Rightarrow> json option) \<Rightarrow> (json \<Rightarrow> string) \<Rightarrow> (json option \<Rightarrow> json list option) \<Rightarrow> string list \<Rightarrow> string list \<Rightarrow>
   task_state \<Rightarrow> (string list \<times> task_state) \<times> bool"
where
  "inject_files parse stringify add [] artifacts st = ((artifacts, st), True)"
| "inject_files parse stringify add (path # paths) artifacts st = (case require_json parse path st of
     None \<Rightarrow> ((artifacts, st), False)
   | Some (artifact, st) \<Rightarrow> (case rewrite_artifact stringify add path artifact st of
       None \<Rightarrow> ((artifacts, st), False)
     | Some st \<Rightarrow> inject_files parse stringify add paths (artifacts @ [path]) st))"

definition artifact_paths :: "string \<Rightarrow> string \<Rightarrow> string list \<Rightarrow> string list" where
  "artifact_paths cwd project files = map (\<lambda>file. cwd @ ''/'' @ project @ ''/'' @ file) files"

fun inject_projects ::
  "(string \<Rightarrow> json option) \<Rightarrow> (json \<Rightarrow> string) \<Rightarrow> (json option \<Rightarrow> json list option) \<Rightarrow> string \<Rightarrow> (string \<Rightarrow> string list option) \<Rightarrow>
   string list \<Rightarrow> string list \<Rightarrow> task_state \<Rightarrow> (string list \<times> task_state) \<times> bool"
where
  "inject_projects parse stringify add cwd readdir [] artifacts st = ((artifacts, st), True)"
| "inject_projects parse stringify add cwd readdir (project # projects) artifacts st = (case readdir project of
     None \<Rightarrow> ((artifacts, st), False)
   | Some files \<Rightarrow> (case inject_files parse stringify add (artifact_paths cwd project files) artifacts st of
       ((artifacts, st), False) \<Rightarrow> ((artifacts, st), False)
     | ((artifacts, st), True) \<Rightarrow> inject_projects parse stringify add cwd readdir projects artifacts st))"

fun restore_artifacts :: "(json \<Rightarrow> string) \<Rightarrow> string list \<Rightarrow> task_state \<Rightarrow> task_state \<times> bool" where
  "restore_artifacts stringify [] st = (st, True)"
| "restore_artifacts stringify (path # artifacts) st =
     (case Option.bind (ts_loaded st path) (\<lambda>artifact. rewrite_artifact stringify removeGasFromAbiMethods path artifact st) of
       None \<Rightarrow> (st, False)
     | Some st \<Rightarrow> restore_artifacts stringify artifacts st)"

definition generate_types ::
  "'b bn_api \<Rightarrow> env \<Rightarrow> json option \<Rightarrow> json option \<Rightarrow> (string \<Rightarrow> json option) \<Rightarrow> (json \<Rightarrow> string) \<Rightarrow> string \<Rightarrow>
   (string \<Rightarrow> string list option) \<Rightarrow> ((string \<rightharpoonup> string) \<Rightarrow> (string \<rightharpoonup> string) \<times> bool) \<Rightarrow> string list \<Rightarrow> task_state \<Rightarrow> task_state \<times> bool"
where
  "generate_types B env coverageGas networkGas parse stringify cwd readdir runSuper externalGasMods st =
     (case inject_projects parse stringify (addGasToAbiMethods B env coverageGas networkGas) cwd readdir externalGasMods [] st of
       ((artifacts, st), False) \<Rightarrow> (st, False)
     | ((artifacts, st), True) \<Rightarrow> (case runSuper (ts_files st) of
         (files, False) \<Rightarrow> (st\<lparr>ts_files := files\<rparr>, False)
       | (files, True) \<Rightarrow> restore_artifacts stringify artifacts (st\<lparr>ts_files := files\<rparr>)))"

subsection \<open>\<^verbatim>\<open>setupNativeSolc.ts\<close>\<close>

text \<open>\<open>version_output\<close> is what \<^verbatim>\<open>solc --version\<close> prints, \<open>None\<close> when it fails, which is caught;
  \<open>native\<close> runs the native compiler and parses its output, \<open>runSuper\<close> the bundled one. The version of the
  configuration may be \<^verbatim>\<open>undefined\<close>, and \<^verbatim>\<open>includes\<close> then looks for this word. The state is
  \<^verbatim>\<open>isFirstRun\<close>, the last result the lines that were logged.\<close>

fun js_includes :: "string \<Rightarrow> string \<Rightarrow> bool" where
  "js_includes [] sub \<longleftrightarrow> sub = []"
| "js_includes (c # s) sub \<longleftrightarrow> prefix sub (c # s) \<or> js_includes s sub"

definition setupNativeSolc ::
  "string option \<Rightarrow> string option \<Rightarrow> 'o option \<Rightarrow> 'o option \<Rightarrow> bool \<Rightarrow> 'o option \<times> bool \<times> string list list"
where
  "setupNativeSolc version_output version native runSuper isFirstRun = (
     let solcVersionOutput = (case version_output of Some s \<Rightarrow> s | None \<Rightarrow> []);
       log = (\<lambda>line. if isFirstRun then [line] else []);
       found = log [''Local native solc version: '', solcVersionOutput]
     in if \<not> js_includes solcVersionOutput (case version of Some v \<Rightarrow> v | None \<Rightarrow> ''undefined'')
       then (runSuper, False, found @ log [''Using solcjs''])
       else (native, False, found @ log [''Using native solc'']))"

subsection \<open>The compilation tasks of \<^verbatim>\<open>hardhat.config.ts\<close>\<close>

text \<open>The tasks of Hardhat that they run, on a state \<open>'s\<close> of the build: the artifacts, the dependency graph
  of some sources with its resolved files, the job of a file (which may be \<^verbatim>\<open>undefined\<close>).\<close>

record ('s, 'g, 'f, 'j) hre =
  allNames :: "'s \<Rightarrow> string list"
  sourceName :: "'s \<Rightarrow> string \<Rightarrow> string option"
  dependencyGraph :: "string list \<Rightarrow> 's \<Rightarrow> ('g \<times> 's) option"
  resolvedFiles :: "'g \<Rightarrow> 'f list"
  fileSource :: "'f \<Rightarrow> string"
  compilationJob :: "'g \<Rightarrow> 'f option \<Rightarrow> 's \<Rightarrow> ('j \<times> 's) option"
  compileJob :: "'j \<Rightarrow> 's \<Rightarrow> 's option"
  typechain :: "'s \<Rightarrow> 's option"

definition first_of :: "'a list \<Rightarrow> 'a option" where
  "first_of xs = (case xs of [] \<Rightarrow> None | x # _ \<Rightarrow> Some x)"

definition compile_isolated :: "('s, 'g, 'f, 'j) hre \<Rightarrow> string \<Rightarrow> 's \<Rightarrow> 's option" where
  "compile_isolated R contractName s = do {
     source \<leftarrow> sourceName R s contractName;
     (graph, s) \<leftarrow> dependencyGraph R [source] s;
     let files = filter (\<lambda>resolvedFile. fileSource R resolvedFile = source) (resolvedFiles R graph);
     (job, s) \<leftarrow> compilationJob R graph (first_of files) s;
     compileJob R job s
   }"

definition compile_one :: "('s, 'g, 'f, 'j) hre \<Rightarrow> string \<Rightarrow> 's \<Rightarrow> 's option" where
  "compile_one R contractName s = do {
     s \<leftarrow> compile_isolated R contractName s;
     typechain R s
   }"

fun compile_loop :: "('s, 'g, 'f, 'j) hre \<Rightarrow> string list \<Rightarrow> 's \<Rightarrow> 's option" where
  "compile_loop R [] s = Some s"
| "compile_loop R (contractName # allArtifacts) s = do {
     s \<leftarrow> compile_isolated R contractName s;
     compile_loop R allArtifacts s
   }"

definition compile_all :: "('s, 'g, 'f, 'j) hre \<Rightarrow> 's \<Rightarrow> 's option" where
  "compile_all R s = compile_loop R (allNames R s) s"

subsection \<open>Adding and removing gas\<close>

definition stripped :: "json \<Rightarrow> json option" where
  "stripped artifact = do {
     abi \<leftarrow> property ''abi'' artifact;
     abi \<leftarrow> removeGasFromAbiMethods abi;
     set_property ''abi'' (JArr abi) artifact
   }"

lemma delete_update: "AList.delete k (AList.update k v al) = AList.delete k al"
  by (induction al) auto

lemma is_function_gas [simp]: "is_function (with_gas g j) = is_function j" "is_function (without_gas j) = is_function j"
  by (cases j; simp add: is_function_def update_conv' delete_conv' map_of_delete)+

lemma without_with_gas [simp]: "without_gas (with_gas g j) = without_gas j" "without_gas (without_gas j) = without_gas j"
  by (cases j; simp add: delete_update delete_idem)+

lemma map_functions_twice:
  assumes "\<And>j. is_function (f j) = is_function j" and "\<And>j. h (f j) = h j" and "map_functions f abi = Some abi'"
  shows "map_functions h abi' = map_functions h abi"
  using assms(3)
proof (induction abi arbitrary: abi')
  case (Cons j abi)
  then obtain b ys where "is_function j = Some b" "map_functions f abi = Some ys" "abi' = (if b then f j else j) # ys"
    by auto
  with Cons.IH [of ys] assms(1,2) show ?case by (cases b; cases "map_functions h abi") auto
qed simp

lemma map_functions_defined: "map_functions f abi = Some xs \<Longrightarrow> \<exists>ys. map_functions h abi = Some ys"
proof (induction abi arbitrary: xs)
  case (Cons j abi)
  then obtain b ys where "is_function j = Some b" "map_functions f abi = Some ys" by auto
  with Cons.IH [of ys] show ?case by auto
qed simp

lemma map_functions_fixed:
  assumes "map_functions h abi = Some xs" and "\<And>j. j \<in> set abi \<Longrightarrow> h j = j"
  shows "xs = abi"
  using assms by (induction abi arbitrary: xs) (auto split: if_splits)

lemma stripped_with_gas:
  assumes "property ''abi'' artifact = Some abi" and "addGasToAbiMethods B env cg ng abi = Some abi'"
    and "set_property ''abi'' (JArr abi') artifact = Some artifact'"
  shows "stripped artifact' = stripped artifact"
proof -
  obtain kvs where kvs: "artifact = JObj kvs" using assms(3) by (cases artifact) auto
  from assms(2) obtain g els where els: "iterate abi = Some els" "map_functions (with_gas g) els = Some abi'"
    by (auto simp: addGasToAbiMethods_def)
  from map_functions_twice [OF _ _ els(2), of without_gas]
  have "map_functions without_gas abi' = map_functions without_gas els" by simp
  with els(1) assms(1,3) show ?thesis unfolding kvs
    by (cases "map_functions without_gas els") (auto simp: stripped_def removeGasFromAbiMethods_def update_conv')
qed

subsection \<open>The state of the typechain task\<close>

text \<open>Every loaded object is, but for its gas, the content its file had in \<open>F\<close>.\<close>

definition tracks :: "(string \<Rightarrow> json option) \<Rightarrow> (string \<rightharpoonup> string) \<Rightarrow> (string \<rightharpoonup> json) \<Rightarrow> bool" where
  "tracks parse F loaded \<longleftrightarrow> (\<forall>p a. loaded p = Some a \<longrightarrow>
     (\<exists>t j. F p = Some t \<and> parse t = Some j \<and> stripped a = stripped j))"

lemma tracks_update:
  "tracks parse F loaded \<Longrightarrow> F p = Some t \<Longrightarrow> parse t = Some j \<Longrightarrow> stripped a = stripped j \<Longrightarrow>
   tracks parse F (loaded(p \<mapsto> a))"
  by (auto simp: tracks_def)

lemma stripped_twice: "stripped a = Some b \<Longrightarrow> stripped b = stripped a"
proof -
  assume a: "stripped a = Some b"
  then obtain kvs where kvs: "a = JObj kvs" by (cases a) (auto simp: stripped_def)
  from a obtain abi els abi' where e: "property ''abi'' a = Some abi" "iterate abi = Some els"
    "map_functions without_gas els = Some abi'" "set_property ''abi'' (JArr abi') a = Some b"
    by (auto simp: stripped_def removeGasFromAbiMethods_def)
  from map_functions_twice [OF _ _ e(3), of without_gas]
  have "map_functions without_gas abi' = map_functions without_gas els" by simp
  with e show ?thesis unfolding kvs by (auto simp: stripped_def removeGasFromAbiMethods_def update_conv')
qed

lemma rewrite_remove: "rewrite_artifact stringify removeGasFromAbiMethods path a st =
    map_option (\<lambda>b. st\<lparr>ts_loaded := (ts_loaded st)(path \<mapsto> b), ts_files := (ts_files st)(path \<mapsto> stringify b)\<rparr>) (stripped a)"
  unfolding rewrite_artifact_def stripped_def map_conv_bind_option Option.bind_assoc
  by (simp add: comp_def cong del: option_bind_weak_cong)

lemma inject_files_tracks:
  assumes "inject_files parse stringify (addGasToAbiMethods B env cg ng) paths acc st = ((acc', st'), True)"
    and "tracks parse F (ts_loaded st)" and "\<And>p. ts_loaded st p = None \<Longrightarrow> ts_files st p = F p"
  shows "acc' = acc @ paths \<and> tracks parse F (ts_loaded st') \<and> (\<forall>p. ts_loaded st' p = None \<longrightarrow> ts_files st' p = F p) \<and>
    set paths \<union> dom (ts_loaded st) \<subseteq> dom (ts_loaded st')"
  using assms
proof (induction paths arbitrary: acc st)
  case (Cons path paths)
  from Cons.prems(1) obtain a st1 st2 where
    r: "require_json parse path st = Some (a, st1)"
      "rewrite_artifact stringify (addGasToAbiMethods B env cg ng) path a st1 = Some st2"
      "inject_files parse stringify (addGasToAbiMethods B env cg ng) paths (acc @ [path]) st2 = ((acc', st'), True)"
    by (auto split: option.splits)
  have 1: "\<exists>t j. F path = Some t \<and> parse t = Some j \<and> stripped a = stripped j"
    "ts_loaded st1 = (ts_loaded st)(path \<mapsto> a)" "ts_files st1 = ts_files st"
    using r(1) Cons.prems(2,3) by (auto simp: require_json_def tracks_def fun_eq_iff split: option.splits)
  from r(2) obtain abi abi' a' where
    g: "property ''abi'' a = Some abi" "addGasToAbiMethods B env cg ng abi = Some abi'" "set_property ''abi'' (JArr abi') a = Some a'"
    and 2: "ts_loaded st2 = (ts_loaded st1)(path \<mapsto> a')" "ts_files st2 = (ts_files st1)(path \<mapsto> stringify a')"
    by (auto simp: rewrite_artifact_def)
  note stripped_with_gas [OF g]
  with 1 2 Cons.prems(2,3) have "tracks parse F (ts_loaded st2)" "\<And>p. ts_loaded st2 p = None \<Longrightarrow> ts_files st2 p = F p"
    by (auto intro: tracks_update split: if_splits)
  note IH = Cons.IH [OF r(3) this]
  have "dom (ts_loaded st2) = insert path (dom (ts_loaded st))" using 1 2 by simp
  with IH have "set (path # paths) \<union> dom (ts_loaded st) \<subseteq> dom (ts_loaded st')" by auto
  with IH show ?case by simp
qed simp

lemma inject_projects_tracks:
  assumes "inject_projects parse stringify (addGasToAbiMethods B env cg ng) cwd readdir projects acc st = ((acc', st'), True)"
    and "tracks parse F (ts_loaded st)" and "\<And>p. ts_loaded st p = None \<Longrightarrow> ts_files st p = F p"
    and "set acc \<subseteq> dom (ts_loaded st)"
  shows "tracks parse F (ts_loaded st') \<and> set acc \<subseteq> set acc' \<and> set acc' \<subseteq> dom (ts_loaded st') \<and>
    (\<forall>project \<in> set projects. \<exists>files. readdir project = Some files \<and> set (artifact_paths cwd project files) \<subseteq> set acc')"
  using assms
proof (induction projects arbitrary: acc st)
  case (Cons project projects)
  from Cons.prems(1) obtain files acc1 st1 where
    r: "readdir project = Some files"
      "inject_files parse stringify (addGasToAbiMethods B env cg ng) (artifact_paths cwd project files) acc st = ((acc1, st1), True)"
      "inject_projects parse stringify (addGasToAbiMethods B env cg ng) cwd readdir projects acc1 st1 = ((acc', st'), True)"
    by (auto split: option.splits prod.splits bool.splits)
  note f = inject_files_tracks [OF r(2) Cons.prems(2,3)]
  have "set acc1 \<subseteq> dom (ts_loaded st1)" using f Cons.prems(4) by simp blast
  with Cons.IH [OF r(3)] f have "tracks parse F (ts_loaded st') \<and> set acc1 \<subseteq> set acc' \<and> set acc' \<subseteq> dom (ts_loaded st') \<and>
    (\<forall>project \<in> set projects. \<exists>files. readdir project = Some files \<and> set (artifact_paths cwd project files) \<subseteq> set acc')"
    by auto
  with r(1) f show ?case by auto
qed simp

lemma restore_artifacts_tracks:
  assumes "restore_artifacts stringify paths st = (st', True)" and "tracks parse F (ts_loaded st)"
  shows "tracks parse F (ts_loaded st') \<and> (\<forall>p. p \<notin> set paths \<longrightarrow> ts_files st' p = ts_files st p) \<and>
    (\<forall>p \<in> set paths. \<exists>t j b. F p = Some t \<and> parse t = Some j \<and> stripped j = Some b \<and> ts_files st' p = Some (stringify b))"
  using assms
proof (induction paths arbitrary: st)
  case (Cons path paths)
  from Cons.prems(1) obtain a b where a: "ts_loaded st path = Some a" "stripped a = Some b"
    and r: "restore_artifacts stringify paths
      (st\<lparr>ts_loaded := (ts_loaded st)(path \<mapsto> b), ts_files := (ts_files st)(path \<mapsto> stringify b)\<rparr>) = (st', True)"
    by (auto simp: rewrite_remove split: option.splits)
  from a(1) Cons.prems(2) obtain t j where F: "F path = Some t" "parse t = Some j" "stripped a = stripped j"
    unfolding tracks_def by blast
  have "tracks parse F (ts_loaded (st\<lparr>ts_loaded := (ts_loaded st)(path \<mapsto> b),
      ts_files := (ts_files st)(path \<mapsto> stringify b)\<rparr>))"
    using tracks_update [OF Cons.prems(2) F(1,2), of b] F(3) stripped_twice [OF a(2)] by simp
  note IH = Cons.IH [OF r this]
  have "stripped j = Some b" using F(3) a(2) by simp
  with IH F(1,2) show ?case by (cases "path \<in> set paths") auto
qed simp

subsection \<open>Properties\<close>

text \<open>No element of the ABI has a gas limit.\<close>

definition gas_free :: "json \<Rightarrow> bool" where
  "gas_free artifact \<longleftrightarrow> (case property ''abi'' artifact of
     Some (Some (JArr els)) \<Rightarrow> list_all (\<lambda>e. without_gas e = e) els
   | _ \<Rightarrow> False)"

lemma update_same: "map_of al k = Some v \<Longrightarrow> AList.update k v al = al"
  by (induction al) auto

lemma stripped_gas_free:
  assumes "gas_free j" and "stripped j = Some b"
  shows "b = j"
proof -
  obtain kvs where kvs: "j = JObj kvs" using assms(2) by (cases j) (auto simp: stripped_def)
  from assms(1) obtain els where els: "map_of kvs ''abi'' = Some (JArr els)" "\<And>e. e \<in> set els \<Longrightarrow> without_gas e = e"
    by (auto simp: gas_free_def kvs list_all_iff split: option.splits json.splits)
  from assms(2) els(1) obtain ys where "map_functions without_gas els = Some ys" "b = JObj (AList.update ''abi'' (JArr ys) kvs)"
    by (auto simp: stripped_def kvs removeGasFromAbiMethods_def)
  with map_functions_fixed [OF this(1) els(2)] els(1) show ?thesis by (simp add: kvs update_same)
qed

text \<open>C40: when the typechain task returns, every artifact of the projects that it gave gas limits is back: its
  file holds the JSON value it held before, without the gas limits of its functions, so the same
  value if it had none. The task reads the file once; a second listing of it gets the object that
  the first has changed.\<close>

theorem typechain_restores_artifacts:
  assumes "generate_types B env cg ng parse stringify cwd readdir runSuper projects st = (st', True)"
    and "ts_loaded st = Map.empty"
  shows "\<forall>project \<in> set projects. \<exists>files. readdir project = Some files \<and>
    (\<forall>path \<in> set (artifact_paths cwd project files). \<exists>content j b.
       ts_files st path = Some content \<and> parse content = Some j \<and> stripped j = Some b \<and>
       ts_files st' path = Some (stringify b) \<and> (gas_free j \<longrightarrow> b = j))"
proof -
  from assms(1) obtain paths st1 F where
    r: "inject_projects parse stringify (addGasToAbiMethods B env cg ng) cwd readdir projects [] st = ((paths, st1), True)"
      "restore_artifacts stringify paths (st1\<lparr>ts_files := F\<rparr>) = (st', True)"
    by (auto simp: generate_types_def split: prod.splits bool.splits)
  have i: "tracks parse (ts_files st) (ts_loaded st1)"
    "\<forall>project \<in> set projects. \<exists>files. readdir project = Some files \<and> set (artifact_paths cwd project files) \<subseteq> set paths"
    using inject_projects_tracks [OF r(1), of "ts_files st"] by (auto simp: assms(2) tracks_def)
  have "\<forall>p \<in> set paths. \<exists>t j b. ts_files st p = Some t \<and> parse t = Some j \<and> stripped j = Some b \<and>
      ts_files st' p = Some (stringify b)"
    using restore_artifacts_tracks [OF r(2), of parse "ts_files st"] i(1) by simp
  with i(2) show ?thesis by (meson stripped_gas_free subsetD)
qed

theorem typechain_restores_artifacts_witness:
  "let artifact = JObj [(''abi'', JArr [JObj [(''type'', JStr ''function'')], JObj [(''type'', JStr ''event'')]])];
       (st', returned) = generate_types int_bn Map.empty None (Some (JNum 12000000))
         (\<lambda>s. if s = ''T'' then Some artifact else None) (\<lambda>j. if j = artifact then ''T'' else ''G'') ''/c''
         (\<lambda>project. Some [''a.json'']) (\<lambda>F. (F(''log'' := F ''/c/p/a.json''), True)) [''p'']
         \<lparr>ts_files = [''/c/p/a.json'' \<mapsto> ''T''], ts_loaded = Map.empty\<rparr>
   in returned \<and> ts_files st' ''log'' = Some ''G'' \<and> ts_files st' ''/c/p/a.json'' = Some ''T''"
proof -
  let ?a = "JObj [(''abi'', JArr [JObj [(''type'', JStr ''function'')], JObj [(''type'', JStr ''event'')]])]"
  let ?run = "generate_types int_bn Map.empty None (Some (JNum 12000000))
         (\<lambda>s. if s = ''T'' then Some ?a else None) (\<lambda>j. if j = ?a then ''T'' else ''G'') ''/c''
         (\<lambda>project. Some [''a.json'']) (\<lambda>F. (F(''log'' := F ''/c/p/a.json''), True)) [''p'']
         \<lparr>ts_files = [''/c/p/a.json'' \<mapsto> ''T''], ts_loaded = Map.empty\<rparr>"
  have "snd ?run \<and> ts_files (fst ?run) ''log'' = Some ''G''"
    by (simp add: generate_types_def artifact_paths_def require_json_def rewrite_artifact_def addGasToAbiMethods_def
        gas_limit_def is_function_def removeGasFromAbiMethods_def int_bn_def del: option_bind_Some)
  then obtain st' where run: "?run = (st', True)" and log: "ts_files st' ''log'' = Some ''G''"
    by (cases ?run) auto
  from typechain_restores_artifacts [OF run] have "ts_files st' ''/c/p/a.json'' = Some ''T''"
    by (simp add: artifact_paths_def gas_free_def)
  with run log show ?thesis by (simp add: Let_def)
qed

end
