(* ===== verification/HardhatConfig.thy ===== *)
theory HardhatConfig
  imports HardhatTasks DeployMocks Dependencies
begin

text \<open>
  The environment the tests run in: the accounts of \<^verbatim>\<open>utils/wallets.ts\<close>, the configuration that
  \<^verbatim>\<open>hardhat.config.ts\<close> computes from the variables of the process, and the accounts and forked tokens of
  \<^verbatim>\<open>utils/test/accountUtils.ts\<close>.
\<close>

subsection \<open>\<^verbatim>\<open>wallets.ts\<close>\<close>

definition privateKeys :: "string list" where
  "privateKeys = [
     ''0xf2f48ee19680706196e2e339e5da3491186e0c4c5030670656b0e0164837257d'',
     ''0x5d862464fe9303452126c8bc94274b8c5f9874cbd219789b3eb2128075a76f72'',
     ''0xdf02719c4df8b9b8ac7f551fcb5d9ef48fa27eef7a66453879f4d8fdc6e78fb1'',
     ''0xff12e391b79415e941a94de3bf3a9aee577aed0731e297d5cfa0b8a1e02fa1d0'',
     ''0x752dd9cf65e68cfaba7d60225cbdbc1f4729dd5e5507def72815ed0d8abc6249'',
     ''0xefb595a0178eb79a8df953f87c5148402a224cdf725e88c0146727c6aceadccd'',
     ''0x83c6d2cc5ddcf9711a6d59b417dc20eb48afd58d45290099e5987e3d768f328f'',
     ''0xbb2d3f7c9583780a7d3904a2f55d792707c345f21de1bacb2d389934d82796b2'',
     ''0xb2fd4d29c1390b71b8795ae81196bfd60293adf99f9d32a0aff06288fcdac55f'']"

definition generatedWallets :: "(string \<Rightarrow> 'p \<Rightarrow> 'w) \<Rightarrow> 'p \<Rightarrow> 'w list" where
  "generatedWallets newWallet provider = map (\<lambda>key. newWallet key provider) privateKeys"

subsection \<open>\<^verbatim>\<open>hardhat.config.ts\<close>\<close>

text \<open>A variable in a template or a concatenation, and with \<^verbatim>\<open>??\<close>.\<close>

definition template :: "string option \<Rightarrow> string" where
  "template v = (case v of Some s \<Rightarrow> s | None \<Rightarrow> ''undefined'')"

record forking =
  fk_url :: string
  fk_blockNumber :: int

definition ethereumForkingConfig :: "env \<Rightarrow> forking" where
  "ethereumForkingConfig env = \<lparr>fk_url = ''https://eth-mainnet.alchemyapi.io/v2/'' @ template (env ''ALCHEMY_TOKEN''),
     fk_blockNumber = 16889000\<rparr>"

definition arbitrumForkingConfig :: "env \<Rightarrow> forking" where
  "arbitrumForkingConfig env = \<lparr>fk_url = or_default (env ''ARBITRUM_RPC_URL'') [], fk_blockNumber = 201830000\<rparr>"

definition forkingConfig :: "env \<Rightarrow> forking" where
  "forkingConfig env =
     (if env ''FORK_NETWORK'' = Some ''arbitrum'' then arbitrumForkingConfig env else ethereumForkingConfig env)"

record mocha =
  mc_grep :: string
  mc_invert :: bool
  mc_timeout :: int

definition mainnetForkMochaConfig :: mocha where
  "mainnetForkMochaConfig = \<lparr>mc_grep = ''@forked-mainnet'', mc_invert = False, mc_timeout = 200000\<rparr>"

definition arbitrumForkMochaConfig :: mocha where
  "arbitrumForkMochaConfig = \<lparr>mc_grep = ''@forked-arbitrum'', mc_invert = False, mc_timeout = 200000\<rparr>"

definition unittestMochaConfig :: mocha where
  "unittestMochaConfig = \<lparr>mc_grep = ''@forked'', mc_invert = True, mc_timeout = 200000\<rparr>"

definition mochaConfig :: "env \<Rightarrow> mocha" where
  "mochaConfig env =
     (if truthy (env ''FORK'')
      then if env ''FORK_NETWORK'' = Some ''arbitrum'' then arbitrumForkMochaConfig else mainnetForkMochaConfig
      else unittestMochaConfig)"

text \<open>Whether the process goes on; it exits with code 1 otherwise.\<close>

definition checkForkedProviderEnvironment :: "env \<Rightarrow> bool" where
  "checkForkedProviderEnvironment env \<longleftrightarrow>
     \<not> (truthy (env ''FORK'') \<and> (\<not> truthy (env ''ALCHEMY_TOKEN'') \<or> env ''ALCHEMY_TOKEN'' = Some ''fake_alchemy_token''))"

record funded_key =
  fu_privateKey :: string
  fu_balance :: string

definition getHardhatPrivateKeys :: "funded_key list" where
  "getHardhatPrivateKeys =
     map (\<lambda>key. \<lparr>fu_privateKey = key, fu_balance = ''1000000000000000000000000''\<rparr>) privateKeys"

datatype network_accounts = Keys "string list" | Funded "funded_key list"

record network =
  nw_url :: "string option"
  nw_timeout :: "int option"
  nw_gas :: "int option"
  nw_blockGasLimit :: "int option"
  nw_allowUnlimitedContractSize :: "bool option"
  nw_forking :: "forking option"
  nw_accounts :: "network_accounts option"

definition remote_network :: "string \<Rightarrow> string option \<Rightarrow> network" where
  "remote_network url key = \<lparr>nw_url = Some url, nw_timeout = None, nw_gas = None, nw_blockGasLimit = None,
     nw_allowUnlimitedContractSize = None, nw_forking = None, nw_accounts = Some (Keys [''0x'' @ template key])\<rparr>"

definition hardhatNetworks :: "env \<Rightarrow> (string \<times> network) list" where
  "hardhatNetworks env = [
     (''kovan'', remote_network (''https://kovan.infura.io/v3/'' @ template (env ''INFURA_TOKEN''))
        (env ''KOVAN_DEPLOY_PRIVATE_KEY'')),
     (''staging_mainnet'', remote_network (''https://mainnet.infura.io/v3/'' @ template (env ''INFURA_TOKEN''))
        (env ''STAGING_MAINNET_DEPLOY_PRIVATE_KEY'')),
     (''production'', remote_network (''https://mainnet.infura.io/v3/'' @ template (env ''INFURA_TOKEN''))
        (env ''PRODUCTION_MAINNET_DEPLOY_PRIVATE_KEY''))]"

definition local_network :: "string \<Rightarrow> int option \<Rightarrow> network" where
  "local_network url gas = \<lparr>nw_url = Some url, nw_timeout = Some 200000, nw_gas = gas, nw_blockGasLimit = gas,
     nw_allowUnlimitedContractSize = None, nw_forking = None, nw_accounts = None\<rparr>"

record compiler =
  cm_version :: string
  cm_optimizer :: bool
  cm_runs :: int

record hardhat_config =
  hc_compilers :: "compiler list"
  hc_networks :: "(string \<times> network) list"
  hc_typechain :: "string \<times> string \<times> string list"
  hc_runOnCompile :: bool
  hc_mocha :: mocha
  hc_externalGasMods :: "string list"

definition config :: "env \<Rightarrow> hardhat_config option" where
  "config env = (if \<not> checkForkedProviderEnvironment env then None else Some \<lparr>
     hc_compilers = [
       \<lparr>cm_version = ''0.6.10'', cm_optimizer = True, cm_runs = 200\<rparr>,
       \<lparr>cm_version = ''0.8.17'', cm_optimizer = True, cm_runs = 200\<rparr>],
     hc_networks = [
       (''hardhat'', \<lparr>nw_url = None, nw_timeout = None, nw_gas = Some 12000000, nw_blockGasLimit = Some 12000000,
          nw_allowUnlimitedContractSize = Some False,
          nw_forking = (if truthy (env ''FORK'') then Some (forkingConfig env) else None),
          nw_accounts = Some (Funded getHardhatPrivateKeys)\<rparr>),
       (''localhost'', local_network ''http://127.0.0.1:8545'' (Some 12000000)),
       (''coverage'', local_network ''http://127.0.0.1:8555'' None)] @
       (if truthy (env ''KOVAN_DEPLOY_PRIVATE_KEY'') then hardhatNetworks env else []),
     hc_typechain = (''typechain'', ''ethers-v5'', [''external/**/*.json'']),
     hc_runOnCompile = False,
     hc_mocha = mochaConfig env,
     hc_externalGasMods = [''external/abi/perp'']\<rparr>)"

subsection \<open>\<^verbatim>\<open>accountUtils.ts\<close>\<close>

record Account =
  ac_address :: string
  ac_wallet :: string

text \<open>The signers are known by their addresses.\<close>

definition getAccounts :: "'b world \<Rightarrow> Account list" where
  "getAccounts W = map (\<lambda>wallet. \<lparr>ac_address = wallet, ac_wallet = wallet\<rparr>) (accounts W)"

definition getRandomAccount :: "'b world \<Rightarrow> Account option" where
  "getRandomAccount W = first_of (rev (getAccounts W))"

definition forked_whales :: "string option list" where
  "forked_whales = map (map_of whale_dependencies)
     [''DAI_WHALE'', ''WETH_WHALE'', ''WBTC_WHALE'', ''USDC_WHALE'', ''STETH_WHALE'', ''RETH_WHALE'']"

definition forked_tokens :: "string option list" where
  "forked_tokens = map (\<lambda>token. dependency token 1) [''DAI'', ''WETH'', ''WBTC'', ''USDC'', ''STETH'', ''RETH'']"

definition forked_token :: "nat \<Rightarrow> contract option" where
  "forked_token i = do {
     token \<leftarrow> forked_tokens ! i;
     whale \<leftarrow> forked_whales ! i;
     Some (attach whale ''IERC20'' token)
   }"

definition getForkedTokens :: "(string \<times> contract option) list" where
  "getForkedTokens = [(''dai'', forked_token 0), (''weth'', forked_token 1), (''wbtc'', forked_token 2),
     (''usdc'', forked_token 3), (''steth'', forked_token 4), (''reth'', forked_token 5)]"

fun fund_whales :: "'b world \<Rightarrow> 'b bn_api \<Rightarrow> string \<Rightarrow> string option list \<Rightarrow> 'b history \<Rightarrow> 'b history option" where
  "fund_whales W B deployer [] h = Some h"
| "fund_whales W B deployer (whale # whales) h = do {
     whale \<leftarrow> whale;
     h \<leftarrow> rpc W ''hardhat_impersonateAccount'' [AStr whale] h;
     (funder, h) \<leftarrow> deployForceFunderMock W deployer h;
     hundred \<leftarrow> ether B ''100'';
     h \<leftarrow> send_value W funder ''fund'' [AStr whale] (Some hundred) h;
     fund_whales W B deployer whales h
   }"

definition initializeForkedTokens :: "'b world \<Rightarrow> 'b bn_api \<Rightarrow> string \<Rightarrow> 'b history \<Rightarrow> 'b history option" where
  "initializeForkedTokens W B deployer h = fund_whales W B deployer forked_whales h"

subsection \<open>Which tests run\<close>

text \<open>Mocha selects the tests whose title matches, or with \<^verbatim>\<open>invert\<close> the others. A title without a tag runs
  without \<^verbatim>\<open>FORK\<close>, one with a single tag on the fork it names; and the Arbitrum fork needs the token of
  the mainnet provider, which it does not use.\<close>

definition selected :: "mocha \<Rightarrow> string \<Rightarrow> bool" where
  "selected m title \<longleftrightarrow> js_includes title (mc_grep m) \<noteq> mc_invert m"

lemma js_includes_sublist: "js_includes s sub \<longleftrightarrow> sublist sub s"
  by (induction s) (auto simp: sublist_Cons_right)

lemma selected_tests:
  "config env = Some c \<Longrightarrow> selected (hc_mocha c) title \<longleftrightarrow>
    (if truthy (env ''FORK'') then truthy (env ''ALCHEMY_TOKEN'') \<and>
        sublist (if env ''FORK_NETWORK'' = Some ''arbitrum'' then ''@forked-arbitrum'' else ''@forked-mainnet'') title
     else \<not> sublist ''@forked'' title)"
  by (auto simp: config_def checkForkedProviderEnvironment_def selected_def mochaConfig_def js_includes_sublist
      mainnetForkMochaConfig_def arbitrumForkMochaConfig_def unittestMochaConfig_def split: if_splits)

subsection \<open>The forked tokens\<close>

lemma forked_token_signer: "i < 6 \<Longrightarrow> forked_token i = Some c \<Longrightarrow> Some (signer c) \<in> set forked_whales"
proof -
  assume "i < 6" and "forked_token i = Some c"
  then have "forked_whales ! i = Some (signer c)" by (auto simp: forked_token_def attach_def)
  moreover have "i < length forked_whales" using \<open>i < 6\<close> by (simp add: forked_whales_def)
  ultimately show ?thesis by (metis nth_mem)
qed

lemma fund_whales_events:
  "fund_whales W B deployer whales h = Some h' \<Longrightarrow> set h \<subseteq> set h' \<and> (Some whale \<in> set whales \<longrightarrow>
     Rpc ''hardhat_impersonateAccount'' [AStr whale] \<in> set h' \<and>
     (\<exists>funder hundred. ether B ''100'' = Some hundred \<and> Sent deployer funder ''fund'' [AStr whale] (Some hundred) \<in> set h'))"
proof (induction whales arbitrary: h)
  case (Cons x whales)
  then obtain w h1 funder h2 hundred h3 where
    x: "x = Some w" "rpc W ''hardhat_impersonateAccount'' [AStr w] h = Some h1"
      "deployForceFunderMock W deployer h1 = Some (funder, h2)" "ether B ''100'' = Some hundred"
      "send_value W funder ''fund'' [AStr w] (Some hundred) h2 = Some h3" "fund_whales W B deployer whales h3 = Some h'"
    by auto
  from x(2,3,5) have "set h \<subseteq> set h3" "Rpc ''hardhat_impersonateAccount'' [AStr w] \<in> set h3"
    "Sent deployer (addr funder) ''fund'' [AStr w] (Some hundred) \<in> set h3"
    by (auto simp: script_simps deployForceFunderMock_def deploy_def split: option.splits)
  with Cons.IH [OF x(6)] x(1,4) show ?case by (cases "w = whale") auto
qed simp

lemma getForkedTokens_defined: "list_all (\<lambda>(name, c). c \<noteq> None) getForkedTokens"
  by code_simp

subsection \<open>Properties\<close>

lemma hundred_ether: "ether int_bn ''100'' = Some 100000000000000000000"
  by code_simp

lemma fund_whales_run:
  "room (length whales + k) h \<Longrightarrow> \<exists>h'. fund_whales counting_world int_bn deployer (map Some whales) h = Some h'"
proof (induction whales arbitrary: h)
  case (Cons whale whales)
  obtain h1 where h1: "rpc counting_world ''hardhat_impersonateAccount'' [AStr whale] h = Some h1" "room (Suc (length whales + k)) h1"
    using Cons.prems by (simp add: rpc_def answering_def room_def)
  obtain funder h2 where h2: "deployForceFunderMock counting_world deployer h1 = Some (funder, h2)" "room (length whales + k) h2"
    using runs_deploy [OF h1(2), of _ "\<lambda>c h. Some (c, h)" "\<lambda>h s c m xs. None" deployer "''ForceFunderMock''" "[]" "[]"]
    by (fastforce simp: runs_def deployForceFunderMock_def)
  obtain h3 where h3: "send_value counting_world funder ''fund'' [AStr whale] (Some 100000000000000000000) h2 = Some h3"
    "room (length whales + k) h3"
    using h2(2) by (simp add: send_value_def answering_def room_def)
  from Cons.IH [OF h3(2)] h1(1) h2(1) h3(1) show ?case by (simp add: hundred_ether)
qed simp

text \<open>\<^verbatim>\<open>initializeForkedTokens\<close> makes every contract of \<^verbatim>\<open>getForkedTokens\<close> usable: each of the six tokens is
  connected to an account that the chain has been told to impersonate and that a contract of the
  deployer has been paid 100 ether to fund.\<close>

lemma forked_tokens_usable:
  assumes "initializeForkedTokens W B deployer h = Some h'" and "(name, token) \<in> set getForkedTokens"
  shows "\<exists>c funder hundred. token = Some c \<and> ether B ''100'' = Some hundred \<and>
    Rpc ''hardhat_impersonateAccount'' [AStr (signer c)] \<in> set h' \<and>
    Sent deployer funder ''fund'' [AStr (signer c)] (Some hundred) \<in> set h'"
proof -
  from assms(2) getForkedTokens_defined obtain c where c: "token = Some c" by (auto simp: list_all_iff)
  with assms(2) have "Some (signer c) \<in> set forked_whales"
    by (auto simp: getForkedTokens_def dest!: forked_token_signer [rotated] sym [of "Some c"])
  with fund_whales_events [OF assms(1) [unfolded initializeForkedTokens_def], of "signer c"] c show ?thesis by blast
qed

end
