(* ===== verification/SetToken.thy ===== *)
theory SetToken
  imports PreciseUnitMath AddressArrayUtils
begin

text \<open>
  \<^verbatim>\<open>contracts/protocol/SetToken.sol\<close>: a token that is backed by positions in components. Modules edit the
  positions through low-level functions; a position's unit is stored as a virtual unit, of which the position
  multiplier makes the real unit.

  The ERC-20 part of the contract is OpenZeppelin's: its state is the field \<open>st_token\<close> of any type, its
  operations the argument \<open>erc20_api\<close>. \<open>enabled\<close> is the Controller's \<^verbatim>\<open>isModule\<close> at the time of the call. \<^verbatim>\<open>invoke\<close> and
  \<^verbatim>\<open>removeModule\<close> call other contracts, which may call back; they are in the relation \<open>performs_set\<close>.
\<close>

subsection \<open>The storage\<close>

type_synonym bytes = "8 word list"

datatype module_state = NONE | PENDING | INITIALIZED

record external_position =
  xp_virtualUnit :: int256
  xp_data :: bytes

record component_position =
  cp_virtualUnit :: int256
  cp_externalPositionModules :: "address list"
  cp_externalPositions :: "address \<Rightarrow> external_position"

datatype set_event =
    Invoked address uint256 bytes bytes
  | ModuleAdded address
  | ModuleRemoved address
  | ModuleInitialized address
  | ManagerEdited address address
  | PendingModuleRemoved address
  | PositionMultiplierEdited int256
  | ComponentAdded address
  | ComponentRemoved address
  | DefaultPositionUnitEdited address int256
  | ExternalPositionUnitEdited address address int256
  | ExternalPositionDataEdited address address bytes
  | PositionModuleAdded address address
  | PositionModuleRemoved address address

record 'e set_token =
  st_manager :: address
  st_locker :: address
  st_modules :: "address list"
  st_moduleStates :: "address \<Rightarrow> module_state"
  st_isLocked :: bool
  st_components :: "address list"
  st_componentPositions :: "address \<Rightarrow> component_position"
  st_positionMultiplier :: int256
  st_token :: 'e
  st_events :: "set_event list"

record 'e erc20_api =
  er_mint :: "address \<Rightarrow> uint256 \<Rightarrow> 'e \<Rightarrow> revert + 'e"
  er_burn :: "address \<Rightarrow> uint256 \<Rightarrow> 'e \<Rightarrow> revert + 'e"
  er_totalSupply :: "'e \<Rightarrow> uint256"

definition emitted :: "set_event \<Rightarrow> 'e set_token \<Rightarrow> 'e set_token" where
  "emitted e s = s\<lparr>st_events := e # st_events s\<rparr>"

definition no_position :: component_position where
  "no_position = \<lparr>cp_virtualUnit = 0, cp_externalPositionModules = [],
     cp_externalPositions = (\<lambda>_. \<lparr>xp_virtualUnit = 0, xp_data = []\<rparr>)\<rparr>"

text \<open>The constructor; its loops write the states of the modules and the units of the components.\<close>

fun pending_modules :: "address list \<Rightarrow> (address \<Rightarrow> module_state) \<Rightarrow> address \<Rightarrow> module_state" where
  "pending_modules [] states = states"
| "pending_modules (m # ms) states = pending_modules ms (states(m := PENDING))"

fun default_units :: "address list \<Rightarrow> int256 list \<Rightarrow> (address \<Rightarrow> component_position) \<Rightarrow> revert + (address \<Rightarrow> component_position)" where
  "default_units [] units positions = Inr positions"
| "default_units (c # cs) [] positions = Inl InvalidOpcode"
| "default_units (c # cs) (u # units) positions =
     default_units cs units (positions(c := (positions c)\<lparr>cp_virtualUnit := u\<rparr>))"

definition construct_set_token ::
  "address list \<Rightarrow> int256 list \<Rightarrow> address list \<Rightarrow> address \<Rightarrow> 'e \<Rightarrow> revert + 'e set_token"
where
  "construct_set_token cs units ms newManager token =
     and_then (default_units cs units (\<lambda>_. no_position)) (\<lambda>positions. Inr \<lparr>
       st_manager = newManager, st_locker = 0, st_modules = [], st_moduleStates = pending_modules ms (\<lambda>_. NONE),
       st_isLocked = False, st_components = cs, st_componentPositions = positions,
       st_positionMultiplier = PRECISE_UNIT_INT, st_token = token, st_events = []\<rparr>)"

subsection \<open>Modifiers\<close>

definition validateOnlyModule :: "(address \<Rightarrow> bool) \<Rightarrow> address \<Rightarrow> 'e set_token \<Rightarrow> revert + unit" where
  "validateOnlyModule enabled sender s =
     and_then (require (st_moduleStates s sender = INITIALIZED) ''Only the module can call'') (\<lambda>_.
     require (enabled sender) ''Module must be enabled on controller'')"

definition validateOnlyManager :: "address \<Rightarrow> 'e set_token \<Rightarrow> revert + unit" where
  "validateOnlyManager sender s = require (sender = st_manager s) ''Only manager can call''"

definition validateWhenLockedOnlyLocker :: "address \<Rightarrow> 'e set_token \<Rightarrow> revert + unit" where
  "validateWhenLockedOnlyLocker sender s =
     (if st_isLocked s then require (sender = st_locker s) ''When locked, only the locker can call'' else Inr ())"

definition privileged :: "(address \<Rightarrow> bool) \<Rightarrow> address \<Rightarrow> 'e set_token \<Rightarrow> revert + unit" where
  "privileged enabled sender s =
     and_then (validateOnlyModule enabled sender s) (\<lambda>_. validateWhenLockedOnlyLocker sender s)"

subsection \<open>Units\<close>

definition convertVirtualToRealUnit :: "oz_api \<Rightarrow> 'e set_token \<Rightarrow> int256 \<Rightarrow> revert + int256" where
  "convertVirtualToRealUnit Z s v = conservativePreciseMul Z v (st_positionMultiplier s)"

definition convertRealToVirtualUnit :: "oz_api \<Rightarrow> 'e set_token \<Rightarrow> int256 \<Rightarrow> revert + int256" where
  "convertRealToVirtualUnit Z s realUnit =
     and_then (conservativePreciseDiv Z realUnit (st_positionMultiplier s)) (\<lambda>virtualUnit.
     and_then (require (\<not> (0 < sint realUnit \<and> virtualUnit = 0)) ''Real to Virtual unit conversion invalid'') (\<lambda>_.
     if 0 < sint realUnit
     then and_then (convertVirtualToRealUnit Z s virtualUnit) (\<lambda>r.
       and_then (require (r \<noteq> 0) ''Virtual to Real unit conversion invalid'') (\<lambda>_. Inr virtualUnit))
     else Inr virtualUnit))"

definition defaultPositionVirtualUnit :: "'e set_token \<Rightarrow> address \<Rightarrow> int256" where
  "defaultPositionVirtualUnit s c = cp_virtualUnit (st_componentPositions s c)"

definition externalPositionModules :: "'e set_token \<Rightarrow> address \<Rightarrow> address list" where
  "externalPositionModules s c = cp_externalPositionModules (st_componentPositions s c)"

definition externalPositionVirtualUnit :: "'e set_token \<Rightarrow> address \<Rightarrow> address \<Rightarrow> int256" where
  "externalPositionVirtualUnit s c m = xp_virtualUnit (cp_externalPositions (st_componentPositions s c) m)"

definition externalPositionData :: "'e set_token \<Rightarrow> address \<Rightarrow> address \<Rightarrow> bytes" where
  "externalPositionData s c m = xp_data (cp_externalPositions (st_componentPositions s c) m)"

definition isComponent :: "'e set_token \<Rightarrow> address \<Rightarrow> bool" where
  "isComponent s c = contains (st_components s) c"

definition isExternalPositionModule :: "'e set_token \<Rightarrow> address \<Rightarrow> address \<Rightarrow> bool" where
  "isExternalPositionModule s c m = contains (externalPositionModules s c) m"

definition getDefaultPositionRealUnit :: "oz_api \<Rightarrow> 'e set_token \<Rightarrow> address \<Rightarrow> revert + int256" where
  "getDefaultPositionRealUnit Z s c = convertVirtualToRealUnit Z s (defaultPositionVirtualUnit s c)"

definition getExternalPositionRealUnit :: "oz_api \<Rightarrow> 'e set_token \<Rightarrow> address \<Rightarrow> address \<Rightarrow> revert + int256" where
  "getExternalPositionRealUnit Z s c m = convertVirtualToRealUnit Z s (externalPositionVirtualUnit s c m)"

text \<open>Writing one position.\<close>

definition with_position ::
  "address \<Rightarrow> (component_position \<Rightarrow> component_position) \<Rightarrow> 'e set_token \<Rightarrow> 'e set_token"
where
  "with_position c f s = s\<lparr>st_componentPositions := (st_componentPositions s)(c := f (st_componentPositions s c))\<rparr>"

definition with_external ::
  "address \<Rightarrow> address \<Rightarrow> (external_position \<Rightarrow> external_position) \<Rightarrow> 'e set_token \<Rightarrow> 'e set_token"
where
  "with_external c m f = with_position c (\<lambda>p.
     p\<lparr>cp_externalPositions := (cp_externalPositions p)(m := f (cp_externalPositions p m))\<rparr>)"

subsection \<open>Reading the positions\<close>

text \<open>The smallest absolute virtual unit that is not zero.\<close>

definition absoluteValue :: "oz_api \<Rightarrow> int256 \<Rightarrow> revert + uint256" where
  "absoluteValue Z a = (if 0 \<le> sint a then toUint256 Z a else toUint256 Z (- a))"

definition smaller_unit :: "uint256 \<Rightarrow> uint256 \<Rightarrow> uint256" where
  "smaller_unit unit minimumUnit = (if 0 < unit \<and> unit < minimumUnit then unit else minimumUnit)"

fun external_minimum :: "oz_api \<Rightarrow> 'e set_token \<Rightarrow> address \<Rightarrow> address list \<Rightarrow> uint256 \<Rightarrow> revert + uint256" where
  "external_minimum Z s c [] minimumUnit = Inr minimumUnit"
| "external_minimum Z s c (m # ms) minimumUnit =
     and_then (absoluteValue Z (externalPositionVirtualUnit s c m)) (\<lambda>unit.
       external_minimum Z s c ms (smaller_unit unit minimumUnit))"

fun positions_minimum :: "oz_api \<Rightarrow> 'e set_token \<Rightarrow> address list \<Rightarrow> uint256 \<Rightarrow> revert + uint256" where
  "positions_minimum Z s [] minimumUnit = Inr minimumUnit"
| "positions_minimum Z s (c # cs) minimumUnit =
     and_then (toUint256 Z (defaultPositionVirtualUnit s c)) (\<lambda>unit.
     and_then (external_minimum Z s c (externalPositionModules s c) (smaller_unit unit minimumUnit)) (\<lambda>minimumUnit.
       positions_minimum Z s cs minimumUnit))"

definition getPositionsAbsMinimumVirtualUnit :: "oz_api \<Rightarrow> 'e set_token \<Rightarrow> revert + int256" where
  "getPositionsAbsMinimumVirtualUnit Z s =
     and_then (positions_minimum Z s (st_components s) (- 1)) (\<lambda>minimumUnit. toInt256 Z minimumUnit)"

definition validateNewMultiplier :: "oz_api \<Rightarrow> int256 \<Rightarrow> 'e set_token \<Rightarrow> revert + unit" where
  "validateNewMultiplier Z newMultiplier s =
     and_then (getPositionsAbsMinimumVirtualUnit Z s) (\<lambda>minVirtualUnit.
     and_then (conservativePreciseMul Z minVirtualUnit newMultiplier) (\<lambda>r.
       require (0 < sint r) ''New multiplier too small''))"

text \<open>\<^verbatim>\<open>getPositions\<close>: an array of the counted length is filled entry by entry; writing past its end
  would be an invalid opcode.\<close>

record sol_position =
  ps_component :: address
  ps_module :: address
  ps_unit :: int256
  ps_positionState :: "8 word"
  ps_data :: bytes

definition DEFAULT :: "8 word" where
  "DEFAULT = 0"

definition EXTERNAL :: "8 word" where
  "EXTERNAL = 1"

fun count_positions :: "oz_api \<Rightarrow> 'e set_token \<Rightarrow> address list \<Rightarrow> uint256 \<Rightarrow> revert + uint256" where
  "count_positions Z s [] positionCount = Inr positionCount"
| "count_positions Z s (c # cs) positionCount = (
     let positionCount = (if 0 < sint (defaultPositionVirtualUnit s c) then positionCount + 1 else positionCount);
       externalModules = externalPositionModules s c
     in and_then (if 0 < length externalModules then um_add Z positionCount (of_nat (length externalModules))
          else Inr positionCount) (\<lambda>positionCount.
        count_positions Z s cs positionCount))"

definition getPositionCount :: "oz_api \<Rightarrow> 'e set_token \<Rightarrow> revert + uint256" where
  "getPositionCount Z s = count_positions Z s (st_components s) 0"

definition write_at :: "uint256 \<Rightarrow> 'p \<Rightarrow> 'p list \<Rightarrow> revert + 'p list" where
  "write_at i p positions =
     (if unat i < length positions then Inr (positions[unat i := p]) else Inl InvalidOpcode)"

fun external_positions ::
  "oz_api \<Rightarrow> 'e set_token \<Rightarrow> address \<Rightarrow> address list \<Rightarrow> sol_position list \<times> uint256 \<Rightarrow> revert + sol_position list \<times> uint256"
where
  "external_positions Z s c [] (positions, positionCount) = Inr (positions, positionCount)"
| "external_positions Z s c (m # ms) (positions, positionCount) =
     and_then (getExternalPositionRealUnit Z s c m) (\<lambda>u.
     and_then (write_at positionCount \<lparr>ps_component = c, ps_module = m, ps_unit = u, ps_positionState = EXTERNAL,
        ps_data = externalPositionData s c m\<rparr> positions) (\<lambda>positions.
       external_positions Z s c ms (positions, positionCount + 1)))"

fun all_positions ::
  "oz_api \<Rightarrow> 'e set_token \<Rightarrow> address list \<Rightarrow> sol_position list \<times> uint256 \<Rightarrow> revert + sol_position list \<times> uint256"
where
  "all_positions Z s [] (positions, positionCount) = Inr (positions, positionCount)"
| "all_positions Z s (c # cs) (positions, positionCount) =
     and_then (if 0 < sint (defaultPositionVirtualUnit s c)
       then and_then (getDefaultPositionRealUnit Z s c) (\<lambda>u.
         and_then (write_at positionCount \<lparr>ps_component = c, ps_module = 0, ps_unit = u, ps_positionState = DEFAULT,
            ps_data = []\<rparr> positions) (\<lambda>positions. Inr (positions, positionCount + 1)))
       else Inr (positions, positionCount)) (\<lambda>(positions, positionCount).
     and_then (external_positions Z s c (externalPositionModules s c) (positions, positionCount)) (\<lambda>(positions, positionCount).
       all_positions Z s cs (positions, positionCount)))"

definition getPositions :: "oz_api \<Rightarrow> 'e set_token \<Rightarrow> revert + sol_position list" where
  "getPositions Z s =
     and_then (getPositionCount Z s) (\<lambda>n.
     and_then (all_positions Z s (st_components s) (replicate (unat n) \<lparr>ps_component = 0, ps_module = 0, ps_unit = 0,
        ps_positionState = 0, ps_data = []\<rparr>, 0)) (\<lambda>(positions, positionCount). Inr positions))"

fun total_units :: "oz_api \<Rightarrow> 'e set_token \<Rightarrow> address \<Rightarrow> address list \<Rightarrow> int256 \<Rightarrow> revert + int256" where
  "total_units Z s c [] totalUnits = Inr totalUnits"
| "total_units Z s c (m # ms) totalUnits =
     and_then (getExternalPositionRealUnit Z s c m) (\<lambda>u.
     and_then (im_add Z totalUnits u) (\<lambda>totalUnits. total_units Z s c ms totalUnits))"

definition getTotalComponentRealUnits :: "oz_api \<Rightarrow> 'e set_token \<Rightarrow> address \<Rightarrow> revert + int256" where
  "getTotalComponentRealUnits Z s c =
     and_then (getDefaultPositionRealUnit Z s c) (\<lambda>totalUnits.
       total_units Z s c (externalPositionModules s c) totalUnits)"

subsection \<open>The functions that change the state\<close>

definition addComponent :: "(address \<Rightarrow> bool) \<Rightarrow> address \<Rightarrow> address \<Rightarrow> 'e set_token \<Rightarrow> revert + 'e set_token" where
  "addComponent enabled sender c s =
     and_then (privileged enabled sender s) (\<lambda>_.
     and_then (require (\<not> isComponent s c) ''Must not be component'') (\<lambda>_.
       Inr (emitted (ComponentAdded c) (s\<lparr>st_components := st_components s @ [c]\<rparr>))))"

definition removeComponent :: "(address \<Rightarrow> bool) \<Rightarrow> address \<Rightarrow> address \<Rightarrow> 'e set_token \<Rightarrow> revert + 'e set_token" where
  "removeComponent enabled sender c s =
     and_then (privileged enabled sender s) (\<lambda>_.
     and_then (removeStorage (st_components s) c) (\<lambda>cs.
       Inr (emitted (ComponentRemoved c) (s\<lparr>st_components := cs\<rparr>))))"

definition editDefaultPositionUnit ::
  "oz_api \<Rightarrow> (address \<Rightarrow> bool) \<Rightarrow> address \<Rightarrow> address \<Rightarrow> int256 \<Rightarrow> 'e set_token \<Rightarrow> revert + 'e set_token"
where
  "editDefaultPositionUnit Z enabled sender c realUnit s =
     and_then (privileged enabled sender s) (\<lambda>_.
     and_then (convertRealToVirtualUnit Z s realUnit) (\<lambda>v.
       Inr (emitted (DefaultPositionUnitEdited c realUnit) (with_position c (\<lambda>p. p\<lparr>cp_virtualUnit := v\<rparr>) s))))"

definition addExternalPositionModule ::
  "(address \<Rightarrow> bool) \<Rightarrow> address \<Rightarrow> address \<Rightarrow> address \<Rightarrow> 'e set_token \<Rightarrow> revert + 'e set_token"
where
  "addExternalPositionModule enabled sender c m s =
     and_then (privileged enabled sender s) (\<lambda>_.
     and_then (require (\<not> isExternalPositionModule s c m) ''Module already added'') (\<lambda>_.
       Inr (emitted (PositionModuleAdded c m)
         (with_position c (\<lambda>p. p\<lparr>cp_externalPositionModules := cp_externalPositionModules p @ [m]\<rparr>) s))))"

definition removeExternalPositionModule ::
  "(address \<Rightarrow> bool) \<Rightarrow> address \<Rightarrow> address \<Rightarrow> address \<Rightarrow> 'e set_token \<Rightarrow> revert + 'e set_token"
where
  "removeExternalPositionModule enabled sender c m s =
     and_then (privileged enabled sender s) (\<lambda>_.
     and_then (removeStorage (externalPositionModules s c) m) (\<lambda>ms.
       Inr (emitted (PositionModuleRemoved c m)
         (with_external c m (\<lambda>_. \<lparr>xp_virtualUnit = 0, xp_data = []\<rparr>)
           (with_position c (\<lambda>p. p\<lparr>cp_externalPositionModules := ms\<rparr>) s)))))"

definition editExternalPositionUnit ::
  "oz_api \<Rightarrow> (address \<Rightarrow> bool) \<Rightarrow> address \<Rightarrow> address \<Rightarrow> address \<Rightarrow> int256 \<Rightarrow> 'e set_token \<Rightarrow> revert + 'e set_token"
where
  "editExternalPositionUnit Z enabled sender c m realUnit s =
     and_then (privileged enabled sender s) (\<lambda>_.
     and_then (convertRealToVirtualUnit Z s realUnit) (\<lambda>v.
       Inr (emitted (ExternalPositionUnitEdited c m realUnit) (with_external c m (\<lambda>x. x\<lparr>xp_virtualUnit := v\<rparr>) s))))"

definition editExternalPositionData ::
  "(address \<Rightarrow> bool) \<Rightarrow> address \<Rightarrow> address \<Rightarrow> address \<Rightarrow> bytes \<Rightarrow> 'e set_token \<Rightarrow> revert + 'e set_token"
where
  "editExternalPositionData enabled sender c m data s =
     and_then (privileged enabled sender s) (\<lambda>_.
       Inr (emitted (ExternalPositionDataEdited c m data) (with_external c m (\<lambda>x. x\<lparr>xp_data := data\<rparr>) s)))"

definition editPositionMultiplier ::
  "oz_api \<Rightarrow> (address \<Rightarrow> bool) \<Rightarrow> address \<Rightarrow> int256 \<Rightarrow> 'e set_token \<Rightarrow> revert + 'e set_token"
where
  "editPositionMultiplier Z enabled sender newMultiplier s =
     and_then (privileged enabled sender s) (\<lambda>_.
     and_then (validateNewMultiplier Z newMultiplier s) (\<lambda>_.
       Inr (emitted (PositionMultiplierEdited newMultiplier) (s\<lparr>st_positionMultiplier := newMultiplier\<rparr>))))"

definition mint ::
  "'e erc20_api \<Rightarrow> (address \<Rightarrow> bool) \<Rightarrow> address \<Rightarrow> address \<Rightarrow> uint256 \<Rightarrow> 'e set_token \<Rightarrow> revert + 'e set_token"
where
  "mint E enabled sender account quantity s =
     and_then (privileged enabled sender s) (\<lambda>_.
     and_then (er_mint E account quantity (st_token s)) (\<lambda>token. Inr (s\<lparr>st_token := token\<rparr>)))"

definition burn ::
  "'e erc20_api \<Rightarrow> (address \<Rightarrow> bool) \<Rightarrow> address \<Rightarrow> address \<Rightarrow> uint256 \<Rightarrow> 'e set_token \<Rightarrow> revert + 'e set_token"
where
  "burn E enabled sender account quantity s =
     and_then (privileged enabled sender s) (\<lambda>_.
     and_then (er_burn E account quantity (st_token s)) (\<lambda>token. Inr (s\<lparr>st_token := token\<rparr>)))"

definition lock :: "(address \<Rightarrow> bool) \<Rightarrow> address \<Rightarrow> 'e set_token \<Rightarrow> revert + 'e set_token" where
  "lock enabled sender s =
     and_then (validateOnlyModule enabled sender s) (\<lambda>_.
     and_then (require (\<not> st_isLocked s) ''Must not be locked'') (\<lambda>_.
       Inr (s\<lparr>st_locker := sender, st_isLocked := True\<rparr>)))"

definition unlock :: "(address \<Rightarrow> bool) \<Rightarrow> address \<Rightarrow> 'e set_token \<Rightarrow> revert + 'e set_token" where
  "unlock enabled sender s =
     and_then (validateOnlyModule enabled sender s) (\<lambda>_.
     and_then (require (st_isLocked s) ''Must be locked'') (\<lambda>_.
     and_then (require (st_locker s = sender) ''Must be locker'') (\<lambda>_.
       Inr (s\<lparr>st_locker := 0, st_isLocked := False\<rparr>))))"

definition addModule_set :: "(address \<Rightarrow> bool) \<Rightarrow> address \<Rightarrow> address \<Rightarrow> 'e set_token \<Rightarrow> revert + 'e set_token" where
  "addModule_set enabled sender m s =
     and_then (validateOnlyManager sender s) (\<lambda>_.
     and_then (require (st_moduleStates s m = NONE) ''Module must not be added'') (\<lambda>_.
     and_then (require (enabled m) ''Must be enabled on Controller'') (\<lambda>_.
       Inr (emitted (ModuleAdded m) (s\<lparr>st_moduleStates := (st_moduleStates s)(m := PENDING)\<rparr>)))))"

text \<open>\<^verbatim>\<open>removeModule\<close> before and after it calls the module.\<close>

definition removeModule_guards :: "address \<Rightarrow> address \<Rightarrow> 'e set_token \<Rightarrow> revert + unit" where
  "removeModule_guards sender m s =
     and_then (validateOnlyManager sender s) (\<lambda>_.
     and_then (require (\<not> st_isLocked s) ''Only when unlocked'') (\<lambda>_.
     require (st_moduleStates s m = INITIALIZED) ''Module must be added''))"

definition removeModule_effect :: "address \<Rightarrow> 'e set_token \<Rightarrow> revert + 'e set_token" where
  "removeModule_effect m s =
     (let s = s\<lparr>st_moduleStates := (st_moduleStates s)(m := NONE)\<rparr>
      in and_then (removeStorage (st_modules s) m) (\<lambda>ms. Inr (emitted (ModuleRemoved m) (s\<lparr>st_modules := ms\<rparr>))))"

definition removePendingModule :: "address \<Rightarrow> address \<Rightarrow> 'e set_token \<Rightarrow> revert + 'e set_token" where
  "removePendingModule sender m s =
     and_then (validateOnlyManager sender s) (\<lambda>_.
     and_then (require (\<not> st_isLocked s) ''Only when unlocked'') (\<lambda>_.
     and_then (require (st_moduleStates s m = PENDING) ''Module must be pending'') (\<lambda>_.
       Inr (emitted (PendingModuleRemoved m) (s\<lparr>st_moduleStates := (st_moduleStates s)(m := NONE)\<rparr>)))))"

definition initializeModule :: "address \<Rightarrow> 'e set_token \<Rightarrow> revert + 'e set_token" where
  "initializeModule sender s =
     and_then (require (\<not> st_isLocked s) ''Only when unlocked'') (\<lambda>_.
     and_then (require (st_moduleStates s sender = PENDING) ''Module must be pending'') (\<lambda>_.
       Inr (emitted (ModuleInitialized sender) (s\<lparr>st_moduleStates := (st_moduleStates s)(sender := INITIALIZED),
         st_modules := st_modules s @ [sender]\<rparr>))))"

definition setManager :: "address \<Rightarrow> address \<Rightarrow> 'e set_token \<Rightarrow> revert + 'e set_token" where
  "setManager sender newManager s =
     and_then (validateOnlyManager sender s) (\<lambda>_.
     and_then (require (\<not> st_isLocked s) ''Only when unlocked'') (\<lambda>_.
       Inr (emitted (ManagerEdited newManager (st_manager s)) (s\<lparr>st_manager := newManager\<rparr>))))"

subsection \<open>Calls\<close>

datatype set_call =
    Invoke address uint256 bytes
  | AddComponent address
  | RemoveComponent address
  | EditDefaultPositionUnit address int256
  | AddExternalPositionModule address address
  | RemoveExternalPositionModule address address
  | EditExternalPositionUnit address address int256
  | EditExternalPositionData address address bytes
  | EditPositionMultiplier int256
  | Mint address uint256
  | Burn address uint256
  | Lock
  | Unlock
  | AddModule address
  | RemoveModule address
  | RemovePendingModule address
  | InitializeModule
  | SetManager address

text \<open>The calls that run no other contract.\<close>

fun simple_set_call ::
  "oz_api \<Rightarrow> 'e erc20_api \<Rightarrow> (address \<Rightarrow> bool) \<Rightarrow> address \<Rightarrow> set_call \<Rightarrow> 'e set_token \<Rightarrow> revert + 'e set_token"
where
  "simple_set_call Z E enabled sender (AddComponent c) s = addComponent enabled sender c s"
| "simple_set_call Z E enabled sender (RemoveComponent c) s = removeComponent enabled sender c s"
| "simple_set_call Z E enabled sender (EditDefaultPositionUnit c u) s = editDefaultPositionUnit Z enabled sender c u s"
| "simple_set_call Z E enabled sender (AddExternalPositionModule c m) s = addExternalPositionModule enabled sender c m s"
| "simple_set_call Z E enabled sender (RemoveExternalPositionModule c m) s = removeExternalPositionModule enabled sender c m s"
| "simple_set_call Z E enabled sender (EditExternalPositionUnit c m u) s = editExternalPositionUnit Z enabled sender c m u s"
| "simple_set_call Z E enabled sender (EditExternalPositionData c m d) s = editExternalPositionData enabled sender c m d s"
| "simple_set_call Z E enabled sender (EditPositionMultiplier k) s = editPositionMultiplier Z enabled sender k s"
| "simple_set_call Z E enabled sender (Mint a q) s = mint E enabled sender a q s"
| "simple_set_call Z E enabled sender (Burn a q) s = burn E enabled sender a q s"
| "simple_set_call Z E enabled sender Lock s = lock enabled sender s"
| "simple_set_call Z E enabled sender Unlock s = unlock enabled sender s"
| "simple_set_call Z E enabled sender (AddModule m) s = addModule_set enabled sender m s"
| "simple_set_call Z E enabled sender (RemovePendingModule m) s = removePendingModule sender m s"
| "simple_set_call Z E enabled sender InitializeModule s = initializeModule sender s"
| "simple_set_call Z E enabled sender (SetManager a) s = setManager sender a s"
| "simple_set_call Z E enabled sender (Invoke t v d) s = Inl InvalidOpcode"
| "simple_set_call Z E enabled sender (RemoveModule m) s = Inl InvalidOpcode"

text \<open>Calls that return. The contract that \<^verbatim>\<open>invoke\<close> or \<^verbatim>\<open>removeModule\<close> calls may make any calls before it
  returns, itself or through others; what the Controller has enabled may change from call to call. A holder's
  transfer or approval changes the token's state only.\<close>

inductive
  performs_set :: "oz_api \<Rightarrow> 'e erc20_api \<Rightarrow> address \<Rightarrow> set_call \<Rightarrow> 'e set_token \<Rightarrow> 'e set_token \<Rightarrow> bool"
  and back_calls :: "oz_api \<Rightarrow> 'e erc20_api \<Rightarrow> 'e set_token \<Rightarrow> 'e set_token \<Rightarrow> bool"
  for Z :: oz_api and E :: "'e erc20_api"
where
  simple_set: "simple_set_call Z E enabled sender call s = Inr s' \<Longrightarrow> performs_set Z E sender call s s'"
| invoke: "privileged enabled sender s = Inr () \<Longrightarrow> back_calls Z E s s1 \<Longrightarrow>
    performs_set Z E sender (Invoke target val data) s (emitted (Invoked target val data result) s1)"
| remove_module: "removeModule_guards sender m s = Inr () \<Longrightarrow> back_calls Z E s s1 \<Longrightarrow>
    removeModule_effect m s1 = Inr s2 \<Longrightarrow> performs_set Z E sender (RemoveModule m) s s2"
| no_back_calls: "back_calls Z E s s"
| token_call: "back_calls Z E (s\<lparr>st_token := token\<rparr>) s' \<Longrightarrow> back_calls Z E s s'"
| back_call: "performs_set Z E sender call s s1 \<Longrightarrow> back_calls Z E s1 s2 \<Longrightarrow> back_calls Z E s s2"

inductive set_token_reachable :: "oz_api \<Rightarrow> 'e erc20_api \<Rightarrow> 'e set_token \<Rightarrow> bool" for Z E where
  set_constructed: "construct_set_token cs units ms newManager token = Inr s \<Longrightarrow> distinct cs \<Longrightarrow>
    set_token_reachable Z E s"
| set_called: "set_token_reachable Z E s \<Longrightarrow> back_calls Z E s s' \<Longrightarrow> set_token_reachable Z E s'"

subsection \<open>The invariant\<close>

text \<open>\<^verbatim>\<open>modules\<close> and \<^verbatim>\<open>moduleStates\<close> agree, no array has an entry twice, and only a locked token has a locker.\<close>

definition set_token_inv :: "'e set_token \<Rightarrow> bool" where
  "set_token_inv s \<longleftrightarrow> distinct (st_modules s) \<and>
     (\<forall>m. m \<in> set (st_modules s) \<longleftrightarrow> st_moduleStates s m = INITIALIZED) \<and>
     distinct (st_components s) \<and> (\<forall>c. distinct (externalPositionModules s c)) \<and>
     0 < sint (st_positionMultiplier s) \<and> (\<not> st_isLocked s \<longrightarrow> st_locker s = 0)"

context openzeppelin
begin

lemma conservativePreciseMul_Inr:
  "conservativePreciseMul Z a b = Inr c \<longleftrightarrow> fits_int (sint a * sint b) \<and> sint c = sint a * sint b div 10 ^ 18"
proof -
  have "conservativePreciseMul Z a b = Inr c \<longleftrightarrow> (\<exists>x :: int256. sint x = sint a * sint b \<and> sint c = sint x div 10 ^ 18)"
    by (auto simp: conservativePreciseMul_def im_mul_Inr divDown_i_Inr)
  then show ?thesis by (simp only: ex_sint_eq [where P = "\<lambda>n. sint c = n div 10 ^ 18"])
qed

lemma conservativePreciseDiv_Inr:
  "conservativePreciseDiv Z a b = Inr c \<longleftrightarrow>
     b \<noteq> 0 \<and> fits_int (sint a * 10 ^ 18) \<and> sint c = sint a * 10 ^ 18 div sint b"
proof -
  have ne: "sint a * 10 ^ 18 \<noteq> - (2 ^ 255)"
  proof
    assume "sint a * 10 ^ 18 = - (2 ^ 255)"
    then have "(10 ^ 18 :: int) dvd 2 ^ 255" by (metis dvd_minus_iff dvd_triv_right)
    then show False by simp
  qed
  have "conservativePreciseDiv Z a b = Inr c \<longleftrightarrow>
      (\<exists>x :: int256. sint x = sint a * 10 ^ 18 \<and> b \<noteq> 0 \<and> sint c = sint x div sint b)"
    using ne by (auto simp: conservativePreciseDiv_def im_mul_Inr divDown_i_Inr)
  then show ?thesis by (simp only: ex_sint_eq [where P = "\<lambda>n. b \<noteq> 0 \<and> sint c = n div sint b"]) auto
qed

end

subsection \<open>Fields after a call\<close>

named_theorems set_fields \<open>the readings of a state after a write\<close>

lemma emitted_fields [set_fields, simp]:
  "st_manager (emitted e s) = st_manager s" "st_locker (emitted e s) = st_locker s"
  "st_modules (emitted e s) = st_modules s" "st_moduleStates (emitted e s) = st_moduleStates s"
  "st_isLocked (emitted e s) = st_isLocked s" "st_components (emitted e s) = st_components s"
  "st_componentPositions (emitted e s) = st_componentPositions s"
  "st_positionMultiplier (emitted e s) = st_positionMultiplier s" "st_token (emitted e s) = st_token s"
  by (simp_all add: emitted_def)

lemma with_position_fields [set_fields, simp]:
  "st_manager (with_position c f s) = st_manager s" "st_locker (with_position c f s) = st_locker s"
  "st_modules (with_position c f s) = st_modules s" "st_moduleStates (with_position c f s) = st_moduleStates s"
  "st_isLocked (with_position c f s) = st_isLocked s" "st_components (with_position c f s) = st_components s"
  "st_positionMultiplier (with_position c f s) = st_positionMultiplier s" "st_token (with_position c f s) = st_token s"
  "st_componentPositions (with_position c f s) = (st_componentPositions s)(c := f (st_componentPositions s c))"
  by (simp_all add: with_position_def)

lemmas position_defs = defaultPositionVirtualUnit_def externalPositionModules_def externalPositionVirtualUnit_def
  externalPositionData_def with_external_def

lemma distinct_short: "distinct xs \<Longrightarrow> length xs < 2 ^ 256" for xs :: "address list"
proof -
  assume "distinct xs"
  then have "length xs = card (set xs)" by (simp add: distinct_card)
  also have "\<dots> \<le> card (UNIV :: address set)" by (rule card_mono) simp_all
  finally show ?thesis by (simp add: card_word)
qed

lemma privileged_Inr: "privileged enabled sender s = Inr u \<longleftrightarrow>
    st_moduleStates s sender = INITIALIZED \<and> enabled sender \<and> (st_isLocked s \<longrightarrow> sender = st_locker s)"
  by (auto simp: privileged_def validateOnlyModule_def validateWhenLockedOnlyLocker_def)

lemmas set_ops = addComponent_def removeComponent_def editDefaultPositionUnit_def addExternalPositionModule_def
  removeExternalPositionModule_def editExternalPositionUnit_def editExternalPositionData_def editPositionMultiplier_def
  mint_def burn_def lock_def unlock_def addModule_set_def removePendingModule_def initializeModule_def setManager_def
  removeModule_guards_def removeModule_effect_def validateOnlyModule_def validateOnlyManager_def

subsection \<open>The smallest unit\<close>

lemma smaller_unit_pos: "minimumUnit \<noteq> 0 \<Longrightarrow> smaller_unit unit minimumUnit \<noteq> 0"
  by (auto simp: smaller_unit_def word_gt_0)

lemma smaller_unit_le: "smaller_unit unit minimumUnit \<le> minimumUnit" "0 < unit \<Longrightarrow> smaller_unit unit minimumUnit \<le> unit"
  by (auto simp: smaller_unit_def)

lemma external_minimum_Inr:
  "external_minimum Z s c ms n = Inr k \<Longrightarrow> n \<noteq> 0 \<Longrightarrow> k \<noteq> 0 \<and> k \<le> n \<and>
     (\<forall>m \<in> set ms. \<exists>u. absoluteValue Z (externalPositionVirtualUnit s c m) = Inr u \<and> (u = 0 \<or> k \<le> u))"
proof (induction ms arbitrary: n)
  case (Cons m ms)
  then obtain u where u: "absoluteValue Z (externalPositionVirtualUnit s c m) = Inr u"
    "external_minimum Z s c ms (smaller_unit u n) = Inr k" by auto
  note IH = Cons.IH [OF u(2) smaller_unit_pos [OF Cons.prems(2)]]
  have "u = 0 \<or> k \<le> u" using IH smaller_unit_le(2) [of u n] by (auto simp: word_gt_0 intro: order_trans)
  with IH u(1) smaller_unit_le(1) [of u n] show ?case by (auto intro: order_trans)
qed auto

lemma positions_minimum_Inr:
  "positions_minimum Z s cs n = Inr k \<Longrightarrow> n \<noteq> 0 \<Longrightarrow> k \<noteq> 0 \<and> k \<le> n \<and>
     (\<forall>c \<in> set cs. (\<exists>u. toUint256 Z (defaultPositionVirtualUnit s c) = Inr u \<and> (u = 0 \<or> k \<le> u)) \<and>
        (\<forall>m \<in> set (externalPositionModules s c).
           \<exists>u. absoluteValue Z (externalPositionVirtualUnit s c m) = Inr u \<and> (u = 0 \<or> k \<le> u)))"
proof (induction cs arbitrary: n)
  case (Cons c cs)
  then obtain u n1 where u: "toUint256 Z (defaultPositionVirtualUnit s c) = Inr u"
    "external_minimum Z s c (externalPositionModules s c) (smaller_unit u n) = Inr n1"
    "positions_minimum Z s cs n1 = Inr k" by auto
  note ext = external_minimum_Inr [OF u(2) smaller_unit_pos [OF Cons.prems(2)]]
  note IH = Cons.IH [OF u(3)]
  have "u = 0 \<or> k \<le> u" using IH ext smaller_unit_le(2) [of u n] by (auto simp: word_gt_0 intro: order_trans)
  moreover have "k \<le> n" using IH ext smaller_unit_le(1) [of u n] by (auto intro: order_trans)
  ultimately show ?case using IH ext u(1) by (fastforce intro: order_trans)
qed auto

context openzeppelin
begin

lemma absoluteValue_Inr: "absoluteValue Z a = Inr u \<longleftrightarrow> sint a \<noteq> - (2 ^ 255) \<and> uint u = \<bar>sint a\<bar>"
proof (cases "0 \<le> sint a \<or> sint a = - (2 ^ 255)")
  case False
  then have "fits_int (- sint a)" using sint_fits [of a] by (auto simp: fits_int_def)
  then have "sint (- a) = - sint a" using sint_of_int [of "- sint a"] by simp
  with False show ?thesis by (simp add: absoluteValue_def toUint256_Inr)
next
  case True
  show ?thesis
  proof (cases "0 \<le> sint a")
    case False
    with True have "a = MIN_INT_256" by (simp add: min_int_iff)
    then have "sint (- a) = - (2 ^ 255)" by (simp add: MIN_INT_256_def)
    moreover have "- (2 ^ 255) < uint u" by (rule less_le_trans [OF _ uint_ge_0]) simp
    ultimately show ?thesis using False True by (simp add: absoluteValue_def toUint256_Inr)
  qed (simp add: absoluteValue_def toUint256_Inr)
qed

text \<open>An accepted multiplier keeps every unit alive.\<close>

lemma validateNewMultiplier_Inr:
  assumes "validateNewMultiplier Z k s = Inr u"
  shows "0 < sint k" and "c \<in> set (st_components s) \<Longrightarrow> 0 \<le> sint (defaultPositionVirtualUnit s c) \<and>
      (defaultPositionVirtualUnit s c \<noteq> 0 \<longrightarrow> 10 ^ 18 \<le> sint (defaultPositionVirtualUnit s c) * sint k) \<and>
      (\<forall>m \<in> set (externalPositionModules s c). externalPositionVirtualUnit s c m \<noteq> 0 \<longrightarrow>
         10 ^ 18 \<le> \<bar>sint (externalPositionVirtualUnit s c m)\<bar> * sint k)"
proof -
  from assms obtain n v r where n: "positions_minimum Z s (st_components s) (- 1) = Inr n" "toInt256 Z n = Inr v"
    "conservativePreciseMul Z v k = Inr r" "0 < sint r"
    by (auto simp: validateNewMultiplier_def getPositionsAbsMinimumVirtualUnit_def)
  note min = positions_minimum_Inr [OF n(1)]
  have v: "sint v = uint n" "0 < uint n" using n(2) min by (simp_all add: toInt256_Inr uint_pos)
  have "0 < uint n * sint k div 10 ^ 18" using n(3,4) by (simp add: conservativePreciseMul_Inr v)
  then have big: "10 ^ 18 \<le> uint n * sint k" by (simp add: pos_imp_zdiv_pos_iff)
  then show k: "0 < sint k" using v(2) by (smt (verit) mult_nonneg_nonpos zero_less_power)
  have alive: "10 ^ 18 \<le> \<bar>sint x\<bar> * sint k" if "uint u = \<bar>sint x\<bar>" "n \<le> u" for x :: int256 and u :: uint256
  proof -
    have "uint n \<le> \<bar>sint x\<bar>" using that by (simp add: word_le_def)
    then have "uint n * sint k \<le> \<bar>sint x\<bar> * sint k" using k by (intro mult_right_mono) simp_all
    with big show ?thesis by linarith
  qed
  assume c: "c \<in> set (st_components s)"
  obtain w where w: "uint w = sint (defaultPositionVirtualUnit s c)" "w = 0 \<or> n \<le> w"
    using min c by (auto simp: toUint256_Inr)
  then have nonneg: "0 \<le> sint (defaultPositionVirtualUnit s c)" by (metis uint_nonnegative)
  have d: "10 ^ 18 \<le> sint (defaultPositionVirtualUnit s c) * sint k" if "defaultPositionVirtualUnit s c \<noteq> 0"
    using alive [of w "defaultPositionVirtualUnit s c"] w that nonneg by auto
  have e: "10 ^ 18 \<le> \<bar>sint (externalPositionVirtualUnit s c m)\<bar> * sint k"
    if "m \<in> set (externalPositionModules s c)" "externalPositionVirtualUnit s c m \<noteq> 0" for m
  proof -
    from min c that(1) obtain x where x: "absoluteValue Z (externalPositionVirtualUnit s c m) = Inr x" "x = 0 \<or> n \<le> x"
      by simp blast
    then have u: "uint x = \<bar>sint (externalPositionVirtualUnit s c m)\<bar>" by (simp add: absoluteValue_Inr)
    with that(2) have "x \<noteq> 0" by auto
    with x u show ?thesis using alive [of x "externalPositionVirtualUnit s c m"] by simp
  qed
  show "0 \<le> sint (defaultPositionVirtualUnit s c) \<and>
      (defaultPositionVirtualUnit s c \<noteq> 0 \<longrightarrow> 10 ^ 18 \<le> sint (defaultPositionVirtualUnit s c) * sint k) \<and>
      (\<forall>m \<in> set (externalPositionModules s c). externalPositionVirtualUnit s c m \<noteq> 0 \<longrightarrow>
         10 ^ 18 \<le> \<bar>sint (externalPositionVirtualUnit s c m)\<bar> * sint k)"
    by (intro conjI impI ballI nonneg d e)
qed

end

subsection \<open>Every call keeps the invariant\<close>

lemma set_token_invD:
  assumes "set_token_inv s"
  shows "distinct (st_modules s)" "m \<in> set (st_modules s) \<longleftrightarrow> st_moduleStates s m = INITIALIZED"
    "distinct (st_components s)" "distinct (externalPositionModules s c)" "0 < sint (st_positionMultiplier s)"
    "\<not> st_isLocked s \<Longrightarrow> st_locker s = 0"
  using assms by (simp_all add: set_token_inv_def)

lemma removeStorage_distinct:
  "removeStorage xs x = Inr ys \<Longrightarrow> distinct xs \<Longrightarrow> distinct ys \<and> set ys = set xs - {x} \<and> x \<in> set xs"
  using removeStorage.rem_distinct [of xs x ys] removeStorage.rem_Inr(1) [of xs x ys] distinct_short [of xs] by blast

context openzeppelin
begin

lemma set_token_inv_simple:
  assumes "simple_set_call Z E enabled sender call s = Inr s'" and inv: "set_token_inv s"
  shows "set_token_inv s'"
proof (cases call)
  case (RemoveComponent c)
  with assms(1) obtain cs where "removeStorage (st_components s) c = Inr cs"
    "s' = emitted (ComponentRemoved c) (s\<lparr>st_components := cs\<rparr>)" by (auto simp: set_ops)
  with removeStorage_distinct [of _ c cs] inv show ?thesis by (simp add: set_token_inv_def position_defs)
next
  case (RemoveExternalPositionModule c m)
  with assms(1) obtain ms where ms: "removeStorage (externalPositionModules s c) m = Inr ms"
    "s' = emitted (PositionModuleRemoved c m) (with_external c m (\<lambda>_. \<lparr>xp_virtualUnit = 0, xp_data = []\<rparr>)
      (with_position c (\<lambda>p. p\<lparr>cp_externalPositionModules := ms\<rparr>) s))" by (auto simp: set_ops)
  with removeStorage_distinct [OF ms(1)] inv show ?thesis by (simp add: set_token_inv_def position_defs)
next
  case (EditPositionMultiplier k)
  with assms(1) have "validateNewMultiplier Z k s = Inr ()"
    "s' = emitted (PositionMultiplierEdited k) (s\<lparr>st_positionMultiplier := k\<rparr>)" by (auto simp: set_ops)
  with validateNewMultiplier_Inr(1) inv show ?thesis by (simp add: set_token_inv_def position_defs)
qed (use assms in \<open>auto simp: set_ops set_token_inv_def isComponent_def isExternalPositionModule_def position_defs
  split: if_splits\<close>)

lemma set_token_inv_calls:
  "performs_set Z E sender call s s' \<Longrightarrow> set_token_inv s \<Longrightarrow> set_token_inv s'"
  "back_calls Z E s s' \<Longrightarrow> set_token_inv s \<Longrightarrow> set_token_inv s'"
proof (induction rule: performs_set_back_calls.inducts)
  case (simple_set enabled sender call s s')
  then show ?case by (rule set_token_inv_simple)
next
  case (remove_module sender m s s1 s2)
  then obtain ms where "removeStorage (st_modules s1) m = Inr ms"
    "s2 = emitted (ModuleRemoved m) (s1\<lparr>st_moduleStates := (st_moduleStates s1)(m := NONE), st_modules := ms\<rparr>)"
    by (auto simp: removeModule_effect_def)
  with removeStorage_distinct [of _ m ms] remove_module show ?case by (auto simp: set_token_inv_def position_defs)
next
  case (token_call s token s')
  then show ?case by (simp add: set_token_inv_def position_defs)
qed (simp_all add: set_token_inv_def position_defs)

end

lemma default_units_fields:
  "default_units cs units ps = Inr ps' \<Longrightarrow> cp_externalPositionModules (ps' c) = cp_externalPositionModules (ps c) \<and>
     cp_externalPositions (ps' c) = cp_externalPositions (ps c)"
  by (induction cs units ps rule: default_units.induct) auto

lemma pending_modules_eq: "pending_modules ms states m = (if m \<in> set ms then PENDING else states m)"
  by (induction ms arbitrary: states) auto

lemma set_token_inv_constructed:
  assumes "construct_set_token cs units ms newManager token = Inr s" and "distinct cs"
  shows "set_token_inv s"
proof -
  from assms(1) obtain ps where "default_units cs units (\<lambda>_. no_position) = Inr ps"
    "s = \<lparr>st_manager = newManager, st_locker = 0, st_modules = [], st_moduleStates = pending_modules ms (\<lambda>_. NONE),
       st_isLocked = False, st_components = cs, st_componentPositions = ps, st_positionMultiplier = PRECISE_UNIT_INT,
       st_token = token, st_events = []\<rparr>" by (auto simp: construct_set_token_def)
  with default_units_fields [OF this(1)] assms(2) show ?thesis
    by (simp add: set_token_inv_def position_defs no_position_def pending_modules_eq)
qed

lemma set_token_inv_reachable:
  assumes "openzeppelin Z" and "set_token_reachable Z E s"
  shows "set_token_inv s"
  using assms(2)
proof induction
  case (set_constructed cs units ms newManager token s)
  then show ?case by (rule set_token_inv_constructed)
next
  case (set_called s s')
  then show ?case by (metis assms(1) openzeppelin.set_token_inv_calls(2))
qed

text \<open>A token of one component and one pending module; the module initializes itself, borrows the component
  at itself and then locks the token.\<close>

definition example_token :: "unit set_token" where
  "example_token = \<lparr>st_manager = 9, st_locker = 5, st_modules = [5], st_moduleStates = (\<lambda>_. NONE)(5 := INITIALIZED),
     st_isLocked = True, st_components = [7],
     st_componentPositions = (\<lambda>_. no_position)(7 := \<lparr>cp_virtualUnit = 2000000, cp_externalPositionModules = [5],
       cp_externalPositions = (\<lambda>_. \<lparr>xp_virtualUnit = 0, xp_data = []\<rparr>)(5 := \<lparr>xp_virtualUnit = - 300000, xp_data = []\<rparr>)\<rparr>),
     st_positionMultiplier = 1000000000000000000, st_token = (),
     st_events = [ExternalPositionUnitEdited 7 5 (- 300000), PositionModuleAdded 7 5, ModuleInitialized 5]\<rparr>"

definition no_erc20 :: "unit erc20_api" where
  "no_erc20 = \<lparr>er_mint = (\<lambda>_ _ _. Inr ()), er_burn = (\<lambda>_ _ _. Inr ()), er_totalSupply = (\<lambda>_. 0)\<rparr>"

fun set_calls ::
  "oz_api \<Rightarrow> 'e erc20_api \<Rightarrow> (address \<Rightarrow> bool) \<Rightarrow> (address \<times> set_call) list \<Rightarrow> 'e set_token \<Rightarrow> revert + 'e set_token"
where
  "set_calls Z E enabled [] s = Inr s"
| "set_calls Z E enabled ((sender, call) # calls) s =
     and_then (simple_set_call Z E enabled sender call s) (\<lambda>s. set_calls Z E enabled calls s)"

lemma set_calls_back: "set_calls Z E enabled calls s = Inr s' \<Longrightarrow> back_calls Z E s s'"
  by (induction Z E enabled calls s rule: set_calls.induct) (auto intro: performs_set_back_calls.intros)

lemma set_calls_reachable:
  "construct_set_token cs units ms newManager token = Inr s \<Longrightarrow> distinct cs \<Longrightarrow>
     set_calls Z E enabled calls s = Inr s' \<Longrightarrow> set_token_reachable Z E s'"
  by (meson set_calls_back set_called set_constructed)

lemma example_token_run:
  "construct_set_token [7] [2000000] [5] 9 () = Inr (example_token\<lparr>st_locker := 0, st_modules := [],
     st_moduleStates := (\<lambda>_. NONE)(5 := PENDING), st_isLocked := False,
     st_componentPositions := (\<lambda>_. no_position)(7 := no_position\<lparr>cp_virtualUnit := 2000000\<rparr>), st_events := []\<rparr>)"
  "set_calls checked_oz no_erc20 (\<lambda>_. True)
     [(5, InitializeModule), (5, AddExternalPositionModule 7 5), (5, EditExternalPositionUnit 7 5 (- 300000)), (5, Lock)]
     (example_token\<lparr>st_locker := 0, st_modules := [],
     st_moduleStates := (\<lambda>_. NONE)(5 := PENDING), st_isLocked := False,
     st_componentPositions := (\<lambda>_. no_position)(7 := no_position\<lparr>cp_virtualUnit := 2000000\<rparr>), st_events := []\<rparr>)
   = Inr example_token"
proof -
  show "construct_set_token [7] [2000000] [5] 9 () = Inr (example_token\<lparr>st_locker := 0, st_modules := [],
     st_moduleStates := (\<lambda>_. NONE)(5 := PENDING), st_isLocked := False,
     st_componentPositions := (\<lambda>_. no_position)(7 := no_position\<lparr>cp_virtualUnit := 2000000\<rparr>), st_events := []\<rparr>)"
    by (simp add: construct_set_token_def example_token_def PRECISE_UNIT_INT_def del: and_then_eq_Inr)
next
  have v: "conservativePreciseDiv checked_oz (- 300000) 1000000000000000000 = Inr (- 300000)"
    by (simp add: checked_oz.conservativePreciseDiv_Inr fits_int_def)
  show "set_calls checked_oz no_erc20 (\<lambda>_. True)
     [(5, InitializeModule), (5, AddExternalPositionModule 7 5), (5, EditExternalPositionUnit 7 5 (- 300000)), (5, Lock)]
     (example_token\<lparr>st_locker := 0, st_modules := [],
     st_moduleStates := (\<lambda>_. NONE)(5 := PENDING), st_isLocked := False,
     st_componentPositions := (\<lambda>_. no_position)(7 := no_position\<lparr>cp_virtualUnit := 2000000\<rparr>), st_events := []\<rparr>)
   = Inr example_token"
    by (simp add: set_ops privileged_def validateWhenLockedOnlyLocker_def example_token_def convertRealToVirtualUnit_def v
        isExternalPositionModule_def position_defs no_position_def with_position_def emitted_def fun_eq_iff del: and_then_eq_Inr)
qed

lemma example_token_reachable: "set_token_reachable checked_oz no_erc20 example_token"
  by (rule set_calls_reachable [OF example_token_run(1) _ example_token_run(2)]) simp

text \<open>C27: In every state that a SetToken reaches from its constructor (with distinct components, which the creator
  checks) through any sequence of calls, nested calls of invoked contracts and of removed modules included, the
  array of modules has no duplicates and holds exactly the initialized modules, components and their external
  position modules have no duplicates, the position multiplier is positive, and an unlocked token has no locker.\<close>

theorem set_token_invariant:
  assumes "openzeppelin Z" and "set_token_reachable Z E s"
  shows "distinct (st_modules s) \<and> set (st_modules s) = {m. st_moduleStates s m = INITIALIZED} \<and>
    distinct (st_components s) \<and> (\<forall>c. distinct (externalPositionModules s c)) \<and>
    0 < sint (st_positionMultiplier s) \<and> (st_isLocked s \<or> st_locker s = 0)"
  using set_token_inv_reachable [OF assms] by (auto simp: set_token_inv_def)

theorem set_token_invariant_witness:
  "set (st_modules example_token) = {5} \<and> {m. st_moduleStates example_token m = INITIALIZED} = {5} \<and>
   0 < sint (st_positionMultiplier example_token)"
  using set_token_invariant [OF checked_oz.openzeppelin_axioms example_token_reachable]
  by (simp add: example_token_def)

subsection \<open>Real units\<close>

context openzeppelin
begin

lemma real_unit_round_trip:
  assumes "0 < sint (st_positionMultiplier s)" and "convertRealToVirtualUnit Z s r = Inr v" and "0 \<le> sint r"
  obtains r' where "convertVirtualToRealUnit Z s v = Inr r'" "0 \<le> sint r'" "sint r' \<le> sint r"
    "(sint r - sint r' - 1) * 10 ^ 18 < sint (st_positionMultiplier s)" "0 < sint r \<Longrightarrow> 0 < sint r'"
proof -
  let ?M = "sint (st_positionMultiplier s)" and ?R = "sint r * 10 ^ 18"
  from assms(2) have R: "fits_int ?R" and v: "sint v = ?R div ?M"
    and ok: "0 < sint r \<Longrightarrow> \<exists>x. convertVirtualToRealUnit Z s v = Inr x \<and> x \<noteq> 0"
    by (auto simp: convertRealToVirtualUnit_def conservativePreciseDiv_Inr split: if_splits)
  have lower: "?R - ?M < sint v * ?M" and upper: "sint v * ?M \<le> ?R"
    using assms(1) pos_mod_bound [of ?M ?R] pos_mod_sign [of ?M ?R]
    unfolding v by (simp_all add: minus_mod_eq_div_mult [symmetric])
  have v0: "0 \<le> sint v * ?M" using assms(1,3) v by (simp add: pos_imp_zdiv_nonneg_iff)
  then have fits: "fits_int (sint v * ?M)" using upper R by (simp add: fits_int_def)
  then have "fits_int (sint v * ?M div 10 ^ 18)" using v0
    using fits zdiv_mono2 [OF v0, of 1 "10 ^ 18"] by (simp add: fits_int_def pos_imp_zdiv_nonneg_iff)
  then obtain r' :: int256 where r': "sint r' = sint v * ?M div 10 ^ 18" using ex_sint by metis
  then have conv: "convertVirtualToRealUnit Z s v = Inr r'"
    using fits by (simp add: convertVirtualToRealUnit_def conservativePreciseMul_Inr)
  show thesis
  proof (rule that [OF conv])
    show nonneg: "0 \<le> sint r'" unfolding r' using v0 by (simp add: pos_imp_zdiv_nonneg_iff)
    show "sint r' \<le> sint r" unfolding r' using zdiv_mono1 [OF upper, of "10 ^ 18"] by simp
    show "0 < sint r \<Longrightarrow> 0 < sint r'" using ok conv nonneg by (force simp: less_le)
    show "(sint r - sint r' - 1) * 10 ^ 18 < ?M"
      using lower pos_mod_bound [of "10 ^ 18" "sint v * ?M"] unfolding r'
      by (simp add: left_diff_distrib minus_mod_eq_div_mult [symmetric])
  qed
qed

end

text \<open>C31: A default unit that a module has set reads back: after \<open>editDefaultPositionUnit\<close> with a unit that is not
  negative, \<open>getDefaultPositionRealUnit\<close> of the same token returns, and what it returns is never larger than the
  unit written, smaller by at most one more than the multiplier's units of ten to the 18, and zero only if the
  unit written was zero; no other component's reading has changed.\<close>

theorem default_unit_round_trip:
  assumes "openzeppelin Z" and "set_token_reachable Z E s"
    and "editDefaultPositionUnit Z enabled sender c u s = Inr s'" and "0 \<le> sint u"
  shows "(\<exists>r. getDefaultPositionRealUnit Z s' c = Inr r \<and> 0 \<le> sint r \<and> sint r \<le> sint u \<and>
      (sint u - sint r - 1) * 10 ^ 18 < sint (st_positionMultiplier s) \<and> (sint r = 0 \<longleftrightarrow> sint u = 0)) \<and>
    (\<forall>c'. c' = c \<or> getDefaultPositionRealUnit Z s' c' = getDefaultPositionRealUnit Z s c')"
proof -
  from assms(3) obtain v where v: "convertRealToVirtualUnit Z s u = Inr v"
    and s': "s' = emitted (DefaultPositionUnitEdited c u) (with_position c (\<lambda>p. p\<lparr>cp_virtualUnit := v\<rparr>) s)"
    by (auto simp: editDefaultPositionUnit_def)
  obtain r where "convertVirtualToRealUnit Z s v = Inr r" "0 \<le> sint r" "sint r \<le> sint u"
    "(sint u - sint r - 1) * 10 ^ 18 < sint (st_positionMultiplier s)" "0 < sint u \<Longrightarrow> 0 < sint r"
    using openzeppelin.real_unit_round_trip [OF assms(1) set_token_invD(5) [OF set_token_inv_reachable [OF assms(1,2)]] v assms(4)]
    by blast
  moreover from this assms(4) have "sint r = 0 \<longleftrightarrow> sint u = 0" by linarith
  ultimately have r: "getDefaultPositionRealUnit Z s' c = Inr r" "0 \<le> sint r" "sint r \<le> sint u"
    "(sint u - sint r - 1) * 10 ^ 18 < sint (st_positionMultiplier s)" "sint r = 0 \<longleftrightarrow> sint u = 0"
    using assms(4) by (simp_all add: s' getDefaultPositionRealUnit_def convertVirtualToRealUnit_def position_defs)
  moreover have "c' = c \<or> getDefaultPositionRealUnit Z s' c' = getDefaultPositionRealUnit Z s c'" for c'
    by (simp add: s' getDefaultPositionRealUnit_def convertVirtualToRealUnit_def position_defs)
  ultimately show ?thesis by blast
qed

lemma example_token_edit:
  "editDefaultPositionUnit checked_oz (\<lambda>_. True) 5 7 2500000 example_token =
     Inr (emitted (DefaultPositionUnitEdited 7 2500000) (with_position 7 (\<lambda>p. p\<lparr>cp_virtualUnit := 2500000\<rparr>) example_token))"
proof -
  have "conservativePreciseDiv checked_oz 2500000 1000000000000000000 = Inr 2500000"
    by (simp add: checked_oz.conservativePreciseDiv_Inr fits_int_def)
  moreover have "conservativePreciseMul checked_oz 2500000 1000000000000000000 = Inr 2500000"
    by (simp add: checked_oz.conservativePreciseMul_Inr fits_int_def)
  ultimately show ?thesis
    by (simp add: editDefaultPositionUnit_def privileged_Inr convertRealToVirtualUnit_def convertVirtualToRealUnit_def
        example_token_def)
qed

theorem default_unit_round_trip_witness:
  "\<exists>r. getDefaultPositionRealUnit checked_oz (emitted (DefaultPositionUnitEdited 7 2500000)
       (with_position 7 (\<lambda>p. p\<lparr>cp_virtualUnit := 2500000\<rparr>) example_token)) 7 = Inr r \<and> sint r \<le> 2500000 \<and> r \<noteq> 0"
  using conjunct1 [OF default_unit_round_trip [OF checked_oz.openzeppelin_axioms example_token_reachable example_token_edit]]
  by auto

lemma sgn_div_unit:
  assumes "0 < k" and "x \<noteq> 0 \<longrightarrow> 10 ^ 18 \<le> \<bar>x\<bar> * k"
  shows "sgn (x * k div 10 ^ 18) = sgn (x :: int)"
proof (cases x "0 :: int" rule: linorder_cases)
  case less
  then have "x * k < 0" using assms(1) by (simp add: mult_neg_pos)
  then have "x * k div 10 ^ 18 < 0" by (simp add: neg_imp_zdiv_neg_iff)
  then show ?thesis using less by simp
next
  case greater
  then have "10 ^ 18 \<le> x * k" using assms(2) by simp
  then have "0 < x * k div 10 ^ 18" by (simp add: pos_imp_zdiv_pos_iff)
  then show ?thesis using greater by simp
qed simp

text \<open>C30: An accepted position multiplier leaves every position in existence: after \<open>editPositionMultiplier\<close> the
  multiplier is positive, a component with a virtual default unit still reads a positive default unit, and
  an external position with a virtual unit still reads a unit of the same sign (when the reading fits a word).\<close>

theorem multiplier_keeps_positions:
  assumes "openzeppelin Z" and "editPositionMultiplier Z enabled sender k s = Inr s'" and "c \<in> set (st_components s)"
  shows "0 < sint (st_positionMultiplier s') \<and>
    (\<forall>r. getDefaultPositionRealUnit Z s' c = Inr r \<longrightarrow> 0 \<le> sint r \<and> (r = 0 \<longleftrightarrow> defaultPositionVirtualUnit s c = 0)) \<and>
    (\<forall>m r. m \<in> set (externalPositionModules s c) \<and> getExternalPositionRealUnit Z s' c m = Inr r \<longrightarrow>
      sgn (sint r) = sgn (sint (externalPositionVirtualUnit s c m)))"
proof -
  from assms(2) have v: "validateNewMultiplier Z k s = Inr ()" and s': "st_positionMultiplier s' = k"
    "st_componentPositions s' = st_componentPositions s" by (auto simp: editPositionMultiplier_def)
  note alive = openzeppelin.validateNewMultiplier_Inr [OF assms(1) v]
  have "0 < sint (st_positionMultiplier s')" using alive(1) by (simp add: s')
  moreover have "0 \<le> sint r \<and> (r = 0 \<longleftrightarrow> defaultPositionVirtualUnit s c = 0)" if "getDefaultPositionRealUnit Z s' c = Inr r" for r
  proof -
    have "sint r = sint (defaultPositionVirtualUnit s c) * sint k div 10 ^ 18"
      using that by (simp add: getDefaultPositionRealUnit_def convertVirtualToRealUnit_def
          openzeppelin.conservativePreciseMul_Inr [OF assms(1)] s' position_defs)
    with alive(2) [OF assms(3)] alive(1) have "sgn (sint r) = sgn (sint (defaultPositionVirtualUnit s c))"
      by (simp only:) (intro sgn_div_unit, auto)
    with alive(2) [OF assms(3)] show ?thesis by (auto simp: sgn_if split: if_splits)
  qed
  moreover have "sgn (sint r) = sgn (sint (externalPositionVirtualUnit s c m))"
    if "m \<in> set (externalPositionModules s c)" "getExternalPositionRealUnit Z s' c m = Inr r" for m r
  proof -
    have "sint r = sint (externalPositionVirtualUnit s c m) * sint k div 10 ^ 18"
      using that(2) by (simp add: getExternalPositionRealUnit_def convertVirtualToRealUnit_def
          openzeppelin.conservativePreciseMul_Inr [OF assms(1)] s' position_defs)
    with alive(2) [OF assms(3)] that(1) alive(1) show ?thesis
      by (simp only:) (intro sgn_div_unit, auto)
  qed
  ultimately show ?thesis by blast
qed

lemma example_token_halved:
  "editPositionMultiplier checked_oz (\<lambda>_. True) 5 500000000000000000 example_token =
     Inr (emitted (PositionMultiplierEdited 500000000000000000)
       (example_token\<lparr>st_positionMultiplier := 500000000000000000\<rparr>))"
  "getDefaultPositionRealUnit checked_oz (emitted (PositionMultiplierEdited 500000000000000000)
       (example_token\<lparr>st_positionMultiplier := 500000000000000000\<rparr>)) 7 = Inr 1000000"
  "getExternalPositionRealUnit checked_oz (emitted (PositionMultiplierEdited 500000000000000000)
       (example_token\<lparr>st_positionMultiplier := 500000000000000000\<rparr>)) 7 5 = Inr (- 150000)"
proof -
  have "getPositionsAbsMinimumVirtualUnit checked_oz example_token = Inr 300000"
    by (simp add: getPositionsAbsMinimumVirtualUnit_def example_token_def position_defs smaller_unit_def absoluteValue_def
        checked_oz_eval word_less_def unsigned_minus_1_eq_mask mask_eq_exp_minus_1 del: and_then_eq_Inr)
  moreover have "conservativePreciseMul checked_oz 300000 500000000000000000 = Inr 150000"
    by (simp add: checked_oz.conservativePreciseMul_Inr fits_int_def)
  ultimately show "editPositionMultiplier checked_oz (\<lambda>_. True) 5 500000000000000000 example_token =
     Inr (emitted (PositionMultiplierEdited 500000000000000000)
       (example_token\<lparr>st_positionMultiplier := 500000000000000000\<rparr>))"
    by (simp add: editPositionMultiplier_def privileged_Inr validateNewMultiplier_def example_token_def)
qed (simp_all add: getDefaultPositionRealUnit_def getExternalPositionRealUnit_def convertVirtualToRealUnit_def
    checked_oz.conservativePreciseMul_Inr fits_int_def position_defs example_token_def)

theorem multiplier_keeps_positions_witness:
  "\<exists>s' d e. editPositionMultiplier checked_oz (\<lambda>_. True) 5 500000000000000000 example_token = Inr s' \<and>
     getDefaultPositionRealUnit checked_oz s' 7 = Inr d \<and> d \<noteq> 0 \<and>
     getExternalPositionRealUnit checked_oz s' 7 5 = Inr e \<and> sgn (sint e) = - 1"
  using multiplier_keeps_positions [OF checked_oz.openzeppelin_axioms example_token_halved(1), of 7] example_token_halved
  by (simp add: example_token_def position_defs)

subsection \<open>The positions as a list\<close>

text \<open>What \<^verbatim>\<open>getPositions\<close> is to return: for each component its default position, if the virtual unit is positive,
  then its external positions, in the order of the arrays; the first unit that overflows is the revert.\<close>

fun all_of :: "(revert + 'p) list \<Rightarrow> revert + 'p list" where
  "all_of [] = Inr []"
| "all_of (r # rs) = and_then r (\<lambda>p. and_then (all_of rs) (\<lambda>ps. Inr (p # ps)))"

definition external_entry :: "oz_api \<Rightarrow> 'e set_token \<Rightarrow> address \<Rightarrow> address \<Rightarrow> revert + sol_position" where
  "external_entry Z s c m = and_then (getExternalPositionRealUnit Z s c m) (\<lambda>u.
     Inr \<lparr>ps_component = c, ps_module = m, ps_unit = u, ps_positionState = EXTERNAL, ps_data = externalPositionData s c m\<rparr>)"

definition default_entry :: "oz_api \<Rightarrow> 'e set_token \<Rightarrow> address \<Rightarrow> revert + sol_position" where
  "default_entry Z s c = and_then (getDefaultPositionRealUnit Z s c) (\<lambda>u.
     Inr \<lparr>ps_component = c, ps_module = 0, ps_unit = u, ps_positionState = DEFAULT, ps_data = []\<rparr>)"

definition component_entries :: "oz_api \<Rightarrow> 'e set_token \<Rightarrow> address \<Rightarrow> (revert + sol_position) list" where
  "component_entries Z s c = (if 0 < sint (defaultPositionVirtualUnit s c) then [default_entry Z s c] else []) @
     map (external_entry Z s c) (externalPositionModules s c)"

definition positions_spec :: "oz_api \<Rightarrow> 'e set_token \<Rightarrow> revert + sol_position list" where
  "positions_spec Z s = all_of (concat (map (component_entries Z s) (st_components s)))"

lemma all_of_append: "all_of (xs @ ys) = and_then (all_of xs) (\<lambda>ps. and_then (all_of ys) (\<lambda>qs. Inr (ps @ qs)))"
  by (induction xs) (auto simp: and_then_def split: sum.splits)

lemma all_of_length: "all_of rs = Inr ps \<Longrightarrow> length ps = length rs"
  by (induction rs arbitrary: ps) auto

text \<open>Filling an array from an index on.\<close>

definition filled :: "'p list \<Rightarrow> 'p list \<times> uint256 \<Rightarrow> 'p list \<times> uint256" where
  "filled ps st = (take (unat (snd st)) (fst st) @ ps @ drop (unat (snd st) + length ps) (fst st), snd st + of_nat (length ps))"

lemma filled_Nil [simp]: "filled [] (ps, n) = (ps, n)"
  by (simp add: filled_def)

lemma unat_add_nat: "unat n + k < 2 ^ 256 \<Longrightarrow> unat (n + of_nat k) = unat n + k" for n :: uint256
  by (simp add: unat_word_ariths(1) unat_of_nat mod_add_right_eq)

lemma filled_filled:
  assumes "unat n + length qs + length rs \<le> length ps" "length ps < 2 ^ 256"
  shows "filled rs (filled qs (ps, n)) = filled (qs @ rs) (ps, n)"
proof -
  have "unat (n + of_nat (length qs)) = unat n + length qs" "min (length ps) (unat n) = unat n"
    using assms by (simp_all add: unat_add_nat)
  then show ?thesis by (simp add: filled_def add.assoc) (simp add: ac_simps)
qed

lemma write_filled:
  assumes "unat n < length ps" "length ps < 2 ^ 256"
  shows "and_then (write_at n p ps) (\<lambda>ps. Inr (ps, n + 1)) = Inr (filled [p] (ps, n))"
  using assms by (simp add: write_at_def filled_def upd_conv_take_nth_drop)

lemma filled_fields: "unat n + length qs \<le> length ps \<Longrightarrow> length ps < 2 ^ 256 \<Longrightarrow>
    length (fst (filled qs (ps, n))) = length ps \<and> unat (snd (filled qs (ps, n))) = unat n + length qs"
  by (simp add: filled_def unat_add_nat)

lemma external_positions_eq:
  "unat n + length ms \<le> length ps \<Longrightarrow> length ps < 2 ^ 256 \<Longrightarrow>
     external_positions Z s c ms (ps, n) = and_then (all_of (map (external_entry Z s c) ms)) (\<lambda>qs. Inr (filled qs (ps, n)))"
proof (induction ms arbitrary: ps n)
  case (Cons m ms)
  show ?case
  proof (cases "external_entry Z s c m")
    case (Inl e)
    then show ?thesis by (cases "getExternalPositionRealUnit Z s c m") (simp_all add: external_entry_def)
  next
    case (Inr p)
    let ?st = "filled [p] (ps, n)"
    have n: "unat n < length ps" using Cons.prems(1) by simp
    have IH: "external_positions Z s c ms ?st = and_then (all_of (map (external_entry Z s c) ms)) (\<lambda>qs. Inr (filled qs ?st))"
      using Cons.IH [of "snd ?st" "fst ?st", unfolded prod.collapse] Cons.prems filled_fields [of n "[p]" ps] by simp
    have "external_positions Z s c (m # ms) (ps, n) =
        and_then (and_then (write_at n p ps) (\<lambda>ps. Inr (ps, n + 1))) (\<lambda>st. external_positions Z s c ms st)"
      using Inr n by (cases "getExternalPositionRealUnit Z s c m") (auto simp: external_entry_def write_at_def)
    also have "\<dots> = and_then (all_of (map (external_entry Z s c) ms)) (\<lambda>qs. Inr (filled qs ?st))"
      by (simp only: write_filled [OF n Cons.prems(2)] and_then_simps IH)
    also have "\<dots> = and_then (all_of (map (external_entry Z s c) ms)) (\<lambda>qs. Inr (filled (p # qs) (ps, n)))"
      using filled_filled [of n "[p]" _ ps] Cons.prems
      by (cases "all_of (map (external_entry Z s c) ms)") (simp_all add: all_of_length)
    finally show ?thesis using Inr by (cases "all_of (map (external_entry Z s c) ms)") simp_all
  qed
qed simp

lemma default_position_eq:
  assumes "unat n < length ps" "length ps < 2 ^ 256"
  shows "and_then (getDefaultPositionRealUnit Z s c) (\<lambda>u.
         and_then (write_at n \<lparr>ps_component = c, ps_module = 0, ps_unit = u, ps_positionState = DEFAULT,
            ps_data = []\<rparr> ps) (\<lambda>ps. Inr (ps, n + 1))) =
     and_then (default_entry Z s c) (\<lambda>p. Inr (filled [p] (ps, n)))"
  using write_filled [OF assms] by (cases "getDefaultPositionRealUnit Z s c") (simp_all add: default_entry_def)

lemma all_positions_eq:
  "unat n + length (concat (map (component_entries Z s) cs)) \<le> length ps \<Longrightarrow> length ps < 2 ^ 256 \<Longrightarrow>
     all_positions Z s cs (ps, n) =
       and_then (all_of (concat (map (component_entries Z s) cs))) (\<lambda>qs. Inr (filled qs (ps, n)))"
proof (induction cs arbitrary: ps n)
  case (Cons c cs)
  let ?d = "0 < sint (defaultPositionVirtualUnit s c)"
  let ?first = "if ?d then and_then (default_entry Z s c) (\<lambda>p. Inr (filled [p] (ps, n))) else Inr (ps, n)"
  let ?rest = "concat (map (component_entries Z s) cs)"
  have prems: "unat n + length (component_entries Z s c) + length ?rest \<le> length ps" using Cons.prems(1) by simp
  have step: "all_positions Z s (c # cs) (ps, n) =
      and_then ?first (\<lambda>st. and_then (external_positions Z s c (externalPositionModules s c) st) (\<lambda>st. all_positions Z s cs st))"
    using default_position_eq [of n ps Z s c] prems Cons.prems(2)
    by (auto simp: component_entries_def split_def cong del: and_then_weak_cong)
  have comp: "and_then ?first (\<lambda>st. external_positions Z s c (externalPositionModules s c) st) =
      and_then (all_of (component_entries Z s c)) (\<lambda>qs. Inr (filled qs (ps, n)))"
  proof (cases ?d)
    case True
    show ?thesis
    proof (cases "default_entry Z s c")
      case (Inr p)
      have "external_positions Z s c (externalPositionModules s c) (filled [p] (ps, n)) =
          and_then (all_of (map (external_entry Z s c) (externalPositionModules s c))) (\<lambda>qs. Inr (filled (p # qs) (ps, n)))"
        using external_positions_eq [of "snd (filled [p] (ps, n))" "externalPositionModules s c" "fst (filled [p] (ps, n))" Z s c, unfolded prod.collapse]
          filled_fields [of n "[p]" ps] filled_filled [of n "[p]" _ ps] prems True Cons.prems(2)
        by (cases "all_of (map (external_entry Z s c) (externalPositionModules s c))") (auto simp: component_entries_def all_of_length)
      with True Inr show ?thesis
        by (cases "all_of (map (external_entry Z s c) (externalPositionModules s c))") (simp_all add: component_entries_def)
    qed (use True in \<open>simp add: component_entries_def\<close>)
  qed (use external_positions_eq [of n "externalPositionModules s c" ps Z s c] prems Cons.prems(2) in \<open>simp add: component_entries_def\<close>)
  have "all_positions Z s (c # cs) (ps, n) =
      and_then (all_of (component_entries Z s c)) (\<lambda>qs. all_positions Z s cs (filled qs (ps, n)))"
  proof -
    have "all_positions Z s (c # cs) (ps, n) = and_then (and_then ?first (\<lambda>st. external_positions Z s c (externalPositionModules s c) st))
        (\<lambda>st. all_positions Z s cs st)"
      unfolding step by (simp add: and_then_def split: sum.splits)
    also have "\<dots> = and_then (and_then (all_of (component_entries Z s c)) (\<lambda>qs. Inr (filled qs (ps, n)))) (\<lambda>st. all_positions Z s cs st)"
      by (simp only: comp)
    finally show ?thesis by (cases "all_of (component_entries Z s c)") simp_all
  qed
  also have "\<dots> = and_then (all_of (component_entries Z s c)) (\<lambda>qs. and_then (all_of ?rest) (\<lambda>rs. Inr (filled (qs @ rs) (ps, n))))"
  proof (cases "all_of (component_entries Z s c)")
    case (Inr qs)
    then have qs: "length qs = length (component_entries Z s c)" by (rule all_of_length)
    have "all_positions Z s cs (filled qs (ps, n)) = and_then (all_of ?rest) (\<lambda>rs. Inr (filled rs (filled qs (ps, n))))"
      using Cons.IH [of "snd (filled qs (ps, n))" "fst (filled qs (ps, n))", unfolded prod.collapse] filled_fields [of n qs ps] prems Cons.prems(2) qs by simp
    then show ?thesis using Inr filled_filled [of n qs _ ps] prems Cons.prems(2) qs
      by (cases "all_of ?rest") (simp_all add: all_of_length)
  qed simp
  finally show ?case
    by (cases "all_of (component_entries Z s c)"; cases "all_of ?rest") (simp_all add: all_of_append)
qed simp

lemma component_entries_length: "length (component_entries Z s c) =
    (if 0 < sint (defaultPositionVirtualUnit s c) then 1 else 0) + length (externalPositionModules s c)"
  by (simp add: component_entries_def)

lemma count_positions_eq:
  assumes "openzeppelin Z"
  shows "unat n + length (concat (map (component_entries Z s) cs)) < 2 ^ 256 \<Longrightarrow>
     count_positions Z s cs n = Inr (n + of_nat (length (concat (map (component_entries Z s) cs))))"
proof (induction cs arbitrary: n)
  case (Cons c cs)
  let ?d = "if 0 < sint (defaultPositionVirtualUnit s c) then 1 else 0 :: nat"
  let ?n = "n + of_nat ?d" and ?m = "length (externalPositionModules s c)"
  let ?rest = "length (concat (map (component_entries Z s) cs))"
  have prems: "unat n + ?d + ?m + ?rest < 2 ^ 256" using Cons.prems by (simp add: component_entries_length)
  then have n: "unat ?n = unat n + ?d" by (intro unat_add_nat) simp
  have m: "unat (of_nat ?m :: uint256) = ?m" using prems unat_add_nat [of 0 ?m] by simp
  have "unat (?n + of_nat ?m) = unat ?n + ?m" using prems n by (intro unat_add_nat) simp
  then have "uint (?n + of_nat ?m) = uint ?n + uint (of_nat ?m :: uint256)"
    using m by (simp only: uint_nat of_nat_add)
  then have add: "um_add Z ?n (of_nat ?m) = Inr (?n + of_nat ?m)" by (simp only: openzeppelin.um_add_Inr [OF assms])
  have "count_positions Z s (c # cs) n = count_positions Z s cs (?n + of_nat ?m)"
    using add by (auto simp: Let_def)
  also have "\<dots> = Inr (?n + of_nat ?m + of_nat ?rest)"
    using prems n by (intro Cons.IH) (subst unat_add_nat; simp)
  finally show ?case by (simp add: component_entries_length add.assoc del: count_positions.simps)
qed simp

text \<open>\<open>getPositions\<close> returns the list of the positions: every component's default position with a positive
  virtual unit and all its external positions, in the order of the arrays with real units, and it reverts exactly
  with the first real unit that overflows. The array it counts first is always filled exactly: no write is
  out of bounds (the number of positions is below \<open>2 ^ 256\<close>, as for any array of the language).\<close>

lemma getPositions_is_list:
  assumes "openzeppelin Z" and "length (concat (map (component_entries Z s) (st_components s))) < 2 ^ 256"
  shows "getPositions Z s = positions_spec Z s"
proof -
  let ?es = "concat (map (component_entries Z s) (st_components s))"
  have "getPositionCount Z s = Inr (of_nat (length ?es))"
    using count_positions_eq [OF assms(1), of 0 s "st_components s"] assms(2) by (simp add: getPositionCount_def)
  moreover have "unat (of_nat (length ?es) :: uint256) = length ?es" using assms(2) unat_add_nat [of 0 "length ?es"] by simp
  ultimately have "getPositions Z s = and_then (all_of ?es) (\<lambda>qs. Inr (fst (filled qs
      (replicate (length ?es) \<lparr>ps_component = 0, ps_module = 0, ps_unit = 0, ps_positionState = 0, ps_data = []\<rparr>, 0))))"
    using all_positions_eq [of 0 Z s "st_components s" "replicate (length ?es) \<lparr>ps_component = 0, ps_module = 0, ps_unit = 0,
      ps_positionState = 0, ps_data = []\<rparr>"] assms(2)
    by (cases "all_of ?es") (simp_all add: getPositions_def split_def)
  also have "\<dots> = all_of ?es" by (cases "all_of ?es") (simp_all add: filled_def all_of_length)
  finally show ?thesis by (simp add: positions_spec_def)
qed

end
