(* ===== verification/PositionLib.thy ===== *)
theory PositionLib
  imports SetToken
begin

text \<open>
  \<^verbatim>\<open>contracts/protocol/lib/Position.sol\<close>: the library with which the modules edit the positions of a SetToken. Its
  functions are internal: they run in the module, which is the \<open>sender\<close> of the calls to the token. The state is
  the token's; the balance of a component and the supply of the token are read from ERC-20 contracts and are
  arguments.
\<close>

subsection \<open>Helpers\<close>

definition hasDefaultPosition :: "oz_api \<Rightarrow> 'e set_token \<Rightarrow> address \<Rightarrow> revert + bool" where
  "hasDefaultPosition Z s c = and_then (getDefaultPositionRealUnit Z s c) (\<lambda>u. Inr (0 < sint u))"

definition hasExternalPosition :: "'e set_token \<Rightarrow> address \<Rightarrow> bool" where
  "hasExternalPosition s c = (0 < length (externalPositionModules s c))"

definition hasSufficientDefaultUnits :: "oz_api \<Rightarrow> 'e set_token \<Rightarrow> address \<Rightarrow> uint256 \<Rightarrow> revert + bool" where
  "hasSufficientDefaultUnits Z s c unit =
     and_then (getDefaultPositionRealUnit Z s c) (\<lambda>u. and_then (toInt256 Z unit) (\<lambda>n. Inr (sint n \<le> sint u)))"

definition hasSufficientExternalUnits ::
  "oz_api \<Rightarrow> 'e set_token \<Rightarrow> address \<Rightarrow> address \<Rightarrow> uint256 \<Rightarrow> revert + bool"
where
  "hasSufficientExternalUnits Z s c positionModule unit =
     and_then (getExternalPositionRealUnit Z s c positionModule) (\<lambda>u.
     and_then (toInt256 Z unit) (\<lambda>n. Inr (sint n \<le> sint u)))"

text \<open>A component enters the array with its first position and leaves it with its last.\<close>

definition editDefaultPosition ::
  "oz_api \<Rightarrow> (address \<Rightarrow> bool) \<Rightarrow> address \<Rightarrow> address \<Rightarrow> uint256 \<Rightarrow> 'e set_token \<Rightarrow> revert + 'e set_token"
where
  "editDefaultPosition Z enabled sender c newUnit s =
     and_then (hasDefaultPosition Z s c) (\<lambda>isPositionFound.
     and_then (
       if \<not> isPositionFound \<and> 0 < newUnit
       then if \<not> hasExternalPosition s c then addComponent enabled sender c s else Inr s
       else if isPositionFound \<and> newUnit = 0
       then if \<not> hasExternalPosition s c then removeComponent enabled sender c s else Inr s
       else Inr s) (\<lambda>s.
     and_then (toInt256 Z newUnit) (\<lambda>u. editDefaultPositionUnit Z enabled sender c u s)))"

definition editExternalPosition ::
  "oz_api \<Rightarrow> (address \<Rightarrow> bool) \<Rightarrow> address \<Rightarrow> address \<Rightarrow> address \<Rightarrow> int256 \<Rightarrow> bytes \<Rightarrow> 'e set_token \<Rightarrow> revert + 'e set_token"
where
  "editExternalPosition Z enabled sender c m newUnit data s =
     (if newUnit \<noteq> 0
      then and_then (
          if \<not> isComponent s c
          then and_then (addComponent enabled sender c s) (\<lambda>s. addExternalPositionModule enabled sender c m s)
          else if \<not> isExternalPositionModule s c m then addExternalPositionModule enabled sender c m s
          else Inr s) (\<lambda>s.
        and_then (editExternalPositionUnit Z enabled sender c m newUnit s) (\<lambda>s.
          editExternalPositionData enabled sender c m data s))
      else
        and_then (require (length data = 0) ''Passed data must be null'') (\<lambda>_.
        and_then (getExternalPositionRealUnit Z s c m) (\<lambda>externalUnit.
          if externalUnit \<noteq> 0
          then let positionModules = externalPositionModules s c in
            and_then (getDefaultPositionRealUnit Z s c) (\<lambda>defaultUnit.
            and_then (
              if defaultUnit = 0 \<and> length positionModules = 1
              then and_then (require (positionModules ! 0 = m) ''External positions must be 0 to remove component'') (\<lambda>_.
                removeComponent enabled sender c s)
              else Inr s) (\<lambda>s.
              removeExternalPositionModule enabled sender c m s))
          else Inr s)))"

subsection \<open>Notional amounts\<close>

definition getDefaultTotalNotional :: "oz_api \<Rightarrow> uint256 \<Rightarrow> uint256 \<Rightarrow> revert + uint256" where
  "getDefaultTotalNotional Z setTokenSupply positionUnit = preciseMul_u Z setTokenSupply positionUnit"

definition getDefaultPositionUnit :: "oz_api \<Rightarrow> uint256 \<Rightarrow> uint256 \<Rightarrow> revert + uint256" where
  "getDefaultPositionUnit Z setTokenSupply totalNotional = preciseDiv_u Z totalNotional setTokenSupply"

definition getDefaultTrackedBalance :: "oz_api \<Rightarrow> uint256 \<Rightarrow> 'e set_token \<Rightarrow> address \<Rightarrow> revert + uint256" where
  "getDefaultTrackedBalance Z totalSupply s c =
     and_then (getDefaultPositionRealUnit Z s c) (\<lambda>positionUnit.
     and_then (toUint256 Z positionUnit) (\<lambda>u. preciseMul_u Z totalSupply u))"

definition calculateDefaultEditPositionUnit ::
  "oz_api \<Rightarrow> uint256 \<Rightarrow> uint256 \<Rightarrow> uint256 \<Rightarrow> uint256 \<Rightarrow> revert + uint256"
where
  "calculateDefaultEditPositionUnit Z setTokenSupply preTotalNotional postTotalNotional prePositionUnit =
     and_then (preciseMul_u Z prePositionUnit setTokenSupply) (\<lambda>tracked.
     and_then (um_sub Z preTotalNotional tracked) (\<lambda>airdroppedAmount.
     and_then (um_sub Z postTotalNotional airdroppedAmount) (\<lambda>rest. preciseDiv_u Z rest setTokenSupply)))"

text \<open>\<open>currentBalance\<close> is what the component's \<^verbatim>\<open>balanceOf(address(_setToken))\<close> returns.\<close>

definition calculateAndEditDefaultPosition ::
  "oz_api \<Rightarrow> (address \<Rightarrow> bool) \<Rightarrow> address \<Rightarrow> uint256 \<Rightarrow> address \<Rightarrow> uint256 \<Rightarrow> uint256 \<Rightarrow> 'e set_token \<Rightarrow>
     revert + (uint256 \<times> uint256 \<times> uint256) \<times> 'e set_token"
where
  "calculateAndEditDefaultPosition Z enabled sender currentBalance c setTotalSupply componentPreviousBalance s =
     and_then (getDefaultPositionRealUnit Z s c) (\<lambda>u.
     and_then (toUint256 Z u) (\<lambda>positionUnit.
     and_then (if 0 < currentBalance
       then calculateDefaultEditPositionUnit Z setTotalSupply componentPreviousBalance currentBalance positionUnit
       else Inr 0) (\<lambda>newTokenUnit.
     and_then (editDefaultPosition Z enabled sender c newTokenUnit s) (\<lambda>s.
       Inr ((currentBalance, positionUnit, newTokenUnit), s)))))"

subsection \<open>The invariant of the positions\<close>

text \<open>A unit is alive when it does not vanish in the conversion to the real unit.\<close>

definition alive_unit :: "'e set_token \<Rightarrow> int256 \<Rightarrow> bool" where
  "alive_unit s v \<longleftrightarrow> v = 0 \<or> 10 ^ 18 \<le> \<bar>sint v\<bar> * sint (st_positionMultiplier s)"

definition positions_inv :: "'e set_token \<Rightarrow> bool" where
  "positions_inv s \<longleftrightarrow> set_token_inv s \<and>
     (\<forall>c. 0 \<le> sint (defaultPositionVirtualUnit s c) \<and> alive_unit s (defaultPositionVirtualUnit s c)) \<and>
     (\<forall>c m. alive_unit s (externalPositionVirtualUnit s c m)) \<and>
     (\<forall>c m. m \<in> set (externalPositionModules s c) \<longleftrightarrow> externalPositionVirtualUnit s c m \<noteq> 0) \<and>
     (\<forall>c. c \<in> set (st_components s) \<longleftrightarrow> defaultPositionVirtualUnit s c \<noteq> 0 \<or> externalPositionModules s c \<noteq> [])"

lemma positions_invD:
  assumes "positions_inv s"
  shows "set_token_inv s" "0 < sint (st_positionMultiplier s)" "distinct (st_components s)"
    "distinct (externalPositionModules s c)" "0 \<le> sint (defaultPositionVirtualUnit s c)"
    "alive_unit s (defaultPositionVirtualUnit s c)" "alive_unit s (externalPositionVirtualUnit s c m)"
    "m \<in> set (externalPositionModules s c) \<longleftrightarrow> externalPositionVirtualUnit s c m \<noteq> 0"
    "c \<in> set (st_components s) \<longleftrightarrow> defaultPositionVirtualUnit s c \<noteq> 0 \<or> externalPositionModules s c \<noteq> []"
  using assms by (simp_all add: positions_inv_def set_token_inv_def)

text \<open>A change at one component.\<close>

lemma positions_inv_at:
  assumes inv: "positions_inv s"
    and frame: "st_positionMultiplier s' = st_positionMultiplier s" "st_modules s' = st_modules s"
      "st_moduleStates s' = st_moduleStates s" "st_isLocked s' = st_isLocked s" "st_locker s' = st_locker s"
      "\<And>c'. c' \<noteq> c \<Longrightarrow> st_componentPositions s' c' = st_componentPositions s c'"
    and comps: "distinct (st_components s')" "set (st_components s') - {c} = set (st_components s) - {c}"
      "c \<in> set (st_components s') \<longleftrightarrow> defaultPositionVirtualUnit s' c \<noteq> 0 \<or> externalPositionModules s' c \<noteq> []"
    and at: "0 \<le> sint (defaultPositionVirtualUnit s' c)" "alive_unit s (defaultPositionVirtualUnit s' c)"
      "distinct (externalPositionModules s' c)" "\<And>m. alive_unit s (externalPositionVirtualUnit s' c m)"
      "\<And>m. m \<in> set (externalPositionModules s' c) \<longleftrightarrow> externalPositionVirtualUnit s' c m \<noteq> 0"
  shows "positions_inv s'"
proof -
  note invD = positions_invD [OF inv]
  have alive: "alive_unit s' = alive_unit s" by (simp add: alive_unit_def frame fun_eq_iff)
  have other: "c' \<noteq> c \<Longrightarrow> defaultPositionVirtualUnit s' c' = defaultPositionVirtualUnit s c'"
    "c' \<noteq> c \<Longrightarrow> externalPositionModules s' c' = externalPositionModules s c'"
    "c' \<noteq> c \<Longrightarrow> externalPositionVirtualUnit s' c' m = externalPositionVirtualUnit s c' m" for c' m
    by (simp_all add: position_defs frame)
  have mem: "c' \<noteq> c \<Longrightarrow> c' \<in> set (st_components s') \<longleftrightarrow> c' \<in> set (st_components s)" for c' using comps(2) by blast
  have "distinct (externalPositionModules s' c')" for c' using at(3) invD(4) other(2) by (cases "c' = c") simp_all
  then have "set_token_inv s'" using invD(1) comps(1) frame by (simp add: set_token_inv_def)
  moreover have "0 \<le> sint (defaultPositionVirtualUnit s' c') \<and> alive_unit s' (defaultPositionVirtualUnit s' c')" for c'
    using at invD other by (cases "c' = c") (simp_all add: alive)
  moreover have "alive_unit s' (externalPositionVirtualUnit s' c' m)" for c' m
    using at invD other by (cases "c' = c") (simp_all add: alive)
  moreover have "m \<in> set (externalPositionModules s' c') \<longleftrightarrow> externalPositionVirtualUnit s' c' m \<noteq> 0" for c' m
    using at invD other by (cases "c' = c") simp_all
  moreover have "c' \<in> set (st_components s') \<longleftrightarrow> defaultPositionVirtualUnit s' c' \<noteq> 0 \<or> externalPositionModules s' c' \<noteq> []" for c'
    using comps(3) mem invD other by (cases "c' = c") simp_all
  ultimately show ?thesis by (simp add: positions_inv_def)
qed

context openzeppelin
begin

lemma default_real_unit:
  "getDefaultPositionRealUnit Z s c = Inr r \<Longrightarrow>
     sint r = sint (defaultPositionVirtualUnit s c) * sint (st_positionMultiplier s) div 10 ^ 18"
  by (simp add: getDefaultPositionRealUnit_def convertVirtualToRealUnit_def conservativePreciseMul_Inr)

lemma external_real_unit:
  "getExternalPositionRealUnit Z s c m = Inr r \<Longrightarrow>
     sint r = sint (externalPositionVirtualUnit s c m) * sint (st_positionMultiplier s) div 10 ^ 18"
  by (simp add: getExternalPositionRealUnit_def convertVirtualToRealUnit_def conservativePreciseMul_Inr)

lemma alive_sgn:
  assumes "positions_inv s"
  shows "getDefaultPositionRealUnit Z s c = Inr r \<Longrightarrow> sgn (sint r) = sgn (sint (defaultPositionVirtualUnit s c))"
    and "getExternalPositionRealUnit Z s c m = Inr r \<Longrightarrow> sgn (sint r) = sgn (sint (externalPositionVirtualUnit s c m))"
proof -
  note M = positions_invD(2) [OF assms] and alive = positions_invD(6,7) [OF assms]
  show "sgn (sint r) = sgn (sint (defaultPositionVirtualUnit s c))" if "getDefaultPositionRealUnit Z s c = Inr r"
    using alive(1) [of c] unfolding default_real_unit [OF that] by (intro sgn_div_unit M) (auto simp: alive_unit_def)
  show "sgn (sint r) = sgn (sint (externalPositionVirtualUnit s c m))" if "getExternalPositionRealUnit Z s c m = Inr r"
    using alive(2) [of c m] unfolding external_real_unit [OF that] by (intro sgn_div_unit M) (auto simp: alive_unit_def)
qed

lemma converted_alive:
  assumes "convertRealToVirtualUnit Z s u = Inr v" and M: "0 < sint (st_positionMultiplier s)"
  shows "alive_unit s v" and "sgn (sint v) = sgn (sint u)"
proof -
  let ?M = "sint (st_positionMultiplier s)"
  from assms(1) have v: "sint v = sint u * 10 ^ 18 div ?M"
    and pos: "0 < sint u \<Longrightarrow> v \<noteq> 0 \<and> (\<exists>r. convertVirtualToRealUnit Z s v = Inr r \<and> r \<noteq> 0)"
    by (auto simp: convertRealToVirtualUnit_def conservativePreciseDiv_Inr split: if_splits)
  have "alive_unit s v \<and> sgn (sint v) = sgn (sint u)"
  proof (cases "sint u" "0 :: int" rule: linorder_cases)
    case less
    then have neg: "sint v < 0" using M unfolding v by (simp add: pos_imp_zdiv_neg_iff)
    have "sint v * ?M \<le> sint u * 10 ^ 18" using M pos_mod_sign [of ?M "sint u * 10 ^ 18"]
      unfolding v by (simp add: minus_mod_eq_div_mult [symmetric])
    then have "10 ^ 18 \<le> \<bar>sint v\<bar> * ?M" using less neg by simp
    with less neg show ?thesis by (simp add: alive_unit_def)
  next
    case equal
    then show ?thesis using v by (simp add: alive_unit_def)
  next
    case greater
    then obtain r where r: "convertVirtualToRealUnit Z s v = Inr r" "r \<noteq> 0" and "v \<noteq> 0" using pos by blast
    have nonneg: "0 \<le> sint v" using M greater unfolding v by (simp add: pos_imp_zdiv_nonneg_iff)
    with \<open>v \<noteq> 0\<close> have v0: "0 < sint v" by (simp add: less_le)
    have "sint r = sint v * ?M div 10 ^ 18" using r(1) by (simp add: convertVirtualToRealUnit_def conservativePreciseMul_Inr)
    moreover have "sint r \<noteq> 0" using r(2) by simp
    moreover have "0 \<le> sint v * ?M" using v0 M by simp
    ultimately have "10 ^ 18 \<le> sint v * ?M" by (metis div_pos_pos_trivial linorder_not_le)
    with v0 greater show ?thesis by (simp add: alive_unit_def)
  qed
  then show "alive_unit s v" "sgn (sint v) = sgn (sint u)" by simp_all
qed

end

subsection \<open>The edits keep the invariant\<close>

lemma addComponent_Inr: "addComponent enabled sender c s = Inr s' \<longleftrightarrow>
    privileged enabled sender s = Inr () \<and> c \<notin> set (st_components s) \<and>
    s' = emitted (ComponentAdded c) (s\<lparr>st_components := st_components s @ [c]\<rparr>)"
  by (auto simp: addComponent_def isComponent_def)

lemma removeComponent_Inr: "removeComponent enabled sender c s = Inr s' \<longleftrightarrow>
    privileged enabled sender s = Inr () \<and> (\<exists>cs. removeStorage (st_components s) c = Inr cs \<and>
    s' = emitted (ComponentRemoved c) (s\<lparr>st_components := cs\<rparr>))"
  by (auto simp: removeComponent_def)

lemma addExternalPositionModule_Inr: "addExternalPositionModule enabled sender c m s = Inr s' \<longleftrightarrow>
    privileged enabled sender s = Inr () \<and> m \<notin> set (externalPositionModules s c) \<and>
    s' = emitted (PositionModuleAdded c m)
         (with_position c (\<lambda>p. p\<lparr>cp_externalPositionModules := cp_externalPositionModules p @ [m]\<rparr>) s)"
  by (auto simp: addExternalPositionModule_def isExternalPositionModule_def)

text \<open>What an edit of a component's position may do to the token.\<close>

definition only_at :: "address \<Rightarrow> 'e set_token \<Rightarrow> 'e set_token \<Rightarrow> bool" where
  "only_at c s s' \<longleftrightarrow> st_positionMultiplier s' = st_positionMultiplier s \<and> st_modules s' = st_modules s \<and>
     st_moduleStates s' = st_moduleStates s \<and> st_isLocked s' = st_isLocked s \<and> st_locker s' = st_locker s \<and>
     st_token s' = st_token s \<and> st_manager s' = st_manager s \<and>
     (\<forall>c'. c' \<noteq> c \<longrightarrow> st_componentPositions s' c' = st_componentPositions s c') \<and>
     set (st_components s') - {c} = set (st_components s) - {c} \<and>
     (distinct (st_components s) \<longrightarrow> distinct (st_components s'))"

lemma only_at_refl: "only_at c s s"
  by (simp add: only_at_def)

lemma only_at_trans: "only_at c s s1 \<Longrightarrow> only_at c s1 s2 \<Longrightarrow> only_at c s s2"
  by (simp add: only_at_def)

lemma only_at_calls:
  "addComponent enabled sender c s = Inr s' \<Longrightarrow> only_at c s s'"
  "distinct (st_components s) \<Longrightarrow> removeComponent enabled sender c s = Inr s' \<Longrightarrow> only_at c s s'"
  "editDefaultPositionUnit Z enabled sender c u s = Inr s' \<Longrightarrow> only_at c s s'"
  "addExternalPositionModule enabled sender c m s = Inr s' \<Longrightarrow> only_at c s s'"
  "removeExternalPositionModule enabled sender c m s = Inr s' \<Longrightarrow> only_at c s s'"
  "editExternalPositionUnit Z enabled sender c m u s = Inr s' \<Longrightarrow> only_at c s s'"
  "editExternalPositionData enabled sender c m d s = Inr s' \<Longrightarrow> only_at c s s'"
  using removeStorage_distinct [of "st_components s" c]
  by (auto simp: only_at_def set_ops isComponent_def with_external_def)

text \<open>What a default edit leaves at its component.\<close>

lemma editDefaultPosition_at:
  assumes Z: "openzeppelin Z" and inv: "positions_inv s"
    and run: "editDefaultPosition Z enabled sender c newUnit s = Inr s'"
  shows "only_at c s s'" and "externalPositionModules s' c = externalPositionModules s c"
    and "externalPositionVirtualUnit s' c = externalPositionVirtualUnit s c"
    and "alive_unit s (defaultPositionVirtualUnit s' c)"
    and "sgn (sint (defaultPositionVirtualUnit s' c)) = sgn (uint newUnit)"
    and "c \<in> set (st_components s') \<longleftrightarrow> newUnit \<noteq> 0 \<or> externalPositionModules s c \<noteq> []"
proof -
  note invD = positions_invD [OF inv]
  from run obtain r s1 u where r: "getDefaultPositionRealUnit Z s c = Inr r"
    and s1: "(if \<not> 0 < sint r \<and> 0 < newUnit
       then if \<not> hasExternalPosition s c then addComponent enabled sender c s else Inr s
       else if 0 < sint r \<and> newUnit = 0
       then if \<not> hasExternalPosition s c then removeComponent enabled sender c s else Inr s
       else Inr s) = Inr s1"
    and u: "toInt256 Z newUnit = Inr u" and s': "editDefaultPositionUnit Z enabled sender c u s1 = Inr s'"
    by (auto simp: editDefaultPosition_def hasDefaultPosition_def)
  have found: "0 < sint r \<longleftrightarrow> defaultPositionVirtualUnit s c \<noteq> 0"
    using openzeppelin.alive_sgn(1) [OF Z inv r] invD(5) [of c] by (auto simp: sgn_if less_le split: if_splits)
  have su: "sint u = uint newUnit" using u openzeppelin.toInt256_Inr [OF Z] by simp
  have s1_fields: "st_componentPositions s1 = st_componentPositions s" "st_positionMultiplier s1 = st_positionMultiplier s"
    using s1 by (auto simp: addComponent_Inr removeComponent_Inr split: if_splits)
  obtain v where v: "convertRealToVirtualUnit Z s1 u = Inr v"
    "s' = emitted (DefaultPositionUnitEdited c u) (with_position c (\<lambda>p. p\<lparr>cp_virtualUnit := v\<rparr>) s1)"
    using s' by (auto simp: editDefaultPositionUnit_def)
  note conv = openzeppelin.converted_alive [OF Z v(1)]
  have "only_at c s s1" using s1 only_at_calls(1,2) invD(3) only_at_refl by (auto split: if_splits)
  then show "only_at c s s'" using only_at_calls(3) [OF s'] by (rule only_at_trans)
  show "externalPositionModules s' c = externalPositionModules s c"
    "externalPositionVirtualUnit s' c = externalPositionVirtualUnit s c"
    by (simp_all add: v position_defs s1_fields fun_eq_iff)
  show "alive_unit s (defaultPositionVirtualUnit s' c)" "sgn (sint (defaultPositionVirtualUnit s' c)) = sgn (uint newUnit)"
    using conv invD(2) su by (simp_all add: v position_defs s1_fields alive_unit_def)
  have "c \<in> set (st_components s1) \<longleftrightarrow> newUnit \<noteq> 0 \<or> externalPositionModules s c \<noteq> []"
    using s1 found invD(9) [of c] invD(3) removeStorage_distinct [of "st_components s" c]
    by (auto simp: hasExternalPosition_def addComponent_Inr removeComponent_Inr word_gt_0 split: if_splits)
  then show "c \<in> set (st_components s') \<longleftrightarrow> newUnit \<noteq> 0 \<or> externalPositionModules s c \<noteq> []" by (simp add: v)
qed

lemma editDefaultPosition_inv:
  assumes "openzeppelin Z" and inv: "positions_inv s" and "editDefaultPosition Z enabled sender c newUnit s = Inr s'"
  shows "positions_inv s'"
proof -
  note at = editDefaultPosition_at [OF assms]
  have zero: "defaultPositionVirtualUnit s' c \<noteq> 0 \<longleftrightarrow> newUnit \<noteq> 0" "0 \<le> sint (defaultPositionVirtualUnit s' c)"
    using at(5) uint_pos [of newUnit] by (auto simp: sgn_if split: if_splits)
  show ?thesis
    by (rule positions_inv_at [OF inv, of s' c])
      (use at(1) zero positions_invD [OF inv] in \<open>simp_all add: only_at_def at(2,3,4,6)\<close>)
qed

lemma removeExternalPositionModule_Inr: "removeExternalPositionModule enabled sender c m s = Inr s' \<longleftrightarrow>
    privileged enabled sender s = Inr () \<and> (\<exists>ms. removeStorage (externalPositionModules s c) m = Inr ms \<and>
    s' = emitted (PositionModuleRemoved c m) (with_external c m (\<lambda>_. \<lparr>xp_virtualUnit = 0, xp_data = []\<rparr>)
      (with_position c (\<lambda>p. p\<lparr>cp_externalPositionModules := ms\<rparr>) s)))"
  by (auto simp: removeExternalPositionModule_def)

text \<open>An external edit with a unit that is not zero.\<close>

lemma editExternalPosition_open:
  assumes Z: "openzeppelin Z" and inv: "positions_inv s" and n: "newUnit \<noteq> 0"
    and run: "editExternalPosition Z enabled sender c m newUnit data s = Inr s'"
  shows "only_at c s s'" and "defaultPositionVirtualUnit s' c = defaultPositionVirtualUnit s c"
    and "c \<in> set (st_components s')" and "distinct (externalPositionModules s' c)"
    and "set (externalPositionModules s' c) = insert m (set (externalPositionModules s c))"
    and "\<And>m'. m' \<noteq> m \<Longrightarrow> externalPositionVirtualUnit s' c m' = externalPositionVirtualUnit s c m'"
    and "alive_unit s (externalPositionVirtualUnit s' c m)"
    and "sgn (sint (externalPositionVirtualUnit s' c m)) = sgn (sint newUnit)"
    and "externalPositionData s' c m = data"
proof -
  note invD = positions_invD [OF inv]
  from run n obtain s1 s2 where s1: "(if \<not> isComponent s c
          then and_then (addComponent enabled sender c s) (\<lambda>s. addExternalPositionModule enabled sender c m s)
          else if \<not> isExternalPositionModule s c m then addExternalPositionModule enabled sender c m s
          else Inr s) = Inr s1"
    and s2: "editExternalPositionUnit Z enabled sender c m newUnit s1 = Inr s2"
    and s': "editExternalPositionData enabled sender c m data s2 = Inr s'"
    by (auto simp: editExternalPosition_def)
  obtain v where v: "convertRealToVirtualUnit Z s1 newUnit = Inr v"
    "s2 = emitted (ExternalPositionUnitEdited c m newUnit) (with_external c m (\<lambda>x. x\<lparr>xp_virtualUnit := v\<rparr>) s1)"
    using s2 by (auto simp: editExternalPositionUnit_def)
  have s'_eq: "s' = emitted (ExternalPositionDataEdited c m data) (with_external c m (\<lambda>x. x\<lparr>xp_data := data\<rparr>) s2)"
    using s' by (auto simp: editExternalPositionData_def)
  have s1_fields: "defaultPositionVirtualUnit s1 c = defaultPositionVirtualUnit s c"
    "externalPositionVirtualUnit s1 c m' = externalPositionVirtualUnit s c m'"
    "st_positionMultiplier s1 = st_positionMultiplier s" "c \<in> set (st_components s1)"
    "set (externalPositionModules s1 c) = insert m (set (externalPositionModules s c))"
    "distinct (externalPositionModules s1 c)" for m'
    using s1 invD(4) [of c]
    by (auto simp: addComponent_Inr addExternalPositionModule_Inr isComponent_def isExternalPositionModule_def position_defs
        split: if_splits)
  have "only_at c s s1"
    using s1 by (auto split: if_splits intro: only_at_calls(4) only_at_refl only_at_trans [OF only_at_calls(1) only_at_calls(4)])
  then show "only_at c s s'" using only_at_calls(6) [OF s2] only_at_calls(7) [OF s'] by (blast intro: only_at_trans)
  note conv = openzeppelin.converted_alive [OF Z v(1)]
  show "alive_unit s (externalPositionVirtualUnit s' c m)" "sgn (sint (externalPositionVirtualUnit s' c m)) = sgn (sint newUnit)"
    using conv invD(2) s1_fields(3) by (simp_all add: s'_eq v position_defs alive_unit_def)
  show "defaultPositionVirtualUnit s' c = defaultPositionVirtualUnit s c" "c \<in> set (st_components s')"
    "distinct (externalPositionModules s' c)"
    "set (externalPositionModules s' c) = insert m (set (externalPositionModules s c))"
    "\<And>m'. m' \<noteq> m \<Longrightarrow> externalPositionVirtualUnit s' c m' = externalPositionVirtualUnit s c m'"
    "externalPositionData s' c m = data"
    using s1_fields by (simp_all add: s'_eq v position_defs)
qed

lemma single_left: "distinct xs \<Longrightarrow> x \<in> set xs \<Longrightarrow> length xs = 1 \<longleftrightarrow> set xs - {x} = {}"
proof -
  assume xs: "distinct xs" "x \<in> set xs"
  then have "card (set xs - {x}) = length xs - 1" by (simp add: distinct_card)
  moreover have "card (set xs - {x}) = 0 \<longleftrightarrow> set xs - {x} = {}" by (rule card_0_eq) simp
  moreover have "0 < length xs" using xs(2) by (rule length_pos_if_in_set)
  ultimately show ?thesis by linarith
qed

text \<open>An external edit with the unit zero: nothing happens, or the position is removed.\<close>

lemma editExternalPosition_close:
  assumes Z: "openzeppelin Z" and inv: "positions_inv s"
    and run: "editExternalPosition Z enabled sender c m 0 data s = Inr s'"
  shows "data = []" and "m \<notin> set (externalPositionModules s c) \<Longrightarrow> s' = s"
    and "only_at c s s'" and "defaultPositionVirtualUnit s' c = defaultPositionVirtualUnit s c"
    and "distinct (externalPositionModules s' c)"
    and "set (externalPositionModules s' c) = set (externalPositionModules s c) - {m}"
    and "\<And>m'. externalPositionVirtualUnit s' c m' = (if m' = m then 0 else externalPositionVirtualUnit s c m')"
    and "c \<in> set (st_components s') \<longleftrightarrow> defaultPositionVirtualUnit s c \<noteq> 0 \<or> set (externalPositionModules s c) - {m} \<noteq> {}"
proof -
  note invD = positions_invD [OF inv]
  from run obtain x where data: "data = []" and x: "getExternalPositionRealUnit Z s c m = Inr x"
    by (auto simp: editExternalPosition_def)
  show "data = []" by (rule data)
  have x0: "x \<noteq> 0 \<longleftrightarrow> m \<in> set (externalPositionModules s c)"
    using openzeppelin.alive_sgn(2) [OF Z inv x] invD(8) by (auto simp: sgn_if split: if_splits)
  have "(x = 0 \<longrightarrow> s' = s) \<and> only_at c s s' \<and> defaultPositionVirtualUnit s' c = defaultPositionVirtualUnit s c \<and>
    distinct (externalPositionModules s' c) \<and> set (externalPositionModules s' c) = set (externalPositionModules s c) - {m} \<and>
    (\<forall>m'. externalPositionVirtualUnit s' c m' = (if m' = m then 0 else externalPositionVirtualUnit s c m')) \<and>
    (c \<in> set (st_components s') \<longleftrightarrow> defaultPositionVirtualUnit s c \<noteq> 0 \<or> set (externalPositionModules s c) - {m} \<noteq> {})"
  proof (cases "x = 0")
    case True
    then have "s' = s" using run x data by (simp add: editExternalPosition_def)
    with True show ?thesis using x0 invD(4,8,9) only_at_refl by auto
  next
    case False
    with run x data obtain d s1 where d: "getDefaultPositionRealUnit Z s c = Inr d"
      and s1: "(if d = 0 \<and> length (externalPositionModules s c) = 1
              then and_then (require (externalPositionModules s c ! 0 = m) ''External positions must be 0 to remove component'') (\<lambda>_.
                removeComponent enabled sender c s)
              else Inr s) = Inr s1"
      and s': "removeExternalPositionModule enabled sender c m s1 = Inr s'"
      by (auto simp: editExternalPosition_def Let_def)
    have d0: "d = 0 \<longleftrightarrow> defaultPositionVirtualUnit s c = 0"
      using openzeppelin.alive_sgn(1) [OF Z inv d] by (auto simp: sgn_if split: if_splits)
    have last: "length (externalPositionModules s c) = 1 \<longleftrightarrow> set (externalPositionModules s c) - {m} = {}"
      using False x0 invD(4) by (intro single_left) auto
    have s1_fields: "st_componentPositions s1 = st_componentPositions s"
      using s1 by (auto simp: removeComponent_Inr split: if_splits)
    have "c \<in> set (st_components s1) \<longleftrightarrow> d \<noteq> 0 \<or> length (externalPositionModules s c) \<noteq> 1"
      using s1 invD(3) invD(9) [of c] False x0 removeStorage_distinct [of "st_components s" c]
      by (auto simp: removeComponent_Inr split: if_splits)
    moreover have "only_at c s s1" using s1 only_at_calls(2) invD(3) only_at_refl by (auto split: if_splits)
    moreover obtain ms where ms: "removeStorage (externalPositionModules s c) m = Inr ms"
      "s' = emitted (PositionModuleRemoved c m) (with_external c m (\<lambda>_. \<lparr>xp_virtualUnit = 0, xp_data = []\<rparr>)
        (with_position c (\<lambda>p. p\<lparr>cp_externalPositionModules := ms\<rparr>) s1))"
      using s' s1_fields by (auto simp: removeExternalPositionModule_Inr position_defs)
    ultimately show ?thesis
      using False d0 last only_at_trans [OF _ only_at_calls(5) [OF s']] removeStorage_distinct [OF ms(1) invD(4)]
      by (auto simp: position_defs s1_fields)
  qed
  then show "m \<notin> set (externalPositionModules s c) \<Longrightarrow> s' = s" "only_at c s s'"
    "defaultPositionVirtualUnit s' c = defaultPositionVirtualUnit s c" "distinct (externalPositionModules s' c)"
    "set (externalPositionModules s' c) = set (externalPositionModules s c) - {m}"
    "\<And>m'. externalPositionVirtualUnit s' c m' = (if m' = m then 0 else externalPositionVirtualUnit s c m')"
    "c \<in> set (st_components s') \<longleftrightarrow> defaultPositionVirtualUnit s c \<noteq> 0 \<or> set (externalPositionModules s c) - {m} \<noteq> {}"
    using x0 by simp_all
qed

lemma editExternalPosition_inv:
  assumes Z: "openzeppelin Z" and inv: "positions_inv s" and run: "editExternalPosition Z enabled sender c m newUnit data s = Inr s'"
  shows "positions_inv s'"
proof (cases "newUnit = 0")
  case False
  note at = editExternalPosition_open [OF Z inv False run]
  have sgn: "sint newUnit \<noteq> 0" using False by simp
  have m: "externalPositionVirtualUnit s' c m \<noteq> 0" using at(8) sgn by (auto simp: sgn_if split: if_splits)
  show ?thesis
  proof (rule positions_inv_at [OF inv, of s' c])
    show "alive_unit s (externalPositionVirtualUnit s' c m')" for m'
      using at(6) [of m'] at(7) positions_invD(7) [OF inv] by (cases "m' = m") simp_all
    show "m' \<in> set (externalPositionModules s' c) \<longleftrightarrow> externalPositionVirtualUnit s' c m' \<noteq> 0" for m'
      using at(6) [of m'] m positions_invD(8) [OF inv] by (cases "m' = m") (simp_all add: at(5))
    have "externalPositionModules s' c \<noteq> []" using at(5) by auto
    then show "c \<in> set (st_components s') \<longleftrightarrow> defaultPositionVirtualUnit s' c \<noteq> 0 \<or> externalPositionModules s' c \<noteq> []"
      using at(3) by simp
  qed (use at(1,4) positions_invD [OF inv] in \<open>simp_all add: only_at_def at(2)\<close>)
next
  case True
  note at = editExternalPosition_close [OF Z inv run [unfolded True]]
  show ?thesis
  proof (rule positions_inv_at [OF inv, of s' c])
    have "externalPositionModules s' c = [] \<longleftrightarrow> set (externalPositionModules s c) - {m} = {}" using at(6) by (metis set_empty)
    then show "c \<in> set (st_components s') \<longleftrightarrow> defaultPositionVirtualUnit s' c \<noteq> 0 \<or> externalPositionModules s' c \<noteq> []"
      using at(8) by (simp add: at(4))
    show "alive_unit s (externalPositionVirtualUnit s' c m')" for m'
      using positions_invD(7) [OF inv] by (simp add: at(7)) (simp add: alive_unit_def)
    show "m' \<in> set (externalPositionModules s' c) \<longleftrightarrow> externalPositionVirtualUnit s' c m' \<noteq> 0" for m'
      using positions_invD(8) [OF inv] by (simp add: at(6,7))
  qed (use at(3,5) positions_invD [OF inv] in \<open>simp_all add: only_at_def at(4)\<close>)
qed

lemma editPositionMultiplier_inv:
  assumes Z: "openzeppelin Z" and inv: "positions_inv s" and run: "editPositionMultiplier Z enabled sender k s = Inr s'"
  shows "positions_inv s'"
proof -
  note invD = positions_invD [OF inv]
  from run have v: "validateNewMultiplier Z k s = Inr ()"
    and s': "s' = emitted (PositionMultiplierEdited k) (s\<lparr>st_positionMultiplier := k\<rparr>)" by (auto simp: editPositionMultiplier_def)
  note val = openzeppelin.validateNewMultiplier_Inr [OF Z v]
  have comp: "defaultPositionVirtualUnit s c = 0 \<and> externalPositionModules s c = []" if "c \<notin> set (st_components s)" for c
    using that invD(9) by blast
  have d: "alive_unit s' (defaultPositionVirtualUnit s c)" for c
    using comp [of c] val(2) [of c] invD(5) [of c] by (cases "c \<in> set (st_components s)") (auto simp: alive_unit_def s')
  have e: "alive_unit s' (externalPositionVirtualUnit s c m)" for c m
  proof (cases "m \<in> set (externalPositionModules s c)")
    case True
    then have "c \<in> set (st_components s)" using comp by force
    then show ?thesis using bspec [OF conjunct2 [OF conjunct2 [OF val(2)]] True] by (auto simp: alive_unit_def s')
  qed (use invD(8) in \<open>simp add: alive_unit_def\<close>)
  have "defaultPositionVirtualUnit s' = defaultPositionVirtualUnit s" "externalPositionVirtualUnit s' = externalPositionVirtualUnit s"
    "externalPositionModules s' = externalPositionModules s" "st_components s' = st_components s"
    by (simp_all add: s' position_defs fun_eq_iff)
  moreover have "set_token_inv s'" using invD(1) val(1) by (simp add: set_token_inv_def s' position_defs)
  ultimately show ?thesis using d e invD by (simp add: positions_inv_def)
qed

text \<open>Calls that leave components, positions and multiplier alone.\<close>

fun edits_positions :: "set_call \<Rightarrow> bool" where
  "edits_positions (AddComponent c) = True"
| "edits_positions (RemoveComponent c) = True"
| "edits_positions (EditDefaultPositionUnit c u) = True"
| "edits_positions (AddExternalPositionModule c m) = True"
| "edits_positions (RemoveExternalPositionModule c m) = True"
| "edits_positions (EditExternalPositionUnit c m u) = True"
| "edits_positions (EditPositionMultiplier k) = True"
| "edits_positions _ = False"

lemma other_calls_inv:
  assumes Z: "openzeppelin Z" and inv: "positions_inv s" and run: "simple_set_call Z E enabled sender call s = Inr s'"
    and "\<not> edits_positions call"
  shows "positions_inv s'"
proof -
  have "set_token_inv s'" using openzeppelin.set_token_inv_simple [OF Z run positions_invD(1) [OF inv]] .
  moreover have "defaultPositionVirtualUnit s' = defaultPositionVirtualUnit s \<and>
      externalPositionVirtualUnit s' = externalPositionVirtualUnit s \<and> externalPositionModules s' = externalPositionModules s \<and>
      st_components s' = st_components s \<and> st_positionMultiplier s' = st_positionMultiplier s"
    using run assms(4) by (cases call) (auto simp: set_ops position_defs fun_eq_iff)
  moreover from this have "alive_unit s' = alive_unit s" by (simp add: alive_unit_def fun_eq_iff)
  ultimately show ?thesis using inv by (simp add: positions_inv_def)
qed

subsection \<open>Managed tokens\<close>

text \<open>A token as the creator makes it (distinct components, positive units), then edited by modules that use this
  library for positions, edit the multiplier and make any other call. The positions change only here.\<close>

inductive managed :: "oz_api \<Rightarrow> 'e erc20_api \<Rightarrow> 'e set_token \<Rightarrow> bool" for Z E where
  managed_new: "construct_set_token cs units ms newManager token = Inr s \<Longrightarrow> distinct cs \<Longrightarrow> length units = length cs \<Longrightarrow>
    \<forall>u \<in> set units. 0 < sint u \<Longrightarrow> managed Z E s"
| managed_default: "managed Z E s \<Longrightarrow> editDefaultPosition Z enabled sender c newUnit s = Inr s' \<Longrightarrow> managed Z E s'"
| managed_external: "managed Z E s \<Longrightarrow> editExternalPosition Z enabled sender c m extUnit data s = Inr s' \<Longrightarrow> managed Z E s'"
| managed_multiplier: "managed Z E s \<Longrightarrow> editPositionMultiplier Z enabled sender k s = Inr s' \<Longrightarrow> managed Z E s'"
| managed_other: "managed Z E s \<Longrightarrow> simple_set_call Z E enabled sender call s = Inr s' \<Longrightarrow> \<not> edits_positions call \<Longrightarrow>
    managed Z E s'"

lemma default_units_at:
  "default_units cs units ps = Inr ps' \<Longrightarrow> distinct cs \<Longrightarrow>
     cp_virtualUnit (ps' c) = (case map_of (zip cs units) c of None \<Rightarrow> cp_virtualUnit (ps c) | Some u \<Rightarrow> u)"
  by (induction cs units ps rule: default_units.induct) (auto split: option.splits dest!: map_of_SomeD set_zip_leftD)

lemma constructed_positions_inv:
  assumes run: "construct_set_token cs units ms newManager token = Inr s" and cs: "distinct cs" "length units = length cs"
    and pos: "\<forall>u \<in> set units. 0 < sint u"
  shows "positions_inv s"
proof -
  from run obtain ps where ps: "default_units cs units (\<lambda>_. no_position) = Inr ps"
    and s: "st_componentPositions s = ps" "st_components s = cs" "st_positionMultiplier s = PRECISE_UNIT_INT"
    by (auto simp: construct_set_token_def)
  have ext: "externalPositionModules s c = []" "externalPositionVirtualUnit s c m = 0" for c m
    using default_units_fields [OF ps, of c] by (simp_all add: position_defs s no_position_def)
  have d: "if c \<in> set cs then 0 < sint (defaultPositionVirtualUnit s c) else defaultPositionVirtualUnit s c = 0" for c
  proof (cases "map_of (zip cs units) c")
    case None
    then have "c \<notin> set cs" using cs(2) by (simp add: map_of_zip_is_None)
    then show ?thesis using default_units_at [OF ps cs(1), of c] None by (simp add: position_defs s no_position_def)
  next
    case (Some u)
    then have "c \<in> set cs" "u \<in> set units" by (auto dest!: map_of_SomeD dest: set_zip_leftD set_zip_rightD)
    then show ?thesis using default_units_at [OF ps cs(1), of c] Some pos by (simp add: position_defs s)
  qed
  have "0 \<le> sint (defaultPositionVirtualUnit s c) \<and> alive_unit s (defaultPositionVirtualUnit s c)" for c
    using d [of c] by (auto simp: alive_unit_def s split: if_splits)
  moreover have "c \<in> set cs \<longleftrightarrow> defaultPositionVirtualUnit s c \<noteq> 0" for c
    using d [of c] by (auto split: if_splits)
  moreover have "alive_unit s 0" by (simp add: alive_unit_def)
  ultimately show ?thesis using set_token_inv_constructed [OF run cs(1)] by (simp add: positions_inv_def ext s)
qed

lemma managed_inv:
  assumes "managed Z E s" and "openzeppelin Z"
  shows "positions_inv s"
  using assms
  by induction (blast intro: constructed_positions_inv editDefaultPosition_inv editExternalPosition_inv
    editPositionMultiplier_inv other_calls_inv)+

lemma default_reading:
  assumes Z: "openzeppelin Z" and "0 < sint (st_positionMultiplier s)"
    and "editDefaultPositionUnit Z enabled sender c u s = Inr s'" and "0 \<le> sint u"
  obtains r where "getDefaultPositionRealUnit Z s' c = Inr r" "0 \<le> sint r" "sint r \<le> sint u" "0 < sint r \<longleftrightarrow> 0 < sint u"
proof -
  from assms(3) obtain v where v: "convertRealToVirtualUnit Z s u = Inr v"
    and s': "s' = emitted (DefaultPositionUnitEdited c u) (with_position c (\<lambda>p. p\<lparr>cp_virtualUnit := v\<rparr>) s)"
    by (auto simp: editDefaultPositionUnit_def)
  obtain r where r: "convertVirtualToRealUnit Z s v = Inr r" "0 \<le> sint r" "sint r \<le> sint u" "0 < sint u \<Longrightarrow> 0 < sint r"
    using openzeppelin.real_unit_round_trip [OF Z assms(2) v assms(4)] by blast
  show thesis
  proof (rule that)
    show "getDefaultPositionRealUnit Z s' c = Inr r" using r(1)
      by (simp add: s' getDefaultPositionRealUnit_def convertVirtualToRealUnit_def position_defs)
    show "0 < sint r \<longleftrightarrow> 0 < sint u" using r by linarith
  qed (rule r)+
qed

lemma edited_reading:
  assumes Z: "openzeppelin Z" and inv: "positions_inv s"
    and run: "editDefaultPosition Z enabled sender c newUnit s = Inr s'"
  obtains r where "getDefaultPositionRealUnit Z s' c = Inr r" "0 \<le> sint r" "sint r \<le> uint newUnit" "0 < sint r \<longleftrightarrow> 0 < newUnit"
proof -
  from run obtain s1 u where u: "toInt256 Z newUnit = Inr u" and s': "editDefaultPositionUnit Z enabled sender c u s1 = Inr s'"
    by (auto simp: editDefaultPosition_def)
  have su: "sint u = uint newUnit" using u openzeppelin.toInt256_Inr [OF Z] by simp
  have "st_positionMultiplier s' = st_positionMultiplier s"
    using editDefaultPosition_at(1) [OF assms] by (simp add: only_at_def)
  moreover have "st_positionMultiplier s' = st_positionMultiplier s1" using s' by (auto simp: editDefaultPositionUnit_def)
  ultimately have M: "0 < sint (st_positionMultiplier s1)" using positions_invD(2) [OF inv] by simp
  have pos: "0 < uint newUnit \<longleftrightarrow> 0 < newUnit" by (simp add: word_gt_0 uint_pos)
  obtain r where "getDefaultPositionRealUnit Z s' c = Inr r" "0 \<le> sint r" "sint r \<le> sint u" "0 < sint r \<longleftrightarrow> 0 < sint u"
    using default_reading [OF Z M s'] su by auto
  then show thesis using su pos by (intro that) simp_all
qed

subsection \<open>An example\<close>

text \<open>The example token of \<open>SetToken\<close>, made with the library; and the module then sells half of the component.\<close>

definition new_token :: "unit set_token" where
  "new_token = \<lparr>st_manager = 9, st_locker = 0, st_modules = [], st_moduleStates = (\<lambda>_. NONE)(5 := PENDING),
     st_isLocked = False, st_components = [7], st_componentPositions = (\<lambda>_. no_position)(7 := no_position\<lparr>cp_virtualUnit := 2000000\<rparr>),
     st_positionMultiplier = 1000000000000000000, st_token = (), st_events = []\<rparr>"

definition managed_token :: "unit set_token" where
  "managed_token = example_token\<lparr>st_isLocked := False, st_locker := 0, st_events := [ExternalPositionDataEdited 7 5 [],
     ExternalPositionUnitEdited 7 5 (- 300000), PositionModuleAdded 7 5, ModuleInitialized 5]\<rparr>"

lemma example_conversions:
  "conservativePreciseDiv checked_oz (- 300000) 1000000000000000000 = Inr (- 300000)"
  "conservativePreciseDiv checked_oz 1000000 1000000000000000000 = Inr 1000000"
  "conservativePreciseMul checked_oz 1000000 1000000000000000000 = Inr 1000000"
  "conservativePreciseMul checked_oz 2000000 1000000000000000000 = Inr 2000000"
  by (simp_all add: checked_oz.conservativePreciseMul_Inr checked_oz.conservativePreciseDiv_Inr fits_int_def)

lemma managed_token_managed: "managed checked_oz no_erc20 managed_token"
proof -
  have "construct_set_token [7] [2000000] [5] 9 () = Inr new_token"
    by (simp add: construct_set_token_def new_token_def PRECISE_UNIT_INT_def del: and_then_eq_Inr)
  then have "managed checked_oz no_erc20 new_token" by (rule managed_new) simp_all
  moreover have "simple_set_call checked_oz no_erc20 (\<lambda>_. True) 5 InitializeModule new_token =
      Inr (emitted (ModuleInitialized 5) (new_token\<lparr>st_moduleStates := (\<lambda>_. NONE)(5 := INITIALIZED), st_modules := [5]\<rparr>))"
    by (simp add: initializeModule_def new_token_def)
  ultimately have "managed checked_oz no_erc20
      (emitted (ModuleInitialized 5) (new_token\<lparr>st_moduleStates := (\<lambda>_. NONE)(5 := INITIALIZED), st_modules := [5]\<rparr>))"
    by (rule managed_other) simp
  moreover have "editExternalPosition checked_oz (\<lambda>_. True) 5 7 5 (- 300000) []
      (emitted (ModuleInitialized 5) (new_token\<lparr>st_moduleStates := (\<lambda>_. NONE)(5 := INITIALIZED), st_modules := [5]\<rparr>)) = Inr managed_token"
    by (simp add: editExternalPosition_def set_ops privileged_def validateWhenLockedOnlyLocker_def new_token_def managed_token_def
        example_token_def convertRealToVirtualUnit_def example_conversions isComponent_def isExternalPositionModule_def
        position_defs no_position_def with_position_def emitted_def fun_eq_iff del: and_then_eq_Inr)
  ultimately show ?thesis by (rule managed_external)
qed

definition sold_token :: "unit set_token" where
  "sold_token = emitted (DefaultPositionUnitEdited 7 1000000) (with_position 7 (\<lambda>p. p\<lparr>cp_virtualUnit := 1000000\<rparr>) managed_token)"

lemma example_reading: "getDefaultPositionRealUnit checked_oz managed_token 7 = Inr 2000000"
  by (simp add: getDefaultPositionRealUnit_def convertVirtualToRealUnit_def example_conversions managed_token_def
      example_token_def position_defs)

lemma example_edit: "editDefaultPosition checked_oz (\<lambda>_. True) 5 7 1000000 managed_token = Inr sold_token"
proof -
  have "st_positionMultiplier managed_token = 1000000000000000000" by (simp add: managed_token_def example_token_def)
  then have conv: "convertRealToVirtualUnit checked_oz managed_token 1000000 = Inr 1000000"
    by (simp add: convertRealToVirtualUnit_def convertVirtualToRealUnit_def example_conversions)
  have "privileged (\<lambda>_. True) 5 managed_token = Inr ()" by (simp add: privileged_Inr managed_token_def example_token_def)
  with conv have "editDefaultPositionUnit checked_oz (\<lambda>_. True) 5 7 1000000 managed_token = Inr sold_token"
    by (simp add: editDefaultPositionUnit_def sold_token_def)
  moreover have "toInt256 checked_oz 1000000 = Inr 1000000" by (simp add: checked_oz_eval)
  ultimately show ?thesis
    by (simp add: editDefaultPosition_def hasDefaultPosition_def example_reading)
qed

text \<open>Half of the component is sold; three of the two hundred and three units of balance were never tracked.\<close>

lemma example_calculation:
  "calculateAndEditDefaultPosition checked_oz (\<lambda>_. True) 5 103 7 100000000000000 203 managed_token =
     Inr ((103, 2000000, 1000000), sold_token)"
proof -
  have "calculateDefaultEditPositionUnit checked_oz 100000000000000 203 103 2000000 = Inr 1000000"
    by (simp add: calculateDefaultEditPositionUnit_def sol_simps PRECISE_UNIT_u_def checked_oz_eval del: and_then_eq_Inr)
  then show ?thesis
    by (simp add: calculateAndEditDefaultPosition_def example_reading example_edit checked_oz_eval del: and_then_eq_Inr)
qed

subsection \<open>Properties\<close>

text \<open>C28: A token that the creator has made and that modules have edited through the Position library (and through
  any other call that is not a low-level position edit) lists exactly the components that have a position: a
  component is in the array if and only if its default unit or one of its external units is not zero; the external
  modules of a component are exactly those with a unit that is not zero; and no position has vanished in the
  conversion to real units: a default reading is positive, an external reading has its unit's sign.\<close>

theorem components_are_positions:
  assumes "openzeppelin Z" and "managed Z E s"
  shows "set (st_components s) = {c. defaultPositionVirtualUnit s c \<noteq> 0 \<or> (\<exists>m. externalPositionVirtualUnit s c m \<noteq> 0)} \<and>
    (\<forall>c. set (externalPositionModules s c) = {m. externalPositionVirtualUnit s c m \<noteq> 0}) \<and>
    (\<forall>c r. getDefaultPositionRealUnit Z s c = Inr r \<longrightarrow> 0 \<le> sint r \<and> (0 < sint r \<longleftrightarrow> defaultPositionVirtualUnit s c \<noteq> 0)) \<and>
    (\<forall>c m r. getExternalPositionRealUnit Z s c m = Inr r \<longrightarrow> sgn (sint r) = sgn (sint (externalPositionVirtualUnit s c m)))"
proof -
  have inv: "positions_inv s" by (rule managed_inv [OF assms(2,1)])
  note invD = positions_invD [OF inv] and sgns = openzeppelin.alive_sgn [OF assms(1) inv]
  have ext: "set (externalPositionModules s c) = {m. externalPositionVirtualUnit s c m \<noteq> 0}" for c using invD(8) by blast
  then have "externalPositionModules s c \<noteq> [] \<longleftrightarrow> (\<exists>m. externalPositionVirtualUnit s c m \<noteq> 0)" for c
    by (simp only: set_empty [symmetric] ext) blast
  with invD(9) have comps: "set (st_components s) =
      {c. defaultPositionVirtualUnit s c \<noteq> 0 \<or> (\<exists>m. externalPositionVirtualUnit s c m \<noteq> 0)}" by auto
  have d: "0 \<le> sint r \<and> (0 < sint r \<longleftrightarrow> defaultPositionVirtualUnit s c \<noteq> 0)"
    if "getDefaultPositionRealUnit Z s c = Inr r" for c r
  proof -
    let ?v = "sint (defaultPositionVirtualUnit s c)"
    have eq: "sgn (sint r) = sgn ?v" using sgns(1) [OF that] .
    consider "?v = 0" | "0 < ?v" using invD(5) [of c] by linarith
    then show ?thesis
    proof cases
      case 1
      with eq have "r = 0" by (simp add: sgn_0_0)
      with 1 show ?thesis by simp
    next
      case 2
      with eq have "0 < sint r" by (simp add: sgn_1_pos)
      with 2 show ?thesis by force
    qed
  qed
  show ?thesis by (intro conjI allI impI comps ext d [THEN conjunct1] d [THEN conjunct2] sgns(2))
qed

theorem components_are_positions_witness:
  "set (st_components managed_token) = {7} \<and> set (externalPositionModules managed_token 7) = {5} \<and>
   {m. externalPositionVirtualUnit managed_token 7 m \<noteq> 0} = {5}"
  using components_are_positions [OF checked_oz.openzeppelin_axioms managed_token_managed]
  by (simp add: managed_token_def example_token_def position_defs)

text \<open>A default edit does what it announces: afterwards the token has a default position in the component exactly
  if the new unit is positive, reading at most the unit written; the component is listed exactly if it has that
  position or an external one; every other component keeps its positions and stays listed if it was (a removal moves the last
  entry), and balances, modules and multiplier are untouched.\<close>

lemma default_edit_effect:
  assumes "openzeppelin Z" and "managed Z E s" and "editDefaultPosition Z enabled sender c newUnit s = Inr s'"
  shows "hasDefaultPosition Z s' c = Inr (0 < newUnit) \<and>
    (\<exists>r. getDefaultPositionRealUnit Z s' c = Inr r \<and> 0 \<le> sint r \<and> sint r \<le> uint newUnit) \<and>
    (isComponent s' c \<longleftrightarrow> 0 < newUnit \<or> hasExternalPosition s c) \<and> only_at c s s'"
proof -
  have inv: "positions_inv s" by (rule managed_inv [OF assms(2,1)])
  note at = editDefaultPosition_at [OF assms(1) inv assms(3)]
  obtain r where "getDefaultPositionRealUnit Z s' c = Inr r" "0 \<le> sint r" "sint r \<le> uint newUnit" "0 < sint r \<longleftrightarrow> 0 < newUnit"
    using edited_reading [OF assms(1) inv assms(3)] by blast
  then show ?thesis using at(1,6) by (simp add: hasDefaultPosition_def isComponent_def hasExternalPosition_def word_gt_0)
qed

text \<open>C29: After \<open>calculateAndEditDefaultPosition\<close> the token tracks no more of the component than it holds: the
  tracked balance (supply times the unit that is read back) can be computed, and together with the part of the
  previous balance that was not tracked before (an airdrop) it is at most the current balance; with no balance left
  the tracked balance is zero.\<close>

theorem tracked_balance_covered:
  assumes "openzeppelin Z" and "managed Z E s"
    and "calculateAndEditDefaultPosition Z enabled sender currentBalance c setTotalSupply previousBalance s =
      Inr ((b, positionUnit, newTokenUnit), s')"
  shows "\<exists>t. getDefaultTrackedBalance Z setTotalSupply s' c = Inr t \<and> t \<le> currentBalance \<and>
    (currentBalance = 0 \<or> uint setTotalSupply * uint positionUnit div 10 ^ 18 \<le> uint previousBalance \<and>
      uint t + (uint previousBalance - uint setTotalSupply * uint positionUnit div 10 ^ 18) \<le> uint currentBalance)"
proof -
  note oz = openzeppelin.um_sub_Inr [OF assms(1)] openzeppelin.preciseMul_u_Inr [OF assms(1)]
    openzeppelin.preciseDiv_u_Inr [OF assms(1)] openzeppelin.toUint256_Inr [OF assms(1)]
  let ?S = "uint setTotalSupply" and ?B = "uint currentBalance"
  let ?air = "uint previousBalance - ?S * uint positionUnit div 10 ^ 18"
  from assms(3) have new: "(if 0 < currentBalance
       then calculateDefaultEditPositionUnit Z setTotalSupply previousBalance currentBalance positionUnit
       else Inr 0) = Inr newTokenUnit"
    and edit: "editDefaultPosition Z enabled sender c newTokenUnit s = Inr s'"
    by (auto simp: calculateAndEditDefaultPosition_def)
  obtain r where r: "getDefaultPositionRealUnit Z s' c = Inr r" "0 \<le> sint r" "sint r \<le> uint newTokenUnit"
    using edited_reading [OF assms(1) managed_inv [OF assms(2,1)] edit] by blast
  have "0 \<le> ?S * uint newTokenUnit \<and> fits_uint (?S * uint newTokenUnit) \<and> ?S * uint newTokenUnit div 10 ^ 18 \<le> ?B \<and>
    (currentBalance = 0 \<or> 0 \<le> ?air \<and> ?S * uint newTokenUnit div 10 ^ 18 + ?air \<le> ?B)"
  proof (cases "currentBalance = 0")
    case False
    with new obtain tracked air rest where "preciseMul_u Z positionUnit setTotalSupply = Inr tracked"
      "um_sub Z previousBalance tracked = Inr air" "um_sub Z currentBalance air = Inr rest"
      "preciseDiv_u Z rest setTotalSupply = Inr newTokenUnit"
      by (auto simp: calculateDefaultEditPositionUnit_def word_gt_0)
    then have rest: "?air = uint air" "uint rest = ?B - ?air" "fits_uint (uint rest * 10 ^ 18)"
      "setTotalSupply \<noteq> 0" "uint newTokenUnit = uint rest * 10 ^ 18 div ?S"
      by (simp_all add: oz mult.commute)
    have air: "0 \<le> ?air" unfolding rest(1) by simp
    have "?S * uint newTokenUnit \<le> uint rest * 10 ^ 18"
      using rest(4) pos_mod_sign [of ?S "uint rest * 10 ^ 18"] unfolding rest(5)
      by (simp add: minus_mod_eq_mult_div [symmetric] uint_pos)
    then have "?S * uint newTokenUnit div 10 ^ 18 \<le> uint rest" "fits_uint (?S * uint newTokenUnit)"
      using zdiv_mono1 [of "?S * uint newTokenUnit" "uint rest * 10 ^ 18" "10 ^ 18"] rest(3) by (auto simp: fits_uint_def)
    with rest(2) air show ?thesis by auto
  qed (use new in \<open>simp add: fits_uint_def\<close>)
  then have new: "fits_uint (?S * uint newTokenUnit)" "?S * uint newTokenUnit div 10 ^ 18 \<le> ?B"
    "currentBalance = 0 \<or> 0 \<le> ?air \<and> ?S * uint newTokenUnit div 10 ^ 18 + ?air \<le> ?B" by simp_all
  obtain u :: uint256 where u: "uint u = sint r" using r(2,3) uint_fits [of newTokenUnit] ex_uint fits_uint_nonneg by metis
  have le: "?S * uint u \<le> ?S * uint newTokenUnit" using r(3) u by (intro mult_left_mono) simp_all
  then have fits: "fits_uint (?S * uint u)" using new(1) by (rule fits_uint_nonneg [rotated]) simp
  then have "fits_uint (?S * uint u div 10 ^ 18)"
    using zdiv_mono2 [of "?S * uint u" 1 "10 ^ 18"] by (intro fits_uint_nonneg [OF _ _ fits]) (simp_all add: pos_imp_zdiv_nonneg_iff)
  then obtain t :: uint256 where t: "uint t = ?S * uint u div 10 ^ 18" using ex_uint by metis
  have "getDefaultTrackedBalance Z setTotalSupply s' c = Inr t"
    using r(1) fits t u by (simp add: getDefaultTrackedBalance_def oz) (metis openzeppelin.toUint256_Inr [OF assms(1)] and_then_simps(2) oz(2))
  moreover have "uint t \<le> ?S * uint newTokenUnit div 10 ^ 18" unfolding t using le by (intro zdiv_mono1) simp_all
  ultimately show ?thesis using new(2,3) by (auto simp: word_le_def)
qed

theorem tracked_balance_covered_witness:
  "\<exists>t. getDefaultTrackedBalance checked_oz 100000000000000 sold_token 7 = Inr t \<and> uint t + 3 \<le> 103"
  using tracked_balance_covered [OF checked_oz.openzeppelin_axioms managed_token_managed example_calculation]
  by auto

end
