(* ===== verification/GuardedTable.thy ===== *)
theory GuardedTable
  imports Prelude
begin

text \<open>
  The interface of the tables that governance keeps: entries are added where there is none, edited and
  removed where there is one, and an entry is an address that is not null. The integrations of the
  IntegrationRegistry and the pairs of the PriceOracle are such tables; their lemmas are proved here, once.
  \<open>Ownable\<close> of OpenZeppelin guards both.
\<close>

definition only_owner :: "address \<Rightarrow> address \<Rightarrow> revert + unit" where
  "only_owner owner sender = require (sender = owner) ''Ownable: caller is not the owner''"

lemma only_owner_Inr [simp]: "only_owner owner sender = Inr u \<longleftrightarrow> sender = owner"
  by (simp add: only_owner_def)

text \<open>A history of calls. The name of an entry is what a call mentions, its key where it is stored.\<close>

datatype 'n table_call = AddEntry 'n address | EditEntry 'n address | RemoveEntry 'n

fun call_table ::
  "('n \<Rightarrow> address \<Rightarrow> 's \<Rightarrow> revert + 's) \<Rightarrow> ('n \<Rightarrow> address \<Rightarrow> 's \<Rightarrow> revert + 's) \<Rightarrow> ('n \<Rightarrow> 's \<Rightarrow> revert + 's) \<Rightarrow>
   'n table_call \<Rightarrow> 's \<Rightarrow> revert + 's"
where
  "call_table add edit del (AddEntry n v) s = add n v s"
| "call_table add edit del (EditEntry n v) s = edit n v s"
| "call_table add edit del (RemoveEntry n) s = del n s"

fun run_table ::
  "('n \<Rightarrow> address \<Rightarrow> 's \<Rightarrow> revert + 's) \<Rightarrow> ('n \<Rightarrow> address \<Rightarrow> 's \<Rightarrow> revert + 's) \<Rightarrow> ('n \<Rightarrow> 's \<Rightarrow> revert + 's) \<Rightarrow>
   'n table_call list \<Rightarrow> 's \<Rightarrow> revert + 's"
where
  "run_table add edit del [] s = Inr s"
| "run_table add edit del (c # cs) s = and_then (call_table add edit del c s) (run_table add edit del cs)"

text \<open>The table that a history means.\<close>

fun meant :: "('n \<Rightarrow> 'k) \<Rightarrow> 'n table_call list \<Rightarrow> ('k \<Rightarrow> address) \<Rightarrow> 'k \<Rightarrow> address" where
  "meant key [] t = t"
| "meant key (AddEntry n v # cs) t = meant key cs (t(key n := v))"
| "meant key (EditEntry n v # cs) t = meant key cs (t(key n := v))"
| "meant key (RemoveEntry n # cs) t = meant key cs (t(key n := 0))"

locale guarded_table =
  fixes lookup :: "'s \<Rightarrow> 'k \<Rightarrow> address"
    and key :: "'n \<Rightarrow> 'k"
    and add :: "'n \<Rightarrow> address \<Rightarrow> 's \<Rightarrow> revert + 's"
    and edit :: "'n \<Rightarrow> address \<Rightarrow> 's \<Rightarrow> revert + 's"
    and del :: "'n \<Rightarrow> 's \<Rightarrow> revert + 's"
  assumes add_writes: "add n v s = Inr s' \<Longrightarrow> lookup s (key n) = 0 \<and> lookup s' = (lookup s)(key n := v)"
    and edit_writes: "edit n v s = Inr s' \<Longrightarrow> lookup s (key n) \<noteq> 0 \<and> lookup s' = (lookup s)(key n := v)"
    and del_writes: "del n s = Inr s' \<Longrightarrow> lookup s (key n) \<noteq> 0 \<and> lookup s' = (lookup s)(key n := 0)"
begin

lemma writes:
  "add n v s = Inr s' \<Longrightarrow> lookup s' = (lookup s)(key n := v)"
  "edit n v s = Inr s' \<Longrightarrow> lookup s' = (lookup s)(key n := v)"
  "del n s = Inr s' \<Longrightarrow> lookup s' = (lookup s)(key n := 0)"
  using add_writes edit_writes del_writes by blast+

lemma calls_mean: "run_table add edit del cs s = Inr s' \<Longrightarrow> lookup s' = meant key cs (lookup s)"
proof (induction cs arbitrary: s)
  case (Cons c cs)
  then obtain s1 where s1: "call_table add edit del c s = Inr s1" "lookup s' = meant key cs (lookup s1)" by auto
  then show ?case by (cases c) (simp_all add: writes)
qed simp

lemma add_twice: "add n v s = Inr s' \<Longrightarrow> v \<noteq> 0 \<Longrightarrow> add n v' s' \<noteq> Inr s''"
  using add_writes [of n v s s'] add_writes [of n v' s' s''] by auto

lemma removed_is_absent: "del n s = Inr s' \<Longrightarrow> edit n v s' \<noteq> Inr s'' \<and> del n s' \<noteq> Inr s''"
  using del_writes [of n s s'] edit_writes [of n v s' s''] del_writes [of n s' s''] by auto

lemma add_del: "add n v s = Inr s' \<Longrightarrow> del n s' = Inr s'' \<Longrightarrow> lookup s'' = lookup s"
  using add_writes [of n v s s'] writes(3) [of n s' s''] by (auto simp: fun_eq_iff)

end

end
