(* ===== verification/IntegrationRegistry.thy ===== *)
theory IntegrationRegistry
  imports Controller GuardedTable
begin

text \<open>
  \<^verbatim>\<open>contracts/protocol/IntegrationRegistry.sol\<close>: which adapter a module uses under which name. The names are
  hashed with keccak256, which is the argument \<open>H\<close>; \<open>enabled\<close> is \<^verbatim>\<open>controller.isModule\<close>. The
  registry is a guarded table whose keys are pairs of a module and a hash.
\<close>

subsection \<open>State and operations\<close>

type_synonym bytes32 = "256 word"

datatype registry_event =
    IntegrationAdded address address string
  | IntegrationRemoved address address string
  | IntegrationEdited address address string

record integration_registry =
  ir_owner :: address
  integrations :: "address \<Rightarrow> bytes32 \<Rightarrow> address"
  ir_events :: "registry_event list"

definition construct_registry :: "address \<Rightarrow> integration_registry" where
  "construct_registry sender = \<lparr>ir_owner = sender, integrations = (\<lambda>_ _. 0), ir_events = []\<rparr>"

definition set_integration ::
  "address \<Rightarrow> bytes32 \<Rightarrow> address \<Rightarrow> registry_event \<Rightarrow> integration_registry \<Rightarrow> integration_registry"
where
  "set_integration m h adapter e r =
     r\<lparr>integrations := (integrations r)(m := (integrations r m)(h := adapter)), ir_events := e # ir_events r\<rparr>"

definition addIntegration ::
  "(string \<Rightarrow> bytes32) \<Rightarrow> (address \<Rightarrow> bool) \<Rightarrow> address \<Rightarrow> address \<Rightarrow> string \<Rightarrow> address \<Rightarrow> integration_registry \<Rightarrow>
     revert + integration_registry"
where
  "addIntegration H enabled sender m name adapter r =
     and_then (only_owner (ir_owner r) sender) (\<lambda>_.
     let hashedName = H name
     in and_then (require (enabled m) ''Must be valid module.'') (\<lambda>_.
        and_then (require (integrations r m hashedName = 0) ''Integration exists already.'') (\<lambda>_.
        and_then (require (adapter \<noteq> 0) ''Adapter address must exist.'') (\<lambda>_.
          Inr (set_integration m hashedName adapter (IntegrationAdded m adapter name) r)))))"

definition editIntegration ::
  "(string \<Rightarrow> bytes32) \<Rightarrow> (address \<Rightarrow> bool) \<Rightarrow> address \<Rightarrow> address \<Rightarrow> string \<Rightarrow> address \<Rightarrow> integration_registry \<Rightarrow>
     revert + integration_registry"
where
  "editIntegration H enabled sender m name adapter r =
     and_then (only_owner (ir_owner r) sender) (\<lambda>_.
     let hashedName = H name
     in and_then (require (enabled m) ''Must be valid module.'') (\<lambda>_.
        and_then (require (integrations r m hashedName \<noteq> 0) ''Integration does not exist.'') (\<lambda>_.
        and_then (require (adapter \<noteq> 0) ''Adapter address must exist.'') (\<lambda>_.
          Inr (set_integration m hashedName adapter (IntegrationEdited m adapter name) r)))))"

definition removeIntegration ::
  "(string \<Rightarrow> bytes32) \<Rightarrow> address \<Rightarrow> address \<Rightarrow> string \<Rightarrow> integration_registry \<Rightarrow> revert + integration_registry"
where
  "removeIntegration H sender m name r =
     and_then (only_owner (ir_owner r) sender) (\<lambda>_.
     let hashedName = H name
     in and_then (require (integrations r m hashedName \<noteq> 0) ''Integration does not exist.'') (\<lambda>_.
        let oldAdapter = integrations r m hashedName
        in Inr (set_integration m hashedName 0 (IntegrationRemoved m oldAdapter name) r)))"

text \<open>The batches; their loops run over the modules, and both other arrays are as long.\<close>

fun each_integration ::
  "(address \<Rightarrow> string \<Rightarrow> address \<Rightarrow> integration_registry \<Rightarrow> revert + integration_registry) \<Rightarrow>
     address list \<Rightarrow> string list \<Rightarrow> address list \<Rightarrow> integration_registry \<Rightarrow> revert + integration_registry"
where
  "each_integration f (m # ms) (n # names) (a # adapters) r =
     and_then (f m n a r) (each_integration f ms names adapters)"
| "each_integration f [] names adapters r = Inr r"
| "each_integration f (m # ms) [] adapters r = Inl InvalidOpcode"
| "each_integration f (m # ms) (n # names) [] r = Inl InvalidOpcode"

definition batchAddIntegration ::
  "(string \<Rightarrow> bytes32) \<Rightarrow> (address \<Rightarrow> bool) \<Rightarrow> address \<Rightarrow> address list \<Rightarrow> string list \<Rightarrow> address list \<Rightarrow>
     integration_registry \<Rightarrow> revert + integration_registry"
where
  "batchAddIntegration H enabled sender ms names adapters r =
     and_then (only_owner (ir_owner r) sender) (\<lambda>_.
     let modulesCount = length ms
     in and_then (require (0 < modulesCount) ''Modules must not be empty'') (\<lambda>_.
        and_then (require (modulesCount = length names) ''Module and name lengths mismatch'') (\<lambda>_.
        and_then (require (modulesCount = length adapters) ''Module and adapter lengths mismatch'') (\<lambda>_.
          each_integration (addIntegration H enabled sender) ms names adapters r))))"

definition batchEditIntegration ::
  "(string \<Rightarrow> bytes32) \<Rightarrow> (address \<Rightarrow> bool) \<Rightarrow> address \<Rightarrow> address list \<Rightarrow> string list \<Rightarrow> address list \<Rightarrow>
     integration_registry \<Rightarrow> revert + integration_registry"
where
  "batchEditIntegration H enabled sender ms names adapters r =
     and_then (only_owner (ir_owner r) sender) (\<lambda>_.
     let modulesCount = length ms
     in and_then (require (0 < modulesCount) ''Modules must not be empty'') (\<lambda>_.
        and_then (require (modulesCount = length names) ''Module and name lengths mismatch'') (\<lambda>_.
        and_then (require (modulesCount = length adapters) ''Module and adapter lengths mismatch'') (\<lambda>_.
          each_integration (editIntegration H enabled sender) ms names adapters r))))"

definition getIntegrationAdapter :: "(string \<Rightarrow> bytes32) \<Rightarrow> address \<Rightarrow> string \<Rightarrow> integration_registry \<Rightarrow> address" where
  "getIntegrationAdapter H m name r = integrations r m (H name)"

definition getIntegrationAdapterWithHash :: "address \<Rightarrow> bytes32 \<Rightarrow> integration_registry \<Rightarrow> address" where
  "getIntegrationAdapterWithHash m h r = integrations r m h"

definition isValidIntegration :: "(string \<Rightarrow> bytes32) \<Rightarrow> address \<Rightarrow> string \<Rightarrow> integration_registry \<Rightarrow> bool" where
  "isValidIntegration H m name r \<longleftrightarrow> integrations r m (H name) \<noteq> 0"

subsection \<open>The registry as a table\<close>

definition integration_at :: "integration_registry \<Rightarrow> address \<times> bytes32 \<Rightarrow> address" where
  "integration_at r k = integrations r (fst k) (snd k)"

lemma set_integration_at:
  "integration_at (set_integration m h adapter e r) = (integration_at r)((m, h) := adapter)"
  "ir_owner (set_integration m h adapter e r) = ir_owner r"
  by (auto simp: integration_at_def set_integration_def fun_eq_iff)

lemmas registry_defs = addIntegration_def editIntegration_def removeIntegration_def Let_def

interpretation registry: guarded_table integration_at "\<lambda>(m, name). (m, H name)"
    "\<lambda>(m, name). addIntegration H enabled sender m name" "\<lambda>(m, name). editIntegration H enabled sender m name"
    "\<lambda>(m, name). removeIntegration H sender m name" for H enabled sender
  by unfold_locales (auto simp: registry_defs set_integration_at, auto simp: integration_at_def)

lemma addIntegration_Inr: "addIntegration H enabled sender m name adapter r = Inr r' \<longleftrightarrow>
    sender = ir_owner r \<and> enabled m \<and> integrations r m (H name) = 0 \<and> adapter \<noteq> 0 \<and>
    r' = set_integration m (H name) adapter (IntegrationAdded m adapter name) r"
  by (auto simp: addIntegration_def Let_def)

text \<open>The loop of \<^verbatim>\<open>batchAddIntegration\<close>.\<close>

lemma each_add_Inr:
  assumes "length names = length ms" "length adapters = length ms"
    and "each_integration (addIntegration H enabled sender) ms names adapters r = Inr r'"
  shows "list_all enabled ms \<and> 0 \<notin> set adapters \<and> distinct (zip ms (map H names)) \<and>
    (\<forall>i < length ms. integrations r (ms ! i) (H (names ! i)) = 0 \<and> integrations r' (ms ! i) (H (names ! i)) = adapters ! i) \<and>
    (\<forall>m h. (m, h) \<notin> set (zip ms (map H names)) \<longrightarrow> integrations r' m h = integrations r m h)"
  using assms
proof (induction ms arbitrary: names adapters r)
  case (Cons m ms)
  then obtain n ns a as where eq: "names = n # ns" "adapters = a # as" by (cases names; cases adapters) auto
  let ?r1 = "set_integration m (H n) a (IntegrationAdded m a n) r"
  from Cons.prems have first: "enabled m" "integrations r m (H n) = 0" "a \<noteq> 0"
    and rest: "each_integration (addIntegration H enabled sender) ms ns as ?r1 = Inr r'"
    by (auto simp: eq addIntegration_Inr)
  have at: "integrations ?r1 x h = (if x = m \<and> h = H n then a else integrations r x h)" for x h
    by (simp add: set_integration_def)
  have IH: "list_all enabled ms" "0 \<notin> set as" "distinct (zip ms (map H ns))"
    "\<And>i. i < length ms \<Longrightarrow> integrations ?r1 (ms ! i) (H (ns ! i)) = 0 \<and> integrations r' (ms ! i) (H (ns ! i)) = as ! i"
    "\<And>x h. (x, h) \<notin> set (zip ms (map H ns)) \<Longrightarrow> integrations r' x h = integrations ?r1 x h"
    using Cons.IH [OF _ _ rest] Cons.prems(1,2) by (simp_all add: eq)
  have new: "(m, H n) \<notin> set (zip ms (map H ns))"
  proof
    assume "(m, H n) \<in> set (zip ms (map H ns))"
    then obtain i where "i < length ms" "ms ! i = m" "H (ns ! i) = H n" using Cons.prems(1) by (auto simp: set_zip eq)
    then show False using IH(4) [of i] first(3) at by simp
  qed
  have "integrations r (ms ! i) (H (ns ! i)) = 0" if "i < length ms" for i
    using IH(4) [OF that] at first(3) by (auto split: if_splits)
  then show ?case using IH first new Cons.prems(1,2) at by (auto simp: eq nth_Cons split: nat.split)
qed simp

text \<open>C24: A batch of new integrations is all or nothing, and afterwards every name of the batch answers with its
  adapter: if \<open>batchAddIntegration\<close> returns, the three arrays have the same positive length, the caller is the
  owner, every module is enabled, no adapter is null, no module and name occur twice in the batch or were
  registered before, \<open>getIntegrationAdapter\<close> answers the adapter of each entry, and every key outside the
  batch answers as before.\<close>

theorem batch_add_registers:
  assumes "batchAddIntegration H enabled sender ms names adapters r = Inr r'"
  shows "length names = length ms \<and> length adapters = length ms \<and> ms \<noteq> [] \<and> sender = ir_owner r \<and>
    list_all enabled ms \<and> 0 \<notin> set adapters \<and> distinct (zip ms (map H names)) \<and>
    (\<forall>i < length ms. \<not> isValidIntegration H (ms ! i) (names ! i) r \<and>
       getIntegrationAdapter H (ms ! i) (names ! i) r' = adapters ! i) \<and>
    (\<forall>m h. (m, h) \<in> set (zip ms (map H names)) \<or> getIntegrationAdapterWithHash m h r' = getIntegrationAdapterWithHash m h r)"
proof -
  from assms have loop: "length names = length ms" "length adapters = length ms" "ms \<noteq> []" "sender = ir_owner r"
    "each_integration (addIntegration H enabled sender) ms names adapters r = Inr r'"
    by (auto simp: batchAddIntegration_def Let_def)
  then show ?thesis using each_add_Inr [OF loop(1,2,5)]
    by (auto simp: getIntegrationAdapter_def isValidIntegration_def getIntegrationAdapterWithHash_def)
qed

theorem batch_add_registers_witness:
  "\<exists>r'. batchAddIntegration (\<lambda>name. of_nat (length name)) (\<lambda>m. m = 11) 2 [11, 11] [''Curve'', ''Kyber1''] [30, 31]
       (construct_registry 2) = Inr r' \<and>
     getIntegrationAdapter (\<lambda>name. of_nat (length name)) 11 ''Kyber1'' r' = 31 \<and> getIntegrationAdapterWithHash 11 7 r' = 0"
proof -
  let ?H = "\<lambda>name :: string. of_nat (length name) :: bytes32" and ?names = "[''Curve'', ''Kyber1'']"
  obtain r' where run: "batchAddIntegration ?H (\<lambda>m. m = 11) 2 [11, 11] ?names [30, 31] (construct_registry 2) = Inr r'"
    by (simp add: batchAddIntegration_def addIntegration_def construct_registry_def set_integration_def only_owner_def Let_def del: and_then_eq_Inr)
  note all = batch_add_registers [OF run]
  then have "getIntegrationAdapter ?H ([11, 11 :: address] ! 1) (?names ! 1) r' = [30, 31] ! 1" by auto
  moreover from all have "getIntegrationAdapterWithHash 11 7 r' = getIntegrationAdapterWithHash 11 7 (construct_registry 2)"
    by (elim conjE allE [where x = "11 :: address"] allE [where x = "7 :: bytes32"]) simp
  ultimately show ?thesis using run by (auto simp: getIntegrationAdapterWithHash_def construct_registry_def)
qed

end
