(* ===== verification/PriceOracle.thy ===== *)
theory PriceOracle
  imports Controller GuardedTable PreciseUnitMath
begin

text \<open>
  \<^verbatim>\<open>contracts/protocol/PriceOracle.sol\<close>: prices of pairs of assets with 18 decimals, from an oracle of the pair or
  of the inverse pair, over the master quote asset, or from adapters. The oracles and the adapters are contracts
  outside the repository: the record \<open>oracle_api\<close> says what they answer in the state \<open>x\<close> of the contracts around
  the protocol. The pairs are a guarded table.
\<close>

subsection \<open>State and operations\<close>

datatype oracle_event =
    PairAdded address address address
  | PairRemoved address address address
  | PairEdited address address address
  | AdapterAdded address
  | AdapterRemoved address
  | MasterQuoteAssetEdited address

record price_oracle =
  po_owner :: address
  oracles :: "address \<Rightarrow> address \<Rightarrow> address"
  masterQuoteAsset :: address
  adapters :: "address list"
  po_events :: "oracle_event list"

record 'x oracle_api =
  or_read :: "address \<Rightarrow> 'x \<Rightarrow> revert + uint256"
  oa_getPrice :: "address \<Rightarrow> address \<Rightarrow> address \<Rightarrow> 'x \<Rightarrow> revert + bool \<times> uint256"

definition set_pair :: "address \<Rightarrow> address \<Rightarrow> address \<Rightarrow> oracle_event \<Rightarrow> price_oracle \<Rightarrow> price_oracle" where
  "set_pair a b oracle e p =
     p\<lparr>oracles := (oracles p)(a := (oracles p a)(b := oracle)), po_events := e # po_events p\<rparr>"

text \<open>The loop of the constructor; the arrays are equally long.\<close>

fun set_pairs :: "address list \<Rightarrow> address list \<Rightarrow> address list \<Rightarrow> price_oracle \<Rightarrow> revert + price_oracle" where
  "set_pairs (a # as) (b # bs) (r # rs) p =
     set_pairs as bs rs (p\<lparr>oracles := (oracles p)(a := (oracles p a)(b := r))\<rparr>)"
| "set_pairs [] bs rs p = Inr p"
| "set_pairs (a # as) [] rs p = Inl InvalidOpcode"
| "set_pairs (a # as) (b # bs) [] p = Inl InvalidOpcode"

definition construct_price_oracle ::
  "address \<Rightarrow> address \<Rightarrow> address list \<Rightarrow> address list \<Rightarrow> address list \<Rightarrow> address list \<Rightarrow> revert + price_oracle"
where
  "construct_price_oracle sender quote as assetOnes assetTwos rs =
     (let p = \<lparr>po_owner = sender, oracles = (\<lambda>_ _. 0), masterQuoteAsset = quote, adapters = as, po_events = []\<rparr>
      in and_then (require (length assetOnes = length assetTwos \<and> length assetTwos = length rs) ''Array lengths do not match.'')
        (\<lambda>_. set_pairs assetOnes assetTwos rs p))"

definition addPair :: "address \<Rightarrow> address \<Rightarrow> address \<Rightarrow> address \<Rightarrow> price_oracle \<Rightarrow> revert + price_oracle" where
  "addPair sender a b oracle p =
     and_then (only_owner (po_owner p) sender) (\<lambda>_.
     and_then (require (oracles p a b = 0) ''PriceOracle.addPair: Pair already exists.'') (\<lambda>_.
       Inr (set_pair a b oracle (PairAdded a b oracle) p)))"

definition editPair :: "address \<Rightarrow> address \<Rightarrow> address \<Rightarrow> address \<Rightarrow> price_oracle \<Rightarrow> revert + price_oracle" where
  "editPair sender a b oracle p =
     and_then (only_owner (po_owner p) sender) (\<lambda>_.
     and_then (require (oracles p a b \<noteq> 0) ''PriceOracle.editPair: Pair doesn't exist.'') (\<lambda>_.
       Inr (set_pair a b oracle (PairEdited a b oracle) p)))"

definition removePair :: "address \<Rightarrow> address \<Rightarrow> address \<Rightarrow> price_oracle \<Rightarrow> revert + price_oracle" where
  "removePair sender a b p =
     and_then (only_owner (po_owner p) sender) (\<lambda>_.
     and_then (require (oracles p a b \<noteq> 0) ''PriceOracle.removePair: Pair doesn't exist.'') (\<lambda>_.
       let oldOracle = oracles p a b
       in Inr (set_pair a b 0 (PairRemoved a b oldOracle) p)))"

definition addAdapter :: "address \<Rightarrow> address \<Rightarrow> price_oracle \<Rightarrow> revert + price_oracle" where
  "addAdapter sender adapter p =
     and_then (only_owner (po_owner p) sender) (\<lambda>_.
     and_then (require (\<not> contains (adapters p) adapter) ''PriceOracle.addAdapter: Adapter already exists.'') (\<lambda>_.
       Inr (p\<lparr>adapters := adapters p @ [adapter], po_events := AdapterAdded adapter # po_events p\<rparr>)))"

definition removeAdapter :: "address \<Rightarrow> address \<Rightarrow> price_oracle \<Rightarrow> revert + price_oracle" where
  "removeAdapter sender adapter p =
     and_then (only_owner (po_owner p) sender) (\<lambda>_.
     and_then (require (contains (adapters p) adapter) ''PriceOracle.removeAdapter: Adapter does not exist.'') (\<lambda>_.
     and_then (remove (adapters p) adapter) (\<lambda>as.
       Inr (p\<lparr>adapters := as, po_events := AdapterRemoved adapter # po_events p\<rparr>))))"

definition editMasterQuoteAsset :: "address \<Rightarrow> address \<Rightarrow> price_oracle \<Rightarrow> revert + price_oracle" where
  "editMasterQuoteAsset sender quote p =
     and_then (only_owner (po_owner p) sender) (\<lambda>_.
       Inr (p\<lparr>masterQuoteAsset := quote, po_events := MasterQuoteAssetEdited quote # po_events p\<rparr>))"

subsection \<open>Prices\<close>

definition calculateInversePrice :: "oz_api \<Rightarrow> 'x oracle_api \<Rightarrow> address \<Rightarrow> 'x \<Rightarrow> revert + uint256" where
  "calculateInversePrice Z R inverseOracle x =
     and_then (or_read R inverseOracle x) (\<lambda>inverseValue. preciseDiv_u Z preciseUnit inverseValue)"

definition getDirectOrInversePrice ::
  "oz_api \<Rightarrow> 'x oracle_api \<Rightarrow> price_oracle \<Rightarrow> address \<Rightarrow> address \<Rightarrow> 'x \<Rightarrow> revert + bool \<times> uint256"
where
  "getDirectOrInversePrice Z R p a b x =
     (let directOracle = oracles p a b; inverseOracle = oracles p b a
      in if directOracle \<noteq> 0 then and_then (or_read R directOracle x) (\<lambda>v. Inr (True, v))
         else if inverseOracle \<noteq> 0 then and_then (calculateInversePrice Z R inverseOracle x) (\<lambda>v. Inr (True, v))
         else Inr (False, 0))"

definition getPriceFromMasterQuote ::
  "oz_api \<Rightarrow> 'x oracle_api \<Rightarrow> price_oracle \<Rightarrow> address \<Rightarrow> address \<Rightarrow> 'x \<Rightarrow> revert + bool \<times> uint256"
where
  "getPriceFromMasterQuote Z R p a b x =
     and_then (getDirectOrInversePrice Z R p a (masterQuoteAsset p) x) (\<lambda>(priceFoundOne, assetOnePrice).
     and_then (getDirectOrInversePrice Z R p b (masterQuoteAsset p) x) (\<lambda>(priceFoundTwo, assetTwoPrice).
       if priceFoundOne \<and> priceFoundTwo
       then and_then (preciseDiv_u Z assetOnePrice assetTwoPrice) (\<lambda>v. Inr (True, v))
       else Inr (False, 0)))"

fun getPriceFromAdapters ::
  "'x oracle_api \<Rightarrow> address list \<Rightarrow> address \<Rightarrow> address \<Rightarrow> 'x \<Rightarrow> revert + bool \<times> uint256"
where
  "getPriceFromAdapters R [] a b x = Inr (False, 0)"
| "getPriceFromAdapters R (adapter # as) a b x =
     and_then (oa_getPrice R adapter a b x) (\<lambda>(priceFound, price).
       if priceFound then Inr (priceFound, price) else getPriceFromAdapters R as a b x)"

text \<open>\<open>enabled\<close> is \<^verbatim>\<open>controller.isSystemContract\<close>.\<close>

definition getPrice ::
  "oz_api \<Rightarrow> 'x oracle_api \<Rightarrow> (address \<Rightarrow> bool) \<Rightarrow> address \<Rightarrow> price_oracle \<Rightarrow> address \<Rightarrow> address \<Rightarrow> 'x \<Rightarrow> revert + uint256"
where
  "getPrice Z R enabled sender p a b x =
     and_then (require (enabled sender) ''PriceOracle.getPrice: Caller must be system contract.'') (\<lambda>_.
     and_then (getDirectOrInversePrice Z R p a b x) (\<lambda>(priceFound, price).
     and_then (if \<not> priceFound then getPriceFromMasterQuote Z R p a b x else Inr (priceFound, price)) (\<lambda>(priceFound, price).
     and_then (if \<not> priceFound then getPriceFromAdapters R (adapters p) a b x else Inr (priceFound, price)) (\<lambda>(priceFound, price).
     and_then (require priceFound ''PriceOracle.getPrice: Price not found.'') (\<lambda>_. Inr price)))))"

subsection \<open>The pairs as a table\<close>

definition oracle_at :: "price_oracle \<Rightarrow> address \<times> address \<Rightarrow> address" where
  "oracle_at p k = oracles p (fst k) (snd k)"

lemma set_pair_at: "oracle_at (set_pair a b oracle e p) = (oracle_at p)((a, b) := oracle)"
  by (auto simp: oracle_at_def set_pair_def fun_eq_iff)

lemmas pair_defs = addPair_def editPair_def removePair_def Let_def

interpretation pairs: guarded_table oracle_at "\<lambda>k. k" "\<lambda>(a, b). addPair sender a b" "\<lambda>(a, b). editPair sender a b"
    "\<lambda>(a, b). removePair sender a b" for sender
  by unfold_locales (auto simp: pair_defs set_pair_at, auto simp: oracle_at_def)

lemma set_pairs_at:
  "length bs = length as \<Longrightarrow> length rs = length as \<Longrightarrow> distinct (zip as bs) \<Longrightarrow>
   \<exists>p'. set_pairs as bs rs p = Inr p' \<and> (\<forall>i < length as. oracles p' (as ! i) (bs ! i) = rs ! i) \<and>
     (\<forall>a b. (a, b) \<notin> set (zip as bs) \<longrightarrow> oracles p' a b = oracles p a b) \<and>
     masterQuoteAsset p' = masterQuoteAsset p \<and> adapters p' = adapters p"
proof (induction as arbitrary: bs rs p)
  case (Cons a as)
  then obtain b bs' r rs' where eq: "bs = b # bs'" "rs = r # rs'" by (cases bs; cases rs) auto
  let ?p = "p\<lparr>oracles := (oracles p)(a := (oracles p a)(b := r))\<rparr>"
  obtain p' where p': "set_pairs as bs' rs' ?p = Inr p'" "\<forall>i < length as. oracles p' (as ! i) (bs' ! i) = rs' ! i"
    "\<forall>x y. (x, y) \<notin> set (zip as bs') \<longrightarrow> oracles p' x y = oracles ?p x y"
    "masterQuoteAsset p' = masterQuoteAsset p" "adapters p' = adapters p"
    using Cons.IH [of bs' rs' ?p] Cons.prems by (auto simp: eq)
  have "(a, b) \<notin> set (zip as bs')" using Cons.prems(3) by (simp add: eq)
  then have "oracles p' a b = r" using p'(3) by simp
  then show ?case using p' by (auto simp: eq nth_Cons split: nat.split)
qed simp

subsection \<open>Where a price comes from\<close>

lemma adapters_search:
  "getPriceFromAdapters R as a b x = Inr (True, v) \<Longrightarrow>
   \<exists>i < length as. oa_getPrice R (as ! i) a b x = Inr (True, v) \<and> (\<forall>j < i. \<exists>q. oa_getPrice R (as ! j) a b x = Inr (False, q))"
proof (induction as)
  case (Cons c as)
  then obtain found q where head: "oa_getPrice R c a b x = Inr (found, q)"
    "(if found then Inr (found, q) else getPriceFromAdapters R as a b x) = Inr (True, v)" by auto
  show ?case
  proof (cases found)
    case False
    then obtain i where i: "i < length as" "oa_getPrice R (as ! i) a b x = Inr (True, v)"
      "\<forall>j < i. \<exists>q. oa_getPrice R (as ! j) a b x = Inr (False, q)" using Cons.IH head(2) by auto
    then have "\<forall>j < Suc i. \<exists>q. oa_getPrice R ((c # as) ! j) a b x = Inr (False, q)"
      using False head(1) by (auto simp: nth_Cons split: nat.split)
    then show ?thesis using i by (intro exI [of _ "Suc i"]) simp
  qed (use head in \<open>intro exI [of _ 0]; simp\<close>)
qed simp

lemma direct_or_inverse_Inr:
  assumes "openzeppelin Z"
  shows "getDirectOrInversePrice Z R p a b x = Inr (found, v) \<longleftrightarrow>
    (if oracles p a b \<noteq> 0 then found \<and> or_read R (oracles p a b) x = Inr v
     else if oracles p b a \<noteq> 0 then found \<and> (\<exists>r. or_read R (oracles p b a) x = Inr r \<and> r \<noteq> 0 \<and> uint v = 10 ^ 36 div uint r)
     else \<not> found \<and> v = 0)"
  by (auto simp: getDirectOrInversePrice_def calculateInversePrice_def openzeppelin.preciseDiv_u_Inr [OF assms] Let_def
      preciseUnit_def fits_uint_def)

text \<open>Whether the oracle answers for a pair without the master quote asset.\<close>

definition has_oracle :: "price_oracle \<Rightarrow> address \<Rightarrow> address \<Rightarrow> bool" where
  "has_oracle p a b \<longleftrightarrow> oracles p a b \<noteq> 0 \<or> oracles p b a \<noteq> 0"

lemma found_iff_oracle:
  assumes "openzeppelin Z" and "getDirectOrInversePrice Z R p a b x = Inr (found, v)"
  shows "found \<longleftrightarrow> has_oracle p a b"
  using assms(2) by (auto simp: direct_or_inverse_Inr [OF assms(1)] has_oracle_def split: if_splits)

lemma bridge_found_iff:
  assumes "openzeppelin Z" and "getPriceFromMasterQuote Z R p a b x = Inr (found, v)"
  shows "found \<longleftrightarrow> has_oracle p a (masterQuoteAsset p) \<and> has_oracle p b (masterQuoteAsset p)"
  using assms(2) by (auto simp: getPriceFromMasterQuote_def dest!: found_iff_oracle [OF assms(1)] split: if_splits)

lemma bridge_Inr:
  assumes "openzeppelin Z"
  shows "getPriceFromMasterQuote Z R p a b x = Inr (True, v) \<longleftrightarrow>
    (\<exists>va vb. getDirectOrInversePrice Z R p a (masterQuoteAsset p) x = Inr (True, va) \<and>
      getDirectOrInversePrice Z R p b (masterQuoteAsset p) x = Inr (True, vb) \<and>
      fits_uint (uint va * 10 ^ 18) \<and> vb \<noteq> 0 \<and> uint v = uint va * 10 ^ 18 div uint vb)"
  by (auto simp: getPriceFromMasterQuote_def openzeppelin.preciseDiv_u_Inr [OF assms] split: if_splits)

lemma getPrice_Inr:
  assumes "openzeppelin Z"
  shows "getPrice Z R enabled sender p a b x = Inr v \<longleftrightarrow> enabled sender \<and>
    (if oracles p a b \<noteq> 0 \<or> oracles p b a \<noteq> 0 then getDirectOrInversePrice Z R p a b x = Inr (True, v)
     else getPriceFromMasterQuote Z R p a b x = Inr (True, v) \<or>
       (\<exists>q. getPriceFromMasterQuote Z R p a b x = Inr (False, q)) \<and> getPriceFromAdapters R (adapters p) a b x = Inr (True, v))"
proof (cases "oracles p a b \<noteq> 0 \<or> oracles p b a \<noteq> 0")
  case True
  then have "found" if "getDirectOrInversePrice Z R p a b x = Inr (found, q)" for found q
    using that True by (simp add: direct_or_inverse_Inr [OF assms] split: if_splits)
  then show ?thesis using True by (auto simp: getPrice_def split: if_splits)
next
  case False
  then have "getDirectOrInversePrice Z R p a b x = Inr (False, 0)" by (simp add: getDirectOrInversePrice_def)
  then show ?thesis using False by (auto simp: getPrice_def split: if_splits)
qed

lemma reciprocal_bound:
  fixes v v' a b :: int
  assumes "v * b \<le> a * 10 ^ 18" "v' * a \<le> b * 10 ^ 18" "0 < a" "0 < b" "0 \<le> v" "0 \<le> v'"
  shows "v * v' \<le> 10 ^ 36"
proof -
  have "(v * b) * (v' * a) \<le> (a * 10 ^ 18) * (b * 10 ^ 18)" by (rule mult_mono [OF assms(1,2)]) (use assms(3-6) in simp_all)
  then have "v * v' * (a * b) \<le> 10 ^ 36 * (a * b)" by (simp add: algebra_simps)
  moreover have "0 < a * b" using assms(3,4) by simp
  ultimately show ?thesis by (rule mult_right_le_imp_le)
qed

subsection \<open>Properties\<close>

text \<open>C19: PriceOracle.getPrice answers system contracts only, and each answer has a source, in this order: the oracle of
  the pair, as it reads; the oracle of the inverse pair, as ten to the 36 over what it reads; if both assets have an oracle
  with the master quote asset, the two prices against it, the one over the other; only if one of them has none, the
  first adapter that has a price.\<close>

theorem price_has_source:
  assumes "openzeppelin Z" and "getPrice Z R enabled sender p a b x = Inr v"
  shows "enabled sender \<and>
    (if oracles p a b \<noteq> 0 then or_read R (oracles p a b) x = Inr v
     else if oracles p b a \<noteq> 0 then \<exists>r. or_read R (oracles p b a) x = Inr r \<and> r \<noteq> 0 \<and> uint v = 10 ^ 36 div uint r
     else if has_oracle p a (masterQuoteAsset p) \<and> has_oracle p b (masterQuoteAsset p)
     then \<exists>va vb. getDirectOrInversePrice Z R p a (masterQuoteAsset p) x = Inr (True, va) \<and>
         getDirectOrInversePrice Z R p b (masterQuoteAsset p) x = Inr (True, vb) \<and> vb \<noteq> 0 \<and> uint v = uint va * 10 ^ 18 div uint vb
     else \<exists>i < length (adapters p). oa_getPrice R (adapters p ! i) a b x = Inr (True, v) \<and>
         (\<forall>j < i. \<exists>q. oa_getPrice R (adapters p ! j) a b x = Inr (False, q)))"
proof (cases "oracles p a b \<noteq> 0 \<or> oracles p b a \<noteq> 0")
  case True
  with iffD1 [OF getPrice_Inr [OF assms(1)] assms(2)]
  have "enabled sender" "getDirectOrInversePrice Z R p a b x = Inr (True, v)" by presburger+
  then show ?thesis using True unfolding direct_or_inverse_Inr [OF assms(1), of R p a b] by presburger
next
  case False
  then have e: "enabled sender" "oracles p a b = 0" "oracles p b a = 0" using iffD1 [OF getPrice_Inr [OF assms(1)] assms(2)] by simp_all
  consider "getPriceFromMasterQuote Z R p a b x = Inr (True, v)"
    | q where "getPriceFromMasterQuote Z R p a b x = Inr (False, q)" "getPriceFromAdapters R (adapters p) a b x = Inr (True, v)"
    using False iffD1 [OF getPrice_Inr [OF assms(1)] assms(2)] by (auto split: if_split_asm)
  then show ?thesis
  proof cases
    case 1
    from bridge_found_iff [OF assms(1) 1] 1 [unfolded bridge_Inr [OF assms(1)]] show ?thesis
      unfolding e(2,3) using e(1) by (simp only: simp_thms if_False if_True) blast
  next
    case 2
    from bridge_found_iff [OF assms(1) 2(1)] adapters_search [OF 2(2)] show ?thesis
      unfolding e(2,3) using e(1) by (simp only: simp_thms if_False)
  qed
qed

text \<open>C20: No gain in a round trip: unless both directions of a pair have an oracle of their own, or adapters are consulted
  (no oracle between the assets and one of them without an oracle with the master quote asset), the price of one asset in the
  other times the price back is at most one (ten to the 36 in 18 decimals twice). Adapters may be registered.\<close>

theorem no_round_trip_gain:
  assumes "openzeppelin Z" and "getPrice Z R enabled sender p a b x = Inr v" and "getPrice Z R enabled sender p b a x = Inr v'"
    and "oracles p a b = 0 \<or> oracles p b a = 0"
    and "has_oracle p a b \<or> has_oracle p a (masterQuoteAsset p) \<and> has_oracle p b (masterQuoteAsset p)"
  shows "uint v * uint v' \<le> 10 ^ 36"
proof -
  note rules = getPrice_Inr [OF assms(1)] direct_or_inverse_Inr [OF assms(1)]
  have inverse: "uint r * uint w \<le> 10 ^ 36" if "uint w = 10 ^ 36 div uint r" "r \<noteq> 0" for r w :: uint256
    using floor_bounds(1) [of "uint r" "10 ^ 36"] that by (simp add: uint_pos mult.commute)
  consider "oracles p a b \<noteq> 0" "oracles p b a = 0" | "oracles p b a \<noteq> 0" "oracles p a b = 0"
    | "oracles p a b = 0" "oracles p b a = 0" using assms(4) by blast
  then show ?thesis
  proof cases
    case 3
    then have "has_oracle p a (masterQuoteAsset p) \<and> has_oracle p b (masterQuoteAsset p)" using assms(5) by (simp add: has_oracle_def)
    then have bridged: "getPriceFromMasterQuote Z R p a b x = Inr (True, v)" "getPriceFromMasterQuote Z R p b a x = Inr (True, v')"
      using assms(2,3) 3 by (auto simp: rules(1) dest: bridge_found_iff [OF assms(1)])
    obtain va vb where 1: "getDirectOrInversePrice Z R p a (masterQuoteAsset p) x = Inr (True, va)"
      "getDirectOrInversePrice Z R p b (masterQuoteAsset p) x = Inr (True, vb)" "vb \<noteq> 0" "uint v = uint va * 10 ^ 18 div uint vb"
      using bridged(1) by (auto simp: bridge_Inr [OF assms(1)])
    moreover from this have "va \<noteq> 0 \<and> uint v' = uint vb * 10 ^ 18 div uint va"
      using bridged(2) by (auto simp: bridge_Inr [OF assms(1)])
    ultimately show ?thesis
      using floor_bounds(1) [of "uint vb" "uint va * 10 ^ 18"] floor_bounds(1) [of "uint va" "uint vb * 10 ^ 18"]
      by (intro reciprocal_bound [of _ "uint vb" "uint va"]) (simp_all add: uint_pos div_int_nonneg)
  qed (use assms(2,3) inverse in \<open>auto simp: rules mult.commute\<close>)
qed

text \<open>An oracle that quotes ether at 230, bitcoin at 9000 and the quote asset itself; the same with an adapter that it does
  not ask for them.\<close>

definition example_quotes :: "'x oracle_api" where
  "example_quotes = \<lparr>or_read = (\<lambda>a _. if a = 51 then Inr 230000000000000000000 else if a = 52 then Inr 9000000000000000000000
       else if a = 53 then Inr 1000000000000000000 else Inl InvalidOpcode),
     oa_getPrice = (\<lambda>_ _ _ _. Inr (False, 0))\<rparr>"

definition quoted_oracle :: price_oracle where
  "quoted_oracle = \<lparr>po_owner = 2, oracles = (\<lambda>a b. if b = 40 then (if a = 41 then 51 else if a = 42 then 52 else if a = 40 then 53 else 0) else 0),
     masterQuoteAsset = 40, adapters = [], po_events = []\<rparr>"

lemma quoted_example:
  "getPrice checked_oz example_quotes (\<lambda>a. a = 60) 60 quoted_oracle 42 41 x = Inr 39130434782608695652"
  "getPrice checked_oz example_quotes (\<lambda>a. a = 60) 60 quoted_oracle 41 42 x = Inr 25555555555555555"
  by (simp_all add: getPrice_Inr [OF checked_oz.openzeppelin_axioms] bridge_Inr [OF checked_oz.openzeppelin_axioms]
      direct_or_inverse_Inr [OF checked_oz.openzeppelin_axioms] quoted_oracle_def example_quotes_def fits_uint_def)

lemma quoted_example_adapters:
  "getPrice checked_oz example_quotes (\<lambda>a. a = 60) 60 (quoted_oracle\<lparr>adapters := [77]\<rparr>) 42 41 x = Inr 39130434782608695652"
  "getPrice checked_oz example_quotes (\<lambda>a. a = 60) 60 (quoted_oracle\<lparr>adapters := [77]\<rparr>) 41 42 x = Inr 25555555555555555"
  by (simp_all add: getPrice_Inr [OF checked_oz.openzeppelin_axioms] bridge_Inr [OF checked_oz.openzeppelin_axioms]
      direct_or_inverse_Inr [OF checked_oz.openzeppelin_axioms] quoted_oracle_def example_quotes_def fits_uint_def)

theorem price_has_source_witness:
  "\<exists>va vb. getDirectOrInversePrice checked_oz example_quotes quoted_oracle 42 40 () = Inr (True, va) \<and>
     getDirectOrInversePrice checked_oz example_quotes quoted_oracle 41 40 () = Inr (True, vb) \<and> uint va * 10 ^ 18 div uint vb = 39130434782608695652"
  using price_has_source [OF checked_oz.openzeppelin_axioms quoted_example(1) [where x = "()"]]
  by (auto simp: quoted_oracle_def has_oracle_def)

theorem no_round_trip_gain_witness:
  "uint (39130434782608695652 :: uint256) * uint (25555555555555555 :: uint256) \<le> 10 ^ 36"
  by (rule no_round_trip_gain [OF checked_oz.openzeppelin_axioms quoted_example_adapters [where x = "()"]])
    (simp_all add: quoted_oracle_def has_oracle_def)

end
