(* ===== verification/ModuleBase.thy ===== *)
theory ModuleBase
  imports PositionLib IntegrationRegistry PriceOracle FeeModuleUtils
begin

text \<open>
  The protocol as its modules see it: one Controller, the deployed SetTokens, integration registries and price oracles
  by their addresses, the contracts around the protocol (the components' ERC-20 contracts among them), and the storage
  of the modules. \<^verbatim>\<open>contracts/protocol/lib/ResourceIdentifier.sol\<close> finds the resources through the Controller. \<^verbatim>\<open>contracts/protocol/lib/ModuleBase.sol\<close> checks who may call a module for which
  SetToken; \<^verbatim>\<open>contracts/lib/ExplicitERC20.sol\<close> and \<^verbatim>\<open>contracts/protocol/lib/Invoke.sol\<close> move components into and out
  of a SetToken and check the balances that result.

  The component contracts are not in the repository: what they do is the record \<open>token_api\<close>, and what is
  relied on of them is the locale \<open>token_contracts\<close>: a call to one token does not change balances of another.
  OpenZeppelin's ERC-20 of the SetToken itself is \<open>erc20_api\<close> with the locale \<open>share_token\<close>: minting and burning
  change the supply by the quantity.
\<close>

subsection \<open>State\<close>

datatype module_event =
    FeeActualized address uint256 uint256
  | StreamingFeeUpdated address uint256
  | FeeRecipientUpdated address address
  | SetTokenIssued address address address address uint256
  | SetTokenRedeemed address address address uint256
  | SetTokenCreated address address string string
  | SetTokenNAVIssued address address address address address uint256 uint256 uint256
  | SetTokenNAVRedeemed address address address address address uint256 uint256 uint256
  | ReserveAssetAdded address address
  | ReserveAssetRemoved address address
  | PremiumEdited address uint256
  | ManagerFeeEdited address uint256 uint256
  | FeeRecipientEdited address address
  | SetTokenIssuedWithFees address address address address uint256 uint256 uint256
  | SetTokenRedeemedWithFees address address address uint256 uint256 uint256
  | IssueFeeUpdated address uint256
  | RedeemFeeUpdated address uint256
  | ComponentAbsorbed address address uint256 uint256 uint256
  | AirdropComponentAdded address address
  | AirdropComponentRemoved address address
  | AnyoneAbsorbUpdated address bool
  | AirdropFeeUpdated address uint256

text \<open>The struct of \<^verbatim>\<open>CustomOracleNAVIssuanceModule.sol\<close>; the array of the two manager fees is a pair.\<close>

record NAVIssuanceSettings =
  ns_managerIssuanceHook :: address
  ns_managerRedemptionHook :: address
  ns_setValuer :: address
  ns_reserveAssets :: "address list"
  ns_feeRecipient :: address
  ns_managerFees :: "uint256 \<times> uint256"
  ns_maxManagerFee :: uint256
  ns_premiumPercentage :: uint256
  ns_maxPremiumPercentage :: uint256
  ns_minSetTokenSupply :: uint256

definition no_navSettings :: NAVIssuanceSettings where
  "no_navSettings = \<lparr>ns_managerIssuanceHook = 0, ns_managerRedemptionHook = 0, ns_setValuer = 0, ns_reserveAssets = [],
     ns_feeRecipient = 0, ns_managerFees = (0, 0), ns_maxManagerFee = 0, ns_premiumPercentage = 0, ns_maxPremiumPercentage = 0,
     ns_minSetTokenSupply = 0\<rparr>"

text \<open>The struct of \<^verbatim>\<open>DebtIssuanceModule.sol\<close>, its mapping included; deleting the struct leaves the mapping as it is.\<close>

record IssuanceSettings =
  is_maxManagerFee :: uint256
  is_managerIssueFee :: uint256
  is_managerRedeemFee :: uint256
  is_feeRecipient :: address
  is_managerIssuanceHook :: address
  is_moduleIssuanceHooks :: "address list"
  is_isModuleHook :: "address \<Rightarrow> bool"

definition deleted_issuanceSettings :: "IssuanceSettings \<Rightarrow> IssuanceSettings" where
  "deleted_issuanceSettings n = \<lparr>is_maxManagerFee = 0, is_managerIssueFee = 0, is_managerRedeemFee = 0, is_feeRecipient = 0,
     is_managerIssuanceHook = 0, is_moduleIssuanceHooks = [], is_isModuleHook = is_isModuleHook n\<rparr>"

definition no_issuanceSettings :: IssuanceSettings where
  "no_issuanceSettings = \<lparr>is_maxManagerFee = 0, is_managerIssueFee = 0, is_managerRedeemFee = 0, is_feeRecipient = 0,
     is_managerIssuanceHook = 0, is_moduleIssuanceHooks = [], is_isModuleHook = (\<lambda>_. False)\<rparr>"

text \<open>The struct of \<^verbatim>\<open>AirdropModule.sol\<close>.\<close>

record AirdropSettings =
  as_airdrops :: "address list"
  as_feeRecipient :: address
  as_airdropFee :: uint256
  as_anyoneAbsorb :: bool

definition no_airdropSettings :: AirdropSettings where
  "no_airdropSettings = \<lparr>as_airdrops = [], as_feeRecipient = 0, as_airdropFee = 0, as_anyoneAbsorb = False\<rparr>"

text \<open>There are several versions of the debt issuance module, so its settings are those of a module and a SetToken.\<close>

record ('e, 't) protocol =
  pr_controller :: controller
  pr_sets :: "address \<Rightarrow> 'e set_token option"
  pr_tokens :: 't
  pr_timestamp :: uint256
  pr_feeStates :: "address \<Rightarrow> FeeState"
  pr_managerIssuanceHook :: "address \<Rightarrow> address"
  pr_registries :: "address \<Rightarrow> integration_registry option"
  pr_oracles :: "address \<Rightarrow> price_oracle option"
  pr_navIssuanceSettings :: "address \<Rightarrow> NAVIssuanceSettings"
  pr_isReserveAsset :: "address \<Rightarrow> address \<Rightarrow> bool"
  pr_issuanceSettings :: "address \<Rightarrow> address \<Rightarrow> IssuanceSettings"
  pr_airdropSettings :: "address \<Rightarrow> AirdropSettings"
  pr_isAirdrop :: "address \<Rightarrow> address \<Rightarrow> bool"
  pr_events :: "module_event list"

record 't token_api =
  tk_balanceOf :: "address \<Rightarrow> address \<Rightarrow> 't \<Rightarrow> uint256"
  tk_safeTransferFrom :: "address \<Rightarrow> address \<Rightarrow> address \<Rightarrow> address \<Rightarrow> uint256 \<Rightarrow> 't \<Rightarrow> revert + 't"
  tk_call :: "address \<Rightarrow> address \<Rightarrow> uint256 \<Rightarrow> bytes \<Rightarrow> 't \<Rightarrow> revert + bytes \<times> 't"
  tk_decimals :: "address \<Rightarrow> 't \<Rightarrow> revert + 8 word"
  tk_encodeTransfer :: "address \<Rightarrow> uint256 \<Rightarrow> bytes"
  tk_encodeApprove :: "address \<Rightarrow> uint256 \<Rightarrow> bytes"
  tk_encodeWithdraw :: "uint256 \<Rightarrow> bytes"
  tk_encodeDeposit :: bytes
  tk_decodeBool :: "bytes \<Rightarrow> revert + bool"

locale token_contracts =
  fixes T :: "'t token_api"
  assumes transferFrom_other: "tk_safeTransferFrom T t spender a b q \<tau> = Inr \<tau>' \<Longrightarrow> t' \<noteq> t \<Longrightarrow>
      tk_balanceOf T t' h \<tau>' = tk_balanceOf T t' h \<tau>"
    and call_other: "tk_call T t sender val data \<tau> = Inr (res, \<tau>') \<Longrightarrow> t' \<noteq> t \<Longrightarrow>
      tk_balanceOf T t' h \<tau>' = tk_balanceOf T t' h \<tau>"

text \<open>Tokens whose transfers take from nobody but the one they are from.\<close>

locale honest_tokens = token_contracts +
  assumes transferFrom_holder: "tk_safeTransferFrom T t spender a b q \<tau> = Inr \<tau>' \<Longrightarrow> h \<noteq> a \<Longrightarrow>
      tk_balanceOf T t h \<tau> \<le> tk_balanceOf T t h \<tau>'"

locale share_token =
  fixes E :: "'e erc20_api"
  assumes mint_supply: "er_mint E a q e = Inr e' \<Longrightarrow> uint (er_totalSupply E e') = uint (er_totalSupply E e) + uint q"
    and burn_supply: "er_burn E a q e = Inr e' \<Longrightarrow> uint (er_totalSupply E e') = uint (er_totalSupply E e) - uint q"

text \<open>A call to an address without a SetToken reverts.\<close>

definition the_set :: "address \<Rightarrow> ('e, 't) protocol \<Rightarrow> revert + 'e set_token" where
  "the_set S w = (case pr_sets w S of None \<Rightarrow> Inl (Revert '''') | Some s \<Rightarrow> Inr s)"

definition on_set ::
  "address \<Rightarrow> ('e set_token \<Rightarrow> revert + 'e set_token) \<Rightarrow> ('e, 't) protocol \<Rightarrow> revert + ('e, 't) protocol"
where
  "on_set S f w = and_then (the_set S w) (\<lambda>s. and_then (f s) (\<lambda>s. Inr (w\<lparr>pr_sets := (pr_sets w)(S \<mapsto> s)\<rparr>)))"

definition log_event :: "module_event \<Rightarrow> ('e, 't) protocol \<Rightarrow> ('e, 't) protocol" where
  "log_event e w = w\<lparr>pr_events := e # pr_events w\<rparr>"

abbreviation enabled_modules :: "('e, 't) protocol \<Rightarrow> address \<Rightarrow> bool" where
  "enabled_modules w \<equiv> isModule (pr_controller w)"

subsection \<open>\<^verbatim>\<open>ModuleBase.sol\<close>\<close>

text \<open>\<open>this\<close> is the address of the module.\<close>

definition validateOnlyModule_base :: "address \<Rightarrow> address \<Rightarrow> ('e, 't) protocol \<Rightarrow> revert + unit" where
  "validateOnlyModule_base S sender w =
     and_then (the_set S w) (\<lambda>s.
     and_then (require (st_moduleStates s sender = INITIALIZED) ''Only the module can call'') (\<lambda>_.
       require (isModule (pr_controller w) sender) ''Module must be enabled on controller''))"

definition isSetPendingInitialization :: "address \<Rightarrow> address \<Rightarrow> ('e, 't) protocol \<Rightarrow> revert + bool" where
  "isSetPendingInitialization this S w = and_then (the_set S w) (\<lambda>s. Inr (st_moduleStates s this = PENDING))"

definition isSetManager :: "address \<Rightarrow> address \<Rightarrow> ('e, 't) protocol \<Rightarrow> revert + bool" where
  "isSetManager S toCheck w = and_then (the_set S w) (\<lambda>s. Inr (st_manager s = toCheck))"

definition isSetValidAndInitialized :: "address \<Rightarrow> address \<Rightarrow> ('e, 't) protocol \<Rightarrow> revert + bool" where
  "isSetValidAndInitialized this S w =
     (if isSet (pr_controller w) S then and_then (the_set S w) (\<lambda>s. Inr (st_moduleStates s this = INITIALIZED)) else Inr False)"

definition validateOnlySetManager :: "address \<Rightarrow> address \<Rightarrow> ('e, 't) protocol \<Rightarrow> revert + unit" where
  "validateOnlySetManager S caller w =
     and_then (isSetManager S caller w) (\<lambda>b. require b ''Must be the SetToken manager'')"

definition validateOnlyValidAndInitializedSet :: "address \<Rightarrow> address \<Rightarrow> ('e, 't) protocol \<Rightarrow> revert + unit" where
  "validateOnlyValidAndInitializedSet this S w =
     and_then (isSetValidAndInitialized this S w) (\<lambda>b. require b ''Must be a valid and initialized SetToken'')"

definition validateOnlyManagerAndValidSet :: "address \<Rightarrow> address \<Rightarrow> address \<Rightarrow> ('e, 't) protocol \<Rightarrow> revert + unit" where
  "validateOnlyManagerAndValidSet this S sender w =
     and_then (validateOnlySetManager S sender w) (\<lambda>_. validateOnlyValidAndInitializedSet this S w)"

definition validateOnlyValidAndPendingSet :: "address \<Rightarrow> address \<Rightarrow> ('e, 't) protocol \<Rightarrow> revert + unit" where
  "validateOnlyValidAndPendingSet this S w =
     and_then (require (isSet (pr_controller w) S) ''Must be controller-enabled SetToken'') (\<lambda>_.
     and_then (isSetPendingInitialization this S w) (\<lambda>b. require b ''Must be pending initialization''))"

definition getModuleFee_base :: "oz_api \<Rightarrow> address \<Rightarrow> uint256 \<Rightarrow> uint256 \<Rightarrow> ('e, 't) protocol \<Rightarrow> revert + uint256" where
  "getModuleFee_base Z this feeIndex quantity w =
     preciseMul_u Z quantity (getModuleFee this feeIndex (pr_controller w))"

subsection \<open>Resources\<close>

definition getIntegrationRegistry_res :: "controller \<Rightarrow> address" where
  "getIntegrationRegistry_res c = resourceId c 0"

definition getPriceOracle_res :: "controller \<Rightarrow> address" where
  "getPriceOracle_res c = resourceId c 1"

definition getSetValuer :: "controller \<Rightarrow> address" where
  "getSetValuer c = resourceId c 2"

text \<open>A call to an address without such a contract reverts.\<close>

definition the_registry :: "address \<Rightarrow> ('e, 't) protocol \<Rightarrow> revert + integration_registry" where
  "the_registry a w = (case pr_registries w a of None \<Rightarrow> Inl (Revert '''') | Some r \<Rightarrow> Inr r)"

definition the_oracle :: "address \<Rightarrow> ('e, 't) protocol \<Rightarrow> revert + price_oracle" where
  "the_oracle a w = (case pr_oracles w a of None \<Rightarrow> Inl (Revert '''') | Some p \<Rightarrow> Inr p)"

definition getAndValidateAdapterWithHash :: "address \<Rightarrow> bytes32 \<Rightarrow> ('e, 't) protocol \<Rightarrow> revert + address" where
  "getAndValidateAdapterWithHash this integrationHash w =
     and_then (the_registry (getIntegrationRegistry_res (pr_controller w)) w) (\<lambda>r.
     let adapter = getIntegrationAdapterWithHash this integrationHash r
     in and_then (require (adapter \<noteq> 0) ''Must be valid adapter'') (\<lambda>_. Inr adapter))"

definition getAndValidateAdapter :: "(string \<Rightarrow> bytes32) \<Rightarrow> address \<Rightarrow> string \<Rightarrow> ('e, 't) protocol \<Rightarrow> revert + address" where
  "getAndValidateAdapter H this integrationName w = getAndValidateAdapterWithHash this (H integrationName) w"

lemma getAndValidateAdapter_Inr: "getAndValidateAdapter H this name w = Inr a \<longleftrightarrow>
    (\<exists>r. pr_registries w (resourceId (pr_controller w) 0) = Some r \<and> isValidIntegration H this name r \<and>
      getIntegrationAdapter H this name r = a)"
  by (auto simp: getAndValidateAdapter_def getAndValidateAdapterWithHash_def the_registry_def getIntegrationRegistry_res_def
      isValidIntegration_def getIntegrationAdapter_def getIntegrationAdapterWithHash_def Let_def split: option.splits)

subsection \<open>Moving components\<close>

text \<open>\<^verbatim>\<open>ExplicitERC20.transferFrom\<close>, called by the module \<open>this\<close>.\<close>

definition explicit_transferFrom ::
  "oz_api \<Rightarrow> 't token_api \<Rightarrow> address \<Rightarrow> address \<Rightarrow> address \<Rightarrow> address \<Rightarrow> uint256 \<Rightarrow> ('e, 't) protocol \<Rightarrow> revert + ('e, 't) protocol"
where
  "explicit_transferFrom Z T this token a b quantity w =
     (if 0 < quantity
      then let existingBalance = tk_balanceOf T token b (pr_tokens w) in
        and_then (tk_safeTransferFrom T token this a b quantity (pr_tokens w)) (\<lambda>\<tau>.
        let newBalance = tk_balanceOf T token b \<tau> in
        and_then (um_add Z existingBalance quantity) (\<lambda>expected.
        and_then (require (newBalance = expected) ''Invalid post transfer balance'') (\<lambda>_.
          Inr (w\<lparr>pr_tokens := \<tau>\<rparr>))))
      else Inr w)"

text \<open>\<^verbatim>\<open>SetToken.invoke\<close> by the module \<open>this\<close>, on a contract that does not call back.\<close>

definition invoke_token ::
  "'t token_api \<Rightarrow> address \<Rightarrow> address \<Rightarrow> address \<Rightarrow> uint256 \<Rightarrow> bytes \<Rightarrow> ('e, 't) protocol \<Rightarrow> revert + bytes \<times> ('e, 't) protocol"
where
  "invoke_token T this S target val data w =
     and_then (the_set S w) (\<lambda>s.
     and_then (privileged (enabled_modules w) this s) (\<lambda>_.
     and_then (tk_call T target S val data (pr_tokens w)) (\<lambda>(returnValue, \<tau>).
       Inr (returnValue, w\<lparr>pr_tokens := \<tau>, pr_sets := (pr_sets w)(S \<mapsto> emitted (Invoked target val data returnValue) s)\<rparr>))))"

definition invokeTransfer ::
  "'t token_api \<Rightarrow> address \<Rightarrow> address \<Rightarrow> address \<Rightarrow> address \<Rightarrow> uint256 \<Rightarrow> ('e, 't) protocol \<Rightarrow> revert + ('e, 't) protocol"
where
  "invokeTransfer T this S token b quantity w =
     (if 0 < quantity
      then and_then (invoke_token T this S token 0 (tk_encodeTransfer T b quantity) w) (\<lambda>(returnData, w).
        if 0 < length returnData
        then and_then (tk_decodeBool T returnData) (\<lambda>ok. and_then (require ok ''ERC20 transfer failed'') (\<lambda>_. Inr w))
        else Inr w)
      else Inr w)"

definition strictInvokeTransfer ::
  "oz_api \<Rightarrow> 't token_api \<Rightarrow> address \<Rightarrow> address \<Rightarrow> address \<Rightarrow> address \<Rightarrow> uint256 \<Rightarrow> ('e, 't) protocol \<Rightarrow> revert + ('e, 't) protocol"
where
  "strictInvokeTransfer Z T this S token b quantity w =
     (if 0 < quantity
      then let existingBalance = tk_balanceOf T token S (pr_tokens w) in
        and_then (invokeTransfer T this S token b quantity w) (\<lambda>w.
        let newBalance = tk_balanceOf T token S (pr_tokens w) in
        and_then (um_sub Z existingBalance quantity) (\<lambda>expected.
        and_then (require (newBalance = expected) ''Invalid post transfer balance'') (\<lambda>_. Inr w)))
      else Inr w)"

definition invokeApprove ::
  "'t token_api \<Rightarrow> address \<Rightarrow> address \<Rightarrow> address \<Rightarrow> address \<Rightarrow> uint256 \<Rightarrow> ('e, 't) protocol \<Rightarrow> revert + ('e, 't) protocol"
where
  "invokeApprove T this S token spender quantity w =
     and_then (invoke_token T this S token 0 (tk_encodeApprove T spender quantity) w) (\<lambda>(_, w). Inr w)"

definition invokeUnwrapWETH ::
  "'t token_api \<Rightarrow> address \<Rightarrow> address \<Rightarrow> address \<Rightarrow> uint256 \<Rightarrow> ('e, 't) protocol \<Rightarrow> revert + ('e, 't) protocol"
where
  "invokeUnwrapWETH T this S weth quantity w =
     and_then (invoke_token T this S weth 0 (tk_encodeWithdraw T quantity) w) (\<lambda>(_, w). Inr w)"

definition invokeWrapWETH ::
  "'t token_api \<Rightarrow> address \<Rightarrow> address \<Rightarrow> address \<Rightarrow> uint256 \<Rightarrow> ('e, 't) protocol \<Rightarrow> revert + ('e, 't) protocol"
where
  "invokeWrapWETH T this S weth quantity w =
     and_then (invoke_token T this S weth quantity (tk_encodeDeposit T) w) (\<lambda>(_, w). Inr w)"

definition payProtocolFeeFromSetToken ::
  "oz_api \<Rightarrow> 't token_api \<Rightarrow> address \<Rightarrow> address \<Rightarrow> address \<Rightarrow> uint256 \<Rightarrow> ('e, 't) protocol \<Rightarrow> revert + ('e, 't) protocol"
where
  "payProtocolFeeFromSetToken Z T this S token feeQuantity w =
     (if 0 < feeQuantity
      then strictInvokeTransfer Z T this S token (controller.feeRecipient (pr_controller w)) feeQuantity w
      else Inr w)"

subsection \<open>When the helpers return\<close>

lemma the_set_Inr: "the_set S w = Inr s \<longleftrightarrow> pr_sets w S = Some s"
  by (simp add: the_set_def split: option.splits)

lemma on_set_Inr: "on_set S f w = Inr w' \<longleftrightarrow>
    (\<exists>s s'. pr_sets w S = Some s \<and> f s = Inr s' \<and> w' = w\<lparr>pr_sets := (pr_sets w)(S \<mapsto> s')\<rparr>)"
  by (auto simp: on_set_def the_set_Inr)

lemma validate_Inr:
  "validateOnlySetManager S caller w = Inr u \<longleftrightarrow> (\<exists>s. pr_sets w S = Some s \<and> st_manager s = caller)"
  "validateOnlyValidAndInitializedSet this S w = Inr u \<longleftrightarrow>
     isSet (pr_controller w) S \<and> (\<exists>s. pr_sets w S = Some s \<and> st_moduleStates s this = INITIALIZED)"
  "validateOnlyValidAndPendingSet this S w = Inr u \<longleftrightarrow>
     isSet (pr_controller w) S \<and> (\<exists>s. pr_sets w S = Some s \<and> st_moduleStates s this = PENDING)"
  by (auto simp: validateOnlySetManager_def isSetManager_def validateOnlyValidAndInitializedSet_def isSetValidAndInitialized_def
      validateOnlyValidAndPendingSet_def isSetPendingInitialization_def the_set_Inr split: if_splits)

lemma log_event_fields [simp]:
  "pr_controller (log_event e w) = pr_controller w" "pr_sets (log_event e w) = pr_sets w"
  "pr_tokens (log_event e w) = pr_tokens w" "pr_timestamp (log_event e w) = pr_timestamp w"
  "pr_feeStates (log_event e w) = pr_feeStates w" "pr_managerIssuanceHook (log_event e w) = pr_managerIssuanceHook w"
  "pr_registries (log_event e w) = pr_registries w" "pr_oracles (log_event e w) = pr_oracles w"
  "pr_navIssuanceSettings (log_event e w) = pr_navIssuanceSettings w" "pr_isReserveAsset (log_event e w) = pr_isReserveAsset w"
  "pr_issuanceSettings (log_event e w) = pr_issuanceSettings w" "pr_airdropSettings (log_event e w) = pr_airdropSettings w"
  "pr_isAirdrop (log_event e w) = pr_isAirdrop w"
  by (simp_all add: log_event_def)

text \<open>A transfer into a SetToken, and one out of it, as far as its balances are concerned.\<close>

lemma explicit_transferFrom_effect:
  assumes Z: "openzeppelin Z" and T: "token_contracts T" and run: "explicit_transferFrom Z T this t a b q w = Inr w'"
  obtains \<tau> where "w' = w\<lparr>pr_tokens := \<tau>\<rparr>" "uint (tk_balanceOf T t b \<tau>) = uint (tk_balanceOf T t b (pr_tokens w)) + uint q"
    "\<And>t' h. t' \<noteq> t \<Longrightarrow> tk_balanceOf T t' h \<tau> = tk_balanceOf T t' h (pr_tokens w)"
proof (cases "0 < q")
  case True
  with run obtain \<tau> where \<tau>: "tk_safeTransferFrom T t this a b q (pr_tokens w) = Inr \<tau>"
    "um_add Z (tk_balanceOf T t b (pr_tokens w)) q = Inr (tk_balanceOf T t b \<tau>)" "w' = w\<lparr>pr_tokens := \<tau>\<rparr>"
    by (auto simp: explicit_transferFrom_def Let_def)
  show thesis
    using \<tau>(2) token_contracts.transferFrom_other [OF T \<tau>(1)] by (intro that [OF \<tau>(3)]) (simp_all add: openzeppelin.um_add_Inr [OF Z])
next
  case False
  with run have "w' = w" "q = 0" by (simp_all add: explicit_transferFrom_def word_gt_0)
  then show thesis by (intro that [of "pr_tokens w"]) simp_all
qed

lemma strictInvokeTransfer_effect:
  assumes Z: "openzeppelin Z" and T: "token_contracts T" and run: "strictInvokeTransfer Z T this S t b q w = Inr w'"
    and s: "pr_sets w S = Some s"
  obtains \<tau> es where "w' = w\<lparr>pr_tokens := \<tau>, pr_sets := (pr_sets w)(S \<mapsto> s\<lparr>st_events := es\<rparr>)\<rparr>"
    "uint (tk_balanceOf T t S \<tau>) = uint (tk_balanceOf T t S (pr_tokens w)) - uint q"
    "\<And>t' h. t' \<noteq> t \<Longrightarrow> tk_balanceOf T t' h \<tau> = tk_balanceOf T t' h (pr_tokens w)"
proof (cases "0 < q")
  case True
  with run obtain w1 where w1: "invokeTransfer T this S t b q w = Inr w1"
    "um_sub Z (tk_balanceOf T t S (pr_tokens w)) q = Inr (tk_balanceOf T t S (pr_tokens w1))" "w' = w1"
    by (auto simp: strictInvokeTransfer_def Let_def)
  then obtain r \<tau> where \<tau>: "tk_call T t S 0 (tk_encodeTransfer T b q) (pr_tokens w) = Inr (r, \<tau>)"
    "w1 = w\<lparr>pr_tokens := \<tau>, pr_sets := (pr_sets w)(S \<mapsto> emitted (Invoked t 0 (tk_encodeTransfer T b q) r) s)\<rparr>"
    using True s by (auto simp: invokeTransfer_def invoke_token_def the_set_Inr split: if_splits)
  show thesis
  proof (rule that)
    show "w' = w\<lparr>pr_tokens := \<tau>, pr_sets := (pr_sets w)(S \<mapsto> s\<lparr>st_events := Invoked t 0 (tk_encodeTransfer T b q) r # st_events s\<rparr>)\<rparr>"
      using w1(3) \<tau>(2) by (simp add: emitted_def)
    show "uint (tk_balanceOf T t S \<tau>) = uint (tk_balanceOf T t S (pr_tokens w)) - uint q"
      using w1(2) \<tau>(2) by (simp add: openzeppelin.um_sub_Inr [OF Z])
  qed (rule token_contracts.call_other [OF T \<tau>(1)])
next
  case False
  with run have "w' = w" "q = 0" by (simp_all add: strictInvokeTransfer_def word_gt_0)
  then show thesis using s by (intro that [where \<tau> = "pr_tokens w" and es = "st_events s"]) (simp_all add: fun_upd_idem)
qed

subsection \<open>Providers\<close>

text \<open>A ledger of shares, and component contracts that keep a table of balances and understand \<^verbatim>\<open>transfer\<close>.\<close>

record shares =
  sh_balances :: "address \<Rightarrow> uint256"
  sh_supply :: uint256

definition shares_erc20 :: "shares erc20_api" where
  "shares_erc20 = \<lparr>
     er_mint = (\<lambda>a q e. and_then (checked_u (uint (sh_supply e) + uint q) ''SafeMath: addition overflow'') (\<lambda>n.
       Inr \<lparr>sh_balances = (sh_balances e)(a := sh_balances e a + q), sh_supply = n\<rparr>)),
     er_burn = (\<lambda>a q e. and_then (require (q \<le> sh_balances e a) ''ERC20: burn amount exceeds balance'') (\<lambda>_.
       and_then (checked_u (uint (sh_supply e) - uint q) ''SafeMath: subtraction overflow'') (\<lambda>n.
         Inr \<lparr>sh_balances = (sh_balances e)(a := sh_balances e a - q), sh_supply = n\<rparr>))),
     er_totalSupply = sh_supply\<rparr>"

interpretation shares: share_token shares_erc20
  by unfold_locales (auto simp: shares_erc20_def checked_u_Inr)

type_synonym ledger = "address \<Rightarrow> address \<Rightarrow> uint256"

definition move :: "address \<Rightarrow> address \<Rightarrow> address \<Rightarrow> uint256 \<Rightarrow> ledger \<Rightarrow> revert + ledger" where
  "move t a b q \<tau> =
     and_then (require (q \<le> \<tau> t a) ''ERC20: transfer amount exceeds balance'') (\<lambda>_.
     let r = (\<tau> t)(a := \<tau> t a - q) in
     and_then (require (r b \<le> r b + q) ''SafeMath: addition overflow'') (\<lambda>_. Inr (\<tau>(t := r(b := r b + q)))))"

primrec nat_bytes :: "nat \<Rightarrow> nat \<Rightarrow> bytes" where
  "nat_bytes 0 m = []"
| "nat_bytes (Suc n) m = word_of_nat (m mod 256) # nat_bytes n (m div 256)"

primrec bytes_nat :: "bytes \<Rightarrow> nat" where
  "bytes_nat [] = 0"
| "bytes_nat (b # bs) = unat b + 256 * bytes_nat bs"

lemma length_nat_bytes [simp]: "length (nat_bytes n m) = n"
  by (induction n arbitrary: m) simp_all

lemma bytes_nat_bytes: "m < 256 ^ n \<Longrightarrow> bytes_nat (nat_bytes n m) = m"
proof (induction n arbitrary: m)
  case (Suc n)
  then have "m div 256 < 256 ^ n" by (simp add: less_mult_imp_div_less mult.commute)
  moreover have "unat (word_of_nat (m mod 256) :: 8 word) = m mod 256" by (simp add: unat_of_nat)
  ultimately show ?case by (simp add: Suc.IH)
qed simp

definition ledger_tokens :: "ledger token_api" where
  "ledger_tokens = \<lparr>
     tk_balanceOf = (\<lambda>t h \<tau>. \<tau> t h),
     tk_safeTransferFrom = (\<lambda>t spender a b q \<tau>. move t a b q \<tau>),
     tk_call = (\<lambda>t sender val data \<tau>. if length data = 52
       then and_then (move t sender (word_of_nat (bytes_nat (take 20 data))) (word_of_nat (bytes_nat (drop 20 data))) \<tau>) (\<lambda>\<tau>. Inr ([1], \<tau>)) else Inr ([], \<tau>)),
     tk_decimals = (\<lambda>t \<tau>. Inr 18),
     tk_encodeTransfer = (\<lambda>b q. nat_bytes 20 (unat b) @ nat_bytes 32 (unat q)),
     tk_encodeApprove = (\<lambda>b q. []), tk_encodeWithdraw = (\<lambda>q. []), tk_encodeDeposit = [],
     tk_decodeBool = (\<lambda>bs. Inr (bs = [1]))\<rparr>"

lemma move_other: "move t a b q \<tau> = Inr \<tau>' \<Longrightarrow> t' \<noteq> t \<Longrightarrow> \<tau>' t' h = \<tau> t' h"
  by (auto simp: move_def Let_def)

lemma move_holder: "move t a b q \<tau> = Inr \<tau>' \<Longrightarrow> h \<noteq> a \<Longrightarrow> \<tau> t h \<le> \<tau>' t h"
  by (auto simp: move_def Let_def)

interpretation ledger: honest_tokens ledger_tokens
  by unfold_locales (auto simp: ledger_tokens_def move_other move_holder split: if_splits)

lemma ledger_transfer:
  "tk_call ledger_tokens t sender val (tk_encodeTransfer ledger_tokens b q) \<tau> =
     and_then (move t sender b q \<tau>) (\<lambda>\<tau>. Inr ([1], \<tau>))"
proof -
  have "unat b < 256 ^ 20" "unat q < 256 ^ 32" using unsigned_less [of b] unsigned_less [of q] by simp_all
  then have "bytes_nat (nat_bytes 20 (unat b)) = unat b" "bytes_nat (nat_bytes 32 (unat q)) = unat q"
    by (simp_all only: bytes_nat_bytes)
  then show ?thesis by (simp add: ledger_tokens_def)
qed

end
