(* ===== verification/StreamingFeeModule.thy ===== *)
theory StreamingFeeModule
  imports ModuleBase
begin

text \<open>
  \<^verbatim>\<open>contracts/protocol/modules/v1/StreamingFeeModule.sol\<close>: the module that pays its fee by minting SetTokens and
  lowering the position multiplier. Its calculations are in \<open>FeeModuleUtils\<close>; here are its external functions on
  the state of the protocol. \<open>this\<close> is the module's address, \<open>S\<close> a SetToken, \<open>sender\<close> the caller. The functions
  call nothing but the SetToken and the Controller, so the re-entrancy guard is never met.
\<close>

subsection \<open>Internal functions\<close>

definition mintManagerAndProtocolFee ::
  "oz_api \<Rightarrow> 'e erc20_api \<Rightarrow> address \<Rightarrow> address \<Rightarrow> uint256 \<Rightarrow> ('e, 't) protocol \<Rightarrow> revert + (uint256 \<times> uint256) \<times> ('e, 't) protocol"
where
  "mintManagerAndProtocolFee Z E this S feeQuantity w =
     (let protocolFeeRecipient = controller.feeRecipient (pr_controller w);
          protocolFee = getModuleFee this 0 (pr_controller w)
      in and_then (managerAndProtocolFee_sol Z protocolFee feeQuantity) (\<lambda>(managerFeeAmount, protocolFeeAmount).
         and_then (on_set S (mint E (enabled_modules w) this (fs_feeRecipient (pr_feeStates w S)) managerFeeAmount) w) (\<lambda>w.
         and_then (if 0 < protocolFeeAmount
           then on_set S (mint E (enabled_modules w) this protocolFeeRecipient protocolFeeAmount) w else Inr w) (\<lambda>w.
           Inr ((managerFeeAmount, protocolFeeAmount), w)))))"

definition editPositionMultiplier_module ::
  "oz_api \<Rightarrow> address \<Rightarrow> address \<Rightarrow> uint256 \<Rightarrow> ('e, 't) protocol \<Rightarrow> revert + ('e, 't) protocol"
where
  "editPositionMultiplier_module Z this S inflationFee w =
     and_then (the_set S w) (\<lambda>s.
     and_then (newPositionMultiplier_sol Z (st_positionMultiplier s) inflationFee) (\<lambda>newMultiplier.
       on_set S (editPositionMultiplier Z (enabled_modules w) this newMultiplier) w))"

definition calculateStreamingFeeInflation_set ::
  "oz_api \<Rightarrow> 'e erc20_api \<Rightarrow> address \<Rightarrow> uint256 \<Rightarrow> ('e, 't) protocol \<Rightarrow> revert + uint256"
where
  "calculateStreamingFeeInflation_set Z E S feePercentage w =
     and_then (the_set S w) (\<lambda>s. calculateStreamingFeeInflation_sol Z (er_totalSupply E (st_token s)) feePercentage)"

subsection \<open>External functions\<close>

definition getFee :: "oz_api \<Rightarrow> address \<Rightarrow> ('e, 't) protocol \<Rightarrow> revert + uint256" where
  "getFee Z S w = calculateStreamingFee_sol Z (pr_timestamp w) (pr_feeStates w S)"

definition accrueFee ::
  "oz_api \<Rightarrow> 'e erc20_api \<Rightarrow> address \<Rightarrow> address \<Rightarrow> ('e, 't) protocol \<Rightarrow> revert + ('e, 't) protocol"
where
  "accrueFee Z E this S w =
     and_then (validateOnlyValidAndInitializedSet this S w) (\<lambda>_.
     and_then (
       if 0 < fs_streamingFeePercentage (pr_feeStates w S)
       then and_then (calculateStreamingFee_sol Z (pr_timestamp w) (pr_feeStates w S)) (\<lambda>inflationFeePercentage.
         and_then (calculateStreamingFeeInflation_set Z E S inflationFeePercentage w) (\<lambda>feeQuantity.
         and_then (mintManagerAndProtocolFee Z E this S feeQuantity w) (\<lambda>(amounts, w).
         and_then (editPositionMultiplier_module Z this S inflationFeePercentage w) (\<lambda>w. Inr (amounts, w)))))
       else Inr ((0, 0), w)) (\<lambda>((managerFee, protocolFee), w).
     Inr (log_event (FeeActualized S managerFee protocolFee) (w\<lparr>pr_feeStates := (pr_feeStates w)(S :=
       (pr_feeStates w S)\<lparr>fs_lastStreamingFeeTimestamp := pr_timestamp w\<rparr>)\<rparr>))))"

definition initialize_fee ::
  "address \<Rightarrow> address \<Rightarrow> address \<Rightarrow> FeeState \<Rightarrow> ('e, 't) protocol \<Rightarrow> revert + ('e, 't) protocol"
where
  "initialize_fee this sender S settings w =
     and_then (validateOnlySetManager S sender w) (\<lambda>_.
     and_then (validateOnlyValidAndPendingSet this S w) (\<lambda>_.
     and_then (require (fs_feeRecipient settings \<noteq> 0) ''Fee Recipient must be non-zero address.'') (\<lambda>_.
     and_then (require (fs_maxStreamingFeePercentage settings < preciseUnit) ''Max fee must be < 100%.'') (\<lambda>_.
     and_then (require (fs_streamingFeePercentage settings \<le> fs_maxStreamingFeePercentage settings) ''Fee must be <= max.'') (\<lambda>_.
     let settings = settings\<lparr>fs_lastStreamingFeeTimestamp := pr_timestamp w\<rparr>
     in on_set S (initializeModule this) (w\<lparr>pr_feeStates := (pr_feeStates w)(S := settings)\<rparr>))))))"

definition no_feeState :: FeeState where
  "no_feeState = \<lparr>fs_feeRecipient = 0, fs_maxStreamingFeePercentage = 0, fs_streamingFeePercentage = 0,
     fs_lastStreamingFeeTimestamp = 0\<rparr>"

text \<open>Called by the SetToken that removes the module.\<close>

definition removeModule_fee :: "address \<Rightarrow> ('e, 't) protocol \<Rightarrow> revert + ('e, 't) protocol" where
  "removeModule_fee sender w = Inr (w\<lparr>pr_feeStates := (pr_feeStates w)(sender := no_feeState)\<rparr>)"

definition updateStreamingFee ::
  "oz_api \<Rightarrow> 'e erc20_api \<Rightarrow> address \<Rightarrow> address \<Rightarrow> address \<Rightarrow> uint256 \<Rightarrow> ('e, 't) protocol \<Rightarrow> revert + ('e, 't) protocol"
where
  "updateStreamingFee Z E this sender S newFee w =
     and_then (validateOnlySetManager S sender w) (\<lambda>_.
     and_then (validateOnlyValidAndInitializedSet this S w) (\<lambda>_.
     and_then (require (newFee < fs_maxStreamingFeePercentage (pr_feeStates w S)) ''Fee must be less than max'') (\<lambda>_.
     and_then (accrueFee Z E this S w) (\<lambda>w.
       Inr (log_event (StreamingFeeUpdated S newFee) (w\<lparr>pr_feeStates := (pr_feeStates w)(S :=
         (pr_feeStates w S)\<lparr>fs_streamingFeePercentage := newFee\<rparr>)\<rparr>))))))"

definition updateFeeRecipient ::
  "address \<Rightarrow> address \<Rightarrow> address \<Rightarrow> address \<Rightarrow> ('e, 't) protocol \<Rightarrow> revert + ('e, 't) protocol"
where
  "updateFeeRecipient this sender S newFeeRecipient w =
     and_then (validateOnlySetManager S sender w) (\<lambda>_.
     and_then (validateOnlyValidAndInitializedSet this S w) (\<lambda>_.
     and_then (require (newFeeRecipient \<noteq> 0) ''Fee Recipient must be non-zero address.'') (\<lambda>_.
       Inr (log_event (FeeRecipientUpdated S newFeeRecipient) (w\<lparr>pr_feeStates := (pr_feeStates w)(S :=
         (pr_feeStates w S)\<lparr>fs_feeRecipient := newFeeRecipient\<rparr>)\<rparr>)))))"

subsection \<open>What an accrual does\<close>

lemma mint_Inr: "mint E enabled sender a q s = Inr s' \<longleftrightarrow> privileged enabled sender s = Inr () \<and>
    (\<exists>e. er_mint E a q (st_token s) = Inr e \<and> s' = s\<lparr>st_token := e\<rparr>)"
  by (auto simp: mint_def)

lemma managerAndProtocolFee_sum:
  assumes "openzeppelin Z" and "managerAndProtocolFee_sol Z rate q = Inr (m, p)"
  shows "uint m + uint p = uint q"
  using assms(2) by (auto simp: managerAndProtocolFee_sol_def openzeppelin.um_sub_Inr [OF assms(1)])

lemma mintManagerAndProtocolFee_effect:
  assumes Z: "openzeppelin Z" and E: "share_token E" and s: "pr_sets w S = Some s"
    and run: "mintManagerAndProtocolFee Z E this S q w = Inr (amounts, w')"
  obtains e where "w' = w\<lparr>pr_sets := (pr_sets w)(S \<mapsto> s\<lparr>st_token := e\<rparr>)\<rparr>"
    "uint (er_totalSupply E e) = uint (er_totalSupply E (st_token s)) + uint q"
proof -
  note minted = share_token.mint_supply [OF E]
  from run obtain m p w1 where mp: "managerAndProtocolFee_sol Z (getModuleFee this 0 (pr_controller w)) q = Inr (m, p)"
    and w1: "on_set S (mint E (enabled_modules w) this (fs_feeRecipient (pr_feeStates w S)) m) w = Inr w1"
    and w': "(if 0 < p then on_set S (mint E (enabled_modules w1) this (controller.feeRecipient (pr_controller w)) p) w1 else Inr w1) = Inr w'"
    by (auto simp: mintManagerAndProtocolFee_def Let_def)
  from w1 s obtain e1 where e1: "er_mint E (fs_feeRecipient (pr_feeStates w S)) m (st_token s) = Inr e1"
    "w1 = w\<lparr>pr_sets := (pr_sets w)(S \<mapsto> s\<lparr>st_token := e1\<rparr>)\<rparr>"
    by (auto simp: on_set_Inr mint_Inr)
  show thesis
  proof (cases "0 < p")
    case True
    with w' e1(2) obtain e2 where e2: "er_mint E (controller.feeRecipient (pr_controller w)) p e1 = Inr e2"
      "w' = w\<lparr>pr_sets := (pr_sets w)(S \<mapsto> s\<lparr>st_token := e2\<rparr>)\<rparr>"
      by (auto simp: on_set_Inr mint_Inr)
    show thesis using minted [OF e1(1)] minted [OF e2(1)] managerAndProtocolFee_sum [OF Z mp] by (intro that [OF e2(2)]) simp
  next
    case False
    then have "p = 0" by (simp add: word_gt_0)
    then show thesis using w' e1 minted [OF e1(1)] managerAndProtocolFee_sum [OF Z mp] by (intro that [of e1]) simp_all
  qed
qed

text \<open>An accrual changes one SetToken: its supply grows by the inflation of the fee percentage \<open>f\<close> and its
  multiplier is scaled down by it. Everything else of the token, and every component's contract, stays.\<close>

lemma accrueFee_effect:
  assumes Z: "openzeppelin Z" and E: "share_token E" and s: "pr_sets w S = Some s"
    and run: "accrueFee Z E this S w = Inr w'"
  obtains f s' where "pr_sets w' = (pr_sets w)(S \<mapsto> s')" "pr_tokens w' = pr_tokens w" "pr_controller w' = pr_controller w"
    "0 \<le> f" "f < 10 ^ 18" "0 < fs_streamingFeePercentage (pr_feeStates w S) \<Longrightarrow>
      \<exists>p. calculateStreamingFee_sol Z (pr_timestamp w) (pr_feeStates w S) = Inr p \<and> f = uint p"
    "uint (er_totalSupply E (st_token s')) = uint (er_totalSupply E (st_token s)) +
      f * uint (er_totalSupply E (st_token s)) div (10 ^ 18 - f)"
    "sint (st_positionMultiplier s') = (sint (st_positionMultiplier s) * (10 ^ 18 - f)) sdiv 10 ^ 18"
    "st_components s' = st_components s" "st_componentPositions s' = st_componentPositions s"
    "s' = s \<or> (\<exists>k e. editPositionMultiplier Z (enabled_modules w) this k (s\<lparr>st_token := e\<rparr>) = Inr s')"
proof (cases "0 < fs_streamingFeePercentage (pr_feeStates w S)")
  case False
  with run have sets: "pr_sets w' = pr_sets w" "pr_tokens w' = pr_tokens w" "pr_controller w' = pr_controller w"
    by (auto simp: accrueFee_def)
  have "sint (st_positionMultiplier s) * (10 ^ 18 - 0) sdiv 10 ^ 18 = sint (st_positionMultiplier s)"
    by (simp add: signed_divide_int_def sgn_mult abs_mult sgn_mult_abs)
  with False sets s show thesis by (intro that [of s 0]) (simp_all add: map_upd_triv)
next
  case True
  with run obtain p q amounts w1 w2 where p: "calculateStreamingFee_sol Z (pr_timestamp w) (pr_feeStates w S) = Inr p"
    and q: "calculateStreamingFeeInflation_sol Z (er_totalSupply E (st_token s)) p = Inr q"
    and w1: "mintManagerAndProtocolFee Z E this S q w = Inr (amounts, w1)"
    and w2: "editPositionMultiplier_module Z this S p w1 = Inr w2"
    and w': "pr_sets w' = pr_sets w2" "pr_tokens w' = pr_tokens w2" "pr_controller w' = pr_controller w2"
    using s by (auto simp: accrueFee_def calculateStreamingFeeInflation_set_def the_set_def)
  obtain e where e: "w1 = w\<lparr>pr_sets := (pr_sets w)(S \<mapsto> s\<lparr>st_token := e\<rparr>)\<rparr>"
    "uint (er_totalSupply E e) = uint (er_totalSupply E (st_token s)) + uint q"
    using mintManagerAndProtocolFee_effect [OF Z E s w1] .
  obtain k s' where k: "newPositionMultiplier_sol Z (st_positionMultiplier s) p = Inr k"
    "editPositionMultiplier Z (enabled_modules w) this k (s\<lparr>st_token := e\<rparr>) = Inr s'"
    "w2 = w1\<lparr>pr_sets := (pr_sets w1)(S \<mapsto> s')\<rparr>"
    using w2 e(1) by (auto simp: editPositionMultiplier_module_def the_set_def on_set_Inr)
  have s': "s' = emitted (PositionMultiplierEdited k) (s\<lparr>st_token := e, st_positionMultiplier := k\<rparr>)"
    using k(2) by (auto simp: editPositionMultiplier_def)
  have "sint k = (sint (st_positionMultiplier s) * (10 ^ 18 - uint p)) sdiv 10 ^ 18"
    using k(1) by (auto simp: newPositionMultiplier_sol_def preciseUnit_def openzeppelin.oz_Inr [OF Z] openzeppelin.preciseMul_i_Inr [OF Z])
  with s' k e w' p openzeppelin.calculateStreamingFeeInflation_Inr [OF Z q] show thesis
    by (intro that [where f = "uint p" and s' = s']) auto
qed

subsection \<open>The predicted units\<close>

text \<open>A unit after two floors against the floor of the product.\<close>

lemma two_floors:
  fixes v M g :: int
  assumes "0 \<le> v" "0 < M" "0 \<le> g" "g \<le> 10 ^ 18"
  defines "u \<equiv> v * M div 10 ^ 18" and "u' \<equiv> v * (M * g div 10 ^ 18) div 10 ^ 18"
  shows "u' \<le> u * g div 10 ^ 18 + 1" and "u * g div 10 ^ 18 \<le> u' + v div 10 ^ 18 + 1"
proof -
  let ?D = "10 ^ 18 :: int" and ?m = "M * g div 10 ^ 18" and ?t = "u * g div 10 ^ 18" and ?k = "v div 10 ^ 18"
  have D: "0 < ?D" by simp
  have m: "?m * ?D \<le> M * g" "M * g < (?m + 1) * ?D" using floor_bounds [OF D] by blast+
  have u: "u * ?D \<le> v * M" "v * M < (u + 1) * ?D" unfolding u_def using floor_bounds [OF D] by blast+
  have u': "u' * ?D \<le> v * ?m" "v * ?m < (u' + 1) * ?D" unfolding u'_def using floor_bounds [OF D] by blast+
  have t: "?t * ?D \<le> u * g" "u * g < (?t + 1) * ?D" using floor_bounds [OF D] by blast+
  have k: "v < (?k + 1) * ?D" using floor_bounds [OF D] by blast
  show "u' \<le> ?t + 1"
  proof -
    have "u' * ?D * ?D \<le> v * ?m * ?D" using u'(1) by (intro mult_right_mono) simp_all
    also have "\<dots> \<le> v * (M * g)" using mult_left_mono [OF m(1) assms(1)] by (simp add: mult.assoc)
    also have "\<dots> \<le> (u + 1) * ?D * g" using mult_right_mono [OF less_imp_le [OF u(2)] assms(3)] by (simp add: mult.assoc)
    also have "\<dots> = (u * g + g) * ?D" by (simp add: algebra_simps)
    also have "\<dots> < ((?t + 1) * ?D + ?D) * ?D" using t(2) assms(4) by (intro mult_strict_right_mono) (linarith | simp)+
    finally have "u' * ?D * ?D < (?t + 2) * ?D * ?D" by (simp add: algebra_simps)
    then show ?thesis by simp
  qed
  show "?t \<le> u' + ?k + 1"
  proof -
    have "?t * ?D * ?D \<le> u * g * ?D" using t(1) by (intro mult_right_mono) simp_all
    also have "\<dots> \<le> v * M * g" using mult_right_mono [OF u(1) assms(3)] by (simp add: ac_simps)
    also have "\<dots> \<le> v * ((?m + 1) * ?D)" using mult_left_mono [OF less_imp_le [OF m(2)] assms(1)] by (simp add: mult.assoc)
    also have "\<dots> = (v * ?m + v) * ?D" by (simp add: algebra_simps)
    also have "\<dots> < ((u' + 1) * ?D + (?k + 1) * ?D) * ?D" using u'(2) k by (intro mult_strict_right_mono) (linarith | simp)+
    finally have "?t * ?D * ?D < (u' + ?k + 2) * ?D * ?D" by (simp add: algebra_simps)
    then show ?thesis by simp
  qed
qed

text \<open>With the multiplier that a new SetToken has there is one floor only, whatever the sign.\<close>

lemma one_floor:
  fixes v g :: int
  assumes "0 \<le> g"
  shows "v * (10 ^ 18 * g div 10 ^ 18) div 10 ^ 18 =
    (if 0 \<le> v then v * g sdiv 10 ^ 18 else away_div (v * g) (10 ^ 18))"
proof (cases "0 \<le> v")
  case True
  then show ?thesis using assms by (simp add: sdiv_nonneg)
next
  case False
  then have neg: "v * g \<le> 0" using assms by (simp add: mult_nonpos_nonneg)
  have "- ((\<bar>v * g\<bar> + 10 ^ 18 - 1) div 10 ^ 18) = v * g div 10 ^ 18"
  proof -
    have "(\<bar>v * g\<bar> + 10 ^ 18 - 1) div 10 ^ 18 = - (v * g div 10 ^ 18)"
      using floor_bounds [of "10 ^ 18" "v * g"] neg
      by (intro int_div_pos_eq [where r = "- (v * g) + 10 ^ 18 - 1 + 10 ^ 18 * (v * g div 10 ^ 18)"]) simp_all
    then show ?thesis by simp
  qed
  moreover have "v * g = 0 \<or> v * g < 0" using neg by linarith
  ultimately show ?thesis using False by (auto simp: away_div_def)
qed

text \<open>C21: What feeModuleUtils.ts predicts of the position units. Take the fee percentage that the contract computes and
  the real units that a SetToken reads before an accrual. When the multiplier is still that of a new SetToken,
  getPostFeePositionUnits returns exactly the units that the SetToken reads after accrueFee, default and external,
  whatever their sign. After earlier accruals a predicted default unit is at most one below the contract's, and
  above it by at most one more than the virtual unit's multiples of ten to the 18.\<close>

theorem post_fee_units_predicted:
  assumes "bignumber B" and "openzeppelin Z" and "share_token E" and "pr_sets w S = Some s" and "pr_sets w' S = Some s'"
    and "accrueFee Z E this S w = Inr w'" and "0 < fs_streamingFeePercentage (pr_feeStates w S)"
    and "calculateStreamingFee_sol Z (pr_timestamp w) (pr_feeStates w S) = Inr f"
    and "getDefaultPositionRealUnit Z s c = Inr u" and "getDefaultPositionRealUnit Z s' c = Inr u'"
    and "getExternalPositionRealUnit Z s c m = Inr x" and "getExternalPositionRealUnit Z s' c m = Inr x'"
    and "0 < sint (st_positionMultiplier s)"
  shows "\<exists>t e. getPostFeePositionUnits B [bn_from B (sint u), bn_from B (sint x)] (bn_from B (uint f)) = Some [bn_from B t, bn_from B e] \<and>
    (sint (st_positionMultiplier s) \<noteq> 10 ^ 18 \<or> sint u' = t \<and> sint x' = e) \<and>
    (sint (defaultPositionVirtualUnit s c) < 0 \<or>
      sint u' \<le> t + 1 \<and> t \<le> sint u' + sint (defaultPositionVirtualUnit s c) div 10 ^ 18 + 1)"
proof -
  let ?M = "sint (st_positionMultiplier s)" and ?v = "sint (defaultPositionVirtualUnit s c)"
    and ?y = "sint (externalPositionVirtualUnit s c m)" and ?g = "10 ^ 18 - uint f"
  let ?post = "\<lambda>u. if 0 \<le> u then u * ?g sdiv 10 ^ 18 else away_div (u * ?g) (10 ^ 18)"
  obtain s2 where s2: "pr_sets w' = (pr_sets w)(S \<mapsto> s2)" "uint f < 10 ^ 18"
    "sint (st_positionMultiplier s2) = (?M * ?g) sdiv 10 ^ 18" "st_componentPositions s2 = st_componentPositions s"
    using accrueFee_effect [OF assms(2,3,4,6)] assms(7,8) by (metis Inr_inject)
  then have s': "s2 = s'" "?g > 0" "sint (st_positionMultiplier s') = ?M * ?g div 10 ^ 18"
    using assms(5,13) by (auto simp: sdiv_nonneg)
  note unit = openzeppelin.default_real_unit [OF assms(2)] openzeppelin.external_real_unit [OF assms(2)]
  have u: "sint u = ?v * ?M div 10 ^ 18" "sint u' = ?v * (?M * ?g div 10 ^ 18) div 10 ^ 18"
    using unit(1) [OF assms(9)] unit(1) [OF assms(10)] s' s2(4) by (simp_all add: position_defs)
  have x: "sint x = ?y * ?M div 10 ^ 18" "sint x' = ?y * (?M * ?g div 10 ^ 18) div 10 ^ 18"
    using unit(2) [OF assms(11)] unit(2) [OF assms(12)] s' s2(4) by (simp_all add: position_defs)
  have post: "getPostFeePositionUnits B [bn_from B (sint u), bn_from B (sint x)] (bn_from B (uint f)) =
      Some [bn_from B (?post (sint u)), bn_from B (?post (sint x))]"
    using bignumber.getPostFeePositionUnits_from [OF assms(1), of "[sint u, sint x]" "uint f"] by simp
  have exact: "sint u' = ?post (sint u)" "sint x' = ?post (sint x)" if "?M = 10 ^ 18"
    using one_floor [of ?g ?v] one_floor [of ?g ?y] s'(2) unfolding u x that by simp_all
  have near: "sint u' \<le> ?post (sint u) + 1 \<and> ?post (sint u) \<le> sint u' + ?v div 10 ^ 18 + 1" if "0 \<le> ?v"
  proof -
    have "0 \<le> sint u" using that assms(13) by (simp add: u pos_imp_zdiv_nonneg_iff)
    then have "?post (sint u) = sint u * ?g div 10 ^ 18" using s'(2) by (simp add: sdiv_nonneg)
    then show ?thesis using two_floors [OF that assms(13), of ?g] s'(2) unfolding u by simp
  qed
  show ?thesis
    by (intro exI conjI) (rule post, use exact near in force, use near in force)
qed

text \<open>A year of a fee of two percent on a hundred tokens that hold a component and owe some of it.\<close>

definition fee_set :: "shares set_token" where
  "fee_set = \<lparr>st_manager = 9, st_locker = 0, st_modules = [11], st_moduleStates = (\<lambda>_. NONE)(11 := INITIALIZED),
     st_isLocked = False, st_components = [7],
     st_componentPositions = (\<lambda>_. no_position)(7 := \<lparr>cp_virtualUnit = 2000000, cp_externalPositionModules = [5],
       cp_externalPositions = (\<lambda>_. \<lparr>xp_virtualUnit = 0, xp_data = []\<rparr>)(5 := \<lparr>xp_virtualUnit = - 300001, xp_data = []\<rparr>)\<rparr>),
     st_positionMultiplier = 1000000000000000000,
     st_token = \<lparr>sh_balances = (\<lambda>_. 0)(9 := 98000000000000000000), sh_supply = 98000000000000000000\<rparr>, st_events = []\<rparr>"

definition fee_world :: "(shares, ledger) protocol" where
  "fee_world = \<lparr>pr_controller = (construct_controller 1 2)\<lparr>isSet := (\<lambda>_. False)(100 := True), isModule := (\<lambda>_. False)(11 := True)\<rparr>,
     pr_sets = Map.empty(100 \<mapsto> fee_set), pr_tokens = (\<lambda>_ _. 0), pr_timestamp = 31557600,
     pr_feeStates = (\<lambda>_. no_feeState)(100 := \<lparr>fs_feeRecipient = 3, fs_maxStreamingFeePercentage = 100000000000000000,
       fs_streamingFeePercentage = 20000000000000000, fs_lastStreamingFeeTimestamp = 0\<rparr>),
     pr_managerIssuanceHook = (\<lambda>_. 0), pr_registries = Map.empty, pr_oracles = Map.empty,
     pr_navIssuanceSettings = (\<lambda>_. no_navSettings), pr_isReserveAsset = (\<lambda>_ _. False),
     pr_issuanceSettings = (\<lambda>_ _. no_issuanceSettings), pr_airdropSettings = (\<lambda>_. no_airdropSettings), pr_isAirdrop = (\<lambda>_ _. False), pr_events = []\<rparr>"

definition fee_set_accrued :: "shares set_token" where
  "fee_set_accrued = fee_set\<lparr>st_positionMultiplier := 980000000000000000,
     st_token := \<lparr>sh_balances = (\<lambda>_. 0)(9 := 98000000000000000000, 3 := 2000000000000000000), sh_supply = 100000000000000000000\<rparr>,
     st_events := [PositionMultiplierEdited 980000000000000000]\<rparr>"

lemma fee_world_fee: "calculateStreamingFee_sol checked_oz (pr_timestamp fee_world) (pr_feeStates fee_world 100) = Inr 20000000000000000"
  by (simp add: calculateStreamingFee_sol_def fee_world_def checked_oz_eval ONE_YEAR_IN_SECONDS_sol_def del: and_then_eq_Inr)

lemma fee_world_accrues:
  obtains w' where "accrueFee checked_oz shares_erc20 11 100 fee_world = Inr w'" "pr_sets w' 100 = Some fee_set_accrued"
proof -
  have set: "pr_sets fee_world 100 = Some fee_set" by (simp add: fee_world_def)
  have valid: "validateOnlyValidAndInitializedSet 11 100 fee_world = Inr ()"
    by (simp add: validate_Inr fee_world_def fee_set_def)
  have q: "calculateStreamingFeeInflation_set checked_oz shares_erc20 100 20000000000000000 fee_world = Inr 2000000000000000000"
    by (simp add: calculateStreamingFeeInflation_set_def the_set_def set calculateStreamingFeeInflation_sol_def shares_erc20_def
        fee_set_def checked_oz_eval preciseUnit_def PRECISE_UNIT_u_def del: and_then_eq_Inr)
  let ?minted = "fee_set\<lparr>st_token := \<lparr>sh_balances = (\<lambda>_. 0)(9 := 98000000000000000000, 3 := 2000000000000000000),
    sh_supply = 100000000000000000000\<rparr>\<rparr>"
  let ?w1 = "fee_world\<lparr>pr_sets := (pr_sets fee_world)(100 \<mapsto> ?minted)\<rparr>"
  have m: "mintManagerAndProtocolFee checked_oz shares_erc20 11 100 2000000000000000000 fee_world = Inr ((2000000000000000000, 0), ?w1)"
  proof -
    have "managerAndProtocolFee_sol checked_oz 0 2000000000000000000 = Inr (2000000000000000000, 0)"
      by (simp add: managerAndProtocolFee_sol_def sol_simps PRECISE_UNIT_u_def checked_oz_eval del: and_then_eq_Inr)
    moreover have "mint shares_erc20 (enabled_modules fee_world) 11 3 2000000000000000000 fee_set = Inr ?minted"
      by (simp add: mint_Inr privileged_Inr fee_world_def fee_set_def shares_erc20_def checked_u_def)
    ultimately show ?thesis using set
      by (simp add: mintManagerAndProtocolFee_def getModuleFee_def on_set_def the_set_def) (simp add: fee_world_def construct_controller_def)
  qed
  have k: "newPositionMultiplier_sol checked_oz 1000000000000000000 20000000000000000 = Inr 980000000000000000"
    by (simp add: newPositionMultiplier_sol_def preciseUnit_def sol_simps PRECISE_UNIT_u_def PRECISE_UNIT_INT_def checked_oz_eval del: and_then_eq_Inr)
  have e: "editPositionMultiplier checked_oz (enabled_modules fee_world) 11 980000000000000000 ?minted = Inr fee_set_accrued"
  proof -
    have "getPositionsAbsMinimumVirtualUnit checked_oz ?minted = Inr 300001"
      by (simp add: getPositionsAbsMinimumVirtualUnit_def fee_set_def position_defs smaller_unit_def absoluteValue_def
          checked_oz_eval word_less_def unsigned_minus_1_eq_mask mask_eq_exp_minus_1 del: and_then_eq_Inr)
    moreover have "conservativePreciseMul checked_oz 300001 980000000000000000 = Inr 294000"
      by (simp add: checked_oz.conservativePreciseMul_Inr fits_int_def)
    ultimately show ?thesis
      by (simp add: editPositionMultiplier_def privileged_Inr validateNewMultiplier_def fee_world_def fee_set_def
          fee_set_accrued_def emitted_def)
  qed
  have "editPositionMultiplier_module checked_oz 11 100 20000000000000000 ?w1 =
      Inr (?w1\<lparr>pr_sets := (pr_sets ?w1)(100 \<mapsto> fee_set_accrued)\<rparr>)"
    using k e by (simp add: editPositionMultiplier_module_def the_set_def on_set_def) (simp add: fee_set_def)
  moreover have "0 < fs_streamingFeePercentage (pr_feeStates fee_world 100)" by (simp add: fee_world_def)
  ultimately obtain w' where run: "accrueFee checked_oz shares_erc20 11 100 fee_world = Inr w'"
      and w': "w' = log_event (FeeActualized 100 2000000000000000000 0) (?w1\<lparr>pr_sets := (pr_sets ?w1)(100 \<mapsto> fee_set_accrued),
        pr_feeStates := (pr_feeStates fee_world)(100 := (pr_feeStates fee_world 100)\<lparr>fs_lastStreamingFeeTimestamp := pr_timestamp fee_world\<rparr>)\<rparr>)"
    using valid fee_world_fee q m by (simp add: accrueFee_def)
  have "pr_sets w' 100 = Some fee_set_accrued" unfolding w' log_event_fields by simp
  with run show thesis by (rule that)
qed

lemma fee_set_readings:
  "getDefaultPositionRealUnit checked_oz fee_set 7 = Inr 2000000"
  "getDefaultPositionRealUnit checked_oz fee_set_accrued 7 = Inr 1960000"
  "getExternalPositionRealUnit checked_oz fee_set 7 5 = Inr (- 300001)"
  "getExternalPositionRealUnit checked_oz fee_set_accrued 7 5 = Inr (- 294001)"
  by (simp_all add: getDefaultPositionRealUnit_def getExternalPositionRealUnit_def convertVirtualToRealUnit_def
      checked_oz.conservativePreciseMul_Inr fits_int_def position_defs fee_set_def fee_set_accrued_def)

theorem post_fee_units_predicted_witness:
  "getPostFeePositionUnits int_bn [2000000, - 300001] 20000000000000000 = Some [1960000, - 294001]"
proof -
  obtain w' where run: "accrueFee checked_oz shares_erc20 11 100 fee_world = Inr w'" and s': "pr_sets w' 100 = Some fee_set_accrued"
    using fee_world_accrues .
  have s: "pr_sets fee_world 100 = Some fee_set" "0 < fs_streamingFeePercentage (pr_feeStates fee_world 100)"
    "0 < sint (st_positionMultiplier fee_set)" "sint (st_positionMultiplier fee_set) = 10 ^ 18"
    by (simp_all add: fee_world_def fee_set_def)
  show ?thesis
    using post_fee_units_predicted [OF int_bn.bignumber_axioms checked_oz.openzeppelin_axioms shares.share_token_axioms
        s(1) s' run s(2) fee_world_fee fee_set_readings s(3)] s(4)
    by auto
qed

end
