(* ===== verification/BasicIssuanceModule.thy ===== *)
theory BasicIssuanceModule
  imports StreamingFeeModule
begin

text \<open>
  \<^verbatim>\<open>contracts/protocol/modules/v1/BasicIssuanceModule.sol\<close>: SetTokens are minted against their components and burnt
  for them. The manager's hook is a contract outside the repository: \<open>hooks\<close> is what its call does to the protocol,
  which may be any calls of its own. The lemmas follow the balances of the SetToken through the two loops: the
  invariant is that the supply times the real unit of every component is covered by the balance of the component.
\<close>

subsection \<open>Issuance\<close>

type_synonym ('e, 't) hook_api =
  "address \<Rightarrow> address \<Rightarrow> uint256 \<Rightarrow> address \<Rightarrow> address \<Rightarrow> ('e, 't) protocol \<Rightarrow> revert + ('e, 't) protocol"

definition callPreIssueHooks ::
  "('e, 't) hook_api \<Rightarrow> address \<Rightarrow> uint256 \<Rightarrow> address \<Rightarrow> address \<Rightarrow> ('e, 't) protocol \<Rightarrow> revert + address \<times> ('e, 't) protocol"
where
  "callPreIssueHooks hooks S quantity caller a w =
     (let preIssueHook = pr_managerIssuanceHook w S
      in if preIssueHook \<noteq> 0
         then and_then (hooks preIssueHook S quantity caller a w) (\<lambda>w. Inr (preIssueHook, w))
         else Inr (0, w))"

fun required_units ::
  "oz_api \<Rightarrow> 'e set_token \<Rightarrow> uint256 \<Rightarrow> address list \<Rightarrow> revert + uint256 list"
where
  "required_units Z s quantity [] = Inr []"
| "required_units Z s quantity (c # cs) =
     and_then (require (\<not> hasExternalPosition s c) ''Only default positions are supported'') (\<lambda>_.
     and_then (getDefaultPositionRealUnit Z s c) (\<lambda>u.
     and_then (toUint256 Z u) (\<lambda>unit.
     and_then (preciseMulCeil_u Z unit quantity) (\<lambda>notional.
     and_then (required_units Z s quantity cs) (\<lambda>notionalUnits. Inr (notional # notionalUnits))))))"

definition getRequiredComponentUnitsForIssue ::
  "oz_api \<Rightarrow> address \<Rightarrow> address \<Rightarrow> uint256 \<Rightarrow> ('e, 't) protocol \<Rightarrow> revert + address list \<times> uint256 list"
where
  "getRequiredComponentUnitsForIssue Z this S quantity w =
     and_then (validateOnlyValidAndInitializedSet this S w) (\<lambda>_.
     and_then (the_set S w) (\<lambda>s.
     and_then (required_units Z s quantity (st_components s)) (\<lambda>notionalUnits. Inr (st_components s, notionalUnits))))"

fun deposit_components ::
  "oz_api \<Rightarrow> 't token_api \<Rightarrow> address \<Rightarrow> address \<Rightarrow> address \<Rightarrow> address list \<Rightarrow> uint256 list \<Rightarrow> ('e, 't) protocol \<Rightarrow>
     revert + ('e, 't) protocol"
where
  "deposit_components Z T this sender S [] quantities w = Inr w"
| "deposit_components Z T this sender S (c # cs) [] w = Inl InvalidOpcode"
| "deposit_components Z T this sender S (c # cs) (q # quantities) w =
     and_then (explicit_transferFrom Z T this c sender S q w) (\<lambda>w. deposit_components Z T this sender S cs quantities w)"

text \<open>\<^verbatim>\<open>issue\<close> after the hook has returned.\<close>

definition issue_components ::
  "oz_api \<Rightarrow> 'e erc20_api \<Rightarrow> 't token_api \<Rightarrow> address \<Rightarrow> address \<Rightarrow> address \<Rightarrow> uint256 \<Rightarrow> address \<Rightarrow> address \<Rightarrow>
     ('e, 't) protocol \<Rightarrow> revert + ('e, 't) protocol"
where
  "issue_components Z E T this sender S quantity a hookContract w =
     and_then (getRequiredComponentUnitsForIssue Z this S quantity w) (\<lambda>(components, componentQuantities).
     and_then (deposit_components Z T this sender S components componentQuantities w) (\<lambda>w.
     and_then (on_set S (mint E (enabled_modules w) this a quantity) w) (\<lambda>w.
       Inr (log_event (SetTokenIssued S sender a hookContract quantity) w))))"

definition issue ::
  "oz_api \<Rightarrow> 'e erc20_api \<Rightarrow> 't token_api \<Rightarrow> ('e, 't) hook_api \<Rightarrow> address \<Rightarrow> address \<Rightarrow> address \<Rightarrow> uint256 \<Rightarrow> address \<Rightarrow>
     ('e, 't) protocol \<Rightarrow> revert + ('e, 't) protocol"
where
  "issue Z E T hooks this sender S quantity a w =
     and_then (validateOnlyValidAndInitializedSet this S w) (\<lambda>_.
     and_then (require (0 < quantity) ''Issue quantity must be > 0'') (\<lambda>_.
     and_then (callPreIssueHooks hooks S quantity sender a w) (\<lambda>(hookContract, w).
       issue_components Z E T this sender S quantity a hookContract w)))"

subsection \<open>Redemption\<close>

fun withdraw_components ::
  "oz_api \<Rightarrow> 't token_api \<Rightarrow> address \<Rightarrow> address \<Rightarrow> uint256 \<Rightarrow> address \<Rightarrow> address list \<Rightarrow> ('e, 't) protocol \<Rightarrow>
     revert + ('e, 't) protocol"
where
  "withdraw_components Z T this S quantity a [] w = Inr w"
| "withdraw_components Z T this S quantity a (c # cs) w =
     and_then (the_set S w) (\<lambda>s.
     and_then (require (\<not> hasExternalPosition s c) ''Only default positions are supported'') (\<lambda>_.
     and_then (getDefaultPositionRealUnit Z s c) (\<lambda>u.
     and_then (toUint256 Z u) (\<lambda>unit.
     and_then (preciseMul_u Z quantity unit) (\<lambda>componentQuantity.
     and_then (strictInvokeTransfer Z T this S c a componentQuantity w) (\<lambda>w.
       withdraw_components Z T this S quantity a cs w))))))"

definition redeem ::
  "oz_api \<Rightarrow> 'e erc20_api \<Rightarrow> 't token_api \<Rightarrow> address \<Rightarrow> address \<Rightarrow> address \<Rightarrow> uint256 \<Rightarrow> address \<Rightarrow>
     ('e, 't) protocol \<Rightarrow> revert + ('e, 't) protocol"
where
  "redeem Z E T this sender S quantity a w =
     and_then (validateOnlyValidAndInitializedSet this S w) (\<lambda>_.
     and_then (require (0 < quantity) ''Redeem quantity must be > 0'') (\<lambda>_.
     and_then (on_set S (burn E (enabled_modules w) this sender quantity) w) (\<lambda>w.
     and_then (the_set S w) (\<lambda>s.
     and_then (withdraw_components Z T this S quantity a (st_components s) w) (\<lambda>w.
       Inr (log_event (SetTokenRedeemed S sender a quantity) w))))))"

subsection \<open>Initialization and removal\<close>

definition initialize_issuance ::
  "address \<Rightarrow> address \<Rightarrow> address \<Rightarrow> address \<Rightarrow> ('e, 't) protocol \<Rightarrow> revert + ('e, 't) protocol"
where
  "initialize_issuance this sender S preIssueHook w =
     and_then (validateOnlySetManager S sender w) (\<lambda>_.
     and_then (validateOnlyValidAndPendingSet this S w) (\<lambda>_.
       on_set S (initializeModule this) (w\<lparr>pr_managerIssuanceHook := (pr_managerIssuanceHook w)(S := preIssueHook)\<rparr>)))"

definition removeModule_issuance :: "address \<Rightarrow> ('e, 't) protocol \<Rightarrow> revert + ('e, 't) protocol" where
  "removeModule_issuance sender w = Inl (Revert ''The BasicIssuanceModule module cannot be removed'')"

subsection \<open>The two loops\<close>

definition real_unit :: "'e set_token \<Rightarrow> address \<Rightarrow> int" where
  "real_unit s c = sint (defaultPositionVirtualUnit s c) * sint (st_positionMultiplier s) div 10 ^ 18"

lemma required_units_Inr:
  assumes Z: "openzeppelin Z"
  shows "required_units Z s q cs = Inr ns \<Longrightarrow> length ns = length cs \<and>
    (\<forall>i < length cs. 0 \<le> real_unit s (cs ! i) \<and> \<not> hasExternalPosition s (cs ! i) \<and>
      uint (ns ! i) = (real_unit s (cs ! i) * uint q + 10 ^ 18 - 1) div 10 ^ 18)"
proof (induction cs arbitrary: ns)
  case (Cons c cs)
  then obtain u un n ns' where u: "\<not> hasExternalPosition s c" "getDefaultPositionRealUnit Z s c = Inr u" "toUint256 Z u = Inr un"
    "preciseMulCeil_u Z un q = Inr n" "required_units Z s q cs = Inr ns'" "ns = n # ns'" by auto
  have "sint u = real_unit s c" using openzeppelin.default_real_unit [OF Z u(2)] by (simp add: real_unit_def)
  moreover have "uint un = sint u" using u(3) by (simp add: openzeppelin.toUint256_Inr [OF Z])
  ultimately have "0 \<le> real_unit s c" "uint n = (real_unit s c * uint q + 10 ^ 18 - 1) div 10 ^ 18"
    using u(4) uint_ge_0 [of un] by (simp_all add: openzeppelin.preciseMulCeil_u_Inr [OF Z])
  then show ?case using Cons.IH [OF u(5)] u(1,6) by (auto simp: less_Suc_eq_0_disj)
qed simp

lemma deposit_components_effect:
  assumes Z: "openzeppelin Z" and T: "token_contracts T"
  shows "deposit_components Z T this sender S cs qs w = Inr w' \<Longrightarrow> distinct cs \<Longrightarrow> length qs = length cs \<Longrightarrow>
    \<exists>\<tau>. w' = w\<lparr>pr_tokens := \<tau>\<rparr> \<and>
      (\<forall>i < length cs. uint (tk_balanceOf T (cs ! i) S \<tau>) = uint (tk_balanceOf T (cs ! i) S (pr_tokens w)) + uint (qs ! i)) \<and>
      (\<forall>t h. t \<notin> set cs \<longrightarrow> tk_balanceOf T t h \<tau> = tk_balanceOf T t h (pr_tokens w))"
proof (induction cs arbitrary: qs w)
  case Nil
  then show ?case by (intro exI [of _ "pr_tokens w"]) simp
next
  case (Cons c cs)
  then obtain q qs' where qs: "qs = q # qs'" by (cases qs) auto
  with Cons.prems obtain w1 where w1: "explicit_transferFrom Z T this c sender S q w = Inr w1"
    "deposit_components Z T this sender S cs qs' w1 = Inr w'" by auto
  obtain \<tau>1 where \<tau>1: "w1 = w\<lparr>pr_tokens := \<tau>1\<rparr>" "uint (tk_balanceOf T c S \<tau>1) = uint (tk_balanceOf T c S (pr_tokens w)) + uint q"
    "\<And>t h. t \<noteq> c \<Longrightarrow> tk_balanceOf T t h \<tau>1 = tk_balanceOf T t h (pr_tokens w)"
    using explicit_transferFrom_effect [OF Z T w1(1)] by blast
  obtain \<tau> where \<tau>: "w' = w1\<lparr>pr_tokens := \<tau>\<rparr>"
    "\<forall>i < length cs. uint (tk_balanceOf T (cs ! i) S \<tau>) = uint (tk_balanceOf T (cs ! i) S \<tau>1) + uint (qs' ! i)"
    "\<forall>t h. t \<notin> set cs \<longrightarrow> tk_balanceOf T t h \<tau> = tk_balanceOf T t h \<tau>1"
    using Cons.IH [OF w1(2)] Cons.prems qs \<tau>1(1) by auto
  have "cs ! i \<noteq> c" if "i < length cs" for i using that Cons.prems(2) by (auto simp: nth_mem)
  then show ?case using \<tau> \<tau>1 Cons.prems(2) qs by (intro exI [of _ \<tau>]) (auto simp: less_Suc_eq_0_disj)
qed

lemma withdraw_components_effect:
  assumes Z: "openzeppelin Z" and T: "token_contracts T"
  shows "withdraw_components Z T this S q a cs w = Inr w' \<Longrightarrow> pr_sets w S = Some s \<Longrightarrow> distinct cs \<Longrightarrow>
    \<exists>\<tau> es. w' = w\<lparr>pr_tokens := \<tau>, pr_sets := (pr_sets w)(S \<mapsto> s\<lparr>st_events := es\<rparr>)\<rparr> \<and>
      (\<forall>c \<in> set cs. 0 \<le> real_unit s c \<and> \<not> hasExternalPosition s c \<and>
        uint (tk_balanceOf T c S \<tau>) = uint (tk_balanceOf T c S (pr_tokens w)) - uint q * real_unit s c div 10 ^ 18) \<and>
      (\<forall>t h. t \<notin> set cs \<longrightarrow> tk_balanceOf T t h \<tau> = tk_balanceOf T t h (pr_tokens w))"
proof (induction cs arbitrary: w s)
  case Nil
  then show ?case by (intro exI [of _ "pr_tokens w"] exI [of _ "st_events s"]) (simp add: fun_upd_idem)
next
  case (Cons c cs)
  then obtain u un n w1 where u: "\<not> hasExternalPosition s c" "getDefaultPositionRealUnit Z s c = Inr u" "toUint256 Z u = Inr un"
    "preciseMul_u Z q un = Inr n" "strictInvokeTransfer Z T this S c a n w = Inr w1"
    "withdraw_components Z T this S q a cs w1 = Inr w'" by (auto simp: the_set_Inr)
  have "sint u = real_unit s c" using openzeppelin.default_real_unit [OF Z u(2)] by (simp add: real_unit_def)
  moreover have "uint un = sint u" using u(3) by (simp add: openzeppelin.toUint256_Inr [OF Z])
  ultimately have n: "0 \<le> real_unit s c" "uint n = uint q * real_unit s c div 10 ^ 18"
    using u(4) uint_ge_0 [of un] by (simp_all add: openzeppelin.preciseMul_u_Inr [OF Z])
  obtain \<tau>1 es1 where \<tau>1: "w1 = w\<lparr>pr_tokens := \<tau>1, pr_sets := (pr_sets w)(S \<mapsto> s\<lparr>st_events := es1\<rparr>)\<rparr>"
    "uint (tk_balanceOf T c S \<tau>1) = uint (tk_balanceOf T c S (pr_tokens w)) - uint n"
    "\<And>t h. t \<noteq> c \<Longrightarrow> tk_balanceOf T t h \<tau>1 = tk_balanceOf T t h (pr_tokens w)"
    using strictInvokeTransfer_effect [OF Z T u(5) Cons.prems(2)] by blast
  have unit1: "real_unit (s\<lparr>st_events := es1\<rparr>) = real_unit s" "hasExternalPosition (s\<lparr>st_events := es1\<rparr>) = hasExternalPosition s"
    by (simp_all add: fun_eq_iff real_unit_def hasExternalPosition_def position_defs)
  have w1: "pr_sets w1 S = Some (s\<lparr>st_events := es1\<rparr>)" "pr_tokens w1 = \<tau>1" "distinct cs" using \<tau>1(1) Cons.prems(3) by simp_all
  obtain \<tau> es where \<tau>: "w' = w1\<lparr>pr_tokens := \<tau>, pr_sets := (pr_sets w1)(S \<mapsto> s\<lparr>st_events := es1\<rparr>\<lparr>st_events := es\<rparr>)\<rparr>"
    "\<forall>c \<in> set cs. 0 \<le> real_unit s c \<and> \<not> hasExternalPosition s c \<and>
        uint (tk_balanceOf T c S \<tau>) = uint (tk_balanceOf T c S \<tau>1) - uint q * real_unit s c div 10 ^ 18"
    "\<forall>t h. t \<notin> set cs \<longrightarrow> tk_balanceOf T t h \<tau> = tk_balanceOf T t h \<tau>1"
    using Cons.IH [OF u(6) w1(1) w1(3), unfolded unit1 w1(2)] by blast
  have "w' = w\<lparr>pr_tokens := \<tau>, pr_sets := (pr_sets w)(S \<mapsto> s\<lparr>st_events := es\<rparr>)\<rparr>" by (simp add: \<tau>(1) \<tau>1(1))
  moreover have "0 \<le> real_unit s c' \<and> \<not> hasExternalPosition s c' \<and>
      uint (tk_balanceOf T c' S \<tau>) = uint (tk_balanceOf T c' S (pr_tokens w)) - uint q * real_unit s c' div 10 ^ 18"
    if "c' \<in> set (c # cs)" for c'
  proof (cases "c' = c")
    case True
    then show ?thesis using \<tau>(3) \<tau>1(2) n u(1) Cons.prems(3) by simp
  next
    case False
    then show ?thesis using \<tau>(2) \<tau>1(3) [of c' S] that by simp
  qed
  moreover have "tk_balanceOf T t h \<tau> = tk_balanceOf T t h (pr_tokens w)" if "t \<notin> set (c # cs)" for t h
    using \<tau>(3) \<tau>1(3) that by simp
  ultimately show ?case by blast
qed

end
