(* ===== verification/Solvency.thy ===== *)
theory Solvency
  imports BasicIssuanceModule
begin

text \<open>
  Whether a SetToken holds what it owes: for every component, the supply times the unit, against the balance. The
  predicate \<open>solvent\<close> says it of a state, at the units that are read (\<open>backed\<close>) and at the units before
  rounding (\<open>nearly_backed\<close>); the lemmas show it for each step of the BasicIssuanceModule, the StreamingFeeModule
  and the Position library.
\<close>

subsection \<open>What is owed and what is held\<close>

definition total_supply :: "'e erc20_api \<Rightarrow> 'e set_token \<Rightarrow> int" where
  "total_supply E s = uint (er_totalSupply E (st_token s))"

definition exact_unit :: "'e set_token \<Rightarrow> address \<Rightarrow> int" where
  "exact_unit s c = sint (defaultPositionVirtualUnit s c) * sint (st_positionMultiplier s)"

definition held :: "'t token_api \<Rightarrow> address \<Rightarrow> 't \<Rightarrow> address \<Rightarrow> int" where
  "held T S \<tau> c = uint (tk_balanceOf T c S \<tau>)"

text \<open>The supply at the real units that the SetToken reads is covered.\<close>

definition backed :: "'e erc20_api \<Rightarrow> 't token_api \<Rightarrow> address \<Rightarrow> 't \<Rightarrow> 'e set_token \<Rightarrow> address \<Rightarrow> bool" where
  "backed E T S \<tau> s c \<longleftrightarrow> total_supply E s * real_unit s c \<le> held T S \<tau> c * 10 ^ 18"

text \<open>The supply at the units before rounding is covered up to one base unit for every token issued (\<open>n\<close>).\<close>

definition nearly_backed :: "'e erc20_api \<Rightarrow> 't token_api \<Rightarrow> address \<Rightarrow> 't \<Rightarrow> int \<Rightarrow> 'e set_token \<Rightarrow> address \<Rightarrow> bool" where
  "nearly_backed E T S \<tau> n s c \<longleftrightarrow> total_supply E s * exact_unit s c \<le> (held T S \<tau> c * 10 ^ 18 + n) * 10 ^ 18"

subsection \<open>Arithmetic of one component\<close>

lemma real_unit_bounds: "real_unit s c * 10 ^ 18 \<le> exact_unit s c" "exact_unit s c < (real_unit s c + 1) * 10 ^ 18"
  using floor_bounds [of "10 ^ 18" "exact_unit s c"] by (simp_all add: real_unit_def exact_unit_def)

lemma issue_backed_int:
  fixes N q u B :: int
  assumes "N * u \<le> B * 10 ^ 18"
  shows "(N + q) * u \<le> (B + (u * q + 10 ^ 18 - 1) div 10 ^ 18) * 10 ^ 18"
proof -
  have "u * q \<le> (u * q + 10 ^ 18 - 1) div 10 ^ 18 * 10 ^ 18"
    using floor_bounds(2) [of "10 ^ 18" "u * q + 10 ^ 18 - 1"] by simp
  with assms show ?thesis by (simp add: algebra_simps)
qed

lemma issue_nearly_backed_int:
  fixes N q u X B n :: int
  assumes "N * X \<le> (B * 10 ^ 18 + n) * 10 ^ 18" "X < (u + 1) * 10 ^ 18" "0 \<le> q"
  shows "(N + q) * X \<le> ((B + (u * q + 10 ^ 18 - 1) div 10 ^ 18) * 10 ^ 18 + (n + q)) * 10 ^ 18"
proof -
  have "u * q \<le> (u * q + 10 ^ 18 - 1) div 10 ^ 18 * 10 ^ 18"
    using floor_bounds(2) [of "10 ^ 18" "u * q + 10 ^ 18 - 1"] by simp
  moreover have "q * X \<le> q * ((u + 1) * 10 ^ 18)" using assms(2,3) by (intro mult_left_mono) simp_all
  ultimately show ?thesis using assms(1) by (simp add: algebra_simps)
qed

lemma redeem_backed_int:
  fixes N q u B :: int
  assumes "N * u \<le> B * 10 ^ 18"
  shows "(N - q) * u \<le> (B - q * u div 10 ^ 18) * 10 ^ 18"
  using assms floor_bounds(1) [of "10 ^ 18" "q * u"] by (simp add: algebra_simps)

lemma redeem_nearly_backed_int:
  fixes N q u X B n :: int
  assumes "N * X \<le> (B * 10 ^ 18 + n) * 10 ^ 18" "u * 10 ^ 18 \<le> X" "0 \<le> q"
  shows "(N - q) * X \<le> ((B - q * u div 10 ^ 18) * 10 ^ 18 + n) * 10 ^ 18"
proof -
  have "q * u div 10 ^ 18 * 10 ^ 18 \<le> q * u" by (rule floor_bounds) simp
  then have "q * u div 10 ^ 18 * 10 ^ 18 * 10 ^ 18 \<le> q * u * 10 ^ 18" by (intro mult_right_mono) simp_all
  also have "\<dots> \<le> q * X" using mult_left_mono [OF assms(2,3)] by (simp add: mult.assoc)
  finally show ?thesis using assms(1) by (simp add: algebra_simps)
qed

lemma accrue_nearly_backed_int:
  fixes N M v f D :: int
  assumes "N * (v * M) \<le> D" "0 \<le> f" "f < 10 ^ 18" "0 \<le> N" "0 \<le> M" "0 \<le> v"
  shows "(N + f * N div (10 ^ 18 - f)) * (v * (M * (10 ^ 18 - f) div 10 ^ 18)) \<le> D"
proof -
  have "(M * (10 ^ 18 - f) div 10 ^ 18) * (N + f * N div (10 ^ 18 - f)) * v \<le> M * N * v"
    using post_fee_collateral [OF assms(2-5)] assms(6) by (rule mult_right_mono)
  with assms(1) show ?thesis by (simp add: ac_simps)
qed

text \<open>What every step keeps.\<close>

definition solvent ::
  "'e erc20_api \<Rightarrow> 't token_api \<Rightarrow> address \<Rightarrow> int \<Rightarrow> bool \<Rightarrow> 't \<Rightarrow> 'e set_token \<Rightarrow> bool"
where
  "solvent E T S n exact \<tau> s \<longleftrightarrow> positions_inv s \<and> 0 \<le> n \<and>
     (\<forall>c \<in> set (st_components s). nearly_backed E T S \<tau> n s c \<and> (exact \<longrightarrow> backed E T S \<tau> s c))"

lemma positions_inv_same:
  assumes "positions_inv s" "st_components s' = st_components s" "st_componentPositions s' = st_componentPositions s"
    "st_positionMultiplier s' = st_positionMultiplier s" "set_token_inv s'"
  shows "positions_inv s'"
proof -
  have "alive_unit s' = alive_unit s" using assms(4) by (simp add: alive_unit_def fun_eq_iff)
  with assms show ?thesis by (simp add: positions_inv_def position_defs)
qed

lemma set_token_inv_same:
  "set_token_inv s \<Longrightarrow> st_components s' = st_components s \<Longrightarrow> st_componentPositions s' = st_componentPositions s \<Longrightarrow>
   st_positionMultiplier s' = st_positionMultiplier s \<Longrightarrow> st_modules s' = st_modules s \<Longrightarrow> st_moduleStates s' = st_moduleStates s \<Longrightarrow>
   st_isLocked s' = st_isLocked s \<Longrightarrow> st_locker s' = st_locker s \<Longrightarrow> set_token_inv s'"
  by (simp add: set_token_inv_def position_defs)

lemma solvent_same:
  assumes "solvent E T S n exact \<tau> s" and "positions_inv s'" and "st_components s' = st_components s"
    and "defaultPositionVirtualUnit s' = defaultPositionVirtualUnit s" "st_positionMultiplier s' = st_positionMultiplier s"
    and "er_totalSupply E (st_token s') = er_totalSupply E (st_token s)"
    and "\<forall>t. tk_balanceOf T t S \<tau> \<le> tk_balanceOf T t S \<tau>'"
  shows "solvent E T S n exact \<tau>' s'"
proof -
  have same: "real_unit s' = real_unit s" "exact_unit s' = exact_unit s" "total_supply E s' = total_supply E s"
    using assms(3-6) by (simp_all add: real_unit_def exact_unit_def total_supply_def fun_eq_iff)
  have "held T S \<tau> c \<le> held T S \<tau>' c" for c using assms(7) by (simp add: held_def word_le_def)
  then have "held T S \<tau> c * 10 ^ 18 \<le> held T S \<tau>' c * 10 ^ 18" for c by simp
  then show ?thesis using assms(1-3)
    by (fastforce simp: solvent_def nearly_backed_def backed_def same intro: order_trans)
qed

subsection \<open>The steps\<close>

lemma solventD:
  assumes "solvent E T S n exact \<tau> s"
  shows "positions_inv s" "0 \<le> n"
    "c \<in> set (st_components s) \<Longrightarrow> total_supply E s * exact_unit s c \<le> (held T S \<tau> c * 10 ^ 18 + n) * 10 ^ 18"
    "c \<in> set (st_components s) \<Longrightarrow> exact \<Longrightarrow> total_supply E s * real_unit s c \<le> held T S \<tau> c * 10 ^ 18"
  using assms by (simp_all add: solvent_def nearly_backed_def backed_def)

lemma solvent_new:
  assumes "construct_set_token cs units ms newManager token = Inr s" "distinct cs" "length units = length cs"
    "\<forall>u \<in> set units. 0 < sint u" "er_totalSupply E token = 0"
  shows "solvent E T S 0 True \<tau> s"
proof -
  have "st_token s = token" using assms(1) by (auto simp: construct_set_token_def)
  then have "total_supply E s = 0" using assms(5) by (simp add: total_supply_def)
  then show ?thesis using constructed_positions_inv [OF assms(1-4)]
    by (simp add: solvent_def nearly_backed_def backed_def held_def)
qed

text \<open>Deposits, rounded up, for a quantity \<open>q\<close> of which at most as much is minted; withdrawals, rounded down, for a quantity of
  which at least as much is burnt.\<close>

lemma solvent_deposited:
  assumes inv: "solvent E T S n exact \<tau> s" and s': "s' = s\<lparr>st_token := e, st_events := es\<rparr>"
    and minted: "uint (er_totalSupply E e) \<le> uint (er_totalSupply E (st_token s)) + q" and q: "0 \<le> q"
    and bal: "\<And>c. c \<in> set (st_components s) \<Longrightarrow> 0 \<le> real_unit s c \<and> held T S \<tau>' c = held T S \<tau> c + (real_unit s c * q + 10 ^ 18 - 1) div 10 ^ 18"
  shows "solvent E T S (n + q) exact \<tau>' s'"
proof -
  note pinv = solventD(1) [OF inv]
  have same: "real_unit s' = real_unit s" "exact_unit s' = exact_unit s" "st_components s' = st_components s"
    by (simp_all add: s' real_unit_def exact_unit_def position_defs fun_eq_iff)
  have N: "total_supply E s' \<le> total_supply E s + q" using minted by (simp add: total_supply_def s')
  have "positions_inv s'" by (rule positions_inv_same [OF pinv])
      (use positions_invD(1) [OF pinv] in \<open>simp_all add: s' set_token_inv_same [of s]\<close>)
  moreover have "nearly_backed E T S \<tau>' (n + q) s' c \<and> (exact \<longrightarrow> backed E T S \<tau>' s' c)" if c: "c \<in> set (st_components s)" for c
  proof -
    have "0 \<le> real_unit s c" using bal [OF c] by simp
    then have "0 \<le> exact_unit s c" by (intro order_trans [OF _ real_unit_bounds(1)]) simp
    then have le: "total_supply E s' * exact_unit s c \<le> (total_supply E s + q) * exact_unit s c"
      "total_supply E s' * real_unit s c \<le> (total_supply E s + q) * real_unit s c"
      using \<open>0 \<le> real_unit s c\<close> N by (auto intro: mult_right_mono)
    show ?thesis unfolding nearly_backed_def backed_def same conjunct2 [OF bal [OF c]]
      using order_trans [OF le(1) issue_nearly_backed_int [OF solventD(3) [OF inv c] real_unit_bounds(2) q]]
        order_trans [OF le(2) issue_backed_int [OF solventD(4) [OF inv c]]] by blast
  qed
  ultimately show ?thesis using solventD(2) [OF inv] q by (simp add: solvent_def same)
qed

lemma solvent_withdrawn:
  assumes inv: "solvent E T S n exact \<tau> s" and s': "s' = s\<lparr>st_token := e, st_events := es\<rparr>"
    and burnt: "uint (er_totalSupply E e) \<le> uint (er_totalSupply E (st_token s)) - q" and q: "0 \<le> q"
    and bal: "\<And>c. c \<in> set (st_components s) \<Longrightarrow> 0 \<le> real_unit s c \<and> held T S \<tau>' c = held T S \<tau> c - q * real_unit s c div 10 ^ 18"
  shows "solvent E T S n exact \<tau>' s'"
proof -
  note pinv = solventD(1) [OF inv]
  have same: "real_unit s' = real_unit s" "exact_unit s' = exact_unit s" "st_components s' = st_components s"
    by (simp_all add: s' real_unit_def exact_unit_def position_defs fun_eq_iff)
  have N: "total_supply E s' \<le> total_supply E s - q" using burnt by (simp add: total_supply_def s')
  have "positions_inv s'" by (rule positions_inv_same [OF pinv])
      (use positions_invD(1) [OF pinv] in \<open>simp_all add: s' set_token_inv_same [of s]\<close>)
  moreover have "nearly_backed E T S \<tau>' n s' c \<and> (exact \<longrightarrow> backed E T S \<tau>' s' c)" if c: "c \<in> set (st_components s)" for c
  proof -
    have "0 \<le> real_unit s c" using bal [OF c] by simp
    then have "0 \<le> exact_unit s c" by (intro order_trans [OF _ real_unit_bounds(1)]) simp
    then have le: "total_supply E s' * exact_unit s c \<le> (total_supply E s - q) * exact_unit s c"
      "total_supply E s' * real_unit s c \<le> (total_supply E s - q) * real_unit s c"
      using \<open>0 \<le> real_unit s c\<close> N by (auto intro: mult_right_mono)
    show ?thesis unfolding nearly_backed_def backed_def same conjunct2 [OF bal [OF c]]
      using order_trans [OF le(1) redeem_nearly_backed_int [OF solventD(3) [OF inv c] real_unit_bounds(1) q]]
        order_trans [OF le(2) redeem_backed_int [OF solventD(4) [OF inv c]]] by blast
  qed
  ultimately show ?thesis using solventD(2) [OF inv] q by (simp add: solvent_def same)
qed

lemma solvent_issue:
  assumes Z: "openzeppelin Z" and E: "share_token E" and T: "token_contracts T"
    and run: "issue_components Z E T this sender S q a hook w = Inr w'"
    and s: "pr_sets w S = Some s" and inv: "solvent E T S n exact (pr_tokens w) s"
  shows "\<exists>s'. pr_sets w' S = Some s' \<and> solvent E T S (n + uint q) exact (pr_tokens w') s'"
proof -
  let ?cs = "st_components s"
  from run s obtain ns w1 w2 where ns: "required_units Z s q ?cs = Inr ns"
    and w1: "deposit_components Z T this sender S ?cs ns w = Inr w1"
    and w2: "on_set S (mint E (enabled_modules w1) this a q) w1 = Inr w2" and w': "w' = log_event (SetTokenIssued S sender a hook q) w2"
    by (auto simp: issue_components_def getRequiredComponentUnitsForIssue_def the_set_Inr)
  note units = required_units_Inr [OF Z ns] and dist = positions_invD(3) [OF solventD(1) [OF inv]]
  obtain \<tau> where \<tau>: "w1 = w\<lparr>pr_tokens := \<tau>\<rparr>"
    "\<forall>i < length ?cs. uint (tk_balanceOf T (?cs ! i) S \<tau>) = uint (tk_balanceOf T (?cs ! i) S (pr_tokens w)) + uint (ns ! i)"
    using deposit_components_effect [OF Z T w1 dist] units by blast
  obtain e where e: "er_mint E a q (st_token s) = Inr e" "w2 = w1\<lparr>pr_sets := (pr_sets w1)(S \<mapsto> s\<lparr>st_token := e\<rparr>)\<rparr>"
    using w2 s \<tau>(1) by (auto simp: on_set_Inr mint_Inr)
  have "solvent E T S (n + uint q) exact \<tau> (s\<lparr>st_token := e, st_events := st_events s\<rparr>)"
  proof (rule solvent_deposited [OF inv refl])
    show "0 \<le> real_unit s c \<and> held T S \<tau> c = held T S (pr_tokens w) c + (real_unit s c * uint q + 10 ^ 18 - 1) div 10 ^ 18"
      if "c \<in> set ?cs" for c using that \<tau>(2) units by (auto simp: in_set_conv_nth held_def)
  qed (use share_token.mint_supply [OF E e(1)] in simp_all)
  then show ?thesis by (simp add: w' e(2) \<tau>(1))
qed

lemma solvent_redeem:
  assumes Z: "openzeppelin Z" and E: "share_token E" and T: "token_contracts T"
    and run: "redeem Z E T this sender S q a w = Inr w'"
    and s: "pr_sets w S = Some s" and inv: "solvent E T S n exact (pr_tokens w) s"
  shows "\<exists>s'. pr_sets w' S = Some s' \<and> solvent E T S n exact (pr_tokens w') s'"
proof -
  let ?cs = "st_components s"
  from run obtain w1 s1 w2 where w1: "on_set S (burn E (enabled_modules w) this sender q) w = Inr w1"
    and s1: "pr_sets w1 S = Some s1" and w2: "withdraw_components Z T this S q a (st_components s1) w1 = Inr w2"
    and w': "w' = log_event (SetTokenRedeemed S sender a q) w2"
    by (auto simp: redeem_def the_set_Inr)
  obtain e where e: "er_burn E sender q (st_token s) = Inr e" "w1 = w\<lparr>pr_sets := (pr_sets w)(S \<mapsto> s\<lparr>st_token := e\<rparr>)\<rparr>"
    using w1 s by (auto simp: on_set_Inr burn_def)
  then have s1_eq: "s1 = s\<lparr>st_token := e\<rparr>" using s1 by simp
  have dist: "distinct (st_components s1)" using positions_invD(3) [OF solventD(1) [OF inv]] by (simp add: s1_eq)
  obtain \<tau> es where \<tau>: "w2 = w1\<lparr>pr_tokens := \<tau>, pr_sets := (pr_sets w1)(S \<mapsto> s1\<lparr>st_events := es\<rparr>)\<rparr>"
    "\<forall>c \<in> set (st_components s1). 0 \<le> real_unit s1 c \<and>
       uint (tk_balanceOf T c S \<tau>) = uint (tk_balanceOf T c S (pr_tokens w1)) - uint q * real_unit s1 c div 10 ^ 18"
    using withdraw_components_effect [OF Z T w2 s1 dist] by blast
  have "solvent E T S n exact \<tau> (s\<lparr>st_token := e, st_events := es\<rparr>)"
  proof (rule solvent_withdrawn [OF inv refl, where q = "uint q"])
    show "0 \<le> real_unit s c \<and> held T S \<tau> c = held T S (pr_tokens w) c - uint q * real_unit s c div 10 ^ 18" if "c \<in> set ?cs" for c
      using that \<tau>(2) e(2) by (simp add: held_def s1_eq real_unit_def position_defs)
  qed (use share_token.burn_supply [OF E e(1)] in simp_all)
  then show ?thesis by (simp add: w' \<tau>(1) s1_eq)
qed

lemma solvent_accrue:
  assumes Z: "openzeppelin Z" and E: "share_token E" and run: "accrueFee Z E this S w = Inr w'"
    and s: "pr_sets w S = Some s" and inv: "solvent E T S n exact (pr_tokens w) s"
  shows "\<exists>s'. pr_sets w' S = Some s' \<and> solvent E T S n False (pr_tokens w') s'"
proof -
  note pinv = solventD(1) [OF inv]
  obtain f s' where f: "pr_sets w' = (pr_sets w)(S \<mapsto> s')" "pr_tokens w' = pr_tokens w" "0 \<le> f" "f < 10 ^ 18"
    "total_supply E s' = total_supply E s + f * total_supply E s div (10 ^ 18 - f)"
    "sint (st_positionMultiplier s') = (sint (st_positionMultiplier s) * (10 ^ 18 - f)) sdiv 10 ^ 18"
    "st_components s' = st_components s" "st_componentPositions s' = st_componentPositions s"
    "s' = s \<or> (\<exists>k e. editPositionMultiplier Z (enabled_modules w) this k (s\<lparr>st_token := e\<rparr>) = Inr s')"
    using accrueFee_effect [OF Z E s run] unfolding total_supply_def by metis
  have token_inv: "positions_inv (s\<lparr>st_token := e\<rparr>)" for e
    by (rule positions_inv_same [OF pinv]) (use positions_invD(1) [OF pinv] in \<open>simp_all add: set_token_inv_same [of s]\<close>)
  have "positions_inv s'" using f(9) editPositionMultiplier_inv [OF Z token_inv] pinv by blast
  moreover have "nearly_backed E T S (pr_tokens w) n s' c" if c: "c \<in> set (st_components s)" for c
  proof -
    let ?v = "sint (defaultPositionVirtualUnit s c)" and ?M = "sint (st_positionMultiplier s)"
    have "total_supply E s * (?v * ?M) \<le> (held T S (pr_tokens w) c * 10 ^ 18 + n) * 10 ^ 18"
      using solventD(3) [OF inv c] by (simp add: exact_unit_def)
    then have "(total_supply E s + f * total_supply E s div (10 ^ 18 - f)) * (?v * (?M * (10 ^ 18 - f) div 10 ^ 18)) \<le>
        (held T S (pr_tokens w) c * 10 ^ 18 + n) * 10 ^ 18"
      using f(3,4) positions_invD(2,5) [OF pinv] by (intro accrue_nearly_backed_int) (simp_all add: total_supply_def less_imp_le)
    moreover have "exact_unit s' c = ?v * (?M * (10 ^ 18 - f) div 10 ^ 18)"
      using f(4,6,8) positions_invD(2) [OF pinv] by (simp add: exact_unit_def position_defs sdiv_nonneg)
    ultimately show ?thesis by (simp add: nearly_backed_def f(5))
  qed
  ultimately show ?thesis using f(1,2,7) solventD(2) [OF inv] by (auto simp: solvent_def)
qed

lemma calculated_unit_covered:
  assumes Z: "openzeppelin Z" and "calculateDefaultEditPositionUnit Z supply0 prev bal pre = Inr new"
  shows "uint supply0 * uint new \<le> uint bal * 10 ^ 18"
proof -
  note oz = openzeppelin.um_sub_Inr [OF Z] openzeppelin.preciseDiv_u_Inr [OF Z]
  from assms(2) obtain tracked air rest where "um_sub Z prev tracked = Inr air" "um_sub Z bal air = Inr rest"
    "preciseDiv_u Z rest supply0 = Inr new" by (auto simp: calculateDefaultEditPositionUnit_def)
  then have rest: "uint rest = uint bal - uint air" "supply0 \<noteq> 0" "uint new = uint rest * 10 ^ 18 div uint supply0"
    by (simp_all add: oz)
  have "uint supply0 * uint new \<le> uint rest * 10 ^ 18"
    using pos_mod_sign [of "uint supply0" "uint rest * 10 ^ 18"] rest(2) unfolding rest(3)
    by (simp add: minus_mod_eq_mult_div [symmetric] uint_pos)
  also have "\<dots> \<le> uint bal * 10 ^ 18" unfolding rest(1) by simp
  finally show ?thesis .
qed

lemma edited_exact_unit:
  assumes Z: "openzeppelin Z" and inv: "positions_inv s" and run: "editDefaultPosition Z enabled sender c newUnit s = Inr s'"
  shows "exact_unit s' c \<le> uint newUnit * 10 ^ 18"
proof -
  from run obtain s1 u v where u: "toInt256 Z newUnit = Inr u" and v: "convertRealToVirtualUnit Z s1 u = Inr v"
    and s': "s' = emitted (DefaultPositionUnitEdited c u) (with_position c (\<lambda>p. p\<lparr>cp_virtualUnit := v\<rparr>) s1)"
    by (auto simp: editDefaultPosition_def editDefaultPositionUnit_def)
  have "st_positionMultiplier s' = st_positionMultiplier s"
    using editDefaultPosition_at(1) [OF Z inv run] by (simp add: only_at_def)
  then have M: "0 < sint (st_positionMultiplier s1)" using positions_invD(2) [OF inv] by (simp add: s')
  have "sint v = sint u * 10 ^ 18 div sint (st_positionMultiplier s1)"
    using v by (auto simp: convertRealToVirtualUnit_def openzeppelin.conservativePreciseDiv_Inr [OF Z] split: if_splits)
  then have "sint v * sint (st_positionMultiplier s1) \<le> sint u * 10 ^ 18" using floor_bounds(1) [OF M] by simp
  then show ?thesis using u by (simp add: exact_unit_def s' position_defs openzeppelin.toInt256_Inr [OF Z])
qed

text \<open>A default position is edited to a unit that the balance covers, and no other balance falls.\<close>

lemma solvent_default_edit:
  assumes Z: "openzeppelin Z" and inv: "solvent E T S n exact \<tau> s"
    and others: "\<forall>t. t \<noteq> c \<longrightarrow> tk_balanceOf T t S \<tau> \<le> tk_balanceOf T t S \<tau>'"
    and covered: "total_supply E s * uint new \<le> held T S \<tau>' c * 10 ^ 18"
    and edit: "editDefaultPosition Z enabled sender c new s = Inr s'"
  shows "solvent E T S n exact \<tau>' s'"
proof -
  note pinv = solventD(1) [OF inv]
  have only: "only_at c s s'" and pinv': "positions_inv s'"
    using editDefaultPosition_at(1) [OF Z pinv edit] editDefaultPosition_inv [OF Z pinv edit] by blast+
  then have N: "total_supply E s' = total_supply E s" by (simp add: only_at_def total_supply_def)
  have x: "exact_unit s' c \<le> uint new * 10 ^ 18" by (rule edited_exact_unit [OF Z pinv edit])
  have "real_unit s' c \<le> uint new"
    using zdiv_mono1 [OF x, of "10 ^ 18"] by (simp add: real_unit_def exact_unit_def)
  then have at_c: "backed E T S \<tau>' s' c"
    unfolding backed_def N by (rule order_trans [OF mult_left_mono covered]) (simp add: total_supply_def)
  have "total_supply E s * exact_unit s' c \<le> total_supply E s * (uint new * 10 ^ 18)"
    using x by (intro mult_left_mono) (simp_all add: total_supply_def)
  also have "\<dots> \<le> held T S \<tau>' c * 10 ^ 18 * 10 ^ 18" using mult_right_mono [OF covered, of "10 ^ 18"] by (simp add: ac_simps)
  also have "\<dots> \<le> (held T S \<tau>' c * 10 ^ 18 + n) * 10 ^ 18" using solventD(2) [OF inv] by simp
  finally have near_c: "nearly_backed E T S \<tau>' n s' c" by (simp add: nearly_backed_def N)
  have "nearly_backed E T S \<tau>' n s' d \<and> (exact \<longrightarrow> backed E T S \<tau>' s' d)" if d: "d \<in> set (st_components s')" for d
  proof (cases "d = c")
    case False
    then have "d \<in> set (st_components s)" using d only by (auto simp: only_at_def)
    note was = solventD(3,4) [OF inv this]
    have same: "exact_unit s' d = exact_unit s d" "real_unit s' d = real_unit s d"
      using only False by (simp_all add: only_at_def exact_unit_def real_unit_def position_defs)
    have "held T S \<tau> d * 10 ^ 18 \<le> held T S \<tau>' d * 10 ^ 18" using others False by (simp add: held_def word_le_def)
    then show ?thesis using was by (auto simp: nearly_backed_def backed_def same N intro: order_trans)
  qed (use at_c near_c in simp)
  then show ?thesis using pinv' solventD(2) [OF inv] by (simp add: solvent_def)
qed

lemma solvent_rebalance:
  assumes Z: "openzeppelin Z" and inv: "solvent E T S n exact \<tau> s"
    and others: "\<forall>t. t \<noteq> c \<longrightarrow> tk_balanceOf T t S \<tau> \<le> tk_balanceOf T t S \<tau>'"
    and run: "calculateAndEditDefaultPosition Z enabled sender (tk_balanceOf T c S \<tau>') c (er_totalSupply E (st_token s)) prev s =
      Inr (result, s')"
  shows "solvent E T S n exact \<tau>' s'"
proof -
  from run obtain pre new where new: "(if 0 < tk_balanceOf T c S \<tau>'
       then calculateDefaultEditPositionUnit Z (er_totalSupply E (st_token s)) prev (tk_balanceOf T c S \<tau>') pre
       else Inr 0) = Inr new" and edit: "editDefaultPosition Z enabled sender c new s = Inr s'"
    by (auto simp: calculateAndEditDefaultPosition_def)
  have "total_supply E s * uint new \<le> held T S \<tau>' c * 10 ^ 18"
    using new calculated_unit_covered [OF Z] by (auto simp: total_supply_def held_def split: if_splits)
  then show ?thesis by (rule solvent_default_edit [OF Z inv others _ edit])
qed

lemma solvent_external:
  assumes Z: "openzeppelin Z" and inv: "solvent E T S n exact \<tau> s"
    and run: "editExternalPosition Z enabled sender c m u data s = Inr s'"
  shows "solvent E T S n exact \<tau> s'"
proof -
  note pinv = solventD(1) [OF inv]
  have only: "only_at c s s' \<and> defaultPositionVirtualUnit s' c = defaultPositionVirtualUnit s c"
  proof (cases "u = 0")
    case True
    then show ?thesis using editExternalPosition_close(3,4) [OF Z pinv] run by blast
  next
    case False
    then show ?thesis using editExternalPosition_open(1,2) [OF Z pinv False run] by blast
  qed
  have pinv': "positions_inv s'" by (rule editExternalPosition_inv [OF Z pinv run])
  have same: "defaultPositionVirtualUnit s' d = defaultPositionVirtualUnit s d" for d
    using only by (cases "d = c") (simp_all add: only_at_def position_defs)
  have units: "exact_unit s' = exact_unit s" "real_unit s' = real_unit s" "total_supply E s' = total_supply E s"
    using only by (simp_all add: exact_unit_def real_unit_def total_supply_def same fun_eq_iff) (simp_all add: only_at_def)
  have "nearly_backed E T S \<tau> n s' d \<and> (exact \<longrightarrow> backed E T S \<tau> s' d)" if d: "d \<in> set (st_components s')" for d
  proof (cases "d \<in> set (st_components s)")
    case True
    then show ?thesis using solventD(3,4) [OF inv True] by (simp add: nearly_backed_def backed_def units)
  next
    case False
    then have "defaultPositionVirtualUnit s d = 0" using positions_invD(9) [OF pinv] by blast
    then have "exact_unit s d = 0" "real_unit s d = 0" by (simp_all add: exact_unit_def real_unit_def)
    then show ?thesis using solventD(2) [OF inv] by (simp add: nearly_backed_def backed_def units held_def)
  qed
  then show ?thesis using pinv' solventD(2) [OF inv] by (simp add: solvent_def)
qed

lemma solvent_call:
  assumes Z: "openzeppelin Z" and inv: "solvent E T S n exact \<tau> s"
    and run: "simple_set_call Z E enabled sender call s = Inr s'" and "\<not> edits_positions call"
    and "\<forall>x q. call \<noteq> Mint x q \<and> call \<noteq> Burn x q"
  shows "solvent E T S n exact \<tau> s'"
proof -
  have "st_components s' = st_components s \<and> defaultPositionVirtualUnit s' = defaultPositionVirtualUnit s \<and>
      st_positionMultiplier s' = st_positionMultiplier s \<and> st_token s' = st_token s"
    using run assms(4,5) by (cases call) (auto simp: set_ops position_defs fun_eq_iff)
  then show ?thesis using other_calls_inv [OF Z solventD(1) [OF inv] run assms(4)] by (intro solvent_same [OF inv]) simp_all
qed

lemma solvent_remove_module:
  assumes inv: "solvent E T S n exact \<tau> s" and run: "removeModule_effect m s = Inr s'"
  shows "solvent E T S n exact \<tau> s'"
proof -
  obtain ms where ms: "removeStorage (st_modules s) m = Inr ms"
    "s' = emitted (set_event.ModuleRemoved m) (s\<lparr>st_moduleStates := (st_moduleStates s)(m := NONE), st_modules := ms\<rparr>)"
    using run by (auto simp: removeModule_effect_def)
  have "set_token_inv s'" using removeStorage_distinct [OF ms(1)] positions_invD(1) [OF solventD(1) [OF inv]]
    by (auto simp: ms(2) set_token_inv_def position_defs)
  then have "positions_inv s'" by (intro positions_inv_same [OF solventD(1) [OF inv]]) (simp_all add: ms(2))
  then show ?thesis by (rule solvent_same [OF inv]) (simp_all add: ms(2) position_defs fun_eq_iff)
qed

end
