(* ===== verification/SetValuer.thy ===== *)
theory SetValuer
  imports ModuleBase Complex_Main
begin

text \<open>
  \<^verbatim>\<open>contracts/protocol/SetValuer.sol\<close>: the value of a SetToken, or of one of its components, in a quote asset, from
  the prices of the registered PriceOracle. Positions are normalised to 18 decimals and may be negative (debt). The
  specification is the exact value as a real number; the code truncates at each component and once in the quote.
\<close>

subsection \<open>The code\<close>

text \<open>\<open>this\<close> is the address of the valuer, which asks for the prices, and \<open>ca\<close> the address of the Controller.\<close>

definition price_for ::
  "oz_api \<Rightarrow> 't oracle_api \<Rightarrow> address \<Rightarrow> address \<Rightarrow> price_oracle \<Rightarrow> address \<Rightarrow> address \<Rightarrow> ('e, 't) protocol \<Rightarrow> revert + uint256"
where
  "price_for Z R ca this p a b w =
     getPrice Z R (\<lambda>x. isSystemContract ca x (pr_controller w)) this p a b (pr_tokens w)"

definition component_valuation ::
  "oz_api \<Rightarrow> 't token_api \<Rightarrow> 't oracle_api \<Rightarrow> address \<Rightarrow> address \<Rightarrow> price_oracle \<Rightarrow> 'e set_token \<Rightarrow> address \<Rightarrow>
     ('e, 't) protocol \<Rightarrow> revert + int256"
where
  "component_valuation Z T R ca this p s c w =
     and_then (price_for Z R ca this p c (masterQuoteAsset p) w) (\<lambda>componentPrice.
     and_then (getTotalComponentRealUnits Z s c) (\<lambda>aggregateUnits.
     and_then (tk_decimals T c (pr_tokens w)) (\<lambda>unitDecimals.
     let baseUnits = 10 ^ unat unitDecimals
     in and_then (toInt256 Z baseUnits) (\<lambda>baseUnits.
        and_then (preciseDiv_i Z aggregateUnits baseUnits) (\<lambda>normalizedUnits.
        and_then (toInt256 Z componentPrice) (\<lambda>price.
          preciseMul_i Z normalizedUnits price))))))"

fun components_valuation ::
  "oz_api \<Rightarrow> 't token_api \<Rightarrow> 't oracle_api \<Rightarrow> address \<Rightarrow> address \<Rightarrow> price_oracle \<Rightarrow> 'e set_token \<Rightarrow> address list \<Rightarrow> int256 \<Rightarrow>
     ('e, 't) protocol \<Rightarrow> revert + int256"
where
  "components_valuation Z T R ca this p s [] valuation w = Inr valuation"
| "components_valuation Z T R ca this p s (c # cs) valuation w =
     and_then (component_valuation Z T R ca this p s c w) (\<lambda>v.
     and_then (im_add Z v valuation) (\<lambda>valuation. components_valuation Z T R ca this p s cs valuation w))"

definition in_quote ::
  "oz_api \<Rightarrow> 't oracle_api \<Rightarrow> address \<Rightarrow> address \<Rightarrow> price_oracle \<Rightarrow> address \<Rightarrow> int256 \<Rightarrow> ('e, 't) protocol \<Rightarrow> revert + uint256"
where
  "in_quote Z R ca this p quote valuation w =
     and_then (if masterQuoteAsset p \<noteq> quote
       then and_then (price_for Z R ca this p quote (masterQuoteAsset p) w) (\<lambda>quoteToMaster.
         and_then (toInt256 Z quoteToMaster) (\<lambda>q. preciseDiv_i Z valuation q))
       else Inr valuation) (\<lambda>valuation.
     toUint256 Z valuation)"

definition calculateSetTokenValuation ::
  "oz_api \<Rightarrow> 't token_api \<Rightarrow> 't oracle_api \<Rightarrow> address \<Rightarrow> address \<Rightarrow> address \<Rightarrow> address \<Rightarrow> ('e, 't) protocol \<Rightarrow> revert + uint256"
where
  "calculateSetTokenValuation Z T R ca this S quote w =
     and_then (the_oracle (getPriceOracle_res (pr_controller w)) w) (\<lambda>p.
     and_then (the_set S w) (\<lambda>s.
     and_then (components_valuation Z T R ca this p s (st_components s) 0 w) (\<lambda>valuation.
       in_quote Z R ca this p quote valuation w)))"

definition calculateComponentValuation ::
  "oz_api \<Rightarrow> 't token_api \<Rightarrow> 't oracle_api \<Rightarrow> address \<Rightarrow> address \<Rightarrow> address \<Rightarrow> address \<Rightarrow> address \<Rightarrow> ('e, 't) protocol \<Rightarrow>
     revert + uint256"
where
  "calculateComponentValuation Z T R ca this S c quote w =
     and_then (the_set S w) (\<lambda>s.
     and_then (require (isComponent s c) ''Component not in SetToken'') (\<lambda>_.
     and_then (the_oracle (getPriceOracle_res (pr_controller w)) w) (\<lambda>p.
     and_then (component_valuation Z T R ca this p s c w) (\<lambda>valuation.
       in_quote Z R ca this p quote valuation w))))"

subsection \<open>The exact value\<close>

definition answer :: "revert + 'a \<Rightarrow> ('a \<Rightarrow> real) \<Rightarrow> real" where
  "answer r f = (case r of Inl _ \<Rightarrow> 0 | Inr x \<Rightarrow> f x)"

definition exact_value ::
  "oz_api \<Rightarrow> 't token_api \<Rightarrow> 't oracle_api \<Rightarrow> address \<Rightarrow> address \<Rightarrow> price_oracle \<Rightarrow> 'e set_token \<Rightarrow> ('e, 't) protocol \<Rightarrow> address \<Rightarrow> real"
where
  "exact_value Z T R ca this p s w c =
     answer (getTotalComponentRealUnits Z s c) (\<lambda>u.
     answer (price_for Z R ca this p c (masterQuoteAsset p) w) (\<lambda>price.
     answer (tk_decimals T c (pr_tokens w)) (\<lambda>d. real_of_int (sint u) * real_of_int (uint price) / 10 ^ unat d)))"

definition net_asset_value ::
  "oz_api \<Rightarrow> 't token_api \<Rightarrow> 't oracle_api \<Rightarrow> address \<Rightarrow> address \<Rightarrow> price_oracle \<Rightarrow> 'e set_token \<Rightarrow> ('e, 't) protocol \<Rightarrow> real"
where
  "net_asset_value Z T R ca this p s w = sum_list (map (exact_value Z T R ca this p s w) (st_components s))"

text \<open>Units of the master quote asset for a unit of the quote asset.\<close>

definition quote_rate ::
  "oz_api \<Rightarrow> 't oracle_api \<Rightarrow> address \<Rightarrow> address \<Rightarrow> price_oracle \<Rightarrow> address \<Rightarrow> ('e, 't) protocol \<Rightarrow> real"
where
  "quote_rate Z R ca this p quote w =
     (if masterQuoteAsset p = quote then 1
      else answer (price_for Z R ca this p quote (masterQuoteAsset p) w) (\<lambda>q. real_of_int (uint q) / 10 ^ 18))"

lemma answer_Inr [simp]: "answer (Inr x) f = f x"
  by (simp add: answer_def)

lemma sdiv_real:
  fixes a b :: int
  assumes "0 < b"
  shows "\<bar>real_of_int (a sdiv b) - real_of_int a / real_of_int b\<bar> \<le> 1"
proof -
  have pos: "\<bar>real_of_int (x div b) - real_of_int x / real_of_int b\<bar> \<le> 1" for x :: int
  proof -
    have "real_of_int (x div b) * real_of_int b \<le> real_of_int x" "real_of_int x < (real_of_int (x div b) + 1) * real_of_int b"
      using floor_bounds [OF assms, of x] by (metis of_int_le_iff of_int_mult, metis of_int_1 of_int_add of_int_less_iff of_int_mult)
    then have "real_of_int (x div b) \<le> real_of_int x / real_of_int b" "real_of_int x / real_of_int b < real_of_int (x div b) + 1"
      using assms by (simp_all add: pos_le_divide_eq pos_divide_less_eq)
    then show ?thesis by linarith
  qed
  show ?thesis
  proof (cases "0 \<le> a")
    case False
    then have "a sdiv b = - (- a div b)" using assms by (simp add: sdiv_neg_pos)
    then show ?thesis using pos [of "- a"] by simp
  qed (use assms pos in \<open>simp add: sdiv_nonneg\<close>)
qed

lemma uint_power_10: "n \<le> 18 \<Longrightarrow> uint (10 ^ n :: uint256) = 10 ^ n"
proof -
  assume "n \<le> 18"
  then have "(10 :: int) ^ n \<le> 10 ^ 18" by (rule power_increasing) simp
  then have "(10 :: int) ^ n < 2 ^ 256" by simp
  then have "uint (word_of_int (10 ^ n) :: uint256) = 10 ^ n" by (intro uint_of_int) (simp add: fits_uint_def)
  then show ?thesis by simp
qed

text \<open>The rounding of one component, of their sum and of the quote.\<close>

lemma component_valuation_error:
  assumes Z: "openzeppelin Z" and run: "component_valuation Z T R ca this p s c w = Inr v"
    and d: "tk_decimals T c (pr_tokens w) = Inr d" "unat d \<le> 18"
  shows "\<bar>real_of_int (sint v) - exact_value Z T R ca this p s w c\<bar> \<le> 1"
proof -
  note oz = openzeppelin.toInt256_Inr [OF Z] openzeppelin.preciseDiv_i_Inr [OF Z] openzeppelin.preciseMul_i_Inr [OF Z]
  from run d(1) obtain price u b n q where run: "price_for Z R ca this p c (masterQuoteAsset p) w = Inr price"
    "getTotalComponentRealUnits Z s c = Inr u" "toInt256 Z (10 ^ unat d) = Inr b" "preciseDiv_i Z u b = Inr n"
    "toInt256 Z price = Inr q" "preciseMul_i Z n q = Inr v" by (auto simp: component_valuation_def Let_def)
  have b: "sint b = 10 ^ unat d" using run(3) by (simp add: oz uint_power_10 [OF d(2)])
  have "(10 :: int) ^ 18 = 10 ^ (18 - unat d) * 10 ^ unat d" using d(2) by (simp flip: power_add)
  then have "10 ^ unat d dvd sint u * 10 ^ 18" by (metis dvd_triv_right dvd_mult)
  then have "(sint u * 10 ^ 18) sdiv 10 ^ unat d * 10 ^ unat d = sint u * 10 ^ 18"
    by (rule iffD2 [OF sdiv_exact_iff, rotated]) simp
  then have "sint n * 10 ^ unat d = sint u * 10 ^ 18" using run(4) by (simp add: oz b)
  from arg_cong [OF this, of real_of_int]
  have n: "real_of_int (sint n) * 10 ^ unat d = real_of_int (sint u) * 10 ^ 18"
    by (simp only: of_int_mult of_int_numeral of_int_power)
  have v: "sint v = (sint n * uint price) sdiv 10 ^ 18" using run(5,6) by (simp add: oz)
  have "\<bar>real_of_int (sint v) - real_of_int (sint n * uint price) / real_of_int (10 ^ 18)\<bar> \<le> 1"
    unfolding v by (rule sdiv_real) simp
  moreover have "real_of_int (sint n * uint price) / real_of_int (10 ^ 18) = real_of_int (sint u) * real_of_int (uint price) / 10 ^ unat d"
    using n by (simp add: field_simps)
  ultimately show ?thesis by (simp add: exact_value_def run(1,2) d(1))
qed

lemma components_valuation_error:
  assumes Z: "openzeppelin Z"
    and d: "\<forall>c \<in> set cs. \<exists>d. tk_decimals T c (pr_tokens w) = Inr d \<and> unat d \<le> 18"
    and run: "components_valuation Z T R ca this p s cs v0 w = Inr v"
  shows "\<bar>real_of_int (sint v) - real_of_int (sint v0) - sum_list (map (exact_value Z T R ca this p s w) cs)\<bar> \<le> length cs"
  using d run
proof (induction cs arbitrary: v0)
  case (Cons c cs)
  then obtain x v1 dc where x: "component_valuation Z T R ca this p s c w = Inr x" "sint v1 = sint x + sint v0"
    "components_valuation Z T R ca this p s cs v1 w = Inr v" "tk_decimals T c (pr_tokens w) = Inr dc" "unat dc \<le> 18"
    by (auto simp: openzeppelin.im_add_Inr [OF Z])
  have "\<bar>real_of_int (sint x) - exact_value Z T R ca this p s w c\<bar> \<le> 1"
    by (rule component_valuation_error [OF Z x(1,4,5)])
  moreover have "\<bar>real_of_int (sint v) - real_of_int (sint v1) - sum_list (map (exact_value Z T R ca this p s w) cs)\<bar> \<le> length cs"
    using Cons.IH [OF _ x(3)] Cons.prems(1) by simp
  ultimately show ?case by (simp add: x(2))
qed simp

lemma in_quote_error:
  assumes Z: "openzeppelin Z" and run: "in_quote Z R ca this p quote v w = Inr r" and err: "\<bar>real_of_int (sint v) - V\<bar> \<le> e"
  shows "0 < quote_rate Z R ca this p quote w \<and>
    \<bar>real_of_int (uint r) - V / quote_rate Z R ca this p quote w\<bar> \<le> e / quote_rate Z R ca this p quote w + 1"
proof (cases "masterQuoteAsset p = quote")
  case True
  then have "uint r = sint v" using run by (simp add: in_quote_def openzeppelin.toUint256_Inr [OF Z])
  then show ?thesis using True err by (simp add: quote_rate_def)
next
  case False
  with run obtain q b x where run: "price_for Z R ca this p quote (masterQuoteAsset p) w = Inr q" "toInt256 Z q = Inr b"
    "preciseDiv_i Z v b = Inr x" "toUint256 Z x = Inr r" by (auto simp: in_quote_def)
  then have nums: "sint b = uint q" "b \<noteq> 0" "uint r = (sint v * 10 ^ 18) sdiv uint q"
    by (simp_all add: openzeppelin.toUint256_Inr [OF Z] openzeppelin.toInt256_Inr [OF Z] openzeppelin.preciseDiv_i_Inr [OF Z])
  have pos: "0 < uint q" using nums(1,2) uint_ge_0 [of q] sint_eq_0_iff [of b] by linarith
  let ?q = "real_of_int (uint q)"
  have posr: "0 < ?q" using pos by (simp only: of_int_0_less_iff)
  have rate: "quote_rate Z R ca this p quote w = ?q / 10 ^ 18" using False by (simp add: quote_rate_def run(1))
  have "\<bar>real_of_int (uint r) - real_of_int (sint v * 10 ^ 18) / ?q\<bar> \<le> 1"
    unfolding nums(3) by (rule sdiv_real [OF pos])
  moreover have "\<bar>real_of_int (sint v) * (10 ^ 18 / ?q) - V * (10 ^ 18 / ?q)\<bar> \<le> e * (10 ^ 18 / ?q)"
    unfolding left_diff_distrib [symmetric] abs_mult by (rule mult_mono [OF err]) (use err posr in simp_all)
  ultimately show ?thesis using posr by (simp add: rate)
qed

subsection \<open>Properties\<close>

text \<open>C16: The SetValuer is exact up to rounding: if \<open>calculateSetTokenValuation\<close> returns for a SetToken whose components
  have at most 18 decimals, the quote asset has a positive price and the answer differs from the net asset value
  (the sum over the components of total units, debt negative, times price over ten to the decimals, converted
  to the quote) by at most one base unit of the master quote asset for each component and one base unit of
  the quote asset.\<close>

theorem valuation_near_exact:
  assumes "openzeppelin Z" and "calculateSetTokenValuation Z T R ca this S quote w = Inr v"
    and "pr_sets w S = Some s" and "pr_oracles w (resourceId (pr_controller w) 1) = Some p"
    and "\<forall>c \<in> set (st_components s). \<exists>d. tk_decimals T c (pr_tokens w) = Inr d \<and> unat d \<le> 18"
  shows "0 < quote_rate Z R ca this p quote w \<and>
    \<bar>real_of_int (uint v) - net_asset_value Z T R ca this p s w / quote_rate Z R ca this p quote w\<bar>
      \<le> length (st_components s) / quote_rate Z R ca this p quote w + 1"
proof -
  from assms(2-4) obtain valuation where "components_valuation Z T R ca this p s (st_components s) 0 w = Inr valuation"
    and quoted: "in_quote Z R ca this p quote valuation w = Inr v"
    by (auto simp: calculateSetTokenValuation_def the_oracle_def getPriceOracle_res_def the_set_Inr)
  from components_valuation_error [OF assms(1,5) this(1)]
  have "\<bar>real_of_int (sint valuation) - net_asset_value Z T R ca this p s w\<bar> \<le> length (st_components s)"
    by (simp add: net_asset_value_def)
  then show ?thesis by (rule in_quote_error [OF assms(1) quoted])
qed

text \<open>A SetToken of ninety dollars, two ether and a tenth of a bitcoin with half of it borrowed: a thousand dollars.\<close>

definition valued_set :: "shares set_token" where
  "valued_set = \<lparr>st_manager = 9, st_locker = 0, st_modules = [70, 5], st_moduleStates = (\<lambda>_. NONE)(70 := INITIALIZED, 5 := INITIALIZED),
     st_isLocked = False, st_components = [40, 41, 42],
     st_componentPositions = (\<lambda>_. no_position)(40 := no_position\<lparr>cp_virtualUnit := 90000000000000000000\<rparr>,
       41 := no_position\<lparr>cp_virtualUnit := 2000000000000000000\<rparr>,
       42 := \<lparr>cp_virtualUnit = 100000000000000000, cp_externalPositionModules = [5],
         cp_externalPositions = (\<lambda>_. \<lparr>xp_virtualUnit = 0, xp_data = []\<rparr>)(5 := \<lparr>xp_virtualUnit = - 50000000000000000, xp_data = []\<rparr>)\<rparr>),
     st_positionMultiplier = 1000000000000000000,
     st_token = \<lparr>sh_balances = (\<lambda>_. 0)(8 := 10000000000000000000), sh_supply = 10000000000000000000\<rparr>, st_events = []\<rparr>"

definition valued_controller :: controller where
  "valued_controller = (construct_controller 1 2)\<lparr>isSet := (\<lambda>_. False)(100 := True), isModule := (\<lambda>_. False)(70 := True, 5 := True),
     isResource := (\<lambda>_. False)(50 := True, 60 := True), resourceId := (\<lambda>_. 0)(1 := 50, 2 := 60)\<rparr>"

definition valued_ledger :: ledger where
  "valued_ledger = (\<lambda>t h. if h = 100 then (if t = 40 then 900000000000000000000 else if t = 41 then 20000000000000000000
     else if t = 42 then 1000000000000000000 else 0) else if h = 8 \<and> t = 40 then 500000000000000000000 else 0)"

definition valued_world :: "(shares, ledger) protocol" where
  "valued_world = \<lparr>pr_controller = valued_controller, pr_sets = Map.empty(100 \<mapsto> valued_set), pr_tokens = valued_ledger, pr_timestamp = 0,
     pr_feeStates = (\<lambda>_. \<lparr>fs_feeRecipient = 0, fs_maxStreamingFeePercentage = 0, fs_streamingFeePercentage = 0, fs_lastStreamingFeeTimestamp = 0\<rparr>),
     pr_managerIssuanceHook = (\<lambda>_. 0), pr_registries = Map.empty, pr_oracles = Map.empty(50 \<mapsto> quoted_oracle),
     pr_navIssuanceSettings = (\<lambda>_. no_navSettings)(100 := \<lparr>ns_managerIssuanceHook = 0, ns_managerRedemptionHook = 0, ns_setValuer = 0,
       ns_reserveAssets = [40], ns_feeRecipient = 3, ns_managerFees = (10000000000000000, 20000000000000000),
       ns_maxManagerFee = 50000000000000000, ns_premiumPercentage = 5000000000000000, ns_maxPremiumPercentage = 10000000000000000,
       ns_minSetTokenSupply = 1000000000000000000\<rparr>),
     pr_isReserveAsset = (\<lambda>_ _. False)(100 := (\<lambda>_. False)(40 := True)),
     pr_issuanceSettings = (\<lambda>_ _. no_issuanceSettings), pr_airdropSettings = (\<lambda>_. no_airdropSettings), pr_isAirdrop = (\<lambda>_ _. False), pr_events = []\<rparr>"

lemma valued_fields [simp]:
  "pr_sets valued_world 100 = Some valued_set" "pr_oracles valued_world 50 = Some quoted_oracle"
  "resourceId (pr_controller valued_world) 1 = 50" "resourceId (pr_controller valued_world) 2 = 60"
  "isSystemContract 1 60 (pr_controller valued_world)" "st_components valued_set = [40, 41, 42]"
  "pr_controller valued_world = valued_controller" "pr_tokens valued_world = valued_ledger" "masterQuoteAsset quoted_oracle = 40"
  by (simp_all add: valued_world_def valued_controller_def isSystemContract_def valued_set_def quoted_oracle_def)

lemma valued_prices:
  "price_for checked_oz example_quotes 1 60 quoted_oracle 40 40 valued_world = Inr 1000000000000000000"
  "price_for checked_oz example_quotes 1 60 quoted_oracle 41 40 valued_world = Inr 230000000000000000000"
  "price_for checked_oz example_quotes 1 60 quoted_oracle 42 40 valued_world = Inr 9000000000000000000000"
  by (simp_all add: price_for_def getPrice_def getDirectOrInversePrice_def quoted_oracle_def example_quotes_def valued_controller_def isSystemContract_def)

lemma valued_units:
  "getTotalComponentRealUnits checked_oz valued_set 40 = Inr 90000000000000000000"
  "getTotalComponentRealUnits checked_oz valued_set 41 = Inr 2000000000000000000"
  "getTotalComponentRealUnits checked_oz valued_set 42 = Inr 50000000000000000"
proof -
  have mul: "conservativePreciseMul checked_oz 90000000000000000000 1000000000000000000 = Inr 90000000000000000000"
    "conservativePreciseMul checked_oz 2000000000000000000 1000000000000000000 = Inr 2000000000000000000"
    "conservativePreciseMul checked_oz 100000000000000000 1000000000000000000 = Inr 100000000000000000"
    "conservativePreciseMul checked_oz (- 50000000000000000) 1000000000000000000 = Inr (- 50000000000000000)"
    "im_add checked_oz 100000000000000000 (- 50000000000000000) = Inr 50000000000000000"
    by (simp_all add: checked_oz.conservativePreciseMul_Inr checked_oz.im_add_Inr fits_int_def)
  show "getTotalComponentRealUnits checked_oz valued_set 40 = Inr 90000000000000000000"
    "getTotalComponentRealUnits checked_oz valued_set 41 = Inr 2000000000000000000"
    "getTotalComponentRealUnits checked_oz valued_set 42 = Inr 50000000000000000"
    by (simp_all add: getTotalComponentRealUnits_def getDefaultPositionRealUnit_def getExternalPositionRealUnit_def convertVirtualToRealUnit_def
        position_defs no_position_def valued_set_def mul del: and_then_eq_Inr)
qed

lemma valued_components:
  "component_valuation checked_oz ledger_tokens example_quotes 1 60 quoted_oracle valued_set 40 valued_world = Inr 90000000000000000000"
  "component_valuation checked_oz ledger_tokens example_quotes 1 60 quoted_oracle valued_set 41 valued_world = Inr 460000000000000000000"
  "component_valuation checked_oz ledger_tokens example_quotes 1 60 quoted_oracle valued_set 42 valued_world = Inr 450000000000000000000"
  by (simp_all add: component_valuation_def valued_prices valued_units ledger_tokens_def checked_oz_eval sol_simps PRECISE_UNIT_INT_def
      PRECISE_UNIT_u_def Let_def del: and_then_eq_Inr)

lemma valued_example:
  "calculateSetTokenValuation checked_oz ledger_tokens example_quotes 1 60 100 40 valued_world = Inr 1000000000000000000000"
  "calculateSetTokenValuation checked_oz ledger_tokens example_quotes 1 60 100 41 valued_world = Inr 4347826086956521739"
  by (simp_all add: calculateSetTokenValuation_def the_oracle_def the_set_def getPriceOracle_res_def valued_components in_quote_def valued_prices
      checked_oz_eval sol_simps PRECISE_UNIT_INT_def valued_controller_def del: and_then_eq_Inr)

theorem valuation_near_exact_witness:
  "\<bar>4347826086956521739 - net_asset_value checked_oz ledger_tokens example_quotes 1 60 quoted_oracle valued_set valued_world / 230\<bar> \<le> 3 / 230 + 1 \<and>
   net_asset_value checked_oz ledger_tokens example_quotes 1 60 quoted_oracle valued_set valued_world = 1000 * 10 ^ 18"
proof -
  have rate: "quote_rate checked_oz example_quotes 1 60 quoted_oracle 41 valued_world = 230" by (simp add: quote_rate_def valued_prices)
  have nav: "net_asset_value checked_oz ledger_tokens example_quotes 1 60 quoted_oracle valued_set valued_world = 1000 * 10 ^ 18"
    by (simp add: net_asset_value_def exact_value_def valued_prices valued_units ledger_tokens_def)
  have decimals: "\<forall>c \<in> set (st_components valued_set). \<exists>d. tk_decimals ledger_tokens c (pr_tokens valued_world) = Inr d \<and> unat d \<le> 18"
    by (simp add: ledger_tokens_def)
  show ?thesis
    using valuation_near_exact [OF checked_oz.openzeppelin_axioms valued_example(2) valued_fields(1) _ decimals, of quoted_oracle] nav
    by (simp add: rate valued_controller_def)
qed

end
