(* ===== verification/ModuleHistory.thy ===== *)
theory ModuleHistory
  imports ModuleBase
begin

text \<open>
  What can happen to the storage that a module keeps for a SetToken: calls of the module itself, its removal by the
  SetToken, and everything else, which does not write this storage. A module whose settings are in order after each
  of its calls, and empty when it is removed, has them in order in every history; the interpretations are in the
  theories of the modules.
\<close>

text \<open>\<open>calls w w'\<close>: a function of the module that writes the settings takes \<open>w\<close> to \<open>w'\<close>; \<open>remove\<close> is its \<^verbatim>\<open>removeModule\<close>;
  \<open>settings\<close> reads the storage of the module \<open>this\<close> for the SetToken \<open>S\<close>, empty in the beginning.\<close>

definition module_state_of :: "address \<Rightarrow> address \<Rightarrow> ('e, 't) protocol \<Rightarrow> module_state" where
  "module_state_of this S w = (case pr_sets w S of None \<Rightarrow> NONE | Some s \<Rightarrow> st_moduleStates s this)"

inductive module_history ::
  "(('e, 't) protocol \<Rightarrow> ('e, 't) protocol \<Rightarrow> bool) \<Rightarrow> (('e, 't) protocol \<Rightarrow> revert + ('e, 't) protocol) \<Rightarrow>
     (('e, 't) protocol \<Rightarrow> 'a) \<Rightarrow> 'a \<Rightarrow> oz_api \<Rightarrow> 'e erc20_api \<Rightarrow> address \<Rightarrow> address \<Rightarrow> ('e, 't) protocol \<Rightarrow> bool"
  for calls remove settings empty Z E this S
where
  history_start: "module_state_of this S w \<noteq> INITIALIZED \<Longrightarrow> settings w = empty \<Longrightarrow>
    module_history calls remove settings empty Z E this S w"
| history_call: "module_history calls remove settings empty Z E this S w \<Longrightarrow> calls w w' \<Longrightarrow>
    module_history calls remove settings empty Z E this S w'"
| history_removed: "module_history calls remove settings empty Z E this S w \<Longrightarrow> remove w = Inr w1 \<Longrightarrow>
    on_set S (removeModule_effect this) w1 = Inr w' \<Longrightarrow> module_history calls remove settings empty Z E this S w'"
| history_other_removed: "module_history calls remove settings empty Z E this S w \<Longrightarrow> m \<noteq> this \<Longrightarrow>
    on_set S (removeModule_effect m) w = Inr w' \<Longrightarrow> module_history calls remove settings empty Z E this S w'"
| history_token_call: "module_history calls remove settings empty Z E this S w \<Longrightarrow>
    on_set S (simple_set_call Z E enabled sender call) w = Inr w' \<Longrightarrow> sender \<noteq> this \<or> call \<noteq> InitializeModule \<Longrightarrow>
    module_history calls remove settings empty Z E this S w'"
| history_elsewhere: "module_history calls remove settings empty Z E this S w \<Longrightarrow> settings w' = settings w \<Longrightarrow>
    module_state_of this S w' = module_state_of this S w \<Longrightarrow> module_history calls remove settings empty Z E this S w'"

lemma token_call_state:
  assumes "simple_set_call Z E enabled sender call s = Inr s'" and "sender \<noteq> this \<or> call \<noteq> InitializeModule"
  shows "st_moduleStates s' this = INITIALIZED \<longleftrightarrow> st_moduleStates s this = INITIALIZED"
  using assms by (cases call) (auto simp: set_ops with_external_def Let_def split: if_splits)

lemma removed_states:
  assumes "on_set S (removeModule_effect m) w = Inr w'"
  shows "module_state_of m S w' = NONE" "this \<noteq> m \<Longrightarrow> module_state_of this S w' = module_state_of this S w"
  using assms by (auto simp: on_set_Inr removeModule_effect_def emitted_def module_state_of_def Let_def)

text \<open>What editing a default position and paying out of a SetToken leave as it is.\<close>

lemma default_edit_frame:
  "editDefaultPosition Z enabled sender c u s = Inr s' \<Longrightarrow> st_token s' = st_token s \<and> st_moduleStates s' = st_moduleStates s"
  by (auto simp: editDefaultPosition_def addComponent_def removeComponent_def editDefaultPositionUnit_def with_position_def
      emitted_def Let_def split: if_splits)

lemma strict_transfer_frame:
  assumes "strictInvokeTransfer Z T this S t b q w = Inr w'"
  shows "\<exists>\<tau> es. w' = w\<lparr>pr_tokens := \<tau>, pr_sets := (\<lambda>a. if a = S then map_option (\<lambda>s. s\<lparr>st_events := es\<rparr>) (pr_sets w S) else pr_sets w a)\<rparr>"
proof (cases "0 < q")
  case False
  then have "w' = w" using assms by (simp add: strictInvokeTransfer_def)
  then show ?thesis
    by (intro exI [of _ "pr_tokens w"] exI [of _ "case pr_sets w S of Some s \<Rightarrow> st_events s | None \<Rightarrow> []"])
      (auto simp: fun_eq_iff option.map_id split: option.splits)
next
  case True
  with assms obtain r \<tau> s where "pr_sets w S = Some s"
    "w' = w\<lparr>pr_tokens := \<tau>, pr_sets := (pr_sets w)(S \<mapsto> emitted (Invoked t 0 (tk_encodeTransfer T b q) r) s)\<rparr>"
    by (auto simp: strictInvokeTransfer_def invokeTransfer_def invoke_token_def the_set_Inr Let_def split: if_splits)
  then show ?thesis
    by (intro exI [of _ \<tau>] exI [of _ "Invoked t 0 (tk_encodeTransfer T b q) r # st_events s"]) (auto simp: emitted_def fun_eq_iff)
qed

lemma payProtocolFee_eq: "payProtocolFeeFromSetToken Z T this S t q w =
    strictInvokeTransfer Z T this S t (controller.feeRecipient (pr_controller w)) q w"
  by (simp add: payProtocolFeeFromSetToken_def strictInvokeTransfer_def)

lemma ledger_reads: "tk_balanceOf ledger_tokens t h \<tau> = \<tau> t h" "tk_decodeBool ledger_tokens bs = Inr (bs = [1])"
  "tk_decimals ledger_tokens t \<tau> = Inr 18"
  by (simp_all add: ledger_tokens_def)

text \<open>\<open>ok b x\<close>: the settings \<open>x\<close> are in order while the module is initialized (\<open>b\<close>) or not.\<close>

locale module_storage =
  fixes calls :: "('e, 't) protocol \<Rightarrow> ('e, 't) protocol \<Rightarrow> bool"
    and remove :: "('e, 't) protocol \<Rightarrow> revert + ('e, 't) protocol"
    and settings :: "('e, 't) protocol \<Rightarrow> 'a" and empty :: 'a
    and this :: address and S :: address
    and ok :: "bool \<Rightarrow> 'a \<Rightarrow> bool"
  assumes empty_ok: "ok False empty"
    and call_ok: "calls w w' \<Longrightarrow> ok (module_state_of this S w = INITIALIZED) (settings w) \<Longrightarrow>
      ok (module_state_of this S w' = INITIALIZED) (settings w')"
    and remove_ok: "remove w = Inr w1 \<Longrightarrow> ok b (settings w) \<Longrightarrow> ok False (settings w1)"
    and settings_of_module: "settings (w\<lparr>pr_sets := x\<rparr>) = settings w"
begin

lemma history_ok:
  assumes "module_history calls remove settings empty Z E this S w"
  shows "ok (module_state_of this S w = INITIALIZED) (settings w)"
  using assms
proof induction
  case (history_call w w')
  show ?case by (rule call_ok [OF history_call(2,3)])
next
  case (history_removed w w1 w')
  then have "settings w' = settings w1" by (auto simp: on_set_Inr settings_of_module)
  then show ?case using remove_ok [OF history_removed(2,4)] removed_states(1) [OF history_removed(3)] by simp
next
  case (history_other_removed w m w')
  then have "settings w' = settings w" by (auto simp: on_set_Inr settings_of_module)
  then show ?case using history_other_removed(4) removed_states(2) [OF history_other_removed(3)] history_other_removed(2) by simp
next
  case (history_token_call w enabled sender call w')
  then obtain s s' where s: "pr_sets w S = Some s" "simple_set_call Z E enabled sender call s = Inr s'" "w' = w\<lparr>pr_sets := (pr_sets w)(S \<mapsto> s')\<rparr>"
    by (auto simp: on_set_Inr)
  moreover have "st_moduleStates s' this = INITIALIZED \<longleftrightarrow> st_moduleStates s this = INITIALIZED"
    by (rule token_call_state [OF s(2) history_token_call(3)])
  ultimately show ?case using history_token_call(4) by (simp add: module_state_of_def settings_of_module)
qed (simp_all add: empty_ok)

end

end
