(* ===== verification/NavIssuanceModule.thy ===== *)
theory NavIssuanceModule
  imports SetValuer ModuleHistory NavIssuanceModuleUtils
begin

text \<open>
  \<^verbatim>\<open>contracts/protocol/modules/v1/CustomOracleNAVIssuanceModule.sol\<close>: SetTokens are issued against one reserve asset at
  their net asset value and redeemed for it. Its arithmetic is in \<open>NavIssuanceModuleUtils\<close>; here are its functions
  on the state of the protocol. The contracts it calls are arguments: \<open>V\<close> answers the valuations (the SetValuer of
  the previous theory, or one that the manager has chosen), \<open>issueHook\<close> and \<open>redeemHook\<close> are the manager's hooks,
  \<open>W\<close> is wrapped ether at the address \<open>weth\<close>. \<open>this\<close> is the module, \<open>S\<close> the SetToken.
\<close>

subsection \<open>The contracts around the module\<close>

type_synonym ('e, 't) valuer_api = "address \<Rightarrow> address \<Rightarrow> address \<Rightarrow> ('e, 't) protocol \<Rightarrow> revert + uint256"

definition system_valuers ::
  "oz_api \<Rightarrow> 't token_api \<Rightarrow> 't oracle_api \<Rightarrow> address \<Rightarrow> ('e, 't) valuer_api"
where
  "system_valuers Z T R ca valuer S quote w = calculateSetTokenValuation Z T R ca valuer S quote w"

type_synonym ('e, 't) issue_hook_api =
  "address \<Rightarrow> address \<Rightarrow> address \<Rightarrow> uint256 \<Rightarrow> address \<Rightarrow> address \<Rightarrow> ('e, 't) protocol \<Rightarrow> revert + ('e, 't) protocol"

type_synonym ('e, 't) redeem_hook_api =
  "address \<Rightarrow> address \<Rightarrow> uint256 \<Rightarrow> address \<Rightarrow> address \<Rightarrow> ('e, 't) protocol \<Rightarrow> revert + ('e, 't) protocol"

text \<open>Wrapped ether, and the transfer of ether itself.\<close>

record 't weth_api =
  we_deposit :: "address \<Rightarrow> uint256 \<Rightarrow> 't \<Rightarrow> revert + 't"
  we_withdraw :: "address \<Rightarrow> uint256 \<Rightarrow> 't \<Rightarrow> revert + 't"
  we_transfer :: "address \<Rightarrow> address \<Rightarrow> uint256 \<Rightarrow> 't \<Rightarrow> revert + bool \<times> 't"
  we_send :: "address \<Rightarrow> address \<Rightarrow> uint256 \<Rightarrow> 't \<Rightarrow> revert + 't"

definition with_tokens :: "('e, 't) protocol \<Rightarrow> (revert + 't) \<Rightarrow> revert + ('e, 't) protocol" where
  "with_tokens w r = and_then r (\<lambda>\<tau>. Inr (w\<lparr>pr_tokens := \<tau>\<rparr>))"

subsection \<open>Internal functions\<close>

record ActionInfo =
  ai_preFeeReserveQuantity :: uint256
  ai_protocolFees :: uint256
  ai_managerFee :: uint256
  ai_netFlowQuantity :: uint256
  ai_setTokenQuantity :: uint256
  ai_previousSetTokenSupply :: uint256
  ai_newSetTokenSupply :: uint256
  ai_newPositionMultiplier :: int256
  ai_newReservePositionUnit :: uint256

definition validateCommon :: "address \<Rightarrow> address \<Rightarrow> uint256 \<Rightarrow> ('e, 't) protocol \<Rightarrow> revert + unit" where
  "validateCommon S reserve quantity w =
     and_then (require (0 < quantity) ''Quantity must be > 0'') (\<lambda>_.
       require (pr_isReserveAsset w S reserve) ''Must be valid reserve asset'')"

definition validateIssuanceInfo :: "address \<Rightarrow> uint256 \<Rightarrow> ActionInfo \<Rightarrow> ('e, 't) protocol \<Rightarrow> revert + unit" where
  "validateIssuanceInfo S minSetTokenReceiveQuantity info w =
     and_then (require (ns_minSetTokenSupply (pr_navIssuanceSettings w S) \<le> ai_previousSetTokenSupply info)
       ''Supply must be greater than minimum to enable issuance'') (\<lambda>_.
       require (minSetTokenReceiveQuantity \<le> ai_setTokenQuantity info) ''Must be greater than min SetToken'')"

definition validateRedemptionInfo :: "address \<Rightarrow> uint256 \<Rightarrow> ActionInfo \<Rightarrow> ('e, 't) protocol \<Rightarrow> revert + unit" where
  "validateRedemptionInfo S minReserveReceiveQuantity info w =
     and_then (require (ns_minSetTokenSupply (pr_navIssuanceSettings w S) \<le> ai_newSetTokenSupply info)
       ''Supply must be greater than minimum to enable redemption'') (\<lambda>_.
       require (minReserveReceiveQuantity \<le> ai_netFlowQuantity info) ''Must be greater than min receive reserve quantity'')"

definition getSetValuer_nav :: "address \<Rightarrow> ('e, 't) protocol \<Rightarrow> address" where
  "getSetValuer_nav S w =
     (let customValuer = ns_setValuer (pr_navIssuanceSettings w S)
      in if customValuer = 0 then getSetValuer (pr_controller w) else customValuer)"

definition managerFee_at :: "uint256 \<times> uint256 \<Rightarrow> uint256 \<Rightarrow> revert + uint256" where
  "managerFee_at managerFees i = (if i = 0 then Inr (fst managerFees) else if i = 1 then Inr (snd managerFees) else Inl InvalidOpcode)"

definition getFees ::
  "oz_api \<Rightarrow> address \<Rightarrow> address \<Rightarrow> uint256 \<Rightarrow> uint256 \<Rightarrow> uint256 \<Rightarrow> uint256 \<Rightarrow> ('e, 't) protocol \<Rightarrow>
     revert + uint256 \<times> uint256 \<times> uint256"
where
  "getFees Z this S reserveAssetQuantity protocolManagerFeeIndex protocolDirectFeeIndex managerFeeIndex w =
     and_then (managerFee_at (ns_managerFees (pr_navIssuanceSettings w S)) managerFeeIndex) (\<lambda>managerFeePercent.
       getFees_sol Z \<lparr>protocolDirectFeePercent = getModuleFee this protocolDirectFeeIndex (pr_controller w),
         protocolManagerShareFeePercent = getModuleFee this protocolManagerFeeIndex (pr_controller w),
         managerFeePercent = managerFeePercent\<rparr> reserveAssetQuantity)"

text \<open>\<^verbatim>\<open>_getIssuePremium\<close> and \<^verbatim>\<open>_getRedeemPremium\<close>.\<close>

definition getIssuePremium :: "address \<Rightarrow> address \<Rightarrow> uint256 \<Rightarrow> ('e, 't) protocol \<Rightarrow> uint256" where
  "getIssuePremium S reserve quantity w = ns_premiumPercentage (pr_navIssuanceSettings w S)"

definition getRedeemPremium :: "address \<Rightarrow> address \<Rightarrow> uint256 \<Rightarrow> ('e, 't) protocol \<Rightarrow> uint256" where
  "getRedeemPremium S reserve quantity w = ns_premiumPercentage (pr_navIssuanceSettings w S)"

text \<open>The premium is computed before the valuer is called, so its overflow is the first to revert.\<close>

definition getSetTokenMintQuantity ::
  "oz_api \<Rightarrow> 't token_api \<Rightarrow> ('e, 't) valuer_api \<Rightarrow> address \<Rightarrow> address \<Rightarrow> uint256 \<Rightarrow> uint256 \<Rightarrow> ('e, 't) protocol \<Rightarrow>
     revert + uint256"
where
  "getSetTokenMintQuantity Z T V S reserve netReserveFlows setTotalSupply w =
     (let premiumPercentage = getIssuePremium S reserve netReserveFlows w
      in and_then (preciseMul_u Z netReserveFlows premiumPercentage) (\<lambda>premiumValue.
         and_then (V (getSetValuer_nav S w) S reserve w) (\<lambda>setTokenValuation.
         and_then (tk_decimals T reserve (pr_tokens w)) (\<lambda>reserveAssetDecimals.
           getSetTokenMintQuantity_sol Z premiumPercentage setTokenValuation (ucast reserveAssetDecimals)
             netReserveFlows setTotalSupply))))"

definition getRedeemReserveQuantity ::
  "oz_api \<Rightarrow> 't token_api \<Rightarrow> ('e, 't) valuer_api \<Rightarrow> address \<Rightarrow> address \<Rightarrow> uint256 \<Rightarrow> ('e, 't) protocol \<Rightarrow> revert + uint256"
where
  "getRedeemReserveQuantity Z T V S reserve setTokenQuantity w =
     and_then (V (getSetValuer_nav S w) S reserve w) (\<lambda>setTokenValuation.
     and_then (preciseMul_u Z setTokenQuantity setTokenValuation) (\<lambda>_.
     and_then (tk_decimals T reserve (pr_tokens w)) (\<lambda>reserveAssetDecimals.
       getRedeemReserveQuantity_sol Z (getRedeemPremium S reserve setTokenQuantity w) setTokenValuation
         (ucast reserveAssetDecimals) setTokenQuantity)))"

definition getIssuePositionUnit ::
  "oz_api \<Rightarrow> 'e set_token \<Rightarrow> address \<Rightarrow> uint256 \<Rightarrow> uint256 \<Rightarrow> uint256 \<Rightarrow> revert + uint256"
where
  "getIssuePositionUnit Z s reserve previousSetTokenSupply netFlowQuantity newSetTokenSupply =
     and_then (getDefaultPositionRealUnit Z s reserve) (\<lambda>u.
     and_then (toUint256 Z u) (\<lambda>existingUnit.
     and_then (preciseMul_u Z existingUnit previousSetTokenSupply) (\<lambda>existing.
     and_then (um_add Z existing netFlowQuantity) (\<lambda>totalReserve.
       preciseDiv_u Z totalReserve newSetTokenSupply))))"

definition getRedeemPositionUnit ::
  "oz_api \<Rightarrow> 'e set_token \<Rightarrow> address \<Rightarrow> uint256 \<Rightarrow> uint256 \<Rightarrow> uint256 \<Rightarrow> uint256 \<Rightarrow> uint256 \<Rightarrow> revert + uint256"
where
  "getRedeemPositionUnit Z s reserve previousSetTokenSupply netFlowQuantity protocolFees managerFee newSetTokenSupply =
     and_then (getDefaultPositionRealUnit Z s reserve) (\<lambda>u.
     and_then (toUint256 Z u) (\<lambda>existingUnit.
     and_then (preciseMul_u Z existingUnit previousSetTokenSupply) (\<lambda>totalExistingUnits.
     and_then (um_add Z netFlowQuantity protocolFees) (\<lambda>flow.
     and_then (um_add Z flow managerFee) (\<lambda>outflow.
     and_then (require (outflow \<le> totalExistingUnits) ''Must be greater than total available collateral'') (\<lambda>_.
     and_then (um_sub Z totalExistingUnits outflow) (\<lambda>rest.
       preciseDiv_u Z rest newSetTokenSupply)))))))"

definition createIssuanceInfo ::
  "oz_api \<Rightarrow> 'e erc20_api \<Rightarrow> 't token_api \<Rightarrow> ('e, 't) valuer_api \<Rightarrow> address \<Rightarrow> address \<Rightarrow> address \<Rightarrow> uint256 \<Rightarrow>
     ('e, 't) protocol \<Rightarrow> revert + ActionInfo"
where
  "createIssuanceInfo Z E T V this S reserve reserveAssetQuantity w =
     and_then (the_set S w) (\<lambda>s.
     let previousSetTokenSupply = er_totalSupply E (st_token s)
     in and_then (getFees Z this S reserveAssetQuantity 0 2 0 w) (\<lambda>(protocolFees, managerFee, netFlowQuantity).
        and_then (getSetTokenMintQuantity Z T V S reserve netFlowQuantity previousSetTokenSupply w) (\<lambda>setTokenQuantity.
        and_then (getIssuePositionMultiplier_sol Z (st_positionMultiplier s) setTokenQuantity previousSetTokenSupply)
          (\<lambda>(newSetTokenSupply, newPositionMultiplier).
        and_then (getIssuePositionUnit Z s reserve previousSetTokenSupply netFlowQuantity newSetTokenSupply) (\<lambda>newReservePositionUnit.
          Inr \<lparr>ai_preFeeReserveQuantity = reserveAssetQuantity, ai_protocolFees = protocolFees, ai_managerFee = managerFee,
            ai_netFlowQuantity = netFlowQuantity, ai_setTokenQuantity = setTokenQuantity,
            ai_previousSetTokenSupply = previousSetTokenSupply, ai_newSetTokenSupply = newSetTokenSupply,
            ai_newPositionMultiplier = newPositionMultiplier, ai_newReservePositionUnit = newReservePositionUnit\<rparr>)))))"

definition createRedemptionInfo ::
  "oz_api \<Rightarrow> 'e erc20_api \<Rightarrow> 't token_api \<Rightarrow> ('e, 't) valuer_api \<Rightarrow> address \<Rightarrow> address \<Rightarrow> address \<Rightarrow> uint256 \<Rightarrow>
     ('e, 't) protocol \<Rightarrow> revert + ActionInfo"
where
  "createRedemptionInfo Z E T V this S reserve setTokenQuantity w =
     and_then (getRedeemReserveQuantity Z T V S reserve setTokenQuantity w) (\<lambda>preFeeReserveQuantity.
     and_then (getFees Z this S preFeeReserveQuantity 1 3 1 w) (\<lambda>(protocolFees, managerFee, netFlowQuantity).
     and_then (the_set S w) (\<lambda>s.
     let previousSetTokenSupply = er_totalSupply E (st_token s)
     in and_then (getRedeemPositionMultiplier_sol Z (st_positionMultiplier s) setTokenQuantity previousSetTokenSupply)
          (\<lambda>(newSetTokenSupply, newPositionMultiplier).
        and_then (getRedeemPositionUnit Z s reserve previousSetTokenSupply netFlowQuantity protocolFees managerFee newSetTokenSupply)
          (\<lambda>newReservePositionUnit.
          Inr \<lparr>ai_preFeeReserveQuantity = preFeeReserveQuantity, ai_protocolFees = protocolFees, ai_managerFee = managerFee,
            ai_netFlowQuantity = netFlowQuantity, ai_setTokenQuantity = setTokenQuantity,
            ai_previousSetTokenSupply = previousSetTokenSupply, ai_newSetTokenSupply = newSetTokenSupply,
            ai_newPositionMultiplier = newPositionMultiplier, ai_newReservePositionUnit = newReservePositionUnit\<rparr>)))))"

text \<open>The transfers.\<close>

definition transferCollateralAndHandleFees ::
  "oz_api \<Rightarrow> 't token_api \<Rightarrow> address \<Rightarrow> address \<Rightarrow> address \<Rightarrow> address \<Rightarrow> ActionInfo \<Rightarrow> ('e, 't) protocol \<Rightarrow> revert + ('e, 't) protocol"
where
  "transferCollateralAndHandleFees Z T this sender S reserve info w =
     and_then (explicit_transferFrom Z T this reserve sender S (ai_netFlowQuantity info) w) (\<lambda>w.
     and_then (if 0 < ai_protocolFees info
       then explicit_transferFrom Z T this reserve sender (controller.feeRecipient (pr_controller w)) (ai_protocolFees info) w
       else Inr w) (\<lambda>w.
     if 0 < ai_managerFee info
     then explicit_transferFrom Z T this reserve sender (ns_feeRecipient (pr_navIssuanceSettings w S)) (ai_managerFee info) w
     else Inr w))"

text \<open>What \<^verbatim>\<open>weth.transfer\<close> returns is not looked at.\<close>

definition weth_transfer ::
  "'t weth_api \<Rightarrow> address \<Rightarrow> address \<Rightarrow> uint256 \<Rightarrow> ('e, 't) protocol \<Rightarrow> revert + ('e, 't) protocol"
where
  "weth_transfer W this dst q w = with_tokens w (and_then (we_transfer W this dst q (pr_tokens w)) (\<lambda>(_, \<tau>). Inr \<tau>))"

definition transferWETHAndHandleFees ::
  "'t weth_api \<Rightarrow> address \<Rightarrow> address \<Rightarrow> ActionInfo \<Rightarrow> ('e, 't) protocol \<Rightarrow> revert + ('e, 't) protocol"
where
  "transferWETHAndHandleFees W this S info w =
     and_then (weth_transfer W this S (ai_netFlowQuantity info) w) (\<lambda>w.
     and_then (if 0 < ai_protocolFees info
       then weth_transfer W this (controller.feeRecipient (pr_controller w)) (ai_protocolFees info) w
       else Inr w) (\<lambda>w.
     if 0 < ai_managerFee info
     then weth_transfer W this (ns_feeRecipient (pr_navIssuanceSettings w S)) (ai_managerFee info) w
     else Inr w))"

definition handleIssueStateUpdates ::
  "oz_api \<Rightarrow> 'e erc20_api \<Rightarrow> address \<Rightarrow> address \<Rightarrow> address \<Rightarrow> address \<Rightarrow> address \<Rightarrow> ActionInfo \<Rightarrow> ('e, 't) protocol \<Rightarrow>
     revert + ('e, 't) protocol"
where
  "handleIssueStateUpdates Z E this sender S reserve a info w =
     and_then (on_set S (editPositionMultiplier Z (enabled_modules w) this (ai_newPositionMultiplier info)) w) (\<lambda>w.
     and_then (on_set S (editDefaultPosition Z (enabled_modules w) this reserve (ai_newReservePositionUnit info)) w) (\<lambda>w.
     and_then (on_set S (mint E (enabled_modules w) this a (ai_setTokenQuantity info)) w) (\<lambda>w.
       Inr (log_event (SetTokenNAVIssued S sender a reserve (ns_managerIssuanceHook (pr_navIssuanceSettings w S))
         (ai_setTokenQuantity info) (ai_managerFee info) (ai_protocolFees info)) w))))"

definition handleRedeemStateUpdates ::
  "oz_api \<Rightarrow> address \<Rightarrow> address \<Rightarrow> address \<Rightarrow> address \<Rightarrow> address \<Rightarrow> ActionInfo \<Rightarrow> ('e, 't) protocol \<Rightarrow> revert + ('e, 't) protocol"
where
  "handleRedeemStateUpdates Z this sender S reserve a info w =
     and_then (on_set S (editPositionMultiplier Z (enabled_modules w) this (ai_newPositionMultiplier info)) w) (\<lambda>w.
     and_then (on_set S (editDefaultPosition Z (enabled_modules w) this reserve (ai_newReservePositionUnit info)) w) (\<lambda>w.
       Inr (log_event (SetTokenNAVRedeemed S sender a reserve (ns_managerRedemptionHook (pr_navIssuanceSettings w S))
         (ai_setTokenQuantity info) (ai_managerFee info) (ai_protocolFees info)) w)))"

definition handleRedemptionFees ::
  "oz_api \<Rightarrow> 't token_api \<Rightarrow> address \<Rightarrow> address \<Rightarrow> address \<Rightarrow> ActionInfo \<Rightarrow> ('e, 't) protocol \<Rightarrow> revert + ('e, 't) protocol"
where
  "handleRedemptionFees Z T this S reserve info w =
     and_then (payProtocolFeeFromSetToken Z T this S reserve (ai_protocolFees info) w) (\<lambda>w.
     if 0 < ai_managerFee info
     then strictInvokeTransfer Z T this S reserve (ns_feeRecipient (pr_navIssuanceSettings w S)) (ai_managerFee info) w
     else Inr w)"

definition callPreIssueHooks_nav ::
  "('e, 't) issue_hook_api \<Rightarrow> address \<Rightarrow> address \<Rightarrow> uint256 \<Rightarrow> address \<Rightarrow> address \<Rightarrow> ('e, 't) protocol \<Rightarrow> revert + ('e, 't) protocol"
where
  "callPreIssueHooks_nav issueHook S reserve quantity caller a w =
     (let preIssueHook = ns_managerIssuanceHook (pr_navIssuanceSettings w S)
      in if preIssueHook \<noteq> 0 then issueHook preIssueHook S reserve quantity caller a w else Inr w)"

definition callPreRedeemHooks_nav ::
  "('e, 't) redeem_hook_api \<Rightarrow> address \<Rightarrow> uint256 \<Rightarrow> address \<Rightarrow> address \<Rightarrow> ('e, 't) protocol \<Rightarrow> revert + ('e, 't) protocol"
where
  "callPreRedeemHooks_nav redeemHook S quantity caller a w =
     (let preRedeemHook = ns_managerRedemptionHook (pr_navIssuanceSettings w S)
      in if preRedeemHook \<noteq> 0 then redeemHook preRedeemHook S quantity caller a w else Inr w)"

subsection \<open>Issuance and redemption\<close>

text \<open>\<^verbatim>\<open>issue\<close> after the hook.\<close>

definition issue_at_nav ::
  "oz_api \<Rightarrow> 'e erc20_api \<Rightarrow> 't token_api \<Rightarrow> ('e, 't) valuer_api \<Rightarrow> address \<Rightarrow> address \<Rightarrow> address \<Rightarrow> address \<Rightarrow> uint256 \<Rightarrow> uint256 \<Rightarrow>
     address \<Rightarrow> ('e, 't) protocol \<Rightarrow> revert + ('e, 't) protocol"
where
  "issue_at_nav Z E T V this sender S reserve reserveAssetQuantity minSetTokenReceiveQuantity a w =
     and_then (createIssuanceInfo Z E T V this S reserve reserveAssetQuantity w) (\<lambda>issueInfo.
     and_then (validateIssuanceInfo S minSetTokenReceiveQuantity issueInfo w) (\<lambda>_.
     and_then (transferCollateralAndHandleFees Z T this sender S reserve issueInfo w) (\<lambda>w.
       handleIssueStateUpdates Z E this sender S reserve a issueInfo w)))"

definition issue_nav ::
  "oz_api \<Rightarrow> 'e erc20_api \<Rightarrow> 't token_api \<Rightarrow> ('e, 't) valuer_api \<Rightarrow> ('e, 't) issue_hook_api \<Rightarrow> address \<Rightarrow> address \<Rightarrow> address \<Rightarrow>
     address \<Rightarrow> uint256 \<Rightarrow> uint256 \<Rightarrow> address \<Rightarrow> ('e, 't) protocol \<Rightarrow> revert + ('e, 't) protocol"
where
  "issue_nav Z E T V issueHook this sender S reserve reserveAssetQuantity minSetTokenReceiveQuantity a w =
     and_then (validateOnlyValidAndInitializedSet this S w) (\<lambda>_.
     and_then (validateCommon S reserve reserveAssetQuantity w) (\<lambda>_.
     and_then (callPreIssueHooks_nav issueHook S reserve reserveAssetQuantity sender a w) (\<lambda>w.
       issue_at_nav Z E T V this sender S reserve reserveAssetQuantity minSetTokenReceiveQuantity a w)))"

text \<open>The ether of a payable call has arrived when the function begins.\<close>

definition issueWithEther_at_nav ::
  "oz_api \<Rightarrow> 'e erc20_api \<Rightarrow> 't token_api \<Rightarrow> ('e, 't) valuer_api \<Rightarrow> 't weth_api \<Rightarrow> address \<Rightarrow> address \<Rightarrow> address \<Rightarrow> address \<Rightarrow> uint256 \<Rightarrow>
     uint256 \<Rightarrow> address \<Rightarrow> ('e, 't) protocol \<Rightarrow> revert + ('e, 't) protocol"
where
  "issueWithEther_at_nav Z E T V W weth this sender S msgValue minSetTokenReceiveQuantity a w =
     and_then (createIssuanceInfo Z E T V this S weth msgValue w) (\<lambda>issueInfo.
     and_then (validateIssuanceInfo S minSetTokenReceiveQuantity issueInfo w) (\<lambda>_.
     and_then (transferWETHAndHandleFees W this S issueInfo w) (\<lambda>w.
       handleIssueStateUpdates Z E this sender S weth a issueInfo w)))"

definition issueWithEther ::
  "oz_api \<Rightarrow> 'e erc20_api \<Rightarrow> 't token_api \<Rightarrow> ('e, 't) valuer_api \<Rightarrow> ('e, 't) issue_hook_api \<Rightarrow> 't weth_api \<Rightarrow> address \<Rightarrow> address \<Rightarrow>
     address \<Rightarrow> address \<Rightarrow> uint256 \<Rightarrow> uint256 \<Rightarrow> address \<Rightarrow> ('e, 't) protocol \<Rightarrow> revert + ('e, 't) protocol"
where
  "issueWithEther Z E T V issueHook W weth this sender S msgValue minSetTokenReceiveQuantity a w =
     and_then (with_tokens w (we_send W sender this msgValue (pr_tokens w))) (\<lambda>w.
     and_then (validateOnlyValidAndInitializedSet this S w) (\<lambda>_.
     and_then (with_tokens w (we_deposit W this msgValue (pr_tokens w))) (\<lambda>w.
     and_then (validateCommon S weth msgValue w) (\<lambda>_.
     and_then (callPreIssueHooks_nav issueHook S weth msgValue sender a w) (\<lambda>w.
       issueWithEther_at_nav Z E T V W weth this sender S msgValue minSetTokenReceiveQuantity a w)))))"

definition redeem_at_nav ::
  "oz_api \<Rightarrow> 'e erc20_api \<Rightarrow> 't token_api \<Rightarrow> ('e, 't) valuer_api \<Rightarrow> address \<Rightarrow> address \<Rightarrow> address \<Rightarrow> address \<Rightarrow> uint256 \<Rightarrow> uint256 \<Rightarrow>
     address \<Rightarrow> ('e, 't) protocol \<Rightarrow> revert + ('e, 't) protocol"
where
  "redeem_at_nav Z E T V this sender S reserve setTokenQuantity minReserveReceiveQuantity a w =
     and_then (createRedemptionInfo Z E T V this S reserve setTokenQuantity w) (\<lambda>redeemInfo.
     and_then (validateRedemptionInfo S minReserveReceiveQuantity redeemInfo w) (\<lambda>_.
     and_then (on_set S (burn E (enabled_modules w) this sender setTokenQuantity) w) (\<lambda>w.
     and_then (strictInvokeTransfer Z T this S reserve a (ai_netFlowQuantity redeemInfo) w) (\<lambda>w.
     and_then (handleRedemptionFees Z T this S reserve redeemInfo w) (\<lambda>w.
       handleRedeemStateUpdates Z this sender S reserve a redeemInfo w)))))"

definition redeem_nav ::
  "oz_api \<Rightarrow> 'e erc20_api \<Rightarrow> 't token_api \<Rightarrow> ('e, 't) valuer_api \<Rightarrow> ('e, 't) redeem_hook_api \<Rightarrow> address \<Rightarrow> address \<Rightarrow> address \<Rightarrow>
     address \<Rightarrow> uint256 \<Rightarrow> uint256 \<Rightarrow> address \<Rightarrow> ('e, 't) protocol \<Rightarrow> revert + ('e, 't) protocol"
where
  "redeem_nav Z E T V redeemHook this sender S reserve setTokenQuantity minReserveReceiveQuantity a w =
     and_then (validateOnlyValidAndInitializedSet this S w) (\<lambda>_.
     and_then (validateCommon S reserve setTokenQuantity w) (\<lambda>_.
     and_then (callPreRedeemHooks_nav redeemHook S setTokenQuantity sender a w) (\<lambda>w.
       redeem_at_nav Z E T V this sender S reserve setTokenQuantity minReserveReceiveQuantity a w)))"

definition redeemIntoEther_at_nav ::
  "oz_api \<Rightarrow> 'e erc20_api \<Rightarrow> 't token_api \<Rightarrow> ('e, 't) valuer_api \<Rightarrow> 't weth_api \<Rightarrow> address \<Rightarrow> address \<Rightarrow> address \<Rightarrow> address \<Rightarrow> uint256 \<Rightarrow>
     uint256 \<Rightarrow> address \<Rightarrow> ('e, 't) protocol \<Rightarrow> revert + ('e, 't) protocol"
where
  "redeemIntoEther_at_nav Z E T V W weth this sender S setTokenQuantity minReserveReceiveQuantity a w =
     and_then (createRedemptionInfo Z E T V this S weth setTokenQuantity w) (\<lambda>redeemInfo.
     and_then (validateRedemptionInfo S minReserveReceiveQuantity redeemInfo w) (\<lambda>_.
     and_then (on_set S (burn E (enabled_modules w) this sender setTokenQuantity) w) (\<lambda>w.
     and_then (strictInvokeTransfer Z T this S weth this (ai_netFlowQuantity redeemInfo) w) (\<lambda>w.
     and_then (with_tokens w (we_withdraw W this (ai_netFlowQuantity redeemInfo) (pr_tokens w))) (\<lambda>w.
     and_then (with_tokens w (we_send W this a (ai_netFlowQuantity redeemInfo) (pr_tokens w))) (\<lambda>w.
     and_then (handleRedemptionFees Z T this S weth redeemInfo w) (\<lambda>w.
       handleRedeemStateUpdates Z this sender S weth a redeemInfo w)))))))"

definition redeemIntoEther ::
  "oz_api \<Rightarrow> 'e erc20_api \<Rightarrow> 't token_api \<Rightarrow> ('e, 't) valuer_api \<Rightarrow> ('e, 't) redeem_hook_api \<Rightarrow> 't weth_api \<Rightarrow> address \<Rightarrow> address \<Rightarrow>
     address \<Rightarrow> address \<Rightarrow> uint256 \<Rightarrow> uint256 \<Rightarrow> address \<Rightarrow> ('e, 't) protocol \<Rightarrow> revert + ('e, 't) protocol"
where
  "redeemIntoEther Z E T V redeemHook W weth this sender S setTokenQuantity minReserveReceiveQuantity a w =
     and_then (validateOnlyValidAndInitializedSet this S w) (\<lambda>_.
     and_then (validateCommon S weth setTokenQuantity w) (\<lambda>_.
     and_then (callPreRedeemHooks_nav redeemHook S setTokenQuantity sender a w) (\<lambda>w.
       redeemIntoEther_at_nav Z E T V W weth this sender S setTokenQuantity minReserveReceiveQuantity a w)))"

subsection \<open>Settings\<close>

definition edit_settings ::
  "address \<Rightarrow> (NAVIssuanceSettings \<Rightarrow> NAVIssuanceSettings) \<Rightarrow> ('e, 't) protocol \<Rightarrow> ('e, 't) protocol"
where
  "edit_settings S f w = w\<lparr>pr_navIssuanceSettings := (pr_navIssuanceSettings w)(S := f (pr_navIssuanceSettings w S))\<rparr>"

definition mark_reserve :: "address \<Rightarrow> address \<Rightarrow> bool \<Rightarrow> ('e, 't) protocol \<Rightarrow> ('e, 't) protocol" where
  "mark_reserve S reserve b w = w\<lparr>pr_isReserveAsset := (pr_isReserveAsset w)(S := (pr_isReserveAsset w S)(reserve := b))\<rparr>"

definition addReserveAsset :: "address \<Rightarrow> address \<Rightarrow> address \<Rightarrow> address \<Rightarrow> ('e, 't) protocol \<Rightarrow> revert + ('e, 't) protocol" where
  "addReserveAsset this sender S reserve w =
     and_then (validateOnlyManagerAndValidSet this S sender w) (\<lambda>_.
     and_then (require (\<not> pr_isReserveAsset w S reserve) ''Reserve asset already exists'') (\<lambda>_.
     let w = edit_settings S (\<lambda>n. n\<lparr>ns_reserveAssets := ns_reserveAssets n @ [reserve]\<rparr>) w;
         w = mark_reserve S reserve True w
     in Inr (log_event (ReserveAssetAdded S reserve) w)))"

definition removeReserveAsset :: "address \<Rightarrow> address \<Rightarrow> address \<Rightarrow> address \<Rightarrow> ('e, 't) protocol \<Rightarrow> revert + ('e, 't) protocol" where
  "removeReserveAsset this sender S reserve w =
     and_then (validateOnlyManagerAndValidSet this S sender w) (\<lambda>_.
     and_then (require (pr_isReserveAsset w S reserve) ''Reserve asset does not exist'') (\<lambda>_.
     and_then (remove (ns_reserveAssets (pr_navIssuanceSettings w S)) reserve) (\<lambda>rest.
     let w = edit_settings S (\<lambda>n. n\<lparr>ns_reserveAssets := rest\<rparr>) w;
         w = mark_reserve S reserve False w
     in Inr (log_event (ReserveAssetRemoved S reserve) w))))"

definition editPremium :: "address \<Rightarrow> address \<Rightarrow> address \<Rightarrow> uint256 \<Rightarrow> ('e, 't) protocol \<Rightarrow> revert + ('e, 't) protocol" where
  "editPremium this sender S premiumPercentage w =
     and_then (validateOnlyManagerAndValidSet this S sender w) (\<lambda>_.
     and_then (require (premiumPercentage \<le> ns_maxPremiumPercentage (pr_navIssuanceSettings w S))
       ''Premium must be less than maximum allowed'') (\<lambda>_.
     Inr (log_event (PremiumEdited S premiumPercentage) (edit_settings S (\<lambda>n. n\<lparr>ns_premiumPercentage := premiumPercentage\<rparr>) w))))"

text \<open>A write to the array of two fees.\<close>

definition set_managerFee :: "uint256 \<Rightarrow> uint256 \<Rightarrow> uint256 \<times> uint256 \<Rightarrow> revert + uint256 \<times> uint256" where
  "set_managerFee i f managerFees =
     (if i = 0 then Inr (f, snd managerFees) else if i = 1 then Inr (fst managerFees, f) else Inl InvalidOpcode)"

definition editManagerFee :: "address \<Rightarrow> address \<Rightarrow> address \<Rightarrow> uint256 \<Rightarrow> uint256 \<Rightarrow> ('e, 't) protocol \<Rightarrow> revert + ('e, 't) protocol" where
  "editManagerFee this sender S managerFeePercentage managerFeeIndex w =
     and_then (validateOnlyManagerAndValidSet this S sender w) (\<lambda>_.
     and_then (require (managerFeePercentage \<le> ns_maxManagerFee (pr_navIssuanceSettings w S))
       ''Manager fee must be less than maximum allowed'') (\<lambda>_.
     and_then (set_managerFee managerFeeIndex managerFeePercentage (ns_managerFees (pr_navIssuanceSettings w S))) (\<lambda>managerFees.
     Inr (log_event (ManagerFeeEdited S managerFeePercentage managerFeeIndex)
       (edit_settings S (\<lambda>n. n\<lparr>ns_managerFees := managerFees\<rparr>) w)))))"

definition editFeeRecipient_nav :: "address \<Rightarrow> address \<Rightarrow> address \<Rightarrow> address \<Rightarrow> ('e, 't) protocol \<Rightarrow> revert + ('e, 't) protocol" where
  "editFeeRecipient_nav this sender S managerFeeRecipient w =
     and_then (validateOnlyManagerAndValidSet this S sender w) (\<lambda>_.
     and_then (require (managerFeeRecipient \<noteq> 0) ''Fee recipient must not be 0 address'') (\<lambda>_.
     Inr (log_event (FeeRecipientEdited S managerFeeRecipient) (edit_settings S (\<lambda>n. n\<lparr>ns_feeRecipient := managerFeeRecipient\<rparr>) w))))"

fun mark_reserves :: "address \<Rightarrow> address list \<Rightarrow> ('e, 't) protocol \<Rightarrow> revert + ('e, 't) protocol" where
  "mark_reserves S [] w = Inr w"
| "mark_reserves S (r # rs) w =
     and_then (require (\<not> pr_isReserveAsset w S r) ''Reserve assets must be unique'') (\<lambda>_.
       mark_reserves S rs (mark_reserve S r True w))"

definition initialize_nav ::
  "address \<Rightarrow> address \<Rightarrow> address \<Rightarrow> NAVIssuanceSettings \<Rightarrow> ('e, 't) protocol \<Rightarrow> revert + ('e, 't) protocol"
where
  "initialize_nav this sender S n w =
     and_then (validateOnlySetManager S sender w) (\<lambda>_.
     and_then (validateOnlyValidAndPendingSet this S w) (\<lambda>_.
     and_then (require (0 < length (ns_reserveAssets n)) ''Reserve assets must be greater than 0'') (\<lambda>_.
     and_then (require (ns_maxManagerFee n < preciseUnit) ''Max manager fee must be less than 100%'') (\<lambda>_.
     and_then (require (ns_maxPremiumPercentage n < preciseUnit) ''Max premium percentage must be less than 100%'') (\<lambda>_.
     and_then (require (fst (ns_managerFees n) \<le> ns_maxManagerFee n) ''Manager issue fee must be less than max'') (\<lambda>_.
     and_then (require (snd (ns_managerFees n) \<le> ns_maxManagerFee n) ''Manager redeem fee must be less than max'') (\<lambda>_.
     and_then (require (ns_premiumPercentage n \<le> ns_maxPremiumPercentage n) ''Premium must be less than max'') (\<lambda>_.
     and_then (require (ns_feeRecipient n \<noteq> 0) ''Fee Recipient must be non-zero address.'') (\<lambda>_.
     and_then (require (0 < ns_minSetTokenSupply n) ''Min SetToken supply must be greater than 0'') (\<lambda>_.
     and_then (mark_reserves S (ns_reserveAssets n) w) (\<lambda>w.
       on_set S (initializeModule this) (edit_settings S (\<lambda>_. n) w))))))))))))"

text \<open>Called by the SetToken that removes the module.\<close>

definition removeModule_nav :: "address \<Rightarrow> ('e, 't) protocol \<Rightarrow> revert + ('e, 't) protocol" where
  "removeModule_nav sender w =
     (let w = fold (\<lambda>r. mark_reserve sender r False) (ns_reserveAssets (pr_navIssuanceSettings w sender)) w
      in Inr (edit_settings sender (\<lambda>_. no_navSettings) w))"

subsection \<open>Views\<close>

definition getExpectedSetTokenIssueQuantity_nav ::
  "oz_api \<Rightarrow> 'e erc20_api \<Rightarrow> 't token_api \<Rightarrow> ('e, 't) valuer_api \<Rightarrow> address \<Rightarrow> address \<Rightarrow> address \<Rightarrow> uint256 \<Rightarrow> ('e, 't) protocol \<Rightarrow>
     revert + uint256"
where
  "getExpectedSetTokenIssueQuantity_nav Z E T V this S reserve reserveAssetQuantity w =
     and_then (getFees Z this S reserveAssetQuantity 0 2 0 w) (\<lambda>(_, _, netReserveFlow).
     and_then (the_set S w) (\<lambda>s.
       getSetTokenMintQuantity Z T V S reserve netReserveFlow (er_totalSupply E (st_token s)) w))"

definition getExpectedReserveRedeemQuantity_nav ::
  "oz_api \<Rightarrow> 't token_api \<Rightarrow> ('e, 't) valuer_api \<Rightarrow> address \<Rightarrow> address \<Rightarrow> address \<Rightarrow> uint256 \<Rightarrow> ('e, 't) protocol \<Rightarrow> revert + uint256"
where
  "getExpectedReserveRedeemQuantity_nav Z T V this S reserve setTokenQuantity w =
     and_then (getRedeemReserveQuantity Z T V S reserve setTokenQuantity w) (\<lambda>preFeeReserveQuantity.
     and_then (getFees Z this S preFeeReserveQuantity 1 3 1 w) (\<lambda>(_, _, netReserveFlows). Inr netReserveFlows))"

definition isIssueValid :: "'e erc20_api \<Rightarrow> address \<Rightarrow> address \<Rightarrow> uint256 \<Rightarrow> ('e, 't) protocol \<Rightarrow> revert + bool" where
  "isIssueValid E S reserve reserveAssetQuantity w =
     and_then (the_set S w) (\<lambda>s. Inr (reserveAssetQuantity \<noteq> 0 \<and> pr_isReserveAsset w S reserve \<and>
       ns_minSetTokenSupply (pr_navIssuanceSettings w S) \<le> er_totalSupply E (st_token s)))"

definition isRedeemValid ::
  "oz_api \<Rightarrow> 'e erc20_api \<Rightarrow> 't token_api \<Rightarrow> ('e, 't) valuer_api \<Rightarrow> address \<Rightarrow> address \<Rightarrow> address \<Rightarrow> uint256 \<Rightarrow> ('e, 't) protocol \<Rightarrow>
     revert + bool"
where
  "isRedeemValid Z E T V this S reserve setTokenQuantity w =
     and_then (the_set S w) (\<lambda>s.
     let setTotalSupply = er_totalSupply E (st_token s)
     in if setTokenQuantity = 0 \<or> \<not> pr_isReserveAsset w S reserve then Inr False
        else and_then (um_add Z (ns_minSetTokenSupply (pr_navIssuanceSettings w S)) setTokenQuantity) (\<lambda>least.
          if setTotalSupply < least then Inr False
          else and_then (getRedeemReserveQuantity Z T V S reserve setTokenQuantity w) (\<lambda>totalRedeemValue.
            and_then (getFees Z this S totalRedeemValue 1 3 1 w) (\<lambda>(_, _, expectedRedeemQuantity).
            and_then (getDefaultPositionRealUnit Z s reserve) (\<lambda>u.
            and_then (toUint256 Z u) (\<lambda>existingUnit.
            and_then (preciseMul_u Z existingUnit setTotalSupply) (\<lambda>available.
              Inr (expectedRedeemQuantity \<le> available))))))))"

subsection \<open>The settings of a SetToken\<close>

datatype nav_setting =
    Initialize_nav NAVIssuanceSettings
  | AddReserveAsset address
  | RemoveReserveAsset address
  | EditPremium uint256
  | EditManagerFee uint256 uint256
  | EditFeeRecipient_nav address

fun nav_setting_call :: "address \<Rightarrow> address \<Rightarrow> address \<Rightarrow> nav_setting \<Rightarrow> ('e, 't) protocol \<Rightarrow> revert + ('e, 't) protocol" where
  "nav_setting_call this sender S (Initialize_nav n) w = initialize_nav this sender S n w"
| "nav_setting_call this sender S (AddReserveAsset r) w = addReserveAsset this sender S r w"
| "nav_setting_call this sender S (RemoveReserveAsset r) w = removeReserveAsset this sender S r w"
| "nav_setting_call this sender S (EditPremium p) w = editPremium this sender S p w"
| "nav_setting_call this sender S (EditManagerFee f i) w = editManagerFee this sender S f i w"
| "nav_setting_call this sender S (EditFeeRecipient_nav a) w = editFeeRecipient_nav this sender S a w"

text \<open>The history of the module at \<open>S\<close>.\<close>

definition nav_history :: "oz_api \<Rightarrow> 'e erc20_api \<Rightarrow> address \<Rightarrow> address \<Rightarrow> ('e, 't) protocol \<Rightarrow> bool" where
  "nav_history Z E this S w \<longleftrightarrow> module_history (\<lambda>w w'. \<exists>sender call. nav_setting_call this sender S call w = Inr w') (removeModule_nav S)
     (\<lambda>w. (pr_navIssuanceSettings w S, pr_isReserveAsset w S)) (no_navSettings, \<lambda>_. False) Z E this S w"

lemma nav_history_call: "nav_history Z E this S w \<Longrightarrow> nav_setting_call this sender S call w = Inr w' \<Longrightarrow> nav_history Z E this S w'"
  unfolding nav_history_def by (rule history_call) blast+

definition settings_ok :: "NAVIssuanceSettings \<Rightarrow> (address \<Rightarrow> bool) \<Rightarrow> bool" where
  "settings_ok n isReserve \<longleftrightarrow> distinct (ns_reserveAssets n) \<and> Collect isReserve = set (ns_reserveAssets n) \<and>
     fst (ns_managerFees n) \<le> ns_maxManagerFee n \<and> snd (ns_managerFees n) \<le> ns_maxManagerFee n \<and>
     ns_premiumPercentage n \<le> ns_maxPremiumPercentage n \<and>
     uint (ns_maxManagerFee n) < 10 ^ 18 \<and> uint (ns_maxPremiumPercentage n) < 10 ^ 18"

lemma setting_fields [simp]:
  "pr_navIssuanceSettings (edit_settings S f w) = (pr_navIssuanceSettings w)(S := f (pr_navIssuanceSettings w S))"
  "pr_isReserveAsset (edit_settings S f w) = pr_isReserveAsset w" "pr_sets (edit_settings S f w) = pr_sets w"
  "pr_navIssuanceSettings (mark_reserve S r b w) = pr_navIssuanceSettings w" "pr_sets (mark_reserve S r b w) = pr_sets w"
  "pr_isReserveAsset (mark_reserve S r b w) S = (pr_isReserveAsset w S)(r := b)"
  by (simp_all add: edit_settings_def mark_reserve_def)

lemma mark_reserves_Inr: "mark_reserves S rs w = Inr w' \<Longrightarrow> distinct rs \<and>
    Collect (pr_isReserveAsset w' S) = Collect (pr_isReserveAsset w S) \<union> set rs \<and> set rs \<inter> Collect (pr_isReserveAsset w S) = {} \<and>
    pr_navIssuanceSettings w' = pr_navIssuanceSettings w"
  by (induction rs arbitrary: w) (fastforce split: if_splits)+

lemma unmark_reserves:
  "pr_isReserveAsset (fold (\<lambda>r. mark_reserve S r False) rs w) S = (\<lambda>r. r \<notin> set rs \<and> pr_isReserveAsset w S r) \<and>
   pr_navIssuanceSettings (fold (\<lambda>r. mark_reserve S r False) rs w) = pr_navIssuanceSettings w"
  by (induction rs arbitrary: w) (auto simp: fun_eq_iff)

lemmas nav_setting_defs = addReserveAsset_def removeReserveAsset_def editPremium_def editManagerFee_def
  editFeeRecipient_nav_def initialize_nav_def Let_def

text \<open>Settings that are in order, and cleared while the module is not initialized.\<close>

definition nav_ok :: "bool \<Rightarrow> NAVIssuanceSettings \<times> (address \<Rightarrow> bool) \<Rightarrow> bool" where
  "nav_ok initialized x \<longleftrightarrow> settings_ok (fst x) (snd x) \<and>
     (if initialized then ns_feeRecipient (fst x) \<noteq> 0 \<and> ns_minSetTokenSupply (fst x) \<noteq> 0
      else fst x = no_navSettings \<and> snd x = (\<lambda>_. False))"

abbreviation nav_inv :: "address \<Rightarrow> address \<Rightarrow> ('e, 't) protocol \<Rightarrow> bool" where
  "nav_inv this S w \<equiv> nav_ok (module_state_of this S w = INITIALIZED) (pr_navIssuanceSettings w S, pr_isReserveAsset w S)"

lemmas nav_inv_def = nav_ok_def

lemma nav_inv_initialize:
  assumes inv: "nav_inv this S w" and run: "initialize_nav this sender S n w = Inr w'"
  shows "nav_inv this S w'"
proof -
  from run obtain w1 where w1: "mark_reserves S (ns_reserveAssets n) w = Inr w1" and w': "on_set S (initializeModule this) (edit_settings S (\<lambda>_. n) w1) = Inr w'"
    and n: "ns_maxManagerFee n < preciseUnit" "ns_maxPremiumPercentage n < preciseUnit" "fst (ns_managerFees n) \<le> ns_maxManagerFee n"
      "snd (ns_managerFees n) \<le> ns_maxManagerFee n" "ns_premiumPercentage n \<le> ns_maxPremiumPercentage n"
      "ns_feeRecipient n \<noteq> 0" "0 < ns_minSetTokenSupply n" and pending: "validateOnlyValidAndPendingSet this S w = Inr ()"
    by (auto simp: initialize_nav_def)
  have "module_state_of this S w \<noteq> INITIALIZED" using pending by (auto simp: validate_Inr module_state_of_def)
  then have "Collect (pr_isReserveAsset w S) = {}" using inv by (simp add: nav_inv_def)
  moreover from w' have "pr_navIssuanceSettings w' S = n" "pr_isReserveAsset w' S = pr_isReserveAsset w1 S" "module_state_of this S w' = INITIALIZED"
    by (auto simp: on_set_Inr initializeModule_def emitted_def module_state_of_def)
  ultimately show ?thesis using mark_reserves_Inr [OF w1] n by (auto simp: nav_inv_def settings_ok_def word_less_def preciseUnit_def)
qed

lemma manager_validated: "validateOnlyManagerAndValidSet this S sender w = Inr u \<Longrightarrow> module_state_of this S w = INITIALIZED"
  by (auto simp: validateOnlyManagerAndValidSet_def validate_Inr module_state_of_def)

lemma module_state_same:
  "module_state_of this S (log_event e w) = module_state_of this S w" "module_state_of this S (edit_settings S' f w) = module_state_of this S w"
  "module_state_of this S (mark_reserve S' r b w) = module_state_of this S w"
  by (simp_all add: module_state_of_def)

lemma nav_inv_call:
  assumes inv: "nav_inv this S w" and run: "nav_setting_call this sender S call w = Inr w'"
  shows "nav_inv this S w'"
proof (cases call)
  case (Initialize_nav n)
  then show ?thesis using nav_inv_initialize [OF inv] run by simp
next
  case (RemoveReserveAsset r)
  with run obtain rest where r: "validateOnlyManagerAndValidSet this S sender w = Inr ()" "pr_isReserveAsset w S r"
    "remove (ns_reserveAssets (pr_navIssuanceSettings w S)) r = Inr rest"
    "w' = log_event (ReserveAssetRemoved S r) (mark_reserve S r False (edit_settings S (\<lambda>n. n\<lparr>ns_reserveAssets := rest\<rparr>) w))"
    by (auto simp: removeReserveAsset_def Let_def)
  have d: "distinct (ns_reserveAssets (pr_navIssuanceSettings w S))" using inv by (simp add: nav_inv_def settings_ok_def)
  have "module_state_of this S w' = INITIALIZED" "module_state_of this S w = INITIALIZED"
    using manager_validated [OF r(1)] by (simp_all add: r(4) module_state_same)
  moreover have "pr_isReserveAsset w' S = (pr_isReserveAsset w S)(r := False)"
    "pr_navIssuanceSettings w' S = (pr_navIssuanceSettings w S)\<lparr>ns_reserveAssets := rest\<rparr>" by (simp_all add: r(4))
  moreover have "Collect ((pr_isReserveAsset w S)(r := False)) = Collect (pr_isReserveAsset w S) - {r}" by (auto split: if_splits)
  ultimately show ?thesis using inv remove.rem_distinct(1,2) [OF distinct_short [OF d] r(3) d]
    by (simp add: nav_inv_def settings_ok_def)
next
  case (AddReserveAsset r)
  let ?n = "pr_navIssuanceSettings w S"
  from run AddReserveAsset obtain u where r: "validateOnlyManagerAndValidSet this S sender w = Inr u" "\<not> pr_isReserveAsset w S r"
    "w' = log_event (ReserveAssetAdded S r) (mark_reserve S r True (edit_settings S (\<lambda>n. n\<lparr>ns_reserveAssets := ns_reserveAssets n @ [r]\<rparr>) w))"
    by (auto simp: addReserveAsset_def Let_def)
  have "module_state_of this S w' = INITIALIZED" "module_state_of this S w = INITIALIZED"
    using manager_validated [OF r(1)] by (simp_all add: r(3) module_state_same)
  moreover have "pr_isReserveAsset w' S = (pr_isReserveAsset w S)(r := True)"
    "pr_navIssuanceSettings w' S = ?n\<lparr>ns_reserveAssets := ns_reserveAssets ?n @ [r]\<rparr>" by (simp_all add: r(3))
  moreover have "Collect ((pr_isReserveAsset w S)(r := True)) = insert r (Collect (pr_isReserveAsset w S))" by (auto split: if_splits)
  moreover have "r \<notin> set (ns_reserveAssets ?n)" using r(2) inv by (auto simp: nav_inv_def settings_ok_def)
  ultimately show ?thesis using inv by (simp add: nav_inv_def settings_ok_def)
next
  case (EditPremium p)
  with run obtain u where "validateOnlyManagerAndValidSet this S sender w = Inr u" "p \<le> ns_maxPremiumPercentage (pr_navIssuanceSettings w S)"
    "w' = log_event (PremiumEdited S p) (edit_settings S (\<lambda>n. n\<lparr>ns_premiumPercentage := p\<rparr>) w)"
    by (auto simp: editPremium_def)
  then show ?thesis using inv manager_validated [of this S sender w u] by (simp add: nav_inv_def settings_ok_def module_state_same)
next
  case (EditManagerFee f i)
  with run obtain u fees where "validateOnlyManagerAndValidSet this S sender w = Inr u" "f \<le> ns_maxManagerFee (pr_navIssuanceSettings w S)"
    "set_managerFee i f (ns_managerFees (pr_navIssuanceSettings w S)) = Inr fees"
    "w' = log_event (ManagerFeeEdited S f i) (edit_settings S (\<lambda>n. n\<lparr>ns_managerFees := fees\<rparr>) w)"
    by (auto simp: editManagerFee_def)
  then show ?thesis using inv manager_validated [of this S sender w u]
    by (auto simp: nav_inv_def settings_ok_def module_state_same set_managerFee_def split: if_splits)
next
  case (EditFeeRecipient_nav a)
  with run obtain u where "validateOnlyManagerAndValidSet this S sender w = Inr u" "a \<noteq> 0"
    "w' = log_event (FeeRecipientEdited S a) (edit_settings S (\<lambda>n. n\<lparr>ns_feeRecipient := a\<rparr>) w)"
    by (auto simp: editFeeRecipient_nav_def)
  then show ?thesis using inv manager_validated [of this S sender w u] by (simp add: nav_inv_def settings_ok_def module_state_same)
qed

interpretation nav_storage: module_storage "\<lambda>w w'. \<exists>sender call. nav_setting_call this sender S call w = Inr w'" "removeModule_nav S"
    "\<lambda>w. (pr_navIssuanceSettings w S, pr_isReserveAsset w S)" "(no_navSettings, \<lambda>_. False)" this S nav_ok for this S
proof
  fix w w1 :: "('a, 'b) protocol" and b
  assume removed: "removeModule_nav S w = Inr w1" and ok: "nav_ok b (pr_navIssuanceSettings w S, pr_isReserveAsset w S)"
  let ?n = "pr_navIssuanceSettings w S"
  have "pr_isReserveAsset w1 S = (\<lambda>r. r \<notin> set (ns_reserveAssets ?n) \<and> pr_isReserveAsset w S r)" "pr_navIssuanceSettings w1 S = no_navSettings"
    using removed unmark_reserves [of S "ns_reserveAssets ?n" w] by (auto simp: removeModule_nav_def Let_def)
  moreover have "Collect (pr_isReserveAsset w S) = set (ns_reserveAssets ?n)" using ok by (simp add: nav_ok_def settings_ok_def)
  ultimately have "pr_isReserveAsset w1 S = (\<lambda>_. False)" "pr_navIssuanceSettings w1 S = no_navSettings" by (auto simp: fun_eq_iff)
  then show "nav_ok False (pr_navIssuanceSettings w1 S, pr_isReserveAsset w1 S)"
    by (simp add: nav_ok_def settings_ok_def no_navSettings_def)
next
  show "nav_ok False (no_navSettings, \<lambda>_. False)" by (simp add: nav_ok_def settings_ok_def no_navSettings_def)
qed (auto intro: nav_inv_call)

text \<open>C17: The settings of the NAV module are in order in every state: the reserve assets are listed once and are exactly those
  that the mapping allows; no fee exceeds its maximum, no premium its maximum, and both maxima are below one; on a
  SetToken where the module is initialized the fee recipient and the minimal supply are not zero, and
  everywhere else all settings are cleared.\<close>

theorem nav_settings_invariant:
  assumes "nav_history Z E this S w"
  shows "distinct (ns_reserveAssets (pr_navIssuanceSettings w S)) \<and>
    Collect (pr_isReserveAsset w S) = set (ns_reserveAssets (pr_navIssuanceSettings w S)) \<and>
    fst (ns_managerFees (pr_navIssuanceSettings w S)) \<le> ns_maxManagerFee (pr_navIssuanceSettings w S) \<and>
    snd (ns_managerFees (pr_navIssuanceSettings w S)) \<le> ns_maxManagerFee (pr_navIssuanceSettings w S) \<and>
    ns_premiumPercentage (pr_navIssuanceSettings w S) \<le> ns_maxPremiumPercentage (pr_navIssuanceSettings w S) \<and>
    uint (ns_maxManagerFee (pr_navIssuanceSettings w S)) < 10 ^ 18 \<and> uint (ns_maxPremiumPercentage (pr_navIssuanceSettings w S)) < 10 ^ 18 \<and>
    (if module_state_of this S w = INITIALIZED
     then ns_feeRecipient (pr_navIssuanceSettings w S) \<noteq> 0 \<and> ns_minSetTokenSupply (pr_navIssuanceSettings w S) \<noteq> 0
     else pr_navIssuanceSettings w S = no_navSettings \<and> pr_isReserveAsset w S = (\<lambda>_. False))"
proof -
  have "nav_inv this S w" using nav_storage.history_ok assms unfolding nav_history_def by blast
  then show ?thesis by (auto simp: nav_inv_def settings_ok_def word_le_def)
qed

text \<open>The manager of the example initializes the module, adds a reserve asset and removes the first one.\<close>

definition pending_world :: "(shares, ledger) protocol" where
  "pending_world = valued_world\<lparr>pr_sets := Map.empty(100 \<mapsto> valued_set\<lparr>st_modules := [5], st_moduleStates := (\<lambda>_. NONE)(70 := PENDING, 5 := INITIALIZED)\<rparr>),
     pr_navIssuanceSettings := (\<lambda>_. no_navSettings), pr_isReserveAsset := (\<lambda>_ _. False)\<rparr>"

lemma pending_world_calls:
  obtains w1 w2 w3 where "initialize_nav 70 9 100 (pr_navIssuanceSettings valued_world 100) pending_world = Inr w1"
    "addReserveAsset 70 9 100 41 w1 = Inr w2" "removeReserveAsset 70 9 100 40 w2 = Inr w3"
    "ns_reserveAssets (pr_navIssuanceSettings w3 100) = [41]" "module_state_of 70 100 w3 = INITIALIZED"
proof -
  let ?n = "pr_navIssuanceSettings valued_world 100"
  let ?m = "mark_reserve 100 40 True pending_world"
  let ?s = "valued_set\<lparr>st_modules := [5], st_moduleStates := (\<lambda>_. NONE)(70 := PENDING, 5 := INITIALIZED)\<rparr>"
  let ?s1 = "emitted (ModuleInitialized 70) (?s\<lparr>st_moduleStates := (st_moduleStates ?s)(70 := INITIALIZED), st_modules := [5, 70]\<rparr>)"
  let ?w1 = "(edit_settings 100 (\<lambda>_. ?n) ?m)\<lparr>pr_sets := (pr_sets pending_world)(100 \<mapsto> ?s1)\<rparr>"
  let ?w2 = "log_event (ReserveAssetAdded 100 41) (mark_reserve 100 41 True (edit_settings 100 (\<lambda>n. n\<lparr>ns_reserveAssets := [40, 41]\<rparr>) ?w1))"
  let ?w3 = "log_event (ReserveAssetRemoved 100 40) (mark_reserve 100 40 False (edit_settings 100 (\<lambda>n. n\<lparr>ns_reserveAssets := [41]\<rparr>) ?w2))"
  have set: "pr_sets pending_world 100 = Some ?s" "pr_isReserveAsset pending_world 100 = (\<lambda>_. False)" "isSet (pr_controller pending_world) 100"
    by (simp_all add: pending_world_def valued_controller_def valued_world_def)
  have n: "ns_reserveAssets ?n = [40]" "ns_maxManagerFee ?n = 50000000000000000" "ns_maxPremiumPercentage ?n = 10000000000000000"
    "ns_managerFees ?n = (10000000000000000, 20000000000000000)" "ns_premiumPercentage ?n = 5000000000000000"
    "ns_feeRecipient ?n = 3" "ns_minSetTokenSupply ?n = 1000000000000000000" by (simp_all add: valued_world_def)

  have v: "validateOnlySetManager 100 9 pending_world = Inr ()" "validateOnlyValidAndPendingSet 70 100 pending_world = Inr ()"
    using set by (auto simp: validate_Inr valued_set_def)
  have "on_set 100 (initializeModule 70) (edit_settings 100 (\<lambda>_. ?n) ?m) = Inr ?w1"
    using set(1) by (auto simp: on_set_Inr initializeModule_def valued_set_def edit_settings_def mark_reserve_def)
  then have 1: "initialize_nav 70 9 100 ?n pending_world = Inr ?w1"
    by (simp add: initialize_nav_def v n set(2) preciseUnit_def PRECISE_UNIT_u_def del: and_then_eq_Inr)
  have ok: "validateOnlyManagerAndValidSet 70 100 9 ?w1 = Inr ()" "validateOnlyManagerAndValidSet 70 100 9 ?w2 = Inr ()"
    using set(3) by (auto simp: validateOnlyManagerAndValidSet_def validate_Inr valued_set_def emitted_def edit_settings_def mark_reserve_def)
  have 2: "addReserveAsset 70 9 100 41 ?w1 = Inr ?w2"
    using ok(1) set(2) by (simp add: addReserveAsset_def n mark_reserve_def edit_settings_def Let_def del: and_then_eq_Inr)
  have "remove [40, 41] 40 = Inr [41]" by (simp add: remove_eq)
  then have 3: "removeReserveAsset 70 9 100 40 ?w2 = Inr ?w3"
    using ok(2) by (simp add: removeReserveAsset_def n mark_reserve_def edit_settings_def log_event_def Let_def del: and_then_eq_Inr)
  show thesis by (rule that [OF 1 2 3]) (simp_all add: module_state_of_def emitted_def)
qed

theorem nav_settings_invariant_witness:
  "\<exists>w :: (shares, ledger) protocol. ns_reserveAssets (pr_navIssuanceSettings w 100) = [41] \<and> Collect (pr_isReserveAsset w 100) = {41} \<and>
     fst (ns_managerFees (pr_navIssuanceSettings w 100)) \<le> ns_maxManagerFee (pr_navIssuanceSettings w 100) \<and>
     ns_feeRecipient (pr_navIssuanceSettings w 100) \<noteq> 0"
proof -
  obtain w1 w2 w3 where runs: "initialize_nav 70 9 100 (pr_navIssuanceSettings valued_world 100) pending_world = Inr w1"
    "addReserveAsset 70 9 100 41 w1 = Inr w2" "removeReserveAsset 70 9 100 40 w2 = Inr w3"
    and w3: "ns_reserveAssets (pr_navIssuanceSettings w3 100) = [41]" "module_state_of 70 100 w3 = INITIALIZED"
    by (rule pending_world_calls)
  have "nav_history checked_oz shares_erc20 70 100 pending_world"
    unfolding nav_history_def by (rule history_start) (simp_all add: pending_world_def module_state_of_def)
  from nav_history_call [OF this, of 9 "Initialize_nav (pr_navIssuanceSettings valued_world 100)"] runs(1)
  have "nav_history checked_oz shares_erc20 70 100 w1" by simp
  from nav_history_call [OF this, of 9 "AddReserveAsset 41"] runs(2) have "nav_history checked_oz shares_erc20 70 100 w2" by simp
  from nav_history_call [OF this, of 9 "RemoveReserveAsset 40"] runs(3) have "nav_history checked_oz shares_erc20 70 100 w3" by simp
  from nav_settings_invariant [OF this] w3 show ?thesis by (intro exI [of _ w3]) simp
qed

end
