(* ===== verification/NavSolvency.thy ===== *)
theory NavSolvency
  imports Solvency NavIssuanceModule
begin

text \<open>
  What the NAV module does to the SetToken: the supply and the multiplier move against each other, so that the units of
  all components but the reserve asset are diluted and nothing else, and the unit of the reserve asset is set from
  its balance. Solvency survives up to rounding; nobody gets more than the net asset value; and the views of the
  module predict its actions.
\<close>

subsection \<open>Wrapped ether\<close>

text \<open>What the contract at \<open>weth\<close> is known for: a transfer moves the quantity, and deposits, withdrawals and payments of
  ether change no balance but the caller's own.\<close>

locale wrapped_ether =
  fixes T :: "'t token_api" and weth :: address and W :: "'t weth_api"
  assumes transfer_other: "we_transfer W src dst q \<tau> = Inr (b, \<tau>') \<Longrightarrow> h \<noteq> src \<Longrightarrow>
      uint (tk_balanceOf T weth h \<tau>') = uint (tk_balanceOf T weth h \<tau>) + (if h = dst then uint q else 0)"
    and transfer_token: "we_transfer W src dst q \<tau> = Inr (b, \<tau>') \<Longrightarrow> t \<noteq> weth \<Longrightarrow> tk_balanceOf T t h \<tau>' = tk_balanceOf T t h \<tau>"
    and deposit_other: "we_deposit W who q \<tau> = Inr \<tau>' \<Longrightarrow> h \<noteq> who \<or> t \<noteq> weth \<Longrightarrow> tk_balanceOf T t h \<tau>' = tk_balanceOf T t h \<tau>"
    and withdraw_other: "we_withdraw W who q \<tau> = Inr \<tau>' \<Longrightarrow> h \<noteq> who \<or> t \<noteq> weth \<Longrightarrow> tk_balanceOf T t h \<tau>' = tk_balanceOf T t h \<tau>"
    and send_tokens: "we_send W src dst q \<tau> = Inr \<tau>' \<Longrightarrow> tk_balanceOf T t h \<tau>' = tk_balanceOf T t h \<tau>"

subsection \<open>The step in numbers\<close>

lemma solvent_nav:
  assumes inv: "solvent E T S n exact \<tau> s" and pinv': "positions_inv s'"
    and diluted: "total_supply E s' * sint (st_positionMultiplier s') \<le> total_supply E s * sint (st_positionMultiplier s)"
    and others: "\<And>d. d \<noteq> r \<Longrightarrow> defaultPositionVirtualUnit s' d = defaultPositionVirtualUnit s d"
      "set (st_components s') - {r} = set (st_components s) - {r}" "\<And>d. d \<noteq> r \<Longrightarrow> held T S \<tau> d \<le> held T S \<tau>' d"
    and reserve: "exact_unit s' r \<le> u * 10 ^ 18" "total_supply E s' * u \<le> (real_unit s r * total_supply E s div 10 ^ 18 + flow) * 10 ^ 18"
      "held T S \<tau> r + flow \<le> held T S \<tau>' r"
  shows "solvent E T S n False \<tau>' s'"
proof -
  note pinv = solventD(1) [OF inv] and N_pos = uint_ge_0 [of "er_totalSupply E (st_token s)", folded total_supply_def]
  have N'_pos: "0 \<le> total_supply E s'" by (simp add: total_supply_def)
  have other: "nearly_backed E T S \<tau>' n s' d" if d: "d \<in> set (st_components s')" "d \<noteq> r" for d
  proof -
    let ?v = "sint (defaultPositionVirtualUnit s d)"
    have "?v * (total_supply E s' * sint (st_positionMultiplier s')) \<le> ?v * (total_supply E s * sint (st_positionMultiplier s))"
      using positions_invD(5) [OF pinv] by (intro mult_left_mono diluted)
    also have "\<dots> \<le> (held T S \<tau> d * 10 ^ 18 + n) * 10 ^ 18"
      using solventD(3) [OF inv, of d] d others(2) by (auto simp: exact_unit_def ac_simps)
    also have "\<dots> \<le> (held T S \<tau>' d * 10 ^ 18 + n) * 10 ^ 18" using others(3) [OF d(2)] by simp
    finally show ?thesis by (simp add: nearly_backed_def exact_unit_def others(1) [OF d(2)] ac_simps)
  qed
  have "total_supply E s * exact_unit s r \<le> (held T S \<tau> r * 10 ^ 18 + n) * 10 ^ 18"
  proof (cases "r \<in> set (st_components s)")
    case False
    then have "exact_unit s r = 0" using positions_invD(9) [OF pinv] by (auto simp: exact_unit_def)
    then show ?thesis using solventD(2) [OF inv] by (simp add: held_def)
  qed (rule solventD(3) [OF inv])
  moreover have "total_supply E s * (real_unit s r * 10 ^ 18) \<le> total_supply E s * exact_unit s r"
    by (intro mult_left_mono real_unit_bounds N_pos)
  ultimately have "real_unit s r * total_supply E s * 10 ^ 18 \<le> (held T S \<tau> r * 10 ^ 18 + n) * 10 ^ 18" by (simp add: ac_simps)
  then have owed: "real_unit s r * total_supply E s \<le> held T S \<tau> r * 10 ^ 18 + n" by (simp only: mult_le_cancel_right) simp
  have "total_supply E s' * exact_unit s' r \<le> total_supply E s' * (u * 10 ^ 18)" by (intro mult_left_mono reserve(1) N'_pos)
  also have "\<dots> \<le> (real_unit s r * total_supply E s div 10 ^ 18 + flow) * 10 ^ 18 * 10 ^ 18"
    using mult_right_mono [OF reserve(2), of "10 ^ 18"] by (simp add: ac_simps)
  also have "\<dots> \<le> (real_unit s r * total_supply E s + flow * 10 ^ 18) * 10 ^ 18"
    using floor_bounds(1) [of "10 ^ 18" "real_unit s r * total_supply E s"] by (simp add: distrib_right)
  also have "\<dots> \<le> (held T S \<tau>' r * 10 ^ 18 + n) * 10 ^ 18"
    using owed reserve(3) by simp
  finally have "nearly_backed E T S \<tau>' n s' r" by (simp add: nearly_backed_def)
  then show ?thesis using other pinv' solventD(2) [OF inv] by (auto simp: solvent_def)
qed

lemma diluted_multiplier:
  fixes M N N' :: int
  assumes "0 < M" "0 \<le> N" "0 < N'"
  shows "N' * ((M * N) sdiv N') \<le> N * M"
  using assms floor_bounds(1) [of N' "M * N"] by (simp add: sdiv_nonneg ac_simps)

subsection \<open>Transfers\<close>

lemma honest_tokensD: "honest_tokens T \<Longrightarrow> token_contracts T"
  by (simp add: honest_tokens_def)

lemma transferCollateral_effect:
  assumes Z: "openzeppelin Z" and T: "honest_tokens T" and "sender \<noteq> S"
    and run: "transferCollateralAndHandleFees Z T this sender S r info w = Inr w'"
  shows "\<exists>\<tau>. w' = w\<lparr>pr_tokens := \<tau>\<rparr> \<and> held T S (pr_tokens w) r + uint (ai_netFlowQuantity info) \<le> held T S \<tau> r \<and>
    (\<forall>t. t \<noteq> r \<longrightarrow> tk_balanceOf T t S \<tau> = tk_balanceOf T t S (pr_tokens w))"
proof -
  note T0 = honest_tokensD [OF T]
  have step: "\<exists>\<tau>. w2 = w1\<lparr>pr_tokens := \<tau>\<rparr> \<and> held T S (pr_tokens w1) r \<le> held T S \<tau> r \<and>
      (\<forall>t. t \<noteq> r \<longrightarrow> tk_balanceOf T t S \<tau> = tk_balanceOf T t S (pr_tokens w1))"
    if "(if 0 < q then explicit_transferFrom Z T this r sender b q w1 else Inr w1) = Inr w2" for b q and w1 w2 :: "('b, 'a) protocol"
  proof (cases "0 < q")
    case True
    with that obtain \<tau> where \<tau>: "tk_safeTransferFrom T r this sender b q (pr_tokens w1) = Inr \<tau>" "w2 = w1\<lparr>pr_tokens := \<tau>\<rparr>"
      by (auto simp: explicit_transferFrom_def Let_def)
    have "tk_balanceOf T r S (pr_tokens w1) \<le> tk_balanceOf T r S \<tau>"
      using honest_tokens.transferFrom_holder [OF T \<tau>(1)] \<open>sender \<noteq> S\<close> by simp
    then show ?thesis using \<tau>(2) token_contracts.transferFrom_other [OF T0 \<tau>(1)] by (auto simp: held_def word_le_def)
  next
    case False
    then have "w2 = w1\<lparr>pr_tokens := pr_tokens w1\<rparr>" using that by simp
    then show ?thesis by blast
  qed
  from run obtain w1 w2 where w1: "explicit_transferFrom Z T this r sender S (ai_netFlowQuantity info) w = Inr w1"
    and w2: "(if 0 < ai_protocolFees info
       then explicit_transferFrom Z T this r sender (controller.feeRecipient (pr_controller w1)) (ai_protocolFees info) w1 else Inr w1) = Inr w2"
    and w3: "(if 0 < ai_managerFee info
       then explicit_transferFrom Z T this r sender (ns_feeRecipient (pr_navIssuanceSettings w2 S)) (ai_managerFee info) w2 else Inr w2) = Inr w'"
    by (auto simp: transferCollateralAndHandleFees_def)
  obtain \<tau>1 where \<tau>1: "w1 = w\<lparr>pr_tokens := \<tau>1\<rparr>" "held T S \<tau>1 r = held T S (pr_tokens w) r + uint (ai_netFlowQuantity info)"
    "\<And>t. t \<noteq> r \<Longrightarrow> tk_balanceOf T t S \<tau>1 = tk_balanceOf T t S (pr_tokens w)"
    by (rule explicit_transferFrom_effect [OF Z T0 w1]) (simp add: held_def)
  obtain \<tau>2 where \<tau>2: "w2 = w1\<lparr>pr_tokens := \<tau>2\<rparr>" "held T S (pr_tokens w1) r \<le> held T S \<tau>2 r"
    "\<And>t. t \<noteq> r \<Longrightarrow> tk_balanceOf T t S \<tau>2 = tk_balanceOf T t S (pr_tokens w1)"
    using step [OF w2] by blast
  obtain \<tau>3 where \<tau>3: "w' = w2\<lparr>pr_tokens := \<tau>3\<rparr>" "held T S (pr_tokens w2) r \<le> held T S \<tau>3 r"
    "\<And>t. t \<noteq> r \<Longrightarrow> tk_balanceOf T t S \<tau>3 = tk_balanceOf T t S (pr_tokens w2)"
    using step [OF w3] by blast
  show ?thesis using \<tau>1 \<tau>2 \<tau>3 by (intro exI [of _ \<tau>3]) auto
qed

lemma weth_transfer_effect:
  assumes "wrapped_ether T weth W" and "this \<noteq> S" and "weth_transfer W this dst q w = Inr w'"
  shows "\<exists>\<tau>. w' = w\<lparr>pr_tokens := \<tau>\<rparr> \<and> held T S \<tau> weth = held T S (pr_tokens w) weth + (if S = dst then uint q else 0) \<and>
    (\<forall>t. t \<noteq> weth \<longrightarrow> tk_balanceOf T t S \<tau> = tk_balanceOf T t S (pr_tokens w))"
proof -
  from assms(3) obtain b \<tau> where \<tau>: "we_transfer W this dst q (pr_tokens w) = Inr (b, \<tau>)" "w' = w\<lparr>pr_tokens := \<tau>\<rparr>"
    by (auto simp: weth_transfer_def with_tokens_def)
  then show ?thesis using wrapped_ether.transfer_other [OF assms(1) \<tau>(1)] wrapped_ether.transfer_token [OF assms(1) \<tau>(1)] assms(2)
    by (auto simp: held_def)
qed

lemma transferWETH_effect:
  assumes W: "wrapped_ether T weth W" "this \<noteq> S" and run: "transferWETHAndHandleFees W this S info w = Inr w'"
  shows "\<exists>\<tau>. w' = w\<lparr>pr_tokens := \<tau>\<rparr> \<and> held T S (pr_tokens w) weth + uint (ai_netFlowQuantity info) \<le> held T S \<tau> weth \<and>
    (\<forall>t. t \<noteq> weth \<longrightarrow> tk_balanceOf T t S \<tau> = tk_balanceOf T t S (pr_tokens w))"
proof -
  note step = weth_transfer_effect [OF W]
  have more: "\<exists>\<tau>. w2 = w1\<lparr>pr_tokens := \<tau>\<rparr> \<and> held T S (pr_tokens w1) weth \<le> held T S \<tau> weth \<and>
      (\<forall>t. t \<noteq> weth \<longrightarrow> tk_balanceOf T t S \<tau> = tk_balanceOf T t S (pr_tokens w1))"
    if "(if 0 < q then weth_transfer W this dst q w1 else Inr w1) = Inr w2" for dst q and w1 w2 :: "('b, 'a) protocol"
  proof (cases "0 < q")
    case True
    then have "weth_transfer W this dst q w1 = Inr w2" using that by simp
    from step [OF this] show ?thesis by (auto split: if_splits)
  next
    case False
    then have "w2 = w1\<lparr>pr_tokens := pr_tokens w1\<rparr>" using that by simp
    then show ?thesis by blast
  qed
  from run obtain w1 w2 where w1: "weth_transfer W this S (ai_netFlowQuantity info) w = Inr w1"
    and w2: "(if 0 < ai_protocolFees info
       then weth_transfer W this (controller.feeRecipient (pr_controller w1)) (ai_protocolFees info) w1 else Inr w1) = Inr w2"
    and w3: "(if 0 < ai_managerFee info
       then weth_transfer W this (ns_feeRecipient (pr_navIssuanceSettings w2 S)) (ai_managerFee info) w2 else Inr w2) = Inr w'"
    by (auto simp: transferWETHAndHandleFees_def)
  obtain \<tau>1 where \<tau>1: "w1 = w\<lparr>pr_tokens := \<tau>1\<rparr>" "held T S \<tau>1 weth = held T S (pr_tokens w) weth + uint (ai_netFlowQuantity info)"
    "\<And>t. t \<noteq> weth \<Longrightarrow> tk_balanceOf T t S \<tau>1 = tk_balanceOf T t S (pr_tokens w)"
    using step [OF w1] by auto
  obtain \<tau>2 where \<tau>2: "w2 = w1\<lparr>pr_tokens := \<tau>2\<rparr>" "held T S (pr_tokens w1) weth \<le> held T S \<tau>2 weth"
    "\<And>t. t \<noteq> weth \<Longrightarrow> tk_balanceOf T t S \<tau>2 = tk_balanceOf T t S (pr_tokens w1)"
    using more [OF w2] by blast
  obtain \<tau>3 where \<tau>3: "w' = w2\<lparr>pr_tokens := \<tau>3\<rparr>" "held T S (pr_tokens w2) weth \<le> held T S \<tau>3 weth"
    "\<And>t. t \<noteq> weth \<Longrightarrow> tk_balanceOf T t S \<tau>3 = tk_balanceOf T t S (pr_tokens w2)"
    using more [OF w3] by blast
  show ?thesis using \<tau>1 \<tau>2 \<tau>3 by (intro exI [of _ \<tau>3]) auto
qed

text \<open>The reserve asset that a redemption takes out of the SetToken: the flow to the redeemer and the two fees.\<close>

lemma redemption_fees_effect:
  assumes Z: "openzeppelin Z" and T: "token_contracts T" and s: "pr_sets w S = Some s"
    and run: "handleRedemptionFees Z T this S r info w = Inr w'"
  shows "\<exists>\<tau> es. w' = w\<lparr>pr_tokens := \<tau>, pr_sets := (pr_sets w)(S \<mapsto> s\<lparr>st_events := es\<rparr>)\<rparr> \<and>
    held T S \<tau> r = held T S (pr_tokens w) r - uint (ai_protocolFees info) - uint (ai_managerFee info) \<and>
    (\<forall>t. t \<noteq> r \<longrightarrow> tk_balanceOf T t S \<tau> = tk_balanceOf T t S (pr_tokens w))"
proof -
  have step: "\<exists>\<tau> es. w2 = w1\<lparr>pr_tokens := \<tau>, pr_sets := (pr_sets w1)(S \<mapsto> s1\<lparr>st_events := es\<rparr>)\<rparr> \<and>
      held T S \<tau> r = held T S (pr_tokens w1) r - uint q \<and> (\<forall>t. t \<noteq> r \<longrightarrow> tk_balanceOf T t S \<tau> = tk_balanceOf T t S (pr_tokens w1))"
    if "(if 0 < q then strictInvokeTransfer Z T this S r b q w1 else Inr w1) = Inr w2" "pr_sets w1 S = Some s1"
    for b q s1 and w1 w2 :: "('b, 'a) protocol"
  proof -
    have "strictInvokeTransfer Z T this S r b q w1 = Inr w2"
      using that(1) by (auto simp: strictInvokeTransfer_def split: if_splits)
    from strictInvokeTransfer_effect [OF Z T this that(2)] show ?thesis by (metis held_def)
  qed
  from run obtain w1 where w1: "(if 0 < ai_protocolFees info
       then strictInvokeTransfer Z T this S r (controller.feeRecipient (pr_controller w)) (ai_protocolFees info) w else Inr w) = Inr w1"
    and w2: "(if 0 < ai_managerFee info
       then strictInvokeTransfer Z T this S r (ns_feeRecipient (pr_navIssuanceSettings w1 S)) (ai_managerFee info) w1 else Inr w1) = Inr w'"
    by (auto simp: handleRedemptionFees_def payProtocolFeeFromSetToken_def)
  obtain \<tau>1 es1 where 1: "w1 = w\<lparr>pr_tokens := \<tau>1, pr_sets := (pr_sets w)(S \<mapsto> s\<lparr>st_events := es1\<rparr>)\<rparr>"
      "held T S \<tau>1 r = held T S (pr_tokens w) r - uint (ai_protocolFees info)"
      "\<forall>t. t \<noteq> r \<longrightarrow> tk_balanceOf T t S \<tau>1 = tk_balanceOf T t S (pr_tokens w)"
    using step [OF w1 s] by blast
  then have s1: "pr_sets w1 S = Some (s\<lparr>st_events := es1\<rparr>)" by simp
  obtain \<tau>2 es2 where 2: "w' = w1\<lparr>pr_tokens := \<tau>2, pr_sets := (pr_sets w1)(S \<mapsto> s\<lparr>st_events := es1, st_events := es2\<rparr>)\<rparr>"
      "held T S \<tau>2 r = held T S (pr_tokens w1) r - uint (ai_managerFee info)"
      "\<forall>t. t \<noteq> r \<longrightarrow> tk_balanceOf T t S \<tau>2 = tk_balanceOf T t S (pr_tokens w1)"
    using step [OF w2 s1] by blast
  show ?thesis by (intro exI [of _ \<tau>2] exI [of _ es2]) (use 1 2 in auto)
qed

subsection \<open>What an action computes\<close>

text \<open>The numbers of an issuance: \<open>N\<close> is the supply before it, \<open>x\<close> the real unit of the reserve asset.\<close>

lemma issuance_numbers:
  assumes Z: "openzeppelin Z" and run: "createIssuanceInfo Z E T V this S r q w = Inr info" and s: "pr_sets w S = Some s"
    and M: "0 < sint (st_positionMultiplier s)"
  shows "uint (ai_newSetTokenSupply info) = uint (ai_setTokenQuantity info) + total_supply E s \<and> 0 < uint (ai_newSetTokenSupply info) \<and>
    uint (ai_newSetTokenSupply info) * sint (ai_newPositionMultiplier info) \<le> total_supply E s * sint (st_positionMultiplier s) \<and>
    uint (ai_newSetTokenSupply info) * uint (ai_newReservePositionUnit info) \<le>
      (real_unit s r * total_supply E s div 10 ^ 18 + uint (ai_netFlowQuantity info)) * 10 ^ 18"
proof -
  note oz = openzeppelin.um_add_Inr [OF Z] openzeppelin.toInt256_Inr [OF Z] openzeppelin.im_mul_Inr [OF Z] openzeppelin.im_div_Inr [OF Z]
    openzeppelin.preciseMul_u_Inr [OF Z] openzeppelin.preciseDiv_u_Inr [OF Z] openzeppelin.toUint256_Inr [OF Z]
  let ?N = "er_totalSupply E (st_token s)" and ?m = "ai_setTokenQuantity info" and ?N' = "ai_newSetTokenSupply info"
  from run s have mult: "getIssuePositionMultiplier_sol Z (st_positionMultiplier s) ?m ?N = Inr (?N', ai_newPositionMultiplier info)"
    and unit: "getIssuePositionUnit Z s r ?N (ai_netFlowQuantity info) ?N' = Inr (ai_newReservePositionUnit info)"
    by (auto simp: createIssuanceInfo_def the_set_Inr Let_def)
  from mult obtain p m n where mult: "um_add Z ?m ?N = Inr ?N'" "toInt256 Z ?N = Inr p" "im_mul Z (st_positionMultiplier s) p = Inr m"
    "toInt256 Z ?N' = Inr n" "im_div Z m n = Inr (ai_newPositionMultiplier info)" by (auto simp: getIssuePositionMultiplier_sol_def)
  then have N': "uint ?N' = uint ?m + uint ?N" "?N' \<noteq> 0"
    "sint (ai_newPositionMultiplier info) = (sint (st_positionMultiplier s) * uint ?N) sdiv uint ?N'"
    by (auto simp: oz)
  from unit obtain x u e t where unit: "getDefaultPositionRealUnit Z s r = Inr x" "toUint256 Z x = Inr u" "preciseMul_u Z u ?N = Inr e"
    "um_add Z e (ai_netFlowQuantity info) = Inr t" "preciseDiv_u Z t ?N' = Inr (ai_newReservePositionUnit info)"
    by (auto simp: getIssuePositionUnit_def)
  have "uint t = real_unit s r * uint ?N div 10 ^ 18 + uint (ai_netFlowQuantity info)"
    using unit(2-4) openzeppelin.default_real_unit [OF Z unit(1)] by (simp add: oz real_unit_def)
  moreover have "uint ?N' * uint (ai_newReservePositionUnit info) \<le> uint t * 10 ^ 18"
    using unit(5) floor_bounds(1) [of "uint ?N'" "uint t * 10 ^ 18"] N'(2) by (simp add: oz uint_pos mult.commute)
  moreover have pos: "0 < uint ?N'" using N'(2) by (simp add: uint_pos)
  ultimately show ?thesis
    using N'(1,3) diluted_multiplier [OF M uint_ge_0 [of ?N] pos] by (simp add: total_supply_def)
qed

lemma redemption_numbers:
  assumes Z: "openzeppelin Z" and run: "createRedemptionInfo Z E T V this S r q w = Inr info" and s: "pr_sets w S = Some s"
    and M: "0 < sint (st_positionMultiplier s)"
  shows "uint (ai_newSetTokenSupply info) = total_supply E s - uint q \<and> ai_setTokenQuantity info = q \<and> 0 < uint (ai_newSetTokenSupply info) \<and>
    uint (ai_newSetTokenSupply info) * sint (ai_newPositionMultiplier info) \<le> total_supply E s * sint (st_positionMultiplier s) \<and>
    uint (ai_newSetTokenSupply info) * uint (ai_newReservePositionUnit info) \<le>
      (real_unit s r * total_supply E s div 10 ^ 18 -
        (uint (ai_netFlowQuantity info) + uint (ai_protocolFees info) + uint (ai_managerFee info))) * 10 ^ 18"
proof -
  note oz = openzeppelin.um_add_Inr [OF Z] openzeppelin.um_sub_Inr [OF Z] openzeppelin.toInt256_Inr [OF Z] openzeppelin.im_mul_Inr [OF Z]
    openzeppelin.im_div_Inr [OF Z] openzeppelin.preciseMul_u_Inr [OF Z] openzeppelin.preciseDiv_u_Inr [OF Z] openzeppelin.toUint256_Inr [OF Z]
  let ?N = "er_totalSupply E (st_token s)" and ?N' = "ai_newSetTokenSupply info"
  from run s have mult: "getRedeemPositionMultiplier_sol Z (st_positionMultiplier s) q ?N = Inr (?N', ai_newPositionMultiplier info)"
    and unit: "getRedeemPositionUnit Z s r ?N (ai_netFlowQuantity info) (ai_protocolFees info) (ai_managerFee info) ?N' =
      Inr (ai_newReservePositionUnit info)" and q: "ai_setTokenQuantity info = q"
    by (auto simp: createRedemptionInfo_def the_set_Inr Let_def)
  from mult obtain p m n where mult: "um_sub Z ?N q = Inr ?N'" "toInt256 Z ?N = Inr p" "im_mul Z (st_positionMultiplier s) p = Inr m"
    "toInt256 Z ?N' = Inr n" "im_div Z m n = Inr (ai_newPositionMultiplier info)" by (auto simp: getRedeemPositionMultiplier_sol_def)
  then have N': "uint ?N' = uint ?N - uint q" "?N' \<noteq> 0"
    "sint (ai_newPositionMultiplier info) = (sint (st_positionMultiplier s) * uint ?N) sdiv uint ?N'"
    by (auto simp: oz)
  from unit obtain x u e flow out rest where unit: "getDefaultPositionRealUnit Z s r = Inr x" "toUint256 Z x = Inr u" "preciseMul_u Z u ?N = Inr e"
    "um_add Z (ai_netFlowQuantity info) (ai_protocolFees info) = Inr flow" "um_add Z flow (ai_managerFee info) = Inr out"
    "um_sub Z e out = Inr rest" "preciseDiv_u Z rest ?N' = Inr (ai_newReservePositionUnit info)"
    by (auto simp: getRedeemPositionUnit_def)
  have "uint rest = real_unit s r * uint ?N div 10 ^ 18 -
      (uint (ai_netFlowQuantity info) + uint (ai_protocolFees info) + uint (ai_managerFee info))"
    using unit(2-6) openzeppelin.default_real_unit [OF Z unit(1)] by (simp add: oz real_unit_def)
  moreover have "uint ?N' * uint (ai_newReservePositionUnit info) \<le> uint rest * 10 ^ 18"
    using unit(7) floor_bounds(1) [of "uint ?N'" "uint rest * 10 ^ 18"] N'(2) by (simp add: oz uint_pos mult.commute)
  moreover have pos: "0 < uint ?N'" using N'(2) by (simp add: uint_pos)
  ultimately show ?thesis
    using N'(1,3) q diluted_multiplier [OF M uint_ge_0 [of ?N] pos] by (simp add: total_supply_def)
qed

subsection \<open>The state updates\<close>

lemma token_and_events_inv:
  "positions_inv s \<Longrightarrow> positions_inv (s\<lparr>st_token := e, st_events := es\<rparr>)"
  by (rule positions_inv_same) (use positions_invD(1) [of s] in \<open>simp_all add: set_token_inv_same [of s]\<close>)

text \<open>The multiplier and the reserve asset's unit, on the SetToken as it is after the transfers.\<close>

lemma updated_positions:
  assumes Z: "openzeppelin Z" and inv: "positions_inv s"
    and mult: "editPositionMultiplier Z enabled this k s = Inr s1" and unit: "editDefaultPosition Z enabled' this r u s1 = Inr s2"
  shows "positions_inv s2 \<and> st_positionMultiplier s2 = k \<and> st_token s2 = st_token s \<and> exact_unit s2 r \<le> uint u * 10 ^ 18 \<and>
    (\<forall>d. d \<noteq> r \<longrightarrow> defaultPositionVirtualUnit s2 d = defaultPositionVirtualUnit s d) \<and>
    set (st_components s2) - {r} = set (st_components s) - {r}"
proof -
  have inv1: "positions_inv s1" by (rule editPositionMultiplier_inv [OF Z inv mult])
  have s1: "s1 = emitted (PositionMultiplierEdited k) (s\<lparr>st_positionMultiplier := k\<rparr>)" using mult by (auto simp: editPositionMultiplier_def)
  show ?thesis
    using editDefaultPosition_inv [OF Z inv1 unit] editDefaultPosition_at(1) [OF Z inv1 unit] edited_exact_unit [OF Z inv1 unit]
    by (simp add: only_at_def s1 position_defs)
qed

lemma solvent_nav_issue:
  assumes Z: "openzeppelin Z" and E: "share_token E" and inv: "solvent E T S n exact (pr_tokens w) s" and s: "pr_sets w S = Some s"
    and info: "createIssuanceInfo Z E T' V this S r q w = Inr info"
    and moved: "w1 = w\<lparr>pr_tokens := \<tau>\<rparr>" "held T S (pr_tokens w) r + uint (ai_netFlowQuantity info) \<le> held T S \<tau> r"
      "\<forall>t. t \<noteq> r \<longrightarrow> tk_balanceOf T t S \<tau> = tk_balanceOf T t S (pr_tokens w)"
    and run: "handleIssueStateUpdates Z E this sender S r a info w1 = Inr w'"
  shows "\<exists>s'. pr_sets w' S = Some s' \<and> solvent E T S n False (pr_tokens w') s'"
proof -
  note pinv = solventD(1) [OF inv]
  from run s obtain s1 s2 e where s1: "editPositionMultiplier Z (enabled_modules w) this (ai_newPositionMultiplier info) s = Inr s1"
    and s2: "editDefaultPosition Z (enabled_modules w) this r (ai_newReservePositionUnit info) s1 = Inr s2"
    and e: "er_mint E a (ai_setTokenQuantity info) (st_token s2) = Inr e" and w': "pr_sets w' S = Some (s2\<lparr>st_token := e\<rparr>)" "pr_tokens w' = \<tau>"
    by (auto simp: handleIssueStateUpdates_def on_set_Inr mint_Inr moved(1))
  note up = updated_positions [OF Z pinv s1 s2] and num = issuance_numbers [OF Z info s positions_invD(2) [OF pinv]]
  have N': "total_supply E (s2\<lparr>st_token := e\<rparr>) = uint (ai_newSetTokenSupply info)"
    using share_token.mint_supply [OF E e] up num by (simp add: total_supply_def)
  have "solvent E T S n False \<tau> (s2\<lparr>st_token := e\<rparr>)"
  proof (rule solvent_nav [OF inv])
    show "positions_inv (s2\<lparr>st_token := e\<rparr>)" using token_and_events_inv [where s = s2 and e = e and es = "st_events s2"] up by simp
    show "total_supply E (s2\<lparr>st_token := e\<rparr>) * uint (ai_newReservePositionUnit info) \<le>
        (real_unit s r * total_supply E s div 10 ^ 18 + uint (ai_netFlowQuantity info)) * 10 ^ 18"
      unfolding N' using num by blast
    show "total_supply E (s2\<lparr>st_token := e\<rparr>) * sint (st_positionMultiplier (s2\<lparr>st_token := e\<rparr>)) \<le> total_supply E s * sint (st_positionMultiplier s)"
      unfolding N' using conjunct1 [OF conjunct2 [OF conjunct2 [OF num]]] up by simp
    have "exact_unit (s2\<lparr>st_token := e\<rparr>) r = exact_unit s2 r" by (simp add: exact_unit_def position_defs)
    then show "exact_unit (s2\<lparr>st_token := e\<rparr>) r \<le> uint (ai_newReservePositionUnit info) * 10 ^ 18" using up by simp
  qed (use up moved in \<open>simp_all add: position_defs held_def\<close>)
  then show ?thesis using w' by blast
qed

lemma solvent_nav_redeem:
  assumes Z: "openzeppelin Z" and E: "share_token E" and inv: "solvent E T S n exact (pr_tokens w) s" and s: "pr_sets w S = Some s"
    and info: "createRedemptionInfo Z E T' V this S r q w = Inr info" and burnt: "er_burn E sender q (st_token s) = Inr e"
    and moved: "pr_sets w1 S = Some (s\<lparr>st_token := e, st_events := es\<rparr>)"
      "held T S (pr_tokens w) r - uint (ai_netFlowQuantity info) - uint (ai_protocolFees info) - uint (ai_managerFee info) \<le> held T S (pr_tokens w1) r"
      "\<forall>t. t \<noteq> r \<longrightarrow> tk_balanceOf T t S (pr_tokens w1) = tk_balanceOf T t S (pr_tokens w)"
    and run: "handleRedeemStateUpdates Z this sender S r a info w1 = Inr w'"
  shows "\<exists>s'. pr_sets w' S = Some s' \<and> solvent E T S n False (pr_tokens w') s'"
proof -
  let ?s = "s\<lparr>st_token := e, st_events := es\<rparr>"
  note pinv = solventD(1) [OF inv]
  from run moved(1) obtain s1 s2 where s1: "editPositionMultiplier Z (enabled_modules w1) this (ai_newPositionMultiplier info) ?s = Inr s1"
    and s2: "editDefaultPosition Z (enabled_modules w1) this r (ai_newReservePositionUnit info) s1 = Inr s2"
    and w': "pr_sets w' S = Some s2" "pr_tokens w' = pr_tokens w1"
    by (auto simp: handleRedeemStateUpdates_def on_set_Inr)
  note up = updated_positions [OF Z token_and_events_inv [OF pinv] s1 s2] and num = redemption_numbers [OF Z info s positions_invD(2) [OF pinv]]
  have N': "total_supply E s2 = uint (ai_newSetTokenSupply info)"
    using share_token.burn_supply [OF E burnt] up num by (simp add: total_supply_def)
  have "solvent E T S n False (pr_tokens w1) s2"
  proof (rule solvent_nav [OF inv, where u = "uint (ai_newReservePositionUnit info)" and r = r and
        flow = "- (uint (ai_netFlowQuantity info) + uint (ai_protocolFees info) + uint (ai_managerFee info))"])
    show "total_supply E s2 * uint (ai_newReservePositionUnit info) \<le> (real_unit s r * total_supply E s div 10 ^ 18 +
        - (uint (ai_netFlowQuantity info) + uint (ai_protocolFees info) + uint (ai_managerFee info))) * 10 ^ 18"
      unfolding N' using conjunct2 [OF conjunct2 [OF conjunct2 [OF conjunct2 [OF num]]]] by (simp only: diff_conv_add_uminus)
    show "total_supply E s2 * sint (st_positionMultiplier s2) \<le> total_supply E s * sint (st_positionMultiplier s)"
      unfolding N' using conjunct1 [OF conjunct2 [OF conjunct2 [OF conjunct2 [OF num]]]] up by simp
    show "exact_unit s2 r \<le> uint (ai_newReservePositionUnit info) * 10 ^ 18" using up by simp
  qed (use up moved in \<open>simp_all add: position_defs held_def\<close>)
  then show ?thesis using w' by simp
qed

subsection \<open>The four actions\<close>

lemma solvent_issue_at_nav:
  assumes Z: "openzeppelin Z" and E: "share_token E" and T: "honest_tokens T" and "sender \<noteq> S"
    and run: "issue_at_nav Z E T V this sender S r q least a w = Inr w'"
    and s: "pr_sets w S = Some s" and inv: "solvent E T S n exact (pr_tokens w) s"
  shows "\<exists>s'. pr_sets w' S = Some s' \<and> solvent E T S n False (pr_tokens w') s'"
proof -
  from run obtain info w1 where info: "createIssuanceInfo Z E T V this S r q w = Inr info"
    and w1: "transferCollateralAndHandleFees Z T this sender S r info w = Inr w1"
    and w': "handleIssueStateUpdates Z E this sender S r a info w1 = Inr w'" by (auto simp: issue_at_nav_def)
  from transferCollateral_effect [OF Z T \<open>sender \<noteq> S\<close> w1] obtain \<tau> where "w1 = w\<lparr>pr_tokens := \<tau>\<rparr>"
    "held T S (pr_tokens w) r + uint (ai_netFlowQuantity info) \<le> held T S \<tau> r"
    "\<forall>t. t \<noteq> r \<longrightarrow> tk_balanceOf T t S \<tau> = tk_balanceOf T t S (pr_tokens w)" by blast
  from solvent_nav_issue [OF Z E inv s info this w'] show ?thesis .
qed

lemma solvent_issueWithEther:
  assumes Z: "openzeppelin Z" and E: "share_token E" and W: "wrapped_ether T weth W" "this \<noteq> S"
    and run: "issueWithEther_at_nav Z E T V W weth this sender S q least a w = Inr w'"
    and s: "pr_sets w S = Some s" and inv: "solvent E T S n exact (pr_tokens w) s"
  shows "\<exists>s'. pr_sets w' S = Some s' \<and> solvent E T S n False (pr_tokens w') s'"
proof -
  from run obtain info w1 where info: "createIssuanceInfo Z E T V this S weth q w = Inr info"
    and w1: "transferWETHAndHandleFees W this S info w = Inr w1"
    and w': "handleIssueStateUpdates Z E this sender S weth a info w1 = Inr w'" by (auto simp: issueWithEther_at_nav_def)
  from transferWETH_effect [OF W w1] obtain \<tau> where "w1 = w\<lparr>pr_tokens := \<tau>\<rparr>"
    "held T S (pr_tokens w) weth + uint (ai_netFlowQuantity info) \<le> held T S \<tau> weth"
    "\<forall>t. t \<noteq> weth \<longrightarrow> tk_balanceOf T t S \<tau> = tk_balanceOf T t S (pr_tokens w)" by blast
  from solvent_nav_issue [OF Z E inv s info this w'] show ?thesis .
qed

text \<open>The transfer of ERC20 as its standard has it: a call that returns, with no answer or with \<open>true\<close>, has given the
  quantity to its receiver and left every other account but the sender's as it was. With the check of the sender's own
  balance in \<^verbatim>\<open>strictInvokeTransfer\<close>, the payments of a redemption are then exact.\<close>

locale paying_tokens = honest_tokens +
  assumes transfer_pays: "tk_call T t S 0 (tk_encodeTransfer T b q) \<tau> = Inr (res, \<tau>') \<Longrightarrow> res = [] \<or> tk_decodeBool T res = Inr True \<Longrightarrow>
      h \<noteq> S \<Longrightarrow> uint (tk_balanceOf T t h \<tau>') = uint (tk_balanceOf T t h \<tau>) + (if h = b then uint q else 0)"
begin

lemma transfer_paid:
  assumes "strictInvokeTransfer Z T this S t b q w = Inr w'" and "h \<noteq> S"
  shows "held T h (pr_tokens w') t = held T h (pr_tokens w) t + (if h = b then uint q else 0)"
proof (cases "0 < q")
  case True
  with assms(1) have "invokeTransfer T this S t b q w = Inr w'" by (auto simp: strictInvokeTransfer_def Let_def)
  then obtain res \<tau> where "tk_call T t S 0 (tk_encodeTransfer T b q) (pr_tokens w) = Inr (res, \<tau>)"
    "res = [] \<or> tk_decodeBool T res = Inr True" "pr_tokens w' = \<tau>"
    using True by (auto simp: invokeTransfer_def invoke_token_def split: if_splits)
  then show ?thesis using transfer_pays [of t S b q "pr_tokens w" res \<tau> h] assms(2) by (simp add: held_def)
next
  case False
  with assms(1) show ?thesis by (simp add: strictInvokeTransfer_def word_gt_0)
qed

lemma redemption_fees_paid:
  assumes "handleRedemptionFees Z T this S r info w = Inr w'" and "h \<noteq> S"
  shows "held T h (pr_tokens w') r = held T h (pr_tokens w) r
    + (if h = controller.feeRecipient (pr_controller w) then uint (ai_protocolFees info) else 0)
    + (if h = ns_feeRecipient (pr_navIssuanceSettings w S) then uint (ai_managerFee info) else 0)"
proof -
  from assms(1) obtain w1 where w1: "strictInvokeTransfer Z T this S r (controller.feeRecipient (pr_controller w)) (ai_protocolFees info) w = Inr w1"
    and w2: "strictInvokeTransfer Z T this S r (ns_feeRecipient (pr_navIssuanceSettings w1 S)) (ai_managerFee info) w1 = Inr w'"
    by (auto simp: handleRedemptionFees_def payProtocolFeeFromSetToken_def strictInvokeTransfer_def split: if_splits)
  have "pr_navIssuanceSettings w1 = pr_navIssuanceSettings w"
    using w1 by (auto simp: strictInvokeTransfer_def invokeTransfer_def invoke_token_def Let_def split: if_splits)
  then show ?thesis using transfer_paid [OF w1 assms(2)] transfer_paid [OF w2 assms(2)] by simp
qed

end

interpretation ledger: paying_tokens ledger_tokens
proof unfold_locales
  fix t S b q \<tau> res \<tau>' h
  assume "tk_call ledger_tokens t S 0 (tk_encodeTransfer ledger_tokens b q) \<tau> = Inr (res, \<tau>')" "h \<noteq> S"
  then show "uint (tk_balanceOf ledger_tokens t h \<tau>') = uint (tk_balanceOf ledger_tokens t h \<tau>) + (if h = b then uint q else 0)"
    using uint_plus_simple_iff [of "\<tau> t b" q] by (auto simp: ledger_transfer ledger_reads move_def Let_def)
qed

text \<open>The SetToken burns and pays; what the module does with the ether that it has unwrapped is between the two.\<close>

lemma redemption_paid:
  assumes Z: "openzeppelin Z" and T: "token_contracts T" and s: "pr_sets w S = Some s"
    and burnt: "on_set S (burn E (enabled_modules w) this sender q) w = Inr w1"
    and paid: "strictInvokeTransfer Z T this S r a (ai_netFlowQuantity info) w1 = Inr w2"
    and between: "w3 = w2\<lparr>pr_tokens := \<tau>\<rparr>" "\<forall>t. tk_balanceOf T t S \<tau> = tk_balanceOf T t S (pr_tokens w2)"
    and fees: "handleRedemptionFees Z T this S r info w3 = Inr w4"
  shows "\<exists>e es. er_burn E sender q (st_token s) = Inr e \<and> pr_sets w4 S = Some (s\<lparr>st_token := e, st_events := es\<rparr>) \<and>
    held T S (pr_tokens w4) r =
      held T S (pr_tokens w) r - uint (ai_netFlowQuantity info) - uint (ai_protocolFees info) - uint (ai_managerFee info) \<and>
    (\<forall>t. t \<noteq> r \<longrightarrow> tk_balanceOf T t S (pr_tokens w4) = tk_balanceOf T t S (pr_tokens w))"
proof -
  from burnt s obtain e where e: "er_burn E sender q (st_token s) = Inr e" "w1 = w\<lparr>pr_sets := (pr_sets w)(S \<mapsto> s\<lparr>st_token := e\<rparr>)\<rparr>"
    by (auto simp: on_set_Inr burn_def)
  have s1: "pr_sets w1 S = Some (s\<lparr>st_token := e\<rparr>)" by (simp add: e(2))
  obtain \<tau>2 es where w2: "w2 = w1\<lparr>pr_tokens := \<tau>2, pr_sets := (pr_sets w1)(S \<mapsto> s\<lparr>st_token := e, st_events := es\<rparr>)\<rparr>"
    "held T S \<tau>2 r = held T S (pr_tokens w1) r - uint (ai_netFlowQuantity info)"
    "\<And>t. t \<noteq> r \<Longrightarrow> tk_balanceOf T t S \<tau>2 = tk_balanceOf T t S (pr_tokens w1)"
    by (rule strictInvokeTransfer_effect [OF Z T paid s1]) (simp add: held_def)
  then have s3: "pr_sets w3 S = Some (s\<lparr>st_token := e, st_events := es\<rparr>)" by (simp add: between(1))
  obtain \<tau>4 es4 where w4: "w4 = w3\<lparr>pr_tokens := \<tau>4, pr_sets := (pr_sets w3)(S \<mapsto> s\<lparr>st_token := e, st_events := es, st_events := es4\<rparr>)\<rparr>"
    "held T S \<tau>4 r = held T S (pr_tokens w3) r - uint (ai_protocolFees info) - uint (ai_managerFee info)"
    "\<forall>t. t \<noteq> r \<longrightarrow> tk_balanceOf T t S \<tau>4 = tk_balanceOf T t S (pr_tokens w3)"
    using redemption_fees_effect [OF Z T s3 fees] by blast
  have "held T S (pr_tokens w3) r = held T S \<tau>2 r" using between by (simp add: held_def w2(1))
  moreover have "tk_balanceOf T t S (pr_tokens w3) = tk_balanceOf T t S (pr_tokens w)" if "t \<noteq> r" for t
    using between w2(3) [OF that] by (simp add: w2(1) e(2))
  ultimately show ?thesis using e w2(2) w4 by (intro exI [of _ e] exI [of _ es4]) simp
qed

lemma solvent_redeem_at_nav:
  assumes Z: "openzeppelin Z" and E: "share_token E" and T: "token_contracts T"
    and run: "redeem_at_nav Z E T V this sender S r q least a w = Inr w'"
    and s: "pr_sets w S = Some s" and inv: "solvent E T S n exact (pr_tokens w) s"
  shows "\<exists>s'. pr_sets w' S = Some s' \<and> solvent E T S n False (pr_tokens w') s'"
proof -
  from run obtain info w1 w2 w4 where info: "createRedemptionInfo Z E T V this S r q w = Inr info"
    and run: "on_set S (burn E (enabled_modules w) this sender q) w = Inr w1"
      "strictInvokeTransfer Z T this S r a (ai_netFlowQuantity info) w1 = Inr w2"
      "handleRedemptionFees Z T this S r info w2 = Inr w4"
    and w': "handleRedeemStateUpdates Z this sender S r a info w4 = Inr w'" by (auto simp: redeem_at_nav_def)
  from redemption_paid [OF Z T s run(1,2) _ _ run(3), of "pr_tokens w2"] solvent_nav_redeem [OF Z E inv s info _ _ eq_refl [OF sym] _ w']
  show ?thesis by auto
qed

lemma solvent_redeemIntoEther:
  assumes Z: "openzeppelin Z" and E: "share_token E" and T: "token_contracts T" and W: "wrapped_ether T weth W" "this \<noteq> S"
    and run: "redeemIntoEther_at_nav Z E T V W weth this sender S q least a w = Inr w'"
    and s: "pr_sets w S = Some s" and inv: "solvent E T S n exact (pr_tokens w) s"
  shows "\<exists>s'. pr_sets w' S = Some s' \<and> solvent E T S n False (pr_tokens w') s'"
proof -
  from run obtain info w1 w2 \<tau>1 \<tau>2 w4 where info: "createRedemptionInfo Z E T V this S weth q w = Inr info"
    and run: "on_set S (burn E (enabled_modules w) this sender q) w = Inr w1"
      "strictInvokeTransfer Z T this S weth this (ai_netFlowQuantity info) w1 = Inr w2"
      "we_withdraw W this (ai_netFlowQuantity info) (pr_tokens w2) = Inr \<tau>1" "we_send W this a (ai_netFlowQuantity info) \<tau>1 = Inr \<tau>2"
      "handleRedemptionFees Z T this S weth info (w2\<lparr>pr_tokens := \<tau>2\<rparr>) = Inr w4"
    and w': "handleRedeemStateUpdates Z this sender S weth a info w4 = Inr w'"
    by (auto simp: redeemIntoEther_at_nav_def with_tokens_def)
  have "\<forall>t. tk_balanceOf T t S \<tau>2 = tk_balanceOf T t S (pr_tokens w2)"
    using wrapped_ether.withdraw_other [OF W(1) run(3)] wrapped_ether.send_tokens [OF W(1) run(4)] W(2) by simp
  from redemption_paid [OF Z T s run(1,2) refl this run(5)] solvent_nav_redeem [OF Z E inv s info _ _ eq_refl [OF sym] _ w']
  show ?thesis by blast
qed

subsection \<open>A provider of wrapped ether\<close>

definition add_to :: "address \<Rightarrow> address \<Rightarrow> uint256 \<Rightarrow> ledger \<Rightarrow> revert + ledger" where
  "add_to t h q \<tau> = and_then (require (\<tau> t h \<le> \<tau> t h + q) ''SafeMath: addition overflow'') (\<lambda>_. Inr (\<tau>(t := (\<tau> t)(h := \<tau> t h + q))))"

definition ledger_weth :: "address \<Rightarrow> ledger weth_api" where
  "ledger_weth weth = \<lparr>
     we_deposit = (\<lambda>who q \<tau>. add_to weth who q \<tau>),
     we_withdraw = (\<lambda>who q \<tau>. and_then (require (q \<le> \<tau> weth who) '''') (\<lambda>_. Inr (\<tau>(weth := (\<tau> weth)(who := \<tau> weth who - q))))),
     we_transfer = (\<lambda>src dst q \<tau>. and_then (move weth src dst q \<tau>) (\<lambda>\<tau>. Inr (True, \<tau>))),
     we_send = (\<lambda>src dst q \<tau>. Inr \<tau>)\<rparr>"

lemma no_overflow: "a \<le> a + b \<Longrightarrow> uint (a + b) = uint a + uint b" for a b :: uint256
  using uint_plus_simple_iff [of a b] by blast

interpretation ledger_weth: wrapped_ether ledger_tokens weth "ledger_weth weth" for weth
  by unfold_locales (auto simp: ledger_tokens_def ledger_weth_def move_def add_to_def Let_def no_overflow split: if_splits)

end
