(* ===== verification/AirdropModule.thy ===== *)
theory AirdropModule
  imports ModuleHistory
begin

text \<open>
  \<^verbatim>\<open>contracts/protocol/modules/v1/AirdropModule.sol\<close>: tokens that a SetToken holds beyond its positions become part of
  the position, less a fee. \<open>this\<close> is the module, \<open>S\<close> the SetToken.
\<close>

subsection \<open>Absorbing\<close>

definition isAirdropToken :: "address \<Rightarrow> address \<Rightarrow> ('e, 't) protocol \<Rightarrow> bool" where
  "isAirdropToken S token w = pr_isAirdrop w S token"

definition isValidCaller :: "address \<Rightarrow> address \<Rightarrow> ('e, 't) protocol \<Rightarrow> revert + bool" where
  "isValidCaller S sender w = (if as_anyoneAbsorb (pr_airdropSettings w S) then Inr True else isSetManager S sender w)"

text \<open>\<^verbatim>\<open>_handleFees\<close>: what the manager takes, what the protocol takes and their sum.\<close>

definition handleFees_airdrop ::
  "oz_api \<Rightarrow> 't token_api \<Rightarrow> address \<Rightarrow> address \<Rightarrow> address \<Rightarrow> uint256 \<Rightarrow> ('e, 't) protocol \<Rightarrow>
     revert + (uint256 \<times> uint256 \<times> uint256) \<times> ('e, 't) protocol"
where
  "handleFees_airdrop Z T this S component amountAirdropped w =
     (let airdropFee = as_airdropFee (pr_airdropSettings w S)
      in if 0 < airdropFee
         then and_then (preciseMul_u Z amountAirdropped airdropFee) (\<lambda>totalFees.
           and_then (getModuleFee_base Z this 0 totalFees w) (\<lambda>protocolTake.
           and_then (um_sub Z totalFees protocolTake) (\<lambda>netManagerTake.
           and_then (strictInvokeTransfer Z T this S component (as_feeRecipient (pr_airdropSettings w S)) netManagerTake w) (\<lambda>w.
           and_then (payProtocolFeeFromSetToken Z T this S component protocolTake w) (\<lambda>w.
             Inr ((netManagerTake, protocolTake, totalFees), w))))))
         else Inr ((0, 0, 0), w))"

definition getPostAirdropUnit ::
  "oz_api \<Rightarrow> 'e erc20_api \<Rightarrow> 'e set_token \<Rightarrow> uint256 \<Rightarrow> uint256 \<Rightarrow> revert + uint256"
where
  "getPostAirdropUnit Z E s totalComponentBalance totalFeesPaid =
     (let totalSupply = er_totalSupply E (st_token s)
      in and_then (um_sub Z totalComponentBalance totalFeesPaid) (\<lambda>rest. getDefaultPositionUnit Z totalSupply rest))"

definition handleAirdropPosition ::
  "oz_api \<Rightarrow> 'e erc20_api \<Rightarrow> 't token_api \<Rightarrow> address \<Rightarrow> address \<Rightarrow> address \<Rightarrow> ('e, 't) protocol \<Rightarrow> revert + ('e, 't) protocol"
where
  "handleAirdropPosition Z E T this S token w =
     (let preFeeTokenBalance = tk_balanceOf T token S (pr_tokens w)
      in and_then (the_set S w) (\<lambda>s.
         and_then (getDefaultTrackedBalance Z (er_totalSupply E (st_token s)) s token) (\<lambda>tracked.
         and_then (um_sub Z preFeeTokenBalance tracked) (\<lambda>amountAirdropped.
         if 0 < amountAirdropped
         then and_then (handleFees_airdrop Z T this S token amountAirdropped w) (\<lambda>((managerTake, protocolTake, totalFees), w).
           and_then (the_set S w) (\<lambda>s.
           and_then (getPostAirdropUnit Z E s preFeeTokenBalance totalFees) (\<lambda>newUnit.
           and_then (on_set S (editDefaultPosition Z (enabled_modules w) this token newUnit) w) (\<lambda>w.
             Inr (log_event (ComponentAbsorbed S token amountAirdropped managerTake protocolTake) w)))))
         else Inr w))))"

definition absorb_token ::
  "oz_api \<Rightarrow> 'e erc20_api \<Rightarrow> 't token_api \<Rightarrow> address \<Rightarrow> address \<Rightarrow> address \<Rightarrow> ('e, 't) protocol \<Rightarrow> revert + ('e, 't) protocol"
where
  "absorb_token Z E T this S token w =
     and_then (require (isAirdropToken S token w) ''Must be approved token.'') (\<lambda>_. handleAirdropPosition Z E T this S token w)"

fun absorb_tokens ::
  "oz_api \<Rightarrow> 'e erc20_api \<Rightarrow> 't token_api \<Rightarrow> address \<Rightarrow> address \<Rightarrow> address list \<Rightarrow> ('e, 't) protocol \<Rightarrow> revert + ('e, 't) protocol"
where
  "absorb_tokens Z E T this S [] w = Inr w"
| "absorb_tokens Z E T this S (token # tokens) w =
     and_then (absorb_token Z E T this S token w) (\<lambda>w. absorb_tokens Z E T this S tokens w)"

definition validate_absorb :: "address \<Rightarrow> address \<Rightarrow> address \<Rightarrow> ('e, 't) protocol \<Rightarrow> revert + unit" where
  "validate_absorb this sender S w =
     and_then (isValidCaller S sender w) (\<lambda>b.
     and_then (require b ''Must be valid caller'') (\<lambda>_. validateOnlyValidAndInitializedSet this S w))"

definition absorb ::
  "oz_api \<Rightarrow> 'e erc20_api \<Rightarrow> 't token_api \<Rightarrow> address \<Rightarrow> address \<Rightarrow> address \<Rightarrow> address \<Rightarrow> ('e, 't) protocol \<Rightarrow>
     revert + ('e, 't) protocol"
where
  "absorb Z E T this sender S token w =
     and_then (validate_absorb this sender S w) (\<lambda>_. absorb_token Z E T this S token w)"

definition batchAbsorb ::
  "oz_api \<Rightarrow> 'e erc20_api \<Rightarrow> 't token_api \<Rightarrow> address \<Rightarrow> address \<Rightarrow> address \<Rightarrow> address list \<Rightarrow> ('e, 't) protocol \<Rightarrow>
     revert + ('e, 't) protocol"
where
  "batchAbsorb Z E T this sender S tokens w =
     and_then (validate_absorb this sender S w) (\<lambda>_. absorb_tokens Z E T this S tokens w)"

subsection \<open>Settings\<close>

definition edit_airdrops ::
  "address \<Rightarrow> (AirdropSettings \<Rightarrow> AirdropSettings) \<Rightarrow> ('e, 't) protocol \<Rightarrow> ('e, 't) protocol"
where
  "edit_airdrops S f w = w\<lparr>pr_airdropSettings := (pr_airdropSettings w)(S := f (pr_airdropSettings w S))\<rparr>"

definition mark_airdrop :: "address \<Rightarrow> bool \<Rightarrow> address \<Rightarrow> ('e, 't) protocol \<Rightarrow> ('e, 't) protocol" where
  "mark_airdrop S b token w = w\<lparr>pr_isAirdrop := (pr_isAirdrop w)(S := (pr_isAirdrop w S)(token := b))\<rparr>"

definition addAirdrop :: "address \<Rightarrow> address \<Rightarrow> address \<Rightarrow> address \<Rightarrow> ('e, 't) protocol \<Rightarrow> revert + ('e, 't) protocol" where
  "addAirdrop this sender S token w =
     and_then (validateOnlyManagerAndValidSet this S sender w) (\<lambda>_.
     and_then (require (\<not> isAirdropToken S token w) ''Token already added.'') (\<lambda>_.
     let w = edit_airdrops S (\<lambda>n. n\<lparr>as_airdrops := as_airdrops n @ [token]\<rparr>) w;
         w = mark_airdrop S True token w
     in Inr (log_event (AirdropComponentAdded S token) w)))"

definition removeAirdrop :: "address \<Rightarrow> address \<Rightarrow> address \<Rightarrow> address \<Rightarrow> ('e, 't) protocol \<Rightarrow> revert + ('e, 't) protocol" where
  "removeAirdrop this sender S token w =
     and_then (validateOnlyManagerAndValidSet this S sender w) (\<lambda>_.
     and_then (require (isAirdropToken S token w) ''Token not added.'') (\<lambda>_.
     and_then (removeStorage (as_airdrops (pr_airdropSettings w S)) token) (\<lambda>rest.
     let w = edit_airdrops S (\<lambda>n. n\<lparr>as_airdrops := rest\<rparr>) w;
         w = mark_airdrop S False token w
     in Inr (log_event (AirdropComponentRemoved S token) w))))"

definition updateAnyoneAbsorb :: "address \<Rightarrow> address \<Rightarrow> address \<Rightarrow> bool \<Rightarrow> ('e, 't) protocol \<Rightarrow> revert + ('e, 't) protocol" where
  "updateAnyoneAbsorb this sender S anyoneAbsorb w =
     and_then (validateOnlyManagerAndValidSet this S sender w) (\<lambda>_.
     Inr (log_event (AnyoneAbsorbUpdated S anyoneAbsorb) (edit_airdrops S (\<lambda>n. n\<lparr>as_anyoneAbsorb := anyoneAbsorb\<rparr>) w)))"

definition updateFeeRecipient_airdrop ::
  "address \<Rightarrow> address \<Rightarrow> address \<Rightarrow> address \<Rightarrow> ('e, 't) protocol \<Rightarrow> revert + ('e, 't) protocol"
where
  "updateFeeRecipient_airdrop this sender S newFeeRecipient w =
     and_then (validateOnlyManagerAndValidSet this S sender w) (\<lambda>_.
     and_then (require (newFeeRecipient \<noteq> 0) ''Passed address must be non-zero'') (\<lambda>_.
     Inr (log_event (FeeRecipientUpdated S newFeeRecipient) (edit_airdrops S (\<lambda>n. n\<lparr>as_feeRecipient := newFeeRecipient\<rparr>) w))))"

definition updateAirdropFee ::
  "oz_api \<Rightarrow> 'e erc20_api \<Rightarrow> 't token_api \<Rightarrow> address \<Rightarrow> address \<Rightarrow> address \<Rightarrow> uint256 \<Rightarrow> ('e, 't) protocol \<Rightarrow>
     revert + ('e, 't) protocol"
where
  "updateAirdropFee Z E T this sender S newFee w =
     and_then (validateOnlySetManager S sender w) (\<lambda>_.
     and_then (validateOnlyValidAndInitializedSet this S w) (\<lambda>_.
     and_then (require (newFee \<le> preciseUnit) ''Airdrop fee can't exceed 100%'') (\<lambda>_.
     and_then (absorb_tokens Z E T this S (as_airdrops (pr_airdropSettings w S)) w) (\<lambda>w.
     Inr (log_event (AirdropFeeUpdated S newFee) (edit_airdrops S (\<lambda>n. n\<lparr>as_airdropFee := newFee\<rparr>) w))))))"

definition initialize_airdrop ::
  "address \<Rightarrow> address \<Rightarrow> address \<Rightarrow> AirdropSettings \<Rightarrow> ('e, 't) protocol \<Rightarrow> revert + ('e, 't) protocol"
where
  "initialize_airdrop this sender S n w =
     and_then (validateOnlySetManager S sender w) (\<lambda>_.
     and_then (validateOnlyValidAndPendingSet this S w) (\<lambda>_.
     and_then (require (as_airdropFee n \<le> preciseUnit) ''Fee must be <= 100%.'') (\<lambda>_.
     and_then (require (as_feeRecipient n \<noteq> 0) ''Zero fee address passed'') (\<lambda>_.
     and_then (if 0 < length (as_airdrops n)
       then and_then (hasDuplicate (as_airdrops n)) (\<lambda>duplicate. require (\<not> duplicate) ''Duplicate airdrop token passed'')
       else Inr ()) (\<lambda>_.
     let w = edit_airdrops S (\<lambda>_. n) w;
         w = fold (mark_airdrop S True) (as_airdrops n) w
     in on_set S (initializeModule this) w)))))"

text \<open>Called by the SetToken that removes the module.\<close>

definition removeModule_airdrop :: "address \<Rightarrow> ('e, 't) protocol \<Rightarrow> revert + ('e, 't) protocol" where
  "removeModule_airdrop sender w =
     (let w = fold (mark_airdrop sender False) (as_airdrops (pr_airdropSettings w sender)) w
      in Inr (edit_airdrops sender (\<lambda>_. no_airdropSettings) w))"

subsection \<open>The settings in every history\<close>

datatype airdrop_request =
    Initialize_airdrop AirdropSettings
  | AddAirdrop address
  | RemoveAirdrop address
  | UpdateAnyoneAbsorb bool
  | UpdateFeeRecipient_airdrop address
  | UpdateAirdropFee uint256
  | Absorb address
  | BatchAbsorb "address list"

fun airdrop_call ::
  "oz_api \<Rightarrow> 'e erc20_api \<Rightarrow> 't token_api \<Rightarrow> address \<Rightarrow> address \<Rightarrow> address \<Rightarrow> airdrop_request \<Rightarrow> ('e, 't) protocol \<Rightarrow>
     revert + ('e, 't) protocol"
where
  "airdrop_call Z E T this sender S (Initialize_airdrop n) w = initialize_airdrop this sender S n w"
| "airdrop_call Z E T this sender S (AddAirdrop t) w = addAirdrop this sender S t w"
| "airdrop_call Z E T this sender S (RemoveAirdrop t) w = removeAirdrop this sender S t w"
| "airdrop_call Z E T this sender S (UpdateAnyoneAbsorb b) w = updateAnyoneAbsorb this sender S b w"
| "airdrop_call Z E T this sender S (UpdateFeeRecipient_airdrop a) w = updateFeeRecipient_airdrop this sender S a w"
| "airdrop_call Z E T this sender S (UpdateAirdropFee f) w = updateAirdropFee Z E T this sender S f w"
| "airdrop_call Z E T this sender S (Absorb t) w = absorb Z E T this sender S t w"
| "airdrop_call Z E T this sender S (BatchAbsorb ts) w = batchAbsorb Z E T this sender S ts w"

definition airdrop_ok :: "bool \<Rightarrow> AirdropSettings \<times> (address \<Rightarrow> bool) \<Rightarrow> bool" where
  "airdrop_ok initialized x \<longleftrightarrow> distinct (as_airdrops (fst x)) \<and> Collect (snd x) = set (as_airdrops (fst x)) \<and>
     as_airdropFee (fst x) \<le> 10 ^ 18 \<and>
     (if initialized then as_feeRecipient (fst x) \<noteq> 0 else fst x = no_airdropSettings \<and> snd x = (\<lambda>_. False))"

lemma airdrop_fields [simp]:
  "pr_airdropSettings (edit_airdrops S f w) = (pr_airdropSettings w)(S := f (pr_airdropSettings w S))"
  "pr_isAirdrop (edit_airdrops S f w) = pr_isAirdrop w" "pr_sets (edit_airdrops S f w) = pr_sets w"
  "pr_airdropSettings (mark_airdrop S b t w) = pr_airdropSettings w" "pr_sets (mark_airdrop S b t w) = pr_sets w"
  "pr_isAirdrop (mark_airdrop S b t w) S = (pr_isAirdrop w S)(t := b)"
  by (simp_all add: edit_airdrops_def mark_airdrop_def)

lemma mark_airdrops [simp]:
  "pr_isAirdrop (fold (mark_airdrop S b) ts w) S = (\<lambda>t. t \<in> set ts \<and> b \<or> t \<notin> set ts \<and> pr_isAirdrop w S t)"
  "pr_airdropSettings (fold (mark_airdrop S b) ts w) = pr_airdropSettings w" "pr_sets (fold (mark_airdrop S b) ts w) = pr_sets w"
  by (induction ts arbitrary: w) (auto simp: fun_eq_iff)

definition same_airdrops :: "address \<Rightarrow> ('e, 't) protocol \<Rightarrow> ('e, 't) protocol \<Rightarrow> bool" where
  "same_airdrops S w w' \<longleftrightarrow> pr_airdropSettings w' = pr_airdropSettings w \<and> pr_isAirdrop w' = pr_isAirdrop w \<and>
     (\<forall>m. module_state_of m S w' = module_state_of m S w)"

lemma same_strict: "strictInvokeTransfer Z T this S t b q w = Inr w' \<Longrightarrow> same_airdrops S w w'"
  by (drule strict_transfer_frame) (auto simp: same_airdrops_def module_state_of_def split: option.splits)

lemma same_airdrops_trans: "same_airdrops S w1 w2 \<Longrightarrow> same_airdrops S w2 w3 \<Longrightarrow> same_airdrops S w1 w3"
  by (simp add: same_airdrops_def)

lemma handle_airdrop_Inr:
  assumes "handleAirdropPosition Z E T this S t w = Inr w'" and "pr_sets w S = Some s"
  obtains "w' = w"
  | tracked n managerTake protocolTake total w1 s1 u w2 where
    "getDefaultTrackedBalance Z (er_totalSupply E (st_token s)) s t = Inr tracked"
    "um_sub Z (tk_balanceOf T t S (pr_tokens w)) tracked = Inr n" "0 < n"
    "handleFees_airdrop Z T this S t n w = Inr ((managerTake, protocolTake, total), w1)" "pr_sets w1 S = Some s1"
    "getPostAirdropUnit Z E s1 (tk_balanceOf T t S (pr_tokens w)) total = Inr u"
    "on_set S (editDefaultPosition Z (enabled_modules w1) this t u) w1 = Inr w2"
    "w' = log_event (ComponentAbsorbed S t n managerTake protocolTake) w2"
  using assms by (auto simp: handleAirdropPosition_def the_set_Inr Let_def split: if_splits)

lemma same_handle:
  assumes "handleAirdropPosition Z E T this S t w = Inr w'"
  shows "same_airdrops S w w'"
proof -
  have fees: "same_airdrops S w w1" if "handleFees_airdrop Z T this S t n w = Inr (x, w1)" for n x and w1 :: "('a, 'b) protocol"
    using that by (auto simp: handleFees_airdrop_def payProtocolFee_eq Let_def same_airdrops_def dest!: same_strict split: if_splits)
  have edit: "same_airdrops S w1 w2" if "on_set S (editDefaultPosition Z enabled this t u) w1 = Inr w2" for enabled u and w1 w2 :: "('a, 'b) protocol"
    using that by (auto simp: on_set_Inr same_airdrops_def module_state_of_def dest!: default_edit_frame)
  have log: "same_airdrops S w1 (log_event e w2) \<longleftrightarrow> same_airdrops S w1 w2" for e and w1 w2 :: "('a, 'b) protocol"
    by (simp add: same_airdrops_def module_state_of_def)
  obtain s where "pr_sets w S = Some s" using assms by (auto simp: handleAirdropPosition_def the_set_Inr Let_def)
  with assms show ?thesis
  proof (rule handle_airdrop_Inr)
    assume "w' = w" then show ?thesis by (simp add: same_airdrops_def)
  next
    fix n managerTake protocolTake total w1 u w2
    assume "handleFees_airdrop Z T this S t n w = Inr ((managerTake, protocolTake, total), w1)"
      "on_set S (editDefaultPosition Z (enabled_modules w1) this t u) w1 = Inr w2"
      "w' = log_event (ComponentAbsorbed S t n managerTake protocolTake) w2"
    then show ?thesis using fees edit same_airdrops_trans log by blast
  qed
qed

lemma same_absorb: "absorb_tokens Z E T this S ts w = Inr w' \<Longrightarrow> same_airdrops S w w'"
proof (induction ts arbitrary: w)
  case (Cons t ts)
  then obtain w1 where "handleAirdropPosition Z E T this S t w = Inr w1" "absorb_tokens Z E T this S ts w1 = Inr w'"
    by (auto simp: absorb_token_def)
  then show ?case using Cons.IH same_handle same_airdrops_trans by blast
qed (simp add: same_airdrops_def)

text \<open>Settings in order, and cleared while the module is not initialized.\<close>

lemma airdrop_initialized: "validateOnlyManagerAndValidSet this S sender w = Inr u \<Longrightarrow> module_state_of this S w = INITIALIZED"
  by (auto simp: validateOnlyManagerAndValidSet_def validate_Inr module_state_of_def)

lemma airdrop_states [simp]:
  "module_state_of m S (log_event e w) = module_state_of m S w" "module_state_of m S (edit_airdrops S' f w) = module_state_of m S w"
  "module_state_of m S (mark_airdrop S' b t w) = module_state_of m S w"
  by (simp_all add: module_state_of_def)

lemma airdrop_ok_call:
  assumes ok: "airdrop_ok (module_state_of this S w = INITIALIZED) (pr_airdropSettings w S, pr_isAirdrop w S)"
    and run: "airdrop_call Z E T this sender S call w = Inr w'"
  shows "airdrop_ok (module_state_of this S w' = INITIALIZED) (pr_airdropSettings w' S, pr_isAirdrop w' S)"
proof -
  let ?n = "pr_airdropSettings w S"
  note in_order = ok [unfolded airdrop_ok_def fst_conv snd_conv]
  have same: "airdrop_ok (module_state_of this S w1 = INITIALIZED) (pr_airdropSettings w1 S, pr_isAirdrop w1 S)"
    if "same_airdrops S w w1" for w1 :: "('a, 'b) protocol"
    using that ok by (simp add: same_airdrops_def)
  show ?thesis
  proof (cases call)
    case (Initialize_airdrop n)
    then obtain u where r: "validateOnlyValidAndPendingSet this S w = Inr u" "as_airdropFee n \<le> preciseUnit" "as_feeRecipient n \<noteq> 0"
      "distinct (as_airdrops n)" "on_set S (initializeModule this) (fold (mark_airdrop S True) (as_airdrops n) (edit_airdrops S (\<lambda>_. n) w)) = Inr w'"
      using run by (auto simp: initialize_airdrop_def hasDuplicate_eq Let_def split: if_splits)
    have "pr_isAirdrop w S = (\<lambda>_. False)" using r(1) in_order by (auto simp: validate_Inr module_state_of_def)
    moreover have "pr_airdropSettings w' S = n" "module_state_of this S w' = INITIALIZED"
      "pr_isAirdrop w' S = (\<lambda>t. t \<in> set (as_airdrops n) \<or> pr_isAirdrop w S t)"
      using r(5) by (auto simp: on_set_Inr initializeModule_def emitted_def module_state_of_def fun_eq_iff)
    ultimately show ?thesis using r(2-4) by (simp add: airdrop_ok_def preciseUnit_def PRECISE_UNIT_u_def)
  next
    case (AddAirdrop t)
    then obtain u where r: "validateOnlyManagerAndValidSet this S sender w = Inr u" "\<not> pr_isAirdrop w S t"
      "w' = log_event (AirdropComponentAdded S t) (mark_airdrop S True t (edit_airdrops S (\<lambda>n. n\<lparr>as_airdrops := as_airdrops n @ [t]\<rparr>) w))"
      using run by (auto simp: addAirdrop_def isAirdropToken_def Let_def)
    have "t \<notin> set (as_airdrops ?n)" unfolding conjunct1 [OF conjunct2 [OF in_order], symmetric] using r(2) by simp
    moreover have "Collect ((pr_isAirdrop w S)(t := True)) = insert t (Collect (pr_isAirdrop w S))" by (auto split: if_splits)
    ultimately show ?thesis using in_order airdrop_initialized [OF r(1)] by (simp add: r(3) airdrop_ok_def)
  next
    case (RemoveAirdrop t)
    then obtain u rest where r: "validateOnlyManagerAndValidSet this S sender w = Inr u" "removeStorage (as_airdrops ?n) t = Inr rest"
      "w' = log_event (AirdropComponentRemoved S t) (mark_airdrop S False t (edit_airdrops S (\<lambda>n. n\<lparr>as_airdrops := rest\<rparr>) w))"
      using run by (auto simp: removeAirdrop_def Let_def)
    have "Collect ((pr_isAirdrop w S)(t := False)) = Collect (pr_isAirdrop w S) - {t}" by (auto split: if_splits)
    then show ?thesis using in_order removeStorage_distinct [OF r(2)] airdrop_initialized [OF r(1)] by (simp add: r(3) airdrop_ok_def)
  next
    case (UpdateAnyoneAbsorb b)
    then obtain u where "validateOnlyManagerAndValidSet this S sender w = Inr u"
      "w' = log_event (AnyoneAbsorbUpdated S b) (edit_airdrops S (\<lambda>n. n\<lparr>as_anyoneAbsorb := b\<rparr>) w)"
      using run by (auto simp: updateAnyoneAbsorb_def)
    then show ?thesis using in_order airdrop_initialized [of this S sender w u] by (simp add: airdrop_ok_def)
  next
    case (UpdateFeeRecipient_airdrop a)
    then obtain u where "validateOnlyManagerAndValidSet this S sender w = Inr u" "a \<noteq> 0"
      "w' = log_event (FeeRecipientUpdated S a) (edit_airdrops S (\<lambda>n. n\<lparr>as_feeRecipient := a\<rparr>) w)"
      using run by (auto simp: updateFeeRecipient_airdrop_def)
    then show ?thesis using in_order airdrop_initialized [of this S sender w u] by (simp add: airdrop_ok_def)
  next
    case (UpdateAirdropFee f)
    then obtain u w1 where r: "validateOnlyValidAndInitializedSet this S w = Inr u" "f \<le> preciseUnit" "same_airdrops S w w1"
      "w' = log_event (AirdropFeeUpdated S f) (edit_airdrops S (\<lambda>n. n\<lparr>as_airdropFee := f\<rparr>) w1)"
      using run same_absorb by (fastforce simp: updateAirdropFee_def)
    have "module_state_of this S w1 = INITIALIZED" using r(1,3) by (auto simp: validate_Inr same_airdrops_def module_state_of_def)
    then show ?thesis using same [OF r(3)] r(2) by (simp add: r(4) airdrop_ok_def preciseUnit_def PRECISE_UNIT_u_def)
  next
    case (Absorb t)
    then show ?thesis using run same [OF same_absorb, of _ _ _ _ "[t]"] by (auto simp: absorb_def)
  next
    case (BatchAbsorb ts)
    then show ?thesis using run same [OF same_absorb] by (auto simp: batchAbsorb_def)
  qed
qed

interpretation airdrop_storage: module_storage "\<lambda>w w'. \<exists>sender call. airdrop_call Z E T this sender S call w = Inr w'" "removeModule_airdrop S"
    "\<lambda>w. (pr_airdropSettings w S, pr_isAirdrop w S)" "(no_airdropSettings, \<lambda>_. False)" this S airdrop_ok for Z E T this S
proof
  fix w w1 :: "('a, 'b) protocol" and b
  assume "removeModule_airdrop S w = Inr w1" and "airdrop_ok b (pr_airdropSettings w S, pr_isAirdrop w S)"
  then have "pr_airdropSettings w1 S = no_airdropSettings" "pr_isAirdrop w1 S = (\<lambda>_. False)"
    by (auto simp: removeModule_airdrop_def airdrop_ok_def Let_def fun_eq_iff)
  then show "airdrop_ok False (pr_airdropSettings w1 S, pr_isAirdrop w1 S)" by (simp add: airdrop_ok_def no_airdropSettings_def)
next
  show "airdrop_ok False (no_airdropSettings, \<lambda>_. False)" by (simp add: airdrop_ok_def no_airdropSettings_def)
qed (auto intro: airdrop_ok_call)

end
