(* ===== verification/DebtIssuanceModule.thy ===== *)
theory DebtIssuanceModule
  imports ModuleHistory
begin

text \<open>
  \<^verbatim>\<open>contracts/protocol/modules/v1/DebtIssuanceModule.sol\<close>: SetTokens with external positions, debt among them, are
  issued and redeemed with a fee for the manager, of which the protocol takes a part. The hooks of the manager, of
  registered modules and of the modules that hold external positions are contracts that may do anything to the
  protocol: they are the fields of \<open>issuance_hooks\<close>. \<open>this\<close> is the module, \<open>S\<close> the SetToken.
\<close>

subsection \<open>Hooks\<close>

record ('e, 't) issuance_hooks =
  ih_invokePreIssueHook :: "address \<Rightarrow> address \<Rightarrow> uint256 \<Rightarrow> address \<Rightarrow> address \<Rightarrow> ('e, 't) protocol \<Rightarrow> revert + ('e, 't) protocol"
  ih_moduleIssueHook :: "address \<Rightarrow> address \<Rightarrow> uint256 \<Rightarrow> ('e, 't) protocol \<Rightarrow> revert + ('e, 't) protocol"
  ih_moduleRedeemHook :: "address \<Rightarrow> address \<Rightarrow> uint256 \<Rightarrow> ('e, 't) protocol \<Rightarrow> revert + ('e, 't) protocol"
  ih_componentIssueHook :: "address \<Rightarrow> address \<Rightarrow> uint256 \<Rightarrow> address \<Rightarrow> bool \<Rightarrow> ('e, 't) protocol \<Rightarrow> revert + ('e, 't) protocol"
  ih_componentRedeemHook :: "address \<Rightarrow> address \<Rightarrow> uint256 \<Rightarrow> address \<Rightarrow> bool \<Rightarrow> ('e, 't) protocol \<Rightarrow> revert + ('e, 't) protocol"

definition callManagerPreIssueHooks ::
  "('e, 't) issuance_hooks \<Rightarrow> address \<Rightarrow> address \<Rightarrow> uint256 \<Rightarrow> address \<Rightarrow> address \<Rightarrow> ('e, 't) protocol \<Rightarrow>
     revert + address \<times> ('e, 't) protocol"
where
  "callManagerPreIssueHooks H this S quantity caller a w =
     (let preIssueHook = is_managerIssuanceHook (pr_issuanceSettings w this S)
      in if preIssueHook \<noteq> 0
         then and_then (ih_invokePreIssueHook H preIssueHook S quantity caller a w) (\<lambda>w. Inr (preIssueHook, w))
         else Inr (0, w))"

fun call_hooks ::
  "(address \<Rightarrow> ('e, 't) protocol \<Rightarrow> revert + ('e, 't) protocol) \<Rightarrow> address list \<Rightarrow> ('e, 't) protocol \<Rightarrow> revert + ('e, 't) protocol"
where
  "call_hooks hook [] w = Inr w"
| "call_hooks hook (m # ms) w = and_then (hook m w) (\<lambda>w. call_hooks hook ms w)"

definition callModulePreIssueHooks ::
  "('e, 't) issuance_hooks \<Rightarrow> address \<Rightarrow> address \<Rightarrow> uint256 \<Rightarrow> ('e, 't) protocol \<Rightarrow> revert + ('e, 't) protocol"
where
  "callModulePreIssueHooks H this S quantity w =
     call_hooks (\<lambda>m. ih_moduleIssueHook H m S quantity) (is_moduleIssuanceHooks (pr_issuanceSettings w this S)) w"

definition callModulePreRedeemHooks ::
  "('e, 't) issuance_hooks \<Rightarrow> address \<Rightarrow> address \<Rightarrow> uint256 \<Rightarrow> ('e, 't) protocol \<Rightarrow> revert + ('e, 't) protocol"
where
  "callModulePreRedeemHooks H this S quantity w =
     call_hooks (\<lambda>m. ih_moduleRedeemHook H m S quantity) (is_moduleIssuanceHooks (pr_issuanceSettings w this S)) w"

definition executeExternalPositionHooks ::
  "('e, 't) issuance_hooks \<Rightarrow> address \<Rightarrow> uint256 \<Rightarrow> address \<Rightarrow> bool \<Rightarrow> bool \<Rightarrow> ('e, 't) protocol \<Rightarrow> revert + ('e, 't) protocol"
where
  "executeExternalPositionHooks H S quantity c isIssue isEquity w =
     and_then (the_set S w) (\<lambda>s.
       if isIssue then call_hooks (\<lambda>m. ih_componentIssueHook H m S quantity c isEquity) (externalPositionModules s c) w
       else call_hooks (\<lambda>m. ih_componentRedeemHook H m S quantity c isEquity) (externalPositionModules s c) w)"

subsection \<open>Fees and units\<close>

definition calculateTotalFees ::
  "oz_api \<Rightarrow> address \<Rightarrow> address \<Rightarrow> uint256 \<Rightarrow> bool \<Rightarrow> ('e, 't) protocol \<Rightarrow> revert + uint256 \<times> uint256 \<times> uint256"
where
  "calculateTotalFees Z this S quantity isIssue w =
     (let n = pr_issuanceSettings w this S;
          protocolFeeSplit = getModuleFee this 0 (pr_controller w);
          totalFeeRate = (if isIssue then is_managerIssueFee n else is_managerRedeemFee n)
      in and_then (preciseMul_u Z totalFeeRate quantity) (\<lambda>totalFee.
         and_then (preciseMul_u Z totalFee protocolFeeSplit) (\<lambda>protocolFee.
         and_then (um_sub Z totalFee protocolFee) (\<lambda>managerFee.
         and_then (if isIssue then um_add Z quantity totalFee else um_sub Z quantity totalFee) (\<lambda>totalQuantity.
           Inr (totalQuantity, managerFee, protocolFee))))))"

text \<open>The loop over the external positions of a component: positive units are equity, the others debt.\<close>

fun external_sums ::
  "oz_api \<Rightarrow> 'e set_token \<Rightarrow> address \<Rightarrow> address list \<Rightarrow> int256 \<Rightarrow> int256 \<Rightarrow> revert + int256 \<times> int256"
where
  "external_sums Z s c [] equity debt = Inr (equity, debt)"
| "external_sums Z s c (m # ms) equity debt =
     and_then (getExternalPositionRealUnit Z s c m) (\<lambda>u.
       if 0 < sint u
       then and_then (im_add Z equity u) (\<lambda>equity. external_sums Z s c ms equity debt)
       else and_then (im_add Z debt u) (\<lambda>debt. external_sums Z s c ms equity debt))"

text \<open>The rest of the body, from the equity in the SetToken itself: unsigned equity and debt.\<close>

definition issuance_units ::
  "oz_api \<Rightarrow> 'e set_token \<Rightarrow> address \<Rightarrow> int256 \<Rightarrow> revert + uint256 \<times> uint256"
where
  "issuance_units Z s c equity =
     and_then (external_sums Z s c (externalPositionModules s c) equity 0) (\<lambda>(cumulativeEquity, cumulativeDebt).
     and_then (toUint256 Z cumulativeEquity) (\<lambda>equityUnit.
     and_then (im_mul Z cumulativeDebt (- 1)) (\<lambda>d.
     and_then (toUint256 Z d) (\<lambda>debtUnit. Inr (equityUnit, debtUnit)))))"

fun total_issuance_units ::
  "oz_api \<Rightarrow> 'e set_token \<Rightarrow> address list \<Rightarrow> revert + uint256 list \<times> uint256 list"
where
  "total_issuance_units Z s [] = Inr ([], [])"
| "total_issuance_units Z s (c # cs) =
     and_then (getDefaultPositionRealUnit Z s c) (\<lambda>u.
     and_then (issuance_units Z s c u) (\<lambda>(e, d).
     and_then (total_issuance_units Z s cs) (\<lambda>(equityUnits, debtUnits). Inr (e # equityUnits, d # debtUnits))))"

definition getTotalIssuanceUnits ::
  "oz_api \<Rightarrow> 'e set_token \<Rightarrow> revert + address list \<times> uint256 list \<times> uint256 list"
where
  "getTotalIssuanceUnits Z s =
     and_then (total_issuance_units Z s (st_components s)) (\<lambda>(equityUnits, debtUnits). Inr (st_components s, equityUnits, debtUnits))"

text \<open>Equity is rounded up when it comes in, debt when it is repaid; both are rounded down when they go out.\<close>

fun required_totals ::
  "oz_api \<Rightarrow> uint256 \<Rightarrow> bool \<Rightarrow> uint256 list \<Rightarrow> uint256 list \<Rightarrow> revert + uint256 list \<times> uint256 list"
where
  "required_totals Z quantity isIssue (e # es) (d # ds) =
     and_then (if isIssue then preciseMulCeil_u Z e quantity else preciseMul_u Z e quantity) (\<lambda>te.
     and_then (if isIssue then preciseMul_u Z d quantity else preciseMulCeil_u Z d quantity) (\<lambda>td.
     and_then (required_totals Z quantity isIssue es ds) (\<lambda>(totalEquityUnits, totalDebtUnits).
       Inr (te # totalEquityUnits, td # totalDebtUnits))))"
| "required_totals Z quantity isIssue [] ds = Inr ([], [])"
| "required_totals Z quantity isIssue (e # es) [] = Inl InvalidOpcode"

definition calculateRequiredComponentIssuanceUnits ::
  "oz_api \<Rightarrow> 'e set_token \<Rightarrow> uint256 \<Rightarrow> bool \<Rightarrow> revert + address list \<times> uint256 list \<times> uint256 list"
where
  "calculateRequiredComponentIssuanceUnits Z s quantity isIssue =
     and_then (getTotalIssuanceUnits Z s) (\<lambda>(components, equityUnits, debtUnits).
     and_then (required_totals Z quantity isIssue equityUnits debtUnits) (\<lambda>(totalEquityUnits, totalDebtUnits).
       Inr (components, totalEquityUnits, totalDebtUnits)))"

definition getRequiredComponentIssuanceUnits ::
  "oz_api \<Rightarrow> address \<Rightarrow> address \<Rightarrow> uint256 \<Rightarrow> ('e, 't) protocol \<Rightarrow> revert + address list \<times> uint256 list \<times> uint256 list"
where
  "getRequiredComponentIssuanceUnits Z this S quantity w =
     and_then (calculateTotalFees Z this S quantity True w) (\<lambda>(totalQuantity, _, _).
     and_then (the_set S w) (\<lambda>s. calculateRequiredComponentIssuanceUnits Z s totalQuantity True))"

definition getRequiredComponentRedemptionUnits ::
  "oz_api \<Rightarrow> address \<Rightarrow> address \<Rightarrow> uint256 \<Rightarrow> ('e, 't) protocol \<Rightarrow> revert + address list \<times> uint256 list \<times> uint256 list"
where
  "getRequiredComponentRedemptionUnits Z this S quantity w =
     and_then (calculateTotalFees Z this S quantity False w) (\<lambda>(totalQuantity, _, _).
     and_then (the_set S w) (\<lambda>s. calculateRequiredComponentIssuanceUnits Z s totalQuantity False))"

subsection \<open>Resolving positions and fees\<close>

fun resolveEquityPositions ::
  "oz_api \<Rightarrow> 't token_api \<Rightarrow> ('e, 't) issuance_hooks \<Rightarrow> address \<Rightarrow> address \<Rightarrow> address \<Rightarrow> uint256 \<Rightarrow> address \<Rightarrow> bool \<Rightarrow>
     address list \<Rightarrow> uint256 list \<Rightarrow> ('e, 't) protocol \<Rightarrow> revert + ('e, 't) protocol"
where
  "resolveEquityPositions Z T H this sender S quantity a isIssue [] qs w = Inr w"
| "resolveEquityPositions Z T H this sender S quantity a isIssue (c # cs) [] w = Inl InvalidOpcode"
| "resolveEquityPositions Z T H this sender S quantity a isIssue (c # cs) (q # qs) w =
     and_then (if 0 < q
       then if isIssue
         then and_then (explicit_transferFrom Z T this c sender S q w) (\<lambda>w. executeExternalPositionHooks H S quantity c True True w)
         else and_then (executeExternalPositionHooks H S quantity c False True w) (\<lambda>w. strictInvokeTransfer Z T this S c a q w)
       else Inr w) (\<lambda>w.
     resolveEquityPositions Z T H this sender S quantity a isIssue cs qs w)"

fun resolveDebtPositions ::
  "oz_api \<Rightarrow> 't token_api \<Rightarrow> ('e, 't) issuance_hooks \<Rightarrow> address \<Rightarrow> address \<Rightarrow> address \<Rightarrow> uint256 \<Rightarrow> bool \<Rightarrow>
     address list \<Rightarrow> uint256 list \<Rightarrow> ('e, 't) protocol \<Rightarrow> revert + ('e, 't) protocol"
where
  "resolveDebtPositions Z T H this sender S quantity isIssue [] qs w = Inr w"
| "resolveDebtPositions Z T H this sender S quantity isIssue (c # cs) [] w = Inl InvalidOpcode"
| "resolveDebtPositions Z T H this sender S quantity isIssue (c # cs) (q # qs) w =
     and_then (if 0 < q
       then if isIssue
         then and_then (executeExternalPositionHooks H S quantity c True False w) (\<lambda>w. strictInvokeTransfer Z T this S c sender q w)
         else and_then (explicit_transferFrom Z T this c sender S q w) (\<lambda>w. executeExternalPositionHooks H S quantity c False False w)
       else Inr w) (\<lambda>w.
     resolveDebtPositions Z T H this sender S quantity isIssue cs qs w)"

definition resolveFees ::
  "'e erc20_api \<Rightarrow> address \<Rightarrow> address \<Rightarrow> uint256 \<Rightarrow> uint256 \<Rightarrow> ('e, 't) protocol \<Rightarrow> revert + ('e, 't) protocol"
where
  "resolveFees E this S managerFee protocolFee w =
     (if 0 < managerFee
      then and_then (on_set S (mint E (enabled_modules w) this (is_feeRecipient (pr_issuanceSettings w this S)) managerFee) w) (\<lambda>w.
        if 0 < protocolFee
        then on_set S (mint E (enabled_modules w) this (controller.feeRecipient (pr_controller w)) protocolFee) w
        else Inr w)
      else Inr w)"

subsection \<open>Issuance and redemption\<close>

text \<open>\<^verbatim>\<open>issue\<close> after the hooks of the manager and of the registered modules.\<close>

definition issue_with_fees ::
  "oz_api \<Rightarrow> 'e erc20_api \<Rightarrow> 't token_api \<Rightarrow> ('e, 't) issuance_hooks \<Rightarrow> address \<Rightarrow> address \<Rightarrow> address \<Rightarrow> uint256 \<Rightarrow> address \<Rightarrow>
     address \<Rightarrow> ('e, 't) protocol \<Rightarrow> revert + ('e, 't) protocol"
where
  "issue_with_fees Z E T H this sender S quantity a hookContract w =
     and_then (calculateTotalFees Z this S quantity True w) (\<lambda>(quantityWithFees, managerFee, protocolFee).
     and_then (the_set S w) (\<lambda>s.
     and_then (calculateRequiredComponentIssuanceUnits Z s quantityWithFees True) (\<lambda>(components, equityUnits, debtUnits).
     and_then (resolveEquityPositions Z T H this sender S quantityWithFees a True components equityUnits w) (\<lambda>w.
     and_then (resolveDebtPositions Z T H this sender S quantityWithFees True components debtUnits w) (\<lambda>w.
     and_then (resolveFees E this S managerFee protocolFee w) (\<lambda>w.
     and_then (on_set S (mint E (enabled_modules w) this a quantity) w) (\<lambda>w.
       Inr (log_event (SetTokenIssuedWithFees S sender a hookContract quantity managerFee protocolFee) w))))))))"

definition issue_debt ::
  "oz_api \<Rightarrow> 'e erc20_api \<Rightarrow> 't token_api \<Rightarrow> ('e, 't) issuance_hooks \<Rightarrow> address \<Rightarrow> address \<Rightarrow> address \<Rightarrow> uint256 \<Rightarrow> address \<Rightarrow>
     ('e, 't) protocol \<Rightarrow> revert + ('e, 't) protocol"
where
  "issue_debt Z E T H this sender S quantity a w =
     and_then (validateOnlyValidAndInitializedSet this S w) (\<lambda>_.
     and_then (require (0 < quantity) ''Issue quantity must be > 0'') (\<lambda>_.
     and_then (callManagerPreIssueHooks H this S quantity sender a w) (\<lambda>(hookContract, w).
     and_then (callModulePreIssueHooks H this S quantity w) (\<lambda>w.
       issue_with_fees Z E T H this sender S quantity a hookContract w))))"

text \<open>\<^verbatim>\<open>redeem\<close> after the hooks of the registered modules.\<close>

definition redeem_with_fees ::
  "oz_api \<Rightarrow> 'e erc20_api \<Rightarrow> 't token_api \<Rightarrow> ('e, 't) issuance_hooks \<Rightarrow> address \<Rightarrow> address \<Rightarrow> address \<Rightarrow> uint256 \<Rightarrow> address \<Rightarrow>
     ('e, 't) protocol \<Rightarrow> revert + ('e, 't) protocol"
where
  "redeem_with_fees Z E T H this sender S quantity a w =
     and_then (on_set S (burn E (enabled_modules w) this sender quantity) w) (\<lambda>w.
     and_then (calculateTotalFees Z this S quantity False w) (\<lambda>(quantityNetFees, managerFee, protocolFee).
     and_then (the_set S w) (\<lambda>s.
     and_then (calculateRequiredComponentIssuanceUnits Z s quantityNetFees False) (\<lambda>(components, equityUnits, debtUnits).
     and_then (resolveDebtPositions Z T H this sender S quantityNetFees False components debtUnits w) (\<lambda>w.
     and_then (resolveEquityPositions Z T H this sender S quantityNetFees a False components equityUnits w) (\<lambda>w.
     and_then (resolveFees E this S managerFee protocolFee w) (\<lambda>w.
       Inr (log_event (SetTokenRedeemedWithFees S sender a quantity managerFee protocolFee) w))))))))"

definition redeem_debt ::
  "oz_api \<Rightarrow> 'e erc20_api \<Rightarrow> 't token_api \<Rightarrow> ('e, 't) issuance_hooks \<Rightarrow> address \<Rightarrow> address \<Rightarrow> address \<Rightarrow> uint256 \<Rightarrow> address \<Rightarrow>
     ('e, 't) protocol \<Rightarrow> revert + ('e, 't) protocol"
where
  "redeem_debt Z E T H this sender S quantity a w =
     and_then (validateOnlyValidAndInitializedSet this S w) (\<lambda>_.
     and_then (require (0 < quantity) ''Redeem quantity must be > 0'') (\<lambda>_.
     and_then (callModulePreRedeemHooks H this S quantity w) (\<lambda>w.
       redeem_with_fees Z E T H this sender S quantity a w)))"

subsection \<open>Settings\<close>

definition edit_issuance ::
  "address \<Rightarrow> address \<Rightarrow> (IssuanceSettings \<Rightarrow> IssuanceSettings) \<Rightarrow> ('e, 't) protocol \<Rightarrow> ('e, 't) protocol"
where
  "edit_issuance this S f w = w\<lparr>pr_issuanceSettings :=
     (pr_issuanceSettings w)(this := (pr_issuanceSettings w this)(S := f (pr_issuanceSettings w this S)))\<rparr>"

definition updateFeeRecipient_debt :: "address \<Rightarrow> address \<Rightarrow> address \<Rightarrow> address \<Rightarrow> ('e, 't) protocol \<Rightarrow> revert + ('e, 't) protocol" where
  "updateFeeRecipient_debt this sender S newFeeRecipient w =
     and_then (validateOnlyManagerAndValidSet this S sender w) (\<lambda>_.
     and_then (require (newFeeRecipient \<noteq> 0) ''Fee Recipient must be non-zero address.'') (\<lambda>_.
     and_then (require (newFeeRecipient \<noteq> is_feeRecipient (pr_issuanceSettings w this S)) ''Same fee recipient passed'') (\<lambda>_.
     Inr (log_event (FeeRecipientUpdated S newFeeRecipient) (edit_issuance this S (\<lambda>n. n\<lparr>is_feeRecipient := newFeeRecipient\<rparr>) w)))))"

definition updateIssueFee :: "address \<Rightarrow> address \<Rightarrow> address \<Rightarrow> uint256 \<Rightarrow> ('e, 't) protocol \<Rightarrow> revert + ('e, 't) protocol" where
  "updateIssueFee this sender S newIssueFee w =
     and_then (validateOnlyManagerAndValidSet this S sender w) (\<lambda>_.
     and_then (require (newIssueFee \<le> is_maxManagerFee (pr_issuanceSettings w this S)) ''Issue fee can't exceed maximum'') (\<lambda>_.
     and_then (require (newIssueFee \<noteq> is_managerIssueFee (pr_issuanceSettings w this S)) ''Same issue fee passed'') (\<lambda>_.
     Inr (log_event (IssueFeeUpdated S newIssueFee) (edit_issuance this S (\<lambda>n. n\<lparr>is_managerIssueFee := newIssueFee\<rparr>) w)))))"

definition updateRedeemFee :: "address \<Rightarrow> address \<Rightarrow> address \<Rightarrow> uint256 \<Rightarrow> ('e, 't) protocol \<Rightarrow> revert + ('e, 't) protocol" where
  "updateRedeemFee this sender S newRedeemFee w =
     and_then (validateOnlyManagerAndValidSet this S sender w) (\<lambda>_.
     and_then (require (newRedeemFee \<le> is_maxManagerFee (pr_issuanceSettings w this S)) ''Redeem fee can't exceed maximum'') (\<lambda>_.
     and_then (require (newRedeemFee \<noteq> is_managerRedeemFee (pr_issuanceSettings w this S)) ''Same redeem fee passed'') (\<lambda>_.
     Inr (log_event (RedeemFeeUpdated S newRedeemFee) (edit_issuance this S (\<lambda>n. n\<lparr>is_managerRedeemFee := newRedeemFee\<rparr>) w)))))"

definition registerToIssuanceModule :: "address \<Rightarrow> address \<Rightarrow> address \<Rightarrow> ('e, 't) protocol \<Rightarrow> revert + ('e, 't) protocol" where
  "registerToIssuanceModule this sender S w =
     and_then (validateOnlyModule_base S sender w) (\<lambda>_.
     and_then (validateOnlyValidAndInitializedSet this S w) (\<lambda>_.
     and_then (require (\<not> is_isModuleHook (pr_issuanceSettings w this S) sender) ''Module already registered.'') (\<lambda>_.
     Inr (edit_issuance this S (\<lambda>n. n\<lparr>is_moduleIssuanceHooks := is_moduleIssuanceHooks n @ [sender],
       is_isModuleHook := (is_isModuleHook n)(sender := True)\<rparr>) w))))"

definition unregisterFromIssuanceModule :: "address \<Rightarrow> address \<Rightarrow> address \<Rightarrow> ('e, 't) protocol \<Rightarrow> revert + ('e, 't) protocol" where
  "unregisterFromIssuanceModule this sender S w =
     and_then (validateOnlyModule_base S sender w) (\<lambda>_.
     and_then (validateOnlyValidAndInitializedSet this S w) (\<lambda>_.
     and_then (require (is_isModuleHook (pr_issuanceSettings w this S) sender) ''Module not registered.'') (\<lambda>_.
     and_then (removeStorage (is_moduleIssuanceHooks (pr_issuanceSettings w this S)) sender) (\<lambda>rest.
     Inr (edit_issuance this S (\<lambda>n. n\<lparr>is_moduleIssuanceHooks := rest, is_isModuleHook := (is_isModuleHook n)(sender := False)\<rparr>) w)))))"

text \<open>Assigning the struct leaves its mapping as it is.\<close>

definition initialize_debt ::
  "address \<Rightarrow> address \<Rightarrow> address \<Rightarrow> uint256 \<Rightarrow> uint256 \<Rightarrow> uint256 \<Rightarrow> address \<Rightarrow> address \<Rightarrow> ('e, 't) protocol \<Rightarrow>
     revert + ('e, 't) protocol"
where
  "initialize_debt this sender S maxManagerFee managerIssueFee managerRedeemFee recipient managerIssuanceHook w =
     and_then (validateOnlySetManager S sender w) (\<lambda>_.
     and_then (validateOnlyValidAndPendingSet this S w) (\<lambda>_.
     and_then (require (managerIssueFee \<le> maxManagerFee) ''Issue fee can't exceed maximum fee'') (\<lambda>_.
     and_then (require (managerRedeemFee \<le> maxManagerFee) ''Redeem fee can't exceed maximum fee'') (\<lambda>_.
     let w = edit_issuance this S (\<lambda>n. \<lparr>is_maxManagerFee = maxManagerFee, is_managerIssueFee = managerIssueFee,
       is_managerRedeemFee = managerRedeemFee, is_feeRecipient = recipient, is_managerIssuanceHook = managerIssuanceHook,
       is_moduleIssuanceHooks = [], is_isModuleHook = is_isModuleHook n\<rparr>) w
     in on_set S (initializeModule this) w))))"

definition removeModule_debt :: "address \<Rightarrow> address \<Rightarrow> ('e, 't) protocol \<Rightarrow> revert + ('e, 't) protocol" where
  "removeModule_debt this sender w =
     and_then (require (length (is_moduleIssuanceHooks (pr_issuanceSettings w this sender)) = 0) ''Registered modules must be removed.'') (\<lambda>_.
       Inr (edit_issuance this sender deleted_issuanceSettings w))"

subsection \<open>The settings in every history\<close>

text \<open>The functions that write settings; issuance and redemption write none, what their hooks do are steps of their own.\<close>

datatype debt_request =
    Initialize_debt uint256 uint256 uint256 address address
  | UpdateFeeRecipient_debt address
  | UpdateIssueFee uint256
  | UpdateRedeemFee uint256
  | RegisterToIssuanceModule
  | UnregisterFromIssuanceModule

fun debt_call :: "address \<Rightarrow> address \<Rightarrow> address \<Rightarrow> debt_request \<Rightarrow> ('e, 't) protocol \<Rightarrow> revert + ('e, 't) protocol" where
  "debt_call this sender S (Initialize_debt maxFee issueFee redeemFee recipient hook) w =
     initialize_debt this sender S maxFee issueFee redeemFee recipient hook w"
| "debt_call this sender S (UpdateFeeRecipient_debt a) w = updateFeeRecipient_debt this sender S a w"
| "debt_call this sender S (UpdateIssueFee f) w = updateIssueFee this sender S f w"
| "debt_call this sender S (UpdateRedeemFee f) w = updateRedeemFee this sender S f w"
| "debt_call this sender S RegisterToIssuanceModule w = registerToIssuanceModule this sender S w"
| "debt_call this sender S UnregisterFromIssuanceModule w = unregisterFromIssuanceModule this sender S w"

definition debt_ok :: "bool \<Rightarrow> IssuanceSettings \<Rightarrow> bool" where
  "debt_ok initialized n \<longleftrightarrow> distinct (is_moduleIssuanceHooks n) \<and> Collect (is_isModuleHook n) = set (is_moduleIssuanceHooks n) \<and>
     is_managerIssueFee n \<le> is_maxManagerFee n \<and> is_managerRedeemFee n \<le> is_maxManagerFee n \<and>
     (initialized \<or> n = no_issuanceSettings)"

lemma issuance_fields [simp]:
  "pr_issuanceSettings (edit_issuance this S f w) this S = f (pr_issuanceSettings w this S)" "pr_sets (edit_issuance this S f w) = pr_sets w"
  by (simp_all add: edit_issuance_def)

lemma debt_initialized:
  "validateOnlyManagerAndValidSet this S sender w = Inr u \<Longrightarrow> st_moduleStates (the (pr_sets w S)) this = INITIALIZED \<and> pr_sets w S \<noteq> None"
  "validateOnlyValidAndInitializedSet this S w = Inr u \<Longrightarrow> st_moduleStates (the (pr_sets w S)) this = INITIALIZED \<and> pr_sets w S \<noteq> None"
  by (auto simp: validateOnlyManagerAndValidSet_def validate_Inr)

lemma debt_ok_call:
  assumes ok: "debt_ok (module_state_of this S w = INITIALIZED) (pr_issuanceSettings w this S)"
    and run: "debt_call this sender S call w = Inr w'"
  shows "debt_ok (module_state_of this S w' = INITIALIZED) (pr_issuanceSettings w' this S)"
proof -
  let ?n = "pr_issuanceSettings w this S"
  note in_order = ok [unfolded debt_ok_def]
  have set_eq: "x \<in> set (is_moduleIssuanceHooks ?n) \<longleftrightarrow> is_isModuleHook ?n x" for x
    unfolding conjunct1 [OF conjunct2 [OF in_order], symmetric] by simp
  show ?thesis
  proof (cases call)
    case (Initialize_debt maxFee issueFee redeemFee recipient hook)
    let ?init = "\<lambda>n. \<lparr>is_maxManagerFee = maxFee, is_managerIssueFee = issueFee, is_managerRedeemFee = redeemFee,
      is_feeRecipient = recipient, is_managerIssuanceHook = hook, is_moduleIssuanceHooks = [], is_isModuleHook = is_isModuleHook n\<rparr>"
    from Initialize_debt obtain u where r: "validateOnlyValidAndPendingSet this S w = Inr u" "issueFee \<le> maxFee" "redeemFee \<le> maxFee"
      "on_set S (initializeModule this) (edit_issuance this S ?init w) = Inr w'"
      using run by (auto simp: initialize_debt_def Let_def)
    have "?n = no_issuanceSettings" using r(1) in_order by (auto simp: validate_Inr module_state_of_def)
    moreover have "pr_issuanceSettings w' this S = ?init ?n" "module_state_of this S w' = INITIALIZED"
      using r(4) by (auto simp: on_set_Inr initializeModule_def emitted_def module_state_of_def)
    ultimately show ?thesis using r(2,3) by (simp add: debt_ok_def no_issuanceSettings_def)
  next
    case (UpdateFeeRecipient_debt a)
    then show ?thesis using run in_order by (auto simp: updateFeeRecipient_debt_def debt_ok_def module_state_of_def dest!: debt_initialized(1))
  next
    case (UpdateIssueFee f)
    then show ?thesis using run in_order by (auto simp: updateIssueFee_def debt_ok_def module_state_of_def dest!: debt_initialized(1))
  next
    case (UpdateRedeemFee f)
    then show ?thesis using run in_order by (auto simp: updateRedeemFee_def debt_ok_def module_state_of_def dest!: debt_initialized(1))
  next
    case RegisterToIssuanceModule
    then obtain u where r: "validateOnlyValidAndInitializedSet this S w = Inr u" "\<not> is_isModuleHook ?n sender"
      "w' = edit_issuance this S (\<lambda>n. n\<lparr>is_moduleIssuanceHooks := is_moduleIssuanceHooks n @ [sender],
         is_isModuleHook := (is_isModuleHook n)(sender := True)\<rparr>) w"
      using run by (auto simp: registerToIssuanceModule_def)
    have "Collect ((is_isModuleHook ?n)(sender := True)) = insert sender (Collect (is_isModuleHook ?n))" by (auto split: if_splits)
    then show ?thesis using in_order r(2) debt_initialized(2) [OF r(1)] set_eq [of sender]
      by (auto simp: r(3) debt_ok_def module_state_of_def)
  next
    case UnregisterFromIssuanceModule
    then obtain u rest where r: "validateOnlyValidAndInitializedSet this S w = Inr u" "removeStorage (is_moduleIssuanceHooks ?n) sender = Inr rest"
      "w' = edit_issuance this S (\<lambda>n. n\<lparr>is_moduleIssuanceHooks := rest, is_isModuleHook := (is_isModuleHook n)(sender := False)\<rparr>) w"
      using run by (auto simp: unregisterFromIssuanceModule_def)
    have "Collect ((is_isModuleHook ?n)(sender := False)) = Collect (is_isModuleHook ?n) - {sender}" by (auto split: if_splits)
    then show ?thesis using in_order removeStorage_distinct [OF r(2)] debt_initialized(2) [OF r(1)]
      by (auto simp: r(3) debt_ok_def module_state_of_def)
  qed
qed

interpretation debt_storage: module_storage "\<lambda>w w'. \<exists>sender call. debt_call this sender S call w = Inr w'" "removeModule_debt this S"
    "\<lambda>w. pr_issuanceSettings w this S" no_issuanceSettings this S debt_ok for this S
proof
  fix w w1 :: "('a, 'b) protocol" and b
  assume removed: "removeModule_debt this S w = Inr w1" and ok: "debt_ok b (pr_issuanceSettings w this S)"
  then have "is_isModuleHook (pr_issuanceSettings w this S) = (\<lambda>_. False)" "is_moduleIssuanceHooks (pr_issuanceSettings w this S) = []"
    by (auto simp: removeModule_debt_def debt_ok_def)
  then have "pr_issuanceSettings w1 this S = no_issuanceSettings"
    using removed by (auto simp: removeModule_debt_def deleted_issuanceSettings_def no_issuanceSettings_def)
  then show "debt_ok False (pr_issuanceSettings w1 this S)" by (simp add: debt_ok_def no_issuanceSettings_def)
next
  show "debt_ok False no_issuanceSettings" by (simp add: debt_ok_def no_issuanceSettings_def)
qed (auto intro: debt_ok_call)

definition debt_history :: "oz_api \<Rightarrow> 'e erc20_api \<Rightarrow> address \<Rightarrow> address \<Rightarrow> ('e, 't) protocol \<Rightarrow> bool" where
  "debt_history Z E this S = module_history (\<lambda>w w'. \<exists>sender call. debt_call this sender S call w = Inr w') (removeModule_debt this S)
     (\<lambda>w. pr_issuanceSettings w this S) no_issuanceSettings Z E this S"

lemma debt_history_call: "debt_history Z E this S w \<Longrightarrow> debt_call this sender S call w = Inr w' \<Longrightarrow> debt_history Z E this S w'"
  unfolding debt_history_def by (rule history_call) blast+

text \<open>The settings of a debt issuance module stay in order: whatever its manager, other modules and the SetToken call, the
  registered module hooks are without duplicates and exactly those marked in the mapping, no fee is above the maximum, and
  the settings are empty, the mapping included, wherever the module is not initialized, so that a SetToken that removed
  the module and adds it again begins afresh although deleting the struct leaves its mapping alone.\<close>

lemma debt_settings_invariant:
  assumes "debt_history Z E this S w"
  shows "distinct (is_moduleIssuanceHooks (pr_issuanceSettings w this S)) \<and>
    Collect (is_isModuleHook (pr_issuanceSettings w this S)) = set (is_moduleIssuanceHooks (pr_issuanceSettings w this S)) \<and>
    is_managerIssueFee (pr_issuanceSettings w this S) \<le> is_maxManagerFee (pr_issuanceSettings w this S) \<and>
    is_managerRedeemFee (pr_issuanceSettings w this S) \<le> is_maxManagerFee (pr_issuanceSettings w this S) \<and>
    (module_state_of this S w = INITIALIZED \<or> pr_issuanceSettings w this S = no_issuanceSettings)"
  using debt_storage.history_ok assms unfolding debt_history_def debt_ok_def by blast

subsection \<open>An example\<close>

text \<open>A token of three base units of the component 7. Its debt issuance module 13 charges one percent, of which the protocol
  takes a fifth; the module 14 registers a hook. \<open>ms\<close> are the initialized modules.\<close>

definition debt_set :: "address list \<Rightarrow> shares \<Rightarrow> set_event list \<Rightarrow> shares set_token" where
  "debt_set ms token es = \<lparr>st_manager = 9, st_locker = 0, st_modules = ms,
     st_moduleStates = (\<lambda>_. NONE)(13 := if 13 \<in> set ms then INITIALIZED else PENDING, 14 := INITIALIZED), st_isLocked = False,
     st_components = [7], st_componentPositions = (\<lambda>_. no_position)(7 := no_position\<lparr>cp_virtualUnit := 3\<rparr>),
     st_positionMultiplier = 1000000000000000000, st_token = token, st_events = es\<rparr>"

definition debt_settings :: "address list \<Rightarrow> IssuanceSettings" where
  "debt_settings hooks = \<lparr>is_maxManagerFee = 100000000000000000, is_managerIssueFee = 10000000000000000,
     is_managerRedeemFee = 10000000000000000, is_feeRecipient = 3, is_managerIssuanceHook = 0,
     is_moduleIssuanceHooks = hooks, is_isModuleHook = (\<lambda>m. m \<in> set hooks)\<rparr>"

definition debt_world :: "IssuanceSettings \<Rightarrow> shares set_token \<Rightarrow> ledger \<Rightarrow> module_event list \<Rightarrow> (shares, ledger) protocol" where
  "debt_world n s \<tau> es = \<lparr>
     pr_controller = (construct_controller 1 2)\<lparr>isSet := (\<lambda>_. False)(100 := True), isModule := (\<lambda>_. False)(13 := True, 14 := True),
       fees := (\<lambda>_ _. 0)(13 := (\<lambda>_. 0)(0 := 200000000000000000))\<rparr>,
     pr_sets = Map.empty(100 \<mapsto> s), pr_tokens = \<tau>, pr_timestamp = 0, pr_feeStates = (\<lambda>_. \<lparr>fs_feeRecipient = 0, fs_maxStreamingFeePercentage = 0,
       fs_streamingFeePercentage = 0, fs_lastStreamingFeeTimestamp = 0\<rparr>),
     pr_managerIssuanceHook = (\<lambda>_. 0), pr_registries = Map.empty, pr_oracles = Map.empty,
     pr_navIssuanceSettings = (\<lambda>_. no_navSettings), pr_isReserveAsset = (\<lambda>_ _. False),
     pr_issuanceSettings = (\<lambda>_ _. no_issuanceSettings)(13 := (\<lambda>_. no_issuanceSettings)(100 := n)),
     pr_airdropSettings = (\<lambda>_. no_airdropSettings), pr_isAirdrop = (\<lambda>_ _. False), pr_events = es\<rparr>"

lemma debt_world_fields [simp]:
  "pr_sets (debt_world n s \<tau> evs) a = (if a = 100 then Some s else None)" "pr_tokens (debt_world n s \<tau> evs) = \<tau>"
  "pr_issuanceSettings (debt_world n s \<tau> evs) 13 100 = n" "controller.feeRecipient (pr_controller (debt_world n s \<tau> evs)) = 2"
  "getModuleFee 13 0 (pr_controller (debt_world n s \<tau> evs)) = 200000000000000000"
  "(debt_world n s \<tau> evs)\<lparr>pr_tokens := \<tau>'\<rparr> = debt_world n s \<tau>' evs"
  "(debt_world n s \<tau> evs)\<lparr>pr_sets := (pr_sets (debt_world n s \<tau> evs))(100 \<mapsto> s')\<rparr> = debt_world n s' \<tau> evs"
  "log_event ev (debt_world n s \<tau> evs) = debt_world n s \<tau> (ev # evs)"
  "edit_issuance 13 100 f (debt_world n s \<tau> evs) = debt_world (f n) s \<tau> evs"
  by (simp_all add: debt_world_def getModuleFee_def construct_controller_def log_event_def edit_issuance_def fun_eq_iff)

lemma debt_set_fields [simp]:
  "st_components (debt_set ms token es) = [7]" "st_token (debt_set ms token es) = token" "st_positionMultiplier (debt_set ms token es) = 1000000000000000000"
  "defaultPositionVirtualUnit (debt_set ms token es) c = (if c = 7 then 3 else 0)" "externalPositionModules (debt_set ms token es) c = []"
  "(debt_set ms token es)\<lparr>st_token := token'\<rparr> = debt_set ms token' es" "emitted e (debt_set ms token es) = debt_set ms token (e # es)"
  by (simp_all add: debt_set_def position_defs no_position_def emitted_def)

lemma debt_privileged:
  "m = 13 \<or> m = 14 \<Longrightarrow> privileged (enabled_modules (debt_world n s \<tau> evs)) m (debt_set [14, 13] token es) = Inr ()"
  "m = 13 \<or> m = 14 \<Longrightarrow> validateOnlyValidAndInitializedSet m 100 (debt_world n (debt_set [14, 13] token es) \<tau> evs) = Inr ()"
  by (auto simp: privileged_Inr validate_Inr) (auto simp: debt_set_def debt_world_def)

text \<open>The manager initializes the module, the module 14 registers, and the manager doubles the fee of redemptions.\<close>

lemma debt_calls:
  "debt_call 13 9 100 (Initialize_debt 100000000000000000 10000000000000000 10000000000000000 3 0)
     (debt_world no_issuanceSettings (debt_set [14] token es) \<tau> evs) =
     Inr (debt_world (debt_settings []) (debt_set [14, 13] token (ModuleInitialized 13 # es)) \<tau> evs)"
  "debt_call 13 14 100 RegisterToIssuanceModule (debt_world (debt_settings []) (debt_set [14, 13] token es) \<tau> evs) =
     Inr (debt_world (debt_settings [14]) (debt_set [14, 13] token es) \<tau> evs)"
  "debt_call 13 9 100 (UpdateRedeemFee 20000000000000000) (debt_world (debt_settings [14]) (debt_set [14, 13] token es) \<tau> evs) =
     Inr (debt_world ((debt_settings [14])\<lparr>is_managerRedeemFee := 20000000000000000\<rparr>) (debt_set [14, 13] token es) \<tau>
       (RedeemFeeUpdated 100 20000000000000000 # evs))"
proof -
  let ?w = "\<lambda>n ms es. debt_world n (debt_set ms token es) \<tau> evs"
  have manager: "validateOnlySetManager 100 9 (?w n ms es) = Inr ()" for n ms es by (simp add: validate_Inr debt_set_def)
  have pending: "validateOnlyValidAndPendingSet 13 100 (?w n [14] es) = Inr ()" for n es
    by (simp add: validate_Inr) (simp add: debt_set_def debt_world_def)
  have "initializeModule 13 (debt_set [14] token es) = Inr (debt_set [14, 13] token (ModuleInitialized 13 # es))" for es
    by (simp add: initializeModule_def) (simp add: debt_set_def emitted_def fun_eq_iff)
  then have "on_set 100 (initializeModule 13) (?w n [14] es) = Inr (?w n [14, 13] (ModuleInitialized 13 # es))" for n es
    by (auto simp: on_set_Inr)
  then show "debt_call 13 9 100 (Initialize_debt 100000000000000000 10000000000000000 10000000000000000 3 0)
     (?w no_issuanceSettings [14] es) = Inr (?w (debt_settings []) [14, 13] (ModuleInitialized 13 # es))"
    using manager [of no_issuanceSettings "[14]" es] pending [of no_issuanceSettings es]
    by (simp add: initialize_debt_def Let_def no_issuanceSettings_def debt_settings_def del: and_then_eq_Inr)
  have "validateOnlyModule_base 100 14 (?w (debt_settings []) [14, 13] es) = Inr ()"
    by (simp add: validateOnlyModule_base_def the_set_Inr) (simp add: debt_set_def debt_world_def)
  moreover have "(\<lambda>m :: address. False)(14 := True) = (\<lambda>m. m = 14)" by (simp add: fun_eq_iff)
  ultimately show "debt_call 13 14 100 RegisterToIssuanceModule (?w (debt_settings []) [14, 13] es) = Inr (?w (debt_settings [14]) [14, 13] es)"
    by (simp add: registerToIssuanceModule_def debt_privileged debt_settings_def del: and_then_eq_Inr)
  show "debt_call 13 9 100 (UpdateRedeemFee 20000000000000000) (?w (debt_settings [14]) [14, 13] es) =
     Inr (debt_world ((debt_settings [14])\<lparr>is_managerRedeemFee := 20000000000000000\<rparr>) (debt_set [14, 13] token es) \<tau>
       (RedeemFeeUpdated 100 20000000000000000 # evs))"
    by (simp add: updateRedeemFee_def validateOnlyManagerAndValidSet_def manager debt_privileged debt_settings_def del: and_then_eq_Inr)
qed

end
