(* ===== verification/DebtIssuanceModuleV2.thy ===== *)
theory DebtIssuanceModuleV2
  imports DebtIssuanceModule
begin

text \<open>
  \<^verbatim>\<open>DebtIssuanceModuleV2.sol\<close>, \<^verbatim>\<open>DebtIssuanceModuleV3.sol\<close> and \<^verbatim>\<open>IssuanceModule.sol\<close> of \<^verbatim>\<open>contracts/protocol/modules/v1\<close>
  (the last one adds nothing to the second version), with \<^verbatim>\<open>contracts/protocol/lib/IssuanceValidationUtils.sol\<close>:
  instead of comparing balances exactly after every transfer, they check that the SetToken is collateralized. The third
  version moves a few base units more in, and fewer out, than the second. \<open>this\<close> is the module, \<open>S\<close> the SetToken.
\<close>

subsection \<open>Validation\<close>

definition validateCollateralizationPostTransferInPreHook ::
  "oz_api \<Rightarrow> 't token_api \<Rightarrow> address \<Rightarrow> address \<Rightarrow> uint256 \<Rightarrow> uint256 \<Rightarrow> ('e, 't) protocol \<Rightarrow> revert + unit"
where
  "validateCollateralizationPostTransferInPreHook Z T S component initialSetSupply componentQuantity w =
     (let newComponentBalance = tk_balanceOf T component S (pr_tokens w)
      in and_then (the_set S w) (\<lambda>s.
         and_then (getDefaultPositionRealUnit Z s component) (\<lambda>u.
         and_then (toUint256 Z u) (\<lambda>defaultPositionUnit.
         and_then (preciseMulCeil_u Z initialSetSupply defaultPositionUnit) (\<lambda>needed.
         and_then (um_add Z needed componentQuantity) (\<lambda>bound.
           require (bound \<le> newComponentBalance) ''Invalid transfer in. Results in undercollateralization''))))))"

definition validateCollateralizationPostTransferOut ::
  "oz_api \<Rightarrow> 't token_api \<Rightarrow> address \<Rightarrow> address \<Rightarrow> uint256 \<Rightarrow> ('e, 't) protocol \<Rightarrow> revert + unit"
where
  "validateCollateralizationPostTransferOut Z T S component finalSetSupply w =
     (let newComponentBalance = tk_balanceOf T component S (pr_tokens w)
      in and_then (the_set S w) (\<lambda>s.
         and_then (getDefaultPositionRealUnit Z s component) (\<lambda>u.
         and_then (toUint256 Z u) (\<lambda>defaultPositionUnit.
         and_then (preciseMulCeil_u Z finalSetSupply defaultPositionUnit) (\<lambda>bound.
           require (bound \<le> newComponentBalance) ''Invalid transfer out. Results in undercollateralization'')))))"

text \<open>\<^verbatim>\<open>SafeERC20.safeTransferFrom\<close>, called by the module \<open>this\<close>.\<close>

definition safe_transferFrom ::
  "'t token_api \<Rightarrow> address \<Rightarrow> address \<Rightarrow> address \<Rightarrow> address \<Rightarrow> uint256 \<Rightarrow> ('e, 't) protocol \<Rightarrow> revert + ('e, 't) protocol"
where
  "safe_transferFrom T this token a b quantity w =
     and_then (tk_safeTransferFrom T token this a b quantity (pr_tokens w)) (\<lambda>\<tau>. Inr (w\<lparr>pr_tokens := \<tau>\<rparr>))"

subsection \<open>Resolving positions\<close>

type_synonym ('e, 't) equity_resolver =
  "oz_api \<Rightarrow> 't token_api \<Rightarrow> ('e, 't) issuance_hooks \<Rightarrow> address \<Rightarrow> address \<Rightarrow> address \<Rightarrow> uint256 \<Rightarrow> address \<Rightarrow> bool \<Rightarrow>
     address list \<Rightarrow> uint256 list \<Rightarrow> uint256 \<Rightarrow> uint256 \<Rightarrow> ('e, 't) protocol \<Rightarrow> revert + ('e, 't) protocol"

fun resolveEquityPositions_V2 ::
  "oz_api \<Rightarrow> 't token_api \<Rightarrow> ('e, 't) issuance_hooks \<Rightarrow> address \<Rightarrow> address \<Rightarrow> address \<Rightarrow> uint256 \<Rightarrow> address \<Rightarrow> bool \<Rightarrow>
     address list \<Rightarrow> uint256 list \<Rightarrow> uint256 \<Rightarrow> uint256 \<Rightarrow> ('e, 't) protocol \<Rightarrow> revert + ('e, 't) protocol"
where
  "resolveEquityPositions_V2 Z T H this sender S quantity a isIssue [] qs supply0 supply1 w = Inr w"
| "resolveEquityPositions_V2 Z T H this sender S quantity a isIssue (c # cs) [] supply0 supply1 w = Inl InvalidOpcode"
| "resolveEquityPositions_V2 Z T H this sender S quantity a isIssue (c # cs) (q # qs) supply0 supply1 w =
     and_then (if 0 < q
       then if isIssue
         then and_then (safe_transferFrom T this c sender S q w) (\<lambda>w.
           and_then (validateCollateralizationPostTransferInPreHook Z T S c supply0 q w) (\<lambda>_.
           executeExternalPositionHooks H S quantity c True True w))
         else and_then (executeExternalPositionHooks H S quantity c False True w) (\<lambda>w.
           and_then (invokeTransfer T this S c a q w) (\<lambda>w.
           and_then (validateCollateralizationPostTransferOut Z T S c supply1 w) (\<lambda>_. Inr w)))
       else Inr w) (\<lambda>w.
     resolveEquityPositions_V2 Z T H this sender S quantity a isIssue cs qs supply0 supply1 w)"

fun resolveDebtPositions_V2 ::
  "oz_api \<Rightarrow> 't token_api \<Rightarrow> ('e, 't) issuance_hooks \<Rightarrow> address \<Rightarrow> address \<Rightarrow> address \<Rightarrow> uint256 \<Rightarrow> bool \<Rightarrow>
     address list \<Rightarrow> uint256 list \<Rightarrow> uint256 \<Rightarrow> uint256 \<Rightarrow> ('e, 't) protocol \<Rightarrow> revert + ('e, 't) protocol"
where
  "resolveDebtPositions_V2 Z T H this sender S quantity isIssue [] qs supply0 supply1 w = Inr w"
| "resolveDebtPositions_V2 Z T H this sender S quantity isIssue (c # cs) [] supply0 supply1 w = Inl InvalidOpcode"
| "resolveDebtPositions_V2 Z T H this sender S quantity isIssue (c # cs) (q # qs) supply0 supply1 w =
     and_then (if 0 < q
       then if isIssue
         then and_then (executeExternalPositionHooks H S quantity c True False w) (\<lambda>w.
           and_then (invokeTransfer T this S c sender q w) (\<lambda>w.
           and_then (validateCollateralizationPostTransferOut Z T S c supply1 w) (\<lambda>_. Inr w)))
         else and_then (safe_transferFrom T this c sender S q w) (\<lambda>w.
           and_then (validateCollateralizationPostTransferInPreHook Z T S c supply0 q w) (\<lambda>_.
           executeExternalPositionHooks H S quantity c False False w))
       else Inr w) (\<lambda>w.
     resolveDebtPositions_V2 Z T H this sender S quantity isIssue cs qs supply0 supply1 w)"

text \<open>The sums and differences with \<^verbatim>\<open>tokenTransferBuffer\<close> are not checked: they wrap around.\<close>

fun resolveEquityPositions_V3 ::
  "uint256 \<Rightarrow> oz_api \<Rightarrow> 't token_api \<Rightarrow> ('e, 't) issuance_hooks \<Rightarrow> address \<Rightarrow> address \<Rightarrow> address \<Rightarrow> uint256 \<Rightarrow> address \<Rightarrow> bool \<Rightarrow>
     address list \<Rightarrow> uint256 list \<Rightarrow> uint256 \<Rightarrow> uint256 \<Rightarrow> ('e, 't) protocol \<Rightarrow> revert + ('e, 't) protocol"
where
  "resolveEquityPositions_V3 buffer Z T H this sender S quantity a isIssue [] qs supply0 supply1 w = Inr w"
| "resolveEquityPositions_V3 buffer Z T H this sender S quantity a isIssue (c # cs) [] supply0 supply1 w = Inl InvalidOpcode"
| "resolveEquityPositions_V3 buffer Z T H this sender S quantity a isIssue (c # cs) (q # qs) supply0 supply1 w =
     and_then (if 0 < q
       then if isIssue
         then and_then (safe_transferFrom T this c sender S (q + buffer) w) (\<lambda>w.
           and_then (validateCollateralizationPostTransferInPreHook Z T S c supply0 q w) (\<lambda>_.
           executeExternalPositionHooks H S quantity c True True w))
         else and_then (executeExternalPositionHooks H S quantity c False True w) (\<lambda>w.
           and_then (invokeTransfer T this S c a (q - buffer) w) (\<lambda>w.
           and_then (validateCollateralizationPostTransferOut Z T S c supply1 w) (\<lambda>_. Inr w)))
       else Inr w) (\<lambda>w.
     resolveEquityPositions_V3 buffer Z T H this sender S quantity a isIssue cs qs supply0 supply1 w)"

lemma resolveEquityPositions_V3_0: "(resolveEquityPositions_V3 0 :: ('e, 't) equity_resolver) = resolveEquityPositions_V2"
proof -
  have "resolveEquityPositions_V3 0 Z T H this sender S quantity a isIssue cs qs supply0 supply1 w =
      resolveEquityPositions_V2 Z T H this sender S quantity a isIssue cs qs supply0 supply1 w"
    for Z T and H :: "('e, 't) issuance_hooks" and this sender S quantity a isIssue cs qs supply0 supply1 w
  proof (induction Z T H this sender S quantity a isIssue cs qs supply0 supply1 w rule: resolveEquityPositions_V2.induct)
    case (3 Z T H this sender S quantity a isIssue c cs q qs supply0 supply1 w)
    have "resolveEquityPositions_V3 0 Z T H this sender S quantity a isIssue cs qs supply0 supply1 =
        resolveEquityPositions_V2 Z T H this sender S quantity a isIssue cs qs supply0 supply1"
      by (rule ext) (rule 3)
    then show ?case unfolding resolveEquityPositions_V3.simps resolveEquityPositions_V2.simps add_0_right diff_0_right by (simp only:)
  qed simp_all
  then show ?thesis by (simp add: fun_eq_iff)
qed

subsection \<open>Issuance and redemption\<close>

text \<open>\<^verbatim>\<open>_resolveEquityPositions\<close> is virtual: \<open>resolve\<close> is the version of the module.\<close>

text \<open>\<^verbatim>\<open>issue\<close> after the hooks of the manager and of the registered modules.\<close>

definition issue_collateralized ::
  "('e, 't) equity_resolver \<Rightarrow> oz_api \<Rightarrow> 'e erc20_api \<Rightarrow> 't token_api \<Rightarrow> ('e, 't) issuance_hooks \<Rightarrow> address \<Rightarrow> address \<Rightarrow>
     address \<Rightarrow> uint256 \<Rightarrow> address \<Rightarrow> address \<Rightarrow> ('e, 't) protocol \<Rightarrow> revert + ('e, 't) protocol"
where
  "issue_collateralized resolve Z E T H this sender S quantity a hookContract w =
     and_then (the_set S w) (\<lambda>s.
     let initialSetSupply = er_totalSupply E (st_token s)
     in and_then (calculateTotalFees Z this S quantity True w) (\<lambda>(quantityWithFees, managerFee, protocolFee).
        and_then (calculateRequiredComponentIssuanceUnits Z s quantityWithFees True) (\<lambda>(components, equityUnits, debtUnits).
        and_then (um_add Z initialSetSupply quantityWithFees) (\<lambda>finalSetSupply.
        and_then (resolve Z T H this sender S quantityWithFees a True components equityUnits initialSetSupply finalSetSupply w) (\<lambda>w.
        and_then (resolveDebtPositions_V2 Z T H this sender S quantityWithFees True components debtUnits initialSetSupply finalSetSupply w) (\<lambda>w.
        and_then (resolveFees E this S managerFee protocolFee w) (\<lambda>w.
        and_then (on_set S (mint E (enabled_modules w) this a quantity) w) (\<lambda>w.
          Inr (log_event (SetTokenIssuedWithFees S sender a hookContract quantity managerFee protocolFee) w)))))))))"

definition issue_V2 ::
  "('e, 't) equity_resolver \<Rightarrow> oz_api \<Rightarrow> 'e erc20_api \<Rightarrow> 't token_api \<Rightarrow> ('e, 't) issuance_hooks \<Rightarrow> address \<Rightarrow> address \<Rightarrow>
     address \<Rightarrow> uint256 \<Rightarrow> address \<Rightarrow> ('e, 't) protocol \<Rightarrow> revert + ('e, 't) protocol"
where
  "issue_V2 resolve Z E T H this sender S quantity a w =
     and_then (validateOnlyValidAndInitializedSet this S w) (\<lambda>_.
     and_then (require (0 < quantity) ''Issue quantity must be > 0'') (\<lambda>_.
     and_then (callManagerPreIssueHooks H this S quantity sender a w) (\<lambda>(hookContract, w).
     and_then (callModulePreIssueHooks H this S quantity w) (\<lambda>w.
       issue_collateralized resolve Z E T H this sender S quantity a hookContract w))))"

text \<open>\<^verbatim>\<open>redeem\<close> after the hooks of the registered modules.\<close>

definition redeem_collateralized ::
  "('e, 't) equity_resolver \<Rightarrow> oz_api \<Rightarrow> 'e erc20_api \<Rightarrow> 't token_api \<Rightarrow> ('e, 't) issuance_hooks \<Rightarrow> address \<Rightarrow> address \<Rightarrow>
     address \<Rightarrow> uint256 \<Rightarrow> address \<Rightarrow> ('e, 't) protocol \<Rightarrow> revert + ('e, 't) protocol"
where
  "redeem_collateralized resolve Z E T H this sender S quantity a w =
     and_then (the_set S w) (\<lambda>s.
     let initialSetSupply = er_totalSupply E (st_token s)
     in and_then (on_set S (burn E (enabled_modules w) this sender quantity) w) (\<lambda>w.
        and_then (calculateTotalFees Z this S quantity False w) (\<lambda>(quantityNetFees, managerFee, protocolFee).
        and_then (the_set S w) (\<lambda>s.
        and_then (calculateRequiredComponentIssuanceUnits Z s quantityNetFees False) (\<lambda>(components, equityUnits, debtUnits).
        and_then (um_sub Z initialSetSupply quantityNetFees) (\<lambda>finalSetSupply.
        and_then (resolveDebtPositions_V2 Z T H this sender S quantityNetFees False components debtUnits initialSetSupply finalSetSupply w) (\<lambda>w.
        and_then (resolve Z T H this sender S quantityNetFees a False components equityUnits initialSetSupply finalSetSupply w) (\<lambda>w.
        and_then (resolveFees E this S managerFee protocolFee w) (\<lambda>w.
          Inr (log_event (SetTokenRedeemedWithFees S sender a quantity managerFee protocolFee) w))))))))))"

definition redeem_V2 ::
  "('e, 't) equity_resolver \<Rightarrow> oz_api \<Rightarrow> 'e erc20_api \<Rightarrow> 't token_api \<Rightarrow> ('e, 't) issuance_hooks \<Rightarrow> address \<Rightarrow> address \<Rightarrow>
     address \<Rightarrow> uint256 \<Rightarrow> address \<Rightarrow> ('e, 't) protocol \<Rightarrow> revert + ('e, 't) protocol"
where
  "redeem_V2 resolve Z E T H this sender S quantity a w =
     and_then (validateOnlyValidAndInitializedSet this S w) (\<lambda>_.
     and_then (require (0 < quantity) ''Redeem quantity must be > 0'') (\<lambda>_.
     and_then (callModulePreRedeemHooks H this S quantity w) (\<lambda>w.
       redeem_collateralized resolve Z E T H this sender S quantity a w)))"

subsection \<open>Required units\<close>

text \<open>The default positions at the balances of the SetToken instead of its position units.\<close>

fun issuance_units_from_balances ::
  "oz_api \<Rightarrow> 't token_api \<Rightarrow> address \<Rightarrow> 'e set_token \<Rightarrow> uint256 \<Rightarrow> 't \<Rightarrow> address list \<Rightarrow> revert + uint256 list \<times> uint256 list"
where
  "issuance_units_from_balances Z T S s totalSupply \<tau> [] = Inr ([], [])"
| "issuance_units_from_balances Z T S s totalSupply \<tau> (c # cs) =
     and_then (getDefaultPositionUnit Z totalSupply (tk_balanceOf T c S \<tau>)) (\<lambda>n.
     and_then (toInt256 Z n) (\<lambda>u.
     and_then (issuance_units Z s c u) (\<lambda>(e, d).
     and_then (issuance_units_from_balances Z T S s totalSupply \<tau> cs) (\<lambda>(equityUnits, debtUnits).
       Inr (e # equityUnits, d # debtUnits)))))"

definition getTotalIssuanceUnitsFromBalances ::
  "oz_api \<Rightarrow> 'e erc20_api \<Rightarrow> 't token_api \<Rightarrow> address \<Rightarrow> ('e, 't) protocol \<Rightarrow>
     revert + address list \<times> uint256 list \<times> uint256 list"
where
  "getTotalIssuanceUnitsFromBalances Z E T S w =
     and_then (the_set S w) (\<lambda>s.
     and_then (issuance_units_from_balances Z T S s (er_totalSupply E (st_token s)) (pr_tokens w) (st_components s)) (\<lambda>(equityUnits, debtUnits).
       Inr (st_components s, equityUnits, debtUnits)))"

definition getRequiredComponentIssuanceUnits_V2 ::
  "oz_api \<Rightarrow> 'e erc20_api \<Rightarrow> 't token_api \<Rightarrow> address \<Rightarrow> address \<Rightarrow> uint256 \<Rightarrow> ('e, 't) protocol \<Rightarrow>
     revert + address list \<times> uint256 list \<times> uint256 list"
where
  "getRequiredComponentIssuanceUnits_V2 Z E T this S quantity w =
     and_then (calculateTotalFees Z this S quantity True w) (\<lambda>(totalQuantity, _, _).
     and_then (the_set S w) (\<lambda>s.
     if er_totalSupply E (st_token s) = 0 then calculateRequiredComponentIssuanceUnits Z s totalQuantity True
     else and_then (getTotalIssuanceUnitsFromBalances Z E T S w) (\<lambda>(components, equityUnits, debtUnits).
       and_then (required_totals Z totalQuantity True equityUnits debtUnits) (\<lambda>(totalEquityUnits, totalDebtUnits).
         Inr (components, totalEquityUnits, totalDebtUnits)))))"

definition getRequiredComponentIssuanceUnits_V3 ::
  "uint256 \<Rightarrow> oz_api \<Rightarrow> 'e erc20_api \<Rightarrow> 't token_api \<Rightarrow> address \<Rightarrow> address \<Rightarrow> uint256 \<Rightarrow> ('e, 't) protocol \<Rightarrow>
     revert + address list \<times> uint256 list \<times> uint256 list"
where
  "getRequiredComponentIssuanceUnits_V3 buffer Z E T this S quantity w =
     and_then (getRequiredComponentIssuanceUnits_V2 Z E T this S quantity w) (\<lambda>(components, equityUnits, debtUnits).
       Inr (components, map (\<lambda>e. if 0 < e then e + buffer else e) equityUnits, debtUnits))"

definition getRequiredComponentRedemptionUnits_V3 ::
  "uint256 \<Rightarrow> oz_api \<Rightarrow> address \<Rightarrow> address \<Rightarrow> uint256 \<Rightarrow> ('e, 't) protocol \<Rightarrow>
     revert + address list \<times> uint256 list \<times> uint256 list"
where
  "getRequiredComponentRedemptionUnits_V3 buffer Z this S quantity w =
     and_then (calculateTotalFees Z this S quantity False w) (\<lambda>(totalQuantity, _, _).
     and_then (the_set S w) (\<lambda>s.
     and_then (calculateRequiredComponentIssuanceUnits Z s totalQuantity False) (\<lambda>(components, equityUnits, debtUnits).
       Inr (components, map (\<lambda>e. if buffer < e then e - buffer else 0) equityUnits, debtUnits))))"

end
