(* ===== verification/IssuanceCollateral.thy ===== *)
theory IssuanceCollateral
  imports Solvency DebtIssuanceModuleV2
begin

text \<open>
  What the checks of the second and third debt issuance module are worth. A component without external positions is
  covered whenever issuance returns, whatever its contract did with the transfers, and after a redemption if it was
  covered before or is paid out at all; only the hooks of other components must leave it alone.
\<close>

subsection \<open>What is left alone\<close>

definition position_kept :: "'t token_api \<Rightarrow> address \<Rightarrow> address \<Rightarrow> ('e, 't) protocol \<Rightarrow> ('e, 't) protocol \<Rightarrow> bool" where
  "position_kept T S c w w' \<longleftrightarrow>
     (\<forall>s. pr_sets w S = Some s \<longrightarrow> (\<exists>s'. pr_sets w' S = Some s' \<and> st_token s' = st_token s \<and>
        st_positionMultiplier s' = st_positionMultiplier s \<and> st_componentPositions s' c = st_componentPositions s c)) \<and>
     tk_balanceOf T c S (pr_tokens w) \<le> tk_balanceOf T c S (pr_tokens w')"

text \<open>The external positions of other components are replicated and unwound without touching the component \<open>c\<close>.\<close>

definition hooks_spare :: "('e, 't) issuance_hooks \<Rightarrow> 't token_api \<Rightarrow> address \<Rightarrow> address \<Rightarrow> bool" where
  "hooks_spare H T S c \<longleftrightarrow> (\<forall>m q d b w w'. d \<noteq> c \<longrightarrow>
     ih_componentIssueHook H m S q d b w = Inr w' \<or> ih_componentRedeemHook H m S q d b w = Inr w' \<longrightarrow> position_kept T S c w w')"

lemma position_kept_refl [simp]: "position_kept T S c w w"
  by (simp add: position_kept_def)

lemma position_kept_trans:
  assumes "position_kept T S c w1 w2" and "position_kept T S c w2 w3"
  shows "position_kept T S c w1 w3"
  unfolding position_kept_def
proof (intro conjI allI impI)
  fix s assume "pr_sets w1 S = Some s"
  then obtain s2 where s2: "pr_sets w2 S = Some s2" "st_token s2 = st_token s" "st_positionMultiplier s2 = st_positionMultiplier s"
    "st_componentPositions s2 c = st_componentPositions s c" using assms(1) by (auto simp: position_kept_def)
  then obtain s3 where "pr_sets w3 S = Some s3" "st_token s3 = st_token s2" "st_positionMultiplier s3 = st_positionMultiplier s2"
    "st_componentPositions s3 c = st_componentPositions s2 c" using assms(2) by (auto simp: position_kept_def)
  with s2 show "\<exists>s'. pr_sets w3 S = Some s' \<and> st_token s' = st_token s \<and> st_positionMultiplier s' = st_positionMultiplier s \<and>
      st_componentPositions s' c = st_componentPositions s c" by simp
next
  show "tk_balanceOf T c S (pr_tokens w1) \<le> tk_balanceOf T c S (pr_tokens w3)"
    using assms by (auto simp: position_kept_def intro: order_trans)
qed

lemma position_keptE:
  assumes "position_kept T S c w w'" and "pr_sets w S = Some s"
  obtains s' where "pr_sets w' S = Some s'" "st_token s' = st_token s" "real_unit s' c = real_unit s c"
    "externalPositionModules s' c = externalPositionModules s c"
    "held T S (pr_tokens w) c \<le> held T S (pr_tokens w') c"
  using assms by (auto simp: position_kept_def real_unit_def position_defs held_def word_le_def)

lemma hooks_kept:
  assumes H: "hooks_spare H T S c" and "d \<noteq> c" and run: "executeExternalPositionHooks H S q d isIssue isEquity w = Inr w'"
  shows "position_kept T S c w w'"
proof -
  have "call_hooks hook ms w = Inr w' \<Longrightarrow> position_kept T S c w w'" if "\<And>m w w'. hook m w = Inr w' \<Longrightarrow> position_kept T S c w w'"
    for hook :: "address \<Rightarrow> ('a, 'b) protocol \<Rightarrow> revert + ('a, 'b) protocol" and ms w
  proof (induction ms arbitrary: w)
    case (Cons m ms)
    then obtain w1 where "hook m w = Inr w1" "call_hooks hook ms w1 = Inr w'" by auto
    then show ?case using position_kept_trans [OF that Cons.IH] by blast
  qed simp
  note loop = this
  have spare: "ih_componentIssueHook H m S q d isEquity w = Inr w' \<or> ih_componentRedeemHook H m S q d isEquity w = Inr w' \<Longrightarrow>
      position_kept T S c w w'" for m w w'
    using H \<open>d \<noteq> c\<close> unfolding hooks_spare_def by blast
  from run obtain s where "the_set S w = Inr s"
    "(if isIssue then call_hooks (\<lambda>m. ih_componentIssueHook H m S q d isEquity) (externalPositionModules s d) w
      else call_hooks (\<lambda>m. ih_componentRedeemHook H m S q d isEquity) (externalPositionModules s d) w) = Inr w'"
    by (auto simp: executeExternalPositionHooks_def)
  note split = this(2)
  have "call_hooks (\<lambda>m. ih_componentIssueHook H m S q d isEquity) ms w = Inr w' \<Longrightarrow> position_kept T S c w w'" for ms
    by (erule loop [rotated]) (rule spare, erule disjI1)
  moreover have "call_hooks (\<lambda>m. ih_componentRedeemHook H m S q d isEquity) ms w = Inr w' \<Longrightarrow> position_kept T S c w w'" for ms
    by (erule loop [rotated]) (rule spare, erule disjI2)
  ultimately show ?thesis using split by (cases isIssue) simp_all
qed

lemma safe_transfer_kept:
  assumes "token_contracts T" and "d \<noteq> c" and "safe_transferFrom T this d a b q w = Inr w'"
  shows "position_kept T S c w w'"
  using assms(2,3) token_contracts.transferFrom_other [OF assms(1), of d _ _ _ _ _ _ c]
  by (auto simp: safe_transferFrom_def position_kept_def)

lemma invoke_transfer_kept:
  assumes T: "token_contracts T" and "d \<noteq> c" and run: "invokeTransfer T this S d b q w = Inr w'"
  shows "position_kept T S c w w'"
proof (cases "0 < q")
  case True
  with run obtain r where "invoke_token T this S d 0 (tk_encodeTransfer T b q) w = Inr (r, w')"
    by (auto simp: invokeTransfer_def split: if_splits)
  then show ?thesis using \<open>d \<noteq> c\<close> token_contracts.call_other [OF T, of d _ _ _ _ _ _ c]
    by (auto simp: invoke_token_def the_set_Inr position_kept_def emitted_def)
qed (use run in \<open>simp add: invokeTransfer_def\<close>)

text \<open>The loops, for a component that has nothing to move.\<close>

lemma equity_kept:
  assumes H: "hooks_spare H T S c" and T: "token_contracts T"
  shows "resolveEquityPositions_V3 buffer Z T H this sender S Q a isIssue cs qs n0 n1 w = Inr w' \<Longrightarrow>
    \<forall>(d, q) \<in> set (zip cs qs). d = c \<longrightarrow> q = 0 \<Longrightarrow> position_kept T S c w w'"
proof (induction cs arbitrary: qs w)
  case (Cons d cs)
  then obtain q qs' where qs: "qs = q # qs'" by (cases qs) auto
  show ?case
  proof (cases "0 < q")
    case True
    then have d: "d \<noteq> c" using Cons.prems(2) qs by auto
    from Cons.prems(1) True obtain w1 where w1: "resolveEquityPositions_V3 buffer Z T H this sender S Q a isIssue cs qs' n0 n1 w1 = Inr w'"
      "position_kept T S c w w1"
      unfolding qs by (auto split: if_splits intro: position_kept_trans hooks_kept [OF H d] safe_transfer_kept [OF T d] invoke_transfer_kept [OF T d])
    show ?thesis using w1(2) Cons.IH [OF w1(1)] Cons.prems(2) qs by (auto intro: position_kept_trans)
  next
    case False
    with Cons.prems show ?thesis using Cons.IH [of qs' w] by (auto simp: qs)
  qed
qed simp

lemma debt_kept:
  assumes H: "hooks_spare H T S c" and T: "token_contracts T"
  shows "resolveDebtPositions_V2 Z T H this sender S Q isIssue cs qs n0 n1 w = Inr w' \<Longrightarrow>
    \<forall>(d, q) \<in> set (zip cs qs). d = c \<longrightarrow> q = 0 \<Longrightarrow> position_kept T S c w w'"
proof (induction cs arbitrary: qs w)
  case (Cons d cs)
  then obtain q qs' where qs: "qs = q # qs'" by (cases qs) auto
  show ?case
  proof (cases "0 < q")
    case True
    then have d: "d \<noteq> c" using Cons.prems(2) qs by auto
    from Cons.prems(1) True obtain w1 where w1: "resolveDebtPositions_V2 Z T H this sender S Q isIssue cs qs' n0 n1 w1 = Inr w'"
      "position_kept T S c w w1"
      unfolding qs by (auto split: if_splits intro: position_kept_trans hooks_kept [OF H d] safe_transfer_kept [OF T d] invoke_transfer_kept [OF T d])
    show ?thesis using w1(2) Cons.IH [OF w1(1)] Cons.prems(2) qs by (auto intro: position_kept_trans)
  next
    case False
    with Cons.prems show ?thesis using Cons.IH [of qs' w] by (auto simp: qs)
  qed
qed simp

subsection \<open>What is checked\<close>

definition covers :: "'t token_api \<Rightarrow> address \<Rightarrow> address \<Rightarrow> 'e \<Rightarrow> int \<Rightarrow> ('e, 't) protocol \<Rightarrow> bool" where
  "covers T S c token n w \<longleftrightarrow> (\<exists>s. pr_sets w S = Some s \<and> st_token s = token \<and> 0 \<le> real_unit s c \<and> n * real_unit s c \<le> held T S (pr_tokens w) c * 10 ^ 18)"

lemma covers_kept: "covers T S c token n w \<Longrightarrow> position_kept T S c w w' \<Longrightarrow> covers T S c token n w'"
  unfolding covers_def by (elim exE conjE position_keptE) (auto intro: order_trans)

lemma ceil_mult: "n \<le> (n + 10 ^ 18 - 1) div 10 ^ 18 * (10 ^ 18 :: int)"
  using floor_bounds(2) [of "10 ^ 18" "n + 10 ^ 18 - 1"] by simp

lemma checked_in:
  assumes Z: "openzeppelin Z" and run: "validateCollateralizationPostTransferInPreHook Z T S c n0 q w = Inr u"
    and s: "pr_sets w S = Some s" and q: "m * real_unit s c \<le> uint q * 10 ^ 18"
  shows "covers T S c (st_token s) (uint n0 + m) w"
proof -
  from run s obtain r k b where r: "getDefaultPositionRealUnit Z s c = Inr r" and k: "toUint256 Z r = Inr k"
    and b: "preciseMulCeil_u Z n0 k = Inr b" "uint b + uint q \<le> held T S (pr_tokens w) c"
    by (auto simp: validateCollateralizationPostTransferInPreHook_def the_set_Inr held_def word_le_def openzeppelin.um_add_Inr [OF Z])
  have "uint k = real_unit s c"
    using k openzeppelin.default_real_unit [OF Z r] by (simp add: openzeppelin.toUint256_Inr [OF Z] real_unit_def)
  then have pos: "0 \<le> real_unit s c" and "uint n0 * real_unit s c \<le> uint b * 10 ^ 18"
    using b(1) ceil_mult [of "uint n0 * uint k"] uint_ge_0 [of k] by (simp_all add: openzeppelin.preciseMulCeil_u_Inr [OF Z])
  with q b(2) pos show ?thesis using s by (auto simp: covers_def algebra_simps)
qed

lemma checked_out:
  assumes Z: "openzeppelin Z" and run: "validateCollateralizationPostTransferOut Z T S c n1 w = Inr u" and s: "pr_sets w S = Some s"
  shows "covers T S c (st_token s) (uint n1) w"
proof -
  from run s obtain r k b where r: "getDefaultPositionRealUnit Z s c = Inr r" and k: "toUint256 Z r = Inr k"
    and b: "preciseMulCeil_u Z n1 k = Inr b" "uint b \<le> held T S (pr_tokens w) c"
    by (auto simp: validateCollateralizationPostTransferOut_def the_set_Inr held_def word_le_def)
  have "uint k = real_unit s c"
    using k openzeppelin.default_real_unit [OF Z r] by (simp add: openzeppelin.toUint256_Inr [OF Z] real_unit_def)
  then have pos: "0 \<le> real_unit s c" and "uint n1 * real_unit s c \<le> uint b * 10 ^ 18"
    using b(1) ceil_mult [of "uint n1 * uint k"] uint_ge_0 [of k] by (simp_all add: openzeppelin.preciseMulCeil_u_Inr [OF Z])
  with b(2) pos show ?thesis using s by (auto simp: covers_def)
qed

lemma equity_in_covers:
  assumes Z: "openzeppelin Z" and H: "hooks_spare H T S c" and T: "token_contracts T"
  shows "resolveEquityPositions_V3 buffer Z T H this sender S Q a True cs qs n0 n1 w = Inr w' \<Longrightarrow> distinct cs \<Longrightarrow>
    (c, q) \<in> set (zip cs qs) \<Longrightarrow> 0 < q \<Longrightarrow> pr_sets w S = Some s \<Longrightarrow> externalPositionModules s c = [] \<Longrightarrow>
    m * real_unit s c \<le> uint q * 10 ^ 18 \<Longrightarrow> covers T S c (st_token s) (uint n0 + m) w'"
proof (induction cs arbitrary: qs w s)
  case (Cons d cs)
  then obtain p qs' where qs: "qs = p # qs'" by (cases qs) auto
  show ?case
  proof (cases "d = c")
    case True
    then have p: "p = q" "\<forall>(d, r) \<in> set (zip cs qs'). d = c \<longrightarrow> r = 0"
      using Cons.prems(2,3) by (auto simp: qs dest: set_zip_leftD)
    from Cons.prems(1) obtain \<tau> w2 where \<tau>: "validateCollateralizationPostTransferInPreHook Z T S c n0 q (w\<lparr>pr_tokens := \<tau>\<rparr>) = Inr ()"
      "executeExternalPositionHooks H S Q c True True (w\<lparr>pr_tokens := \<tau>\<rparr>) = Inr w2"
      "resolveEquityPositions_V3 buffer Z T H this sender S Q a True cs qs' n0 n1 w2 = Inr w'"
      using Cons.prems(4) by (auto simp: qs True p(1) safe_transferFrom_def)
    have "w2 = w\<lparr>pr_tokens := \<tau>\<rparr>" using \<tau>(2) Cons.prems(5,6) by (auto simp: executeExternalPositionHooks_def the_set_Inr)
    moreover have "covers T S c (st_token s) (uint n0 + m) (w\<lparr>pr_tokens := \<tau>\<rparr>)"
      using Cons.prems(5,7) by (intro checked_in [OF Z \<tau>(1)]) simp_all
    ultimately show ?thesis using covers_kept [OF _ equity_kept [OF H T \<tau>(3) p(2)]] by simp
  next
    case False
    from Cons.prems(1) obtain w1 where w1: "resolveEquityPositions_V3 buffer Z T H this sender S Q a True cs qs' n0 n1 w1 = Inr w'"
      "position_kept T S c w w1"
      unfolding qs by (auto split: if_splits intro: position_kept_trans hooks_kept [OF H False] safe_transfer_kept [OF T False])
    obtain s1 where s1: "pr_sets w1 S = Some s1" "real_unit s1 c = real_unit s c" "externalPositionModules s1 c = []"
      "st_token s1 = st_token s" using position_keptE [OF w1(2) Cons.prems(5)] Cons.prems(6) by metis
    show ?thesis by (rule Cons.IH [OF w1(1) _ _ Cons.prems(4) s1(1,3), unfolded s1(4)]) (use Cons.prems(2,3,7) False s1(2) in \<open>auto simp: qs\<close>)
  qed
qed simp

lemma invoke_transfer_set:
  assumes "invokeTransfer T this S d b q w = Inr w'" and "pr_sets w S = Some s"
  obtains es where "pr_sets w' S = Some (s\<lparr>st_events := es\<rparr>)"
proof (cases "0 < q")
  case True
  with assms that show thesis by (auto simp: invokeTransfer_def invoke_token_def the_set_Inr emitted_def split: if_splits)
next
  case False
  with assms that [of "st_events s"] show thesis by (simp add: invokeTransfer_def)
qed

lemma equity_out_covers:
  assumes Z: "openzeppelin Z" and H: "hooks_spare H T S c" and T: "token_contracts T"
  shows "resolveEquityPositions_V3 buffer Z T H this sender S Q a False cs qs n0 n1 w = Inr w' \<Longrightarrow> distinct cs \<Longrightarrow>
    (c, q) \<in> set (zip cs qs) \<Longrightarrow> 0 < q \<Longrightarrow> pr_sets w S = Some s \<Longrightarrow> externalPositionModules s c = [] \<Longrightarrow>
    covers T S c (st_token s) (uint n1) w'"
proof (induction cs arbitrary: qs w s)
  case (Cons d cs)
  then obtain p qs' where qs: "qs = p # qs'" by (cases qs) auto
  show ?case
  proof (cases "d = c")
    case True
    then have p: "p = q" "\<forall>(d, r) \<in> set (zip cs qs'). d = c \<longrightarrow> r = 0"
      using Cons.prems(2,3) by (auto simp: qs dest: set_zip_leftD)
    from Cons.prems(1) obtain w1 w2 where w2: "executeExternalPositionHooks H S Q c False True w = Inr w1"
      "invokeTransfer T this S c a (q - buffer) w1 = Inr w2" "validateCollateralizationPostTransferOut Z T S c n1 w2 = Inr ()"
      "resolveEquityPositions_V3 buffer Z T H this sender S Q a False cs qs' n0 n1 w2 = Inr w'"
      using Cons.prems(4) by (auto simp: qs True p(1))
    have "w1 = w" using w2(1) Cons.prems(5,6) by (auto simp: executeExternalPositionHooks_def the_set_Inr)
    then obtain es where "pr_sets w2 S = Some (s\<lparr>st_events := es\<rparr>)" using invoke_transfer_set [OF w2(2)] Cons.prems(5) by metis
    from covers_kept [OF checked_out [OF Z w2(3) this] equity_kept [OF H T w2(4) p(2)]] show ?thesis by simp
  next
    case False
    from Cons.prems(1) obtain w1 where w1: "resolveEquityPositions_V3 buffer Z T H this sender S Q a False cs qs' n0 n1 w1 = Inr w'"
      "position_kept T S c w w1"
      unfolding qs by (auto split: if_splits intro: position_kept_trans hooks_kept [OF H False] invoke_transfer_kept [OF T False])
    obtain s1 where s1: "pr_sets w1 S = Some s1" "externalPositionModules s1 c = []" "st_token s1 = st_token s"
      using position_keptE [OF w1(2) Cons.prems(5)] Cons.prems(6) by metis
    show ?thesis by (rule Cons.IH [OF w1(1) _ _ Cons.prems(4) s1(1,2), unfolded s1(3)]) (use Cons.prems(2,3) False in \<open>auto simp: qs\<close>)
  qed
qed simp

subsection \<open>What is required and what is minted\<close>

text \<open>Without external positions the equity of a component is its default position, and it has no debt.\<close>

lemma issuance_units_plain:
  assumes Z: "openzeppelin Z" and "externalPositionModules s c = []" and r: "getDefaultPositionRealUnit Z s c = Inr r"
    and run: "issuance_units Z s c r = Inr (e, d)"
  shows "uint e = real_unit s c" "d = 0"
proof -
  from run assms(2) have e: "toUint256 Z r = Inr e" and d: "im_mul Z 0 (- 1) = Inr x \<Longrightarrow> toUint256 Z x = Inr d" for x
    by (auto simp: issuance_units_def)
  then show "uint e = real_unit s c"
    using openzeppelin.default_real_unit [OF Z r] by (simp add: openzeppelin.toUint256_Inr [OF Z] real_unit_def)
  have "im_mul Z 0 (- 1) = Inr 0" by (simp add: openzeppelin.im_mul_Inr [OF Z])
  from d [OF this] have "uint d = 0" by (simp add: openzeppelin.toUint256_Inr [OF Z])
  then show "d = 0" by (simp add: uint_0_iff)
qed

lemma total_issuance_units_Inr:
  "total_issuance_units Z s cs = Inr (es, ds) \<Longrightarrow> length es = length cs \<and> length ds = length cs \<and>
    (\<forall>i < length cs. \<exists>r. getDefaultPositionRealUnit Z s (cs ! i) = Inr r \<and> issuance_units Z s (cs ! i) r = Inr (es ! i, ds ! i))"
proof (induction cs arbitrary: es ds)
  case (Cons c cs)
  then obtain r e d es' ds' where u: "getDefaultPositionRealUnit Z s c = Inr r" "issuance_units Z s c r = Inr (e, d)"
    "total_issuance_units Z s cs = Inr (es', ds')" "es = e # es'" "ds = d # ds'" by auto
  from Cons.IH [OF u(3)] u(1,2,4,5) show ?case by (auto simp: less_Suc_eq_0_disj)
qed simp

lemma required_totals_Inr:
  assumes Z: "openzeppelin Z"
  shows "required_totals Z q isIssue es ds = Inr (te, td) \<Longrightarrow> length te = length es \<and> length td = length es \<and>
    length es \<le> length ds \<and> (\<forall>i < length es.
      uint (te ! i) = (if isIssue then uint (es ! i) * uint q + 10 ^ 18 - 1 else uint (es ! i) * uint q) div 10 ^ 18 \<and>
      uint (td ! i) = (if isIssue then uint (ds ! i) * uint q else uint (ds ! i) * uint q + 10 ^ 18 - 1) div 10 ^ 18)"
proof (induction es arbitrary: ds te td)
  case (Cons e es)
  then obtain d ds' where ds: "ds = d # ds'" by (cases ds) auto
  with Cons.prems obtain x y te' td' where u: "(if isIssue then preciseMulCeil_u Z e q else preciseMul_u Z e q) = Inr x"
    "(if isIssue then preciseMul_u Z d q else preciseMulCeil_u Z d q) = Inr y" "required_totals Z q isIssue es ds' = Inr (te', td')"
    "te = x # te'" "td = y # td'" by auto
  note oz = openzeppelin.preciseMulCeil_u_Inr [OF Z] openzeppelin.preciseMul_u_Inr [OF Z]
  have "uint x = (if isIssue then uint e * uint q + 10 ^ 18 - 1 else uint e * uint q) div 10 ^ 18"
    "uint y = (if isIssue then uint d * uint q else uint d * uint q + 10 ^ 18 - 1) div 10 ^ 18"
    using u(1,2) by (auto simp: oz split: if_splits)
  with Cons.IH [OF u(3)] u(4,5) ds show ?case by (auto simp: less_Suc_eq_0_disj)
qed simp

lemma plain_requirement:
  assumes Z: "openzeppelin Z" and run: "calculateRequiredComponentIssuanceUnits Z s q isIssue = Inr (cs, te, td)"
    and c: "c \<in> set (st_components s)" "distinct (st_components s)" and plain: "externalPositionModules s c = []"
  obtains e where "cs = st_components s" "(c, e) \<in> set (zip cs te)" "0 \<le> real_unit s c"
    "uint e = (if isIssue then real_unit s c * uint q + 10 ^ 18 - 1 else real_unit s c * uint q) div 10 ^ 18"
    "\<forall>(d, x) \<in> set (zip cs td). d = c \<longrightarrow> x = 0" "\<forall>(d, x) \<in> set (zip cs te). d = c \<longrightarrow> x = e"
proof -
  from run obtain es ds where t: "total_issuance_units Z s (st_components s) = Inr (es, ds)"
    "required_totals Z q isIssue es ds = Inr (te, td)" and cs: "cs = st_components s"
    by (auto simp: calculateRequiredComponentIssuanceUnits_def getTotalIssuanceUnits_def)
  note 1 = total_issuance_units_Inr [OF t(1)] and 2 = required_totals_Inr [OF Z t(2)]
  obtain i where i: "i < length cs" "cs ! i = c" using c(1) by (auto simp: cs in_set_conv_nth)
  obtain r where r: "getDefaultPositionRealUnit Z s c = Inr r" "issuance_units Z s c r = Inr (es ! i, ds ! i)"
    using 1 i by (auto simp: cs)
  note e = issuance_units_plain [OF Z plain r]
  have lengths: "length es = length cs" "length te = length cs" "length td = length cs" using 1 2 by (simp_all add: cs)
  then have "i < length es" using i(1) by simp
  then have at_i: "uint (te ! i) = (if isIssue then uint (es ! i) * uint q + 10 ^ 18 - 1 else uint (es ! i) * uint q) div 10 ^ 18"
    "uint (td ! i) = (if isIssue then uint (ds ! i) * uint q else uint (ds ! i) * uint q + 10 ^ 18 - 1) div 10 ^ 18"
    using 2 by blast+
  have here: "uint (te ! i) = (if isIssue then real_unit s c * uint q + 10 ^ 18 - 1 else real_unit s c * uint q) div 10 ^ 18" "td ! i = 0"
    using at_i(1) e(1) at_i(2) by (simp_all add: e(2) uint_0_iff)
  have only: "x = xs ! i" if "(d, x) \<in> set (zip cs xs)" "d = c" "length xs = length cs" for d and x :: uint256 and xs
    using that i c(2) by (auto simp: in_set_zip cs nth_eq_iff_index_eq)
  show thesis
  proof (rule that [OF cs])
    show "(c, te ! i) \<in> set (zip cs te)" using i lengths by (auto simp: in_set_zip)
    show "0 \<le> real_unit s c" using e(1) by (metis uint_ge_0)
    show "\<forall>(d, x) \<in> set (zip cs td). d = c \<longrightarrow> x = 0" "\<forall>(d, x) \<in> set (zip cs te). d = c \<longrightarrow> x = te ! i"
      using only [of _ _ td] only [of _ _ te] here(2) lengths by auto
  qed (rule here(1))
qed

lemma calculateTotalFees_Inr:
  assumes Z: "openzeppelin Z" and run: "calculateTotalFees Z this S q isIssue w = Inr (totalQuantity, managerFee, protocolFee)"
  shows "uint totalQuantity = (if isIssue then uint q + (uint managerFee + uint protocolFee) else uint q - (uint managerFee + uint protocolFee))"
proof -
  from run obtain fee where "um_sub Z fee protocolFee = Inr managerFee" "(if isIssue then um_add Z q fee else um_sub Z q fee) = Inr totalQuantity"
    by (auto simp: calculateTotalFees_def Let_def split: if_splits)
  then show ?thesis by (auto simp: openzeppelin.um_sub_Inr [OF Z] openzeppelin.um_add_Inr [OF Z])
qed

lemma minted:
  assumes E: "share_token E" and s: "pr_sets w S = Some s" and run: "on_set S (mint E enabled this a q) w = Inr w'"
  obtains e where "w' = w\<lparr>pr_sets := (pr_sets w)(S \<mapsto> s\<lparr>st_token := e\<rparr>)\<rparr>"
    "uint (er_totalSupply E e) = uint (er_totalSupply E (st_token s)) + uint q"
  using run s share_token.mint_supply [OF E] by (auto simp: on_set_Inr mint_Inr)

lemma resolveFees_effect:
  assumes E: "share_token E" and s: "pr_sets w S = Some s" and run: "resolveFees E this S managerFee protocolFee w = Inr w'"
  obtains e where "w' = w\<lparr>pr_sets := (pr_sets w)(S \<mapsto> s\<lparr>st_token := e\<rparr>)\<rparr>"
    "uint (er_totalSupply E e) = uint (er_totalSupply E (st_token s)) + (if managerFee = 0 then 0 else uint managerFee + uint protocolFee)"
proof (cases "0 < managerFee")
  case False
  then show thesis using run s by (intro that [of "st_token s"]) (auto simp: resolveFees_def word_gt_0 fun_upd_idem)
next
  case True
  with run obtain w1 where w1: "on_set S (mint E (enabled_modules w) this (is_feeRecipient (pr_issuanceSettings w this S)) managerFee) w = Inr w1"
    "(if 0 < protocolFee then on_set S (mint E (enabled_modules w1) this (controller.feeRecipient (pr_controller w1)) protocolFee) w1
      else Inr w1) = Inr w'" by (auto simp: resolveFees_def)
  obtain e1 where e1: "w1 = w\<lparr>pr_sets := (pr_sets w)(S \<mapsto> s\<lparr>st_token := e1\<rparr>)\<rparr>"
    "uint (er_totalSupply E e1) = uint (er_totalSupply E (st_token s)) + uint managerFee" by (rule minted [OF E s w1(1)])
  then have s1: "pr_sets w1 S = Some (s\<lparr>st_token := e1\<rparr>)" by simp
  show thesis
  proof (cases "0 < protocolFee")
    case True
    then have "on_set S (mint E (enabled_modules w1) this (controller.feeRecipient (pr_controller w1)) protocolFee) w1 = Inr w'"
      using w1(2) by simp
    from minted [OF E s1 this] obtain e2 where "w' = w1\<lparr>pr_sets := (pr_sets w1)(S \<mapsto> s\<lparr>st_token := e1, st_token := e2\<rparr>)\<rparr>"
      "uint (er_totalSupply E e2) = uint (er_totalSupply E e1) + uint protocolFee" by auto
    then show thesis using \<open>0 < managerFee\<close> e1 by (intro that [of e2]) (auto simp: word_gt_0)
  next
    case False
    then show thesis using w1(2) \<open>0 < managerFee\<close> e1 by (intro that [of e1]) (auto simp: word_gt_0)
  qed
qed

text \<open>The fees and the new tokens are minted at the end.\<close>

lemma covers_minted:
  assumes E: "share_token E" and "covers T S c token n w" and run: "on_set S (mint E enabled this a q) w = Inr w'"
    and "uint (er_totalSupply E token) + uint q \<le> m"
  obtains token' where "covers T S c token' n w'" "uint (er_totalSupply E token') \<le> m"
proof -
  from assms(2) obtain s where s: "pr_sets w S = Some s" "st_token s = token" "0 \<le> real_unit s c" "n * real_unit s c \<le> held T S (pr_tokens w) c * 10 ^ 18"
    by (auto simp: covers_def)
  obtain e where e: "w' = w\<lparr>pr_sets := (pr_sets w)(S \<mapsto> s\<lparr>st_token := e\<rparr>)\<rparr>"
    "uint (er_totalSupply E e) = uint (er_totalSupply E (st_token s)) + uint q" by (rule minted [OF E s(1) run])
  show thesis by (rule that [of e]) (use assms(4) s e in \<open>auto simp: covers_def real_unit_def position_defs\<close>)
qed

lemma covers_fees:
  assumes E: "share_token E" and "covers T S c token n w" and run: "resolveFees E this S managerFee protocolFee w = Inr w'"
    and "uint (er_totalSupply E token) + (uint managerFee + uint protocolFee) \<le> m"
  obtains token' where "covers T S c token' n w'" "uint (er_totalSupply E token') \<le> m"
proof -
  from assms(2) obtain s where s: "pr_sets w S = Some s" "st_token s = token" "0 \<le> real_unit s c" "n * real_unit s c \<le> held T S (pr_tokens w) c * 10 ^ 18"
    by (auto simp: covers_def)
  obtain e where e: "w' = w\<lparr>pr_sets := (pr_sets w)(S \<mapsto> s\<lparr>st_token := e\<rparr>)\<rparr>"
    "uint (er_totalSupply E e) = uint (er_totalSupply E (st_token s)) + (if managerFee = 0 then 0 else uint managerFee + uint protocolFee)"
    by (rule resolveFees_effect [OF E s(1) run])
  have "(if managerFee = 0 then 0 else uint managerFee + uint protocolFee) \<le> uint managerFee + uint protocolFee" by simp
  then have "uint (er_totalSupply E e) \<le> m" using assms(4) e(2) s(2) by simp
  moreover have "covers T S c e n w'" using s e(1) by (auto simp: covers_def real_unit_def position_defs)
  ultimately show thesis by (rule that [rotated])
qed

lemma covers_reading:
  assumes Z: "openzeppelin Z" and "covers T S c token n w" and enough: "uint (er_totalSupply E token) \<le> n"
    and s: "pr_sets w S = Some s" and r: "getDefaultPositionRealUnit Z s c = Inr u"
  shows "uint (er_totalSupply E (st_token s)) * sint u \<le> uint (tk_balanceOf T c S (pr_tokens w)) * 10 ^ 18"
proof -
  have pos: "0 \<le> real_unit s c" using assms(2) s by (simp add: covers_def)
  have "uint (er_totalSupply E token) * real_unit s c \<le> n * real_unit s c" by (rule mult_right_mono [OF enough pos])
  then show ?thesis using assms(2) s openzeppelin.default_real_unit [OF Z r] by (auto simp: covers_def held_def real_unit_def)
qed

subsection \<open>Properties\<close>

text \<open>An issuance covers a component without external positions, whatever the balance was before.\<close>

lemma issue_covers:
  assumes "openzeppelin Z" and "share_token E" and "token_contracts T" and "hooks_spare H T S c"
    and "resolve = resolveEquityPositions_V2 \<or> resolve = resolveEquityPositions_V3 buffer"
    and "issue_collateralized resolve Z E T H this sender S q a hook w = Inr w'" and "0 < q"
    and "pr_sets w S = Some s" and "distinct (st_components s)" and "c \<in> set (st_components s)" and "externalPositionModules s c = []"
    and "pr_sets w' S = Some s'" and "getDefaultPositionRealUnit Z s' c = Inr u"
  shows "uint (er_totalSupply E (st_token s')) * sint u \<le> uint (tk_balanceOf T c S (pr_tokens w')) * 10 ^ 18"
proof -
  note Z = assms(1) and E = assms(2) and T = assms(3) and H = assms(4) and s = assms(8)
  obtain buf where "resolve = resolveEquityPositions_V3 buf" using assms(5) resolveEquityPositions_V3_0 by metis
  with assms(6) s obtain Q mf pf cs te td n1 w1 w2 w3 w4 where fees: "calculateTotalFees Z this S q True w = Inr (Q, mf, pf)"
    and units: "calculateRequiredComponentIssuanceUnits Z s Q True = Inr (cs, te, td)"
    and equity: "resolveEquityPositions_V3 buf Z T H this sender S Q a True cs te (er_totalSupply E (st_token s)) n1 w = Inr w1"
    and debt: "resolveDebtPositions_V2 Z T H this sender S Q True cs td (er_totalSupply E (st_token s)) n1 w1 = Inr w2"
    and w3: "resolveFees E this S mf pf w2 = Inr w3" and w4: "on_set S (mint E (enabled_modules w3) this a q) w3 = Inr w4"
    and w': "w' = log_event (SetTokenIssuedWithFees S sender a hook q mf pf) w4"
    by (auto simp: issue_collateralized_def Let_def the_set_Inr)
  let ?n = "uint (er_totalSupply E (st_token s)) + uint Q"
  obtain e where e: "cs = st_components s" "(c, e) \<in> set (zip cs te)" "0 \<le> real_unit s c"
    "uint e = (real_unit s c * uint Q + 10 ^ 18 - 1) div 10 ^ 18" "\<forall>(d, x) \<in> set (zip cs td). d = c \<longrightarrow> x = 0"
    "\<forall>(d, x) \<in> set (zip cs te). d = c \<longrightarrow> x = e"
    using plain_requirement [OF Z units assms(10,9,11)] by auto
  have needed: "uint Q * real_unit s c \<le> uint e * 10 ^ 18" using ceil_mult [of "real_unit s c * uint Q"] by (simp add: e(4) mult.commute)
  have total: "uint Q = uint q + (uint mf + uint pf)" using calculateTotalFees_Inr [OF Z fees] by simp
  have "covers T S c (st_token s) ?n w1"
  proof (cases "0 < e")
    case True
    from equity_in_covers [OF Z H T equity _ e(2) True s assms(11) needed] assms(9) e(1) show ?thesis by simp
  next
    case False
    then have "e = 0" by (simp add: word_gt_0)
    moreover have "0 < uint q" using assms(7) by (simp add: word_less_def)
    then have "0 < uint Q" using total uint_ge_0 [of mf] uint_ge_0 [of pf] by linarith
    ultimately have "real_unit s c = 0" using needed e(3) by (auto simp: mult_le_0_iff)
    then have "covers T S c (st_token s) ?n w" using s by (simp add: covers_def held_def)
    then show ?thesis by (rule covers_kept) (rule equity_kept [OF H T equity], use e(6) \<open>e = 0\<close> in simp)
  qed
  then have "covers T S c (st_token s) ?n w2" by (rule covers_kept) (rule debt_kept [OF H T debt e(5)])
  moreover have "uint (er_totalSupply E (st_token s)) + (uint mf + uint pf) \<le> ?n - uint q" using total by linarith
  ultimately obtain token3 where 3: "covers T S c token3 ?n w3" "uint (er_totalSupply E token3) \<le> ?n - uint q"
    by (rule covers_fees [OF E _ w3])
  from 3(2) have "uint (er_totalSupply E token3) + uint q \<le> ?n" by simp
  with 3(1) obtain token4 where 4: "covers T S c token4 ?n w4" "uint (er_totalSupply E token4) \<le> ?n"
    by (rule covers_minted [OF E _ w4])
  show ?thesis using covers_reading [OF Z 4 _ assms(13)] assms(12) w' by simp
qed

text \<open>C25: Collateral after an issuance. When \<^verbatim>\<open>issue\<close> of the DebtIssuanceModuleV2, of the IssuanceModule or, with any buffer, of the
  DebtIssuanceModuleV3 returns, the new supply times the unit of every component without external positions is covered by the
  SetToken's balance of it: whatever the balance was before, however the component's contract moves or rounds balances, fees
  included. \<open>w\<close> is the state after the hooks of the manager and of the registered modules; the hooks of other components only
  have to leave the component alone.\<close>

theorem issue_restores_collateral:
  assumes "openzeppelin Z" and "share_token E" and "token_contracts T" and "hooks_spare H T S c"
    and "resolve = resolveEquityPositions_V2 \<or> resolve = resolveEquityPositions_V3 buffer"
    and "issue_V2 resolve Z E T H this sender S q a w0 = Inr w'"
    and "callManagerPreIssueHooks H this S q sender a w0 = Inr (hook, w1)" and "callModulePreIssueHooks H this S q w1 = Inr w"
    and "pr_sets w S = Some s" and "distinct (st_components s)" and "c \<in> set (st_components s)" and "externalPositionModules s c = []"
    and "pr_sets w' S = Some s'" and "getDefaultPositionRealUnit Z s' c = Inr u"
  shows "uint (er_totalSupply E (st_token s')) * sint u \<le> uint (tk_balanceOf T c S (pr_tokens w')) * 10 ^ 18"
proof -
  have "issue_collateralized resolve Z E T H this sender S q a hook w = Inr w'" "0 < q"
    using assms(6-8) by (auto simp: issue_V2_def)
  from issue_covers [OF assms(1-5) this assms(9-14)] show ?thesis .
qed

text \<open>Collateral after a redemption. When \<^verbatim>\<open>redeem\<close> of these modules has called its hooks and returns, a component without
  external positions is covered if it was covered before or if anything of it is paid out.\<close>

lemma redeem_keeps_collateral:
  assumes "openzeppelin Z" and "share_token E" and "token_contracts T" and "hooks_spare H T S c"
    and "resolve = resolveEquityPositions_V2 \<or> resolve = resolveEquityPositions_V3 buffer"
    and "redeem_collateralized resolve Z E T H this sender S q a w = Inr w'"
    and "pr_sets w S = Some s" and "distinct (st_components s)" and "c \<in> set (st_components s)" and "externalPositionModules s c = []"
    and "pr_sets w' S = Some s'" and "getDefaultPositionRealUnit Z s c = Inr u"
    and "calculateTotalFees Z this S q False w = Inr (Q, managerFee, protocolFee)"
    and "uint (er_totalSupply E (st_token s)) * sint u \<le> uint (tk_balanceOf T c S (pr_tokens w)) * 10 ^ 18 \<or> 10 ^ 18 \<le> uint Q * sint u"
    and "getDefaultPositionRealUnit Z s' c = Inr u'"
  shows "uint (er_totalSupply E (st_token s')) * sint u' \<le> uint (tk_balanceOf T c S (pr_tokens w')) * 10 ^ 18"
proof -
  note Z = assms(1) and E = assms(2) and T = assms(3) and H = assms(4) and s = assms(7)
  obtain buf where "resolve = resolveEquityPositions_V3 buf" using assms(5) resolveEquityPositions_V3_0 by metis
  with assms(6) s obtain w0 mf pf R s0 cs te td n1 w1 w2 w3 where burnt: "on_set S (burn E (enabled_modules w) this sender q) w = Inr w0"
    and fees: "calculateTotalFees Z this S q False w0 = Inr (R, mf, pf)" and s0: "pr_sets w0 S = Some s0"
    and units: "calculateRequiredComponentIssuanceUnits Z s0 R False = Inr (cs, te, td)"
    and n1: "um_sub Z (er_totalSupply E (st_token s)) R = Inr n1"
    and debt: "resolveDebtPositions_V2 Z T H this sender S R False cs td (er_totalSupply E (st_token s)) n1 w0 = Inr w1"
    and equity: "resolveEquityPositions_V3 buf Z T H this sender S R a False cs te (er_totalSupply E (st_token s)) n1 w1 = Inr w2"
    and w3: "resolveFees E this S mf pf w2 = Inr w3" and w': "w' = log_event (SetTokenRedeemedWithFees S sender a q mf pf) w3"
    by (auto simp: redeem_collateralized_def Let_def the_set_Inr)
  obtain e0 where e0: "er_burn E sender q (st_token s) = Inr e0" "w0 = w\<lparr>pr_sets := (pr_sets w)(S \<mapsto> s\<lparr>st_token := e0\<rparr>)\<rparr>" "s0 = s\<lparr>st_token := e0\<rparr>"
    using burnt s s0 by (auto simp: on_set_Inr burn_def)
  have "calculateTotalFees Z this S q False w0 = calculateTotalFees Z this S q False w" by (simp add: calculateTotalFees_def e0(2))
  then have R: "R = Q" "mf = managerFee" "pf = protocolFee" using fees assms(13) by simp_all
  have total: "uint R = uint q - (uint mf + uint pf)" using calculateTotalFees_Inr [OF Z fees] by simp
  have n1': "uint n1 = uint (er_totalSupply E (st_token s)) - uint R" using n1 by (simp add: openzeppelin.um_sub_Inr [OF Z])
  have same: "real_unit s0 c = real_unit s c" "externalPositionModules s0 c = []" "st_components s0 = st_components s"
    using assms(10) by (simp_all add: e0(3) real_unit_def position_defs)
  obtain e where e: "cs = st_components s0" "(c, e) \<in> set (zip cs te)" "0 \<le> real_unit s0 c" "uint e = real_unit s0 c * uint R div 10 ^ 18"
    "\<forall>(d, x) \<in> set (zip cs td). d = c \<longrightarrow> x = 0" "\<forall>(d, x) \<in> set (zip cs te). d = c \<longrightarrow> x = e"
    using plain_requirement [OF Z units _ _ same(2)] assms(8,9) same(3) by auto
  have kept: "position_kept T S c w0 w1" by (rule debt_kept [OF H T debt e(5)])
  obtain s1 where s1: "pr_sets w1 S = Some s1" "st_token s1 = e0" "externalPositionModules s1 c = []"
    using position_keptE [OF kept s0] same(2) e0(3) by auto
  have unit: "sint u = real_unit s c" using openzeppelin.default_real_unit [OF Z assms(12)] by (simp add: real_unit_def)
  have "covers T S c e0 (uint n1) w2"
  proof (cases "0 < e")
    case True
    from equity_out_covers [OF Z H T equity _ e(2) True s1(1,3)] assms(8) e(1) same(3) s1(2) show ?thesis by simp
  next
    case False
    then have "e = 0" by (simp add: word_gt_0)
    then have "uint R * real_unit s c < 10 ^ 18" using e(3,4) same(1) by (simp add: mult.commute)
    then have "uint (er_totalSupply E (st_token s)) * real_unit s c \<le> held T S (pr_tokens w) c * 10 ^ 18"
      using assms(14) by (simp add: unit R(1) held_def)
    moreover have "uint n1 * real_unit s c \<le> uint (er_totalSupply E (st_token s)) * real_unit s c"
      using e(3) same(1) n1' by (intro mult_right_mono) simp_all
    ultimately have "covers T S c e0 (uint n1) w0" using s0 e(3) same(1) e0(2,3) by (simp add: covers_def)
    then show ?thesis using kept by (rule covers_kept [OF covers_kept]) (rule equity_kept [OF H T equity], use e(6) \<open>e = 0\<close> in simp)
  qed
  moreover have "uint (er_totalSupply E e0) + (uint mf + uint pf) \<le> uint n1"
    using total n1' share_token.burn_supply [OF E e0(1)] by linarith
  ultimately obtain token3 where "covers T S c token3 (uint n1) w3" "uint (er_totalSupply E token3) \<le> uint n1"
    by (rule covers_fees [OF E _ w3])
  then show ?thesis using covers_reading [OF Z _ _ _ assms(15)] assms(11) w' by simp
qed

subsection \<open>An example\<close>

text \<open>The token of \<open>debt_world\<close> with a supply of a hundred: it owes 300 base units and holds \<open>h\<close>. The buffer is ten.\<close>

definition no_hooks :: "('e, 't) issuance_hooks" where
  "no_hooks = \<lparr>ih_invokePreIssueHook = (\<lambda>_ _ _ _ _ w. Inr w), ih_moduleIssueHook = (\<lambda>_ _ _ w. Inr w),
     ih_moduleRedeemHook = (\<lambda>_ _ _ w. Inr w), ih_componentIssueHook = (\<lambda>_ _ _ _ _ w. Inr w),
     ih_componentRedeemHook = (\<lambda>_ _ _ _ _ w. Inr w)\<rparr>"

lemma no_hooks_spare: "hooks_spare no_hooks T S c"
  by (auto simp: hooks_spare_def no_hooks_def)

definition debt_shares :: "uint256 \<Rightarrow> uint256 \<Rightarrow> uint256 \<Rightarrow> shares" where
  "debt_shares holder manager protocol = \<lparr>sh_balances = (\<lambda>_. 0)(8 := holder, 3 := manager, 2 := protocol), sh_supply = holder + manager + protocol\<rparr>"

definition debt_ledger :: "uint256 \<Rightarrow> uint256 \<Rightarrow> ledger" where
  "debt_ledger holder h = (\<lambda>_ _. 0)(7 := (\<lambda>_. 0)(8 := holder, 100 := h))"

definition debt_state :: "shares \<Rightarrow> set_event list \<Rightarrow> ledger \<Rightarrow> module_event list \<Rightarrow> (shares, ledger) protocol" where
  "debt_state token es \<tau> evs = debt_world (debt_settings []) (debt_set [14, 13] token es) \<tau> evs"

lemma debt_mint:
  "er_mint shares_erc20 3 800000000000000000 (debt_shares 100000000000000000000 0 0) = Inr (debt_shares 100000000000000000000 800000000000000000 0)"
  "er_mint shares_erc20 2 200000000000000000 (debt_shares 100000000000000000000 800000000000000000 0) =
     Inr (debt_shares 100000000000000000000 800000000000000000 200000000000000000)"
  "er_mint shares_erc20 8 100000000000000000000 (debt_shares 100000000000000000000 800000000000000000 200000000000000000) =
     Inr (debt_shares 200000000000000000000 800000000000000000 200000000000000000)"
  "er_burn shares_erc20 8 50000000000000000000 (debt_shares 100000000000000000000 0 0) = Inr (debt_shares 50000000000000000000 0 0)"
  "er_mint shares_erc20 3 400000000000000000 (debt_shares 50000000000000000000 0 0) = Inr (debt_shares 50000000000000000000 400000000000000000 0)"
  "er_mint shares_erc20 2 100000000000000000 (debt_shares 50000000000000000000 400000000000000000 0) =
     Inr (debt_shares 50000000000000000000 400000000000000000 100000000000000000)"
  by (simp_all add: shares_erc20_def debt_shares_def checked_u_def fun_eq_iff)

lemma debt_supply: "er_totalSupply shares_erc20 (debt_shares x y z) = x + y + z"
  by (simp add: shares_erc20_def debt_shares_def)

lemma debt_minted:
  "er_mint shares_erc20 a q token = Inr token' \<Longrightarrow>
     on_set 100 (mint shares_erc20 (enabled_modules (debt_state token es \<tau> evs)) 13 a q) (debt_state token es \<tau> evs) = Inr (debt_state token' es \<tau> evs)"
  "er_burn shares_erc20 a q token = Inr token' \<Longrightarrow>
     on_set 100 (burn shares_erc20 (enabled_modules (debt_state token es \<tau> evs)) 13 a q) (debt_state token es \<tau> evs) = Inr (debt_state token' es \<tau> evs)"
  by (simp_all add: debt_state_def on_set_def the_set_def mint_def burn_def debt_privileged del: and_then_eq_Inr)

lemma debt_numbers:
  "calculateTotalFees checked_oz 13 100 100000000000000000000 True (debt_state token es \<tau> evs) =
     Inr (101000000000000000000, 800000000000000000, 200000000000000000)"
  "calculateTotalFees checked_oz 13 100 50000000000000000000 False (debt_state token es \<tau> evs) =
     Inr (49500000000000000000, 400000000000000000, 100000000000000000)"
proof -
  have "preciseMul_u checked_oz 10000000000000000 100000000000000000000 = Inr 1000000000000000000"
    "preciseMul_u checked_oz 1000000000000000000 200000000000000000 = Inr 200000000000000000"
    "preciseMul_u checked_oz 10000000000000000 50000000000000000000 = Inr 500000000000000000"
    "preciseMul_u checked_oz 500000000000000000 200000000000000000 = Inr 100000000000000000"
    "um_sub checked_oz 1000000000000000000 200000000000000000 = Inr 800000000000000000"
    "um_sub checked_oz 500000000000000000 100000000000000000 = Inr 400000000000000000"
    "um_add checked_oz 100000000000000000000 1000000000000000000 = Inr 101000000000000000000"
    "um_sub checked_oz 50000000000000000000 500000000000000000 = Inr 49500000000000000000"
    by (simp_all add: checked_oz.preciseMul_u_Inr checked_oz.um_add_Inr checked_oz.um_sub_Inr fits_uint_def)
  then show "calculateTotalFees checked_oz 13 100 100000000000000000000 True (debt_state token es \<tau> evs) =
     Inr (101000000000000000000, 800000000000000000, 200000000000000000)"
    "calculateTotalFees checked_oz 13 100 50000000000000000000 False (debt_state token es \<tau> evs) =
     Inr (49500000000000000000, 400000000000000000, 100000000000000000)"
    by (simp_all add: calculateTotalFees_def debt_state_def debt_settings_def Let_def del: and_then_eq_Inr)
qed

lemma debt_numbers_small:
  "calculateTotalFees checked_oz 13 100 2000000000000000000 False (debt_state token es \<tau> evs) = Inr (1980000000000000000, 16000000000000000, 4000000000000000)"
  "calculateTotalFees checked_oz 13 100 100000000000000000000 False (debt_state token es \<tau> evs) =
     Inr (99000000000000000000, 800000000000000000, 200000000000000000)"
proof -
  have "preciseMul_u checked_oz 10000000000000000 2000000000000000000 = Inr 20000000000000000"
    "preciseMul_u checked_oz 20000000000000000 200000000000000000 = Inr 4000000000000000"
    "preciseMul_u checked_oz 10000000000000000 100000000000000000000 = Inr 1000000000000000000"
    "preciseMul_u checked_oz 1000000000000000000 200000000000000000 = Inr 200000000000000000"
    "um_sub checked_oz 20000000000000000 4000000000000000 = Inr 16000000000000000"
    "um_sub checked_oz 1000000000000000000 200000000000000000 = Inr 800000000000000000"
    "um_sub checked_oz 2000000000000000000 20000000000000000 = Inr 1980000000000000000"
    "um_sub checked_oz 100000000000000000000 1000000000000000000 = Inr 99000000000000000000"
    by (simp_all add: checked_oz.preciseMul_u_Inr checked_oz.um_sub_Inr fits_uint_def)
  then show "calculateTotalFees checked_oz 13 100 2000000000000000000 False (debt_state token es \<tau> evs) = Inr (1980000000000000000, 16000000000000000, 4000000000000000)"
    "calculateTotalFees checked_oz 13 100 100000000000000000000 False (debt_state token es \<tau> evs) =
     Inr (99000000000000000000, 800000000000000000, 200000000000000000)"
    by (simp_all add: calculateTotalFees_def debt_state_def debt_settings_def Let_def del: and_then_eq_Inr)
qed

lemma debt_reading:
  "getDefaultPositionRealUnit checked_oz (debt_set ms token es) 7 = Inr 3" "toUint256 checked_oz 3 = Inr 3"
  by (simp_all add: getDefaultPositionRealUnit_def convertVirtualToRealUnit_def checked_oz.conservativePreciseMul_Inr checked_oz.toUint256_Inr
      fits_int_def)

lemma debt_required:
  "calculateRequiredComponentIssuanceUnits checked_oz (debt_set ms token es) 101000000000000000000 True = Inr ([7], [303], [0])"
  "calculateRequiredComponentIssuanceUnits checked_oz (debt_set ms token es) 49500000000000000000 False = Inr ([7], [148], [0])"
  "calculateRequiredComponentIssuanceUnits checked_oz (debt_set ms token es) 1980000000000000000 False = Inr ([7], [5], [0])"
  "calculateRequiredComponentIssuanceUnits checked_oz (debt_set ms token es) 49500000000000000000 True = Inr ([7], [149], [0])"
proof -
  have "im_mul checked_oz 0 (- 1) = Inr 0" "toUint256 checked_oz 0 = Inr 0"
    by (simp_all add: checked_oz.im_mul_Inr checked_oz.toUint256_Inr)
  then have "issuance_units checked_oz (debt_set ms token es) 7 3 = Inr (3, 0)"
    by (simp add: issuance_units_def debt_reading del: and_then_eq_Inr)
  then have units: "getTotalIssuanceUnits checked_oz (debt_set ms token es) = Inr ([7], [3], [0])"
    by (simp add: getTotalIssuanceUnits_def debt_reading del: and_then_eq_Inr)
  have "required_totals checked_oz 101000000000000000000 True [3] [0] = Inr ([303], [0])"
    "required_totals checked_oz 49500000000000000000 False [3] [0] = Inr ([148], [0])"
    "required_totals checked_oz 1980000000000000000 False [3] [0] = Inr ([5], [0])"
    "required_totals checked_oz 49500000000000000000 True [3] [0] = Inr ([149], [0])"
    by (simp_all add: checked_oz.preciseMul_u_Inr checked_oz.preciseMulCeil_u_Inr fits_uint_def)
  with units show "calculateRequiredComponentIssuanceUnits checked_oz (debt_set ms token es) 101000000000000000000 True = Inr ([7], [303], [0])"
    "calculateRequiredComponentIssuanceUnits checked_oz (debt_set ms token es) 49500000000000000000 False = Inr ([7], [148], [0])"
    "calculateRequiredComponentIssuanceUnits checked_oz (debt_set ms token es) 1980000000000000000 False = Inr ([7], [5], [0])"
    "calculateRequiredComponentIssuanceUnits checked_oz (debt_set ms token es) 49500000000000000000 True = Inr ([7], [149], [0])"
    by (simp_all add: calculateRequiredComponentIssuanceUnits_def del: and_then_eq_Inr required_totals.simps)
qed

text \<open>Ten base units move in beyond what is required; eight, and ten less than required, move out.\<close>

lemma debt_move:
  "move 7 8 100 313 (debt_ledger 1000 295) = Inr (debt_ledger 687 608)"
  "move 7 100 8 138 (debt_ledger 1000 310) = Inr (debt_ledger 1138 172)"
  by (simp_all add: move_def debt_ledger_def fun_eq_iff Let_def)

lemma debt_steps:
  "move 7 8 100 q \<tau> = Inr \<tau>' \<Longrightarrow> safe_transferFrom ledger_tokens 13 7 8 100 q (debt_state token es \<tau> evs) = Inr (debt_state token es \<tau>' evs)"
  "executeExternalPositionHooks no_hooks 100 q 7 isIssue isEquity (debt_state token es \<tau> evs) = Inr (debt_state token es \<tau> evs)"
  "the_set 100 (debt_state token es \<tau> evs) = Inr (debt_set [14, 13] token es)"
  "pr_tokens (debt_state token es \<tau> evs) = \<tau>" "log_event ev (debt_state token es \<tau> evs) = debt_state token es \<tau> (ev # evs)"
  by (simp_all add: safe_transferFrom_def debt_state_def ledger_tokens_def executeExternalPositionHooks_def the_set_def)

lemma debt_issue_run:
  "\<exists>es evs. issue_collateralized (resolveEquityPositions_V3 10) checked_oz shares_erc20 ledger_tokens no_hooks 13 8 100
     100000000000000000000 8 0 (debt_state (debt_shares 100000000000000000000 0 0) [] (debt_ledger 1000 295) []) =
   Inr (debt_state (debt_shares 200000000000000000000 800000000000000000 200000000000000000) es (debt_ledger 687 608) evs)"
proof -
  let ?token = "debt_shares 100000000000000000000 0 0"
  let ?w = "\<lambda>\<tau>. debt_state ?token [] \<tau> []"
  have n: "um_add checked_oz 100000000000000000000 101000000000000000000 = Inr 201000000000000000000"
    "preciseMulCeil_u checked_oz 100000000000000000000 3 = Inr 300" "um_add checked_oz 300 303 = Inr 603"
    by (simp_all add: checked_oz.um_add_Inr checked_oz.preciseMulCeil_u_Inr fits_uint_def)
  have check: "validateCollateralizationPostTransferInPreHook checked_oz ledger_tokens 100 7 100000000000000000000 303 (?w (debt_ledger 687 608)) = Inr ()"
    by (simp add: validateCollateralizationPostTransferInPreHook_def debt_steps debt_reading n ledger_reads Let_def del: and_then_eq_Inr)
      (simp add: debt_ledger_def)
  have equity: "resolveEquityPositions_V3 10 checked_oz ledger_tokens no_hooks 13 8 100 101000000000000000000 8 True [7] [303]
      100000000000000000000 201000000000000000000 (?w (debt_ledger 1000 295)) = Inr (?w (debt_ledger 687 608))"
    using check by (simp add: debt_steps debt_steps(1) [OF debt_move(1)] del: and_then_eq_Inr)
  have fees: "resolveFees shares_erc20 13 100 800000000000000000 200000000000000000 (?w \<tau>) =
      Inr (debt_state (debt_shares 100000000000000000000 800000000000000000 200000000000000000) [] \<tau> [])" for \<tau>
    using debt_minted(1) [OF debt_mint(1)] debt_minted(1) [OF debt_mint(2)]
    by (simp add: resolveFees_def del: and_then_eq_Inr) (simp add: debt_state_def debt_settings_def)
  show ?thesis
    using equity fees debt_minted(1) [OF debt_mint(3)]
    by (simp add: issue_collateralized_def debt_numbers debt_required debt_steps debt_supply Let_def n
        del: and_then_eq_Inr resolveEquityPositions_V3.simps) blast
qed

lemma debt_transfer:
  "move 7 100 a q \<tau> = Inr \<tau>' \<Longrightarrow> 0 < q \<Longrightarrow> invokeTransfer ledger_tokens 13 100 7 a q (debt_state token es \<tau> evs) =
     Inr (debt_state token (Invoked 7 0 (tk_encodeTransfer ledger_tokens a q) [1] # es) \<tau>' evs)"
  "move 7 100 a q \<tau> = Inl e \<Longrightarrow> 0 < q \<Longrightarrow> invokeTransfer ledger_tokens 13 100 7 a q (debt_state token es \<tau> evs) = Inl e"
  by (simp_all add: invokeTransfer_def invoke_token_def debt_state_def the_set_def debt_privileged ledger_transfer ledger_reads
      del: and_then_eq_Inr) (simp add: debt_world_def)

lemma debt_redeem_run:
  "\<exists>es evs. redeem_collateralized (resolveEquityPositions_V3 10) checked_oz shares_erc20 ledger_tokens no_hooks 13 8 100
     50000000000000000000 8 (debt_state (debt_shares 100000000000000000000 0 0) [] (debt_ledger 1000 310) []) =
   Inr (debt_state (debt_shares 50000000000000000000 400000000000000000 100000000000000000) es (debt_ledger 1138 172) evs)"
proof -
  let ?token = "debt_shares 50000000000000000000 0 0"
  let ?w = "\<lambda>es \<tau>. debt_state ?token es \<tau> []"
  let ?es = "[Invoked 7 0 (tk_encodeTransfer ledger_tokens 8 138) [1]]"
  have n: "um_sub checked_oz 100000000000000000000 49500000000000000000 = Inr 50500000000000000000"
    "preciseMulCeil_u checked_oz 50500000000000000000 3 = Inr 152"
    by (simp_all add: checked_oz.um_sub_Inr checked_oz.preciseMulCeil_u_Inr fits_uint_def)
  have check: "validateCollateralizationPostTransferOut checked_oz ledger_tokens 100 7 50500000000000000000 (?w ?es (debt_ledger 1138 172)) = Inr ()"
    by (simp add: validateCollateralizationPostTransferOut_def debt_steps debt_reading n ledger_reads Let_def del: and_then_eq_Inr)
      (simp add: debt_ledger_def)
  have equity: "resolveEquityPositions_V3 10 checked_oz ledger_tokens no_hooks 13 8 100 49500000000000000000 8 False [7] [148]
      100000000000000000000 50500000000000000000 (?w [] (debt_ledger 1000 310)) = Inr (?w ?es (debt_ledger 1138 172))"
    using check debt_transfer(1) [OF debt_move(2)] by (simp add: debt_steps del: and_then_eq_Inr)
  have fees: "resolveFees shares_erc20 13 100 400000000000000000 100000000000000000 (?w es \<tau>) =
      Inr (debt_state (debt_shares 50000000000000000000 400000000000000000 100000000000000000) es \<tau> [])" for es \<tau>
    using debt_minted(1) [OF debt_mint(5)] debt_minted(1) [OF debt_mint(6)]
    by (simp add: resolveFees_def del: and_then_eq_Inr) (simp add: debt_state_def debt_settings_def)
  show ?thesis
    using equity fees debt_minted(2) [OF debt_mint(4)]
    by (simp add: redeem_collateralized_def debt_numbers debt_required debt_steps debt_supply Let_def n
        del: and_then_eq_Inr resolveEquityPositions_V3.simps) blast
qed

subsection \<open>Witnesses\<close>

text \<open>The issuance finds the component short of five base units and leaves it covered; the redemption keeps it covered.\<close>

theorem issue_restores_collateral_witness:
  "\<exists>(w' :: (shares, ledger) protocol) s' u. pr_sets w' 100 = Some s' \<and> getDefaultPositionRealUnit checked_oz s' 7 = Inr u \<and> 0 < sint u \<and>
     \<not> 100000000000000000000 * sint u \<le> uint (debt_ledger 1000 295 7 100) * 10 ^ 18 \<and>
     uint (sh_supply (st_token s')) = 201000000000000000000 \<and>
     uint (sh_supply (st_token s')) * sint u \<le> uint (tk_balanceOf ledger_tokens 7 100 (pr_tokens w')) * 10 ^ 18"
proof -
  let ?w = "debt_state (debt_shares 100000000000000000000 0 0) [] (debt_ledger 1000 295) []"
  let ?token = "debt_shares 200000000000000000000 800000000000000000 200000000000000000"
  obtain es evs where run: "issue_collateralized (resolveEquityPositions_V3 10) checked_oz shares_erc20 ledger_tokens no_hooks 13 8 100
     100000000000000000000 8 0 ?w = Inr (debt_state ?token es (debt_ledger 687 608) evs)" using debt_issue_run by blast
  let ?w' = "debt_state ?token es (debt_ledger 687 608) evs" and ?s = "debt_set [14, 13] (debt_shares 100000000000000000000 0 0) []"
    and ?s' = "debt_set [14, 13] ?token es"
  have s: "pr_sets ?w 100 = Some ?s" "pr_sets ?w' 100 = Some ?s'" by (simp_all add: debt_state_def)
  have hooks: "callManagerPreIssueHooks no_hooks 13 100 100000000000000000000 8 8 ?w = Inr (0, ?w)"
    "callModulePreIssueHooks no_hooks 13 100 100000000000000000000 ?w = Inr ?w"
    by (simp_all add: callManagerPreIssueHooks_def callModulePreIssueHooks_def debt_state_def debt_settings_def)
  have run2: "issue_V2 (resolveEquityPositions_V3 10) checked_oz shares_erc20 ledger_tokens no_hooks 13 8 100 100000000000000000000 8 ?w = Inr ?w'"
    using run hooks by (simp add: issue_V2_def debt_state_def debt_privileged del: and_then_eq_Inr)
  have "uint (er_totalSupply shares_erc20 (st_token ?s')) * sint (3 :: int256) \<le> uint (tk_balanceOf ledger_tokens 7 100 (pr_tokens ?w')) * 10 ^ 18"
    by (rule issue_restores_collateral [where s = ?s and resolve = "resolveEquityPositions_V3 10" and buffer = 10, OF checked_oz.openzeppelin_axioms
          shares.share_token_axioms ledger.token_contracts_axioms no_hooks_spare _ run2 hooks s(1) _ _ _ s(2) debt_reading(1)]) simp_all
  moreover have "uint (sh_supply ?token) = 201000000000000000000" "er_totalSupply shares_erc20 ?token = sh_supply ?token"
    "0 < sint (3 :: int256)" by (simp_all add: debt_shares_def shares_erc20_def)
  moreover have "\<not> 100000000000000000000 * sint (3 :: int256) \<le> uint (debt_ledger 1000 295 7 100) * 10 ^ 18" by (simp add: debt_ledger_def)
  ultimately show ?thesis using s(2) debt_reading(1) by (intro exI [of _ ?w'] exI [of _ ?s'] exI [of _ 3]) (simp del: One_nat_def)
qed

subsection \<open>More properties\<close>

text \<open>Small redemptions of the third version. Where a redemption pays less of a component than the buffer,
  \<^verbatim>\<open>getRequiredComponentRedemptionUnits\<close> answers that nothing is paid out, but the transaction subtracts the buffer without a
  check, asks the component's contract for nearly two to the 256 base units and reverts; the second version redeems
  the same quantity.\<close>

lemma small_redemption_reverts:
  "getRequiredComponentRedemptionUnits_V3 10 checked_oz 13 100 2000000000000000000
     (debt_state (debt_shares 100000000000000000000 0 0) [] (debt_ledger 1000 310) []) = Inr ([7], [0], [0]) \<and>
   redeem_V2 (resolveEquityPositions_V3 10) checked_oz shares_erc20 ledger_tokens no_hooks 13 8 100 2000000000000000000 8
     (debt_state (debt_shares 100000000000000000000 0 0) [] (debt_ledger 1000 310) []) =
     Inl (Revert ''ERC20: transfer amount exceeds balance'') \<and>
   (\<exists>w'. redeem_V2 resolveEquityPositions_V2 checked_oz shares_erc20 ledger_tokens no_hooks 13 8 100 2000000000000000000 8
     (debt_state (debt_shares 100000000000000000000 0 0) [] (debt_ledger 1000 310) []) = Inr w')"
proof -
  let ?w = "\<lambda>token es \<tau>. debt_state token es \<tau> []"
  let ?token = "debt_shares 100000000000000000000 0 0" and ?token1 = "debt_shares 98000000000000000000 0 0"
  let ?es = "[Invoked 7 0 (tk_encodeTransfer ledger_tokens 8 5) [1]]"
  have move: "move 7 100 8 (5 - 10) (debt_ledger 1000 310) = Inl (Revert ''ERC20: transfer amount exceeds balance'')"
    "move 7 100 8 5 (debt_ledger 1000 310) = Inr (debt_ledger 1005 305)"
    by (simp_all add: move_def debt_ledger_def Let_def fun_eq_iff)
  have below: "0 < (5 - 10 :: uint256)" by (simp add: word_gt_0)
  have n: "um_sub checked_oz 100000000000000000000 1980000000000000000 = Inr 98020000000000000000"
    "preciseMulCeil_u checked_oz 98020000000000000000 3 = Inr 295"
    by (simp_all add: checked_oz.um_sub_Inr checked_oz.preciseMulCeil_u_Inr fits_uint_def)
  have token: "er_burn shares_erc20 8 2000000000000000000 ?token = Inr ?token1"
    "er_mint shares_erc20 3 16000000000000000 ?token1 = Inr (debt_shares 98000000000000000000 16000000000000000 0)"
    "er_mint shares_erc20 2 4000000000000000 (debt_shares 98000000000000000000 16000000000000000 0) =
       Inr (debt_shares 98000000000000000000 16000000000000000 4000000000000000)"
    by (simp_all add: shares_erc20_def debt_shares_def checked_u_def fun_eq_iff)
  have start: "redeem_V2 resolve checked_oz shares_erc20 ledger_tokens no_hooks 13 8 100 2000000000000000000 8 (?w ?token [] \<tau>) =
      redeem_collateralized resolve checked_oz shares_erc20 ledger_tokens no_hooks 13 8 100 2000000000000000000 8 (?w ?token [] \<tau>)" for resolve \<tau>
    by (simp add: redeem_V2_def callModulePreRedeemHooks_def debt_state_def debt_privileged debt_settings_def del: and_then_eq_Inr)
  have check: "validateCollateralizationPostTransferOut checked_oz ledger_tokens 100 7 98020000000000000000 (?w ?token1 ?es (debt_ledger 1005 305)) = Inr ()"
    by (simp add: validateCollateralizationPostTransferOut_def debt_steps debt_reading n ledger_reads Let_def del: and_then_eq_Inr)
      (simp add: debt_ledger_def)
  have "resolveEquityPositions_V3 10 checked_oz ledger_tokens no_hooks 13 8 100 1980000000000000000 8 False [7] [5]
      100000000000000000000 98020000000000000000 (?w ?token1 [] (debt_ledger 1000 310)) = Inl (Revert ''ERC20: transfer amount exceeds balance'')"
    using debt_transfer(2) [OF move(1) below, of ?token1 "[]" "[]"] by (simp add: debt_steps del: and_then_eq_Inr)
  then have 3: "redeem_collateralized (resolveEquityPositions_V3 10) checked_oz shares_erc20 ledger_tokens no_hooks 13 8 100
      2000000000000000000 8 (?w ?token [] (debt_ledger 1000 310)) = Inl (Revert ''ERC20: transfer amount exceeds balance'')"
    using debt_minted(2) [OF token(1)]
    by (simp add: redeem_collateralized_def debt_numbers_small debt_required debt_steps debt_supply Let_def n
        del: and_then_eq_Inr resolveEquityPositions_V3.simps)
  have "resolveEquityPositions_V2 checked_oz ledger_tokens no_hooks 13 8 100 1980000000000000000 8 False [7] [5]
      100000000000000000000 98020000000000000000 (?w ?token1 [] (debt_ledger 1000 310)) = Inr (?w ?token1 ?es (debt_ledger 1005 305))"
    using debt_transfer(1) [OF move(2)] check by (simp add: debt_steps del: and_then_eq_Inr)
  moreover have "resolveFees shares_erc20 13 100 16000000000000000 4000000000000000 (?w ?token1 es \<tau>) =
      Inr (?w (debt_shares 98000000000000000000 16000000000000000 4000000000000000) es \<tau>)" for es \<tau>
    using debt_minted(1) [OF token(2)] debt_minted(1) [OF token(3)]
    by (simp add: resolveFees_def del: and_then_eq_Inr) (simp add: debt_state_def debt_settings_def)
  ultimately have 2: "\<exists>w'. redeem_collateralized resolveEquityPositions_V2 checked_oz shares_erc20 ledger_tokens no_hooks 13 8 100
      2000000000000000000 8 (?w ?token [] (debt_ledger 1000 310)) = Inr w'"
    using debt_minted(2) [OF token(1)]
    by (simp add: redeem_collateralized_def debt_numbers_small debt_required debt_steps debt_supply Let_def n
        del: and_then_eq_Inr resolveEquityPositions_V2.simps)
  have "getRequiredComponentRedemptionUnits_V3 10 checked_oz 13 100 2000000000000000000 (?w ?token [] (debt_ledger 1000 310)) = Inr ([7], [0], [0])"
    by (simp add: getRequiredComponentRedemptionUnits_V3_def debt_numbers_small debt_steps debt_required del: and_then_eq_Inr)
  then show ?thesis using 2 3 by (simp add: start)
qed

text \<open>Rounding is in favour of the SetToken. For the same quantity and state, the equity that an issuance takes in is at least what
  a redemption pays out, and the debt that a redemption takes in is at least what an issuance pays out, in every component and
  by at most one base unit.\<close>

lemma rounding_favours_set:
  assumes "openzeppelin Z" and "calculateRequiredComponentIssuanceUnits Z s Q True = Inr (cs, equityIn, debtOut)"
    and "calculateRequiredComponentIssuanceUnits Z s Q False = Inr (cs', equityOut, debtIn)"
  shows "cs' = cs \<and>
    list_all2 (\<lambda>out back. uint out \<le> uint back \<and> uint back \<le> uint out + 1) equityOut equityIn \<and>
    list_all2 (\<lambda>out back. uint out \<le> uint back \<and> uint back \<le> uint out + 1) debtOut debtIn"
proof -
  obtain es ds where t: "total_issuance_units Z s (st_components s) = Inr (es, ds)" "cs = st_components s" "cs' = st_components s"
    "required_totals Z Q True es ds = Inr (equityIn, debtOut)" "required_totals Z Q False es ds = Inr (equityOut, debtIn)"
    using assms(2,3) by (auto simp: calculateRequiredComponentIssuanceUnits_def getTotalIssuanceUnits_def)
  have round: "n div 10 ^ 18 \<le> (n + 10 ^ 18 - 1) div 10 ^ 18 \<and> (n + 10 ^ 18 - 1) div 10 ^ 18 \<le> n div 10 ^ 18 + 1" for n :: int
    using zdiv_mono1 [of n "n + 10 ^ 18 - 1" "10 ^ 18"] zdiv_mono1 [of "n + 10 ^ 18 - 1" "n + 10 ^ 18" "10 ^ 18"] by simp
  note there = required_totals_Inr [OF assms(1) t(4)] and other = required_totals_Inr [OF assms(1) t(5)]
  have "list_all2 (\<lambda>out back. uint out \<le> uint back \<and> uint back \<le> uint out + 1) equityOut equityIn"
    unfolding list_all2_conv_all_nth using there other round by simp
  moreover have "list_all2 (\<lambda>out back. uint out \<le> uint back \<and> uint back \<le> uint out + 1) debtOut debtIn"
    unfolding list_all2_conv_all_nth using there other round by simp
  ultimately show ?thesis using t(2,3) by simp
qed

end
