(* ===== verification/ModuleSolvency.thy ===== *)
theory ModuleSolvency
  imports AirdropModule IssuanceCollateral
begin

text \<open>
  Absorbing an airdrop, and issuing and redeeming through the DebtIssuanceModule as long as no component has external positions,
  keep what \<open>Solvency\<close> says of a SetToken. The hooks of the issuance are steps before it.
\<close>

subsection \<open>Absorbing\<close>

lemma airdrop_fees_paid:
  assumes Z: "openzeppelin Z" and T: "token_contracts T" and s: "pr_sets w S = Some s"
    and run: "handleFees_airdrop Z T this S t n w = Inr ((managerTake, protocolTake, totalFees), w')"
  obtains \<tau> es where "w' = w\<lparr>pr_tokens := \<tau>, pr_sets := (pr_sets w)(S \<mapsto> s\<lparr>st_events := es\<rparr>)\<rparr>"
    "held T S \<tau> t = held T S (pr_tokens w) t - uint totalFees" "\<And>t'. t' \<noteq> t \<Longrightarrow> tk_balanceOf T t' S \<tau> = tk_balanceOf T t' S (pr_tokens w)"
    "uint totalFees = uint n * uint (as_airdropFee (pr_airdropSettings w S)) div 10 ^ 18"
proof (cases "0 < as_airdropFee (pr_airdropSettings w S)")
  case False
  with run have w': "w' = w" "totalFees = 0" "as_airdropFee (pr_airdropSettings w S) = 0" by (simp_all add: handleFees_airdrop_def word_gt_0)
  show thesis by (rule that [where \<tau> = "pr_tokens w" and es = "st_events s"]) (use s w' in \<open>simp_all add: fun_upd_idem\<close>)
next
  case True
  with run obtain w1 a b where 1: "strictInvokeTransfer Z T this S t a managerTake w = Inr w1"
    and 2: "strictInvokeTransfer Z T this S t b protocolTake w1 = Inr w'"
    and totalFees: "preciseMul_u Z n (as_airdropFee (pr_airdropSettings w S)) = Inr totalFees" "um_sub Z totalFees protocolTake = Inr managerTake"
    by (auto simp: handleFees_airdrop_def payProtocolFee_eq Let_def)
  obtain \<tau>1 es1 where \<tau>1: "w1 = w\<lparr>pr_tokens := \<tau>1, pr_sets := (pr_sets w)(S \<mapsto> s\<lparr>st_events := es1\<rparr>)\<rparr>"
    "uint (tk_balanceOf T t S \<tau>1) = uint (tk_balanceOf T t S (pr_tokens w)) - uint managerTake"
    "\<And>t' h. t' \<noteq> t \<Longrightarrow> tk_balanceOf T t' h \<tau>1 = tk_balanceOf T t' h (pr_tokens w)"
    by (rule strictInvokeTransfer_effect [OF Z T 1 s]) blast
  have s1: "pr_sets w1 S = Some (s\<lparr>st_events := es1\<rparr>)" using \<tau>1(1) by simp
  obtain \<tau>2 es2 where \<tau>2: "w' = w1\<lparr>pr_tokens := \<tau>2, pr_sets := (pr_sets w1)(S \<mapsto> s\<lparr>st_events := es1, st_events := es2\<rparr>)\<rparr>"
    "uint (tk_balanceOf T t S \<tau>2) = uint (tk_balanceOf T t S (pr_tokens w1)) - uint protocolTake"
    "\<And>t' h. t' \<noteq> t \<Longrightarrow> tk_balanceOf T t' h \<tau>2 = tk_balanceOf T t' h (pr_tokens w1)"
    by (rule strictInvokeTransfer_effect [OF Z T 2 s1]) blast
  show thesis
  proof (rule that)
    show "w' = w\<lparr>pr_tokens := \<tau>2, pr_sets := (pr_sets w)(S \<mapsto> s\<lparr>st_events := es2\<rparr>)\<rparr>" using \<tau>1(1) \<tau>2(1) by simp
    show "held T S \<tau>2 t = held T S (pr_tokens w) t - uint totalFees"
      using \<tau>1(1,2) \<tau>2(2) totalFees(2) by (simp add: held_def openzeppelin.um_sub_Inr [OF Z])
    show "tk_balanceOf T t' S \<tau>2 = tk_balanceOf T t' S (pr_tokens w)" if "t' \<noteq> t" for t' using that \<tau>1(1,3) \<tau>2(3) by simp
  qed (use totalFees(1) in \<open>simp add: openzeppelin.preciseMul_u_Inr [OF Z]\<close>)
qed

text \<open>What an absorption does: either nothing, or the balance less the fees becomes the position.\<close>

lemma absorb_effect:
  assumes Z: "openzeppelin Z" and T: "token_contracts T" and s: "pr_sets w S = Some s"
    and run: "absorb_token Z E T this S t w = Inr w'"
  obtains "w' = w"
  | tracked n totalFees \<tau> es u s' enabled where
    "getDefaultTrackedBalance Z (er_totalSupply E (st_token s)) s t = Inr tracked"
    "uint (n :: uint256) = held T S (pr_tokens w) t - uint tracked" "uint (totalFees :: uint256) = uint n * uint (as_airdropFee (pr_airdropSettings w S)) div 10 ^ 18"
    "held T S \<tau> t = held T S (pr_tokens w) t - uint totalFees" "\<And>t'. t' \<noteq> t \<Longrightarrow> tk_balanceOf T t' S \<tau> = tk_balanceOf T t' S (pr_tokens w)"
    "total_supply E s * uint u \<le> held T S \<tau> t * 10 ^ 18"
    "editDefaultPosition Z enabled this t u (s\<lparr>st_events := es\<rparr>) = Inr s'"
    "pr_sets w' S = Some s'" "pr_tokens w' = \<tau>"
proof -
  have "handleAirdropPosition Z E T this S t w = Inr w'" using run by (auto simp: absorb_token_def)
  then show thesis
  proof (rule handle_airdrop_Inr [OF _ s])
    assume "w' = w" then show thesis by (rule that)
  next
    fix tracked n managerTake protocolTake totalFees w1 s1 u w2
    assume r: "getDefaultTrackedBalance Z (er_totalSupply E (st_token s)) s t = Inr tracked"
      "um_sub Z (tk_balanceOf T t S (pr_tokens w)) tracked = Inr n" "handleFees_airdrop Z T this S t n w = Inr ((managerTake, protocolTake, totalFees), w1)"
      "pr_sets w1 S = Some s1" "getPostAirdropUnit Z E s1 (tk_balanceOf T t S (pr_tokens w)) totalFees = Inr u"
      "on_set S (editDefaultPosition Z (enabled_modules w1) this t u) w1 = Inr w2"
      "w' = log_event (ComponentAbsorbed S t n managerTake protocolTake) w2"
    obtain \<tau> es where \<tau>: "w1 = w\<lparr>pr_tokens := \<tau>, pr_sets := (pr_sets w)(S \<mapsto> s\<lparr>st_events := es\<rparr>)\<rparr>"
      "held T S \<tau> t = held T S (pr_tokens w) t - uint totalFees" "\<And>t'. t' \<noteq> t \<Longrightarrow> tk_balanceOf T t' S \<tau> = tk_balanceOf T t' S (pr_tokens w)"
      "uint totalFees = uint n * uint (as_airdropFee (pr_airdropSettings w S)) div 10 ^ 18"
      by (rule airdrop_fees_paid [OF Z T s r(3)]) blast
    have s1: "s1 = s\<lparr>st_events := es\<rparr>" using r(4) \<tau>(1) by simp
    obtain s' where s': "editDefaultPosition Z (enabled_modules w1) this t u (s\<lparr>st_events := es\<rparr>) = Inr s'"
      "pr_sets w' S = Some s'" "pr_tokens w' = \<tau>"
      using r(6,7) \<tau>(1) by (auto simp: on_set_Inr)
    from r(5) obtain rest where rest: "um_sub Z (tk_balanceOf T t S (pr_tokens w)) totalFees = Inr rest"
      "preciseDiv_u Z rest (er_totalSupply E (st_token s)) = Inr u"
      by (auto simp: getPostAirdropUnit_def getDefaultPositionUnit_def s1 Let_def)
    have "uint rest = held T S \<tau> t" using rest(1) \<tau>(2) by (simp add: openzeppelin.um_sub_Inr [OF Z] held_def)
    moreover have "er_totalSupply E (st_token s) \<noteq> 0" "uint u = uint rest * 10 ^ 18 div total_supply E s"
      using rest(2) by (simp_all add: openzeppelin.preciseDiv_u_Inr [OF Z] total_supply_def)
    ultimately have "total_supply E s * uint u \<le> held T S \<tau> t * 10 ^ 18"
      using floor_bounds(1) [of "total_supply E s" "held T S \<tau> t * 10 ^ 18"] by (simp add: total_supply_def uint_pos mult.commute)
    moreover have "uint n = held T S (pr_tokens w) t - uint tracked" using r(2) by (simp add: openzeppelin.um_sub_Inr [OF Z] held_def)
    ultimately show thesis using that(2) [OF r(1) _ \<tau>(4,2,3) _ s'] by blast
  qed
qed

lemma solvent_absorb:
  assumes Z: "openzeppelin Z" and T: "token_contracts T" and run: "absorb_token Z E T this S t w = Inr w'"
    and s: "pr_sets w S = Some s" and inv: "solvent E T S n exact (pr_tokens w) s"
  shows "\<exists>s'. pr_sets w' S = Some s' \<and> solvent E T S n exact (pr_tokens w') s'"
proof (rule absorb_effect [OF Z T s run])
  assume "w' = w" then show ?thesis using s inv by simp
next
  fix totalFees :: uint256 and \<tau> es u s' enabled
  assume r: "\<And>t'. t' \<noteq> t \<Longrightarrow> tk_balanceOf T t' S \<tau> = tk_balanceOf T t' S (pr_tokens w)"
    "total_supply E s * uint u \<le> held T S \<tau> t * 10 ^ 18"
    "editDefaultPosition Z enabled this t u (s\<lparr>st_events := es\<rparr>) = Inr s'" "pr_sets w' S = Some s'" "pr_tokens w' = \<tau>"
  note pinv = solventD(1) [OF inv]
  have "positions_inv (s\<lparr>st_events := es\<rparr>)" by (rule positions_inv_same [OF pinv])
      (use positions_invD(1) [OF pinv] in \<open>simp_all add: set_token_inv_same [of s]\<close>)
  then have "solvent E T S n exact (pr_tokens w) (s\<lparr>st_events := es\<rparr>)"
    by (rule solvent_same [OF inv]) (simp_all add: position_defs fun_eq_iff)
  from solvent_default_edit [OF Z this _ _ r(3)] r(1,2,4,5) show ?thesis by (simp add: total_supply_def)
qed

lemma solvent_absorb_tokens:
  assumes Z: "openzeppelin Z" and T: "token_contracts T"
  shows "absorb_tokens Z E T this S ts w = Inr w' \<Longrightarrow> pr_sets w S = Some s \<Longrightarrow> solvent E T S n exact (pr_tokens w) s \<Longrightarrow>
    \<exists>s'. pr_sets w' S = Some s' \<and> solvent E T S n exact (pr_tokens w') s'"
proof (induction ts arbitrary: w s)
  case (Cons t ts)
  then obtain w1 where w1: "absorb_token Z E T this S t w = Inr w1" "absorb_tokens Z E T this S ts w1 = Inr w'" by auto
  from solvent_absorb [OF Z T w1(1) Cons.prems(2,3)] Cons.IH [OF w1(2)] show ?case by blast
qed simp

subsection \<open>The DebtIssuanceModule without external positions\<close>

text \<open>Without external positions the loops are those of the BasicIssuanceModule.\<close>

lemma no_debt_to_resolve:
  "\<forall>q \<in> set qs. q = 0 \<Longrightarrow> length qs = length cs \<Longrightarrow> resolveDebtPositions Z T H this sender S Q isIssue cs qs w = Inr w"
proof (induction cs arbitrary: qs)
  case (Cons c cs)
  then show ?case by (cases qs) simp_all
qed simp

lemma equity_is_deposit:
  "resolveEquityPositions Z T H this sender S Q a True cs qs w = Inr w' \<Longrightarrow> pr_sets w S = Some s \<Longrightarrow>
    \<forall>c \<in> set cs. externalPositionModules s c = [] \<Longrightarrow> deposit_components Z T this sender S cs qs w = Inr w'"
proof (induction cs arbitrary: qs w)
  case (Cons c cs)
  then obtain q qs' where qs: "qs = q # qs'" by (cases qs) auto
  have "\<exists>w1. explicit_transferFrom Z T this c sender S q w = Inr w1 \<and> resolveEquityPositions Z T H this sender S Q a True cs qs' w1 = Inr w' \<and>
      pr_sets w1 S = Some s"
  proof (cases "0 < q")
    case True
    with Cons.prems(1) obtain w1 w2 where w: "explicit_transferFrom Z T this c sender S q w = Inr w1"
      "executeExternalPositionHooks H S Q c True True w1 = Inr w2" "resolveEquityPositions Z T H this sender S Q a True cs qs' w2 = Inr w'"
      by (auto simp: qs)
    have s1: "pr_sets w1 S = Some s" using w(1) Cons.prems(2) by (auto simp: explicit_transferFrom_def Let_def split: if_splits)
    then have "w2 = w1" using w(2) Cons.prems(3) by (simp add: executeExternalPositionHooks_def the_set_def)
    then show ?thesis using w s1 by blast
  qed (use Cons.prems(1,2) in \<open>simp add: qs explicit_transferFrom_def\<close>)
  then obtain w1 where w1: "explicit_transferFrom Z T this c sender S q w = Inr w1"
    "resolveEquityPositions Z T H this sender S Q a True cs qs' w1 = Inr w'" "pr_sets w1 S = Some s" by blast
  then show ?case using Cons.IH [OF w1(2,3)] Cons.prems(3) by (simp add: qs)
qed simp

lemma equity_paid_out:
  assumes Z: "openzeppelin Z" and T: "token_contracts T"
  shows "resolveEquityPositions Z T H this sender S Q a False cs qs w = Inr w' \<Longrightarrow> pr_sets w S = Some s \<Longrightarrow>
    \<forall>c \<in> set cs. externalPositionModules s c = [] \<Longrightarrow> distinct cs \<Longrightarrow> length qs = length cs \<Longrightarrow>
    \<exists>\<tau> es. w' = w\<lparr>pr_tokens := \<tau>, pr_sets := (pr_sets w)(S \<mapsto> s\<lparr>st_events := es\<rparr>)\<rparr> \<and>
      (\<forall>i < length cs. held T S \<tau> (cs ! i) = held T S (pr_tokens w) (cs ! i) - uint (qs ! i)) \<and>
      (\<forall>t. t \<notin> set cs \<longrightarrow> tk_balanceOf T t S \<tau> = tk_balanceOf T t S (pr_tokens w))"
proof (induction cs arbitrary: qs w s)
  case Nil
  then show ?case by (intro exI [of _ "pr_tokens w"] exI [of _ "st_events s"]) (simp add: fun_upd_idem)
next
  case (Cons c cs)
  then obtain q qs' where qs: "qs = q # qs'" by (cases qs) auto
  have "\<exists>w1. strictInvokeTransfer Z T this S c a q w = Inr w1 \<and> resolveEquityPositions Z T H this sender S Q a False cs qs' w1 = Inr w'"
  proof (cases "0 < q")
    case True
    with Cons.prems(1) obtain w1 w2 where w: "executeExternalPositionHooks H S Q c False True w = Inr w1"
      "strictInvokeTransfer Z T this S c a q w1 = Inr w2" "resolveEquityPositions Z T H this sender S Q a False cs qs' w2 = Inr w'"
      by (auto simp: qs)
    have "w1 = w" using w(1) Cons.prems(2,3) by (simp add: executeExternalPositionHooks_def the_set_def)
    then show ?thesis using w by blast
  qed (use Cons.prems(1) in \<open>simp add: qs strictInvokeTransfer_def\<close>)
  then obtain w1 where w1: "strictInvokeTransfer Z T this S c a q w = Inr w1"
    "resolveEquityPositions Z T H this sender S Q a False cs qs' w1 = Inr w'" by blast
  obtain \<tau>1 es1 where \<tau>1: "w1 = w\<lparr>pr_tokens := \<tau>1, pr_sets := (pr_sets w)(S \<mapsto> s\<lparr>st_events := es1\<rparr>)\<rparr>"
    "uint (tk_balanceOf T c S \<tau>1) = uint (tk_balanceOf T c S (pr_tokens w)) - uint q"
    "\<And>t h. t \<noteq> c \<Longrightarrow> tk_balanceOf T t h \<tau>1 = tk_balanceOf T t h (pr_tokens w)"
    by (rule strictInvokeTransfer_effect [OF Z T w1(1) Cons.prems(2)]) blast
  have "pr_sets w1 S = Some (s\<lparr>st_events := es1\<rparr>)" "\<forall>d \<in> set cs. externalPositionModules (s\<lparr>st_events := es1\<rparr>) d = []"
    "distinct cs" "length qs' = length cs" using Cons.prems(3-5) \<tau>1(1) by (simp_all add: qs position_defs)
  from Cons.IH [OF w1(2) this] obtain \<tau> es where \<tau>: "w' = w1\<lparr>pr_tokens := \<tau>, pr_sets := (pr_sets w1)(S \<mapsto> s\<lparr>st_events := es1, st_events := es\<rparr>)\<rparr>"
    "\<forall>i < length cs. held T S \<tau> (cs ! i) = held T S (pr_tokens w1) (cs ! i) - uint (qs' ! i)"
    "\<forall>t. t \<notin> set cs \<longrightarrow> tk_balanceOf T t S \<tau> = tk_balanceOf T t S (pr_tokens w1)" by blast
  have "c \<notin> set cs" using Cons.prems(4) by simp
  then have "cs ! j \<noteq> c" if "j < length cs" for j using that nth_mem by metis
  then have "held T S \<tau> ((c # cs) ! i) = held T S (pr_tokens w) ((c # cs) ! i) - uint ((q # qs') ! i)" if "i < length (c # cs)" for i
    using that \<tau>(2,3) \<tau>1 \<open>c \<notin> set cs\<close> by (cases i) (simp_all add: held_def)
  moreover have "w' = w\<lparr>pr_tokens := \<tau>, pr_sets := (pr_sets w)(S \<mapsto> s\<lparr>st_events := es\<rparr>)\<rparr>" using \<tau>(1) \<tau>1(1) by simp
  moreover have "tk_balanceOf T t S \<tau> = tk_balanceOf T t S (pr_tokens w)" if "t \<notin> set (c # cs)" for t
    using that \<tau>(3) \<tau>1(1,3) by simp
  ultimately show ?case unfolding qs by blast
qed

text \<open>What issuance and redemption require, component by component.\<close>

lemma plain_requirements:
  assumes Z: "openzeppelin Z" and run: "calculateRequiredComponentIssuanceUnits Z s q isIssue = Inr (cs, te, td)"
    and plain: "\<forall>c \<in> set (st_components s). externalPositionModules s c = []" and dist: "distinct (st_components s)"
  shows "cs = st_components s \<and> length te = length cs \<and> length td = length cs \<and> (\<forall>d \<in> set td. d = 0) \<and>
    (\<forall>i < length cs. 0 \<le> real_unit s (cs ! i) \<and> uint (te ! i) =
       (if isIssue then real_unit s (cs ! i) * uint q + 10 ^ 18 - 1 else real_unit s (cs ! i) * uint q) div 10 ^ 18)"
proof -
  from run obtain es ds where t: "total_issuance_units Z s (st_components s) = Inr (es, ds)"
    "required_totals Z q isIssue es ds = Inr (te, td)" and cs: "cs = st_components s"
    by (auto simp: calculateRequiredComponentIssuanceUnits_def getTotalIssuanceUnits_def)
  have lengths: "length te = length cs" "length td = length cs"
    using total_issuance_units_Inr [OF t(1)] required_totals_Inr [OF Z t(2)] by (simp_all add: cs)
  have here: "0 \<le> real_unit s (cs ! i) \<and> td ! i = 0 \<and> uint (te ! i) =
      (if isIssue then real_unit s (cs ! i) * uint q + 10 ^ 18 - 1 else real_unit s (cs ! i) * uint q) div 10 ^ 18"
    if i: "i < length cs" for i
  proof -
    have c: "cs ! i \<in> set (st_components s)" using i by (simp add: cs)
    obtain e where e: "0 \<le> real_unit s (cs ! i)"
      "uint e = (if isIssue then real_unit s (cs ! i) * uint q + 10 ^ 18 - 1 else real_unit s (cs ! i) * uint q) div 10 ^ 18"
      "\<forall>(d, x) \<in> set (zip cs td). d = cs ! i \<longrightarrow> x = 0" "\<forall>(d, x) \<in> set (zip cs te). d = cs ! i \<longrightarrow> x = e"
      by (rule plain_requirement [OF Z run c dist]) (use plain c in blast)+
    have "(cs ! i, td ! i) \<in> set (zip cs td)" "(cs ! i, te ! i) \<in> set (zip cs te)" using i lengths by (auto simp: in_set_zip)
    then show ?thesis using e by auto
  qed
  then have "\<forall>d \<in> set td. d = 0" using lengths by (auto simp: in_set_conv_nth)
  then show ?thesis using cs lengths here by blast
qed

lemma solvent_issue_with_fees:
  assumes Z: "openzeppelin Z" and E: "share_token E" and T: "token_contracts T"
    and run: "issue_with_fees Z E T H this sender S q a hook w = Inr w'" and fees: "calculateTotalFees Z this S q True w = Inr (Q, mf, pf)"
    and s: "pr_sets w S = Some s" and plain: "\<forall>c \<in> set (st_components s). externalPositionModules s c = []"
    and inv: "solvent E T S n exact (pr_tokens w) s"
  shows "\<exists>s'. pr_sets w' S = Some s' \<and> solvent E T S (n + uint Q) exact (pr_tokens w') s'"
proof -
  note dist = positions_invD(3) [OF solventD(1) [OF inv]]
  from run fees s obtain cs te td w1 w2 w3 w4 where units: "calculateRequiredComponentIssuanceUnits Z s Q True = Inr (cs, te, td)"
    and equity: "resolveEquityPositions Z T H this sender S Q a True cs te w = Inr w1"
    and debt: "resolveDebtPositions Z T H this sender S Q True cs td w1 = Inr w2"
    and w3: "resolveFees E this S mf pf w2 = Inr w3" and w4: "on_set S (mint E (enabled_modules w3) this a q) w3 = Inr w4"
    and w': "w' = log_event (SetTokenIssuedWithFees S sender a hook q mf pf) w4"
    by (auto simp: issue_with_fees_def the_set_Inr)
  note req = plain_requirements [OF Z units plain dist]
  have "deposit_components Z T this sender S cs te w = Inr w1" by (rule equity_is_deposit [OF equity s]) (use plain req in simp)
  then obtain \<tau> where \<tau>: "w1 = w\<lparr>pr_tokens := \<tau>\<rparr>"
    "\<forall>i < length cs. uint (tk_balanceOf T (cs ! i) S \<tau>) = uint (tk_balanceOf T (cs ! i) S (pr_tokens w)) + uint (te ! i)"
    using deposit_components_effect [OF Z T] req dist by blast
  have "w2 = w1" using debt no_debt_to_resolve [of td cs Z T H this sender S Q True w1] req by simp
  then have s2: "pr_sets w2 S = Some s" using s \<tau>(1) by simp
  obtain e3 where e3: "w3 = w2\<lparr>pr_sets := (pr_sets w2)(S \<mapsto> s\<lparr>st_token := e3\<rparr>)\<rparr>"
    "uint (er_totalSupply E e3) = uint (er_totalSupply E (st_token s)) + (if mf = 0 then 0 else uint mf + uint pf)"
    by (rule resolveFees_effect [OF E s2 w3])
  then have s3: "pr_sets w3 S = Some (s\<lparr>st_token := e3\<rparr>)" by simp
  from minted [OF E s3 w4] obtain e4 where e4: "w4 = w3\<lparr>pr_sets := (pr_sets w3)(S \<mapsto> s\<lparr>st_token := e4\<rparr>)\<rparr>"
    "uint (er_totalSupply E e4) = uint (er_totalSupply E e3) + uint q" by auto
  have "(if mf = 0 then 0 else uint mf + uint pf) \<le> uint mf + uint pf" by simp
  then have supply_le: "uint (er_totalSupply E e4) \<le> uint (er_totalSupply E (st_token s)) + uint Q"
    using e3(2) e4(2) calculateTotalFees_Inr [OF Z fees] by simp
  have "solvent E T S (n + uint Q) exact \<tau> (s\<lparr>st_token := e4, st_events := st_events s\<rparr>)"
  proof (rule solvent_deposited [OF inv refl supply_le])
    show "0 \<le> real_unit s c \<and> held T S \<tau> c = held T S (pr_tokens w) c + (real_unit s c * uint Q + 10 ^ 18 - 1) div 10 ^ 18"
      if "c \<in> set (st_components s)" for c using that \<tau>(2) req by (auto simp: in_set_conv_nth held_def)
  qed simp
  then show ?thesis using \<open>w2 = w1\<close> by (simp add: w' e4(1) e3(1) \<tau>(1))
qed

lemma solvent_redeem_with_fees:
  assumes Z: "openzeppelin Z" and E: "share_token E" and T: "token_contracts T"
    and run: "redeem_with_fees Z E T H this sender S q a w = Inr w'"
    and s: "pr_sets w S = Some s" and plain: "\<forall>c \<in> set (st_components s). externalPositionModules s c = []"
    and inv: "solvent E T S n exact (pr_tokens w) s"
  shows "\<exists>s'. pr_sets w' S = Some s' \<and> solvent E T S n exact (pr_tokens w') s'"
proof -
  from run s obtain w0 R mf pf s0 cs te td w1 w2 w3 where burnt: "on_set S (burn E (enabled_modules w) this sender q) w = Inr w0"
    and fees: "calculateTotalFees Z this S q False w0 = Inr (R, mf, pf)" and s0: "pr_sets w0 S = Some s0"
    and units: "calculateRequiredComponentIssuanceUnits Z s0 R False = Inr (cs, te, td)"
    and debt: "resolveDebtPositions Z T H this sender S R False cs td w0 = Inr w1"
    and equity: "resolveEquityPositions Z T H this sender S R a False cs te w1 = Inr w2"
    and w3: "resolveFees E this S mf pf w2 = Inr w3" and w': "w' = log_event (SetTokenRedeemedWithFees S sender a q mf pf) w3"
    by (auto simp: redeem_with_fees_def the_set_Inr)
  obtain e0 where e0: "er_burn E sender q (st_token s) = Inr e0" "w0 = w\<lparr>pr_sets := (pr_sets w)(S \<mapsto> s\<lparr>st_token := e0\<rparr>)\<rparr>" "s0 = s\<lparr>st_token := e0\<rparr>"
    using burnt s s0 by (auto simp: on_set_Inr burn_def)
  have same: "st_components s0 = st_components s" "real_unit s0 = real_unit s" "externalPositionModules s0 = externalPositionModules s"
    by (simp_all add: e0(3) real_unit_def position_defs fun_eq_iff)
  note dist = positions_invD(3) [OF solventD(1) [OF inv]]
  have plain0: "\<forall>c \<in> set (st_components s0). externalPositionModules s0 c = []" "distinct (st_components s0)" using plain dist same by simp_all
  note req = plain_requirements [OF Z units plain0]
  have "w1 = w0" using debt no_debt_to_resolve [of td cs Z T H this sender S R False w0] req by simp
  with equity_paid_out [OF Z T equity _ _ _ ] s0 plain0 req obtain \<tau> es where \<tau>: "w2 = w0\<lparr>pr_tokens := \<tau>, pr_sets := (pr_sets w0)(S \<mapsto> s0\<lparr>st_events := es\<rparr>)\<rparr>"
    "\<forall>i < length cs. held T S \<tau> (cs ! i) = held T S (pr_tokens w0) (cs ! i) - uint (te ! i)" by metis
  then have s2: "pr_sets w2 S = Some (s0\<lparr>st_events := es\<rparr>)" by simp
  from resolveFees_effect [OF E s2 w3] obtain e3 where e3: "w3 = w2\<lparr>pr_sets := (pr_sets w2)(S \<mapsto> s0\<lparr>st_events := es, st_token := e3\<rparr>)\<rparr>"
    "uint (er_totalSupply E e3) = uint (er_totalSupply E e0) + (if mf = 0 then 0 else uint mf + uint pf)" by (auto simp: e0(3))
  have "(if mf = 0 then 0 else uint mf + uint pf) \<le> uint mf + uint pf" by simp
  then have "uint (er_totalSupply E e3) \<le> uint (er_totalSupply E (st_token s)) - uint R"
    using e3(2) share_token.burn_supply [OF E e0(1)] calculateTotalFees_Inr [OF Z fees] by simp
  then have "solvent E T S n exact \<tau> (s\<lparr>st_events := es, st_token := e3\<rparr>)"
  proof (rule solvent_withdrawn [OF inv, where e = e3 and es = es, rotated])
    show "0 \<le> real_unit s c \<and> held T S \<tau> c = held T S (pr_tokens w) c - uint R * real_unit s c div 10 ^ 18" if "c \<in> set (st_components s)" for c
      using that \<tau>(2) req e0(2) same(1,2) by (auto simp: in_set_conv_nth mult.commute)
  qed simp_all
  moreover have "s\<lparr>st_events := es, st_token := e3\<rparr> = s0\<lparr>st_events := es, st_token := e3\<rparr>" by (simp add: e0(3))
  ultimately show ?thesis by (simp add: w' e3(1) \<tau>(1))
qed

subsection \<open>Airdrops are absorbed, not positions\<close>

lemma tracked_balance:
  assumes Z: "openzeppelin Z" and "getDefaultTrackedBalance Z n s c = Inr k"
  shows "uint k = uint n * real_unit s c div 10 ^ 18"
proof -
  from assms(2) obtain r m where "getDefaultPositionRealUnit Z s c = Inr r" "toUint256 Z r = Inr m" "preciseMul_u Z n m = Inr k"
    by (auto simp: getDefaultTrackedBalance_def)
  then show ?thesis using openzeppelin.default_real_unit [OF Z, of s c r]
    by (simp add: openzeppelin.toUint256_Inr [OF Z] openzeppelin.preciseMul_u_Inr [OF Z] real_unit_def)
qed

text \<open>C26: An absorption takes its fees from the airdrop alone. Whenever \<^verbatim>\<open>absorb\<close> of the AirdropModule returns, the supply is what it was,
  the fees are at most their share of the balance beyond the position, so that the position that was tracked before is still
  there, and the position that is tracked afterwards is covered by what the SetToken then holds. The positions of the SetToken
  are in order (\<open>positions_inv\<close>, the invariant that \<open>PositionLib\<close> keeps) and the fee is at most one, which the module checks whenever
  it is set.\<close>

theorem absorb_covered:
  assumes "openzeppelin Z" and "token_contracts T" and "absorb Z E T this sender S t w = Inr w'"
    and "pr_sets w S = Some s" and "positions_inv s" and "uint (as_airdropFee (pr_airdropSettings w S)) \<le> 10 ^ 18"
    and "getDefaultTrackedBalance Z (er_totalSupply E (st_token s)) s t = Inr tracked"
    and "pr_sets w' S = Some s'" and "getDefaultTrackedBalance Z (er_totalSupply E (st_token s')) s' t = Inr tracked'"
  shows "st_token s' = st_token s \<and>
    uint (tk_balanceOf T t S (pr_tokens w)) - uint (tk_balanceOf T t S (pr_tokens w')) \<le>
      (uint (tk_balanceOf T t S (pr_tokens w)) - uint tracked) * uint (as_airdropFee (pr_airdropSettings w S)) div 10 ^ 18 \<and>
    tracked \<le> tk_balanceOf T t S (pr_tokens w') \<and> tracked' \<le> tk_balanceOf T t S (pr_tokens w')"
proof -
  note Z = assms(1) and s = assms(4) and pinv = assms(5)
  have run: "absorb_token Z E T this S t w = Inr w'" using assms(3) by (auto simp: absorb_def)
  let ?fee = "uint (as_airdropFee (pr_airdropSettings w S))"
  obtain n where n: "um_sub Z (tk_balanceOf T t S (pr_tokens w)) tracked = Inr n"
    using run assms(7) s by (auto simp: absorb_token_def handleAirdropPosition_def the_set_Inr Let_def)
  then have n': "uint n = held T S (pr_tokens w) t - uint tracked" by (simp add: openzeppelin.um_sub_Inr [OF Z] held_def)
  show ?thesis
  proof (rule absorb_effect [OF Z assms(2) s run])
    assume "w' = w"
    moreover have "0 \<le> uint n * ?fee div 10 ^ 18" by (simp add: pos_imp_zdiv_nonneg_iff)
    ultimately show ?thesis using s assms(7-9) n' uint_ge_0 [of n] by (simp add: held_def word_le_def)
  next
    fix k m totalFees :: uint256 and \<tau> es u s'' enabled
    assume r: "getDefaultTrackedBalance Z (er_totalSupply E (st_token s)) s t = Inr k" "uint m = held T S (pr_tokens w) t - uint k"
      "uint totalFees = uint m * ?fee div 10 ^ 18" "held T S \<tau> t = held T S (pr_tokens w) t - uint totalFees"
      "total_supply E s * uint u \<le> held T S \<tau> t * 10 ^ 18" "editDefaultPosition Z enabled this t u (s\<lparr>st_events := es\<rparr>) = Inr s''"
      "pr_sets w' S = Some s''" "pr_tokens w' = \<tau>"
    have same: "k = tracked" "m = n" "s'' = s'" using r(1,2,7) assms(7,8) n' by (simp_all add: word_uint_eq_iff)
    have "uint n * ?fee \<le> uint n * 10 ^ 18" using assms(6) by (intro mult_left_mono) simp_all
    then have fees: "uint totalFees \<le> uint n" using zdiv_mono1 [of "uint n * ?fee" "uint n * 10 ^ 18" "10 ^ 18"] by (simp add: r(3) same(2))
    have pinv1: "positions_inv (s\<lparr>st_events := es\<rparr>)" by (rule positions_inv_same [OF pinv])
        (use positions_invD(1) [OF pinv] in \<open>simp_all add: set_token_inv_same [of s]\<close>)
    have token: "st_token s' = st_token s" using default_edit_frame [OF r(6)] same(3) by simp
    have "exact_unit s' t \<le> uint u * 10 ^ 18" using edited_exact_unit [OF Z pinv1 r(6)] same(3) by simp
    then have "real_unit s' t \<le> uint u"
      using zdiv_mono1 [of "exact_unit s' t" "uint u * 10 ^ 18" "10 ^ 18"] by (simp add: real_unit_def exact_unit_def)
    then have "total_supply E s * real_unit s' t \<le> total_supply E s * uint u" by (rule mult_left_mono) (simp add: total_supply_def)
    also have "\<dots> \<le> held T S \<tau> t * 10 ^ 18" by (rule r(5))
    finally have "uint tracked' \<le> held T S \<tau> t"
      using zdiv_mono1 [of "total_supply E s * real_unit s' t" "held T S \<tau> t * 10 ^ 18" "10 ^ 18"] tracked_balance [OF Z assms(9)]
      by (simp add: token total_supply_def)
    then show ?thesis using r(3,4,8) n' fees token same(2) by (simp add: held_def word_le_def)
  qed
qed

text \<open>A token of three base units with a supply of ten holds 130 base units, of which 100 are an airdrop; the fee is ten percent, of
  which the protocol takes a fifth. 120 base units remain and become the position.\<close>

definition airdrop_world :: "shares set_token \<Rightarrow> ledger \<Rightarrow> module_event list \<Rightarrow> (shares, ledger) protocol" where
  "airdrop_world s \<tau> evs = (debt_world (debt_settings []) s \<tau> evs)\<lparr>
     pr_airdropSettings := (\<lambda>_. no_airdropSettings)(100 := \<lparr>as_airdrops = [7], as_feeRecipient = 3, as_airdropFee = 100000000000000000,
       as_anyoneAbsorb = True\<rparr>), pr_isAirdrop := (\<lambda>_ _. False)(100 := (\<lambda>_. False)(7 := True))\<rparr>"

definition airdrop_set :: "int256 \<Rightarrow> set_event list \<Rightarrow> shares set_token" where
  "airdrop_set v es = (debt_set [14, 13] \<lparr>sh_balances = (\<lambda>_. 0)(8 := 10000000000000000000), sh_supply = 10000000000000000000\<rparr> es)
     \<lparr>st_componentPositions := (\<lambda>_. no_position)(7 := no_position\<lparr>cp_virtualUnit := v\<rparr>)\<rparr>"

definition airdrop_ledger :: "uint256 \<Rightarrow> uint256 \<Rightarrow> uint256 \<Rightarrow> ledger" where
  "airdrop_ledger h manager protocol = (\<lambda>_ _. 0)(7 := (\<lambda>_. 0)(100 := h, 3 := manager, 2 := protocol))"

lemma airdrop_world_fields [simp]:
  "pr_sets (airdrop_world s \<tau> evs) a = (if a = 100 then Some s else None)" "pr_tokens (airdrop_world s \<tau> evs) = \<tau>"
  "pr_isAirdrop (airdrop_world s \<tau> evs) 100 7" "as_airdropFee (pr_airdropSettings (airdrop_world s \<tau> evs) 100) = 100000000000000000"
  "as_feeRecipient (pr_airdropSettings (airdrop_world s \<tau> evs) 100) = 3" "controller.feeRecipient (pr_controller (airdrop_world s \<tau> evs)) = 2"
  "getModuleFee 13 0 (pr_controller (airdrop_world s \<tau> evs)) = 200000000000000000"
  "(airdrop_world s \<tau> evs)\<lparr>pr_tokens := \<tau>', pr_sets := (pr_sets (airdrop_world s \<tau> evs))(100 \<mapsto> s')\<rparr> = airdrop_world s' \<tau>' evs"
  "(airdrop_world s \<tau> evs)\<lparr>pr_sets := (pr_sets (airdrop_world s \<tau> evs))(100 \<mapsto> s')\<rparr> = airdrop_world s' \<tau> evs"
  "log_event ev (airdrop_world s \<tau> evs) = airdrop_world s \<tau> (ev # evs)"
  by (simp_all add: airdrop_world_def debt_world_def log_event_def construct_controller_def getModuleFee_def)

lemma airdrop_set_fields [simp]:
  "st_components (airdrop_set v es) = [7]" "st_positionMultiplier (airdrop_set v es) = 1000000000000000000"
  "defaultPositionVirtualUnit (airdrop_set v es) 7 = v" "externalPositionModules (airdrop_set v es) c = []"
  "sh_supply (st_token (airdrop_set v es)) = 10000000000000000000" "emitted e (airdrop_set v es) = airdrop_set v (e # es)"
  "with_position 7 (\<lambda>p. p\<lparr>cp_virtualUnit := v'\<rparr>) (airdrop_set v es) = airdrop_set v' es"
  "(airdrop_set v es)\<lparr>st_events := es'\<rparr> = airdrop_set v es'"
  by (simp_all add: airdrop_set_def debt_set_def position_defs no_position_def emitted_def with_position_def)

lemma airdrop_privileged: "privileged (enabled_modules (airdrop_world s \<tau> evs)) 13 (airdrop_set v es) = Inr ()"
  by (auto simp: privileged_Inr) (auto simp: airdrop_set_def debt_set_def airdrop_world_def debt_world_def)

lemma airdrop_transfer:
  assumes "move 7 100 a d \<tau> = Inr \<tau>'" "um_sub checked_oz (\<tau> 7 100) d = Inr (\<tau>' 7 100)" "0 < d"
  shows "strictInvokeTransfer checked_oz ledger_tokens 13 100 7 a d (airdrop_world (airdrop_set v es) \<tau> evs) =
    Inr (airdrop_world (airdrop_set v (Invoked 7 0 (tk_encodeTransfer ledger_tokens a d) [1] # es)) \<tau>' evs)"
  using assms by (simp add: strictInvokeTransfer_def invokeTransfer_def invoke_token_def the_set_def airdrop_privileged ledger_transfer
      ledger_reads Let_def del: and_then_eq_Inr)

lemma airdrop_moves:
  "move 7 100 3 8 (airdrop_ledger 130 0 0) = Inr (airdrop_ledger 122 8 0)" "move 7 100 2 2 (airdrop_ledger 122 8 0) = Inr (airdrop_ledger 120 8 2)"
  "um_sub checked_oz (airdrop_ledger 130 0 0 7 100) 8 = Inr (airdrop_ledger 122 8 0 7 100)"
  "um_sub checked_oz (airdrop_ledger 122 8 0 7 100) 2 = Inr (airdrop_ledger 120 8 2 7 100)"
  by (simp_all add: move_def airdrop_ledger_def fun_eq_iff Let_def checked_oz.um_sub_Inr)

lemma airdrop_reading:
  "getDefaultPositionRealUnit checked_oz (airdrop_set 3 es) 7 = Inr 3" "getDefaultPositionRealUnit checked_oz (airdrop_set 12 es) 7 = Inr 12"
  "getDefaultTrackedBalance checked_oz 10000000000000000000 (airdrop_set 3 es) 7 = Inr 30"
  "getDefaultTrackedBalance checked_oz 10000000000000000000 (airdrop_set 12 es) 7 = Inr 120"
proof -
  have n: "conservativePreciseMul checked_oz 3 1000000000000000000 = Inr 3" "conservativePreciseMul checked_oz 12 1000000000000000000 = Inr 12"
    "toUint256 checked_oz 3 = Inr 3" "toUint256 checked_oz 12 = Inr 12" "preciseMul_u checked_oz 10000000000000000000 3 = Inr 30"
    "preciseMul_u checked_oz 10000000000000000000 12 = Inr 120"
    by (simp_all add: checked_oz.conservativePreciseMul_Inr checked_oz.toUint256_Inr checked_oz.preciseMul_u_Inr fits_int_def fits_uint_def)
  show real: "getDefaultPositionRealUnit checked_oz (airdrop_set 3 es) 7 = Inr 3" "getDefaultPositionRealUnit checked_oz (airdrop_set 12 es) 7 = Inr 12"
    by (simp_all add: getDefaultPositionRealUnit_def convertVirtualToRealUnit_def n)
  show "getDefaultTrackedBalance checked_oz 10000000000000000000 (airdrop_set 3 es) 7 = Inr 30"
    "getDefaultTrackedBalance checked_oz 10000000000000000000 (airdrop_set 12 es) 7 = Inr 120"
    by (simp_all add: getDefaultTrackedBalance_def real n del: and_then_eq_Inr)
qed

lemma airdrop_run:
  "\<exists>es evs. absorb_token checked_oz shares_erc20 ledger_tokens 13 100 7 (airdrop_world (airdrop_set 3 []) (airdrop_ledger 130 0 0) []) =
     Inr (airdrop_world (airdrop_set 12 es) (airdrop_ledger 120 8 2) evs)"
proof -
  let ?es = "[Invoked 7 0 (tk_encodeTransfer ledger_tokens 2 2) [1], Invoked 7 0 (tk_encodeTransfer ledger_tokens 3 8) [1]]"
  let ?w = "airdrop_world (airdrop_set 3 []) (airdrop_ledger 130 0 0) []" and ?w1 = "airdrop_world (airdrop_set 3 ?es) (airdrop_ledger 120 8 2) []"
  have n: "preciseMul_u checked_oz 100 100000000000000000 = Inr 10" "preciseMul_u checked_oz 10 200000000000000000 = Inr 2"
    "um_sub checked_oz 10 2 = Inr 8" "um_sub checked_oz 130 30 = Inr 100" "um_sub checked_oz 130 10 = Inr 120"
    "preciseDiv_u checked_oz 120 10000000000000000000 = Inr 12" "toInt256 checked_oz 12 = Inr 12"
    "conservativePreciseDiv checked_oz 12 1000000000000000000 = Inr 12" "conservativePreciseMul checked_oz 12 1000000000000000000 = Inr 12"
    by (simp_all add: checked_oz.preciseMul_u_Inr checked_oz.um_sub_Inr checked_oz.preciseDiv_u_Inr checked_oz.toInt256_Inr
        checked_oz.conservativePreciseDiv_Inr checked_oz.conservativePreciseMul_Inr fits_uint_def fits_int_def)
  have "handleFees_airdrop checked_oz ledger_tokens 13 100 7 100 ?w = Inr ((8, 2, 10), ?w1)"
    by (simp add: handleFees_airdrop_def getModuleFee_base_def payProtocolFee_eq n Let_def airdrop_transfer [OF airdrop_moves(1,3)]
        airdrop_transfer [OF airdrop_moves(2,4)] del: and_then_eq_Inr)
  moreover have "editDefaultPosition checked_oz (enabled_modules ?w1) 13 7 12 (airdrop_set 3 ?es) =
      Inr (airdrop_set 12 (DefaultPositionUnitEdited 7 12 # ?es))"
    by (simp add: editDefaultPosition_def hasDefaultPosition_def airdrop_reading editDefaultPositionUnit_def airdrop_privileged
        convertRealToVirtualUnit_def convertVirtualToRealUnit_def n del: and_then_eq_Inr)
  ultimately show ?thesis
    by (simp add: absorb_token_def isAirdropToken_def handleAirdropPosition_def the_set_def shares_erc20_def airdrop_reading ledger_reads
        getPostAirdropUnit_def getDefaultPositionUnit_def on_set_def n Let_def airdrop_ledger_def del: and_then_eq_Inr) blast
qed

theorem absorb_covered_witness:
  "\<exists>w' :: (shares, ledger) protocol. absorb checked_oz shares_erc20 ledger_tokens 13 8 100 7
       (airdrop_world (airdrop_set 3 []) (airdrop_ledger 130 0 0) []) = Inr w' \<and>
     uint (tk_balanceOf ledger_tokens 7 100 (pr_tokens w')) = 120 \<and> (130 - uint (tk_balanceOf ledger_tokens 7 100 (pr_tokens w'))) \<le> (130 - 30) * 10 ^ 17 div 10 ^ 18 \<and>
     30 \<le> tk_balanceOf ledger_tokens 7 100 (pr_tokens w') \<and> 120 \<le> tk_balanceOf ledger_tokens 7 100 (pr_tokens w')"
proof -
  let ?w = "airdrop_world (airdrop_set 3 []) (airdrop_ledger 130 0 0) []"
  obtain es evs where token: "absorb_token checked_oz shares_erc20 ledger_tokens 13 100 7 ?w =
     Inr (airdrop_world (airdrop_set 12 es) (airdrop_ledger 120 8 2) evs)" (is "_ = Inr ?w'") using airdrop_run by blast
  have "validate_absorb 13 8 100 ?w = Inr ()"
    by (auto simp: validate_absorb_def isValidCaller_def validate_Inr)
      (auto simp: airdrop_world_def airdrop_set_def debt_set_def debt_world_def)
  with token have run: "absorb checked_oz shares_erc20 ledger_tokens 13 8 100 7 ?w = Inr ?w'" by (simp add: absorb_def)
  have inv: "positions_inv (airdrop_set 3 [])"
    by (simp add: positions_inv_def set_token_inv_def airdrop_set_def debt_set_def position_defs no_position_def alive_unit_def)
  have s: "pr_sets ?w 100 = Some (airdrop_set 3 [])" "pr_sets ?w' 100 = Some (airdrop_set 12 es)" by simp_all
  have supply_eq: "er_totalSupply shares_erc20 (st_token (airdrop_set v es)) = 10000000000000000000" for v es by (simp add: shares_erc20_def)
  have "uint (tk_balanceOf ledger_tokens 7 100 (pr_tokens ?w)) - uint (tk_balanceOf ledger_tokens 7 100 (pr_tokens ?w')) \<le>
      (uint (tk_balanceOf ledger_tokens 7 100 (pr_tokens ?w)) - uint (30 :: uint256)) *
        uint (as_airdropFee (pr_airdropSettings ?w 100)) div 10 ^ 18 \<and>
    30 \<le> tk_balanceOf ledger_tokens 7 100 (pr_tokens ?w') \<and> 120 \<le> tk_balanceOf ledger_tokens 7 100 (pr_tokens ?w')"
    using absorb_covered [OF checked_oz.openzeppelin_axioms ledger.token_contracts_axioms run s(1) inv _ _ s(2), of 30 120]
      airdrop_reading(3,4) by (simp add: supply_eq)
  then show ?thesis using run by (intro exI [of _ ?w']) (simp add: ledger_reads airdrop_ledger_def)
qed

end
