(* ===== verification/Collateral.thy ===== *)
theory Collateral
  imports NavSolvency ModuleSolvency
begin

text \<open>
  A SetToken over its whole life: issued and redeemed through the BasicIssuanceModule, the DebtIssuanceModule and the NAV
  module, charged by the StreamingFeeModule, rebalanced through the Position library, sent other tokens, which the
  AirdropModule absorbs, its modules and manager changed. The state between two transactions is reached through \<open>life\<close>,
  which counts what was issued at units and how often the multiplier was changed. The theories \<open>Solvency\<close>, \<open>ModuleSolvency\<close>
  and \<open>NavSolvency\<close> say what is owed and what is held, and that one step keeps it; here are the composition, an example that
  runs it, and the properties.
\<close>

subsection \<open>A life\<close>

text \<open>\<open>life Z E T S n k w\<close>: the SetToken at \<open>S\<close> has come to the state \<open>w\<close> with \<open>n\<close> tokens issued in all by the
  BasicIssuanceModule and, fees included, by the DebtIssuanceModule, and \<open>k\<close> changes of its multiplier (accruals, issuances and
  redemptions of the NAV module). The DebtIssuanceModule is used only while no component has an external position. The
  hook of an issuance is not a rule: what it does are steps of the life before \<open>issue_components\<close>, \<open>issue_with_fees\<close> or \<open>issue_at_nav\<close>. A
  rebalance of a component is a change of balances that takes from no other component of \<open>S\<close>, followed by
  \<^verbatim>\<open>calculateAndEditDefaultPosition\<close>; a trade of one component for another is two of them.\<close>

inductive life ::
  "oz_api \<Rightarrow> 'e erc20_api \<Rightarrow> 't token_api \<Rightarrow> address \<Rightarrow> int \<Rightarrow> nat \<Rightarrow> ('e, 't) protocol \<Rightarrow> bool" for Z E T S
where
  life_new: "construct_set_token cs units ms newManager token = Inr s \<Longrightarrow> distinct cs \<Longrightarrow> length units = length cs \<Longrightarrow>
    \<forall>u \<in> set units. 0 < sint u \<Longrightarrow> er_totalSupply E token = 0 \<Longrightarrow> pr_sets w S = Some s \<Longrightarrow> life Z E T S 0 0 w"
| life_issue: "life Z E T S n k w \<Longrightarrow> issue_components Z E T this sender S q a hook w = Inr w' \<Longrightarrow>
    life Z E T S (n + uint q) k w'"
| life_redeem: "life Z E T S n k w \<Longrightarrow> redeem Z E T this sender S q a w = Inr w' \<Longrightarrow> life Z E T S n k w'"
| life_accrue: "life Z E T S n k w \<Longrightarrow> accrueFee Z E this S w = Inr w' \<Longrightarrow> life Z E T S n (Suc k) w'"
| life_nav_issue: "life Z E T S n k w \<Longrightarrow> sender \<noteq> S \<Longrightarrow> issue_at_nav Z E T V this sender S r q least a w = Inr w' \<Longrightarrow>
    life Z E T S n (Suc k) w'"
| life_nav_redeem: "life Z E T S n k w \<Longrightarrow> redeem_at_nav Z E T V this sender S r q least a w = Inr w' \<Longrightarrow> life Z E T S n (Suc k) w'"
| life_nav_ether: "life Z E T S n k w \<Longrightarrow> wrapped_ether T weth W \<Longrightarrow> this \<noteq> S \<Longrightarrow>
    issueWithEther_at_nav Z E T V W weth this sender S q least a w = Inr w' \<or>
    redeemIntoEther_at_nav Z E T V W weth this sender S q least a w = Inr w' \<Longrightarrow> life Z E T S n (Suc k) w'"
| life_debt_issue: "life Z E T S n k w \<Longrightarrow> pr_sets w S = Some s \<Longrightarrow> \<forall>c \<in> set (st_components s). externalPositionModules s c = [] \<Longrightarrow>
    calculateTotalFees Z this S q True w = Inr (Q, managerFee, protocolFee) \<Longrightarrow>
    issue_with_fees Z E T H this sender S q a hook w = Inr w' \<Longrightarrow> life Z E T S (n + uint Q) k w'"
| life_debt_redeem: "life Z E T S n k w \<Longrightarrow> pr_sets w S = Some s \<Longrightarrow> \<forall>c \<in> set (st_components s). externalPositionModules s c = [] \<Longrightarrow>
    redeem_with_fees Z E T H this sender S q a w = Inr w' \<Longrightarrow> life Z E T S n k w'"
| life_absorb: "life Z E T S n k w \<Longrightarrow> absorb_token Z E T this S t w = Inr w' \<Longrightarrow> life Z E T S n k w'"
| life_rebalance: "life Z E T S n k w \<Longrightarrow> pr_sets w S = Some s \<Longrightarrow>
    \<forall>t. t \<noteq> c \<longrightarrow> tk_balanceOf T t S (pr_tokens w) \<le> tk_balanceOf T t S \<tau> \<Longrightarrow>
    calculateAndEditDefaultPosition Z enabled sender (tk_balanceOf T c S \<tau>) c (er_totalSupply E (st_token s)) prev s =
      Inr (result, s') \<Longrightarrow>
    life Z E T S n k (w\<lparr>pr_tokens := \<tau>, pr_sets := (pr_sets w)(S \<mapsto> s')\<rparr>)"
| life_external: "life Z E T S n k w \<Longrightarrow> pr_sets w S = Some s \<Longrightarrow>
    editExternalPosition Z enabled sender c m u data s = Inr s' \<Longrightarrow> life Z E T S n k (w\<lparr>pr_sets := (pr_sets w)(S \<mapsto> s')\<rparr>)"
| life_call: "life Z E T S n k w \<Longrightarrow> pr_sets w S = Some s \<Longrightarrow> simple_set_call Z E enabled sender call s = Inr s' \<Longrightarrow>
    \<not> edits_positions call \<Longrightarrow> (\<forall>x q. call \<noteq> Mint x q \<and> call \<noteq> Burn x q) \<Longrightarrow>
    life Z E T S n k (w\<lparr>pr_sets := (pr_sets w)(S \<mapsto> s')\<rparr>)"
| life_remove_module: "life Z E T S n k w \<Longrightarrow> pr_sets w S = Some s \<Longrightarrow> removeModule_effect m s = Inr s' \<Longrightarrow>
    life Z E T S n k (w\<lparr>pr_sets := (pr_sets w)(S \<mapsto> s')\<rparr>)"
| life_shares: "life Z E T S n k w \<Longrightarrow> pr_sets w S = Some s \<Longrightarrow> er_totalSupply E token = er_totalSupply E (st_token s) \<Longrightarrow>
    life Z E T S n k (w\<lparr>pr_sets := (pr_sets w)(S \<mapsto> s\<lparr>st_token := token\<rparr>)\<rparr>)"
| life_world: "life Z E T S n k w \<Longrightarrow> pr_sets w' S = pr_sets w S \<Longrightarrow>
    \<forall>t. tk_balanceOf T t S (pr_tokens w) \<le> tk_balanceOf T t S (pr_tokens w') \<Longrightarrow> life Z E T S n k w'"

lemma life_solvent:
  assumes "life Z E T S n k w" and Z: "openzeppelin Z" and E: "share_token E" and T: "honest_tokens T"
  shows "\<exists>s. pr_sets w S = Some s \<and> solvent E T S n (k = 0) (pr_tokens w) s"
  using assms(1)
proof induction
  case (life_new cs units ms newManager token s w)
  then show ?case using solvent_new [OF life_new(1-5)] by auto
next
  case (life_issue n k w this sender q a hook w')
  then show ?case using solvent_issue [OF Z E honest_tokensD [OF T] life_issue(2)] by blast
next
  case (life_redeem n k w this sender q a w')
  then show ?case using solvent_redeem [OF Z E honest_tokensD [OF T] life_redeem(2)] by blast
next
  case (life_accrue n k w this w')
  then show ?case using solvent_accrue [OF Z E life_accrue(2)] by simp blast
next
  case (life_nav_issue n k w sender V this r q least a w')
  then show ?case using solvent_issue_at_nav [OF Z E T life_nav_issue(2,3)] by simp blast
next
  case (life_nav_redeem n k w V this sender r q least a w')
  then show ?case using solvent_redeem_at_nav [OF Z E honest_tokensD [OF T] life_nav_redeem(2)] by simp blast
next
  case (life_nav_ether n k w weth W this V sender q least a w')
  then obtain s where s: "pr_sets w S = Some s" "solvent E T S n (k = 0) (pr_tokens w) s" by blast
  from life_nav_ether(4) show ?case
    using solvent_issueWithEther [OF Z E life_nav_ether(2,3) _ s] solvent_redeemIntoEther [OF Z E honest_tokensD [OF T] life_nav_ether(2,3) _ s] by auto
next
  case (life_debt_issue n k w s this q Q managerFee protocolFee H sender a hook w')
  then show ?case using solvent_issue_with_fees [OF Z E honest_tokensD [OF T] life_debt_issue(5,4,2,3)] by simp
next
  case (life_debt_redeem n k w s H this sender q a w')
  then show ?case using solvent_redeem_with_fees [OF Z E honest_tokensD [OF T] life_debt_redeem(4,2,3)] by simp
next
  case (life_absorb n k w this t w')
  then show ?case using solvent_absorb [OF Z honest_tokensD [OF T] life_absorb(2)] by blast
next
  case (life_rebalance n k w s c \<tau> enabled sender prev result s')
  then show ?case using solvent_rebalance [OF Z _ life_rebalance(3,4)] by auto
next
  case (life_external n k w s enabled sender c m u data s')
  then show ?case using solvent_external [OF Z _ life_external(3)] by auto
next
  case (life_call n k w s enabled sender call s')
  then show ?case using solvent_call [OF Z _ life_call(3-5)] by auto
next
  case (life_remove_module n k w s m s')
  then show ?case using solvent_remove_module [OF _ life_remove_module(3)] by auto
next
  case (life_shares n k w s token)
  then have inv: "solvent E T S n (k = 0) (pr_tokens w) s" by simp
  have "positions_inv (s\<lparr>st_token := token\<rparr>)" by (rule positions_inv_same [OF solventD(1) [OF inv]])
      (use positions_invD(1) [OF solventD(1) [OF inv]] in \<open>simp_all add: set_token_inv_same [of s]\<close>)
  then have "solvent E T S n (k = 0) (pr_tokens w) (s\<lparr>st_token := token\<rparr>)"
    by (rule solvent_same [OF inv]) (simp_all add: life_shares position_defs fun_eq_iff)
  then show ?case by simp
next
  case (life_world n k w w')
  then obtain s where s: "pr_sets w S = Some s" and inv: "solvent E T S n (k = 0) (pr_tokens w) s" by blast
  have "solvent E T S n (k = 0) (pr_tokens w') s"
    by (rule solvent_same [OF inv solventD(1) [OF inv]]) (simp_all add: life_world(3))
  then show ?case using life_world(2) s by simp
qed

subsection \<open>An example\<close>

text \<open>A token of three base units of one component; its fee is ten percent a year.\<close>

definition ex_set :: "int256 \<Rightarrow> shares \<Rightarrow> set_event list \<Rightarrow> shares set_token" where
  "ex_set M token es = \<lparr>st_manager = 9, st_locker = 0, st_modules = [11, 12],
     st_moduleStates = (\<lambda>_. NONE)(11 := INITIALIZED, 12 := INITIALIZED), st_isLocked = False, st_components = [7],
     st_componentPositions = (\<lambda>_. no_position)(7 := no_position\<lparr>cp_virtualUnit := 3\<rparr>), st_positionMultiplier = M,
     st_token = token, st_events = es\<rparr>"

definition ex_world :: "uint256 \<Rightarrow> uint256 \<Rightarrow> shares set_token \<Rightarrow> ledger \<Rightarrow> module_event list \<Rightarrow> (shares, ledger) protocol" where
  "ex_world now accrued s \<tau> es = \<lparr>
     pr_controller = (construct_controller 1 2)\<lparr>isSet := (\<lambda>_. False)(100 := True), isModule := (\<lambda>_. False)(11 := True, 12 := True)\<rparr>,
     pr_sets = Map.empty(100 \<mapsto> s), pr_tokens = \<tau>, pr_timestamp = now,
     pr_feeStates = (\<lambda>_. no_feeState)(100 := \<lparr>fs_feeRecipient = 3, fs_maxStreamingFeePercentage = 500000000000000000,
       fs_streamingFeePercentage = 100000000000000000, fs_lastStreamingFeeTimestamp = accrued\<rparr>),
     pr_managerIssuanceHook = (\<lambda>_. 0), pr_registries = Map.empty, pr_oracles = Map.empty,
     pr_navIssuanceSettings = (\<lambda>_. no_navSettings), pr_isReserveAsset = (\<lambda>_ _. False),
     pr_issuanceSettings = (\<lambda>_ _. no_issuanceSettings), pr_airdropSettings = (\<lambda>_. no_airdropSettings), pr_isAirdrop = (\<lambda>_ _. False), pr_events = es\<rparr>"

lemma ex_fields [simp]:
  "st_components (ex_set M token es) = [7]" "st_positionMultiplier (ex_set M token es) = M" "st_token (ex_set M token es) = token"
  "defaultPositionVirtualUnit (ex_set M token es) c = (if c = 7 then 3 else 0)" "externalPositionModules (ex_set M token es) c = []"
  "st_isLocked (ex_set M token es) = False" "(ex_set M token es)\<lparr>st_token := token'\<rparr> = ex_set M token' es"
  "(ex_set M token es)\<lparr>st_positionMultiplier := M'\<rparr> = ex_set M' token es" "emitted e (ex_set M token es) = ex_set M token (e # es)"
  "pr_sets (ex_world now accrued s \<tau> evs) a = (if a = 100 then Some s else None)" "pr_tokens (ex_world now accrued s \<tau> evs) = \<tau>"
  "pr_timestamp (ex_world now accrued s \<tau> evs) = now" "controller.feeRecipient (pr_controller (ex_world now accrued s \<tau> evs)) = 2"
  "getModuleFee m i (pr_controller (ex_world now accrued s \<tau> evs)) = 0" "pr_feeStates (ex_world now accrued s \<tau> evs) 100 =
     \<lparr>fs_feeRecipient = 3, fs_maxStreamingFeePercentage = 500000000000000000,
       fs_streamingFeePercentage = 100000000000000000, fs_lastStreamingFeeTimestamp = accrued\<rparr>"
  "(ex_world now accrued s \<tau> evs)\<lparr>pr_sets := (pr_sets (ex_world now accrued s \<tau> evs))(100 \<mapsto> s')\<rparr> = ex_world now accrued s' \<tau> evs"
  "(ex_world now accrued s \<tau> evs)\<lparr>pr_tokens := \<tau>'\<rparr> = ex_world now accrued s \<tau>' evs"
  "log_event ev (ex_world now accrued s \<tau> evs) = ex_world now accrued s \<tau> (ev # evs)"
  by (simp_all add: ex_set_def ex_world_def position_defs no_position_def emitted_def construct_controller_def getModuleFee_def
      log_event_def)

lemma ex_privileged:
  "m = 11 \<or> m = 12 \<Longrightarrow> privileged (enabled_modules (ex_world now accrued s \<tau> evs)) m (ex_set M token es) = Inr ()"
  "m = 11 \<or> m = 12 \<Longrightarrow> validateOnlyValidAndInitializedSet m 100 (ex_world now accrued (ex_set M token es) \<tau> evs) = Inr ()"
  by (auto simp: privileged_Inr validate_Inr) (auto simp: ex_set_def ex_world_def)

text \<open>Evaluation of an accrual and of an issuance, given the numbers.\<close>

lemma ex_accrue:
  assumes f: "calculateStreamingFee_sol checked_oz now \<lparr>fs_feeRecipient = 3, fs_maxStreamingFeePercentage = 500000000000000000,
       fs_streamingFeePercentage = 100000000000000000, fs_lastStreamingFeeTimestamp = accrued\<rparr> = Inr f"
    and q: "calculateStreamingFeeInflation_sol checked_oz (sh_supply token) f = Inr q"
    and token: "er_mint shares_erc20 3 q token = Inr token'"
    and k: "newPositionMultiplier_sol checked_oz M f = Inr k" and r: "conservativePreciseMul checked_oz 3 k = Inr r" "0 < sint r"
  shows "accrueFee checked_oz shares_erc20 11 100 (ex_world now accrued (ex_set M token es) \<tau> evs) =
    Inr (ex_world now now (ex_set k token' (PositionMultiplierEdited k # es)) \<tau> (FeeActualized 100 q 0 # evs))"
proof -
  have "preciseMul_u checked_oz q 0 = Inr 0" "um_sub checked_oz q 0 = Inr q"
    by (simp_all add: checked_oz.preciseMul_u_Inr checked_oz.um_sub_Inr fits_uint_def)
  then have fees: "managerAndProtocolFee_sol checked_oz 0 q = Inr (q, 0)" by (simp add: managerAndProtocolFee_sol_def)
  have mint: "mint shares_erc20 (enabled_modules (ex_world now accrued s \<tau> evs)) 11 3 q (ex_set M token es) = Inr (ex_set M token' es)" for s
    using token by (simp add: mint_Inr ex_privileged)
  have edit: "editPositionMultiplier checked_oz (enabled_modules (ex_world now accrued s \<tau> evs)) 11 k (ex_set M token' es) =
      Inr (ex_set k token' (PositionMultiplierEdited k # es))" for s
  proof -
    have "getPositionsAbsMinimumVirtualUnit checked_oz (ex_set M token' es) = Inr 3"
      by (simp add: getPositionsAbsMinimumVirtualUnit_def smaller_unit_def checked_oz_eval word_less_def
          unsigned_minus_1_eq_mask mask_eq_exp_minus_1 del: and_then_eq_Inr)
    with r show ?thesis by (simp add: editPositionMultiplier_def validateNewMultiplier_def ex_privileged)
  qed
  show ?thesis
    using f q fees mint edit k
    by (simp add: accrueFee_def ex_privileged calculateStreamingFeeInflation_set_def the_set_def mintManagerAndProtocolFee_def
        on_set_def editPositionMultiplier_module_def Let_def) (simp add: ex_world_def shares_erc20_def log_event_def)
qed

lemma ex_reading: "conservativePreciseMul checked_oz 3 M = Inr u \<Longrightarrow>
    getDefaultPositionRealUnit checked_oz (ex_set M token es) 7 = Inr u"
  by (simp add: getDefaultPositionRealUnit_def convertVirtualToRealUnit_def)

lemma ex_issue:
  assumes u: "conservativePreciseMul checked_oz 3 M = Inr u" "toUint256 checked_oz u = Inr u"
    and d: "preciseMulCeil_u checked_oz u q = Inr d" "0 < d" "move 7 8 100 d \<tau> = Inr \<tau>'" "um_add checked_oz (\<tau> 7 100) d = Inr (\<tau>' 7 100)"
    and token: "er_mint shares_erc20 8 q token = Inr token'"
  shows "issue_components checked_oz shares_erc20 ledger_tokens 12 8 100 q 8 0 (ex_world now accrued (ex_set M token es) \<tau> evs) =
    Inr (ex_world now accrued (ex_set M token' es) \<tau>' (SetTokenIssued 100 8 8 0 q # evs))"
proof -
  have "required_units checked_oz (ex_set M token es) q [7] = Inr [d]"
    using ex_reading [OF u(1)] u d by (simp add: hasExternalPosition_def del: and_then_eq_Inr)
  moreover have "explicit_transferFrom checked_oz ledger_tokens 12 7 8 100 d (ex_world now accrued (ex_set M token es) \<tau> evs) =
      Inr (ex_world now accrued (ex_set M token es) \<tau>' evs)"
    using d by (simp add: explicit_transferFrom_def ledger_tokens_def)
  moreover have "mint shares_erc20 (enabled_modules (ex_world now accrued s \<tau>' evs)) 12 8 q (ex_set M token es) = Inr (ex_set M token' es)" for s
    using token by (simp add: mint_Inr ex_privileged)
  ultimately show ?thesis
    by (simp add: issue_components_def getRequiredComponentUnitsForIssue_def ex_privileged the_set_def on_set_def
        del: and_then_eq_Inr required_units.simps)
qed

text \<open>The next transaction sees the clock and the balances of others changed.\<close>

lemma ex_wait:
  "life Z E ledger_tokens 100 n k (ex_world now accrued s \<tau> evs) \<Longrightarrow> (\<forall>t. \<tau> t 100 \<le> \<tau>' t 100) \<Longrightarrow>
     life Z E ledger_tokens 100 n k (ex_world now' accrued s \<tau>' evs)"
  by (erule life_world) (simp_all add: ledger_tokens_def)

lemma ex_call:
  assumes "life Z E T 100 n k (ex_world now accrued s \<tau> evs)" and "simple_set_call Z E enabled sender call s = Inr s'"
    and "\<not> edits_positions call" and "\<forall>x q. call \<noteq> Mint x q \<and> call \<noteq> Burn x q"
  shows "life Z E T 100 n k (ex_world now accrued s' \<tau> evs)"
  using life_call [OF assms(1) _ assms(2-4)] by simp

definition ex_start :: "shares set_token" where
  "ex_start = ex_set 1000000000000000000 \<lparr>sh_balances = (\<lambda>_. 0), sh_supply = 0\<rparr> [ModuleInitialized 12, ModuleInitialized 11]"

lemma ex_start_life: "life checked_oz shares_erc20 ledger_tokens 100 0 0 (ex_world 0 0 ex_start (\<lambda>_ _. 0) [])"
proof -
  let ?token = "\<lparr>sh_balances = (\<lambda>_. 0), sh_supply = 0\<rparr>"
  let ?s = "ex_start\<lparr>st_modules := [], st_moduleStates := (\<lambda>_. NONE)(11 := PENDING, 12 := PENDING), st_events := []\<rparr>"
  let ?s1 = "ex_start\<lparr>st_modules := [11], st_moduleStates := (\<lambda>_. NONE)(11 := INITIALIZED, 12 := PENDING), st_events := [ModuleInitialized 11]\<rparr>"
  let ?w = "\<lambda>s. ex_world 0 0 s (\<lambda>_ _. 0) []"
  have c: "construct_set_token [7] [3] [11, 12] 9 ?token = Inr ?s"
    by (simp add: construct_set_token_def ex_start_def ex_set_def PRECISE_UNIT_INT_def fun_upd_twist del: and_then_eq_Inr)
  have "life checked_oz shares_erc20 ledger_tokens 100 0 0 (?w ?s)"
    by (rule life_new [OF c]) (simp_all add: shares_erc20_def)
  moreover have "simple_set_call checked_oz shares_erc20 (\<lambda>_. True) 11 InitializeModule ?s = Inr ?s1"
    by (simp add: initializeModule_def ex_start_def ex_set_def emitted_def fun_upd_twist)
  ultimately have "life checked_oz shares_erc20 ledger_tokens 100 0 0 (?w ?s1)" by (rule ex_call) simp_all
  moreover have "simple_set_call checked_oz shares_erc20 (\<lambda>_. True) 12 InitializeModule ?s1 = Inr ex_start"
    by (simp add: initializeModule_def ex_start_def ex_set_def emitted_def)
  ultimately show ?thesis by (rule ex_call) simp_all
qed

text \<open>Evaluation of a redemption, one that succeeds and one that the component's contract refuses.\<close>

lemma ex_redeem_start:
  assumes token: "er_burn shares_erc20 a q token = Inr token'"
    and u: "conservativePreciseMul checked_oz 3 M = Inr u" "toUint256 checked_oz u = Inr u" "preciseMul_u checked_oz q u = Inr d"
    and q: "0 < q"
  shows "redeem checked_oz shares_erc20 ledger_tokens 12 a 100 q a (ex_world now accrued (ex_set M token es) \<tau> evs) =
    and_then (strictInvokeTransfer checked_oz ledger_tokens 12 100 7 a d (ex_world now accrued (ex_set M token' es) \<tau> evs)) (\<lambda>w.
      Inr (log_event (SetTokenRedeemed 100 a a q) w))"
proof -
  have burn: "on_set 100 (burn shares_erc20 (enabled_modules (ex_world now accrued (ex_set M token es) \<tau> evs)) 12 a q)
      (ex_world now accrued (ex_set M token es) \<tau> evs) = Inr (ex_world now accrued (ex_set M token' es) \<tau> evs)"
    using token by (simp add: on_set_def the_set_def burn_def ex_privileged)
  have loop: "withdraw_components checked_oz ledger_tokens 12 100 q a [7] (ex_world now accrued (ex_set M token' es) \<tau> evs) =
      strictInvokeTransfer checked_oz ledger_tokens 12 100 7 a d (ex_world now accrued (ex_set M token' es) \<tau> evs)"
    using ex_reading [OF u(1)] u(2,3)
    by (simp add: the_set_def hasExternalPosition_def del: and_then_eq_Inr)
      (cases "strictInvokeTransfer checked_oz ledger_tokens 12 100 7 a d (ex_world now accrued (ex_set M token' es) \<tau> evs)"; simp)
  show ?thesis using q burn loop
    by (simp add: redeem_def ex_privileged the_set_def del: withdraw_components.simps)
qed



lemma ex_transfer_out:
  assumes "0 < d" "move 7 100 a d \<tau> = Inr \<tau>'" "um_sub checked_oz (\<tau> 7 100) d = Inr (\<tau>' 7 100)"
  shows "strictInvokeTransfer checked_oz ledger_tokens 12 100 7 a d (ex_world now accrued (ex_set M token es) \<tau> evs) =
    Inr (ex_world now accrued (ex_set M token (Invoked 7 0 (tk_encodeTransfer ledger_tokens a d) [1] # es)) \<tau>' evs)"
proof -
  have "invoke_token ledger_tokens 12 100 7 0 (tk_encodeTransfer ledger_tokens a d) (ex_world now accrued (ex_set M token es) \<tau> evs) =
      Inr ([1], ex_world now accrued (ex_set M token (Invoked 7 0 (tk_encodeTransfer ledger_tokens a d) [1] # es)) \<tau>' evs)"
    using assms(2) by (simp add: invoke_token_def the_set_def ex_privileged ledger_transfer) (simp add: ex_world_def)
  then show ?thesis using assms(1,3)
    by (simp add: strictInvokeTransfer_def invokeTransfer_def Let_def ledger_reads)
qed

lemma ex_transfer_refused:
  assumes "0 < d" "move 7 100 a d \<tau> = Inl e"
  shows "strictInvokeTransfer checked_oz ledger_tokens 12 100 7 a d (ex_world now accrued (ex_set M token es) \<tau> evs) = Inl e"
  using assms by (simp add: strictInvokeTransfer_def invokeTransfer_def Let_def invoke_token_def the_set_def ex_privileged ledger_transfer)

text \<open>The run: ten percent are charged before the first issuance, twenty after it.\<close>

definition ex_shares :: "uint256 \<Rightarrow> uint256 \<Rightarrow> shares" where
  "ex_shares holder recipient = \<lparr>sh_balances = (\<lambda>_. 0)(8 := holder, 3 := recipient), sh_supply = holder + recipient\<rparr>"

definition ex_ledger :: "uint256 \<Rightarrow> uint256 \<Rightarrow> uint256 \<Rightarrow> ledger" where
  "ex_ledger holder token recipient = (\<lambda>_ _. 0)(7 := (\<lambda>_. 0)(8 := holder, 100 := token, 3 := recipient))"

lemma ex_empty: "\<lparr>sh_balances = \<lambda>_. 0, sh_supply = 0\<rparr> = ex_shares 0 0" "(\<lambda>_ _. 0) = ex_ledger 0 0 0"
  by (simp_all add: ex_shares_def ex_ledger_def fun_eq_iff)

lemma ex_mint:
  "er_mint shares_erc20 8 100000000000000000000 (ex_shares 0 0) = Inr (ex_shares 100000000000000000000 0)"
  "er_mint shares_erc20 3 0 (ex_shares 0 0) = Inr (ex_shares 0 0)"
  "er_mint shares_erc20 3 25000000000000000000 (ex_shares 100000000000000000000 0) = Inr (ex_shares 100000000000000000000 25000000000000000000)"
  "er_burn shares_erc20 3 25000000000000000000 (ex_shares 100000000000000000000 25000000000000000000) = Inr (ex_shares 100000000000000000000 0)"
  "er_burn shares_erc20 8 100000000000000000000 (ex_shares 100000000000000000000 0) = Inr (ex_shares 0 0)"
  by (simp_all add: shares_erc20_def ex_shares_def checked_u_def fun_eq_iff)

lemma ex_move:
  "move 7 8 100 200 (ex_ledger 200 0 0) = Inr (ex_ledger 0 200 0)"
  "move 7 8 100 300 (ex_ledger 300 0 0) = Inr (ex_ledger 0 300 0)"
  "move 7 100 3 50 (ex_ledger 0 200 0) = Inr (ex_ledger 0 150 50)"
  "move 7 100 8 200 (ex_ledger 0 150 50) = Inl (Revert ''ERC20: transfer amount exceeds balance'')"
  by (simp_all add: move_def ex_ledger_def fun_eq_iff Let_def)

lemma ex_numbers:
  "conservativePreciseMul checked_oz 3 1000000000000000000 = Inr 3"
  "conservativePreciseMul checked_oz 3 900000000000000000 = Inr 2"
  "conservativePreciseMul checked_oz 3 720000000000000000 = Inr 2"
  "toUint256 checked_oz 2 = Inr 2" "toUint256 checked_oz 3 = Inr 3"
  "preciseMulCeil_u checked_oz 2 100000000000000000000 = Inr 200"
  "preciseMulCeil_u checked_oz 3 100000000000000000000 = Inr 300"
  "preciseMul_u checked_oz 25000000000000000000 2 = Inr 50"
  "preciseMul_u checked_oz 100000000000000000000 2 = Inr 200"
  by (simp_all add: checked_oz.conservativePreciseMul_Inr checked_oz.toUint256_Inr checked_oz.preciseMulCeil_u_Inr
      checked_oz.preciseMul_u_Inr fits_int_def fits_uint_def)

lemma ex_issued:
  "\<exists>es evs. life checked_oz shares_erc20 ledger_tokens 100 (10 ^ 20) 0
     (ex_world 0 0 (ex_set 1000000000000000000 (ex_shares 100000000000000000000 0) es) (ex_ledger 0 300 0) evs)"
proof -
  let ?start = "ex_set 1000000000000000000 (ex_shares 0 0) [ModuleInitialized 12, ModuleInitialized 11]"
  have "life checked_oz shares_erc20 ledger_tokens 100 0 0 (ex_world 0 0 ?start (ex_ledger 300 0 0) [])"
    using ex_start_life [unfolded ex_start_def ex_empty] by (rule ex_wait) (simp add: ex_ledger_def)
  from life_issue [OF this ex_issue [OF ex_numbers(1,5,7) _ ex_move(2) _ ex_mint(1)]]
  show ?thesis by (fastforce simp: ex_ledger_def checked_oz.um_add_Inr)
qed

lemma ex_fees:
  "calculateStreamingFee_sol checked_oz 31557600 \<lparr>fs_feeRecipient = 3, fs_maxStreamingFeePercentage = 500000000000000000,
     fs_streamingFeePercentage = 100000000000000000, fs_lastStreamingFeeTimestamp = 0\<rparr> = Inr 100000000000000000"
  "calculateStreamingFee_sol checked_oz 94672800 \<lparr>fs_feeRecipient = 3, fs_maxStreamingFeePercentage = 500000000000000000,
     fs_streamingFeePercentage = 100000000000000000, fs_lastStreamingFeeTimestamp = 31557600\<rparr> = Inr 200000000000000000"
  "calculateStreamingFeeInflation_sol checked_oz (sh_supply (ex_shares 0 0)) 100000000000000000 = Inr 0"
  "calculateStreamingFeeInflation_sol checked_oz (sh_supply (ex_shares 100000000000000000000 0)) 200000000000000000 =
     Inr 25000000000000000000"
  "newPositionMultiplier_sol checked_oz 1000000000000000000 100000000000000000 = Inr 900000000000000000"
  "newPositionMultiplier_sol checked_oz 900000000000000000 200000000000000000 = Inr 720000000000000000"
  by (simp_all add: calculateStreamingFee_sol_def calculateStreamingFeeInflation_sol_def newPositionMultiplier_sol_def ex_shares_def
      checked_oz_eval ONE_YEAR_IN_SECONDS_sol_def preciseUnit_def PRECISE_UNIT_u_def PRECISE_UNIT_INT_def sol_simps
      del: and_then_eq_Inr)

text \<open>The two accruals, the issuance between them, and the two redemptions.\<close>

definition ex_state :: "uint256 \<Rightarrow> uint256 \<Rightarrow> int256 \<Rightarrow> shares \<Rightarrow> ledger \<Rightarrow> (shares, ledger) protocol \<Rightarrow> bool" where
  "ex_state now accrued M token \<tau> w \<longleftrightarrow> (\<exists>es evs. w = ex_world now accrued (ex_set M token es) \<tau> evs)"

lemma ex_stateI [simp, intro]: "ex_state now accrued M token \<tau> (ex_world now accrued (ex_set M token es) \<tau> evs)"
  unfolding ex_state_def by blast

lemma ex_stateE [elim]:
  assumes "ex_state now accrued M token \<tau> w"
  obtains es evs where "w = ex_world now accrued (ex_set M token es) \<tau> evs"
  using assms unfolding ex_state_def by blast

lemma ex_start_state:
  "\<exists>w. life checked_oz shares_erc20 ledger_tokens 100 0 0 w \<and> ex_state 31557600 0 1000000000000000000 (ex_shares 0 0) (ex_ledger 200 0 0) w"
proof -
  have "life checked_oz shares_erc20 ledger_tokens 100 0 0 (ex_world 31557600 0
      (ex_set 1000000000000000000 (ex_shares 0 0) [ModuleInitialized 12, ModuleInitialized 11]) (ex_ledger 200 0 0) [])"
    using ex_start_life [unfolded ex_start_def ex_empty] by (rule ex_wait) (simp add: ex_ledger_def)
  then show ?thesis by blast
qed

lemma ex_first_accrual:
  assumes "ex_state 31557600 0 1000000000000000000 (ex_shares 0 0) \<tau> w"
  shows "\<exists>w'. accrueFee checked_oz shares_erc20 11 100 w = Inr w' \<and> ex_state 31557600 31557600 900000000000000000 (ex_shares 0 0) \<tau> w'"
  using assms ex_accrue [OF ex_fees(1,3) ex_mint(2) ex_fees(5) ex_numbers(2)] by auto

lemma ex_issuance:
  assumes "ex_state 31557600 31557600 900000000000000000 (ex_shares 0 0) (ex_ledger 200 0 0) w"
  shows "\<exists>w'. issue_components checked_oz shares_erc20 ledger_tokens 12 8 100 100000000000000000000 8 0 w = Inr w' \<and>
    ex_state 31557600 31557600 900000000000000000 (ex_shares 100000000000000000000 0) (ex_ledger 0 200 0) w'"
proof -
  have "um_add checked_oz (ex_ledger 200 0 0 7 100) 200 = Inr (ex_ledger 0 200 0 7 100)" by (simp add: checked_oz.um_add_Inr ex_ledger_def)
  with assms ex_issue [OF ex_numbers(2,4,6) _ ex_move(1) _ ex_mint(1)] show ?thesis by auto
qed

lemma ex_second_accrual:
  assumes "ex_state 31557600 31557600 900000000000000000 (ex_shares 100000000000000000000 0) \<tau> w"
  shows "\<exists>w'. accrueFee checked_oz shares_erc20 11 100 (w\<lparr>pr_timestamp := 94672800\<rparr>) = Inr w' \<and>
    ex_state 94672800 94672800 720000000000000000 (ex_shares 100000000000000000000 25000000000000000000) \<tau> w'"
proof -
  have "(ex_world now accrued s \<tau>' evs)\<lparr>pr_timestamp := t\<rparr> = ex_world t accrued s \<tau>' evs" for now accrued t s \<tau>' evs
    by (simp add: ex_world_def)
  with assms ex_accrue [OF ex_fees(2,4) ex_mint(3) ex_fees(6) ex_numbers(3)] show ?thesis by auto
qed

lemma ex_redemptions:
  assumes "ex_state 94672800 94672800 720000000000000000 (ex_shares 100000000000000000000 25000000000000000000) (ex_ledger 0 200 0) w"
  shows "\<exists>w'. redeem checked_oz shares_erc20 ledger_tokens 12 3 100 25000000000000000000 3 w = Inr w' \<and>
    redeem checked_oz shares_erc20 ledger_tokens 12 8 100 100000000000000000000 8 w' =
      Inl (Revert ''ERC20: transfer amount exceeds balance'')"
proof -
  have out: "um_sub checked_oz (ex_ledger 0 200 0 7 100) 50 = Inr (ex_ledger 0 150 50 7 100)"
    by (simp add: checked_oz.um_sub_Inr ex_ledger_def)
  obtain w' where w': "redeem checked_oz shares_erc20 ledger_tokens 12 3 100 25000000000000000000 3 w = Inr w'"
    "ex_state 94672800 94672800 720000000000000000 (ex_shares 100000000000000000000 0) (ex_ledger 0 150 50) w'"
    using assms ex_redeem_start [OF ex_mint(4) ex_numbers(3,4,8)] ex_transfer_out [OF _ ex_move(3) out] by auto
  then show ?thesis using ex_redeem_start [OF ex_mint(5) ex_numbers(3,4,9)] ex_transfer_refused [OF _ ex_move(4)] by auto
qed

lemma ex_run:
  obtains w0 w1 w2 w3 w4 where "life checked_oz shares_erc20 ledger_tokens 100 0 0 w0" "accrueFee checked_oz shares_erc20 11 100 w0 = Inr w1"
    "issue_components checked_oz shares_erc20 ledger_tokens 12 8 100 100000000000000000000 8 0 w1 = Inr w2"
    "accrueFee checked_oz shares_erc20 11 100 (w2\<lparr>pr_timestamp := 94672800\<rparr>) = Inr w3"
    "life checked_oz shares_erc20 ledger_tokens 100 (10 ^ 20) 2 w3"
    "redeem checked_oz shares_erc20 ledger_tokens 12 3 100 25000000000000000000 3 w3 = Inr w4"
    "redeem checked_oz shares_erc20 ledger_tokens 12 8 100 100000000000000000000 8 w4 =
      Inl (Revert ''ERC20: transfer amount exceeds balance'')"
    "ex_state 31557600 31557600 900000000000000000 (ex_shares 0 0) (ex_ledger 200 0 0) w1"
    "ex_state 31557600 31557600 900000000000000000 (ex_shares 100000000000000000000 0) (ex_ledger 0 200 0) w2"
    "ex_state 94672800 94672800 720000000000000000 (ex_shares 100000000000000000000 25000000000000000000) (ex_ledger 0 200 0) w3"
proof -
  obtain w0 where 0: "life checked_oz shares_erc20 ledger_tokens 100 0 0 w0"
    "ex_state 31557600 0 1000000000000000000 (ex_shares 0 0) (ex_ledger 200 0 0) w0" using ex_start_state by blast
  from ex_first_accrual [OF 0(2)] obtain w1 where 1: "accrueFee checked_oz shares_erc20 11 100 w0 = Inr w1"
    "ex_state 31557600 31557600 900000000000000000 (ex_shares 0 0) (ex_ledger 200 0 0) w1" by blast
  from ex_issuance [OF 1(2)] obtain w2 where
    2: "issue_components checked_oz shares_erc20 ledger_tokens 12 8 100 100000000000000000000 8 0 w1 = Inr w2"
    "ex_state 31557600 31557600 900000000000000000 (ex_shares 100000000000000000000 0) (ex_ledger 0 200 0) w2" by blast
  from ex_second_accrual [OF 2(2)] obtain w3 where
    3: "accrueFee checked_oz shares_erc20 11 100 (w2\<lparr>pr_timestamp := 94672800\<rparr>) = Inr w3"
    "ex_state 94672800 94672800 720000000000000000 (ex_shares 100000000000000000000 25000000000000000000) (ex_ledger 0 200 0) w3" by blast
  from ex_redemptions [OF 3(2)] obtain w4 where
    4: "redeem checked_oz shares_erc20 ledger_tokens 12 3 100 25000000000000000000 3 w3 = Inr w4"
    "redeem checked_oz shares_erc20 ledger_tokens 12 8 100 100000000000000000000 8 w4 =
      Inl (Revert ''ERC20: transfer amount exceeds balance'')" by blast
  have "life checked_oz shares_erc20 ledger_tokens 100 (10 ^ 20) 1 w2"
    using life_issue [OF life_accrue [OF 0(1) 1(1)] 2(1)] by simp
  then have "life checked_oz shares_erc20 ledger_tokens 100 (10 ^ 20) 1 (w2\<lparr>pr_timestamp := 94672800\<rparr>)" by (rule life_world) simp_all
  from life_accrue [OF this 3(1)] have life: "life checked_oz shares_erc20 ledger_tokens 100 (10 ^ 20) 2 w3" by (simp add: numeral_2_eq_2)
  show thesis by (rule that [OF 0(1) 1(1) 2(1) 3(1) life 4 1(2) 2(2) 3(2)])
qed

lemma ex_short:
  "\<exists>es evs. life checked_oz shares_erc20 ledger_tokens 100 (10 ^ 20) 2
     (ex_world 94672800 94672800 (ex_set 720000000000000000 (ex_shares 100000000000000000000 25000000000000000000) es)
       (ex_ledger 0 200 0) evs)"
  by (rule ex_run) blast

subsection \<open>Properties\<close>

text \<open>C13: Full backing. Whatever happens to a SetToken before its multiplier is first changed, by a streaming fee or by
  the NAV module (issuance and redemption through the BasicIssuanceModule, hooks included, and through the
  DebtIssuanceModule while there are no external positions, rebalances through the Position library, external positions,
  gifts and their absorption, changes of modules and manager), its supply times the unit it reads of any of its components is covered
  by its balance of that component. The components' contracts need only leave each other's balances alone
  (\<open>honest_tokens\<close>).\<close>

theorem backed_until_fees:
  assumes "openzeppelin Z" and "share_token E" and "honest_tokens T" and "life Z E T S n 0 w"
    and "pr_sets w S = Some s" and "c \<in> set (st_components s)" and "getDefaultPositionRealUnit Z s c = Inr u"
  shows "uint (er_totalSupply E (st_token s)) * sint u \<le> uint (tk_balanceOf T c S (pr_tokens w)) * 10 ^ 18"
proof -
  have "solvent E T S n True (pr_tokens w) s" using life_solvent [OF assms(4,1-3)] assms(5) by simp
  from solventD(4) [OF this assms(6)] show ?thesis
    by (simp add: total_supply_def held_def real_unit_def openzeppelin.default_real_unit [OF assms(1,7)])
qed

theorem backed_until_fees_witness:
  "\<exists>(w :: (shares, ledger) protocol) (s :: shares set_token) u. pr_sets w 100 = Some s \<and> getDefaultPositionRealUnit checked_oz s 7 = Inr u \<and> 0 < sint u \<and> 0 < uint (sh_supply (st_token s)) \<and>
     uint (sh_supply (st_token s)) * sint u \<le> uint (tk_balanceOf ledger_tokens 7 100 (pr_tokens w)) * 10 ^ 18"
proof -
  obtain es evs where life: "life checked_oz shares_erc20 ledger_tokens 100 (10 ^ 20) 0
     (ex_world 0 0 (ex_set 1000000000000000000 (ex_shares 100000000000000000000 0) es) (ex_ledger 0 300 0) evs)"
    using ex_issued by blast
  let ?s = "ex_set 1000000000000000000 (ex_shares 100000000000000000000 0) es"
  let ?w = "ex_world 0 0 ?s (ex_ledger 0 300 0) evs"
  have s: "pr_sets ?w 100 = Some ?s" "(7 :: address) \<in> set (st_components ?s)" by simp_all
  have r: "getDefaultPositionRealUnit checked_oz ?s 7 = Inr 3" by (rule ex_reading [OF ex_numbers(1)])
  have "0 < uint (sh_supply (st_token ?s))" by (simp add: ex_shares_def)
  moreover have "uint (sh_supply (st_token ?s)) * sint (3 :: int256) \<le> uint (tk_balanceOf ledger_tokens 7 100 (pr_tokens ?w)) * 10 ^ 18"
    using backed_until_fees [OF checked_oz.openzeppelin_axioms shares.share_token_axioms ledger.honest_tokens_axioms life s r]
    by (simp add: shares_erc20_def)
  moreover have "0 < sint (3 :: int256)" by simp
  ultimately show ?thesis using s(1) r by blast
qed

text \<open>C14: The rounding of multipliers. After any number of accruals, and of issuances and redemptions at net asset value
  (in a reserve asset or in ether), a SetToken owes at most one base unit of a component more than it holds for every
  whole token (ten to the 18 units) that the BasicIssuanceModule or the DebtIssuanceModule ever issued.\<close>

theorem shortfall_bounded:
  assumes "openzeppelin Z" and "share_token E" and "honest_tokens T" and "life Z E T S n k w"
    and "pr_sets w S = Some s" and "c \<in> set (st_components s)" and "getDefaultPositionRealUnit Z s c = Inr u"
  shows "uint (er_totalSupply E (st_token s)) * sint u \<le> uint (tk_balanceOf T c S (pr_tokens w)) * 10 ^ 18 + n"
proof -
  have "solvent E T S n (k = 0) (pr_tokens w) s" using life_solvent [OF assms(4,1-3)] assms(5) by simp
  from solventD(3) [OF this assms(6)]
  have "total_supply E s * exact_unit s c \<le> (held T S (pr_tokens w) c * 10 ^ 18 + n) * 10 ^ 18" .
  moreover have "total_supply E s * (real_unit s c * 10 ^ 18) \<le> total_supply E s * exact_unit s c"
    by (intro mult_left_mono real_unit_bounds) (simp add: total_supply_def)
  ultimately have "total_supply E s * real_unit s c * 10 ^ 18 \<le> (held T S (pr_tokens w) c * 10 ^ 18 + n) * 10 ^ 18"
    by (simp add: mult.assoc)
  then have "total_supply E s * real_unit s c \<le> held T S (pr_tokens w) c * 10 ^ 18 + n" by (simp only: mult_le_cancel_right) simp
  then show ?thesis by (simp add: total_supply_def held_def real_unit_def openzeppelin.default_real_unit [OF assms(1,7)])
qed

theorem shortfall_bounded_witness:
  "\<exists>(w :: (shares, ledger) protocol) (s :: shares set_token) u. pr_sets w 100 = Some s \<and> getDefaultPositionRealUnit checked_oz s 7 = Inr u \<and> 0 < sint u \<and>
     uint (sh_supply (st_token s)) = 125 * 10 ^ 18 \<and>
     uint (sh_supply (st_token s)) * sint u \<le> uint (tk_balanceOf ledger_tokens 7 100 (pr_tokens w)) * 10 ^ 18 + 10 ^ 20"
proof -
  obtain es evs where life: "life checked_oz shares_erc20 ledger_tokens 100 (10 ^ 20) 2
     (ex_world 94672800 94672800 (ex_set 720000000000000000 (ex_shares 100000000000000000000 25000000000000000000) es)
       (ex_ledger 0 200 0) evs)" using ex_short by blast
  let ?s = "ex_set 720000000000000000 (ex_shares 100000000000000000000 25000000000000000000) es"
  let ?w = "ex_world 94672800 94672800 ?s (ex_ledger 0 200 0) evs"
  have s: "pr_sets ?w 100 = Some ?s" "(7 :: address) \<in> set (st_components ?s)" by simp_all
  have r: "getDefaultPositionRealUnit checked_oz ?s 7 = Inr 2" by (rule ex_reading [OF ex_numbers(3)])
  have "uint (sh_supply (st_token ?s)) = 125 * 10 ^ 18" by (simp add: ex_shares_def)
  moreover have "uint (sh_supply (st_token ?s)) * sint (2 :: int256) \<le> uint (tk_balanceOf ledger_tokens 7 100 (pr_tokens ?w)) * 10 ^ 18 + 10 ^ 20"
    using shortfall_bounded [OF checked_oz.openzeppelin_axioms shares.share_token_axioms ledger.honest_tokens_axioms life s r]
    by (simp add: shares_erc20_def)
  moreover have "0 < sint (2 :: int256)" by simp
  ultimately show ?thesis using s(1) r by blast
qed

text \<open>C15: The bound is not idle. StreamingFeeModule lowers the multiplier to keep the token fully collateralized, but a unit
  is read rounded down, and what one accrual rounds away is not deposited by an issuance after it and is owed after the
  next accrual. The run of it: an accrual, an issuance of 100 tokens that deposits 200 base units at the unit 2.7, read as 2, and
  leaves the token backed; two years later an accrual that lowers the unit to 2.16, again read as 2, and mints 25 tokens. Then
  the SetToken owes 250 base units and holds the 200 of the issuance, and when the fee recipient redeems first, the
  redemption of the other holder reverts for want of the component.\<close>

theorem fees_can_outrun_deposits:
  "\<exists>w0 w1 w2 w3 w4 s2 s3. life checked_oz shares_erc20 ledger_tokens 100 0 0 w0 \<and>
     accrueFee checked_oz shares_erc20 11 100 w0 = Inr w1 \<and>
     issue_components checked_oz shares_erc20 ledger_tokens 12 8 100 (10 ^ 20) 8 0 w1 = Inr w2 \<and> pr_sets w2 100 = Some s2 \<and>
     held ledger_tokens 100 (pr_tokens w1) 7 = 0 \<and> held ledger_tokens 100 (pr_tokens w2) 7 = 200 \<and>
     exact_unit s2 7 = 27 * 10 ^ 17 \<and> real_unit s2 7 = 2 \<and> total_supply shares_erc20 s2 = 100 * 10 ^ 18 \<and>
     backed shares_erc20 ledger_tokens 100 (pr_tokens w2) s2 7 \<and>
     accrueFee checked_oz shares_erc20 11 100 (w2\<lparr>pr_timestamp := pr_timestamp w2 + 2 * 31557600\<rparr>) = Inr w3 \<and> pr_sets w3 100 = Some s3 \<and>
     exact_unit s3 7 = 216 * 10 ^ 16 \<and> real_unit s3 7 = 2 \<and> total_supply shares_erc20 s3 = 125 * 10 ^ 18 \<and>
     total_supply shares_erc20 s3 * real_unit s3 7 = 250 * 10 ^ 18 \<and> held ledger_tokens 100 (pr_tokens w3) 7 = 200 \<and>
     \<not> backed shares_erc20 ledger_tokens 100 (pr_tokens w3) s3 7 \<and> life checked_oz shares_erc20 ledger_tokens 100 (10 ^ 20) 2 w3 \<and>
     redeem checked_oz shares_erc20 ledger_tokens 12 3 100 (25 * 10 ^ 18) 3 w3 = Inr w4 \<and>
     redeem checked_oz shares_erc20 ledger_tokens 12 8 100 (100 * 10 ^ 18) 8 w4 =
       Inl (Revert ''ERC20: transfer amount exceeds balance'')"
proof -
  obtain w0 w1 w2 w3 w4 where run: "life checked_oz shares_erc20 ledger_tokens 100 0 0 w0" "accrueFee checked_oz shares_erc20 11 100 w0 = Inr w1"
    "issue_components checked_oz shares_erc20 ledger_tokens 12 8 100 100000000000000000000 8 0 w1 = Inr w2"
    "accrueFee checked_oz shares_erc20 11 100 (w2\<lparr>pr_timestamp := 94672800\<rparr>) = Inr w3"
    "life checked_oz shares_erc20 ledger_tokens 100 (10 ^ 20) 2 w3"
    "redeem checked_oz shares_erc20 ledger_tokens 12 3 100 25000000000000000000 3 w3 = Inr w4"
    "redeem checked_oz shares_erc20 ledger_tokens 12 8 100 100000000000000000000 8 w4 =
      Inl (Revert ''ERC20: transfer amount exceeds balance'')"
    and states: "ex_state 31557600 31557600 900000000000000000 (ex_shares 0 0) (ex_ledger 200 0 0) w1"
    "ex_state 31557600 31557600 900000000000000000 (ex_shares 100000000000000000000 0) (ex_ledger 0 200 0) w2"
    "ex_state 94672800 94672800 720000000000000000 (ex_shares 100000000000000000000 25000000000000000000) (ex_ledger 0 200 0) w3"
    by (rule ex_run)
  note defs = total_supply_def held_def ledger_reads ex_shares_def ex_ledger_def shares_erc20_def
  obtain s2 where s2: "pr_sets w2 100 = Some s2" "exact_unit s2 7 = 27 * 10 ^ 17" "total_supply shares_erc20 s2 = 100 * 10 ^ 18"
    "pr_timestamp w2 = 31557600" using states(2) by (elim ex_stateE) (simp add: exact_unit_def defs)
  obtain s3 where s3: "pr_sets w3 100 = Some s3" "exact_unit s3 7 = 216 * 10 ^ 16" "total_supply shares_erc20 s3 = 125 * 10 ^ 18"
    using states(3) by (elim ex_stateE) (simp add: exact_unit_def defs)
  have held: "held ledger_tokens 100 (pr_tokens w1) 7 = 0" "held ledger_tokens 100 (pr_tokens w2) 7 = 200"
    "held ledger_tokens 100 (pr_tokens w3) 7 = 200" using states by (elim ex_stateE; simp add: defs)+
  have units: "real_unit s2 7 = 2" "real_unit s3 7 = 2" using s2(2) s3(2) by (simp_all add: real_unit_def exact_unit_def)
  have numbers: "(10 :: uint256) ^ 20 = 100000000000000000000" "(25 * 10 ^ 18 :: uint256) = 25000000000000000000"
    "(100 * 10 ^ 18 :: uint256) = 100000000000000000000" "pr_timestamp w2 + 2 * 31557600 = 94672800" using s2(4) by simp_all
  have "backed shares_erc20 ledger_tokens 100 (pr_tokens w2) s2 7" "\<not> backed shares_erc20 ledger_tokens 100 (pr_tokens w3) s3 7"
    "total_supply shares_erc20 s3 * real_unit s3 7 = 250 * 10 ^ 18"
    using held units s2(3) s3(3) by (simp_all add: backed_def)
  then show ?thesis unfolding numbers(1-3)
    using run(1-3) run(4) [folded numbers(4)] run(5-7) held units s2(1-3) s3(1-3) by blast
qed

end
