(* ===== verification/SetTokenCreator.thy ===== *)
theory SetTokenCreator
  imports Collateral
begin

text \<open>
  \<^verbatim>\<open>contracts/protocol/SetTokenCreator.sol\<close>: the factory that checks the parameters of a new SetToken, deploys it and
  registers it with the Controller. The address of the new contract and the state of its ERC-20 part, which the
  constructor of OpenZeppelin's \<^verbatim>\<open>ERC20\<close> makes, are arguments.
\<close>

subsection \<open>The creator\<close>

fun check_components :: "address list \<Rightarrow> int256 list \<Rightarrow> revert + unit" where
  "check_components [] units = Inr ()"
| "check_components (c # cs) [] = Inl InvalidOpcode"
| "check_components (c # cs) (u # units) =
     and_then (require (c \<noteq> 0) ''Component must not be null address'') (\<lambda>_.
     and_then (require (0 < sint u) ''Units must be greater than 0'') (\<lambda>_. check_components cs units))"

fun check_modules :: "controller \<Rightarrow> address list \<Rightarrow> revert + unit" where
  "check_modules c [] = Inr ()"
| "check_modules c (m # ms) = and_then (require (isModule c m) ''Must be enabled module'') (\<lambda>_. check_modules c ms)"

definition create ::
  "address \<Rightarrow> address \<Rightarrow> 'e \<Rightarrow> address list \<Rightarrow> int256 list \<Rightarrow> address list \<Rightarrow> address \<Rightarrow> string \<Rightarrow> string \<Rightarrow>
     ('e, 't) protocol \<Rightarrow> revert + address \<times> ('e, 't) protocol"
where
  "create this setToken token cs units ms manager name symbol w =
     and_then (require (0 < length cs) ''Must have at least 1 component'') (\<lambda>_.
     and_then (require (length cs = length units) ''Component and unit lengths must be the same'') (\<lambda>_.
     and_then (hasDuplicate cs) (\<lambda>duplicate.
     and_then (require (\<not> duplicate) ''Components must not have a duplicate'') (\<lambda>_.
     and_then (require (0 < length ms) ''Must have at least 1 module'') (\<lambda>_.
     and_then (require (manager \<noteq> 0) ''Manager must not be empty'') (\<lambda>_.
     and_then (check_components cs units) (\<lambda>_.
     and_then (check_modules (pr_controller w) ms) (\<lambda>_.
     and_then (construct_set_token cs units ms manager token) (\<lambda>s.
     let w = w\<lparr>pr_sets := (pr_sets w)(setToken \<mapsto> s)\<rparr>
     in and_then (addSet this setToken (pr_controller w)) (\<lambda>c.
       Inr (setToken, log_event (SetTokenCreated setToken manager name symbol) (w\<lparr>pr_controller := c\<rparr>))))))))))))"

subsection \<open>When it returns\<close>

lemma check_components_Inr:
  "length cs = length units \<Longrightarrow> check_components cs units = Inr () \<longleftrightarrow> 0 \<notin> set cs \<and> (\<forall>u \<in> set units. 0 < sint u)"
  by (induction cs units rule: check_components.induct) auto

lemma check_modules_Inr: "check_modules c ms = Inr () \<longleftrightarrow> (\<forall>m \<in> set ms. isModule c m)"
  by (induction ms) auto

lemma default_units_returns: "length cs = length units \<Longrightarrow> \<exists>ps'. default_units cs units ps = Inr ps'"
  by (induction cs units ps rule: default_units.induct) auto

lemma create_Inr:
  "create this setToken token cs units ms manager name symbol w = Inr (a, w') \<longleftrightarrow>
     cs \<noteq> [] \<and> length cs = length units \<and> distinct cs \<and> ms \<noteq> [] \<and> manager \<noteq> 0 \<and> 0 \<notin> set cs \<and> (\<forall>u \<in> set units. 0 < sint u) \<and>
     (\<forall>m \<in> set ms. isModule (pr_controller w) m) \<and> a = setToken \<and>
     (\<exists>s c. construct_set_token cs units ms manager token = Inr s \<and> addSet this setToken (pr_controller w) = Inr c \<and>
       w' = log_event (SetTokenCreated setToken manager name symbol) (w\<lparr>pr_sets := (pr_sets w)(setToken \<mapsto> s), pr_controller := c\<rparr>))"
  by (auto simp: create_def hasDuplicate_def check_components_Inr check_modules_Inr Let_def)

text \<open>C23: SetTokenCreator.create accepts exactly well-formed tokens: it returns if and only if there is at least one
  component, as many units, no component twice or null and every unit positive, at least one module, all of them
  enabled on the Controller, a manager, and the Controller accepts the new token from the creator.\<close>

theorem create_accepts:
  "(\<exists>r. create this setToken token cs units ms manager name symbol w = Inr r) \<longleftrightarrow>
     cs \<noteq> [] \<and> length cs = length units \<and> distinct cs \<and> 0 \<notin> set cs \<and> list_all (\<lambda>u. 0 < sint u) units \<and> ms \<noteq> [] \<and>
     list_all (isModule (pr_controller w)) ms \<and> manager \<noteq> 0 \<and> isInitialized (pr_controller w) \<and>
     isFactory (pr_controller w) this \<and> \<not> isSet (pr_controller w) setToken"
proof -
  have "\<exists>s. construct_set_token cs units ms manager token = Inr s" if "length cs = length units"
    using default_units_returns [OF that] by (auto simp: construct_set_token_def)
  then show ?thesis
    by (auto simp: create_Inr list_all_iff addSet_def onlyInitialized_def onlyFactory_def)
qed

text \<open>C22: A created SetToken is registered, in a state from which the theorems on SetTokens hold: every listed component
  has a positive default unit as given, its modules are pending and enabled, the other SetTokens are as before, and
  its life begins.\<close>

theorem created_token_begins_life:
  assumes "create this setToken token cs units ms manager name symbol w = Inr (a, w')" and "er_totalSupply E token = 0"
  shows "life Z E T setToken 0 0 w' \<and> a = setToken \<and> isSet (pr_controller w') setToken \<and>
    (\<exists>s. pr_sets w' setToken = Some s \<and> managed Z E s \<and> st_components s = cs \<and> st_manager s = manager \<and>
      map (defaultPositionVirtualUnit s) cs = units \<and> st_positionMultiplier s = PRECISE_UNIT_INT \<and>
      st_moduleStates s = (\<lambda>m. if m \<in> set ms then PENDING else NONE)) \<and>
    (pr_sets w')(setToken := None) = (pr_sets w)(setToken := None)"
proof -
  from assms(1) obtain s c where ok: "distinct cs" "length units = length cs" "\<forall>u \<in> set units. 0 < sint u" "a = setToken"
    and s: "construct_set_token cs units ms manager token = Inr s" and c: "addSet this setToken (pr_controller w) = Inr c"
    and w': "w' = log_event (SetTokenCreated setToken manager name symbol) (w\<lparr>pr_sets := (pr_sets w)(setToken \<mapsto> s), pr_controller := c\<rparr>)"
    by (auto simp: create_Inr)
  obtain ps where ps: "default_units cs units (\<lambda>_. no_position) = Inr ps" and fields: "st_componentPositions s = ps" "st_components s = cs"
    "st_manager s = manager" "st_positionMultiplier s = PRECISE_UNIT_INT" "st_moduleStates s = pending_modules ms (\<lambda>_. NONE)"
    using s by (auto simp: construct_set_token_def)
  have "defaultPositionVirtualUnit s (cs ! i) = units ! i" if "i < length cs" for i
    using default_units_at [OF ps ok(1), of "cs ! i"] that ok(1,2)
    by (simp add: position_defs fields map_of_zip_nth)
  then have units: "map (defaultPositionVirtualUnit s) cs = units" using ok(2) by (simp add: list_eq_iff_nth_eq)
  have set: "pr_sets w' setToken = Some s" by (simp add: w')
  have "isSet (pr_controller w') setToken" using c by (auto simp: w' addSet_def emit_def)
  moreover have "life Z E T setToken 0 0 w'" by (rule life_new [OF s ok(1-3) assms(2) set])
  moreover have "managed Z E s" by (rule managed_new [OF s ok(1-3)])
  moreover have "st_moduleStates s = (\<lambda>m. if m \<in> set ms then PENDING else NONE)" by (simp add: fields fun_eq_iff pending_modules_eq)
  moreover have "(pr_sets w')(setToken := None) = (pr_sets w)(setToken := None)" by (simp add: w')
  ultimately show ?thesis using set fields units ok(4) by blast
qed

definition creation_world :: "(shares, ledger) protocol" where
  "creation_world = \<lparr>pr_controller = (construct_controller 1 2)\<lparr>isInitialized := True, isFactory := (\<lambda>_. False)(20 := True),
       isModule := (\<lambda>_. False)(11 := True)\<rparr>,
     pr_sets = Map.empty, pr_tokens = (\<lambda>_ _. 0), pr_timestamp = 0, pr_feeStates = (\<lambda>_. no_feeState),
     pr_managerIssuanceHook = (\<lambda>_. 0), pr_registries = Map.empty, pr_oracles = Map.empty,
     pr_navIssuanceSettings = (\<lambda>_. no_navSettings), pr_isReserveAsset = (\<lambda>_ _. False),
     pr_issuanceSettings = (\<lambda>_ _. no_issuanceSettings), pr_airdropSettings = (\<lambda>_. no_airdropSettings), pr_isAirdrop = (\<lambda>_ _. False), pr_events = []\<rparr>"

theorem created_token_begins_life_witness:
  "\<exists>w' (s :: shares set_token). create 20 100 \<lparr>sh_balances = (\<lambda>_. 0), sh_supply = 0\<rparr> [7, 8] [2000000, 3] [11] 9 ''Index'' ''IDX'' creation_world = Inr (100, w') \<and>
     pr_sets w' 100 = Some s \<and> st_components s = [7, 8] \<and> map (defaultPositionVirtualUnit s) [7, 8] = [2000000, 3]"
proof -
  obtain w' where run: "create 20 100 \<lparr>sh_balances = (\<lambda>_. 0), sh_supply = 0\<rparr> [7, 8] [2000000, 3] [11] 9 ''Index'' ''IDX'' creation_world = Inr (100, w')"
    by (simp add: create_def hasDuplicate_def creation_world_def construct_set_token_def addSet_def onlyInitialized_def onlyFactory_def
        construct_controller_def Let_def del: and_then_eq_Inr)
  have "er_totalSupply shares_erc20 \<lparr>sh_balances = (\<lambda>_. 0), sh_supply = 0\<rparr> = 0" by (simp add: shares_erc20_def)
  from created_token_begins_life [OF run this, of checked_oz ledger_tokens]
  obtain s where "pr_sets w' 100 = Some s" "st_components s = [7, 8]" "map (defaultPositionVirtualUnit s) [7, 8] = [2000000, 3]"
    by (elim conjE exE)
  with run show ?thesis by (intro exI conjI)
qed

end
