(* ===== verification/NavActions.thy ===== *)
theory NavActions
  imports NavSolvency
begin

text \<open>
  What a user of the NAV module gets: an issuance mints what the view of the module (and the TypeScript prediction) says
  and never lowers the value per token of the others; a redemption pays what the view says and never more than
  the net asset value of the tokens that it burns. Both are runs of whole calls, hooks included.
\<close>

subsection \<open>The numbers of the module\<close>

lemma unit_of_decimals: "unat d \<le> 18 \<Longrightarrow> uint ((10 :: uint256) ^ unat (ucast d :: uint256)) = 10 ^ unat d" for d :: "8 word"
proof -
  assume d: "unat d \<le> 18"
  then have "unat d < 2 ^ 256" by (rule le_less_trans) simp
  then have "unat (ucast d :: uint256) = unat d" by (simp add: unsigned_ucast_eq take_bit_nat_eq_self)
  then show ?thesis by (simp only: uint_power_10 [OF d])
qed




subsection \<open>The states of a run\<close>

lemma default_edit_token: "editDefaultPosition Z enabled sender c u s = Inr s' \<Longrightarrow> st_token s' = st_token s"
  by (auto simp: editDefaultPosition_def addComponent_def removeComponent_def editDefaultPositionUnit_def emitted_def Let_def split: if_splits)

lemma issue_updates:
  assumes "handleIssueStateUpdates Z E this sender S r a info w = Inr w'" and "pr_sets w S = Some s"
  shows "pr_tokens w' = pr_tokens w \<and> (\<exists>s'. pr_sets w' S = Some s' \<and> er_mint E a (ai_setTokenQuantity info) (st_token s) = Inr (st_token s'))"
  using assms by (auto simp: handleIssueStateUpdates_def on_set_Inr mint_Inr editPositionMultiplier_def dest!: default_edit_token)


lemma issue_nav_Inr:
  assumes "issue_nav Z E T V issueHook this sender S r q least a w0 = Inr w'" and "callPreIssueHooks_nav issueHook S r q sender a w0 = Inr w"
    and "pr_sets w S = Some s"
  obtains info w1 where "pr_isReserveAsset w0 S r" "createIssuanceInfo Z E T V this S r q w = Inr info"
    "least \<le> ai_setTokenQuantity info" "ns_minSetTokenSupply (pr_navIssuanceSettings w S) \<le> er_totalSupply E (st_token s)"
    "transferCollateralAndHandleFees Z T this sender S r info w = Inr w1" "handleIssueStateUpdates Z E this sender S r a info w1 = Inr w'"
  using assms
  by (auto simp: issue_nav_def issue_at_nav_def validateCommon_def validateIssuanceInfo_def createIssuanceInfo_def the_set_Inr Let_def)

lemma transfers_keep_sets: "transferCollateralAndHandleFees Z T this sender S r info w = Inr w' \<Longrightarrow> pr_sets w' = pr_sets w"
  by (auto simp: transferCollateralAndHandleFees_def explicit_transferFrom_def Let_def split: if_splits)

lemma redeem_valid_if_info:
  assumes Z: "openzeppelin Z" and run: "createRedemptionInfo Z E T V this S r q w = Inr info"
    and "ns_minSetTokenSupply (pr_navIssuanceSettings w S) \<le> ai_newSetTokenSupply info" and "pr_isReserveAsset w S r" and "q \<noteq> 0"
  shows "isRedeemValid Z E T V this S r q w = Inr True"
proof -
  note oz = openzeppelin.um_add_Inr [OF Z] openzeppelin.um_sub_Inr [OF Z]
  let ?min = "ns_minSetTokenSupply (pr_navIssuanceSettings w S)"
  from run obtain s x u all flow rest p m where run: "pr_sets w S = Some s"
    "getRedeemReserveQuantity Z T V S r q w = Inr (ai_preFeeReserveQuantity info)"
    "getFees Z this S (ai_preFeeReserveQuantity info) 1 3 1 w = Inr (p, m, ai_netFlowQuantity info)"
    "um_sub Z (er_totalSupply E (st_token s)) q = Inr (ai_newSetTokenSupply info)"
    "getDefaultPositionRealUnit Z s r = Inr x" "toUint256 Z x = Inr u" "preciseMul_u Z u (er_totalSupply E (st_token s)) = Inr all"
    "um_add Z (ai_netFlowQuantity info) p = Inr flow" "um_add Z flow m = Inr rest" "rest \<le> all"
    by (auto simp: createRedemptionInfo_def getRedeemPositionMultiplier_sol_def getRedeemPositionUnit_def the_set_Inr Let_def)
  have sum: "uint ?min + uint q \<le> uint (er_totalSupply E (st_token s))" using run(4) assms(3) by (simp add: oz word_le_def)
  then have "uint ?min + uint q < 2 ^ 256" using uint_bounded [of "er_totalSupply E (st_token s)"] by simp
  then have fits: "fits_uint (uint ?min + uint q)" by (simp add: fits_uint_def)
  then obtain least where least: "um_add Z ?min q = Inr least" "uint least = uint ?min + uint q" using ex_uint [of "uint ?min + uint q"] by (auto simp: oz)
  have "uint flow = uint (ai_netFlowQuantity info) + uint p" "uint rest = uint flow + uint m" "uint rest \<le> uint all"
    using run(8-10) by (simp_all add: oz word_le_def)
  then have "uint (ai_netFlowQuantity info) \<le> uint all" using uint_ge_0 [of p] uint_ge_0 [of m] by linarith
  then have "ai_netFlowQuantity info \<le> all" by (simp add: word_le_def)
  moreover have "\<not> er_totalSupply E (st_token s) < least" using sum least(2) by (simp add: word_less_def)
  ultimately show ?thesis using run(1-3,5-7) least(1) assms(4,5) by (simp add: isRedeemValid_def the_set_def Let_def)
qed

lemma redeem_nav_Inr:
  assumes "redeem_nav Z E T V redeemHook this sender S r q least a w0 = Inr w'" and "callPreRedeemHooks_nav redeemHook S q sender a w0 = Inr w"
  obtains info w1 w2 w3 where "pr_isReserveAsset w0 S r" "createRedemptionInfo Z E T V this S r q w = Inr info"
    "ns_minSetTokenSupply (pr_navIssuanceSettings w S) \<le> ai_newSetTokenSupply info" "least \<le> ai_netFlowQuantity info"
    "on_set S (burn E (enabled_modules w) this sender q) w = Inr w1"
    "strictInvokeTransfer Z T this S r a (ai_netFlowQuantity info) w1 = Inr w2" "handleRedemptionFees Z T this S r info w2 = Inr w3"
    "handleRedeemStateUpdates Z this sender S r a info w3 = Inr w'"
  using assms by (auto simp: redeem_nav_def redeem_at_nav_def validateCommon_def validateRedemptionInfo_def)



text \<open>The fee percentages of the module, issue or redeem, as the arithmetic takes them.\<close>

definition module_fees :: "address \<Rightarrow> uint256 \<Rightarrow> uint256 \<Rightarrow> uint256 \<Rightarrow> ('e, 't) protocol \<Rightarrow> nav_fees" where
  "module_fees this managerIndex directIndex managerFee w =
     \<lparr>protocolDirectFeePercent = getModuleFee this directIndex (pr_controller w),
      protocolManagerShareFeePercent = getModuleFee this managerIndex (pr_controller w), managerFeePercent = managerFee\<rparr>"

lemma issuance_info:
  assumes "createIssuanceInfo Z E T V this S r q w = Inr info" and "pr_sets w S = Some s"
    and "V (getSetValuer_nav S w) S r w = Inr v" and "tk_decimals T r (pr_tokens w) = Inr d"
  shows "getFees_sol Z (module_fees this 0 2 (fst (ns_managerFees (pr_navIssuanceSettings w S))) w) q =
      Inr (ai_protocolFees info, ai_managerFee info, ai_netFlowQuantity info) \<and>
    getSetTokenMintQuantity_sol Z (ns_premiumPercentage (pr_navIssuanceSettings w S)) v (ucast d) (ai_netFlowQuantity info)
      (er_totalSupply E (st_token s)) = Inr (ai_setTokenQuantity info)"
  using assms
  by (auto simp: createIssuanceInfo_def the_set_Inr getFees_def managerFee_at_def getSetTokenMintQuantity_def getIssuePremium_def
      module_fees_def Let_def)


subsection \<open>An example\<close>

text \<open>A holder pays a hundred of the reserve asset for SetTokens that are worth a thousand each, or redeems a tenth of one.\<close>

abbreviation example_valuers :: "(shares, ledger) valuer_api" where
  "example_valuers \<equiv> system_valuers checked_oz ledger_tokens example_quotes 1"

lemma example_valuation: "example_valuers (getSetValuer_nav 100 valued_world) 100 40 valued_world = Inr 1000000000000000000000"
proof -
  have "ns_setValuer (pr_navIssuanceSettings valued_world 100) = 0" by (simp add: valued_world_def)
  then have "getSetValuer_nav 100 valued_world = 60" by (simp add: getSetValuer_nav_def getSetValuer_def valued_controller_def)
  then show ?thesis by (simp add: system_valuers_def valued_example)
qed



definition example_issuance :: ActionInfo where
  "example_issuance = \<lparr>ai_preFeeReserveQuantity = 100000000000000000000, ai_protocolFees = 0, ai_managerFee = 1000000000000000000,
     ai_netFlowQuantity = 99000000000000000000, ai_setTokenQuantity = 98500124243849929, ai_previousSetTokenSupply = 10000000000000000000,
     ai_newSetTokenSupply = 10098500124243849929, ai_newPositionMultiplier = 990246063966729379,
     ai_newReservePositionUnit = 98925581790276264980\<rparr>"

definition example_redemption :: ActionInfo where
  "example_redemption = \<lparr>ai_preFeeReserveQuantity = 99500000000000000000, ai_protocolFees = 0, ai_managerFee = 1990000000000000000,
     ai_netFlowQuantity = 97510000000000000000, ai_setTokenQuantity = 100000000000000000, ai_previousSetTokenSupply = 10000000000000000000,
     ai_newSetTokenSupply = 9900000000000000000, ai_newPositionMultiplier = 1010101010101010101,
     ai_newReservePositionUnit = 80858585858585858585\<rparr>"

lemma example_settings [simp]:
  "ns_managerFees (pr_navIssuanceSettings valued_world 100) = (10000000000000000, 20000000000000000)"
  "ns_premiumPercentage (pr_navIssuanceSettings valued_world 100) = 5000000000000000"
  "ns_minSetTokenSupply (pr_navIssuanceSettings valued_world 100) = 1000000000000000000"
  "ns_feeRecipient (pr_navIssuanceSettings valued_world 100) = 3"
  "ns_managerIssuanceHook (pr_navIssuanceSettings valued_world 100) = 0" "ns_managerRedemptionHook (pr_navIssuanceSettings valued_world 100) = 0"
  "getModuleFee m i valued_controller = 0" "pr_isReserveAsset valued_world 100 40"
  by (simp_all add: valued_world_def valued_controller_def getModuleFee_def construct_controller_def)

lemma example_unit: "getDefaultPositionRealUnit checked_oz valued_set 40 = Inr 90000000000000000000"
  by (simp add: getDefaultPositionRealUnit_def convertVirtualToRealUnit_def position_defs valued_set_def checked_oz.conservativePreciseMul_Inr fits_int_def)

lemma example_supply:
  "er_totalSupply shares_erc20 (st_token valued_set) = 10000000000000000000" "st_positionMultiplier valued_set = 1000000000000000000"
  by (simp_all add: shares_erc20_def valued_set_def)

lemma example_issuance:
  "createIssuanceInfo checked_oz shares_erc20 ledger_tokens example_valuers 70 100 40 100000000000000000000 valued_world = Inr example_issuance"
proof -

  have fees: "getFees checked_oz 70 100 100000000000000000000 0 2 0 valued_world = Inr (0, 1000000000000000000, 99000000000000000000)"
    by (simp add: getFees_def managerFee_at_def getFees_sol_def getProtocolAndManagerFeePercentages_sol_def checked_oz_eval sol_simps
      PRECISE_UNIT_u_def del: and_then_eq_Inr)
  have mint: "getSetTokenMintQuantity checked_oz ledger_tokens example_valuers 100 40 99000000000000000000 10000000000000000000 valued_world =
      Inr 98500124243849929"
    by (simp add: getSetTokenMintQuantity_def getIssuePremium_def example_valuation ledger_reads getSetTokenMintQuantity_sol_def
      checked_oz_eval sol_simps PRECISE_UNIT_u_def Let_def del: and_then_eq_Inr)
  have mult: "getIssuePositionMultiplier_sol checked_oz 1000000000000000000 98500124243849929 10000000000000000000 =
      Inr (10098500124243849929, 990246063966729379)"
    by (simp add: getIssuePositionMultiplier_sol_def checked_oz_eval sdiv_nonneg del: and_then_eq_Inr)
  have new: "getIssuePositionUnit checked_oz valued_set 40 10000000000000000000 99000000000000000000 10098500124243849929 = Inr 98925581790276264980"
    by (simp add: getIssuePositionUnit_def example_unit checked_oz_eval sol_simps PRECISE_UNIT_u_def del: and_then_eq_Inr)
  show ?thesis
    by (simp add: createIssuanceInfo_def the_set_def example_supply fees mint mult new example_issuance_def Let_def del: and_then_eq_Inr)
qed

lemma example_redemption:
  "createRedemptionInfo checked_oz shares_erc20 ledger_tokens example_valuers 70 100 40 100000000000000000 valued_world = Inr example_redemption"
proof -
  have fees: "getFees checked_oz 70 100 99500000000000000000 1 3 1 valued_world = Inr (0, 1990000000000000000, 97510000000000000000)"
    by (simp add: getFees_def managerFee_at_def getFees_sol_def getProtocolAndManagerFeePercentages_sol_def checked_oz_eval sol_simps
      PRECISE_UNIT_u_def del: and_then_eq_Inr)
  have out: "getRedeemReserveQuantity checked_oz ledger_tokens example_valuers 100 40 100000000000000000 valued_world = Inr 99500000000000000000"
    by (simp add: getRedeemReserveQuantity_def getRedeemPremium_def example_valuation ledger_reads getRedeemReserveQuantity_sol_def
      checked_oz_eval sol_simps preciseMulCeil_u_def PRECISE_UNIT_u_def Let_def del: and_then_eq_Inr)
  have mult: "getRedeemPositionMultiplier_sol checked_oz 1000000000000000000 100000000000000000 10000000000000000000 =
      Inr (9900000000000000000, 1010101010101010101)"
    by (simp add: getRedeemPositionMultiplier_sol_def MAX_POSITION_MULTIPLIER_def checked_oz_eval sdiv_nonneg del: and_then_eq_Inr)
  have new: "getRedeemPositionUnit checked_oz valued_set 40 10000000000000000000 97510000000000000000 0 1990000000000000000 9900000000000000000 =
      Inr 80858585858585858585"
    by (simp add: getRedeemPositionUnit_def example_unit checked_oz_eval sol_simps PRECISE_UNIT_u_def del: and_then_eq_Inr)
  show ?thesis
    by (simp add: createRedemptionInfo_def the_set_def example_supply fees out mult new example_redemption_def Let_def del: and_then_eq_Inr)
qed

text \<open>The multiplier and the reserve asset's unit are written, whatever the token and the balances are.\<close>

lemma example_multiplier:
  assumes "10 ^ 17 \<le> sint k" "sint k < 10 ^ 20"
  shows "\<exists>s'. editPositionMultiplier checked_oz (enabled_modules valued_world) 70 k (valued_set\<lparr>st_token := e, st_events := es\<rparr>) = Inr s' \<and>
     s' = valued_set\<lparr>st_token := e, st_events := PositionMultiplierEdited k # es, st_positionMultiplier := k\<rparr>"
proof -
  have "getPositionsAbsMinimumVirtualUnit checked_oz (valued_set\<lparr>st_token := e, st_events := es\<rparr>) = Inr 50000000000000000"
    by (simp add: getPositionsAbsMinimumVirtualUnit_def valued_set_def position_defs no_position_def smaller_unit_def absoluteValue_def
        checked_oz_eval word_less_def unsigned_minus_1_eq_mask mask_eq_exp_minus_1 del: and_then_eq_Inr)
  moreover obtain r where "conservativePreciseMul checked_oz 50000000000000000 k = Inr r" "0 < sint r"
    using assms ex_sint [of "50000000000000000 * sint k div 10 ^ 18"]
    by (auto simp: checked_oz.conservativePreciseMul_Inr fits_int_def)
  moreover have "privileged (enabled_modules valued_world) 70 (valued_set\<lparr>st_token := e, st_events := es\<rparr>) = Inr ()"
    by (simp add: privileged_Inr) (simp add: valued_set_def valued_controller_def)
  ultimately show ?thesis by (simp add: editPositionMultiplier_def validateNewMultiplier_def emitted_def)
qed

text \<open>The unit of the reserve asset, where it converts.\<close>

lemma example_default_edit:
  assumes k: "st_positionMultiplier s = k" "s = valued_set\<lparr>st_token := e, st_events := es, st_positionMultiplier := k\<rparr>"
    and old: "conservativePreciseMul checked_oz 90000000000000000000 k = Inr x" "0 < sint x"
    and u: "toInt256 checked_oz u = Inr y" "0 < sint y" "conservativePreciseDiv checked_oz y k = Inr v" "v \<noteq> 0"
      "conservativePreciseMul checked_oz v k = Inr z" "z \<noteq> 0"
  shows "\<exists>s'. editDefaultPosition checked_oz (enabled_modules valued_world) 70 40 u s = Inr s' \<and> st_token s' = st_token s \<and>
     st_moduleStates s' = st_moduleStates s \<and> st_isLocked s' = st_isLocked s"
proof -
  have pos: "u \<noteq> 0" using u(1,2) by (auto simp: checked_oz.toInt256_Inr)
  have "privileged (enabled_modules valued_world) 70 s = Inr ()"
    unfolding k(2) by (simp add: privileged_Inr) (simp add: valued_set_def valued_controller_def)
  moreover have "getDefaultPositionRealUnit checked_oz s 40 = Inr x"
    unfolding k(2) using old(1) by (simp add: getDefaultPositionRealUnit_def convertVirtualToRealUnit_def position_defs valued_set_def)
  ultimately show ?thesis using old(2) u pos k(1)
    by (simp add: editDefaultPosition_def hasDefaultPosition_def editDefaultPositionUnit_def convertRealToVirtualUnit_def
        convertVirtualToRealUnit_def with_position_def emitted_def)
qed

definition example_moved :: "uint256 \<Rightarrow> uint256 \<Rightarrow> uint256 \<Rightarrow> ledger" where
  "example_moved holder token recipient = valued_ledger(40 := (valued_ledger 40)(8 := holder, 100 := token, 3 := recipient))"

lemma example_positions:
  assumes k: "10 ^ 17 \<le> sint k" "sint k < 10 ^ 20"
    and numbers: "conservativePreciseMul checked_oz 90000000000000000000 k = Inr x" "0 < sint x"
      "toInt256 checked_oz u = Inr y" "0 < sint y" "conservativePreciseDiv checked_oz y k = Inr v" "v \<noteq> 0"
      "conservativePreciseMul checked_oz v k = Inr z" "z \<noteq> 0"
  obtains s1 s2 where
    "editPositionMultiplier checked_oz (isModule valued_controller) 70 k (valued_set\<lparr>st_token := e, st_events := es\<rparr>) = Inr s1"
    "editDefaultPosition checked_oz (isModule valued_controller) 70 40 u s1 = Inr s2" "st_token s2 = e"
    "privileged (isModule valued_controller) 70 s2 = Inr ()"
proof -
  obtain s1 where s1: "editPositionMultiplier checked_oz (isModule valued_controller) 70 k (valued_set\<lparr>st_token := e, st_events := es\<rparr>) = Inr s1"
    "s1 = valued_set\<lparr>st_token := e, st_events := PositionMultiplierEdited k # es, st_positionMultiplier := k\<rparr>"
    using example_multiplier [OF k] by auto
  have "st_positionMultiplier s1 = k" by (simp add: s1(2))
  then obtain s2 where "editDefaultPosition checked_oz (isModule valued_controller) 70 40 u s1 = Inr s2" "st_token s2 = e"
    "st_moduleStates s2 = st_moduleStates valued_set" "st_isLocked s2 = st_isLocked valued_set"
    using example_default_edit [OF _ s1(2) numbers] by (auto simp: s1(2))
  then show thesis using s1(1)
    by (intro that) (simp_all add: privileged_Inr, simp_all add: valued_set_def valued_controller_def)
qed

lemma example_move:
  "move 40 8 100 99000000000000000000 valued_ledger = Inr (example_moved 401000000000000000000 999000000000000000000 0)"
  "move 40 8 3 1000000000000000000 (example_moved 401000000000000000000 999000000000000000000 0) =
    Inr (example_moved 400000000000000000000 999000000000000000000 1000000000000000000)"
  "move 40 100 8 97510000000000000000 valued_ledger = Inr (example_moved 597510000000000000000 802490000000000000000 0)"
  "move 40 100 3 1990000000000000000 (example_moved 597510000000000000000 802490000000000000000 0) =
    Inr (example_moved 597510000000000000000 800500000000000000000 1990000000000000000)"
  by (simp_all add: move_def valued_ledger_def example_moved_def Let_def fun_eq_iff)

lemma example_pay:
  assumes "0 < q" "move 40 8 b q \<tau> = Inr \<tau>'" "um_add checked_oz (\<tau> 40 b) q = Inr (\<tau>' 40 b)"
  shows "explicit_transferFrom checked_oz ledger_tokens 70 40 8 b q (valued_world\<lparr>pr_tokens := \<tau>\<rparr>) = Inr (valued_world\<lparr>pr_tokens := \<tau>'\<rparr>)"
  using assms by (simp add: explicit_transferFrom_def ledger_tokens_def)

lemma example_collateral:
  "transferCollateralAndHandleFees checked_oz ledger_tokens 70 8 100 40 example_issuance valued_world =
    Inr (valued_world\<lparr>pr_tokens := example_moved 400000000000000000000 999000000000000000000 1000000000000000000\<rparr>)"
proof -
  have w: "valued_world = valued_world\<lparr>pr_tokens := valued_ledger\<rparr>" by (simp add: valued_world_def)
  have "explicit_transferFrom checked_oz ledger_tokens 70 40 8 100 99000000000000000000 valued_world =
      Inr (valued_world\<lparr>pr_tokens := example_moved 401000000000000000000 999000000000000000000 0\<rparr>)"
    by (subst w, rule example_pay [OF _ example_move(1)])
      (simp_all add: checked_oz.um_add_Inr valued_ledger_def example_moved_def)
  moreover have "explicit_transferFrom checked_oz ledger_tokens 70 40 8 3 1000000000000000000
      (valued_world\<lparr>pr_tokens := example_moved 401000000000000000000 999000000000000000000 0\<rparr>) =
      Inr (valued_world\<lparr>pr_tokens := example_moved 400000000000000000000 999000000000000000000 1000000000000000000\<rparr>)"
    by (rule example_pay [OF _ example_move(2)]) (simp_all add: checked_oz.um_add_Inr example_moved_def)
  ultimately show ?thesis by (simp add: transferCollateralAndHandleFees_def example_issuance_def)
qed

lemma example_issue_run:
  "\<exists>w'. issue_nav checked_oz shares_erc20 ledger_tokens example_valuers issueHook 70 8 100 40 100000000000000000000 98000000000000000 8
     valued_world = Inr w'"
proof -
  have k: "(10 :: int) ^ 17 \<le> sint (990246063966729379 :: int256)" "sint (990246063966729379 :: int256) < 10 ^ 20" by simp_all
  have numbers: "conservativePreciseMul checked_oz 90000000000000000000 990246063966729379 = Inr 89122145757005644110"
    "toInt256 checked_oz 98925581790276264980 = Inr 98925581790276264980"
    "conservativePreciseDiv checked_oz 98925581790276264980 990246063966729379 = Inr 99900000000000000018"
    "conservativePreciseMul checked_oz 99900000000000000018 990246063966729379 = Inr 98925581790276264979"
    by (simp_all add: checked_oz.conservativePreciseMul_Inr checked_oz.conservativePreciseDiv_Inr checked_oz.toInt256_Inr fits_int_def)
  obtain s1 s2 where edits:
    "editPositionMultiplier checked_oz (isModule valued_controller) 70 990246063966729379
      (valued_set\<lparr>st_token := st_token valued_set, st_events := st_events valued_set\<rparr>) = Inr s1"
    "editDefaultPosition checked_oz (isModule valued_controller) 70 40 98925581790276264980 s1 = Inr s2" "st_token s2 = st_token valued_set"
    "privileged (isModule valued_controller) 70 s2 = Inr ()"
    by (rule example_positions [where e = "st_token valued_set" and es = "st_events valued_set",
        OF k numbers(1) _ numbers(2) _ numbers(3) _ numbers(4)]) simp_all
  obtain e where "er_mint shares_erc20 8 98500124243849929 (st_token valued_set) = Inr e"
    by (simp add: shares_erc20_def valued_set_def checked_u_def)
  then have "mint shares_erc20 (isModule valued_controller) 70 8 98500124243849929 s2 = Inr (s2\<lparr>st_token := e\<rparr>)"
    using edits(3,4) by (simp add: mint_def)
  then have "\<exists>w'. issue_at_nav checked_oz shares_erc20 ledger_tokens example_valuers 70 8 100 40 100000000000000000000 98000000000000000 8
      valued_world = Inr w'"
    using edits(1,2) by (simp add: issue_at_nav_def example_issuance validateIssuanceInfo_def example_collateral handleIssueStateUpdates_def
        on_set_def the_set_def) (simp add: example_issuance_def)
  then show ?thesis
    by (simp add: issue_nav_def validateCommon_def callPreIssueHooks_nav_def validate_Inr)
      (simp add: valued_controller_def valued_set_def)
qed

lemma example_out:
  assumes "pr_sets w 100 = Some (valued_set\<lparr>st_token := e, st_events := es\<rparr>)" "pr_tokens w = \<tau>" "pr_controller w = valued_controller"
    and "0 < q" "move 40 100 b q \<tau> = Inr \<tau>'" "um_sub checked_oz (\<tau> 40 100) q = Inr (\<tau>' 40 100)"
  shows "\<exists>es'. strictInvokeTransfer checked_oz ledger_tokens 70 100 40 b q w =
    Inr (w\<lparr>pr_tokens := \<tau>', pr_sets := (pr_sets w)(100 \<mapsto> valued_set\<lparr>st_token := e, st_events := es'\<rparr>)\<rparr>)"
proof -
  let ?s = "valued_set\<lparr>st_token := e, st_events := es\<rparr>"
  have "privileged (isModule (pr_controller w)) 70 ?s = Inr ()"
    by (simp add: privileged_Inr assms(3)) (simp add: valued_set_def valued_controller_def)
  then have "invoke_token ledger_tokens 70 100 40 0 (tk_encodeTransfer ledger_tokens b q) w =
      Inr ([1], w\<lparr>pr_tokens := \<tau>', pr_sets := (pr_sets w)(100 \<mapsto> emitted (Invoked 40 0 (tk_encodeTransfer ledger_tokens b q) [1]) ?s)\<rparr>)"
    using assms(1,2,5) by (simp add: invoke_token_def the_set_def ledger_transfer)
  then show ?thesis using assms(2,4,6)
    by (simp add: strictInvokeTransfer_def invokeTransfer_def ledger_reads emitted_def Let_def) blast
qed

lemma example_redeem_run:
  "\<exists>w'. redeem_nav checked_oz shares_erc20 ledger_tokens example_valuers redeemHook 70 8 100 40 100000000000000000 97000000000000000000 8
     valued_world = Inr w'"
proof -
  obtain e where e: "er_burn shares_erc20 8 100000000000000000 (st_token valued_set) = Inr e"
    by (simp add: shares_erc20_def valued_set_def checked_u_def)
  have k: "(10 :: int) ^ 17 \<le> sint (1010101010101010101 :: int256)" "sint (1010101010101010101 :: int256) < 10 ^ 20" by simp_all
  have numbers: "conservativePreciseMul checked_oz 90000000000000000000 1010101010101010101 = Inr 90909090909090909090"
    "toInt256 checked_oz 80858585858585858585 = Inr 80858585858585858585"
    "conservativePreciseDiv checked_oz 80858585858585858585 1010101010101010101 = Inr 80049999999999999999"
    "conservativePreciseMul checked_oz 80049999999999999999 1010101010101010101 = Inr 80858585858585858584"
    by (simp_all add: checked_oz.conservativePreciseMul_Inr checked_oz.conservativePreciseDiv_Inr checked_oz.toInt256_Inr fits_int_def)
  let ?set = "\<lambda>es. valued_set\<lparr>st_token := e, st_events := es\<rparr>"
  let ?w1 = "valued_world\<lparr>pr_sets := (pr_sets valued_world)(100 \<mapsto> ?set (st_events valued_set))\<rparr>"
  have burnt: "on_set 100 (burn shares_erc20 (enabled_modules valued_world) 70 8 100000000000000000) valued_world = Inr ?w1"
    using e by (simp add: on_set_def the_set_def burn_def privileged_Inr) (simp add: valued_set_def valued_controller_def)
  obtain es2 where "strictInvokeTransfer checked_oz ledger_tokens 70 100 40 8 97510000000000000000 ?w1 =
      Inr (?w1\<lparr>pr_tokens := example_moved 597510000000000000000 802490000000000000000 0, pr_sets := (pr_sets ?w1)(100 \<mapsto> ?set es2)\<rparr>)"
    (is "_ = Inr ?w2")
    using example_out [where w = ?w1 and e = e and es = "st_events valued_set", OF _ _ _ _ example_move(3)]
    by (auto simp: checked_oz.um_sub_Inr valued_ledger_def example_moved_def)
  moreover obtain es3 where "strictInvokeTransfer checked_oz ledger_tokens 70 100 40 3 1990000000000000000 ?w2 =
      Inr (?w2\<lparr>pr_tokens := example_moved 597510000000000000000 800500000000000000000 1990000000000000000,
        pr_sets := (pr_sets ?w2)(100 \<mapsto> ?set es3)\<rparr>)" (is "_ = Inr ?w3")
    using example_out [where w = ?w2 and e = e and es = es2, OF _ _ _ _ example_move(4)] by (auto simp: checked_oz.um_sub_Inr example_moved_def)
  then have "handleRedemptionFees checked_oz ledger_tokens 70 100 40 example_redemption ?w2 = Inr ?w3"
    by (simp add: handleRedemptionFees_def payProtocolFeeFromSetToken_def example_redemption_def)
  moreover obtain s1 s2 where
    "editPositionMultiplier checked_oz (isModule valued_controller) 70 1010101010101010101 (?set es3) = Inr s1"
    "editDefaultPosition checked_oz (isModule valued_controller) 70 40 80858585858585858585 s1 = Inr s2"
    by (rule example_positions [where e = e and es = es3, OF k numbers(1) _ numbers(2) _ numbers(3) _ numbers(4)]) simp_all
  then have "\<exists>w'. handleRedeemStateUpdates checked_oz 70 8 100 40 8 example_redemption ?w3 = Inr w'"
    by (simp add: handleRedeemStateUpdates_def on_set_def the_set_def example_redemption_def)
  ultimately obtain w' where "redeem_at_nav checked_oz shares_erc20 ledger_tokens example_valuers 70 8 100 40 100000000000000000
      97000000000000000000 8 valued_world = Inr w'"
    using burnt by (auto simp: redeem_at_nav_def example_redemption validateRedemptionInfo_def example_redemption_def)
  then show ?thesis
    by (simp add: redeem_nav_def validateCommon_def callPreRedeemHooks_nav_def validate_Inr)
      (simp add: valued_controller_def valued_set_def)
qed

text \<open>A redemption of more than the reserve asset of the SetToken covers once the fees are counted.\<close>

lemma example_excess:
  "getRedeemReserveQuantity checked_oz ledger_tokens example_valuers 100 40 910000000000000000 valued_world = Inr 905450000000000000000"
  "getFees checked_oz 70 100 905450000000000000000 1 3 1 valued_world = Inr (0, 18109000000000000000, 887341000000000000000)"
  by (simp_all add: getRedeemReserveQuantity_def getRedeemPremium_def example_valuation ledger_reads getRedeemReserveQuantity_sol_def
      getFees_def managerFee_at_def getFees_sol_def getProtocolAndManagerFeePercentages_sol_def
      checked_oz_eval sol_simps preciseMulCeil_u_def PRECISE_UNIT_u_def Let_def del: and_then_eq_Inr)

lemma example_valid_reverts:
  "isRedeemValid checked_oz shares_erc20 ledger_tokens example_valuers 70 100 40 910000000000000000 valued_world = Inr True"
  "redeem_nav checked_oz shares_erc20 ledger_tokens example_valuers (\<lambda>_ _ _ _ _. Inr) 70 8 100 40 910000000000000000 0 8 valued_world =
      Inl (Revert ''Must be greater than total available collateral'')"
proof -
  show "isRedeemValid checked_oz shares_erc20 ledger_tokens example_valuers 70 100 40 910000000000000000 valued_world = Inr True"
    by (simp add: isRedeemValid_def the_set_def example_supply example_excess example_unit checked_oz_eval sol_simps PRECISE_UNIT_u_def
        Let_def del: and_then_eq_Inr)
  have mult: "getRedeemPositionMultiplier_sol checked_oz 1000000000000000000 910000000000000000 10000000000000000000 =
      Inr (9090000000000000000, 1100110011001100110)"
    by (simp add: getRedeemPositionMultiplier_sol_def MAX_POSITION_MULTIPLIER_def checked_oz_eval sdiv_nonneg del: and_then_eq_Inr)
  have "createRedemptionInfo checked_oz shares_erc20 ledger_tokens example_valuers 70 100 40 910000000000000000 valued_world =
      Inl (Revert ''Must be greater than total available collateral'')"
    by (simp add: createRedemptionInfo_def the_set_def example_supply example_excess mult getRedeemPositionUnit_def example_unit
        checked_oz_eval sol_simps PRECISE_UNIT_u_def Let_def del: and_then_eq_Inr)
  moreover have "validateOnlyValidAndInitializedSet 70 100 valued_world = Inr ()"
    by (simp add: validate_Inr) (simp add: valued_controller_def valued_set_def)
  ultimately show "redeem_nav checked_oz shares_erc20 ledger_tokens example_valuers (\<lambda>_ _ _ _ _. Inr) 70 8 100 40 910000000000000000 0 8 valued_world =
      Inl (Revert ''Must be greater than total available collateral'')"
    by (simp add: redeem_nav_def validateCommon_def callPreRedeemHooks_nav_def redeem_at_nav_def)
qed

subsection \<open>Properties\<close>





text \<open>C6: The prediction and the transaction. When \<open>issue\<close> returns, the TypeScript function
  \<^verbatim>\<open>getExpectedSetTokenIssueQuantity\<close>, given the valuation and the supply that the contracts answer, the fee percentages
  of the module and the base unit of the reserve asset, has predicted exactly the quantity that is minted.\<close>

theorem nav_issue_predicted:
  assumes "bignumber B" and "openzeppelin Z"
    and "issue_nav Z E T V issueHook this sender S r q least a w0 = Inr w'"
    and "callPreIssueHooks_nav issueHook S r q sender a w0 = Inr w" and "pr_sets w S = Some s"
    and "V (getSetValuer_nav S w) S r w = Inr v" and "tk_decimals T r (pr_tokens w) = Inr d" and "unat d \<le> 18"
    and "getProtocolAndManagerFeePercentages_sol Z (module_fees this 0 2 (fst (ns_managerFees (pr_navIssuanceSettings w S))) w) = Inr (p, m)"
    and "valuationOf setToken reserveAsset = Some (bn_from B (uint v))"
    and "supplyOf setToken = Some (bn_from B (uint (er_totalSupply E (st_token s))))"
  shows "\<exists>c s'. getExpectedSetTokenIssueQuantity B valuationOf supplyOf setToken reserveAsset (bn_from B (10 ^ unat d)) (bn_from B (uint q))
      (bn_from B (uint m)) (bn_from B (uint p)) (bn_from B (uint (ns_premiumPercentage (pr_navIssuanceSettings w S)))) =
        Some (bn_from B (uint c)) \<and>
    pr_sets w' S = Some s' \<and> er_mint E a c (st_token s) = Inr (st_token s')"
proof -
  obtain info w1 where run: "createIssuanceInfo Z E T V this S r q w = Inr info"
    "transferCollateralAndHandleFees Z T this sender S r info w = Inr w1" "handleIssueStateUpdates Z E this sender S r a info w1 = Inr w'"
    by (rule issue_nav_Inr [OF assms(3-5)])
  note info = issuance_info [OF run(1) assms(5-7)]
  have "pr_sets w1 S = Some s" using transfers_keep_sets [OF run(2)] assms(5) by simp
  from issue_updates [OF run(3) this]
  obtain s' where s': "pr_sets w' S = Some s'" "er_mint E a (ai_setTokenQuantity info) (st_token s) = Inr (st_token s')" by blast
  have "getExpectedSetTokenIssueQuantity_sol Z (module_fees this 0 2 (fst (ns_managerFees (pr_navIssuanceSettings w S))) w)
      (ns_premiumPercentage (pr_navIssuanceSettings w S)) v (ucast d) (er_totalSupply E (st_token s)) q = Inr (ai_setTokenQuantity info)"
    using info by (simp add: getExpectedSetTokenIssueQuantity_sol_def)
  from cross_chain.sim_issue [where calculateSetTokenValuation = valuationOf and totalSupply = supplyOf and setToken = setToken and
      reserveAsset = reserveAsset, OF cross_chain.intro [OF assms(1,2)] assms(9) this assms(10,11)]
  show ?thesis using s' by (auto simp: unit_of_decimals [OF assms(8)])
qed

lemma example_fees: "getProtocolAndManagerFeePercentages_sol checked_oz (module_fees 70 0 2 10000000000000000 valued_world) = Inr (0, 10000000000000000)"
  by (simp add: getProtocolAndManagerFeePercentages_sol_def module_fees_def checked_oz_eval sol_simps PRECISE_UNIT_u_def del: and_then_eq_Inr)

theorem nav_issue_predicted_witness:
  "\<exists>(w' :: (shares, ledger) protocol) c s'. getExpectedSetTokenIssueQuantity int_bn (\<lambda>_ _. Some (10 ^ 21)) (\<lambda>_. Some (10 ^ 19)) ''0x64'' ''0x28''
      (10 ^ 18) (10 ^ 20) (10 ^ 16) 0 (5 * 10 ^ 15) = Some (uint c) \<and>
     pr_sets w' 100 = Some s' \<and> er_mint shares_erc20 8 c (st_token valued_set) = Inr (st_token s')"
proof -
  obtain w' where run: "issue_nav checked_oz shares_erc20 ledger_tokens example_valuers (\<lambda>_ _ _ _ _ _. Inr) 70 8 100 40 100000000000000000000
      98000000000000000 8 valued_world = Inr w'" using example_issue_run by blast
  have hook: "callPreIssueHooks_nav (\<lambda>_ _ _ _ _ _. Inr) 100 40 100000000000000000000 8 8 valued_world = Inr valued_world"
    by (simp add: callPreIssueHooks_nav_def)
  have "\<exists>c s'. getExpectedSetTokenIssueQuantity int_bn (\<lambda>_ _. Some (10 ^ 21)) (\<lambda>_. Some (10 ^ 19)) ''0x64'' ''0x28''
      (10 ^ 18) (10 ^ 20) (10 ^ 16) 0 (5 * 10 ^ 15) = Some (uint c) \<and>
     pr_sets w' 100 = Some s' \<and> er_mint shares_erc20 8 c (st_token valued_set) = Inr (st_token s')"
    using nav_issue_predicted [OF int_bn.bignumber_axioms checked_oz.openzeppelin_axioms run hook valued_fields(1) example_valuation ledger_reads(3),
        of 0 10000000000000000 "\<lambda>_ _. Some (10 ^ 21)" "''0x64''" "''0x28''" "\<lambda>_. Some (10 ^ 19)"]
    by (simp add: example_fees example_supply)
  then show ?thesis by blast
qed

text \<open>C18: \<open>isRedeemValid\<close> is necessary for a redemption without a hook, and not sufficient. Whenever \<open>redeem\<close> returns, it was
  true; but it compares only what the redeemer receives with the reserve asset that the SetToken tracks, while \<open>redeem\<close>
  also takes the fees out of it, so it answers true for a redemption that reverts.\<close>

theorem redeem_valid_one_way:
  assumes "openzeppelin Z" and "redeem_nav Z E T V redeemHook this sender S r q least a w = Inr w'"
    and "ns_managerRedemptionHook (pr_navIssuanceSettings w S) = 0"
  shows "isRedeemValid Z E T V this S r q w = Inr True \<and>
    isRedeemValid checked_oz shares_erc20 ledger_tokens example_valuers 70 100 40 910000000000000000 valued_world = Inr True \<and>
    redeem_nav checked_oz shares_erc20 ledger_tokens example_valuers (\<lambda>_ _ _ _ _. Inr) 70 8 100 40 910000000000000000 0 8 valued_world =
      Inl (Revert ''Must be greater than total available collateral'')"
proof -
  have "callPreRedeemHooks_nav redeemHook S q sender a w = Inr w" by (simp add: callPreRedeemHooks_nav_def assms(3))
  then obtain info where run: "pr_isReserveAsset w S r" "createRedemptionInfo Z E T V this S r q w = Inr info"
    "ns_minSetTokenSupply (pr_navIssuanceSettings w S) \<le> ai_newSetTokenSupply info" by (rule redeem_nav_Inr [OF assms(2)])
  have "q \<noteq> 0" using assms(2) by (auto simp: redeem_nav_def validateCommon_def)
  then have "isRedeemValid Z E T V this S r q w = Inr True" by (rule redeem_valid_if_info [OF assms(1) run(2,3,1)])
  then show ?thesis using example_valid_reverts by blast
qed

theorem redeem_valid_one_way_witness:
  "isRedeemValid checked_oz shares_erc20 ledger_tokens example_valuers 70 100 40 100000000000000000 valued_world = Inr True"
proof -
  obtain w' where "redeem_nav checked_oz shares_erc20 ledger_tokens example_valuers (\<lambda>_ _ _ _ _. Inr) 70 8 100 40 100000000000000000
      97000000000000000000 8 valued_world = Inr w'" using example_redeem_run by blast
  from redeem_valid_one_way [OF checked_oz.openzeppelin_axioms this] show ?thesis by simp
qed

end
