(* ===== verification/SlippageIssuanceModule.thy ===== *)
theory SlippageIssuanceModule
  imports DebtIssuanceModule
begin

text \<open>
  \<^verbatim>\<open>contracts/protocol/modules/v1/SlippageIssuanceModule.sol\<close>: the DebtIssuanceModule with limits on what an issuer pays and
  what a redeemer gets of a component, for SetTokens whose positions the hooks of the registered modules trade into place. Its
  functions \<^verbatim>\<open>issue\<close> and \<^verbatim>\<open>redeem\<close> always revert. \<open>this\<close> is the module, \<open>S\<close> the SetToken.
\<close>

subsection \<open>Validation\<close>

definition issue_slippage :: "address \<Rightarrow> address \<Rightarrow> uint256 \<Rightarrow> address \<Rightarrow> ('e, 't) protocol \<Rightarrow> revert + ('e, 't) protocol" where
  "issue_slippage sender S quantity a w = Inl (Revert ''Call issueWithSlippage instead'')"

definition redeem_slippage :: "address \<Rightarrow> address \<Rightarrow> uint256 \<Rightarrow> address \<Rightarrow> ('e, 't) protocol \<Rightarrow> revert + ('e, 't) protocol" where
  "redeem_slippage sender S quantity a w = Inl (Revert ''Call redeemWithSlippage instead'')"

definition validateInputs :: "uint256 \<Rightarrow> address list \<Rightarrow> uint256 list \<Rightarrow> revert + unit" where
  "validateInputs setQuantity components componentLimits =
     and_then (require (0 < setQuantity) ''SetToken quantity must be > 0'') (\<lambda>_.
     and_then (require (length components = length componentLimits) ''Array length mismatch'') (\<lambda>_.
       if 0 < length components
       then and_then (hasDuplicate components) (\<lambda>duplicate. require (\<not> duplicate) ''Cannot duplicate addresses'')
       else Inr ()))"

fun validateTokenTransferLimits ::
  "address list \<Rightarrow> uint256 list \<Rightarrow> address list \<Rightarrow> uint256 list \<Rightarrow> bool \<Rightarrow> revert + unit"
where
  "validateTokenTransferLimits [] limits components amounts isIssue = Inr ()"
| "validateTokenTransferLimits (c # cs) limits components amounts isIssue =
     (let (componentIndex, isIn) = indexOf components c
      in and_then (require isIn ''Limit passed for invalid component'') (\<lambda>_.
         case limits of
           [] \<Rightarrow> Inl InvalidOpcode
         | limit # limits \<Rightarrow>
             and_then (if unat componentIndex < length amounts then Inr (amounts ! unat componentIndex) else Inl InvalidOpcode) (\<lambda>amount.
             and_then (if isIssue then require (amount \<le> limit) ''Too many tokens required for issuance''
               else require (limit \<le> amount) ''Too few tokens returned for redemption'') (\<lambda>_.
               validateTokenTransferLimits cs limits components amounts isIssue))))"

subsection \<open>Issuance and redemption\<close>

text \<open>The fees are calculated before the hooks of the registered modules are called, and these are told the quantity with fees.\<close>

definition issueWithSlippage ::
  "oz_api \<Rightarrow> 'e erc20_api \<Rightarrow> 't token_api \<Rightarrow> ('e, 't) issuance_hooks \<Rightarrow> address \<Rightarrow> address \<Rightarrow> address \<Rightarrow> uint256 \<Rightarrow>
     address list \<Rightarrow> uint256 list \<Rightarrow> address \<Rightarrow> ('e, 't) protocol \<Rightarrow> revert + ('e, 't) protocol"
where
  "issueWithSlippage Z E T H this sender S setQuantity checkedComponents maxTokenAmountsIn a w =
     and_then (validateOnlyValidAndInitializedSet this S w) (\<lambda>_.
     and_then (validateInputs setQuantity checkedComponents maxTokenAmountsIn) (\<lambda>_.
     and_then (callManagerPreIssueHooks H this S setQuantity sender a w) (\<lambda>(hookContract, w).
     and_then (calculateTotalFees Z this S setQuantity True w) (\<lambda>(quantityWithFees, managerFee, protocolFee).
     and_then (callModulePreIssueHooks H this S quantityWithFees w) (\<lambda>w.
     and_then (the_set S w) (\<lambda>s.
     and_then (calculateRequiredComponentIssuanceUnits Z s quantityWithFees True) (\<lambda>(components, equityUnits, debtUnits).
     and_then (validateTokenTransferLimits checkedComponents maxTokenAmountsIn components equityUnits True) (\<lambda>_.
     and_then (resolveEquityPositions Z T H this sender S quantityWithFees a True components equityUnits w) (\<lambda>w.
     and_then (resolveDebtPositions Z T H this sender S quantityWithFees True components debtUnits w) (\<lambda>w.
     and_then (resolveFees E this S managerFee protocolFee w) (\<lambda>w.
     and_then (on_set S (mint E (enabled_modules w) this a setQuantity) w) (\<lambda>w.
       Inr (log_event (SetTokenIssuedWithFees S sender a hookContract setQuantity managerFee protocolFee) w)))))))))))))"

definition redeemWithSlippage ::
  "oz_api \<Rightarrow> 'e erc20_api \<Rightarrow> 't token_api \<Rightarrow> ('e, 't) issuance_hooks \<Rightarrow> address \<Rightarrow> address \<Rightarrow> address \<Rightarrow> uint256 \<Rightarrow>
     address list \<Rightarrow> uint256 list \<Rightarrow> address \<Rightarrow> ('e, 't) protocol \<Rightarrow> revert + ('e, 't) protocol"
where
  "redeemWithSlippage Z E T H this sender S setQuantity checkedComponents minTokenAmountsOut a w =
     and_then (validateOnlyValidAndInitializedSet this S w) (\<lambda>_.
     and_then (validateInputs setQuantity checkedComponents minTokenAmountsOut) (\<lambda>_.
     and_then (calculateTotalFees Z this S setQuantity False w) (\<lambda>(quantityNetFees, managerFee, protocolFee).
     and_then (callModulePreRedeemHooks H this S quantityNetFees w) (\<lambda>w.
     and_then (on_set S (burn E (enabled_modules w) this sender setQuantity) w) (\<lambda>w.
     and_then (the_set S w) (\<lambda>s.
     and_then (calculateRequiredComponentIssuanceUnits Z s quantityNetFees False) (\<lambda>(components, equityUnits, debtUnits).
     and_then (validateTokenTransferLimits checkedComponents minTokenAmountsOut components equityUnits False) (\<lambda>_.
     and_then (resolveDebtPositions Z T H this sender S quantityNetFees False components debtUnits w) (\<lambda>w.
     and_then (resolveEquityPositions Z T H this sender S quantityNetFees a False components equityUnits w) (\<lambda>w.
     and_then (resolveFees E this S managerFee protocolFee w) (\<lambda>w.
       Inr (log_event (SetTokenRedeemedWithFees S sender a setQuantity managerFee protocolFee) w))))))))))))"

subsection \<open>Required units with the adjustments of the registered modules\<close>

text \<open>What \<^verbatim>\<open>IModuleIssuanceHookV2\<close> adds to the hooks: the changes of the position units, equity and debt, that a module will
  make; the call may write.\<close>

record ('e, 't) adjustment_hooks =
  ah_getIssuanceAdjustments :: "address \<Rightarrow> address \<Rightarrow> uint256 \<Rightarrow> ('e, 't) protocol \<Rightarrow> revert + (int256 list \<times> int256 list) \<times> ('e, 't) protocol"
  ah_getRedemptionAdjustments :: "address \<Rightarrow> address \<Rightarrow> uint256 \<Rightarrow> ('e, 't) protocol \<Rightarrow> revert + (int256 list \<times> int256 list) \<times> ('e, 't) protocol"

fun add_adjustments ::
  "oz_api \<Rightarrow> int256 list \<Rightarrow> int256 list \<Rightarrow> int256 list \<Rightarrow> int256 list \<Rightarrow> revert + int256 list \<times> int256 list"
where
  "add_adjustments Z (ce # ces) (cd # cds) (e # es) (d # ds) =
     and_then (im_add Z ce e) (\<lambda>ce.
     and_then (im_add Z cd d) (\<lambda>cd.
     and_then (add_adjustments Z ces cds es ds) (\<lambda>(ces, cds). Inr (ce # ces, cd # cds))))"
| "add_adjustments Z (ce # ces) cds (e # es) [] = and_then (im_add Z ce e) (\<lambda>_. Inl InvalidOpcode)"
| "add_adjustments Z (ce # ces) cds es ds = Inl InvalidOpcode"
| "add_adjustments Z [] cds es ds = Inr ([], [])"

fun sum_adjustments ::
  "oz_api \<Rightarrow> (address \<Rightarrow> ('e, 't) protocol \<Rightarrow> revert + (int256 list \<times> int256 list) \<times> ('e, 't) protocol) \<Rightarrow> address list \<Rightarrow>
     int256 list \<Rightarrow> int256 list \<Rightarrow> ('e, 't) protocol \<Rightarrow> revert + (int256 list \<times> int256 list) \<times> ('e, 't) protocol"
where
  "sum_adjustments Z ask [] ces cds w = Inr ((ces, cds), w)"
| "sum_adjustments Z ask (m # ms) ces cds w =
     and_then (ask m w) (\<lambda>((es, ds), w).
     and_then (add_adjustments Z ces cds es ds) (\<lambda>(ces, cds). sum_adjustments Z ask ms ces cds w))"

definition calculateAdjustments ::
  "oz_api \<Rightarrow> ('e, 't) adjustment_hooks \<Rightarrow> address \<Rightarrow> address \<Rightarrow> uint256 \<Rightarrow> bool \<Rightarrow> ('e, 't) protocol \<Rightarrow>
     revert + (int256 list \<times> int256 list) \<times> ('e, 't) protocol"
where
  "calculateAdjustments Z J this S quantity isIssue w =
     and_then (the_set S w) (\<lambda>s.
     let n = length (st_components s)
     in sum_adjustments Z
          (\<lambda>m. if isIssue then ah_getIssuanceAdjustments J m S quantity else ah_getRedemptionAdjustments J m S quantity)
          (is_moduleIssuanceHooks (pr_issuanceSettings w this S)) (replicate n 0) (replicate n 0) w)"

fun adjusted_totals ::
  "oz_api \<Rightarrow> uint256 \<Rightarrow> bool \<Rightarrow> uint256 list \<Rightarrow> uint256 list \<Rightarrow> int256 list \<Rightarrow> int256 list \<Rightarrow> revert + uint256 list \<times> uint256 list"
where
  "adjusted_totals Z quantity isIssue (e # es) (d # ds) (ea # eas) das =
     and_then (toInt256 Z e) (\<lambda>e. and_then (im_add Z e ea) (\<lambda>e. and_then (toUint256 Z e) (\<lambda>e.
     and_then (if isIssue then preciseMulCeil_u Z e quantity else preciseMul_u Z e quantity) (\<lambda>te.
     and_then (toInt256 Z d) (\<lambda>d.
       case das of
         [] \<Rightarrow> Inl InvalidOpcode
       | da # das \<Rightarrow>
           and_then (im_sub Z d da) (\<lambda>d. and_then (toUint256 Z d) (\<lambda>d.
           and_then (if isIssue then preciseMul_u Z d quantity else preciseMulCeil_u Z d quantity) (\<lambda>td.
           and_then (adjusted_totals Z quantity isIssue es ds eas das) (\<lambda>(totalEquityUnits, totalDebtUnits).
             Inr (te # totalEquityUnits, td # totalDebtUnits))))))))))"
| "adjusted_totals Z quantity isIssue (e # es) ds [] das = and_then (toInt256 Z e) (\<lambda>_. Inl InvalidOpcode)"
| "adjusted_totals Z quantity isIssue (e # es) [] eas das = Inl InvalidOpcode"
| "adjusted_totals Z quantity isIssue [] ds eas das = Inr ([], [])"

definition calculateAdjustedComponentIssuanceUnits ::
  "oz_api \<Rightarrow> 'e set_token \<Rightarrow> uint256 \<Rightarrow> bool \<Rightarrow> int256 list \<Rightarrow> int256 list \<Rightarrow> revert + address list \<times> uint256 list \<times> uint256 list"
where
  "calculateAdjustedComponentIssuanceUnits Z s quantity isIssue equityAdjustments debtAdjustments =
     and_then (getTotalIssuanceUnits Z s) (\<lambda>(components, equityUnits, debtUnits).
     and_then (adjusted_totals Z quantity isIssue equityUnits debtUnits equityAdjustments debtAdjustments) (\<lambda>(totalEquityUnits, totalDebtUnits).
       Inr (components, totalEquityUnits, totalDebtUnits)))"

definition getRequiredComponentUnitsOffChain ::
  "oz_api \<Rightarrow> ('e, 't) adjustment_hooks \<Rightarrow> address \<Rightarrow> address \<Rightarrow> uint256 \<Rightarrow> bool \<Rightarrow> ('e, 't) protocol \<Rightarrow>
     revert + (address list \<times> uint256 list \<times> uint256 list) \<times> ('e, 't) protocol"
where
  "getRequiredComponentUnitsOffChain Z J this S quantity isIssue w =
     and_then (calculateTotalFees Z this S quantity isIssue w) (\<lambda>(totalQuantity, _, _).
     and_then (calculateAdjustments Z J this S totalQuantity isIssue w) (\<lambda>((equityAdjustments, debtAdjustments), w).
     and_then (the_set S w) (\<lambda>s.
     and_then (calculateAdjustedComponentIssuanceUnits Z s totalQuantity isIssue equityAdjustments debtAdjustments) (\<lambda>units. Inr (units, w)))))"

definition getRequiredComponentIssuanceUnitsOffChain ::
  "oz_api \<Rightarrow> ('e, 't) adjustment_hooks \<Rightarrow> address \<Rightarrow> address \<Rightarrow> uint256 \<Rightarrow> ('e, 't) protocol \<Rightarrow>
     revert + (address list \<times> uint256 list \<times> uint256 list) \<times> ('e, 't) protocol"
where
  "getRequiredComponentIssuanceUnitsOffChain Z J this S quantity w = getRequiredComponentUnitsOffChain Z J this S quantity True w"

definition getRequiredComponentRedemptionUnitsOffChain ::
  "oz_api \<Rightarrow> ('e, 't) adjustment_hooks \<Rightarrow> address \<Rightarrow> address \<Rightarrow> uint256 \<Rightarrow> ('e, 't) protocol \<Rightarrow>
     revert + (address list \<times> uint256 list \<times> uint256 list) \<times> ('e, 't) protocol"
where
  "getRequiredComponentRedemptionUnitsOffChain Z J this S quantity w = getRequiredComponentUnitsOffChain Z J this S quantity False w"

subsection \<open>Limits\<close>

text \<open>Every checked component is one of the SetToken, and the amount of it respects its limit.\<close>

lemma limits_respected:
  assumes "validateTokenTransferLimits checked limits components amounts isIssue = Inr ()" and "length components < 2 ^ 256"
  shows "length checked \<le> length limits \<and> (\<forall>i < length checked. \<exists>j < length components. components ! j = checked ! i \<and>
    (if isIssue then amounts ! j \<le> limits ! i else limits ! i \<le> amounts ! j))"
  using assms(1)
proof (induction checked arbitrary: limits)
  case (Cons c cs)
  have "c \<in> set components"
    using Cons.prems indexOf_loop_notin [of c components 0] by (cases "c \<in> set components") (auto simp: indexOf_def)
  then obtain j where j: "j < length components" "indexOf components c = (of_nat j, True)" "components ! j = c"
    using indexOf_loop_in [of c components 0] by (auto simp: indexOf_def)
  have "unat (of_nat j :: uint256) = j" using j(1) assms(2) by (simp add: unat_of_nat)
  with Cons.prems j(2) obtain l ls where l: "limits = l # ls" "if isIssue then amounts ! j \<le> l else l \<le> amounts ! j"
    "validateTokenTransferLimits cs ls components amounts isIssue = Inr ()"
    by (auto split: list.splits if_splits)
  have IH: "length cs \<le> length ls" "\<forall>i < length cs. \<exists>j < length components. components ! j = cs ! i \<and>
      (if isIssue then amounts ! j \<le> ls ! i else ls ! i \<le> amounts ! j)" using Cons.IH [OF l(3)] by simp_all
  have "\<exists>j < length components. components ! j = (c # cs) ! i \<and>
      (if isIssue then amounts ! j \<le> limits ! i else limits ! i \<le> amounts ! j)" if i: "i < Suc (length cs)" for i
  proof (cases i)
    case 0
    then show ?thesis using j(1,3) l(1,2) by auto
  next
    case (Suc i')
    then obtain j' where "j' < length components" "components ! j' = cs ! i'"
      "if isIssue then amounts ! j' \<le> ls ! i' else ls ! i' \<le> amounts ! j'"
      using IH(2) i by auto
    then show ?thesis by (intro exI [of _ j']) (simp add: Suc l(1))
  qed
  then show ?case using IH(1) by (simp add: l(1))
qed simp

text \<open>When an issuance with limits returns, the equity that it took in was within them. \<open>w\<close> is the state after the hooks.\<close>

lemma issue_within_limits:
  assumes "issueWithSlippage Z E T H this sender S q checked limits a w0 = Inr w'"
  obtains hook w1 w s Q managerFee protocolFee components equityUnits debtUnits where
    "callManagerPreIssueHooks H this S q sender a w0 = Inr (hook, w1)" "calculateTotalFees Z this S q True w1 = Inr (Q, managerFee, protocolFee)"
    "callModulePreIssueHooks H this S Q w1 = Inr w" "pr_sets w S = Some s"
    "calculateRequiredComponentIssuanceUnits Z s Q True = Inr (components, equityUnits, debtUnits)"
    "distinct checked" "length checked = length limits"
    "length components < 2 ^ 256 \<Longrightarrow> \<forall>i < length checked. \<exists>j < length components. components ! j = checked ! i \<and> equityUnits ! j \<le> limits ! i"
proof -
  from assms obtain hook w1 w s Q mf pf cs es ds where run:
    "callManagerPreIssueHooks H this S q sender a w0 = Inr (hook, w1)" "calculateTotalFees Z this S q True w1 = Inr (Q, mf, pf)"
    "callModulePreIssueHooks H this S Q w1 = Inr w" "pr_sets w S = Some s"
    "calculateRequiredComponentIssuanceUnits Z s Q True = Inr (cs, es, ds)"
    "validateInputs q checked limits = Inr ()" "validateTokenTransferLimits checked limits cs es True = Inr ()"
    by (auto simp: issueWithSlippage_def the_set_Inr)
  have "distinct checked" "length checked = length limits"
    using run(6) by (auto simp: validateInputs_def hasDuplicate_eq split: if_splits)
  then show thesis using limits_respected [OF run(7)] by (intro that [OF run(1-5)]) simp_all
qed

text \<open>Without limits, and without registered modules, these are the functions of the DebtIssuanceModule. With registered modules they
  are not: the hooks are told the quantity with fees here, and the quantity without them there.\<close>

lemma issue_without_limits:
  assumes "\<And>hook w1. callManagerPreIssueHooks H this S q sender a w = Inr (hook, w1) \<Longrightarrow>
    is_moduleIssuanceHooks (pr_issuanceSettings w1 this S) = []"
  shows "issueWithSlippage Z E T H this sender S q [] [] a w = Inr w' \<longleftrightarrow> issue_debt Z E T H this sender S q a w = Inr w'"
proof (cases "callManagerPreIssueHooks H this S q sender a w")
  case (Inr r)
  then obtain hook w1 where r: "callManagerPreIssueHooks H this S q sender a w = Inr (hook, w1)" by (cases r) simp
  have none: "callModulePreIssueHooks H this S n w1 = Inr w1" for n using assms [OF r] by (simp add: callModulePreIssueHooks_def)
  show ?thesis
    by (simp add: issueWithSlippage_def issue_debt_def issue_with_fees_def validateInputs_def r none split: sum.splits prod.splits)
next
  case (Inl e)
  then show ?thesis by (simp add: issueWithSlippage_def issue_debt_def validateInputs_def)
qed

lemma redeem_without_limits:
  assumes "is_moduleIssuanceHooks (pr_issuanceSettings w this S) = []"
  shows "redeemWithSlippage Z E T H this sender S q [] [] a w = Inr w' \<longleftrightarrow> redeem_debt Z E T H this sender S q a w = Inr w'"
proof -
  have none: "callModulePreRedeemHooks H this S n w = Inr w" for n using assms by (simp add: callModulePreRedeemHooks_def)
  have fees: "calculateTotalFees Z this S q False w1 = calculateTotalFees Z this S q False w"
    if burnt: "on_set S (burn E (enabled_modules w) this sender q) w = Inr w1" for w1
  proof -
    obtain s' where "w1 = w\<lparr>pr_sets := (pr_sets w)(S \<mapsto> s')\<rparr>" using burnt by (auto simp: on_set_Inr)
    then have "pr_controller w1 = pr_controller w" "pr_issuanceSettings w1 = pr_issuanceSettings w" by simp_all
    then show ?thesis by (simp only: calculateTotalFees_def)
  qed
  show ?thesis
    by (auto simp: redeemWithSlippage_def redeem_debt_def redeem_with_fees_def validateInputs_def none fees)
qed

end
