(* ===== verification/Spec2Isabelle.thy ===== *)
theory Spec2Isabelle
  imports FeeModuleUtils NavIssuanceModuleUtils UniswapUtils PerpV2Utils SystemFixture SwapFixtures LendingFixtures PerpV2Fixture HardhatConfig SetTokenCreator NavActions ModuleSolvency SlippageIssuanceModule
begin

text \<open>
  \<^bold>\<open>Index Protocol: a model of its TypeScript layer and of the contracts it predicts and drives\<close>

  The repository is a protocol of Solidity contracts (\<^verbatim>\<open>contracts/\<close>) around SetTokens, tokens that are
  fully backed by positions in other tokens, and a TypeScript layer (\<^verbatim>\<open>utils/\<close>, \<^verbatim>\<open>tasks/\<close>,
  \<^verbatim>\<open>hardhat.config.ts\<close>) that deploys systems of contracts, predicts to the last unit what they compute,
  and runs them in a sandbox. This development models the TypeScript layer function by function, and of
  the contracts those that it states predictions about or brings into a state.

  \<^bold>\<open>The parts and their theories\<close>

  \<^item> Shared. \<open>Prelude\<close> (Solidity calls as a sum type, thrown errors as options, JavaScript's string order,
    spellings of numbers, divisions), \<open>BigNum\<close> (the BigNumber of ethers as the record \<open>bn_api\<close> with
    its documentation as the locale \<open>bignumber\<close>; \<^verbatim>\<open>constants.ts\<close>, \<^verbatim>\<open>unitsUtils.ts\<close>), \<open>OpenZeppelin\<close>
    (\<^verbatim>\<open>SafeMath\<close> and \<^verbatim>\<open>SignedSafeMath\<close>, locale \<open>openzeppelin\<close>).
  \<^item> Predictions and what they predict. \<open>PreciseUnitMath\<close> (\<^verbatim>\<open>PreciseUnitMath.sol\<close> on 256-bit words) and
    \<open>MathUtils\<close> (\<^verbatim>\<open>mathUtils.ts\<close>); \<open>FeeModuleUtils\<close> (\<^verbatim>\<open>feeModuleUtils.ts\<close> and the fee calculations of
    \<^verbatim>\<open>StreamingFeeModule.sol\<close>, whose operations are in the theory \<open>StreamingFeeModule\<close>); \<open>NavIssuanceModuleUtils\<close> (\<^verbatim>\<open>navIssuanceModuleUtils.ts\<close> and the calculations of
    \<^verbatim>\<open>CustomOracleNAVIssuanceModule.sol\<close>); \<open>UniswapUtils\<close>, \<open>PerpV2Utils\<close>, \<open>ProtocolUtils\<close> (the files of
    \<^verbatim>\<open>utils/common/\<close> with these names, adapters and libraries in the last).
  \<^item> Contracts with a state. \<open>AddressArrayUtils\<close> and \<open>Controller\<close> (\<^verbatim>\<open>Controller.sol\<close>: its storage is the
    record \<open>controller\<close>, its external functions the calls \<open>controller_call\<close>, its histories
    \<open>controller_history\<close>); \<open>Timelock\<close> (\<^verbatim>\<open>CompoundTimelock.sol\<close>, with the calls its targets make back
    while a transaction runs, as the inductive relation \<open>performs\<close>; the hash is an argument, and what needs it assumes that it
    has no collisions).
  \<^item> Registries that the Controller points to. \<open>GuardedTable\<close> (the contract that both registries have: an owner adds,
    edits and removes entries of a table, locale \<open>guarded_table\<close>), \<open>IntegrationRegistry\<close>
    (\<^verbatim>\<open>IntegrationRegistry.sol\<close>), \<open>PriceOracle\<close> (\<^verbatim>\<open>PriceOracle.sol\<close>).
  \<^item> The Set and its modules. \<open>SetToken\<close> (\<^verbatim>\<open>SetToken.sol\<close>: the record \<open>set_token\<close>, one definition per
    function with its modifiers, histories as the inductive relation \<open>performs_set\<close>); \<open>PositionLib\<close> (\<^verbatim>\<open>Position.sol\<close>,
    the library by which modules edit positions); \<open>ModuleBase\<close> (\<^verbatim>\<open>ModuleBase.sol\<close>, \<^verbatim>\<open>Invoke.sol\<close>,
    \<^verbatim>\<open>ResourceIdentifier.sol\<close>, \<^verbatim>\<open>ExplicitERC20.sol\<close>: the record \<open>protocol\<close> joins the Controller, the registries, the Sets and the tokens);
    \<open>SetValuer\<close> (\<^verbatim>\<open>SetValuer.sol\<close>); \<open>StreamingFeeModule\<close>, \<open>BasicIssuanceModule\<close> and \<open>NavIssuanceModule\<close> (all external
    functions of the three modules, the last \<^verbatim>\<open>CustomOracleNAVIssuanceModule.sol\<close>); \<open>AirdropModule\<close> (\<^verbatim>\<open>AirdropModule.sol\<close>);
    \<open>DebtIssuanceModule\<close> (\<^verbatim>\<open>DebtIssuanceModule.sol\<close>) and \<open>DebtIssuanceModuleV2\<close> (\<^verbatim>\<open>DebtIssuanceModuleV2.sol\<close>,
    \<^verbatim>\<open>DebtIssuanceModuleV3.sol\<close>, \<^verbatim>\<open>IssuanceModule.sol\<close>, \<^verbatim>\<open>IssuanceValidationUtils.sol\<close>; the virtual \<^verbatim>\<open>_resolveEquityPositions\<close> is an
    argument of type \<open>equity_resolver\<close>, its two versions \<open>resolveEquityPositions_V2\<close> and \<open>resolveEquityPositions_V3\<close>);
    \<open>SlippageIssuanceModule\<close> (\<^verbatim>\<open>SlippageIssuanceModule.sol\<close>: the limits of issuer and redeemer hold when it returns);
    \<open>SetTokenCreator\<close> (\<^verbatim>\<open>SetTokenCreator.sol\<close>). \<open>ModuleHistory\<close> is what the modules share: the inductive relation
    \<open>module_history\<close> of a module on a Set, and the locale \<open>module_storage\<close>, by which an invariant of a module's settings
    holds in every history; the NAV, the airdrop and the debt issuance modules interpret it.
  \<^item> What they do together. \<open>Solvency\<close>, \<open>ModuleSolvency\<close> and \<open>NavSolvency\<close> say what a Set owes and holds and that each action keeps
    it; \<open>Collateral\<close> composes them: the inductive relation \<open>life\<close> is the history of a Set that is issued, redeemed,
    at its units or at net asset value, charged with fees, sent deposits and airdrops. \<open>NavActions\<close> shows what the users of
    the NAV module get, \<open>IssuanceCollateral\<close> what the checks of the later debt issuance modules are worth.
  \<^item> Deployments. \<open>Chain\<close> is what a script sees of the chain: the record \<open>world\<close> says which address a
    deployment gets, which transactions are accepted and what the views answer, as functions of the
    history; the locale \<open>chain\<close> what is documented of that. On it \<open>Dependencies\<close> (\<^verbatim>\<open>dependencies.ts\<close>),
    \<open>DeployCore\<close>, \<open>DeployModules\<close>, \<open>DeployMocks\<close>, \<open>DeployExternal\<close> (the nine classes of \<^verbatim>\<open>utils/deploys/\<close>).
  \<^item> Fixtures (\<^verbatim>\<open>utils/fixtures/\<close>). \<open>SystemFixture\<close>, \<open>SwapFixtures\<close> (Uniswap, Kyber, Balancer, Curve,
    Yearn), \<open>LendingFixtures\<close> (Compound, Aave), \<open>UniswapV3Fixture\<close>, \<open>PerpV2Fixture\<close>. Every class has a record of
    its fields; \<open>initialize\<close> and the other methods map a history to the new fields and history.
  \<^item> Test environment. \<open>Sandbox\<close> (\<^verbatim>\<open>blockchainUtils.ts\<close>, \<^verbatim>\<open>testingUtils.ts\<close> and the order in which Mocha runs
    hooks), \<open>HardhatTasks\<close> (\<^verbatim>\<open>tasks/subtasks.ts\<close>, \<^verbatim>\<open>utils/tasks/\<close>), \<open>HardhatConfig\<close> (\<^verbatim>\<open>hardhat.config.ts\<close>,
    \<^verbatim>\<open>wallets.ts\<close>, \<^verbatim>\<open>accountUtils.ts\<close>).

  \<^bold>\<open>How the code is read\<close>

  A method that may throw, or whose promise may be rejected, has type \<open>'a option\<close>; nothing in \<^verbatim>\<open>utils/\<close>
  catches. A transaction sent without \<^verbatim>\<open>await\<close> is \<open>launch\<close>, which does not fail. A Solidity function has
  type \<open>revert + 'a\<close>. Machine integers are words, so overflow is there; BigNumbers are unbounded. JavaScript's
  \<^verbatim>\<open><\<close>, \<^verbatim>\<open>>\<close> and \<^verbatim>\<open>==\<close> on objects are what they are, comparisons of spellings and of references
  (\<open>UniswapUtils\<close>), and \<^verbatim>\<open>^\<close> is an exclusive or (\<open>observation_cardinality\<close>).

  \<^bold>\<open>Parameters\<close>

  Code that is not in the repository is an argument: BigNumber (\<open>bignumber\<close>), OpenZeppelin
  (\<open>openzeppelin\<close>), the chain and ethers (\<open>chain\<close>), the development node (\<open>evm_node\<close>), jsbi and the Uniswap SDK
  (\<open>jsbi\<close>, \<open>v3_sdk\<close>), the ERC20 tokens a Set holds (\<open>token_contracts\<close>, \<open>honest_tokens\<close>, and \<open>paying_tokens\<close> where a property
  is about who is paid) and the ERC20 that the SetToken inherits
  (\<open>share_token\<close>), wrapped ether (\<open>wrapped_ether\<close>), the price oracles and oracle adapters (\<open>oracle_api\<close>), the valuer and the
  hook contracts that a manager chooses, floating-point numbers (\<open>float_api\<close>), keccak256, ABI encoding, random addresses,
  Hardhat and typechain. Each locale states documented behaviour only and is interpreted by a concrete
  provider in the theory that declares it: integers, checked words, a chain that numbers its contracts upwards
  (\<open>answering\<close>) or downwards (\<open>descending\<close>), a node with a list of snapshots, ledgers of balances (\<open>ledger\<close>,
  \<open>shares\<close>), the integer square root. Tokens do not call back into the protocol while they transfer. The
  witnesses of the properties run the model on these providers.

  \<^bold>\<open>What the theorems show\<close>

  \<^item> Equivalence: where the contracts return, the TypeScript predictions are the same numbers: fixed-point
    arithmetic, streaming fees, NAV issue and redeem; where they differ, by how much (multipliers, reserve assets
    of six decimals, zero divisors).
  \<^item> Conservation and bounds: the inflation is the exact share, fees never leave a position
    uncollateralized, a rebalance never sells more than it has, notional and position units, spot prices.
  \<^item> State: the Controller's lists, mappings and ids agree in every history, unless \<open>initialize\<close> was given a list with
    duplicates, and only the owner and the factories change them; every transaction of the timelock waited its delay and can be executed in
    its window; the fixtures bring the modelled contracts into the state that they mean to (\<open>system_fixture_controller\<close>
    replays the deployment on the model of the Controller).
  \<^item> The Set: whatever its modules and its manager do, the components have no duplicates and are exactly those
    with a position, the multiplier stays positive and the modules' list agrees with their states; a module's edit
    keeps a default position covered by the balance it tracks; every real unit survives a change of the multiplier or
    the change is rejected.
  \<^item> Backing: as long as its multiplier is not changed every unit of a Set is covered by what the Set holds, over all
    issues, redemptions, deposits and absorbed airdrops; fees can break that, and so can issues and redemptions at net asset value, but by no
    more than a base unit per token ever issued, however often (\<open>Collateral\<close>). An issue through the second or third debt
    issuance module ends with every component covered that has no external positions, whatever its contract did
    (\<open>IssuanceCollateral\<close>), and an absorbed airdrop pays its fees out of the airdrop (\<open>ModuleSolvency\<close>). What \<^verbatim>\<open>feeModuleUtils.ts\<close> predicts for the positions after a fee is what the contracts
    then answer, and a Set that the creator makes begins with the state the other theorems start from.
  \<^item> Prices and value: every price has a source, in the order that the PriceOracle promises, and a round trip gains
    nothing; the SetValuer is exact up to one base unit per component; an issue at net asset value mints what the view answers and never lowers the
    value per token, a redemption never pays more than it and pays the redeemer what the view answers, and \<^verbatim>\<open>navIssuanceModuleUtils.ts\<close>
    predicts what the transaction mints; the settings of the module stay in order.
  \<^item> Isolation: tests below \<open>cacheBeforeEach\<close> do not see each other; a deployment does not touch contracts that were
    there before (\<open>confined\<close>).
  \<^item> Termination: \<open>sqrt\<close> of \<^verbatim>\<open>uniswapUtils.ts\<close> returns on every input, although it compares numbers as
    strings; \<open>_token0Fixture\<close> returns exactly when a suitable address turns up. The loops are \<open>sqrt_loop\<close> and
    \<open>token0_loop\<close>, declared with \<open>partial_function (option)\<close>: not returning is \<open>None\<close>. The other loops are recursive
    on their list or have a measure; no model uses fuel.

  \<^bold>\<open>Not modelled\<close>

  The modules that trade, wrap and borrow, with their adapters: what they do to a Set is editing positions and
  invoking tokens, which is modelled in \<open>PositionLib\<close> and \<open>ModuleBase\<close>; the rest is what an external protocol answers.
  The viewers, which only collect answers, and the integrations; the guard \<^verbatim>\<open>nonReentrant\<close>; the
  ether that a transaction of the timelock moves. The re-exports of \<^verbatim>\<open>utils/contracts/\<close> and of the index files have no behaviour. Readings that only
  forward to the provider (balances, block timestamps of a transaction, event subscriptions) and type
  declarations nothing reads are left out. The scripts under \<^verbatim>\<open>subgraph/\<close> and the tests use what is modelled.
\<close>

end
